(* ===== verification/Major_Prelude.thy ===== *)
theory Major_Prelude
  imports Complex_Main
begin

text \<open>
  Shared vocabulary of the development: results of fallible TypeScript functions
  (\<open>Inl\<close> the thrown error, \<open>Inr\<close> the returned value), the string operations of the
  JavaScript library the sources use, and tables of rows (lists in insertion order) with
  the lookup and update lemmas every service proof needs.
\<close>

named_theorems table_simps "rewrite rules for rows, lookups and updates of a table"
named_theorems result_simps "rewrite rules for the result type of fallible operations"

section \<open>Results of operations that may throw\<close>

type_synonym ('e, 'a) result = "'e + 'a"

definition rbind :: "('e, 'a) result \<Rightarrow> ('a \<Rightarrow> ('e, 'b) result) \<Rightarrow> ('e, 'b) result" where
  "rbind m f = (case m of Inl e \<Rightarrow> Inl e | Inr x \<Rightarrow> f x)"

definition ensure :: "bool \<Rightarrow> 'e \<Rightarrow> ('e, unit) result" where
  "ensure b e = (if b then Inr () else Inl e)"

definition succeeds :: "('e, 'a) result \<Rightarrow> bool" where
  "succeeds m = (case m of Inl _ \<Rightarrow> False | Inr _ \<Rightarrow> True)"

lemma rbind_Inl [simp, result_simps]: "rbind (Inl e) f = Inl e"
  by (simp add: rbind_def)

lemma rbind_Inr [simp, result_simps]: "rbind (Inr x) f = f x"
  by (simp add: rbind_def)

lemma rbind_eq_Inr [result_simps]:
  "rbind m f = Inr y \<longleftrightarrow> (\<exists>x. m = Inr x \<and> f x = Inr y)"
  by (cases m) auto

lemma rbind_eq_Inl [result_simps]:
  "rbind m f = Inl e \<longleftrightarrow> m = Inl e \<or> (\<exists>x. m = Inr x \<and> f x = Inl e)"
  by (cases m) auto

lemma rbind_InrE [elim]:
  assumes "rbind m f = Inr y"
  obtains x where "m = Inr x" "f x = Inr y"
  using assms by (auto simp: rbind_eq_Inr)

lemma ensure_eq_Inr [simp, result_simps]: "ensure b e = Inr u \<longleftrightarrow> b"
  by (cases u) (simp add: ensure_def)

lemma ensure_eq_Inl [simp, result_simps]: "ensure b e = Inl e' \<longleftrightarrow> \<not> b \<and> e' = e"
  by (auto simp: ensure_def)

lemma ensure_True [simp]: "ensure True e = Inr ()"
  by (simp add: ensure_def)

lemma succeeds_iff [result_simps]: "succeeds m \<longleftrightarrow> (\<exists>x. m = Inr x)"
  by (cases m) (auto simp: succeeds_def)

section \<open>JavaScript strings\<close>

text \<open>
  Strings are lists of characters with code points below 256. \<open>js_space\<close> holds of the
  characters of that range which \<^verbatim>\<open>String.prototype.trim\<close> removes.
\<close>

definition js_space :: "char \<Rightarrow> bool" where
  "js_space c = (let n = (of_char c :: nat) in (9 \<le> n \<and> n \<le> 13) \<or> n = 32 \<or> n = 160)"

definition js_trim :: "string \<Rightarrow> string" where
  "js_trim s = rev (dropWhile js_space (rev (dropWhile js_space s)))"

definition js_blank :: "string \<Rightarrow> bool" where
  "js_blank s = (js_trim s = [])"

lemma js_blank_iff: "js_blank s \<longleftrightarrow> (\<forall>c \<in> set s. js_space c)"
proof -
  have "js_blank s \<longleftrightarrow> (\<forall>c \<in> set (dropWhile js_space s). js_space c)"
    by (simp add: js_blank_def js_trim_def)
  also have "\<dots> \<longleftrightarrow> (\<forall>c \<in> set s. js_space c)"
    by (induction s) auto
  finally show ?thesis .
qed

lemma js_trim_Nil [simp]: "js_trim [] = []"
  by (simp add: js_trim_def)

lemma js_blank_Nil [simp]: "js_blank []"
  by (simp add: js_blank_def)

lemma dropWhile_hd: "dropWhile P xs = y # ys \<Longrightarrow> \<not> P y"
  by (metis dropWhile_eq_Cons_conv)

lemma js_trim_not_blank: "js_trim s \<noteq> [] \<Longrightarrow> \<not> js_blank (js_trim s)"
proof -
  assume ne: "js_trim s \<noteq> []"
  then obtain c cs where cs: "dropWhile js_space (rev (dropWhile js_space s)) = c # cs"
    by (cases "dropWhile js_space (rev (dropWhile js_space s))") (auto simp: js_trim_def)
  then have "\<not> js_space c" by (rule dropWhile_hd)
  moreover have "c \<in> set (js_trim s)" using cs by (simp add: js_trim_def)
  ultimately show ?thesis by (auto simp: js_blank_iff)
qed

definition lower_hex :: "char \<Rightarrow> bool" where
  "lower_hex c = (let n = (of_char c :: nat) in (48 \<le> n \<and> n \<le> 57) \<or> (97 \<le> n \<and> n \<le> 102))"

text \<open>The regular expression \<^verbatim>\<open>/^[0-9a-f]{40}$/\<close>: an exact lowercase Git object id.\<close>

definition is_sha40 :: "string \<Rightarrow> bool" where
  "is_sha40 s = (length s = 40 \<and> list_all lower_hex s)"

section \<open>Evaluating characters\<close>

text \<open>Comparisons of code points, bit by bit: the code equations of the classes below.\<close>

fun bits_upto :: "bool list \<Rightarrow> bool list \<Rightarrow> bool" where
  "bits_upto (a # as) (b # bs) = (if a = b then bits_upto as bs else b)"
| "bits_upto as bs = True"

definition char_upto :: "char \<Rightarrow> char \<Rightarrow> bool" where
  "char_upto a b = (of_char a \<le> (of_char b :: nat))"

lemma more_significant_bits:
  "length as = length bs \<Longrightarrow> v < w \<Longrightarrow>
     foldl (\<lambda>n b. of_bool b + 2 * n) v as < foldl (\<lambda>n b. of_bool b + 2 * (n :: nat)) w bs"
proof (induction as bs arbitrary: v w rule: list_induct2)
  case (Cons a as b bs)
  then show ?case using Cons.IH [of "of_bool a + 2 * v" "of_bool b + 2 * w"] by (cases a; cases b) simp_all
qed simp

lemma bits_upto_iff:
  "length as = length bs \<Longrightarrow> bits_upto as bs \<longleftrightarrow>
     foldl (\<lambda>n b. of_bool b + 2 * n) v as \<le> foldl (\<lambda>n b. of_bool b + 2 * (n :: nat)) v bs"
proof (induction as bs arbitrary: v rule: list_induct2)
  case (Cons a as b bs)
  show ?case
  proof (cases "a = b")
    case True
    then show ?thesis using Cons.IH by simp
  next
    case False
    then show ?thesis
      using more_significant_bits [OF Cons.hyps, of "2 * v" "1 + 2 * v"]
        more_significant_bits [OF Cons.hyps [symmetric], of "2 * v" "1 + 2 * v"] by (cases a; cases b) simp_all
  qed
qed simp

lemma char_upto_code [code]:
  "char_upto (Char a0 a1 a2 a3 a4 a5 a6 a7) (Char b0 b1 b2 b3 b4 b5 b6 b7) =
     bits_upto [a7, a6, a5, a4, a3, a2, a1, a0] [b7, b6, b5, b4, b3, b2, b1, b0]"
  unfolding char_upto_def by (subst bits_upto_iff [where v = 0]) (simp_all add: of_char_Char)

definition char_between :: "char \<Rightarrow> char \<Rightarrow> char \<Rightarrow> bool" where
  "char_between a c b = (char_upto a c \<and> char_upto c b)"

lemma js_space_code [code]:
  "js_space c = (char_between (CHR 0x09) c (CHR 0x0D) \<or> c = CHR '' '' \<or> c = CHR 0xA0)"
proof -
  have "c = CHR '' '' \<longleftrightarrow> of_char c = (32 :: nat)" "c = CHR 0xA0 \<longleftrightarrow> of_char c = (160 :: nat)"
    using of_char_eq_iff [where ?'a = nat, of c "CHR '' ''"] of_char_eq_iff [where ?'a = nat, of c "CHR 0xA0"]
    by simp_all
  then show ?thesis by (auto simp: js_space_def char_between_def char_upto_def Let_def)
qed

lemma lower_hex_code [code]:
  "lower_hex c = (char_between (CHR ''0'') c (CHR ''9'') \<or> char_between (CHR ''a'') c (CHR ''f''))"
  by (simp add: lower_hex_def char_between_def char_upto_def Let_def)

text \<open>Lower case of an upper case letter: the sixth bit is set.\<close>

fun with_case_bit :: "char \<Rightarrow> char" where
  "with_case_bit (Char b0 b1 b2 b3 b4 b5 b6 b7) = Char b0 b1 b2 b3 b4 True b6 b7"

fun without_case_bit :: "char \<Rightarrow> char" where
  "without_case_bit (Char b0 b1 b2 b3 b4 b5 b6 b7) = Char b0 b1 b2 b3 b4 False b6 b7"

lemma case_bit_set:
  assumes "\<not> b5" and "c = Char b0 b1 b2 b3 b4 b5 b6 b7"
  shows "char_of (of_char c + 32 :: nat) = with_case_bit c"
proof -
  have "of_char (with_case_bit c) = (of_char c + 32 :: nat)" using assms by (simp add: of_char_Char)
  then show ?thesis by (metis char_of_char)
qed

lemma lowered_letter:
  assumes "65 \<le> (of_char c :: nat)" and "of_char c \<le> (90 :: nat)"
  shows "char_of (of_char c + 32 :: nat) = with_case_bit c"
proof -
  obtain b0 b1 b2 b3 b4 b5 b6 b7 where c: "c = Char b0 b1 b2 b3 b4 b5 b6 b7" by (cases c)
  have "char_upto (CHR ''A'') c" "char_upto c (CHR ''Z'')" using assms by (simp_all add: char_upto_def)
  then have "\<not> b5" unfolding c char_upto_code by (auto split: if_splits)
  then show ?thesis using c by (rule case_bit_set)
qed

lemma raised_letter:
  assumes "97 \<le> (of_char c :: nat)" and "of_char c \<le> (122 :: nat)"
  shows "char_of (of_char c - 32 :: nat) = without_case_bit c"
proof -
  obtain b0 b1 b2 b3 b4 b5 b6 b7 where c: "c = Char b0 b1 b2 b3 b4 b5 b6 b7" by (cases c)
  have "char_upto (CHR ''a'') c" "char_upto c (CHR ''z'')" using assms by (simp_all add: char_upto_def)
  then have "b5" unfolding c char_upto_code by (auto split: if_splits)
  then have "of_char (without_case_bit c) = (of_char c - 32 :: nat)" by (simp add: c of_char_Char)
  then show ?thesis by (metis char_of_char)
qed

lemma lowered_accented:
  assumes "192 \<le> (of_char c :: nat)" and "of_char c \<le> (222 :: nat)"
  shows "char_of (of_char c + 32 :: nat) = with_case_bit c"
proof -
  obtain b0 b1 b2 b3 b4 b5 b6 b7 where c: "c = Char b0 b1 b2 b3 b4 b5 b6 b7" by (cases c)
  have "char_upto (CHR 0xC0) c" "char_upto c (CHR 0xDE)" using assms by (simp_all add: char_upto_def)
  then have "\<not> b5" unfolding c char_upto_code by (auto split: if_splits)
  then show ?thesis using c by (rule case_bit_set)
qed

section \<open>Tables: rows in insertion order\<close>

definition lookup_row :: "('r \<Rightarrow> 'k) \<Rightarrow> 'k \<Rightarrow> 'r list \<Rightarrow> 'r option" where
  "lookup_row key k rows = find (\<lambda>r. key r = k) rows"

definition update_where :: "('r \<Rightarrow> bool) \<Rightarrow> ('r \<Rightarrow> 'r) \<Rightarrow> 'r list \<Rightarrow> 'r list" where
  "update_where P f rows = map (\<lambda>r. if P r then f r else r) rows"

definition count_where :: "('r \<Rightarrow> bool) \<Rightarrow> 'r list \<Rightarrow> nat" where
  "count_where P rows = length (filter P rows)"

definition unique_by :: "('r \<Rightarrow> 'k) \<Rightarrow> 'r list \<Rightarrow> bool" where
  "unique_by key rows = distinct (map key rows)"

lemma lookup_row_Nil [simp]: "lookup_row key k [] = None"
  by (simp add: lookup_row_def)

lemma lookup_row_Cons [simp]:
  "lookup_row key k (r # rows) = (if key r = k then Some r else lookup_row key k rows)"
  by (simp add: lookup_row_def)

lemma lookup_row_SomeD: "lookup_row key k rows = Some r \<Longrightarrow> r \<in> set rows \<and> key r = k"
  by (induction rows) (auto split: if_splits)

lemma lookup_row_None_iff: "lookup_row key k rows = None \<longleftrightarrow> k \<notin> key ` set rows"
  by (induction rows) auto

lemma lookup_row_append:
  "lookup_row key k (xs @ ys) =
     (case lookup_row key k xs of None \<Rightarrow> lookup_row key k ys | Some r \<Rightarrow> Some r)"
  by (induction xs) auto

lemma lookup_row_unique:
  "unique_by key rows \<Longrightarrow> r \<in> set rows \<Longrightarrow> lookup_row key (key r) rows = Some r"
  by (induction rows) (auto simp: unique_by_def)

lemma lookup_row_iff:
  "unique_by key rows \<Longrightarrow> lookup_row key k rows = Some r \<longleftrightarrow> r \<in> set rows \<and> key r = k"
  using lookup_row_unique [of key rows r] by (auto dest: lookup_row_SomeD)

lemma unique_by_inj:
  "unique_by key rows \<Longrightarrow> r \<in> set rows \<Longrightarrow> s \<in> set rows \<Longrightarrow> key r = key s \<Longrightarrow> r = s"
  by (auto simp: unique_by_def distinct_map dest: inj_onD)

lemma unique_by_append1:
  "unique_by key (rows @ [r]) \<longleftrightarrow> unique_by key rows \<and> key r \<notin> key ` set rows"
  by (auto simp: unique_by_def)

lemma update_where_Nil [simp]: "update_where P f [] = []"
  by (simp add: update_where_def)

lemma update_where_Cons [simp]:
  "update_where P f (r # rows) = (if P r then f r else r) # update_where P f rows"
  by (simp add: update_where_def)

lemma length_update_where [simp]: "length (update_where P f rows) = length rows"
  by (simp add: update_where_def)

lemma map_update_where [table_simps]:
  "(\<And>r. P r \<Longrightarrow> g (f r) = g r) \<Longrightarrow> map g (update_where P f rows) = map g rows"
  by (induction rows) auto

lemma set_update_where: "set (update_where P f rows) = (\<lambda>r. if P r then f r else r) ` set rows"
  by (simp add: update_where_def)

lemma update_where_id: "\<forall>r \<in> set rows. \<not> P r \<Longrightarrow> update_where P f rows = rows"
  by (induction rows) auto

lemma unique_by_update_where:
  "(\<And>r. P r \<Longrightarrow> key (f r) = key r) \<Longrightarrow> unique_by key (update_where P f rows) = unique_by key rows"
  by (simp add: unique_by_def map_update_where)

lemma lookup_row_update_where:
  "(\<And>r. P r \<Longrightarrow> key (f r) = key r) \<Longrightarrow>
     lookup_row key k (update_where P f rows) =
       map_option (\<lambda>r. if P r then f r else r) (lookup_row key k rows)"
  by (induction rows) auto

lemma lookup_row_map_cong:
  "(\<And>r. key (f r) = key r) \<Longrightarrow> lookup_row key k (map f rows) = map_option f (lookup_row key k rows)"
  by (induction rows) auto

lemma count_where_Nil [simp]: "count_where P [] = 0"
  by (simp add: count_where_def)

lemma count_where_Cons [simp]:
  "count_where P (r # rows) = (if P r then Suc (count_where P rows) else count_where P rows)"
  by (simp add: count_where_def)

lemma count_where_append [simp]: "count_where P (xs @ ys) = count_where P xs + count_where P ys"
  by (simp add: count_where_def)

lemma count_where_0_iff: "count_where P rows = 0 \<longleftrightarrow> (\<forall>r \<in> set rows. \<not> P r)"
  by (induction rows) auto

lemma count_where_pos_iff: "0 < count_where P rows \<longleftrightarrow> (\<exists>r \<in> set rows. P r)"
  using count_where_0_iff [of P rows] by auto

lemma count_where_oneD: "count_where P rows = 1 \<Longrightarrow> \<exists>r \<in> set rows. P r"
  using count_where_pos_iff [of P rows] by simp

lemma update_where_none: "count_where P rows = 0 \<Longrightarrow> update_where P f rows = rows"
  by (simp add: count_where_0_iff update_where_id)

lemma count_where_key:
  "unique_by key rows \<Longrightarrow> r \<in> set rows \<Longrightarrow> P r \<Longrightarrow> (\<And>s. P s \<Longrightarrow> key s = key r) \<Longrightarrow>
     count_where P rows = 1"
proof (induction rows)
  case Nil
  then show ?case by simp
next
  case (Cons s rows)
  show ?case
  proof (cases "P s")
    case True
    then have "key s = key r" using Cons.prems(4) by blast
    then have "key r \<notin> key ` set rows" using Cons.prems(1) by (auto simp: unique_by_def)
    then have "\<forall>q \<in> set rows. \<not> P q" using Cons.prems(4) by (auto simp: image_iff)
    then have "count_where P rows = 0" by (simp only: count_where_0_iff)
    then show ?thesis using True by simp
  next
    case False
    then have "r \<in> set rows" using Cons.prems(2,3) by auto
    moreover have "unique_by key rows" using Cons.prems(1) by (simp add: unique_by_def)
    ultimately have "count_where P rows = 1" using Cons.IH Cons.prems(3,4) by blast
    then show ?thesis using False by simp
  qed
qed

lemma find_SomeD: "find P xs = Some x \<Longrightarrow> x \<in> set xs \<and> P x"
  by (induction xs) (auto split: if_splits)

lemma find_NoneD: "find P xs = None \<Longrightarrow> x \<in> set xs \<Longrightarrow> \<not> P x"
  by (induction xs) (auto split: if_splits)

lemmas row_lemmas = lookup_row_SomeD lookup_row_None_iff lookup_row_update_where
  unique_by_update_where set_update_where

end
