(* ===== verification/Lifecycle.thy ===== *)
theory Lifecycle
  imports Major_Prelude
begin

text \<open>
  The canonical task lifecycle of src/domain/lifecycle.ts: the statuses, the transition
  table and the pure guard \<open>validateTransition\<close> every status change passes through.
  A refusal carries a constructor per message of the source.
\<close>

datatype task_status =
    St_suggested | St_draft | St_ready | St_queued | St_running | St_verifying | St_reviewing
  | St_repairing | St_needs_decision | St_ready_to_merge | St_completed | St_failed | St_cancelled

definition TASK_STATUSES :: "task_status list" where
  "TASK_STATUSES = [St_suggested, St_draft, St_ready, St_queued, St_running, St_verifying,
     St_reviewing, St_repairing, St_needs_decision, St_ready_to_merge, St_completed, St_failed,
     St_cancelled]"

definition TERMINAL_STATUSES :: "task_status list" where
  "TERMINAL_STATUSES = [St_completed, St_cancelled]"

fun TRANSITIONS :: "task_status \<Rightarrow> task_status list" where
  "TRANSITIONS St_suggested = [St_draft, St_cancelled]"
| "TRANSITIONS St_draft = [St_ready, St_cancelled]"
| "TRANSITIONS St_ready = [St_queued, St_draft, St_cancelled]"
| "TRANSITIONS St_queued = [St_running, St_ready, St_cancelled]"
| "TRANSITIONS St_running = [St_verifying, St_queued, St_needs_decision, St_failed, St_cancelled]"
| "TRANSITIONS St_verifying =
     [St_reviewing, St_repairing, St_needs_decision, St_failed, St_cancelled]"
| "TRANSITIONS St_reviewing =
     [St_ready_to_merge, St_repairing, St_needs_decision, St_failed, St_cancelled]"
| "TRANSITIONS St_repairing = [St_verifying, St_needs_decision, St_failed, St_cancelled]"
| "TRANSITIONS St_needs_decision =
     [St_ready, St_queued, St_repairing, St_ready_to_merge, St_failed, St_cancelled]"
| "TRANSITIONS St_ready_to_merge = [St_completed, St_repairing, St_needs_decision, St_cancelled]"
| "TRANSITIONS St_completed = []"
| "TRANSITIONS St_failed = [St_queued, St_cancelled]"
| "TRANSITIONS St_cancelled = []"

text \<open>
  \<open>'f\<close> is the type of one completion-proof failure; domain/completion.ts supplies it.
\<close>

record 'f completion_proof =
  proof_ok :: bool
  proof_failures :: "'f list"

record 'f transition_guards =
  incompleteDependencyCount_guard :: "nat option"
  completionProof_guard :: "'f completion_proof option"

definition no_guards :: "'f transition_guards" where
  "no_guards = \<lparr>incompleteDependencyCount_guard = None, completionProof_guard = None\<rparr>"

datatype 'f transition_reason =
    Illegal_transition task_status task_status
  | Requires_dependency_check
  | Blocked_by_dependencies nat
  | Requires_completion_proof
  | Completion_proof_not_satisfied "'f list"

definition validateTransition ::
  "task_status \<Rightarrow> task_status \<Rightarrow> 'f transition_guards \<Rightarrow> ('f transition_reason, unit) result" where
  "validateTransition from to guards =
     (if to \<notin> set (TRANSITIONS from) then Inl (Illegal_transition from to)
      else
        rbind
          (if from = St_ready \<and> to = St_queued then
             (case incompleteDependencyCount_guard guards of
                None \<Rightarrow> Inl Requires_dependency_check
              | Some n \<Rightarrow> if 0 < n then Inl (Blocked_by_dependencies n) else Inr ())
           else Inr ())
          (\<lambda>_. if to = St_completed then
                 (case completionProof_guard guards of
                    None \<Rightarrow> Inl Requires_completion_proof
                  | Some p \<Rightarrow>
                      if \<not> proof_ok p then Inl (Completion_proof_not_satisfied (proof_failures p))
                      else Inr ())
               else Inr ()))"

datatype 'f transition_error = TransitionError task_status task_status "'f transition_reason"

definition assertTransition ::
  "task_status \<Rightarrow> task_status \<Rightarrow> 'f transition_guards \<Rightarrow> ('f transition_error, unit) result" where
  "assertTransition from to guards =
     (case validateTransition from to guards of
        Inl reason \<Rightarrow> Inl (TransitionError from to reason)
      | Inr _ \<Rightarrow> Inr ())"

definition isTerminal :: "task_status \<Rightarrow> bool" where
  "isTerminal s = (s \<in> set TERMINAL_STATUSES)"

section \<open>What the guard accepts\<close>

lemma TASK_STATUSES_complete [simp]: "s \<in> set TASK_STATUSES"
  by (cases s) (simp_all add: TASK_STATUSES_def)

text \<open>
  A transition is accepted exactly when the table lists it, a dispatch from ready to
  queued comes with a dependency count of zero, and a step to completed comes with a
  satisfied completion proof; nothing else is consulted.
\<close>

theorem validateTransition_accepts_iff:
  "validateTransition from to g = Inr () \<longleftrightarrow>
     to \<in> set (TRANSITIONS from) \<and>
     (from = St_ready \<and> to = St_queued \<longrightarrow> incompleteDependencyCount_guard g = Some 0) \<and>
     (to = St_completed \<longrightarrow> (\<exists>p. completionProof_guard g = Some p \<and> proof_ok p))"
  by (auto simp: validateTransition_def split: option.splits if_splits)

theorem validateTransition_accepts_iff_witness:
  "validateTransition St_ready St_queued
     \<lparr>incompleteDependencyCount_guard = Some 0, completionProof_guard = (None :: unit completion_proof option)\<rparr>
     = Inr ()"
  unfolding validateTransition_accepts_iff by simp

lemma validateTransition_Inr: "validateTransition from to g = Inr u \<Longrightarrow> to \<in> set (TRANSITIONS from)"
  by (auto simp: validateTransition_def split: if_splits)

lemma assertTransition_Inr_iff: "assertTransition from to g = Inr () \<longleftrightarrow> validateTransition from to g = Inr ()"
  by (auto simp: assertTransition_def split: sum.splits)

section \<open>The lifecycle as a step relation\<close>

text \<open>
  \<open>task_step\<close> relates a status to the statuses the guard may accept from it, for some
  guard data; a \<open>task_path\<close> is a non-empty list of statuses, each a step from the one
  before.
\<close>

inductive task_step :: "task_status \<Rightarrow> task_status \<Rightarrow> bool" where
  task_stepI: "validateTransition from to (g :: unit transition_guards) = Inr () \<Longrightarrow> task_step from to"

inductive_cases task_stepE: "task_step from to"

inductive_simps task_step_simps: "task_step from to"

lemma task_step_iff: "task_step from to \<longleftrightarrow> to \<in> set (TRANSITIONS from)"
proof
  assume "task_step from to"
  then show "to \<in> set (TRANSITIONS from)" by (auto elim: task_stepE dest: validateTransition_Inr)
next
  assume "to \<in> set (TRANSITIONS from)"
  then have "validateTransition from to
      \<lparr>incompleteDependencyCount_guard = Some 0,
       completionProof_guard = Some \<lparr>proof_ok = True, proof_failures = []\<rparr>\<rparr> = Inr ()"
    by (simp add: validateTransition_def)
  then show "task_step from to" by (rule task_stepI)
qed

fun task_path :: "task_status list \<Rightarrow> bool" where
  "task_path [] = False"
| "task_path [s] = True"
| "task_path (s # t # ss) = (task_step s t \<and> task_path (t # ss))"

text \<open>
  A cut of the lifecycle graph: a set of statuses that no step leaves except through one
  gate status. A path that starts inside and ends outside visits the gate.
\<close>

lemma task_path_gate:
  assumes closed: "\<And>s t. s \<in> A \<Longrightarrow> t \<in> set (TRANSITIONS s) \<Longrightarrow> t \<in> A \<or> t = gate"
  shows "task_path p \<Longrightarrow> hd p \<in> A \<Longrightarrow> last p \<notin> A \<Longrightarrow> gate \<in> set p"
proof (induction p rule: task_path.induct)
  case (3 s t ss)
  then have "t \<in> A \<or> t = gate" using closed by (auto simp: task_step_iff)
  then show ?case using 3 by auto
qed auto

lemma completed_from: "St_completed \<in> set (TRANSITIONS s) \<longleftrightarrow> s = St_ready_to_merge"
  by (cases s) simp_all

text \<open>
  Every path of accepted transitions that takes a task from draft to completed
  dispatches it (queued), runs it (running) and passes through ready to merge: no path
  completes work that was never queued, executed and cleared for merging.
\<close>

theorem completed_path_visits_gates:
  assumes path: "task_path p" and start: "hd p = St_draft" and finish: "last p = St_completed"
  shows "{St_queued, St_running, St_ready_to_merge} \<subseteq> set p"
proof -
  have "St_queued \<in> set p"
    by (rule task_path_gate [where A = "{St_draft, St_ready, St_cancelled}", OF _ path])
       (auto simp: start finish)
  moreover have "St_running \<in> set p"
    by (rule task_path_gate [where A = "{St_draft, St_ready, St_queued, St_cancelled}", OF _ path])
       (auto simp: start finish)
  moreover have "St_ready_to_merge \<in> set p"
    by (rule task_path_gate [where A = "- {St_ready_to_merge, St_completed}", OF _ path])
       (auto simp: start finish completed_from)
  ultimately show ?thesis by simp
qed

theorem completed_path_visits_gates_witness:
  "{St_queued, St_running, St_ready_to_merge} \<subseteq>
     set [St_draft, St_ready, St_queued, St_running, St_verifying, St_reviewing,
          St_ready_to_merge, St_completed]"
  by (rule completed_path_visits_gates) (simp_all add: task_step_iff)

text \<open>
  The terminal statuses are exactly the statuses without a way out, and every other
  status can be cancelled directly: a task is never stuck in a status it cannot leave.
\<close>

theorem terminal_iff_no_step:
  "(isTerminal s \<longleftrightarrow> (\<forall>t. \<not> task_step s t)) \<and> (isTerminal s \<or> task_step s St_cancelled)"
  by (cases s) (auto simp: isTerminal_def TERMINAL_STATUSES_def task_step_iff)

theorem terminal_iff_no_step_witness:
  "isTerminal St_completed \<and> task_step St_failed St_cancelled"
  using terminal_iff_no_step [of St_completed] terminal_iff_no_step [of St_failed]
  by (auto simp: isTerminal_def TERMINAL_STATUSES_def task_step_iff)

end
