(* ===== verification/Capabilities.thy ===== *)
theory Capabilities
  imports Major_Prelude
begin

text \<open>
  Build-level capability gates, src/security/capabilities.ts: code constants that no
  configuration can change, and the refusal raised where a gate is closed.
\<close>

datatype capability =
    Cap_live_agent_execution
  | Cap_paid_provider_execution
  | Cap_automated_task_completion
  | Cap_worker_owned_downstream_mutations
  | Cap_external_roadmap_application

record capability_definition =
  cap_available :: bool
  cap_reason :: string
  cap_milestone :: string

fun CAPABILITY_DEFINITIONS :: "capability \<Rightarrow> capability_definition" where
  "CAPABILITY_DEFINITIONS Cap_live_agent_execution =
     \<lparr>cap_available = True,
      cap_reason = ''host Seatbelt or explicit Lima execution boundary (containment, credential '' @
        ''broker, guest isolation where applicable, release integrity) independently verified safe; '' @
        ''per-provider auth/billing/field '' @
        ''health is tracked separately in src/doctor/readiness.ts and never gates this flag'',
      cap_milestone = ''M1 - core execution boundary activated for v0.5.3''\<rparr>"
| "CAPABILITY_DEFINITIONS Cap_paid_provider_execution =
     \<lparr>cap_available = True,
      cap_reason = ''paid execution requires authoritative billing evidence and one-use approval'',
      cap_milestone = ''M2 - activated for v0.5.1''\<rparr>"
| "CAPABILITY_DEFINITIONS Cap_automated_task_completion =
     \<lparr>cap_available = True,
      cap_reason = ''automated completion requires immutable task-specific proof'',
      cap_milestone = ''M3 - activated for v0.5.1''\<rparr>"
| "CAPABILITY_DEFINITIONS Cap_worker_owned_downstream_mutations =
     \<lparr>cap_available = True,
      cap_reason = ''worker-owned mutations require a live claim and exact fencing token'',
      cap_milestone = ''M4 - activated for v0.5.1''\<rparr>"
| "CAPABILITY_DEFINITIONS Cap_external_roadmap_application =
     \<lparr>cap_available = True,
      cap_reason = ''external roadmap writes require approved dry-run-bound exact-attempt reconciliation'',
      cap_milestone = ''M5 - activated for v0.5.1''\<rparr>"

definition isCapabilityAvailable :: "capability \<Rightarrow> bool" where
  "isCapabilityAvailable c = cap_available (CAPABILITY_DEFINITIONS c)"

lemma isCapabilityAvailable_code [code]: "isCapabilityAvailable c = True"
  by (cases c) (simp_all add: isCapabilityAvailable_def)

datatype capability_error = CapabilityUnavailableError capability

definition assertCapabilityAvailable :: "capability \<Rightarrow> (capability_error, unit) result" where
  "assertCapabilityAvailable c =
     (if \<not> isCapabilityAvailable c then Inl (CapabilityUnavailableError c) else Inr ())"

record capability_status =
  cs_capability :: capability
  cs_available :: bool
  cs_reason :: string
  cs_milestone :: string

definition capabilityStatuses :: "capability_status list" where
  "capabilityStatuses =
     map (\<lambda>c. \<lparr>cs_capability = c, cs_available = cap_available (CAPABILITY_DEFINITIONS c),
              cs_reason = cap_reason (CAPABILITY_DEFINITIONS c),
              cs_milestone = cap_milestone (CAPABILITY_DEFINITIONS c)\<rparr>)
       [Cap_live_agent_execution, Cap_paid_provider_execution, Cap_automated_task_completion,
        Cap_worker_owned_downstream_mutations, Cap_external_roadmap_application]"

lemma all_capabilities_available [simp]: "isCapabilityAvailable c"
  by (cases c) (simp_all add: isCapabilityAvailable_def)

lemma assertCapabilityAvailable_eq [simp]: "assertCapabilityAvailable c = Inr ()"
  by (simp add: assertCapabilityAvailable_def)

lemma capabilityStatuses_agree:
  "s \<in> set capabilityStatuses \<Longrightarrow> cs_available s = isCapabilityAvailable (cs_capability s)"
  by (auto simp: capabilityStatuses_def isCapabilityAvailable_def)

end
