(* ===== verification/Sdlc.thy ===== *)
theory Sdlc
  imports Major_Prelude
begin

text \<open>
  The delivery policy of src/domain/sdlc.ts: how much ceremony a change needs, which
  validation is required, when a candidate may be promoted and which delivery state the
  evidence supports. All functions are pure.
\<close>

section \<open>Numbers of the caller\<close>

text \<open>
  A JavaScript number: a finite double is a rational, \<open>Js_nonfinite\<close> is NaN or an
  infinity. \<open>js_int\<close> is the value where \<^verbatim>\<open>Number.isInteger\<close> holds.
\<close>

datatype js_number = Js_finite rat | Js_nonfinite

definition js_int :: "js_number \<Rightarrow> int option" where
  "js_int n = (case n of Js_nonfinite \<Rightarrow> None
     | Js_finite q \<Rightarrow> (case quotient_of q of (a, b) \<Rightarrow> if b = 1 then Some a else None))"

datatype sdlc_error = SdlcInvalid string

section \<open>Vocabulary\<close>

datatype delivery_state = Del_planned | Del_built | Del_validated | Del_ready
datatype work_class = Work_small | Work_substantive
datatype review_level = Rev_none | Rev_focused | Rev_independent
datatype review_severity = Sev_BLOCKER | Sev_IMPORTANT | Sev_NIT
datatype proof_state = Proof_not_required | Proof_unproven | Proof_proven

datatype delivery_evidence_kind =
    DE_IMPLEMENTED | DE_TESTED | DE_STAGED | DE_RESOLVED | DE_LOADED | DE_FOLLOWED
  | DE_INSTALLED | DE_BEHAVIORALLY_PROVEN

definition DELIVERY_EVIDENCE_KINDS :: "delivery_evidence_kind list" where
  "DELIVERY_EVIDENCE_KINDS = [DE_IMPLEMENTED, DE_TESTED, DE_STAGED, DE_RESOLVED, DE_LOADED,
     DE_FOLLOWED, DE_INSTALLED, DE_BEHAVIORALLY_PROVEN]"

datatype accepted_delivery_evidence_kind =
    DE_kind delivery_evidence_kind | LEGACY_BEHAVIOURAL_EVIDENCE_KIND

datatype validation_check =
    Chk_focused_tests | Chk_cheapest_compile_type_or_build | Chk_critical_path_behavior
  | Chk_risk_specific_checks | Chk_broader_validation

datatype broader_validation_trigger =
    Trig_blast_radius | Trig_shared_dependency | Trig_insufficient_evidence
  | Trig_historical_regression | Trig_promotion_policy

definition BROADER_VALIDATION_TRIGGERS :: "broader_validation_trigger list" where
  "BROADER_VALIDATION_TRIGGERS = [Trig_blast_radius, Trig_shared_dependency,
     Trig_insufficient_evidence, Trig_historical_regression, Trig_promotion_policy]"

datatype promotion_state = NOT_PROMOTABLE | PROMOTABLE

datatype intent_field = Field_intent | Field_spec | Field_plan | Field_evidence

record sdlc_intent =
  si_intent :: string
  si_spec :: "string list"
  si_plan :: "string list option"
  si_evidence :: "string list option"

datatype sdlc_risk_key =
    Risk_touchesAuthority | Risk_touchesPersistence | Risk_touchesSecurity | Risk_externalEffect
  | Risk_irreversible | Risk_broadBlastRadius

record sdlc_decision =
  sd_workClass :: work_class
  sd_review :: review_level
  sd_requiresCompactState :: bool
  sd_requiredState :: "intent_field list"
  sd_reasons :: "string list"

definition HIGH_CONSEQUENCE_RISKS :: "sdlc_risk_key list" where
  "HIGH_CONSEQUENCE_RISKS =
     [Risk_touchesAuthority, Risk_touchesSecurity, Risk_irreversible, Risk_broadBlastRadius]"

section \<open>Choosing the ceremony\<close>

text \<open>
  \<open>risk\<close> lists the entries of the caller's risk object; an absent key and a false flag
  are both inactive.
\<close>

definition decideSdlc ::
  "js_number \<Rightarrow> js_number \<Rightarrow> (sdlc_risk_key \<times> bool) list \<Rightarrow> (sdlc_error, sdlc_decision) result" where
  "decideSdlc estimatedFiles acceptancePaths risk =
     (case js_int estimatedFiles of
        None \<Rightarrow> Inl (SdlcInvalid ''estimatedFiles must be a non-negative integer'')
      | Some files \<Rightarrow>
        if files < 0 then Inl (SdlcInvalid ''estimatedFiles must be a non-negative integer'')
        else (case js_int acceptancePaths of
          None \<Rightarrow> Inl (SdlcInvalid ''acceptancePaths must be a positive integer'')
        | Some paths \<Rightarrow>
          if paths < 1 then Inl (SdlcInvalid ''acceptancePaths must be a positive integer'')
          else
            let activeRisks = map fst (filter snd risk);
                consequential = list_ex (\<lambda>r. r \<in> set HIGH_CONSEQUENCE_RISKS) activeRisks;
                substantive = (files > 2 \<or> paths > 1 \<or> length activeRisks > 0)
            in Inr \<lparr>sd_workClass = (if substantive then Work_substantive else Work_small),
                    sd_review = (if consequential then Rev_independent
                                 else if substantive then Rev_focused else Rev_none),
                    sd_requiresCompactState = substantive,
                    sd_requiredState =
                      (if substantive then [Field_intent, Field_spec, Field_plan, Field_evidence]
                       else [Field_intent, Field_spec]),
                    sd_reasons =
                      [if substantive then ''scope or risk requires a resumable compact state''
                       else ''bounded low-risk change'',
                       if consequential then ''consequence requires independent review''
                       else if substantive then ''focused review is proportional to the change''
                       else ''deterministic acceptance proof is sufficient'']\<rparr>))"

datatype review_finding_disposition = Disp_block | Disp_triage | Disp_advisory

definition reviewFindingDisposition ::
  "review_severity option \<Rightarrow> bool \<Rightarrow> review_finding_disposition" where
  "reviewFindingDisposition severity speculative =
     (if speculative \<or> severity = None \<or> severity = Some Sev_NIT then Disp_advisory
      else if severity = Some Sev_BLOCKER then Disp_block else Disp_triage)"

definition reviewFindingBlocksPromotion :: "review_severity option \<Rightarrow> bool \<Rightarrow> bool" where
  "reviewFindingBlocksPromotion severity speculative =
     (reviewFindingDisposition severity speculative = Disp_block)"

fun intent_present :: "sdlc_intent \<Rightarrow> intent_field \<Rightarrow> bool" where
  "intent_present i Field_intent = (\<not> js_blank (si_intent i))"
| "intent_present i Field_spec = list_ex (\<lambda>x. \<not> js_blank x) (si_spec i)"
| "intent_present i Field_plan =
     (case si_plan i of None \<Rightarrow> False | Some xs \<Rightarrow> list_ex (\<lambda>x. \<not> js_blank x) xs)"
| "intent_present i Field_evidence =
     (case si_evidence i of None \<Rightarrow> False | Some xs \<Rightarrow> list_ex (\<lambda>x. \<not> js_blank x) xs)"

definition validateSdlcIntent :: "sdlc_intent \<Rightarrow> sdlc_decision \<Rightarrow> bool \<times> intent_field list" where
  "validateSdlcIntent intent decision =
     (let missing = filter (\<lambda>f. \<not> intent_present intent f) (sd_requiredState decision)
      in (missing = [], missing))"

section \<open>Progressive validation and promotion\<close>

record validation_plan =
  vp_requiredChecks :: "validation_check list"
  vp_broaderValidationRequired :: bool
  vp_activeTriggers :: "broader_validation_trigger list"

definition planProgressiveValidation ::
  "string list \<Rightarrow> (broader_validation_trigger \<Rightarrow> bool) \<Rightarrow> bool \<Rightarrow> validation_plan" where
  "planProgressiveValidation riskSpecificChecks triggers repositoryPolicyRequiresBroad =
     (let activeTriggers = filter triggers BROADER_VALIDATION_TRIGGERS;
          broad = (length activeTriggers > 0 \<or> repositoryPolicyRequiresBroad)
      in \<lparr>vp_requiredChecks =
            [Chk_focused_tests, Chk_cheapest_compile_type_or_build, Chk_critical_path_behavior]
            @ (if list_ex (\<lambda>c. \<not> js_blank c) riskSpecificChecks
               then [Chk_risk_specific_checks] else [])
            @ (if broad then [Chk_broader_validation] else []),
          vp_broaderValidationRequired = broad,
          vp_activeTriggers = activeTriggers\<rparr>)"

datatype promotion_blocker =
    Pre_promotion_evidence_missing | Required_review_not_passed | Blocker_findings_remain

record promotion_assessment =
  pa_promotion :: promotion_state
  pa_blockers :: "promotion_blocker list"

definition assessPromotion ::
  "bool \<Rightarrow> review_level \<Rightarrow> bool \<Rightarrow> js_number \<Rightarrow> (sdlc_error, promotion_assessment) result" where
  "assessPromotion prePromotionEvidencePassed review reviewPassed blockerFindings =
     (case js_int blockerFindings of
        None \<Rightarrow> Inl (SdlcInvalid ''blockerFindings must be a non-negative integer'')
      | Some n \<Rightarrow>
        if n < 0 then Inl (SdlcInvalid ''blockerFindings must be a non-negative integer'')
        else
          let blockers =
                (if \<not> prePromotionEvidencePassed then [Pre_promotion_evidence_missing] else [])
                @ (if review \<noteq> Rev_none \<and> \<not> reviewPassed then [Required_review_not_passed] else [])
                @ (if n > 0 then [Blocker_findings_remain] else [])
          in Inr \<lparr>pa_promotion = (if blockers = [] then PROMOTABLE else NOT_PROMOTABLE),
                  pa_blockers = blockers\<rparr>)"

section \<open>Delivery evidence\<close>

definition normalize_kind :: "accepted_delivery_evidence_kind \<Rightarrow> delivery_evidence_kind" where
  "normalize_kind k =
     (case k of LEGACY_BEHAVIOURAL_EVIDENCE_KIND \<Rightarrow> DE_BEHAVIORALLY_PROVEN | DE_kind d \<Rightarrow> d)"

definition assessTaskDeliveryEvidence ::
  "accepted_delivery_evidence_kind list
     \<Rightarrow> (accepted_delivery_evidence_kind \<Rightarrow> string list option)
     \<Rightarrow> (delivery_evidence_kind \<times> proof_state) list" where
  "assessTaskDeliveryEvidence applicable ev =
     map (\<lambda>kind.
       if kind \<notin> set (map normalize_kind applicable) then (kind, Proof_not_required)
       else
         let e = (case ev (DE_kind kind) of
                    Some xs \<Rightarrow> Some xs
                  | None \<Rightarrow> if kind = DE_BEHAVIORALLY_PROVEN
                            then ev LEGACY_BEHAVIOURAL_EVIDENCE_KIND else None);
             proven = (case e of None \<Rightarrow> False | Some xs \<Rightarrow> list_ex (\<lambda>x. \<not> js_blank x) xs)
         in (kind, if proven then Proof_proven else Proof_unproven))
       DELIVERY_EVIDENCE_KINDS"

record delivery_evidence =
  de_implementationExists :: bool
  de_deterministicChecksPassed :: bool
  de_reviewPassed :: bool
  de_installationProven :: bool
  de_representativeBehaviorProven :: bool

record delivery_assessment =
  da_delivery :: delivery_state
  da_reviewProof :: proof_state
  da_installationProof :: proof_state
  da_behaviorProof :: proof_state

definition assessDelivery ::
  "delivery_evidence \<Rightarrow> review_level \<Rightarrow> bool \<Rightarrow> delivery_assessment" where
  "assessDelivery e review installationRequired =
     (let reviewProof =
            (if review = Rev_none then Proof_not_required
             else if de_reviewPassed e then Proof_proven else Proof_unproven);
          installationProof =
            (if installationRequired
             then (if de_installationProven e then Proof_proven else Proof_unproven)
             else Proof_not_required);
          behaviorProof =
            (if de_representativeBehaviorProven e then Proof_proven else Proof_unproven);
          reviewSatisfied = (reviewProof = Proof_not_required \<or> reviewProof = Proof_proven);
          installationSatisfied =
            (installationProof = Proof_not_required \<or> installationProof = Proof_proven);
          delivery =
            (if de_implementationExists e then
               (if de_deterministicChecksPassed e \<and> reviewSatisfied then
                  (if installationSatisfied \<and> behaviorProof = Proof_proven then Del_ready
                   else Del_validated)
                else Del_built)
             else Del_planned)
      in \<lparr>da_delivery = delivery, da_reviewProof = reviewProof,
          da_installationProof = installationProof, da_behaviorProof = behaviorProof\<rparr>)"

record regression_artifact =
  ra_failure :: string
  ra_reproduction :: string
  ra_expected :: string
  ra_verification :: string

record learning_candidate =
  lc_summary :: string
  lc_evidence :: string

record failure_regression =
  fr_regressionArtifact :: regression_artifact
  fr_learningCandidate :: "learning_candidate option"

definition failureRegression ::
  "string \<Rightarrow> string \<Rightarrow> string \<Rightarrow> string \<Rightarrow> string option \<Rightarrow> failure_regression" where
  "failureRegression failure reproduction expected verification generalisableLearning =
     (let artifact = \<lparr>ra_failure = js_trim failure, ra_reproduction = js_trim reproduction,
                      ra_expected = js_trim expected, ra_verification = js_trim verification\<rparr>;
          learning = map_option js_trim generalisableLearning
      in \<lparr>fr_regressionArtifact = artifact,
          fr_learningCandidate =
            (case learning of
               None \<Rightarrow> None
             | Some l \<Rightarrow> if l = [] then None
                         else Some \<lparr>lc_summary = l,
                                    lc_evidence = ''Regression: '' @ ra_verification artifact\<rparr>)\<rparr>)"

section \<open>Facts the services rest on\<close>

lemma js_int_of_int [simp]: "js_int (Js_finite (of_int k)) = Some k"
  by (simp add: js_int_def)

lemma assessPromotion_nat [simp]:
  "assessPromotion p review r (Js_finite (of_nat n)) =
     (let blockers =
        (if \<not> p then [Pre_promotion_evidence_missing] else [])
        @ (if review \<noteq> Rev_none \<and> \<not> r then [Required_review_not_passed] else [])
        @ (if n > 0 then [Blocker_findings_remain] else [])
      in Inr \<lparr>pa_promotion = (if blockers = [] then PROMOTABLE else NOT_PROMOTABLE),
              pa_blockers = blockers\<rparr>)"
proof -
  have "js_int (Js_finite (of_nat n)) = Some (int n)"
    using js_int_of_int [of "int n"] by simp
  then show ?thesis by (simp add: assessPromotion_def)
qed

lemma broader_check_iff:
  "Chk_broader_validation \<in> set (vp_requiredChecks (planProgressiveValidation risks trig policy)) \<longleftrightarrow>
     vp_broaderValidationRequired (planProgressiveValidation risks trig policy)"
  by (simp add: planProgressiveValidation_def Let_def)

lemma BROADER_VALIDATION_TRIGGERS_complete [simp]: "t \<in> set BROADER_VALIDATION_TRIGGERS"
  by (cases t) (simp_all add: BROADER_VALIDATION_TRIGGERS_def)

section \<open>Correctness of the policy\<close>

text \<open>
  The ceremony follows scope and risk: with valid counts, the review is independent
  exactly when a high-consequence risk is active, there is no review exactly when the
  change touches at most two files, has one acceptance path and no active risk, and the
  compact state (plan and evidence) is demanded exactly when there is a review.
\<close>

theorem decideSdlc_proportional:
  assumes "decideSdlc (Js_finite (of_int files)) (Js_finite (of_int paths)) risk = Inr d"
  shows "0 \<le> files \<and> 1 \<le> paths
    \<and> (sd_review d = Rev_independent \<longleftrightarrow> (\<exists>r \<in> set HIGH_CONSEQUENCE_RISKS. (r, True) \<in> set risk))
    \<and> (sd_review d = Rev_none \<longleftrightarrow> files \<le> 2 \<and> paths = 1 \<and> (\<forall>r. (r, True) \<notin> set risk))
    \<and> (sd_requiresCompactState d \<longleftrightarrow> sd_review d \<noteq> Rev_none)
    \<and> (Field_plan \<in> set (sd_requiredState d) \<longleftrightarrow> sd_requiresCompactState d)"
proof -
  let ?cons = "\<exists>r \<in> set HIGH_CONSEQUENCE_RISKS. (r, True) \<in> set risk"
  let ?act = "map fst (filter snd risk)"
  have active: "set ?act = {r. (r, True) \<in> set risk}" by (force simp: image_iff)
  have len: "0 < length ?act \<longleftrightarrow> (\<exists>r. (r, True) \<in> set risk)"
    using active by (metis (mono_tags, lifting) empty_iff length_greater_0_conv list.set(1) list.set_sel(1) mem_Collect_eq)
  have ex: "list_ex (\<lambda>r. r \<in> set HIGH_CONSEQUENCE_RISKS) ?act = ?cons"
    unfolding list_ex_iff active by blast
  have bounds: "0 \<le> files" "1 \<le> paths"
    using assms by (auto simp: decideSdlc_def split: if_splits)
  define cons subst where "cons = ?cons"
    and "subst = (files > 2 \<or> paths > 1 \<or> (\<exists>r. (r, True) \<in> set risk))"
  have eq: "decideSdlc (Js_finite (of_int files)) (Js_finite (of_int paths)) risk =
    (if files < 0 then Inl (SdlcInvalid ''estimatedFiles must be a non-negative integer'')
     else if paths < 1 then Inl (SdlcInvalid ''acceptancePaths must be a positive integer'')
     else Inr \<lparr>sd_workClass = (if subst then Work_substantive else Work_small),
       sd_review = (if cons then Rev_independent else if subst then Rev_focused else Rev_none),
       sd_requiresCompactState = subst,
       sd_requiredState = (if subst then [Field_intent, Field_spec, Field_plan, Field_evidence]
                           else [Field_intent, Field_spec]),
       sd_reasons =
         [if subst then ''scope or risk requires a resumable compact state''
          else ''bounded low-risk change'',
          if cons then ''consequence requires independent review''
          else if subst then ''focused review is proportional to the change''
          else ''deterministic acceptance proof is sufficient'']\<rparr>)"
    unfolding decideSdlc_def js_int_of_int Let_def ex len cons_def subst_def option.case ..
  have "sd_review d = (if cons then Rev_independent else if subst then Rev_focused else Rev_none)"
    and "sd_requiresCompactState d = subst"
    and "sd_requiredState d = (if subst then [Field_intent, Field_spec, Field_plan, Field_evidence]
                                      else [Field_intent, Field_spec])"
    using assms bounds unfolding eq by auto
  note fields = this cons_def subst_def
  have "cons \<Longrightarrow> subst" by (auto simp: cons_def subst_def)
  then show ?thesis
    using bounds by (auto simp: fields)
qed

theorem decideSdlc_proportional_witness:
  "\<exists>d. decideSdlc (Js_finite (of_int 1)) (Js_finite (of_int 1)) [(Risk_irreversible, True)] = Inr d
     \<and> sd_review d = Rev_independent"
proof -
  have "\<exists>d. decideSdlc (Js_finite (of_int 1)) (Js_finite (of_int 1)) [(Risk_irreversible, True)] = Inr d"
    unfolding decideSdlc_def js_int_of_int option.case Let_def by simp
  then obtain d where d: "decideSdlc (Js_finite (of_int 1)) (Js_finite (of_int 1))
      [(Risk_irreversible, True)] = Inr d" by blast
  have "sd_review d = Rev_independent"
    using decideSdlc_proportional [OF d] by (simp add: HIGH_CONSEQUENCE_RISKS_def)
  with d show ?thesis by blast
qed

text \<open>
  A delivery is reported ready only on complete proof: the implementation exists, the
  deterministic checks passed, the required review and the required installation are
  proven, and representative behaviour is proven; and ready is reported whenever all of
  these hold. Dropping any one of them never yields ready.
\<close>

theorem assessDelivery_ready_iff:
  "da_delivery (assessDelivery e review inst) = Del_ready \<longleftrightarrow>
     de_implementationExists e \<and> de_deterministicChecksPassed e
     \<and> (review = Rev_none \<or> de_reviewPassed e)
     \<and> (inst = False \<or> de_installationProven e)
     \<and> de_representativeBehaviorProven e"
  by (simp add: assessDelivery_def Let_def)

theorem assessTaskDeliveryEvidence_keys:
  "map fst (assessTaskDeliveryEvidence applicable ev) = DELIVERY_EVIDENCE_KINDS"
  unfolding assessTaskDeliveryEvidence_def by (rule nth_equalityI) (auto simp: Let_def)

end
