(* ===== verification/Schema.thy ===== *)
theory Schema
  imports Lifecycle Capabilities Sdlc
begin

text \<open>
  The persistent state: one record per table of src/db/schema.ts, the enumerations of its
  columns, and the database as a record of tables. A table is the list of its rows in
  insertion (rowid) order. Instants are milliseconds since the epoch: the code stores
  \<^verbatim>\<open>toISOString\<close> texts, which for the years 0 to 9999 have fixed width and compare as
  texts exactly as the instants compare as numbers. A text column that the code reads with
  \<^verbatim>\<open>JSON.parse\<close> holds a \<open>json_text\<close>: the parsed document, or a text that does not parse.
\<close>

section \<open>JSON columns\<close>

datatype json =
    JNull | JBool bool | JNum rat | JStr string | JArr "json list" | JObj "(string \<times> json) list"

datatype json_text = Json_doc json | Json_bad string

definition jget :: "string \<Rightarrow> json \<Rightarrow> json option" where
  "jget k j = (case j of JObj kvs \<Rightarrow> map_of kvs k | _ \<Rightarrow> None)"

type_synonym instant = int

section \<open>Enumerations\<close>

datatype task_complexity = Cx_routine | Cx_bounded | Cx_complex | Cx_architectural

datatype suggestion_status = Sug_pending | Sug_approved | Sug_rejected

datatype suggestion_source_type =
    Src_human | Src_agent | Src_test_failure | Src_review_finding | Src_evidence | Src_run | Src_task

datatype routing_class = Cls_fable | Cls_opus | Cls_sonnet | Cls_codex | Cls_unknown

datatype model_availability = Av_available | Av_rate_limited | Av_exhausted | Av_unknown

datatype billing_mode =
    Bill_subscription_included | Bill_usage_credits | Bill_api_billing | Bill_unknown

datatype run_purpose =
    Pur_implementation | Pur_verification | Pur_review | Pur_repair | Pur_analysis

datatype run_status =
    Run_pending | Run_running | Run_succeeded | Run_failed | Run_cancelled | Run_timed_out
  | Run_checkpointed

datatype claim_status = Clm_active | Clm_completed | Clm_released | Clm_expired

datatype verification_status = Ver_pending | Ver_running | Ver_passed | Ver_failed

datatype finding_severity = Fs_info | Fs_minor | Fs_major | Fs_critical

datatype finding_status = Fst_open | Fst_accepted | Fst_rejected | Fst_fixed

datatype decision_status = Dec_open | Dec_approved | Dec_rejected | Dec_expired

datatype evidence_kind = Evk_test_result | Evk_verification_run | Evk_review | Evk_artifact | Evk_log | Evk_other

datatype usage_kind = Use_tokens | Use_rate_limit | Use_allowance | Use_cost | Use_exhaustion

datatype verdict = Verdict_pass | Verdict_fail

section \<open>Rows\<close>

record project_row =
  p_id :: string
  p_name :: string
  p_repoPath :: string
  p_githubRepo :: "string option"
  p_configJson :: string
  p_createdAt :: instant
  p_updatedAt :: instant

record roadmap_item_row =
  ri_id :: string
  ri_projectId :: string
  ri_stableRef :: string
  ri_title :: string
  ri_sourceStatus :: "string option"
  ri_sourceJson :: "string option"
  ri_createdAt :: instant
  ri_updatedAt :: instant

record task_row =
  t_id :: string
  t_projectId :: string
  t_roadmapItemId :: "string option"
  t_suggestionId :: "string option"
  t_title :: string
  t_description :: string
  t_status :: task_status
  t_complexity :: task_complexity
  t_version :: int
  t_mutationClaimId :: "string option"
  t_mutationWorkerId :: "string option"
  t_completionCriteriaJson :: "json_text option"
  t_completionCriteriaSnapshotJson :: "json_text option"
  t_completionCriteriaLockedAt :: "instant option"
  t_paths :: "string list option"
  t_createdAt :: instant
  t_updatedAt :: instant

record task_dependency_row =
  td_id :: string
  td_taskId :: string
  td_dependsOnTaskId :: string
  td_createdAt :: instant

record suggestion_row =
  s_id :: string
  s_projectId :: string
  s_roadmapItemId :: "string option"
  s_title :: string
  s_description :: string
  s_rationale :: string
  s_suggestedBy :: string
  s_sourceType :: suggestion_source_type
  s_sourceRef :: "string option"
  s_scopeFingerprint :: string
  s_status :: suggestion_status
  s_decidedAt :: "instant option"
  s_decisionNote :: "string option"
  s_approvedTaskId :: "string option"
  s_supersededById :: "string option"
  s_createdAt :: instant
  s_updatedAt :: instant

record provider_row =
  ap_id :: string
  ap_name :: string
  ap_accountLabel :: string
  ap_executable :: "string option"
  ap_version :: "string option"
  ap_credentialFingerprint :: "string option"
  ap_lastDiscoveredAt :: "instant option"
  ap_createdAt :: instant
  ap_updatedAt :: instant

record model_row =
  am_id :: string
  am_providerId :: string
  am_modelRef :: string
  am_routingClass :: routing_class
  am_visible :: bool
  am_authenticated :: bool
  am_availability :: model_availability
  am_billingMode :: billing_mode
  am_prohibited :: bool
  am_prohibitedReason :: "string option"
  am_lastProbedAt :: "instant option"
  am_nextProbeAt :: "instant option"
  am_createdAt :: instant
  am_updatedAt :: instant

record claim_row =
  c_id :: string
  c_taskId :: string
  c_workerId :: string
  c_attempt :: nat
  c_status :: claim_status
  c_leaseExpiresAt :: instant
  c_heartbeatAt :: instant
  c_outcomeReason :: "string option"
  c_createdAt :: instant
  c_updatedAt :: instant

record run_row =
  r_id :: string
  r_taskId :: string
  r_claimId :: "string option"
  r_claimWorkerId :: "string option"
  r_providerId :: string
  r_modelId :: "string option"
  r_modelRef :: string
  r_purpose :: run_purpose
  r_billingMode :: billing_mode
  r_routingReason :: string
  r_paidUsageDecisionId :: "string option"
  r_independenceLoss :: "string option"
  r_sourceHead :: "string option"
  r_allowanceState :: "string option"
  r_worktreeId :: "string option"
  r_status :: run_status
  r_sessionRef :: "string option"
  r_startedAt :: "instant option"
  r_endedAt :: "instant option"
  r_createdAt :: instant
  r_updatedAt :: instant

record run_event_row =
  ev_id :: string
  ev_runId :: string
  ev_seq :: nat
  ev_type :: string
  ev_eventKey :: "string option"
  ev_payloadHash :: string
  ev_payloadJson :: string
  ev_createdAt :: instant

record verification_row =
  v_id :: string
  v_taskId :: string
  v_agentRunId :: "string option"
  v_command :: string
  v_status :: verification_status
  v_exitCode :: "int option"
  v_outputSummary :: "string option"
  v_validationSubject :: "string option"
  v_startedAt :: "instant option"
  v_endedAt :: "instant option"
  v_createdAt :: instant

record finding_row =
  f_id :: string
  f_taskId :: string
  f_agentRunId :: "string option"
  f_resolutionRunId :: "string option"
  f_severity :: finding_severity
  f_summary :: string
  f_detail :: "string option"
  f_status :: finding_status
  f_independentReview :: bool
  f_createdAt :: instant
  f_updatedAt :: instant

record decision_row =
  d_id :: string
  d_projectId :: "string option"
  d_taskId :: "string option"
  d_category :: string
  d_question :: string
  d_contextJson :: "json_text option"
  d_status :: decision_status
  d_resolution :: "string option"
  d_resolvedAt :: "instant option"
  d_expiresAt :: "instant option"
  d_consumedByRunId :: "string option"
  d_createdAt :: instant
  d_updatedAt :: instant

record consumption_row =
  pc_id :: string
  pc_decisionId :: string
  pc_consumerId :: string
  pc_createdAt :: instant

record evidence_row =
  e_id :: string
  e_taskId :: string
  e_agentRunId :: "string option"
  e_kind :: evidence_kind
  e_ref :: "string option"
  e_summary :: string
  e_dataJson :: "string option"
  e_createdAt :: instant

record usage_row =
  u_id :: string
  u_providerId :: string
  u_modelId :: "string option"
  u_agentRunId :: "string option"
  u_kind :: usage_kind
  u_dataJson :: string
  u_observedAt :: instant
  u_createdAt :: instant

record receipt_row =
  rr_id :: string
  rr_project :: string
  rr_goalId :: string
  rr_runId :: string
  rr_reviewedRunId :: "string option"
  rr_reviewSessionRef :: "string option"
  rr_reviewedSessionRef :: "string option"
  rr_taskId :: "string option"
  rr_providerId :: "string option"
  rr_providerAccountLabel :: "string option"
  rr_dispatchId :: string
  rr_provider :: string
  rr_sourceHead :: string
  rr_sourceTreeDigest :: "string option"
  rr_verdict :: verdict
  rr_evidence :: string
  rr_pendingClaimedAt :: instant
  rr_reviewStartedAt :: instant
  rr_createdAt :: instant

text \<open>The columns \<open>purpose\<close> and \<open>executionStatus\<close> of a receipt have one value each
  (\<open>independent_completion_review\<close>, \<open>succeeded\<close>) and are left out of the record.\<close>

section \<open>The database\<close>

record db =
  projects :: "project_row list"
  roadmapItems :: "roadmap_item_row list"
  tasks :: "task_row list"
  taskDependencies :: "task_dependency_row list"
  taskSuggestions :: "suggestion_row list"
  agentProviders :: "provider_row list"
  agentModels :: "model_row list"
  taskClaims :: "claim_row list"
  agentRuns :: "run_row list"
  agentRunEvents :: "run_event_row list"
  verificationRuns :: "verification_row list"
  reviewFindings :: "finding_row list"
  decisionRequests :: "decision_row list"
  providerActionConsumptions :: "consumption_row list"
  evidences :: "evidence_row list"
  usageObservations :: "usage_row list"
  independentReviewReceipts :: "receipt_row list"

definition empty_db :: db where
  "empty_db = \<lparr>projects = [], roadmapItems = [], tasks = [], taskDependencies = [],
     taskSuggestions = [], agentProviders = [], agentModels = [], taskClaims = [],
     agentRuns = [], agentRunEvents = [], verificationRuns = [], reviewFindings = [],
     decisionRequests = [], providerActionConsumptions = [], evidences = [],
     usageObservations = [], independentReviewReceipts = []\<rparr>"

text \<open>
  The clocks an operation sees: the service clock (\<^verbatim>\<open>new Date()\<close> or the injected
  \<^verbatim>\<open>now\<close>) and the clock of SQLite's \<^verbatim>\<open>strftime('now')\<close>, which the triggers read.
\<close>

record clock =
  svc_now :: instant
  sql_now :: instant

section \<open>Errors\<close>

datatype completion_failure =
    Too_few_verifications nat nat
  | Missing_risk_checks "string list"
  | Missing_progressive_checks "validation_check list"
  | Untriggered_broader_validation
  | Promotion_blocked promotion_blocker
  | Open_blocker_findings nat
  | No_evidence_records
  | Evidence_not_linked string
  | Requires_artifact
  | Requires_approved_decision string

datatype run_refusal =
    Source_head_not_sha
  | Frozen_candidate_head_required run_purpose "string option"
  | Billing_unknown
  | No_authoritative_billing string
  | Billing_mismatch billing_mode billing_mode
  | Model_id_mismatch string
  | Paid_requires_decision
  | Decision_does_not_authorise string
  | Approval_not_consumed string string

datatype major_error =
    Not_found string string
  | Constraint_failed string
  | ConcurrencyError string
  | StaleClaimError string
  | SuggestionApprovalUnavailableError
  | CapabilityRefused capability
  | Transition_refused task_status task_status "completion_failure transition_reason"
  | Invalid_criteria
  | Self_dependency
  | Suggestion_already_decided string suggestion_status
  | Decision_not_open string
  | RunAuthorisationError run_refusal
  | ConflictingEventError string string
  | Passed_requires_exit_zero "int option"
  | Internal_error string

type_synonym 'a outcome = "(major_error, 'a) result"

definition require_capability :: "capability \<Rightarrow> unit outcome" where
  "require_capability c =
     (case assertCapabilityAvailable c of
        Inl (CapabilityUnavailableError c') \<Rightarrow> Inl (CapabilityRefused c')
      | Inr _ \<Rightarrow> Inr ())"

lemma require_capability_eq [simp]: "require_capability c = Inr ()"
  by (simp add: require_capability_def)

text \<open>
  \<open>newId\<close> of src/domain/ids.ts: the prefix, an underscore and the UUID without its dashes.
  The UUID itself comes from \<^verbatim>\<open>node:crypto\<close> and is an argument of every operation that
  creates a row.
\<close>

definition newId :: "string \<Rightarrow> string \<Rightarrow> string" where
  "newId prefix uuid = prefix @ ''_'' @ filter (\<lambda>c. c \<noteq> CHR ''-'') uuid"

end
