(* ===== verification/Store.thy ===== *)
theory Store
  imports Schema
begin

text \<open>
  The write boundary of the database: every insert and update the services perform, with
  the primary keys, unique indexes, CHECKs and foreign keys of src/db/schema.ts and the
  fencing and integrity triggers of the migrations under src/drizzle. A violated
  constraint aborts the statement with the constraint's name.
\<close>

section \<open>Checking constraints\<close>

fun check_all :: "(string \<times> bool) list \<Rightarrow> unit outcome" where
  "check_all [] = Inr ()"
| "check_all ((name, ok) # cs) = (if ok then check_all cs else Inl (Constraint_failed name))"

lemma check_all_eq_Inr [simp]: "check_all cs = Inr u \<longleftrightarrow> list_all snd cs"
  by (induction cs rule: check_all.induct) auto

lemma check_all_append: "check_all (xs @ ys) = rbind (check_all xs) (\<lambda>_. check_all ys)"
  by (induction xs rule: check_all.induct) auto

lemma check_all_Inl: "check_all cs = Inl e \<Longrightarrow> \<exists>n. e = Constraint_failed n \<and> (n, False) \<in> set cs"
  by (induction cs rule: check_all.induct) (auto split: if_splits)

definition has_key :: "('r \<Rightarrow> string) \<Rightarrow> string \<Rightarrow> 'r list \<Rightarrow> bool" where
  "has_key key k rows = list_ex (\<lambda>r. key r = k) rows"

definition opt_ref :: "('r \<Rightarrow> string) \<Rightarrow> string option \<Rightarrow> 'r list \<Rightarrow> bool" where
  "opt_ref key k rows = (case k of None \<Rightarrow> True | Some i \<Rightarrow> has_key key i rows)"

definition insert_row :: "(string \<times> bool) list \<Rightarrow> 'r \<Rightarrow> 'r list \<Rightarrow> 'r list outcome" where
  "insert_row constraints row rows = rbind (check_all constraints) (\<lambda>_. Inr (rows @ [row]))"

text \<open>An UPDATE with its WHERE clause: the new rows and the number of rows changed.\<close>

definition update_rows ::
  "('r \<Rightarrow> 'r \<Rightarrow> (string \<times> bool) list) \<Rightarrow> ('r \<Rightarrow> bool) \<Rightarrow> ('r \<Rightarrow> 'r) \<Rightarrow> 'r list
     \<Rightarrow> ('r list \<times> nat) outcome" where
  "update_rows triggers P f rows =
     rbind (check_all (concat (map (\<lambda>r. triggers r (f r)) (filter P rows))))
       (\<lambda>_. Inr (update_where P f rows, count_where P rows))"

lemma insert_row_Inr_iff:
  "insert_row cs row rows = Inr rows' \<longleftrightarrow> list_all snd cs \<and> rows' = rows @ [row]"
  by (auto simp: insert_row_def rbind_eq_Inr)

lemma update_rows_Inr_iff:
  "update_rows trig P f rows = Inr (rows', n) \<longleftrightarrow>
     (\<forall>r \<in> set rows. P r \<longrightarrow> list_all snd (trig r (f r)))
     \<and> rows' = update_where P f rows \<and> n = count_where P rows"
  by (auto simp: update_rows_def rbind_eq_Inr list_all_iff)

lemma has_key_iff [simp]: "has_key key k rows \<longleftrightarrow> k \<in> key ` set rows"
  by (auto simp: has_key_def list_ex_iff)

lemma opt_ref_None [simp]: "opt_ref key None rows"
  by (simp add: opt_ref_def)

lemma opt_ref_Some [simp]: "opt_ref key (Some k) rows \<longleftrightarrow> k \<in> key ` set rows"
  by (simp add: opt_ref_def)

section \<open>Live claims\<close>

text \<open>
  \<open>live_fence\<close>: a claim that is active, of this task and worker, and whose lease has not
  expired on SQLite's clock; the condition of the fencing triggers of migration 0011.
\<close>

definition live_fence :: "clock \<Rightarrow> db \<Rightarrow> string \<Rightarrow> string option \<Rightarrow> string option \<Rightarrow> bool" where
  "live_fence ck d taskId claimId workerId =
     list_ex (\<lambda>c. Some (c_id c) = claimId \<and> c_taskId c = taskId \<and> Some (c_workerId c) = workerId
       \<and> c_status c = Clm_active \<and> c_leaseExpiresAt c > sql_now ck) (taskClaims d)"

definition has_active_claim :: "db \<Rightarrow> string \<Rightarrow> bool" where
  "has_active_claim d taskId =
     list_ex (\<lambda>c. c_taskId c = taskId \<and> c_status c = Clm_active) (taskClaims d)"

definition run_of :: "db \<Rightarrow> string option \<Rightarrow> run_row option" where
  "run_of d runId = (case runId of None \<Rightarrow> None | Some i \<Rightarrow> lookup_row r_id i (agentRuns d))"

definition run_claim_bound :: "db \<Rightarrow> string option \<Rightarrow> bool" where
  "run_claim_bound d runId =
     (case run_of d runId of None \<Rightarrow> False | Some r \<Rightarrow> r_claimId r \<noteq> None)"

text \<open>The run's own claim is live (\<^verbatim>\<open>agent_run_events_fenced_by_claim\<close> and its siblings).\<close>

definition run_fence_live :: "clock \<Rightarrow> db \<Rightarrow> string option \<Rightarrow> bool" where
  "run_fence_live ck d runId =
     (case run_of d runId of None \<Rightarrow> False
      | Some r \<Rightarrow> live_fence ck d (r_taskId r) (r_claimId r) (r_claimWorkerId r))"

text \<open>
  Worker-owned writes about a task (verification runs, evidence): when the task has an
  active claim, or the citing run is claim-bound, the citing run must be a run of this
  task under a live claim. The trigger joins the claim on its id only, so the claim's
  task is not compared here.
\<close>

definition run_claim_row_live :: "clock \<Rightarrow> db \<Rightarrow> string option \<Rightarrow> string \<Rightarrow> bool" where
  "run_claim_row_live ck d runId taskId =
     (case run_of d runId of None \<Rightarrow> False
      | Some r \<Rightarrow> r_taskId r = taskId \<and>
          list_ex (\<lambda>c. Some (c_id c) = r_claimId r \<and> Some (c_workerId c) = r_claimWorkerId r
            \<and> c_status c = Clm_active \<and> c_leaseExpiresAt c > sql_now ck) (taskClaims d))"

definition task_write_fenced :: "clock \<Rightarrow> db \<Rightarrow> string \<Rightarrow> string option \<Rightarrow> bool" where
  "task_write_fenced ck d taskId runId =
     (has_active_claim d taskId \<or> run_claim_bound d runId
        \<longrightarrow> run_claim_row_live ck d runId taskId)"

section \<open>Tasks\<close>

definition roadmap_ref_ok :: "db \<Rightarrow> string option \<Rightarrow> string \<Rightarrow> bool" where
  "roadmap_ref_ok d item projectId =
     (case item of None \<Rightarrow> True
      | Some i \<Rightarrow> list_ex (\<lambda>r. ri_id r = i \<and> ri_projectId r = projectId) (roadmapItems d))"

definition task_insert_constraints :: "db \<Rightarrow> task_row \<Rightarrow> (string \<times> bool) list" where
  "task_insert_constraints d t =
     [(''tasks_no_insert_completed'', t_status t \<noteq> St_completed),
      (''tasks_no_insert_dispatched'',
         t_status t \<notin> {St_queued, St_running, St_verifying, St_reviewing, St_ready_to_merge}),
      (''tasks_status_persistable'', t_status t \<noteq> St_suggested),
      (''tasks.id'', \<not> has_key t_id (t_id t) (tasks d)),
      (''tasks_suggestion_unique'',
         (case t_suggestionId t of None \<Rightarrow> True
          | Some s \<Rightarrow> \<not> list_ex (\<lambda>u. t_suggestionId u = Some s) (tasks d))),
      (''tasks.project_id'', has_key p_id (t_projectId t) (projects d)),
      (''tasks.suggestion_id'', opt_ref s_id (t_suggestionId t) (taskSuggestions d)),
      (''tasks_roadmap_item_project_fk'', roadmap_ref_ok d (t_roadmapItemId t) (t_projectId t)),
      (''tasks.mutation_claim_id'', opt_ref c_id (t_mutationClaimId t) (taskClaims d))]"

definition insert_task :: "task_row \<Rightarrow> db \<Rightarrow> db outcome" where
  "insert_task t d =
     rbind (insert_row (task_insert_constraints d t) t (tasks d)) (\<lambda>rows. Inr (d\<lparr>tasks := rows\<rparr>))"

definition criteria_or_empty :: "json_text option \<Rightarrow> json_text" where
  "criteria_or_empty c = (case c of None \<Rightarrow> Json_doc (JObj []) | Some j \<Rightarrow> j)"

definition task_update_triggers :: "clock \<Rightarrow> db \<Rightarrow> task_row \<Rightarrow> task_row \<Rightarrow> (string \<times> bool) list" where
  "task_update_triggers ck d old new =
     [(''tasks_no_relationship_reassignment'',
         t_projectId old = t_projectId new \<and> t_suggestionId old = t_suggestionId new
         \<and> t_roadmapItemId old = t_roadmapItemId new),
      (''tasks_dispatch_requires_completion_snapshot'',
         t_status new = St_queued \<and> t_status old \<noteq> St_queued \<longrightarrow>
           t_completionCriteriaSnapshotJson new = Some (criteria_or_empty (t_completionCriteriaJson old))
           \<and> t_completionCriteriaLockedAt new \<noteq> None),
      (''tasks_completion_snapshot_immutable'',
         t_completionCriteriaSnapshotJson old \<noteq> None \<longrightarrow>
           t_completionCriteriaJson new = t_completionCriteriaJson old
           \<and> t_completionCriteriaSnapshotJson new = t_completionCriteriaSnapshotJson old
           \<and> t_completionCriteriaLockedAt new = t_completionCriteriaLockedAt old),
      (''tasks_status_requires_current_fence'',
         t_status new \<noteq> t_status old \<and>
         (has_active_claim d (t_id new) \<or> t_mutationClaimId new \<noteq> None \<or> t_mutationWorkerId new \<noteq> None)
           \<longrightarrow> live_fence ck d (t_id new) (t_mutationClaimId new) (t_mutationWorkerId new)),
      (''tasks_status_persistable'', t_status new \<noteq> St_suggested),
      (''tasks.mutation_claim_id'', opt_ref c_id (t_mutationClaimId new) (taskClaims d))]"

definition update_tasks ::
  "clock \<Rightarrow> (task_row \<Rightarrow> bool) \<Rightarrow> (task_row \<Rightarrow> task_row) \<Rightarrow> db \<Rightarrow> (db \<times> nat) outcome" where
  "update_tasks ck P f d =
     rbind (update_rows (task_update_triggers ck d) P (\<lambda>t. (f t)\<lparr>t_updatedAt := svc_now ck\<rparr>) (tasks d))
       (\<lambda>(rows, n). Inr (d\<lparr>tasks := rows\<rparr>, n))"

definition insert_dependency :: "task_dependency_row \<Rightarrow> db \<Rightarrow> db outcome" where
  "insert_dependency td d =
     rbind (insert_row
       [(''task_dependencies_not_self'', td_taskId td \<noteq> td_dependsOnTaskId td),
        (''task_dependencies.id'', \<not> has_key td_id (td_id td) (taskDependencies d)),
        (''task_dependencies_pair'',
           \<not> list_ex (\<lambda>r. td_taskId r = td_taskId td \<and> td_dependsOnTaskId r = td_dependsOnTaskId td)
               (taskDependencies d)),
        (''task_dependencies.task_id'', has_key t_id (td_taskId td) (tasks d)),
        (''task_dependencies.depends_on_task_id'', has_key t_id (td_dependsOnTaskId td) (tasks d))]
       td (taskDependencies d))
     (\<lambda>rows. Inr (d\<lparr>taskDependencies := rows\<rparr>))"

section \<open>Suggestions\<close>

definition suggestion_checks :: "db \<Rightarrow> suggestion_row list \<Rightarrow> suggestion_row \<Rightarrow> (string \<times> bool) list" where
  "suggestion_checks d others s =
     [(''task_suggestions_approved_has_task'',
         (s_status s = Sug_approved) = (s_approvedTaskId s \<noteq> None)),
      (''task_suggestions_source_ref_present'',
         s_sourceType s \<in> {Src_human, Src_agent} \<or> s_sourceRef s \<noteq> None),
      (''task_suggestions_pending_fingerprint'',
         s_status s = Sug_pending \<longrightarrow>
           \<not> list_ex (\<lambda>u. s_projectId u = s_projectId s \<and> s_scopeFingerprint u = s_scopeFingerprint s
                       \<and> s_status u = Sug_pending) others),
      (''task_suggestions_approved_task'',
         (case s_approvedTaskId s of None \<Rightarrow> True
          | Some t \<Rightarrow> \<not> list_ex (\<lambda>u. s_approvedTaskId u = Some t) others)),
      (''task_suggestions_roadmap_item_project_fk'', roadmap_ref_ok d (s_roadmapItemId s) (s_projectId s)),
      (''task_suggestions.project_id'', has_key p_id (s_projectId s) (projects d)),
      (''task_suggestions.approved_task_id'', opt_ref t_id (s_approvedTaskId s) (tasks d))]"

definition insert_suggestion :: "suggestion_row \<Rightarrow> db \<Rightarrow> db outcome" where
  "insert_suggestion s d =
     rbind (insert_row
       (suggestion_checks d (taskSuggestions d) s
        @ [(''task_suggestions.id'', \<not> has_key s_id (s_id s) (taskSuggestions d)),
           (''task_suggestions.superseded_by_id'', opt_ref s_id (s_supersededById s) (taskSuggestions d))])
       s (taskSuggestions d))
     (\<lambda>rows. Inr (d\<lparr>taskSuggestions := rows\<rparr>))"

definition suggestion_update_triggers ::
  "db \<Rightarrow> suggestion_row \<Rightarrow> suggestion_row \<Rightarrow> (string \<times> bool) list" where
  "suggestion_update_triggers d old new =
     [(''task_suggestions_immutable_provenance'',
         s_projectId old = s_projectId new \<and> s_scopeFingerprint old = s_scopeFingerprint new
         \<and> s_sourceType old = s_sourceType new \<and> s_sourceRef old = s_sourceRef new),
      (''task_suggestions_no_status_reassignment'',
         s_status old \<noteq> Sug_pending \<longrightarrow> s_status new = s_status old),
      (''task_suggestions_no_task_reassignment'',
         s_approvedTaskId old \<noteq> None \<longrightarrow> s_approvedTaskId new = s_approvedTaskId old)]
     @ suggestion_checks d (filter (\<lambda>u. s_id u \<noteq> s_id old) (taskSuggestions d)) new
     @ [(''task_suggestions.superseded_by_id'', opt_ref s_id (s_supersededById new) (taskSuggestions d))]"

definition update_suggestions ::
  "clock \<Rightarrow> (suggestion_row \<Rightarrow> bool) \<Rightarrow> (suggestion_row \<Rightarrow> suggestion_row) \<Rightarrow> db \<Rightarrow> (db \<times> nat) outcome" where
  "update_suggestions ck P f d =
     rbind (update_rows (suggestion_update_triggers d) P
              (\<lambda>s. (f s)\<lparr>s_updatedAt := svc_now ck\<rparr>) (taskSuggestions d))
       (\<lambda>(rows, n). Inr (d\<lparr>taskSuggestions := rows\<rparr>, n))"

section \<open>Claims\<close>

definition last_attempt :: "db \<Rightarrow> string \<Rightarrow> nat" where
  "last_attempt d taskId = foldr (\<lambda>c m. if c_taskId c = taskId then max (c_attempt c) m else m) (taskClaims d) 0"

definition claim_insert_constraints :: "db \<Rightarrow> claim_row \<Rightarrow> (string \<times> bool) list" where
  "claim_insert_constraints d c =
     [(''task_claims_insert_fenced_queued'',
         (case lookup_row t_id (c_taskId c) (tasks d) of None \<Rightarrow> True | Some t \<Rightarrow> t_status t = St_queued)),
      (''task_claims_insert_fenced_attempt'', c_attempt c = last_attempt d (c_taskId c) + 1),
      (''task_claims_attempt_positive'', c_attempt c \<ge> 1),
      (''task_claims.id'', \<not> has_key c_id (c_id c) (taskClaims d)),
      (''task_claims_task_attempt'',
         \<not> list_ex (\<lambda>u. c_taskId u = c_taskId c \<and> c_attempt u = c_attempt c) (taskClaims d)),
      (''task_claims_one_active'',
         c_status c = Clm_active \<longrightarrow> \<not> has_active_claim d (c_taskId c)),
      (''task_claims.task_id'', has_key t_id (c_taskId c) (tasks d))]"

definition insert_claim :: "claim_row \<Rightarrow> db \<Rightarrow> db outcome" where
  "insert_claim c d =
     rbind (insert_row (claim_insert_constraints d c) c (taskClaims d))
       (\<lambda>rows. Inr (d\<lparr>taskClaims := rows\<rparr>))"

text \<open>
  The update triggers on claims. \<^verbatim>\<open>task_claims_no_expired_heartbeat\<close> is an
  \<^verbatim>\<open>UPDATE OF heartbeat_at, lease_expires_at\<close> trigger on rows that stay active; the only
  update of the code that leaves a claim active is the heartbeat, which sets both columns.
\<close>

definition claim_update_triggers :: "clock \<Rightarrow> db \<Rightarrow> claim_row \<Rightarrow> claim_row \<Rightarrow> (string \<times> bool) list" where
  "claim_update_triggers ck d old new =
     [(''task_claims_immutable_identity'',
         c_taskId old = c_taskId new \<and> c_attempt old = c_attempt new
         \<and> c_workerId old = c_workerId new \<and> c_createdAt old = c_createdAt new),
      (''task_claims_terminal_status'',
         c_status old \<noteq> Clm_active \<longrightarrow> c_status new = c_status old),
      (''task_claims_no_expired_heartbeat'',
         c_status old = Clm_active \<and> c_status new = Clm_active \<longrightarrow>
           c_leaseExpiresAt old > sql_now ck \<and> c_heartbeatAt new \<ge> c_heartbeatAt old
           \<and> c_leaseExpiresAt new > c_leaseExpiresAt old),
      (''task_claims_status_transition_expired'',
         c_status new \<noteq> c_status old \<and> c_status new = Clm_expired \<longrightarrow> c_leaseExpiresAt old \<le> sql_now ck),
      (''task_claims_status_transition_closed'',
         c_status new \<noteq> c_status old \<and> c_status new \<in> {Clm_completed, Clm_released} \<longrightarrow>
           c_leaseExpiresAt old > sql_now ck
           \<and> list_ex (\<lambda>t. t_id t = c_taskId old \<and> t_mutationClaimId t = Some (c_id old)
                        \<and> t_mutationWorkerId t = Some (c_workerId old)) (tasks d))]"

definition update_claims ::
  "clock \<Rightarrow> (claim_row \<Rightarrow> bool) \<Rightarrow> (claim_row \<Rightarrow> claim_row) \<Rightarrow> db \<Rightarrow> (db \<times> nat) outcome" where
  "update_claims ck P f d =
     rbind (update_rows (claim_update_triggers ck d) P
              (\<lambda>c. (f c)\<lparr>c_updatedAt := svc_now ck\<rparr>) (taskClaims d))
       (\<lambda>(rows, n). Inr (d\<lparr>taskClaims := rows\<rparr>, n))"

section \<open>Decisions\<close>

text \<open>SQLite's \<^verbatim>\<open>json_extract(doc, '$.a.b')\<close> on a column; NULL for an absent path.\<close>

fun jpath :: "string list \<Rightarrow> json \<Rightarrow> json option" where
  "jpath [] j = Some j"
| "jpath (k # ks) j = (case jget k j of None \<Rightarrow> None | Some v \<Rightarrow> jpath ks v)"

definition column_path :: "string list \<Rightarrow> json_text option \<Rightarrow> json option" where
  "column_path ks c = (case c of Some (Json_doc j) \<Rightarrow> jpath ks j | _ \<Rightarrow> None)"

definition paid_billing :: "billing_mode \<Rightarrow> bool" where
  "paid_billing b = (b = Bill_usage_credits \<or> b = Bill_api_billing)"

fun purpose_name :: "run_purpose \<Rightarrow> string" where
  "purpose_name Pur_implementation = ''implementation''"
| "purpose_name Pur_verification = ''verification''"
| "purpose_name Pur_review = ''review''"
| "purpose_name Pur_repair = ''repair''"
| "purpose_name Pur_analysis = ''analysis''"

definition provider_name :: "db \<Rightarrow> string \<Rightarrow> string option" where
  "provider_name d providerId = map_option ap_name (lookup_row ap_id providerId (agentProviders d))"

definition scope_matches_run :: "db \<Rightarrow> decision_row \<Rightarrow> run_row \<Rightarrow> bool" where
  "scope_matches_run d dec r =
     (case provider_name d (r_providerId r) of None \<Rightarrow> False
      | Some n \<Rightarrow>
          column_path [''scope'', ''provider''] (d_contextJson dec) = Some (JStr n)
          \<and> column_path [''scope'', ''modelRef''] (d_contextJson dec) = Some (JStr (r_modelRef r))
          \<and> column_path [''scope'', ''purpose''] (d_contextJson dec)
              = Some (JStr (purpose_name (r_purpose r))))"

definition task_project :: "db \<Rightarrow> string \<Rightarrow> string option" where
  "task_project d taskId = map_option t_projectId (lookup_row t_id taskId (tasks d))"

text \<open>The one update a resolved decision admits: its consumption by the paid run that cites it.\<close>

definition consumption_stamp_ok :: "db \<Rightarrow> decision_row \<Rightarrow> decision_row \<Rightarrow> bool" where
  "consumption_stamp_ok d old new =
     (d_consumedByRunId old = None \<and> d_consumedByRunId new \<noteq> None
      \<and> new = old\<lparr>d_consumedByRunId := d_consumedByRunId new, d_updatedAt := d_updatedAt new\<rparr>
      \<and> list_ex (\<lambda>r. Some (r_id r) = d_consumedByRunId new
           \<and> r_paidUsageDecisionId r = Some (d_id old) \<and> paid_billing (r_billingMode r)
           \<and> d_taskId old = Some (r_taskId r)
           \<and> d_projectId old \<noteq> None \<and> d_projectId old = task_project d (r_taskId r)
           \<and> scope_matches_run d old r) (agentRuns d))"

definition decision_update_triggers :: "db \<Rightarrow> decision_row \<Rightarrow> decision_row \<Rightarrow> (string \<times> bool) list" where
  "decision_update_triggers d old new =
     [(''decision_requests_resolved_immutable'',
         d_status old \<in> {Dec_approved, Dec_rejected, Dec_expired} \<longrightarrow> consumption_stamp_ok d old new),
      (''decision_requests_resolved_has_time'',
         d_status new \<in> {Dec_approved, Dec_rejected} \<longrightarrow> d_resolvedAt new \<noteq> None),
      (''decision_requests_consumed_by_run'',
         (case d_consumedByRunId new of None \<Rightarrow> True
          | Some r \<Rightarrow> \<not> list_ex (\<lambda>u. d_id u \<noteq> d_id old \<and> d_consumedByRunId u = Some r)
                         (decisionRequests d)))]"

definition update_decisions ::
  "(decision_row \<Rightarrow> bool) \<Rightarrow> (decision_row \<Rightarrow> decision_row) \<Rightarrow> db \<Rightarrow> (db \<times> nat) outcome" where
  "update_decisions P f d =
     rbind (update_rows (decision_update_triggers d) P f (decisionRequests d))
       (\<lambda>(rows, n). Inr (d\<lparr>decisionRequests := rows\<rparr>, n))"

definition insert_decision :: "decision_row \<Rightarrow> db \<Rightarrow> db outcome" where
  "insert_decision dec d =
     rbind (insert_row
       [(''decision_requests_resolved_has_time'',
           d_status dec \<in> {Dec_approved, Dec_rejected} \<longrightarrow> d_resolvedAt dec \<noteq> None),
        (''decision_requests.id'', \<not> has_key d_id (d_id dec) (decisionRequests d)),
        (''decision_requests.project_id'', opt_ref p_id (d_projectId dec) (projects d)),
        (''decision_requests.task_id'', opt_ref t_id (d_taskId dec) (tasks d))]
       dec (decisionRequests d))
     (\<lambda>rows. Inr (d\<lparr>decisionRequests := rows\<rparr>))"

definition insert_consumption :: "consumption_row \<Rightarrow> db \<Rightarrow> db outcome" where
  "insert_consumption pc d =
     rbind (insert_row
       [(''provider_action_consumptions.id'', \<not> has_key pc_id (pc_id pc) (providerActionConsumptions d)),
        (''provider_action_consumptions.decision_id'',
           \<not> has_key pc_decisionId (pc_decisionId pc) (providerActionConsumptions d)),
        (''provider_action_consumptions.consumer_id'',
           \<not> has_key pc_consumerId (pc_consumerId pc) (providerActionConsumptions d)),
        (''provider_action_consumptions.decision_fk'', has_key d_id (pc_decisionId pc) (decisionRequests d))]
       pc (providerActionConsumptions d))
     (\<lambda>rows. Inr (d\<lparr>providerActionConsumptions := rows\<rparr>))"

section \<open>Agent runs\<close>

definition progressive_head_ok :: "db \<Rightarrow> run_row \<Rightarrow> bool" where
  "progressive_head_ok d r =
     (r_purpose r \<in> {Pur_verification, Pur_implementation, Pur_repair, Pur_review} \<longrightarrow>
        (case lookup_row t_id (r_taskId r) (tasks d) of None \<Rightarrow> True
         | Some t \<Rightarrow>
           (case column_path [''progressiveValidation''] (t_completionCriteriaSnapshotJson t) of
              Some (JObj kvs) \<Rightarrow>
                (case r_sourceHead r of None \<Rightarrow> False
                 | Some h \<Rightarrow> (case jget ''candidateHead'' (JObj kvs) of None \<Rightarrow> True
                            | Some JNull \<Rightarrow> True
                            | Some v \<Rightarrow> v = JStr h))
            | _ \<Rightarrow> True)))"

definition paid_decision_ok :: "clock \<Rightarrow> db \<Rightarrow> run_row \<Rightarrow> bool" where
  "paid_decision_ok ck d r =
     (paid_billing (r_billingMode r) \<longrightarrow>
        list_ex (\<lambda>dec. Some (d_id dec) = r_paidUsageDecisionId r \<and> d_status dec = Dec_approved
          \<and> d_category dec = ''paid_usage'' \<and> d_taskId dec = Some (r_taskId r)
          \<and> d_projectId dec \<noteq> None \<and> d_projectId dec = task_project d (r_taskId r)
          \<and> d_consumedByRunId dec = None
          \<and> (case d_expiresAt dec of None \<Rightarrow> False | Some x \<Rightarrow> x > sql_now ck)
          \<and> scope_matches_run d dec r) (decisionRequests d))"

definition run_insert_constraints :: "clock \<Rightarrow> db \<Rightarrow> run_row \<Rightarrow> (string \<times> bool) list" where
  "run_insert_constraints ck d r =
     [(''agent_runs_billing_known'', r_billingMode r \<noteq> Bill_unknown),
      (''agent_runs_billing_matches_model'',
         list_ex (\<lambda>m. am_providerId m = r_providerId r \<and> am_modelRef m = r_modelRef r
           \<and> am_billingMode m = r_billingMode r \<and> am_billingMode m \<noteq> Bill_unknown) (agentModels d)),
      (''agent_runs_paid_requires_approved_decision'', paid_decision_ok ck d r),
      (''agent_runs_free_forbids_paid_decision'',
         \<not> paid_billing (r_billingMode r) \<longrightarrow> r_paidUsageDecisionId r = None),
      (''agent_runs_claim_fence_insert'',
         r_claimId r \<noteq> None \<or> r_claimWorkerId r \<noteq> None \<longrightarrow>
           live_fence ck d (r_taskId r) (r_claimId r) (r_claimWorkerId r)),
      (''agent_runs_progressive_head_insert'', progressive_head_ok d r),
      (''agent_runs_source_head_valid'',
         (case r_sourceHead r of None \<Rightarrow> True | Some h \<Rightarrow> is_sha40 h)),
      (''agent_runs.id'', \<not> has_key r_id (r_id r) (agentRuns d)),
      (''agent_runs.task_id'', has_key t_id (r_taskId r) (tasks d)),
      (''agent_runs.claim_id'', opt_ref c_id (r_claimId r) (taskClaims d)),
      (''agent_runs.provider_id'', has_key ap_id (r_providerId r) (agentProviders d)),
      (''agent_runs.model_id'', opt_ref am_id (r_modelId r) (agentModels d)),
      (''agent_runs.paid_usage_decision_id'', opt_ref d_id (r_paidUsageDecisionId r) (decisionRequests d))]"

text \<open>
  The insert, then the AFTER INSERT trigger \<^verbatim>\<open>agent_runs_consume_paid_decision\<close>: a paid
  run stamps its decision, exactly once.
\<close>

definition insert_run :: "clock \<Rightarrow> run_row \<Rightarrow> db \<Rightarrow> db outcome" where
  "insert_run ck r d =
     rbind (insert_row (run_insert_constraints ck d r) r (agentRuns d)) (\<lambda>rows.
       let d' = d\<lparr>agentRuns := rows\<rparr> in
       if paid_billing (r_billingMode r) then
         rbind (update_decisions
                  (\<lambda>dec. Some (d_id dec) = r_paidUsageDecisionId r \<and> d_consumedByRunId dec = None)
                  (\<lambda>dec. dec\<lparr>d_consumedByRunId := Some (r_id r)\<rparr>) d')
           (\<lambda>(d'', n). if n \<noteq> 1 then Inl (Constraint_failed ''agent_runs_consume_paid_decision'')
                        else Inr d'')
       else Inr d')"

definition run_update_triggers :: "clock \<Rightarrow> db \<Rightarrow> run_row \<Rightarrow> run_row \<Rightarrow> (string \<times> bool) list" where
  "run_update_triggers ck d old new =
     [(''agent_runs_authority_immutable'',
         r_taskId new = r_taskId old \<and> r_claimId new = r_claimId old \<and> r_providerId new = r_providerId old
         \<and> r_modelId new = r_modelId old \<and> r_modelRef new = r_modelRef old \<and> r_purpose new = r_purpose old
         \<and> r_billingMode new = r_billingMode old \<and> r_routingReason new = r_routingReason old
         \<and> r_paidUsageDecisionId new = r_paidUsageDecisionId old
         \<and> r_independenceLoss new = r_independenceLoss old
         \<and> r_allowanceState new = r_allowanceState old \<and> r_worktreeId new = r_worktreeId old),
      (''agent_runs_source_head_immutable'', r_sourceHead new = r_sourceHead old),
      (''agent_runs_status_fenced_by_claim'',
         r_claimId new \<noteq> None \<longrightarrow> live_fence ck d (r_taskId new) (r_claimId new) (r_claimWorkerId new))]"

definition update_runs ::
  "clock \<Rightarrow> (run_row \<Rightarrow> bool) \<Rightarrow> (run_row \<Rightarrow> run_row) \<Rightarrow> db \<Rightarrow> (db \<times> nat) outcome" where
  "update_runs ck P f d =
     rbind (update_rows (run_update_triggers ck d) P (\<lambda>r. (f r)\<lparr>r_updatedAt := svc_now ck\<rparr>) (agentRuns d))
       (\<lambda>(rows, n). Inr (d\<lparr>agentRuns := rows\<rparr>, n))"

section \<open>Run events, verification runs, evidence and usage\<close>

definition insert_run_event :: "clock \<Rightarrow> run_event_row \<Rightarrow> db \<Rightarrow> db outcome" where
  "insert_run_event ck ev d =
     rbind (insert_row
       [(''agent_run_events_fenced_by_claim'',
           run_claim_bound d (Some (ev_runId ev)) \<longrightarrow> run_fence_live ck d (Some (ev_runId ev))),
        (''agent_run_events.id'', \<not> has_key ev_id (ev_id ev) (agentRunEvents d)),
        (''agent_run_events_run_seq'',
           \<not> list_ex (\<lambda>u. ev_runId u = ev_runId ev \<and> ev_seq u = ev_seq ev) (agentRunEvents d)),
        (''agent_run_events_run_key'',
           ev_eventKey ev \<noteq> None \<longrightarrow>
             \<not> list_ex (\<lambda>u. ev_runId u = ev_runId ev \<and> ev_eventKey u = ev_eventKey ev) (agentRunEvents d)),
        (''agent_run_events.run_id'', has_key r_id (ev_runId ev) (agentRuns d))]
       ev (agentRunEvents d))
     (\<lambda>rows. Inr (d\<lparr>agentRunEvents := rows\<rparr>))"

definition insert_verification :: "clock \<Rightarrow> verification_row \<Rightarrow> db \<Rightarrow> db outcome" where
  "insert_verification ck v d =
     rbind (insert_row
       [(''verification_runs_passed_consistent_insert'',
           v_status v = Ver_passed \<longrightarrow>
             v_exitCode v = Some 0 \<and> v_startedAt v \<noteq> None \<and> v_endedAt v \<noteq> None),
        (''verification_runs_fenced_by_claim'', task_write_fenced ck d (v_taskId v) (v_agentRunId v)),
        (''verification_runs.id'', \<not> has_key v_id (v_id v) (verificationRuns d)),
        (''verification_runs.task_id'', has_key t_id (v_taskId v) (tasks d)),
        (''verification_runs_run_same_task_fk'',
           (case v_agentRunId v of None \<Rightarrow> True
            | Some i \<Rightarrow> list_ex (\<lambda>r. r_id r = i \<and> r_taskId r = v_taskId v) (agentRuns d)))]
       v (verificationRuns d))
     (\<lambda>rows. Inr (d\<lparr>verificationRuns := rows\<rparr>))"

definition insert_evidence :: "clock \<Rightarrow> evidence_row \<Rightarrow> db \<Rightarrow> db outcome" where
  "insert_evidence ck e d =
     rbind (insert_row
       [(''evidence_verification_ref_valid'',
           e_kind e = Evk_verification_run \<longrightarrow>
             list_ex (\<lambda>v. Some (v_id v) = e_ref e \<and> v_taskId v = e_taskId e) (verificationRuns d)),
        (''evidence_review_ref_valid'',
           e_kind e = Evk_review \<longrightarrow>
             list_ex (\<lambda>f. Some (f_id f) = e_ref e \<and> f_taskId f = e_taskId e) (reviewFindings d)
             \<or> list_ex (\<lambda>r. Some (r_id r) = e_ref e \<and> r_taskId r = e_taskId e
                          \<and> r_purpose r = Pur_review) (agentRuns d)),
        (''evidence_fenced_by_claim'', task_write_fenced ck d (e_taskId e) (e_agentRunId e)),
        (''evidence_linked_kinds_have_ref'',
           e_kind e \<in> {Evk_verification_run, Evk_review} \<longrightarrow> e_ref e \<noteq> None),
        (''evidence.id'', \<not> has_key e_id (e_id e) (evidences d)),
        (''evidence.task_id'', has_key t_id (e_taskId e) (tasks d))]
       e (evidences d))
     (\<lambda>rows. Inr (d\<lparr>evidences := rows\<rparr>))"

definition insert_usage :: "clock \<Rightarrow> usage_row \<Rightarrow> db \<Rightarrow> db outcome" where
  "insert_usage ck u d =
     rbind (insert_row
       [(''usage_observations_fenced_by_claim'',
           run_claim_bound d (u_agentRunId u) \<longrightarrow> run_fence_live ck d (u_agentRunId u)),
        (''usage_observations.id'', \<not> has_key u_id (u_id u) (usageObservations d)),
        (''usage_observations.provider_id'', has_key ap_id (u_providerId u) (agentProviders d)),
        (''usage_observations.model_id'', opt_ref am_id (u_modelId u) (agentModels d)),
        (''usage_observations.agent_run_id'', opt_ref r_id (u_agentRunId u) (agentRuns d))]
       u (usageObservations d))
     (\<lambda>rows. Inr (d\<lparr>usageObservations := rows\<rparr>))"

section \<open>Frame and shape of the write boundary\<close>

lemma insert_task_InrD: "insert_task t d = Inr d' \<Longrightarrow> d' = d\<lparr>tasks := tasks d @ [t]\<rparr>"
  by (auto simp: insert_task_def insert_row_Inr_iff rbind_eq_Inr)

lemma insert_claim_InrD: "insert_claim c d = Inr d' \<Longrightarrow> d' = d\<lparr>taskClaims := taskClaims d @ [c]\<rparr>"
  by (auto simp: insert_claim_def insert_row_Inr_iff rbind_eq_Inr)

lemma insert_dependency_InrD:
  "insert_dependency td d = Inr d' \<Longrightarrow> d' = d\<lparr>taskDependencies := taskDependencies d @ [td]\<rparr>"
  by (auto simp: insert_dependency_def insert_row_Inr_iff rbind_eq_Inr)

lemma insert_suggestion_InrD:
  "insert_suggestion s d = Inr d' \<Longrightarrow> d' = d\<lparr>taskSuggestions := taskSuggestions d @ [s]\<rparr>"
  by (auto simp: insert_suggestion_def insert_row_Inr_iff rbind_eq_Inr)

lemma insert_decision_InrD:
  "insert_decision x d = Inr d' \<Longrightarrow> d' = d\<lparr>decisionRequests := decisionRequests d @ [x]\<rparr>"
  by (auto simp: insert_decision_def insert_row_Inr_iff rbind_eq_Inr)

lemma insert_consumption_InrD:
  "insert_consumption x d = Inr d' \<Longrightarrow>
     d' = d\<lparr>providerActionConsumptions := providerActionConsumptions d @ [x]\<rparr>"
  by (auto simp: insert_consumption_def insert_row_Inr_iff rbind_eq_Inr)

lemma insert_run_event_InrD:
  "insert_run_event ck x d = Inr d' \<Longrightarrow> d' = d\<lparr>agentRunEvents := agentRunEvents d @ [x]\<rparr>"
  by (auto simp: insert_run_event_def insert_row_Inr_iff rbind_eq_Inr)

lemma insert_verification_InrD:
  "insert_verification ck x d = Inr d' \<Longrightarrow> d' = d\<lparr>verificationRuns := verificationRuns d @ [x]\<rparr>"
  by (auto simp: insert_verification_def insert_row_Inr_iff rbind_eq_Inr)

lemma insert_evidence_InrD:
  "insert_evidence ck x d = Inr d' \<Longrightarrow> d' = d\<lparr>evidences := evidences d @ [x]\<rparr>"
  by (auto simp: insert_evidence_def insert_row_Inr_iff rbind_eq_Inr)

lemma insert_usage_InrD:
  "insert_usage ck x d = Inr d' \<Longrightarrow> d' = d\<lparr>usageObservations := usageObservations d @ [x]\<rparr>"
  by (auto simp: insert_usage_def insert_row_Inr_iff rbind_eq_Inr)

lemmas insert_InrD = insert_task_InrD insert_claim_InrD insert_dependency_InrD
  insert_suggestion_InrD insert_decision_InrD insert_consumption_InrD insert_run_event_InrD
  insert_verification_InrD insert_evidence_InrD insert_usage_InrD

lemma update_tasks_InrD:
  "update_tasks ck P f d = Inr (d', n) \<Longrightarrow>
     d' = d\<lparr>tasks := update_where P (\<lambda>t. (f t)\<lparr>t_updatedAt := svc_now ck\<rparr>) (tasks d)\<rparr>
     \<and> n = count_where P (tasks d)
     \<and> (\<forall>t \<in> set (tasks d). P t \<longrightarrow>
          list_all snd (task_update_triggers ck d t ((f t)\<lparr>t_updatedAt := svc_now ck\<rparr>)))"
  by (auto simp: update_tasks_def update_rows_Inr_iff rbind_eq_Inr)

lemma update_claims_InrD:
  "update_claims ck P f d = Inr (d', n) \<Longrightarrow>
     d' = d\<lparr>taskClaims := update_where P (\<lambda>c. (f c)\<lparr>c_updatedAt := svc_now ck\<rparr>) (taskClaims d)\<rparr>
     \<and> n = count_where P (taskClaims d)
     \<and> (\<forall>c \<in> set (taskClaims d). P c \<longrightarrow>
          list_all snd (claim_update_triggers ck d c ((f c)\<lparr>c_updatedAt := svc_now ck\<rparr>)))"
  by (auto simp: update_claims_def update_rows_Inr_iff rbind_eq_Inr)

lemma update_suggestions_InrD:
  "update_suggestions ck P f d = Inr (d', n) \<Longrightarrow>
     d' = d\<lparr>taskSuggestions := update_where P (\<lambda>s. (f s)\<lparr>s_updatedAt := svc_now ck\<rparr>) (taskSuggestions d)\<rparr>
     \<and> n = count_where P (taskSuggestions d)
     \<and> (\<forall>s \<in> set (taskSuggestions d). P s \<longrightarrow>
          list_all snd (suggestion_update_triggers d s ((f s)\<lparr>s_updatedAt := svc_now ck\<rparr>)))"
  by (auto simp: update_suggestions_def update_rows_Inr_iff rbind_eq_Inr)

lemma update_decisions_InrD:
  "update_decisions P f d = Inr (d', n) \<Longrightarrow>
     d' = d\<lparr>decisionRequests := update_where P f (decisionRequests d)\<rparr>
     \<and> n = count_where P (decisionRequests d)
     \<and> (\<forall>x \<in> set (decisionRequests d). P x \<longrightarrow> list_all snd (decision_update_triggers d x (f x)))"
  by (auto simp: update_decisions_def update_rows_Inr_iff rbind_eq_Inr)

lemma update_runs_InrD:
  "update_runs ck P f d = Inr (d', n) \<Longrightarrow>
     d' = d\<lparr>agentRuns := update_where P (\<lambda>r. (f r)\<lparr>r_updatedAt := svc_now ck\<rparr>) (agentRuns d)\<rparr>
     \<and> n = count_where P (agentRuns d)
     \<and> (\<forall>r \<in> set (agentRuns d). P r \<longrightarrow>
          list_all snd (run_update_triggers ck d r ((f r)\<lparr>r_updatedAt := svc_now ck\<rparr>)))"
  by (auto simp: update_runs_def update_rows_Inr_iff rbind_eq_Inr)

lemmas update_InrD = update_tasks_InrD update_claims_InrD update_suggestions_InrD
  update_decisions_InrD update_runs_InrD

text \<open>An update whose WHERE clause names the primary key of a stored row changes one row.\<close>

lemma count_key:
  "unique_by key rows \<Longrightarrow> r \<in> set rows \<Longrightarrow> P r \<Longrightarrow>
     count_where (\<lambda>s. key s = key r \<and> P s) rows = 1"
  by (rule count_where_key [where key = key and r = r]) auto

lemma last_attempt_ge: "c \<in> set (taskClaims d) \<Longrightarrow> c_taskId c = t \<Longrightarrow> c_attempt c \<le> last_attempt d t"
proof -
  have "c \<in> set cs \<Longrightarrow> c_taskId c = t \<Longrightarrow>
      c_attempt c \<le> foldr (\<lambda>c m. if c_taskId c = t then max (c_attempt c) m else m) cs 0" for cs
    by (induction cs) auto
  then show "c \<in> set (taskClaims d) \<Longrightarrow> c_taskId c = t \<Longrightarrow> c_attempt c \<le> last_attempt d t"
    by (simp add: last_attempt_def)
qed

end
