(* ===== verification/Completion.thy ===== *)
theory Completion
  imports Store "HOL-Library.Monad_Syntax"
begin

text \<open>
  The completion proof set of src/domain/completion.ts: the schema of a task's completion
  criteria (a decoder that accepts what the zod schema accepts), the evaluation of the
  proof over the database, and the promotion proof of a canonical task.
\<close>

section \<open>Completion criteria\<close>

record progressive_validation =
  pg_riskSpecificChecks :: "string list"
  pg_broaderValidationTriggers :: "broader_validation_trigger list"
  pg_repositoryPolicyRequiresBroadValidation :: bool
  pg_review :: review_level
  pg_candidateHead :: "string option"
  pg_broadValidationJustification :: "(string \<times> string) option"

record completion_criteria =
  cc_minPassedVerificationRuns :: nat
  cc_requireArtifact :: bool
  cc_requiredDecisionCategories :: "string list"
  cc_progressiveValidation :: "progressive_validation option"

text \<open>
  Decoders in the order of the schema. \<open>strict_keys\<close> is \<^verbatim>\<open>.strict()\<close>; \<open>field_or\<close> is
  \<^verbatim>\<open>.default(v)\<close>, which applies to an absent key only; \<open>field_opt\<close> is \<^verbatim>\<open>.optional()\<close>.
\<close>

definition strict_keys :: "string list \<Rightarrow> json \<Rightarrow> unit option" where
  "strict_keys keys j =
     (case j of JObj kvs \<Rightarrow> if list_all (\<lambda>kv. fst kv \<in> set keys) kvs then Some () else None
      | _ \<Rightarrow> None)"

definition field_or :: "string \<Rightarrow> json \<Rightarrow> 'a \<Rightarrow> (json \<Rightarrow> 'a option) \<Rightarrow> 'a option" where
  "field_or k j dflt dec = (case jget k j of None \<Rightarrow> Some dflt | Some v \<Rightarrow> dec v)"

definition field_opt :: "string \<Rightarrow> json \<Rightarrow> (json \<Rightarrow> 'a option) \<Rightarrow> 'a option option" where
  "field_opt k j dec = (case jget k j of None \<Rightarrow> Some None | Some v \<Rightarrow> map_option Some (dec v))"

definition field_req :: "string \<Rightarrow> json \<Rightarrow> (json \<Rightarrow> 'a option) \<Rightarrow> 'a option" where
  "field_req k j dec = Option.bind (jget k j) dec"

fun dec_bool :: "json \<Rightarrow> bool option" where
  "dec_bool (JBool b) = Some b"
| "dec_bool _ = None"

text \<open>\<^verbatim>\<open>z.number().int().min(1)\<close>: an integer in the safe range, at least 1.\<close>

fun dec_min_runs :: "json \<Rightarrow> nat option" where
  "dec_min_runs (JNum q) =
     (case js_int (Js_finite q) of None \<Rightarrow> None
      | Some k \<Rightarrow> if 1 \<le> k \<and> k \<le> 9007199254740991 then Some (nat k) else None)"
| "dec_min_runs _ = None"

text \<open>\<^verbatim>\<open>z.string().trim().min(1)\<close>: the parsed value is the trimmed text.\<close>

fun dec_trimmed :: "json \<Rightarrow> string option" where
  "dec_trimmed (JStr s) = (if js_trim s = [] then None else Some (js_trim s))"
| "dec_trimmed _ = None"

fun dec_array :: "(json \<Rightarrow> 'a option) \<Rightarrow> json \<Rightarrow> 'a list option" where
  "dec_array dec (JArr js) = those (map dec js)"
| "dec_array dec _ = None"

fun trigger_name :: "broader_validation_trigger \<Rightarrow> string" where
  "trigger_name Trig_blast_radius = ''blast_radius''"
| "trigger_name Trig_shared_dependency = ''shared_dependency''"
| "trigger_name Trig_insufficient_evidence = ''insufficient_evidence''"
| "trigger_name Trig_historical_regression = ''historical_regression''"
| "trigger_name Trig_promotion_policy = ''promotion_policy''"

fun dec_trigger :: "json \<Rightarrow> broader_validation_trigger option" where
  "dec_trigger (JStr s) = find (\<lambda>t. trigger_name t = s) BROADER_VALIDATION_TRIGGERS"
| "dec_trigger _ = None"

fun dec_review :: "json \<Rightarrow> review_level option" where
  "dec_review (JStr s) =
     (if s = ''none'' then Some Rev_none else if s = ''focused'' then Some Rev_focused
      else if s = ''independent'' then Some Rev_independent else None)"
| "dec_review _ = None"

fun dec_head :: "json \<Rightarrow> string option" where
  "dec_head (JStr s) = (if is_sha40 s then Some s else None)"
| "dec_head _ = None"

definition dec_justification :: "json \<Rightarrow> (string \<times> string) option" where
  "dec_justification j = do {
     strict_keys [''cost'', ''expectedInformationGain''] j;
     cost \<leftarrow> field_req ''cost'' j dec_trimmed;
     gain \<leftarrow> field_req ''expectedInformationGain'' j dec_trimmed;
     Some (cost, gain) }"

text \<open>The object schema of progressive validation, then its \<^verbatim>\<open>superRefine\<close>.\<close>

definition progressive_refined :: "progressive_validation \<Rightarrow> bool" where
  "progressive_refined p =
     (let broadRequired = (length (pg_broaderValidationTriggers p) > 0
                           \<or> pg_repositoryPolicyRequiresBroadValidation p)
      in \<not> (broadRequired \<and> pg_broadValidationJustification p = None)
         \<and> pg_candidateHead p \<noteq> None)"

definition dec_progressive :: "json \<Rightarrow> progressive_validation option" where
  "dec_progressive j = do {
     strict_keys [''riskSpecificChecks'', ''broaderValidationTriggers'',
       ''repositoryPolicyRequiresBroadValidation'', ''review'', ''candidateHead'',
       ''broadValidationJustification''] j;
     risks \<leftarrow> field_or ''riskSpecificChecks'' j [] (dec_array dec_trimmed);
     triggers \<leftarrow> field_or ''broaderValidationTriggers'' j [] (dec_array dec_trigger);
     policy \<leftarrow> field_or ''repositoryPolicyRequiresBroadValidation'' j False dec_bool;
     review \<leftarrow> field_or ''review'' j Rev_focused dec_review;
     head \<leftarrow> field_opt ''candidateHead'' j dec_head;
     just \<leftarrow> field_opt ''broadValidationJustification'' j dec_justification;
     let p = \<lparr>pg_riskSpecificChecks = risks, pg_broaderValidationTriggers = triggers,
              pg_repositoryPolicyRequiresBroadValidation = policy, pg_review = review,
              pg_candidateHead = head, pg_broadValidationJustification = just\<rparr>;
     if progressive_refined p then Some p else None }"

definition dec_criteria :: "json \<Rightarrow> completion_criteria option" where
  "dec_criteria j = do {
     strict_keys [''minPassedVerificationRuns'', ''requireArtifact'',
       ''requiredDecisionCategories'', ''progressiveValidation''] j;
     minRuns \<leftarrow> field_or ''minPassedVerificationRuns'' j 1 dec_min_runs;
     artifact \<leftarrow> field_or ''requireArtifact'' j False dec_bool;
     categories \<leftarrow> field_or ''requiredDecisionCategories'' j [] (dec_array dec_trimmed);
     progressive \<leftarrow> field_opt ''progressiveValidation'' j dec_progressive;
     Some \<lparr>cc_minPassedVerificationRuns = minRuns, cc_requireArtifact = artifact,
           cc_requiredDecisionCategories = categories,
           cc_progressiveValidation = progressive\<rparr> }"

text \<open>
  \<open>parseCompletionCriteria\<close>: null, undefined and the empty text stand for \<^verbatim>\<open>{}\<close>; a text
  that does not parse and a document the schema refuses both throw.
\<close>

definition parseCompletionCriteria :: "json_text option \<Rightarrow> completion_criteria outcome" where
  "parseCompletionCriteria text =
     (let decoded =
        (case text of
           None \<Rightarrow> dec_criteria (JObj [])
         | Some (Json_bad s) \<Rightarrow> if s = [] then dec_criteria (JObj []) else None
         | Some (Json_doc j) \<Rightarrow> dec_criteria j)
      in case decoded of None \<Rightarrow> Inl Invalid_criteria | Some c \<Rightarrow> Inr c)"

section \<open>Repository bindings and review severities\<close>

record canonical_task_binding =
  cb_taskId :: string
  cb_projectId :: string
  cb_repoPath :: string
  cb_frozenCriteriaJson :: json_text

datatype binding_failure =
  Bind_project_not_found string | Bind_no_ready_task | Bind_ambiguous nat | Bind_no_frozen_criteria

text \<open>
  \<^verbatim>\<open>resolve\<close> of node:path depends on the working directory of the process; it is the
  argument \<open>resolve_path\<close>. A criteria column holding the empty text is falsy in the code.
\<close>

definition json_truthy :: "json_text option \<Rightarrow> json_text option" where
  "json_truthy c = (case c of Some (Json_bad []) \<Rightarrow> None | _ \<Rightarrow> c)"

definition resolveCanonicalTaskBinding ::
  "(string \<Rightarrow> string) \<Rightarrow> db \<Rightarrow> string \<Rightarrow> (binding_failure, canonical_task_binding) result" where
  "resolveCanonicalTaskBinding resolve_path d repoPath =
     (let normalizedRepo = resolve_path repoPath in
      case find (\<lambda>p. resolve_path (p_repoPath p) = normalizedRepo) (projects d) of
        None \<Rightarrow> Inl (Bind_project_not_found normalizedRepo)
      | Some project \<Rightarrow>
        (case filter (\<lambda>t. t_projectId t = p_id project \<and> t_status t = St_ready_to_merge) (tasks d) of
           [] \<Rightarrow> Inl Bind_no_ready_task
         | [candidate] \<Rightarrow>
           (case json_truthy (t_completionCriteriaSnapshotJson candidate) of
              None \<Rightarrow> Inl Bind_no_frozen_criteria
            | Some criteria \<Rightarrow>
                Inr \<lparr>cb_taskId = t_id candidate, cb_projectId = p_id project,
                     cb_repoPath = p_repoPath project, cb_frozenCriteriaJson = criteria\<rparr>)
         | candidates \<Rightarrow> Inl (Bind_ambiguous (length candidates))))"

fun REVIEW_SEVERITY_STORAGE :: "review_severity \<Rightarrow> finding_severity" where
  "REVIEW_SEVERITY_STORAGE Sev_BLOCKER = Fs_critical"
| "REVIEW_SEVERITY_STORAGE Sev_IMPORTANT = Fs_minor"
| "REVIEW_SEVERITY_STORAGE Sev_NIT = Fs_info"

definition BLOCKING_STORED_REVIEW_SEVERITIES :: "finding_severity list" where
  "BLOCKING_STORED_REVIEW_SEVERITIES = [Fs_critical, Fs_major]"

definition reviewSeverityFromStorage :: "finding_severity \<Rightarrow> review_severity" where
  "reviewSeverityFromStorage s =
     (if s = Fs_critical \<or> s = Fs_major then Sev_BLOCKER
      else if s = Fs_minor then Sev_IMPORTANT else Sev_NIT)"

section \<open>Evaluating the proof set\<close>

fun check_name :: "validation_check \<Rightarrow> string" where
  "check_name Chk_focused_tests = ''focused_tests''"
| "check_name Chk_cheapest_compile_type_or_build = ''cheapest_compile_type_or_build''"
| "check_name Chk_critical_path_behavior = ''critical_path_behavior''"
| "check_name Chk_risk_specific_checks = ''risk_specific_checks''"
| "check_name Chk_broader_validation = ''broader_validation''"

text \<open>
  The SELECT DISTINCT over verification runs, their agent run of the same task and an
  evidence row citing them.
\<close>

type_synonym verification_fact = "string \<times> string option \<times> string option"

definition qualifyingVerifications :: "db \<Rightarrow> string \<Rightarrow> verification_fact list" where
  "qualifyingVerifications d taskId =
     remdups
       (concat (map (\<lambda>v. concat (map (\<lambda>r.
          if Some (r_id r) = v_agentRunId v \<and> r_taskId r = v_taskId v
             \<and> list_ex (\<lambda>e. e_ref e = Some (v_id v) \<and> e_kind e = Evk_verification_run
                          \<and> e_taskId e = v_taskId v) (evidences d)
             \<and> v_taskId v = taskId \<and> v_status v = Ver_passed \<and> v_exitCode v = Some 0
             \<and> v_startedAt v \<noteq> None \<and> v_endedAt v \<noteq> None \<and> r_status r = Run_succeeded
          then [(v_id v, v_validationSubject v, r_sourceHead r)] else []) (agentRuns d)))
        (verificationRuns d)))"

definition head_matches :: "string option \<Rightarrow> string option \<Rightarrow> bool" where
  "head_matches candidate sourceHead =
     (case candidate of None \<Rightarrow> False | Some h \<Rightarrow> sourceHead = Some h)"

definition effectiveVerifications :: "completion_criteria \<Rightarrow> db \<Rightarrow> string \<Rightarrow> verification_fact list" where
  "effectiveVerifications criteria d taskId =
     (case cc_progressiveValidation criteria of
        None \<Rightarrow> qualifyingVerifications d taskId
      | Some p \<Rightarrow> filter (\<lambda>(_, _, h). head_matches (pg_candidateHead p) h)
                   (qualifyingVerifications d taskId))"

definition openBlockingFindings :: "db \<Rightarrow> string \<Rightarrow> nat" where
  "openBlockingFindings d taskId =
     count_where (\<lambda>f. f_taskId f = taskId \<and> f_status f = Fst_open
       \<and> f_severity f \<in> set BLOCKING_STORED_REVIEW_SEVERITIES) (reviewFindings d)"

definition truthy :: "string option \<Rightarrow> bool" where
  "truthy s = (case s of None \<Rightarrow> False | Some x \<Rightarrow> x \<noteq> [])"

definition implementationRuns :: "db \<Rightarrow> string \<Rightarrow> progressive_validation \<Rightarrow> run_row list" where
  "implementationRuns d taskId p =
     (if truthy (pg_candidateHead p)
      then filter (\<lambda>r. r_taskId r = taskId \<and> r_purpose r \<in> {Pur_implementation, Pur_repair}
              \<and> r_status r = Run_succeeded \<and> r_sourceHead r = pg_candidateHead p) (agentRuns d)
      else [])"

definition authoritative_pair ::
  "db \<Rightarrow> string \<Rightarrow> progressive_validation \<Rightarrow> run_row \<Rightarrow> receipt_row \<Rightarrow> bool" where
  "authoritative_pair d taskId p review a =
     (rr_taskId a = Some taskId \<and> rr_runId a = r_id review
      \<and> (case rr_reviewedRunId a of None \<Rightarrow> False
         | Some i \<Rightarrow> i \<in> set (map r_id (implementationRuns d taskId p)))
      \<and> pg_candidateHead p = Some (rr_sourceHead a) \<and> rr_verdict a = Verdict_pass)"

definition reviewPassed :: "bool \<Rightarrow> db \<Rightarrow> string \<Rightarrow> progressive_validation \<Rightarrow> bool" where
  "reviewPassed requireProvenance d taskId p =
     (pg_review p = Rev_none
      \<or> (list_ex (\<lambda>review.
            r_taskId review = taskId \<and> r_purpose review = Pur_review \<and> r_status review = Run_succeeded
            \<and> (\<not> truthy (pg_candidateHead p) \<or> r_sourceHead review = pg_candidateHead p)
            \<and> (pg_review p \<noteq> Rev_independent \<or> \<not> requireProvenance
               \<or> (r_independenceLoss review = None
                  \<and> list_ex (authoritative_pair d taskId p review) (independentReviewReceipts d))))
           (agentRuns d)
         \<and> (pg_review p \<noteq> Rev_independent \<or> implementationRuns d taskId p \<noteq> [])))"

definition provenSubjects :: "verification_fact list \<Rightarrow> string list" where
  "provenSubjects vs = concat (map (\<lambda>(_, s, _). case s of None \<Rightarrow> [] | Some x \<Rightarrow> [x]) vs)"

definition progressive_plan :: "progressive_validation \<Rightarrow> validation_plan" where
  "progressive_plan p =
     planProgressiveValidation (pg_riskSpecificChecks p)
       (\<lambda>t. t \<in> set (pg_broaderValidationTriggers p))
       (pg_repositoryPolicyRequiresBroadValidation p)"

definition missingRiskChecks :: "progressive_validation \<Rightarrow> string list \<Rightarrow> string list" where
  "missingRiskChecks p proven =
     filter (\<lambda>c. (''risk_specific_check:'' @ c) \<notin> set proven) (pg_riskSpecificChecks p)"

definition missingChecks :: "progressive_validation \<Rightarrow> string list \<Rightarrow> validation_check list" where
  "missingChecks p proven =
     filter (\<lambda>c. check_name c \<notin> set proven)
       (filter (\<lambda>c. c \<noteq> Chk_risk_specific_checks) (vp_requiredChecks (progressive_plan p)))"

definition progressive_failures ::
  "bool \<Rightarrow> db \<Rightarrow> string \<Rightarrow> completion_criteria \<Rightarrow> progressive_validation \<Rightarrow> completion_failure list" where
  "progressive_failures requireProvenance d taskId criteria p =
     (let vs = effectiveVerifications criteria d taskId;
          proven = provenSubjects vs;
          missing = missingChecks p proven;
          missingRisk = missingRiskChecks p proven;
          promotion = assessPromotion
            (cc_minPassedVerificationRuns criteria \<le> length vs \<and> missing = [] \<and> missingRisk = [])
            (pg_review p) (reviewPassed requireProvenance d taskId p)
            (Js_finite (of_nat (openBlockingFindings d taskId)))
      in (if missingRisk \<noteq> [] then [Missing_risk_checks missingRisk] else [])
         @ (if missing \<noteq> [] then [Missing_progressive_checks missing] else [])
         @ (if \<not> vp_broaderValidationRequired (progressive_plan p)
               \<and> ''broader_validation'' \<in> set proven
            then [Untriggered_broader_validation] else [])
         @ (case promotion of Inl _ \<Rightarrow> [] | Inr a \<Rightarrow> map Promotion_blocked (pa_blockers a)))"

text \<open>\<open>assessPromotion\<close> never throws here: its count comes from a COUNT(*) and is a natural number.\<close>

definition evidence_linked :: "db \<Rightarrow> string \<Rightarrow> evidence_row \<Rightarrow> bool" where
  "evidence_linked d taskId e =
     list_ex (\<lambda>v. v_id v = (case e_ref e of None \<Rightarrow> [] | Some r \<Rightarrow> r) \<and> v_taskId v = taskId)
       (verificationRuns d)"

definition approved_decision_exists :: "db \<Rightarrow> string \<Rightarrow> string \<Rightarrow> bool" where
  "approved_decision_exists d taskId category =
     list_ex (\<lambda>x. d_taskId x = Some taskId
        \<and> d_projectId x = Some (case task_project d taskId of None \<Rightarrow> [] | Some p \<Rightarrow> p)
        \<and> d_category x = category \<and> d_status x = Dec_approved) (decisionRequests d)"

definition completion_failures ::
  "bool \<Rightarrow> db \<Rightarrow> string \<Rightarrow> completion_criteria \<Rightarrow> completion_failure list" where
  "completion_failures requireProvenance d taskId criteria =
     (let passed = length (effectiveVerifications criteria d taskId);
          evidenceRows = filter (\<lambda>e. e_taskId e = taskId) (evidences d)
      in (if passed < cc_minPassedVerificationRuns criteria
          then [Too_few_verifications (cc_minPassedVerificationRuns criteria) passed] else [])
         @ (case cc_progressiveValidation criteria of
              Some p \<Rightarrow> progressive_failures requireProvenance d taskId criteria p
            | None \<Rightarrow> if openBlockingFindings d taskId > 0
                      then [Open_blocker_findings (openBlockingFindings d taskId)] else [])
         @ (if evidenceRows = [] then [No_evidence_records] else [])
         @ map (\<lambda>e. Evidence_not_linked (e_id e))
             (filter (\<lambda>e. e_kind e = Evk_verification_run \<and> \<not> evidence_linked d taskId e) evidenceRows)
         @ (if cc_requireArtifact criteria
               \<and> \<not> list_ex (\<lambda>e. e_kind e = Evk_artifact
                    \<and> (case e_ref e of None \<Rightarrow> False | Some r \<Rightarrow> \<not> js_blank r)) evidenceRows
            then [Requires_artifact] else [])
         @ map Requires_approved_decision
             (filter (\<lambda>c. \<not> approved_decision_exists d taskId c)
                (cc_requiredDecisionCategories criteria)))"

definition evaluateCompletionProof ::
  "bool \<Rightarrow> db \<Rightarrow> string \<Rightarrow> completion_criteria \<Rightarrow> completion_failure completion_proof" where
  "evaluateCompletionProof requireProvenance d taskId criteria =
     (let failures = completion_failures requireProvenance d taskId criteria
      in \<lparr>proof_ok = (failures = []), proof_failures = failures\<rparr>)"

section \<open>The promotion proof of a task\<close>

datatype promotion_failure =
    Task_does_not_exist
  | Task_of_another_repository
  | Task_not_ready_to_merge task_status
  | No_frozen_criteria
  | Criteria_are_invalid
  | Completion_proof completion_failure

record task_promotion_proof =
  tp_taskId :: string
  tp_ok :: bool
  tp_failures :: "promotion_failure list"

definition evaluateTaskPromotionProof ::
  "(string \<Rightarrow> string) \<Rightarrow> db \<Rightarrow> string \<Rightarrow> string \<Rightarrow> task_promotion_proof" where
  "evaluateTaskPromotionProof resolve_path d taskId repoPath =
     (case lookup_row t_id taskId (tasks d) of
        None \<Rightarrow> \<lparr>tp_taskId = taskId, tp_ok = False, tp_failures = [Task_does_not_exist]\<rparr>
      | Some t \<Rightarrow>
        (case lookup_row p_id (t_projectId t) (projects d) of
           None \<Rightarrow> \<lparr>tp_taskId = taskId, tp_ok = False, tp_failures = [Task_does_not_exist]\<rparr>
         | Some p \<Rightarrow>
           let failures =
                 (if resolve_path (p_repoPath p) \<noteq> resolve_path repoPath
                  then [Task_of_another_repository] else [])
                 @ (if t_status t \<noteq> St_ready_to_merge then [Task_not_ready_to_merge (t_status t)] else [])
                 @ (if t_completionCriteriaSnapshotJson t = None then [No_frozen_criteria] else [])
           in if failures \<noteq> [] then \<lparr>tp_taskId = t_id t, tp_ok = False, tp_failures = failures\<rparr>
              else (case parseCompletionCriteria (t_completionCriteriaSnapshotJson t) of
                Inl _ \<Rightarrow> \<lparr>tp_taskId = t_id t, tp_ok = False, tp_failures = [Criteria_are_invalid]\<rparr>
              | Inr criteria \<Rightarrow>
                  let pr = evaluateCompletionProof False d (t_id t) criteria
                  in \<lparr>tp_taskId = t_id t, tp_ok = proof_ok pr,
                      tp_failures = map Completion_proof (proof_failures pr)\<rparr>)))"

section \<open>The decoder\<close>

lemma those_Some_iff: "those xs = Some ys \<longleftrightarrow> xs = map Some ys"
  by (induction xs arbitrary: ys) (auto split: option.splits)

lemma dec_trimmed_Some: "dec_trimmed j = Some s \<Longrightarrow> s \<noteq> [] \<and> \<not> js_blank s"
  by (cases j) (auto simp: js_trim_not_blank split: if_splits)

lemma dec_array_trimmed: "dec_array dec_trimmed j = Some xs \<Longrightarrow> x \<in> set xs \<Longrightarrow> \<not> js_blank x"
proof (cases j)
  case (JArr js)
  assume "dec_array dec_trimmed j = Some xs" "x \<in> set xs"
  then have "map dec_trimmed js = map Some xs" using JArr by (simp add: those_Some_iff)
  moreover have "Some x \<in> set (map Some xs)" using \<open>x \<in> set xs\<close> by simp
  ultimately have "Some x \<in> set (map dec_trimmed js)" by simp
  then show ?thesis by (auto dest: dec_trimmed_Some [OF sym])
qed auto

lemma dec_min_runs_ge: "dec_min_runs j = Some n \<Longrightarrow> 1 \<le> n"
  by (cases j) (auto split: option.splits if_splits)

lemma dec_head_sha: "dec_head j = Some h \<Longrightarrow> is_sha40 h"
  by (cases j) (auto split: if_splits)

lemma field_optD: "field_opt k j dec = Some (Some x) \<Longrightarrow> \<exists>v. jget k j = Some v \<and> dec v = Some x"
  by (auto simp: field_opt_def split: option.splits)

lemma field_orD: "field_or k j dflt dec = Some x \<Longrightarrow> x = dflt \<or> (\<exists>v. dec v = Some x)"
  by (auto simp: field_or_def split: option.splits)

lemma dec_progressive_Some:
  assumes "dec_progressive j = Some p"
  shows "(\<exists>h. pg_candidateHead p = Some h \<and> is_sha40 h)
    \<and> (pg_broaderValidationTriggers p \<noteq> [] \<or> pg_repositoryPolicyRequiresBroadValidation p
        \<longrightarrow> pg_broadValidationJustification p \<noteq> None)
    \<and> (\<forall>c \<in> set (pg_riskSpecificChecks p). \<not> js_blank c)"
proof -
  obtain risks where risks: "field_or ''riskSpecificChecks'' j [] (dec_array dec_trimmed) = Some risks"
      "pg_riskSpecificChecks p = risks"
    and head: "field_opt ''candidateHead'' j dec_head = Some (pg_candidateHead p)"
    and refined: "progressive_refined p"
    using assms unfolding dec_progressive_def
    by (auto simp: bind_eq_Some_conv Let_def split: if_splits)
  obtain h where h: "pg_candidateHead p = Some h"
    using refined by (auto simp: progressive_refined_def Let_def)
  then have "is_sha40 h"
    using head field_optD [of "''candidateHead''" j dec_head h] dec_head_sha by auto
  moreover have "\<forall>c \<in> set risks. \<not> js_blank c"
    using field_orD [OF risks(1)] by (auto dest: dec_array_trimmed)
  ultimately show ?thesis
    using refined risks(2) h by (auto simp: progressive_refined_def Let_def)
qed

text \<open>
  Whatever text a task carries as completion criteria, the criteria that parsing
  accepts demand at least one verification run, name no blank decision category, and a
  progressive contract in them is pinned to an exact 40-digit candidate head, names no
  blank risk check, and records cost and expected information gain whenever it asks for
  broad validation.
\<close>

theorem parseCompletionCriteria_sound:
  assumes "parseCompletionCriteria text = Inr c"
  shows "1 \<le> cc_minPassedVerificationRuns c
    \<and> (\<forall>k \<in> set (cc_requiredDecisionCategories c). \<not> js_blank k)
    \<and> (\<forall>p. cc_progressiveValidation c = Some p \<longrightarrow>
         (\<exists>h. pg_candidateHead p = Some h \<and> is_sha40 h)
         \<and> (pg_broaderValidationTriggers p \<noteq> [] \<or> pg_repositoryPolicyRequiresBroadValidation p
             \<longrightarrow> pg_broadValidationJustification p \<noteq> None)
         \<and> (\<forall>k \<in> set (pg_riskSpecificChecks p). \<not> js_blank k))"
proof -
  obtain j where j: "dec_criteria j = Some c"
    using assms
    by (auto simp: parseCompletionCriteria_def Let_def split: option.splits json_text.splits if_splits)
  then have runs: "field_or ''minPassedVerificationRuns'' j 1 dec_min_runs = Some (cc_minPassedVerificationRuns c)"
    and cats: "field_or ''requiredDecisionCategories'' j [] (dec_array dec_trimmed)
                 = Some (cc_requiredDecisionCategories c)"
    and prog: "field_opt ''progressiveValidation'' j dec_progressive = Some (cc_progressiveValidation c)"
    unfolding dec_criteria_def by (auto simp: bind_eq_Some_conv)
  have "1 \<le> cc_minPassedVerificationRuns c"
    using field_orD [OF runs] by (auto dest: dec_min_runs_ge)
  moreover have "\<forall>k \<in> set (cc_requiredDecisionCategories c). \<not> js_blank k"
    using field_orD [OF cats] by (auto dest: dec_array_trimmed)
  moreover have "\<exists>v. dec_progressive v = Some p" if "cc_progressiveValidation c = Some p" for p
    using prog that field_optD [of "''progressiveValidation''" j dec_progressive p] by auto
  ultimately show ?thesis using dec_progressive_Some by blast
qed

theorem parseCompletionCriteria_sound_witness:
  "\<exists>c. parseCompletionCriteria (Some (Json_doc (JObj [(''requireArtifact'', JBool True),
       (''requiredDecisionCategories'', JArr [JStr '' release ''])]))) = Inr c
     \<and> 1 \<le> cc_minPassedVerificationRuns c \<and> cc_requiredDecisionCategories c = [''release'']"
proof -
  let ?c = "\<lparr>cc_minPassedVerificationRuns = 1, cc_requireArtifact = True,
     cc_requiredDecisionCategories = [''release''], cc_progressiveValidation = None\<rparr>"
  have p: "parseCompletionCriteria (Some (Json_doc (JObj [(''requireArtifact'', JBool True),
       (''requiredDecisionCategories'', JArr [JStr '' release ''])]))) = Inr ?c"
    by code_simp
  show ?thesis using parseCompletionCriteria_sound [OF p] p by simp
qed

text \<open>
  Review severities survive storage: writing a canonical severity and reading it back
  gives the same severity, and a stored severity blocks completion exactly when it reads
  back as BLOCKER (so the legacy value major blocks too).
\<close>

theorem review_severity_roundtrip:
  "reviewSeverityFromStorage (REVIEW_SEVERITY_STORAGE s) = s
   \<and> (f \<in> set BLOCKING_STORED_REVIEW_SEVERITIES \<longleftrightarrow> reviewSeverityFromStorage f = Sev_BLOCKER)"
  by (cases s; cases f)
     (simp_all add: reviewSeverityFromStorage_def BLOCKING_STORED_REVIEW_SEVERITIES_def)

section \<open>The proof set against its specification\<close>

text \<open>
  \<open>qualifies\<close>: what the module comment asks of one verification run, as a relation
  between the stored rows.
\<close>

definition qualifies :: "db \<Rightarrow> string \<Rightarrow> verification_row \<Rightarrow> run_row \<Rightarrow> bool" where
  "qualifies d taskId v r \<longleftrightarrow>
     v \<in> set (verificationRuns d) \<and> r \<in> set (agentRuns d)
     \<and> v_taskId v = taskId \<and> v_status v = Ver_passed \<and> v_exitCode v = Some 0
     \<and> v_startedAt v \<noteq> None \<and> v_endedAt v \<noteq> None
     \<and> v_agentRunId v = Some (r_id r) \<and> r_taskId r = taskId \<and> r_status r = Run_succeeded
     \<and> (\<exists>e \<in> set (evidences d). e_kind e = Evk_verification_run \<and> e_ref e = Some (v_id v)
          \<and> e_taskId e = taskId)"

lemma qualifyingVerifications_iff:
  "(i, s, h) \<in> set (qualifyingVerifications d taskId) \<longleftrightarrow>
     (\<exists>v r. qualifies d taskId v r \<and> v_id v = i \<and> v_validationSubject v = s \<and> r_sourceHead r = h)"
proof -
  have row: "(i, s, h) \<in> set (if b then [(x, y, z)] else []) \<longleftrightarrow> b \<and> x = i \<and> y = s \<and> z = h"
    for b x y z by auto
  have "(i, s, h) \<in> set (qualifyingVerifications d taskId) \<longleftrightarrow>
    (\<exists>v \<in> set (verificationRuns d). \<exists>r \<in> set (agentRuns d).
       qualifies d taskId v r \<and> v_id v = i \<and> v_validationSubject v = s \<and> r_sourceHead r = h)"
    unfolding qualifyingVerifications_def set_remdups set_concat set_map UN_iff bex_simps row
    by (intro bex_cong refl) (auto simp: qualifies_def list_ex_iff)
  also have "\<dots> \<longleftrightarrow>
    (\<exists>v r. qualifies d taskId v r \<and> v_id v = i \<and> v_validationSubject v = s \<and> r_sourceHead r = h)"
    unfolding qualifies_def by blast
  finally show ?thesis .
qed

definition head_ok :: "completion_criteria \<Rightarrow> run_row \<Rightarrow> bool" where
  "head_ok c r \<longleftrightarrow> (case cc_progressiveValidation c of None \<Rightarrow> True
     | Some p \<Rightarrow> pg_candidateHead p \<noteq> None \<and> r_sourceHead r = pg_candidateHead p)"

lemma effectiveVerifications_iff:
  "(i, s, h) \<in> set (effectiveVerifications c d taskId) \<longleftrightarrow>
     (\<exists>v r. qualifies d taskId v r \<and> head_ok c r
        \<and> v_id v = i \<and> v_validationSubject v = s \<and> r_sourceHead r = h)"
  by (auto simp: effectiveVerifications_def qualifyingVerifications_iff head_ok_def head_matches_def
      split: option.splits)

definition qualified_ids :: "completion_criteria \<Rightarrow> db \<Rightarrow> string \<Rightarrow> string set" where
  "qualified_ids c d taskId = {v_id v |v r. qualifies d taskId v r \<and> head_ok c r}"

lemma fst_effectiveVerifications:
  "fst ` set (effectiveVerifications c d taskId) = qualified_ids c d taskId"
proof (rule set_eqI)
  fix i
  have "i \<in> fst ` set (effectiveVerifications c d taskId) \<longleftrightarrow>
      (\<exists>s h. (i, s, h) \<in> set (effectiveVerifications c d taskId))"
    by force
  also have "\<dots> \<longleftrightarrow> i \<in> qualified_ids c d taskId"
    unfolding effectiveVerifications_iff qualified_ids_def by blast
  finally show "i \<in> fst ` set (effectiveVerifications c d taskId) \<longleftrightarrow> i \<in> qualified_ids c d taskId" .
qed

lemma distinct_effectiveVerifications [simp]: "distinct (effectiveVerifications c d taskId)"
  by (auto simp: effectiveVerifications_def qualifyingVerifications_def split: option.split)

lemma length_effectiveVerifications:
  assumes "unique_by v_id (verificationRuns d)" and "unique_by r_id (agentRuns d)"
  shows "length (effectiveVerifications c d taskId) = card (qualified_ids c d taskId)"
proof -
  let ?vs = "effectiveVerifications c d taskId"
  have "inj_on fst (set ?vs)"
  proof (rule inj_onI)
    fix x y assume x: "x \<in> set ?vs" and y: "y \<in> set ?vs" and eq: "fst x = fst y"
    obtain i s h s' h' where xy: "x = (i, s, h)" "y = (i, s', h')"
      using eq by (cases x; cases y) auto
    obtain v r where 1: "qualifies d taskId v r" "v_id v = i" "v_validationSubject v = s" "r_sourceHead r = h"
      using x unfolding xy effectiveVerifications_iff by blast
    obtain v' r' where 2: "qualifies d taskId v' r'" "v_id v' = i" "v_validationSubject v' = s'" "r_sourceHead r' = h'"
      using y unfolding xy effectiveVerifications_iff by blast
    have "v = v'" using unique_by_inj [OF assms(1)] 1 2 by (auto simp: qualifies_def)
    moreover have "r = r'"
      using unique_by_inj [OF assms(2), of r r'] 1 2 \<open>v = v'\<close> by (auto simp: qualifies_def)
    ultimately show "x = y" using 1 2 xy by simp
  qed
  moreover have "fst ` set ?vs = qualified_ids c d taskId"
    by (rule fst_effectiveVerifications)
  ultimately have "card (qualified_ids c d taskId) = card (set ?vs)"
    by (metis card_image)
  then show ?thesis by (simp add: distinct_card)
qed

definition no_open_blockers :: "db \<Rightarrow> string \<Rightarrow> bool" where
  "no_open_blockers d taskId \<longleftrightarrow>
     (\<forall>f \<in> set (reviewFindings d). f_taskId f = taskId \<and> f_status f = Fst_open
        \<longrightarrow> reviewSeverityFromStorage (f_severity f) \<noteq> Sev_BLOCKER)"

lemma openBlockingFindings_0: "openBlockingFindings d taskId = 0 \<longleftrightarrow> no_open_blockers d taskId"
  by (auto simp: openBlockingFindings_def count_where_0_iff no_open_blockers_def
      reviewSeverityFromStorage_def BLOCKING_STORED_REVIEW_SEVERITIES_def split: if_splits)

definition evidence_complete :: "db \<Rightarrow> string \<Rightarrow> completion_criteria \<Rightarrow> bool" where
  "evidence_complete d taskId c \<longleftrightarrow>
     (\<exists>e \<in> set (evidences d). e_taskId e = taskId)
     \<and> (\<forall>e \<in> set (evidences d). e_taskId e = taskId \<and> e_kind e = Evk_verification_run
          \<longrightarrow> evidence_linked d taskId e)
     \<and> (cc_requireArtifact c \<longrightarrow>
          (\<exists>e \<in> set (evidences d). e_taskId e = taskId \<and> e_kind e = Evk_artifact
             \<and> (\<exists>ref. e_ref e = Some ref \<and> \<not> js_blank ref)))
     \<and> (\<forall>k \<in> set (cc_requiredDecisionCategories c). approved_decision_exists d taskId k)"

lemma completion_failures_Nil_iff:
  "completion_failures prov d taskId c = [] \<longleftrightarrow>
     cc_minPassedVerificationRuns c \<le> length (effectiveVerifications c d taskId)
     \<and> (case cc_progressiveValidation c of None \<Rightarrow> no_open_blockers d taskId
        | Some p \<Rightarrow> progressive_failures prov d taskId c p = [])
     \<and> evidence_complete d taskId c"
  unfolding completion_failures_def evidence_complete_def Let_def openBlockingFindings_0 [symmetric]
  by (auto simp: filter_empty_conv list_ex_iff not_less split: option.splits)

text \<open>
  C1. For a task without a progressive contract the completion proof succeeds exactly
  when the database holds what the module promises: at least the required number of
  distinct verification runs of this task that passed with exit code 0 and timestamps
  under a succeeded run of the task and are cited by evidence, no open blocking finding,
  linked evidence, the required artifact and every required approved decision.
\<close>

theorem completion_proof_correct:
  assumes "unique_by v_id (verificationRuns d)" and "unique_by r_id (agentRuns d)"
    and "cc_progressiveValidation c = None"
  shows "proof_ok (evaluateCompletionProof prov d taskId c) \<longleftrightarrow>
     cc_minPassedVerificationRuns c \<le> card {v_id v |v r. qualifies d taskId v r}
     \<and> no_open_blockers d taskId \<and> evidence_complete d taskId c"
  using assms length_effectiveVerifications [OF assms(1,2), of c taskId]
  by (simp add: evaluateCompletionProof_def Let_def completion_failures_Nil_iff qualified_ids_def
      head_ok_def)

text \<open>The subject \<open>s\<close> is proven by a qualifying verification run at the candidate head.\<close>

definition proven_at_head :: "completion_criteria \<Rightarrow> db \<Rightarrow> string \<Rightarrow> string \<Rightarrow> bool" where
  "proven_at_head c d taskId s \<longleftrightarrow>
     (\<exists>v r. qualifies d taskId v r \<and> head_ok c r \<and> v_validationSubject v = Some s)"

lemma provenSubjects_iff:
  "s \<in> set (provenSubjects (effectiveVerifications c d taskId)) \<longleftrightarrow> proven_at_head c d taskId s"
proof -
  have "s \<in> set (provenSubjects vs) \<longleftrightarrow> (\<exists>i h. (i, Some s, h) \<in> set vs)" for vs
    by (induction vs) (auto simp: provenSubjects_def split: option.splits)
  then show ?thesis by (auto simp: effectiveVerifications_iff proven_at_head_def)
qed

definition broad_required :: "progressive_validation \<Rightarrow> bool" where
  "broad_required p \<longleftrightarrow>
     pg_broaderValidationTriggers p \<noteq> [] \<or> pg_repositoryPolicyRequiresBroadValidation p"

lemma progressive_plan_broad [simp]:
  "vp_broaderValidationRequired (progressive_plan p) = broad_required p"
  by (cases "pg_broaderValidationTriggers p")
     (auto simp: progressive_plan_def planProgressiveValidation_def Let_def broad_required_def
       filter_empty_conv)

lemma missingChecks_Nil_iff:
  "missingChecks p proven = [] \<longleftrightarrow>
     {''focused_tests'', ''cheapest_compile_type_or_build'', ''critical_path_behavior''} \<subseteq> set proven
     \<and> (broad_required p \<longrightarrow> ''broader_validation'' \<in> set proven)"
proof -
  have "vp_requiredChecks (progressive_plan p) =
      [Chk_focused_tests, Chk_cheapest_compile_type_or_build, Chk_critical_path_behavior]
      @ (if list_ex (\<lambda>c. \<not> js_blank c) (pg_riskSpecificChecks p) then [Chk_risk_specific_checks] else [])
      @ (if broad_required p then [Chk_broader_validation] else [])"
    unfolding progressive_plan_broad [symmetric]
    by (simp add: progressive_plan_def planProgressiveValidation_def Let_def)
  then show ?thesis by (auto simp: missingChecks_def)
qed

lemma progressive_failures_Nil_iff:
  "progressive_failures prov d taskId c p = [] \<longleftrightarrow>
     cc_minPassedVerificationRuns c \<le> length (effectiveVerifications c d taskId)
     \<and> {''focused_tests'', ''cheapest_compile_type_or_build'', ''critical_path_behavior''}
          \<subseteq> {s. proven_at_head c d taskId s}
     \<and> (\<forall>k \<in> set (pg_riskSpecificChecks p). proven_at_head c d taskId (''risk_specific_check:'' @ k))
     \<and> (proven_at_head c d taskId ''broader_validation'' \<longleftrightarrow> broad_required p)
     \<and> reviewPassed prov d taskId p \<and> no_open_blockers d taskId"
proof -
  let ?proven = "provenSubjects (effectiveVerifications c d taskId)"
  have proven: "set ?proven = {s. proven_at_head c d taskId s}"
    by (auto simp: provenSubjects_iff)
  have risk: "missingRiskChecks p ?proven = [] \<longleftrightarrow>
      (\<forall>k \<in> set (pg_riskSpecificChecks p). proven_at_head c d taskId (''risk_specific_check:'' @ k))"
    unfolding missingRiskChecks_def filter_empty_conv proven by auto
  have review: "pg_review p = Rev_none \<Longrightarrow> reviewPassed prov d taskId p"
    by (simp add: reviewPassed_def)
  show ?thesis
    unfolding progressive_failures_def Let_def assessPromotion_nat risk [symmetric]
      openBlockingFindings_0 [symmetric]
    using missingChecks_Nil_iff [of p ?proven] review
    by (auto simp: proven)
qed

text \<open>
  C2. Under a progressive contract the proof succeeds exactly when, at the frozen candidate
  head, the three base checks and every named risk check are proven by qualifying runs,
  broader validation is proven if and only if it was triggered, the selected review has
  passed, no blocking finding is open and the evidence is complete.
\<close>

theorem progressive_completion_correct:
  assumes "unique_by v_id (verificationRuns d)" and "unique_by r_id (agentRuns d)"
    and "cc_progressiveValidation c = Some p"
  shows "proof_ok (evaluateCompletionProof prov d taskId c) \<longleftrightarrow>
     cc_minPassedVerificationRuns c \<le> card (qualified_ids c d taskId)
     \<and> {''focused_tests'', ''cheapest_compile_type_or_build'', ''critical_path_behavior''}
          \<subseteq> {s. proven_at_head c d taskId s}
     \<and> (\<forall>k \<in> set (pg_riskSpecificChecks p). proven_at_head c d taskId (''risk_specific_check:'' @ k))
     \<and> (proven_at_head c d taskId ''broader_validation'' \<longleftrightarrow> broad_required p)
     \<and> reviewPassed prov d taskId p \<and> no_open_blockers d taskId \<and> evidence_complete d taskId c"
  using assms(3) length_effectiveVerifications [OF assms(1,2), of c taskId]
  by (auto simp: evaluateCompletionProof_def Let_def completion_failures_Nil_iff
      progressive_failures_Nil_iff)

text \<open>
  C3. An independent review cannot be faked by the implementer: when the criteria ask for
  an independent review and provenance is required, a successful completion proof implies
  a succeeded review run without independence loss and a Major-owned passing receipt that
  binds it to a succeeded implementation or repair run of the same task, all at the
  candidate head.
\<close>

theorem independent_review_has_provenance:
  assumes "proof_ok (evaluateCompletionProof True d taskId c)"
    and "cc_progressiveValidation c = Some p" and "pg_review p = Rev_independent"
    and "pg_candidateHead p = Some h" and "h \<noteq> []"
  shows "\<exists>review \<in> set (agentRuns d). \<exists>impl \<in> set (agentRuns d).
     \<exists>a \<in> set (independentReviewReceipts d).
       r_taskId review = taskId \<and> r_purpose review = Pur_review \<and> r_status review = Run_succeeded
       \<and> r_sourceHead review = Some h \<and> r_independenceLoss review = None
       \<and> r_taskId impl = taskId \<and> r_purpose impl \<in> {Pur_implementation, Pur_repair}
       \<and> r_status impl = Run_succeeded \<and> r_sourceHead impl = Some h
       \<and> rr_runId a = r_id review \<and> rr_reviewedRunId a = Some (r_id impl)
       \<and> rr_taskId a = Some taskId \<and> rr_sourceHead a = h \<and> rr_verdict a = Verdict_pass"
proof -
  have "reviewPassed True d taskId p"
    using assms(1,2)
    by (auto simp: evaluateCompletionProof_def Let_def completion_failures_Nil_iff
        progressive_failures_Nil_iff)
  then obtain review where rv: "review \<in> set (agentRuns d)" "r_taskId review = taskId"
      "r_purpose review = Pur_review" "r_status review = Run_succeeded"
      "r_sourceHead review = Some h" "r_independenceLoss review = None"
      "list_ex (authoritative_pair d taskId p review) (independentReviewReceipts d)"
    using assms(3-5) by (auto simp: reviewPassed_def list_ex_iff truthy_def)
  then obtain a where a: "a \<in> set (independentReviewReceipts d)" "authoritative_pair d taskId p review a"
    by (auto simp: list_ex_iff)
  then obtain impl where impl: "impl \<in> set (implementationRuns d taskId p)"
      "rr_reviewedRunId a = Some (r_id impl)"
    by (auto simp: authoritative_pair_def split: option.splits)
  have "impl \<in> set (agentRuns d) \<and> r_taskId impl = taskId \<and> r_purpose impl \<in> {Pur_implementation, Pur_repair}
      \<and> r_status impl = Run_succeeded \<and> r_sourceHead impl = Some h"
    using impl(1) assms(4) by (auto simp: implementationRuns_def split: if_splits)
  then show ?thesis
    using rv a impl(2) assms(4) by (auto simp: authoritative_pair_def)
qed

text \<open>
  A task is reported promotable only if it is the stored task, in ready to merge, of
  the repository asked about, with frozen criteria that parse and a satisfied proof set;
  conversely the report is positive whenever these hold.
\<close>

theorem promotion_proof_ok_iff:
  "tp_ok (evaluateTaskPromotionProof res d taskId repoPath) \<longleftrightarrow>
     (\<exists>t p c. lookup_row t_id taskId (tasks d) = Some t
        \<and> lookup_row p_id (t_projectId t) (projects d) = Some p
        \<and> res (p_repoPath p) = res repoPath \<and> t_status t = St_ready_to_merge
        \<and> t_completionCriteriaSnapshotJson t \<noteq> None
        \<and> parseCompletionCriteria (t_completionCriteriaSnapshotJson t) = Inr c
        \<and> proof_ok (evaluateCompletionProof False d taskId c))"
proof (cases "lookup_row t_id taskId (tasks d)")
  case None
  then show ?thesis by (simp add: evaluateTaskPromotionProof_def)
next
  case (Some t)
  then have id: "t_id t = taskId" by (auto dest: lookup_row_SomeD)
  show ?thesis
  proof (cases "lookup_row p_id (t_projectId t) (projects d)")
    case None
    then show ?thesis using Some by (simp add: evaluateTaskPromotionProof_def)
  next
    case (Some p)
    show ?thesis
    proof (cases "parseCompletionCriteria (t_completionCriteriaSnapshotJson t)")
      case (Inl e)
      then show ?thesis using \<open>lookup_row t_id _ _ = _\<close> Some
        by (simp add: evaluateTaskPromotionProof_def Let_def)
    next
      case (Inr c)
      then show ?thesis using \<open>lookup_row t_id _ _ = _\<close> Some id
        by (auto simp: evaluateTaskPromotionProof_def Let_def)
    qed
  qed
qed

section \<open>A concrete database\<close>

text \<open>
  One task with a succeeded implementation run and review run at one head, the three base
  checks proven and cited, and a passing receipt: the instance at which the conditional
  theorems are applied.
\<close>

definition sample_head :: string where
  "sample_head = replicate 40 CHR ''a''"

definition sample_run :: "string \<Rightarrow> run_purpose \<Rightarrow> run_row" where
  "sample_run i pur = \<lparr>r_id = i, r_taskId = ''t'', r_claimId = None, r_claimWorkerId = None,
     r_providerId = ''pv'', r_modelId = None, r_modelRef = ''m'', r_purpose = pur,
     r_billingMode = Bill_subscription_included, r_routingReason = [], r_paidUsageDecisionId = None,
     r_independenceLoss = None, r_sourceHead = Some sample_head, r_allowanceState = None,
     r_worktreeId = None, r_status = Run_succeeded, r_sessionRef = None, r_startedAt = Some 1,
     r_endedAt = Some 2, r_createdAt = 0, r_updatedAt = 2\<rparr>"

definition sample_verification :: "string \<Rightarrow> string \<Rightarrow> verification_row" where
  "sample_verification i subject = \<lparr>v_id = i, v_taskId = ''t'', v_agentRunId = Some ''impl'',
     v_command = ''check'', v_status = Ver_passed, v_exitCode = Some 0, v_outputSummary = None,
     v_validationSubject = Some subject, v_startedAt = Some 1, v_endedAt = Some 2, v_createdAt = 1\<rparr>"

definition sample_evidence :: "string \<Rightarrow> string \<Rightarrow> evidence_row" where
  "sample_evidence i ref = \<lparr>e_id = i, e_taskId = ''t'', e_agentRunId = Some ''impl'',
     e_kind = Evk_verification_run, e_ref = Some ref, e_summary = [], e_dataJson = None,
     e_createdAt = 2\<rparr>"

definition sample_receipt :: receipt_row where
  "sample_receipt = \<lparr>rr_id = ''rc'', rr_project = ''p'', rr_goalId = ''g'', rr_runId = ''rev'',
     rr_reviewedRunId = Some ''impl'', rr_reviewSessionRef = None, rr_reviewedSessionRef = None,
     rr_taskId = Some ''t'', rr_providerId = None, rr_providerAccountLabel = None,
     rr_dispatchId = ''x'', rr_provider = ''pv'', rr_sourceHead = sample_head,
     rr_sourceTreeDigest = None, rr_verdict = Verdict_pass, rr_evidence = ''e'',
     rr_pendingClaimedAt = 1, rr_reviewStartedAt = 1, rr_createdAt = 2\<rparr>"

definition sample_db :: db where
  "sample_db = empty_db\<lparr>agentRuns := [sample_run ''impl'' Pur_implementation, sample_run ''rev'' Pur_review],
     verificationRuns := [sample_verification ''v1'' ''focused_tests'',
       sample_verification ''v2'' ''cheapest_compile_type_or_build'',
       sample_verification ''v3'' ''critical_path_behavior''],
     evidences := [sample_evidence ''e1'' ''v1'', sample_evidence ''e2'' ''v2'', sample_evidence ''e3'' ''v3''],
     independentReviewReceipts := [sample_receipt]\<rparr>"

definition sample_progressive :: progressive_validation where
  "sample_progressive = \<lparr>pg_riskSpecificChecks = [], pg_broaderValidationTriggers = [],
     pg_repositoryPolicyRequiresBroadValidation = False, pg_review = Rev_independent,
     pg_candidateHead = Some sample_head, pg_broadValidationJustification = None\<rparr>"

definition sample_criteria :: "progressive_validation option \<Rightarrow> completion_criteria" where
  "sample_criteria p = \<lparr>cc_minPassedVerificationRuns = 2, cc_requireArtifact = False,
     cc_requiredDecisionCategories = [], cc_progressiveValidation = p\<rparr>"

lemma sample_unique:
  "unique_by v_id (verificationRuns sample_db)" "unique_by r_id (agentRuns sample_db)"
  by (code_simp, code_simp)

lemma sample_proof_ok: "proof_ok (evaluateCompletionProof True sample_db ''t'' (sample_criteria None))"
  by code_simp

lemma sample_progressive_ok:
  "proof_ok (evaluateCompletionProof True sample_db ''t'' (sample_criteria (Some sample_progressive)))"
  by code_simp

theorem completion_proof_correct_witness:
  "2 \<le> card {v_id v |v r. qualifies sample_db ''t'' v r} \<and> no_open_blockers sample_db ''t''"
  using completion_proof_correct [OF sample_unique, of "sample_criteria None" True "''t''"] sample_proof_ok
  by (simp add: sample_criteria_def)

theorem progressive_completion_correct_witness:
  "proven_at_head (sample_criteria (Some sample_progressive)) sample_db ''t'' ''focused_tests''
   \<and> reviewPassed True sample_db ''t'' sample_progressive"
  using progressive_completion_correct [OF sample_unique, of "sample_criteria (Some sample_progressive)"
      sample_progressive True "''t''"] sample_progressive_ok
  by (simp add: sample_criteria_def)

theorem independent_review_has_provenance_witness:
  "\<exists>a \<in> set (independentReviewReceipts sample_db). rr_verdict a = Verdict_pass \<and> rr_taskId a = Some ''t''"
  using independent_review_has_provenance [OF sample_progressive_ok, of sample_progressive sample_head]
  by (force simp: sample_criteria_def sample_progressive_def sample_head_def)

end
