(* ===== verification/Decision_Service.thy ===== *)
theory Decision_Service
  imports Completion
begin

text \<open>
  The decision requests of src/domain/decision-service.ts: creation, lazy expiry, the
  one-time resolution, the authorisation check \<open>isApprovedDecision\<close> and the reservation of
  a decision for one execution. The operations read the service clock where the code calls
  \<^verbatim>\<open>new Date()\<close>; an injected \<^verbatim>\<open>now\<close> is the optional argument.
\<close>

record new_decision =
  nd_category :: string
  nd_question :: string
  nd_projectId :: "string option"
  nd_taskId :: "string option"
  nd_contextJson :: "json_text option"
  nd_expiresAt :: "instant option"

definition createDecisionRequest ::
  "clock \<Rightarrow> string \<Rightarrow> new_decision \<Rightarrow> db \<Rightarrow> (db \<times> decision_row) outcome" where
  "createDecisionRequest ck uuid input d =
     (let row = \<lparr>d_id = newId ''dreq'' uuid, d_projectId = nd_projectId input,
                 d_taskId = nd_taskId input, d_category = nd_category input,
                 d_question = nd_question input, d_contextJson = nd_contextJson input,
                 d_status = Dec_open, d_resolution = None, d_resolvedAt = None,
                 d_expiresAt = nd_expiresAt input, d_consumedByRunId = None,
                 d_createdAt = svc_now ck, d_updatedAt = svc_now ck\<rparr>
      in rbind (insert_decision row d) (\<lambda>d'. Inr (d', row)))"

definition getDecision :: "db \<Rightarrow> string \<Rightarrow> decision_row outcome" where
  "getDecision d decisionId =
     (case lookup_row d_id decisionId (decisionRequests d) of
        None \<Rightarrow> Inl (Not_found ''decision request'' decisionId) | Some row \<Rightarrow> Inr row)"

definition at_or_now :: "clock \<Rightarrow> instant option \<Rightarrow> instant" where
  "at_or_now ck now = (case now of None \<Rightarrow> svc_now ck | Some t \<Rightarrow> t)"

definition stale_decision :: "instant \<Rightarrow> decision_row \<Rightarrow> bool" where
  "stale_decision now x =
     (d_status x = Dec_open \<and> (case d_expiresAt x of None \<Rightarrow> False | Some e \<Rightarrow> e \<le> now))"

definition expireStaleDecisions :: "clock \<Rightarrow> instant option \<Rightarrow> db \<Rightarrow> (db \<times> nat) outcome" where
  "expireStaleDecisions ck now d =
     (let nowStamp = at_or_now ck now in
      update_decisions (stale_decision nowStamp)
        (\<lambda>x. x\<lparr>d_status := Dec_expired, d_resolvedAt := Some nowStamp, d_updatedAt := svc_now ck\<rparr>) d)"

text \<open>Newest first: a stable sort on the negated creation instant.\<close>

definition listDecisions ::
  "clock \<Rightarrow> bool \<Rightarrow> instant option \<Rightarrow> db \<Rightarrow> (db \<times> decision_row list) outcome" where
  "listDecisions ck listAll now d =
     rbind (expireStaleDecisions ck now d) (\<lambda>(d', _).
       let rows = (if listAll then decisionRequests d'
                   else filter (\<lambda>x. d_status x = Dec_open) (decisionRequests d'))
       in Inr (d', sort_key (\<lambda>x. - d_createdAt x) rows))"

datatype resolution_status = Resolve_approved | Resolve_rejected

fun resolved_status :: "resolution_status \<Rightarrow> decision_status" where
  "resolved_status Resolve_approved = Dec_approved"
| "resolved_status Resolve_rejected = Dec_rejected"

definition resolveDecision ::
  "clock \<Rightarrow> string \<Rightarrow> resolution_status \<Rightarrow> string option \<Rightarrow> db \<Rightarrow> (db \<times> decision_row) outcome" where
  "resolveDecision ck decisionId status resolution d =
     rbind (update_decisions (\<lambda>x. d_id x = decisionId \<and> d_status x = Dec_open)
              (\<lambda>x. x\<lparr>d_status := resolved_status status, d_resolution := resolution,
                     d_resolvedAt := Some (svc_now ck), d_updatedAt := svc_now ck\<rparr>) d)
       (\<lambda>(d', changes).
          if changes \<noteq> 1 then Inl (Decision_not_open decisionId)
          else rbind (getDecision d' decisionId) (\<lambda>row. Inr (d', row)))"

record decision_scope =
  ds_provider :: "string option"
  ds_modelRef :: "string option"
  ds_purpose :: "string option"
  ds_actionDigest :: "string option"

record decision_expectation =
  ex_category :: string
  ex_taskId :: "string option"
  ex_projectId :: "string option"
  ex_scope :: "decision_scope option"
  ex_requireExpiry :: bool
  ex_requireUnconsumed :: bool
  ex_now :: "instant option"

text \<open>
  \<open>declared_scope\<close>: the \<^verbatim>\<open>scope\<close> property of the parsed context when it is an object (in
  JavaScript's sense, arrays included); a context that does not parse, a null context and
  a scalar scope declare nothing.
\<close>

definition declared_scope :: "json_text option \<Rightarrow> json option" where
  "declared_scope context =
     (case context of
        Some (Json_doc j) \<Rightarrow>
          (case jget ''scope'' j of
             Some (JObj kvs) \<Rightarrow> Some (JObj kvs) | Some (JArr js) \<Rightarrow> Some (JArr js) | _ \<Rightarrow> None)
      | _ \<Rightarrow> None)"

definition scope_field_ok :: "json \<Rightarrow> string \<Rightarrow> string option \<Rightarrow> bool" where
  "scope_field_ok declared field expected =
     (case expected of None \<Rightarrow> True | Some v \<Rightarrow> jget field declared = Some (JStr v))"

definition scope_authorises :: "decision_row \<Rightarrow> decision_scope \<Rightarrow> bool" where
  "scope_authorises row sc =
     (if ds_provider sc = None \<and> ds_modelRef sc = None \<and> ds_purpose sc = None then False
      else (case declared_scope (d_contextJson row) of
              None \<Rightarrow> False
            | Some declared \<Rightarrow>
                scope_field_ok declared ''provider'' (ds_provider sc)
                \<and> scope_field_ok declared ''modelRef'' (ds_modelRef sc)
                \<and> scope_field_ok declared ''purpose'' (ds_purpose sc)
                \<and> scope_field_ok declared ''actionDigest'' (ds_actionDigest sc)))"

definition isApprovedDecision :: "clock \<Rightarrow> db \<Rightarrow> string \<Rightarrow> decision_expectation \<Rightarrow> bool" where
  "isApprovedDecision ck d decisionId expect =
     (case lookup_row d_id decisionId (decisionRequests d) of
        None \<Rightarrow> False
      | Some row \<Rightarrow>
          if d_status row \<noteq> Dec_approved then False
          else if d_category row \<noteq> ex_category expect then False
          else if ex_taskId expect \<noteq> None \<and> d_taskId row \<noteq> ex_taskId expect then False
          else if ex_projectId expect \<noteq> None \<and> d_projectId row \<noteq> ex_projectId expect then False
          else if ex_requireUnconsumed expect \<and> d_consumedByRunId row \<noteq> None then False
          else if ex_requireExpiry expect \<and> d_expiresAt row = None then False
          else if (case d_expiresAt row of None \<Rightarrow> False | Some e \<Rightarrow> e \<le> at_or_now ck (ex_now expect))
               then False
          else (case ex_scope expect of None \<Rightarrow> True | Some sc \<Rightarrow> scope_authorises row sc))"

text \<open>Every refusal of the insert (a spent decision or consumer) is the value False.\<close>

definition consumeApprovedDecision ::
  "clock \<Rightarrow> string \<Rightarrow> string \<Rightarrow> string \<Rightarrow> db \<Rightarrow> db \<times> bool" where
  "consumeApprovedDecision ck uuid decisionId consumerId d =
     (case insert_consumption \<lparr>pc_id = newId ''pac'' uuid, pc_decisionId = decisionId,
             pc_consumerId = consumerId, pc_createdAt = svc_now ck\<rparr> d of
        Inr d' \<Rightarrow> (d', True) | Inl _ \<Rightarrow> (d, False))"

section \<open>Decisions are decided once\<close>

lemma getDecision_Inr_iff [simp]:
  "getDecision d i = Inr row \<longleftrightarrow> lookup_row d_id i (decisionRequests d) = Some row"
  by (auto simp: getDecision_def split: option.splits)

lemma open_update_triggers:
  "d_status old = Dec_open \<Longrightarrow>
     d_consumedByRunId new = d_consumedByRunId old \<Longrightarrow> d_consumedByRunId old = None \<Longrightarrow>
     d_resolvedAt new \<noteq> None \<Longrightarrow> list_all snd (decision_update_triggers d old new)"
  by (simp add: decision_update_triggers_def)

lemma resolveDecision_Inr_iff:
  assumes "resolveDecision ck i st res d = Inr (d', row)"
  shows "\<exists>old. old \<in> set (decisionRequests d) \<and> d_id old = i \<and> d_status old = Dec_open"
proof -
  obtain d1 n where "update_decisions (\<lambda>x. d_id x = i \<and> d_status x = Dec_open)
      (\<lambda>x. x\<lparr>d_status := resolved_status st, d_resolution := res,
             d_resolvedAt := Some (svc_now ck), d_updatedAt := svc_now ck\<rparr>) d = Inr (d1, n)" "n = 1"
    using assms by (auto simp: resolveDecision_def rbind_eq_Inr split: if_splits)
  then have "count_where (\<lambda>x. d_id x = i \<and> d_status x = Dec_open) (decisionRequests d) = 1"
    by (auto dest: update_decisions_InrD)
  from count_where_oneD [OF this] show ?thesis by blast
qed

text \<open>
  Resolving a decision works exactly once: it needs a stored open decision, gives it
  the requested status with a resolution time, leaves every other decision alone, and a
  second resolution of the same decision, either way, is refused.
\<close>

theorem resolveDecision_once:
  assumes "unique_by d_id (decisionRequests d)"
    and "resolveDecision ck i st res d = Inr (d', row)"
  shows "lookup_row d_id i (decisionRequests d) \<noteq> None
    \<and> d_status (the (lookup_row d_id i (decisionRequests d))) = Dec_open
    \<and> lookup_row d_id i (decisionRequests d') = Some row
    \<and> d_status row = resolved_status st \<and> d_resolvedAt row = Some (svc_now ck)
    \<and> (\<forall>k. k \<noteq> i \<longrightarrow> lookup_row d_id k (decisionRequests d') = lookup_row d_id k (decisionRequests d))
    \<and> resolveDecision ck' i st' res' d' = Inl (Decision_not_open i)"
proof -
  let ?P = "\<lambda>x. d_id x = i \<and> d_status x = Dec_open"
  let ?f = "\<lambda>x. x\<lparr>d_status := resolved_status st, d_resolution := res,
                   d_resolvedAt := Some (svc_now ck), d_updatedAt := svc_now ck\<rparr>"
  obtain old where old: "old \<in> set (decisionRequests d)" "d_id old = i" "d_status old = Dec_open"
    using resolveDecision_Inr_iff [OF assms(2)] by blast
  then have look: "lookup_row d_id i (decisionRequests d) = Some old"
    using assms(1) by (simp add: lookup_row_iff)
  have d': "d' = d\<lparr>decisionRequests := update_where ?P ?f (decisionRequests d)\<rparr>"
    and row: "lookup_row d_id i (decisionRequests d') = Some row"
    using assms(2) by (auto simp: resolveDecision_def rbind_eq_Inr split: if_splits dest!: update_decisions_InrD)
  have look': "lookup_row d_id k (decisionRequests d') =
      map_option (\<lambda>r. if ?P r then ?f r else r) (lookup_row d_id k (decisionRequests d))" for k
    unfolding d' by (simp add: lookup_row_update_where)
  then have r: "row = ?f old" using row look old by simp
  have frame: "lookup_row d_id k (decisionRequests d') = lookup_row d_id k (decisionRequests d)" if "k \<noteq> i" for k
  proof (cases "lookup_row d_id k (decisionRequests d)")
    case (Some r)
    then have "d_id r \<noteq> i" using that lookup_row_SomeD [OF Some] by simp
    then show ?thesis using Some look' [of k] by simp
  qed (use look' [of k] in simp)
  have "\<not> ?P x" if "x \<in> set (decisionRequests d')" for x
  proof -
    have "x \<in> (\<lambda>r. if ?P r then ?f r else r) ` set (decisionRequests d)"
      using that unfolding d' by (simp add: set_update_where)
    then obtain r where "x = (if ?P r then ?f r else r)" by blast
    then show ?thesis by (cases "?P r"; cases st) simp_all
  qed
  then have none: "filter ?P (decisionRequests d') = []" "count_where ?P (decisionRequests d') = 0"
    by (auto simp: filter_empty_conv count_where_0_iff)
  have "resolveDecision ck' i st' res' d' = Inl (Decision_not_open i)"
    by (simp add: resolveDecision_def update_decisions_def update_rows_def none)
  then show ?thesis using look old row r frame by simp
qed

definition sample_decision :: "string \<Rightarrow> decision_status \<Rightarrow> decision_row" where
  "sample_decision i st = \<lparr>d_id = i, d_projectId = Some ''p'', d_taskId = Some ''t'',
     d_category = ''paid_usage'', d_question = ''q'', d_contextJson = None, d_status = st,
     d_resolution = None, d_resolvedAt = (if st = Dec_open then None else Some 1),
     d_expiresAt = Some 100, d_consumedByRunId = None, d_createdAt = 0, d_updatedAt = 0\<rparr>"

definition sample_decisions :: db where
  "sample_decisions = empty_db\<lparr>decisionRequests := [sample_decision ''d1'' Dec_open, sample_decision ''d2'' Dec_open]\<rparr>"

theorem resolveDecision_once_witness:
  "\<exists>d' row. resolveDecision \<lparr>svc_now = 5, sql_now = 5\<rparr> ''d1'' Resolve_approved None sample_decisions = Inr (d', row)
     \<and> resolveDecision \<lparr>svc_now = 6, sql_now = 6\<rparr> ''d1'' Resolve_rejected None d' = Inl (Decision_not_open ''d1'')"
proof -
  have u: "unique_by d_id (decisionRequests sample_decisions)" by code_simp
  have "succeeds (resolveDecision \<lparr>svc_now = 5, sql_now = 5\<rparr> ''d1'' Resolve_approved None sample_decisions)"
    by code_simp
  then obtain d' row where
    ok: "resolveDecision \<lparr>svc_now = 5, sql_now = 5\<rparr> ''d1'' Resolve_approved None sample_decisions = Inr (d', row)"
    by (auto simp: succeeds_iff)
  show ?thesis using resolveDecision_once [OF u ok] ok by blast
qed

text \<open>
  C12. An approval is spent at most once: a successful reservation needs a stored decision,
  and afterwards neither the same decision can be reserved by any consumer nor can the same
  consumer reserve any decision; a failed reservation changes nothing.
\<close>

theorem consumeApprovedDecision_once:
  assumes "consumeApprovedDecision ck uuid i k d = (d', ok)"
  shows "(ok \<longrightarrow> i \<in> d_id ` set (decisionRequests d)
            \<and> consumeApprovedDecision ck1 u1 i k1 d' = (d', False)
            \<and> consumeApprovedDecision ck2 u2 i2 k d' = (d', False))
       \<and> (\<not> ok \<longrightarrow> d' = d)"
proof (cases ok)
  case True
  then have ins: "insert_consumption \<lparr>pc_id = newId ''pac'' uuid, pc_decisionId = i, pc_consumerId = k,
      pc_createdAt = svc_now ck\<rparr> d = Inr d'"
    using assms by (auto simp: consumeApprovedDecision_def split: sum.splits)
  then have "i \<in> d_id ` set (decisionRequests d)"
    by (auto simp: insert_consumption_def insert_row_Inr_iff rbind_eq_Inr)
  moreover have "\<lparr>pc_id = newId ''pac'' uuid, pc_decisionId = i, pc_consumerId = k, pc_createdAt = svc_now ck\<rparr>
      \<in> set (providerActionConsumptions d')"
    using insert_consumption_InrD [OF ins] by simp
  then have "i \<in> pc_decisionId ` set (providerActionConsumptions d')"
      "k \<in> pc_consumerId ` set (providerActionConsumptions d')"
    by force+
  ultimately show ?thesis using True
    by (simp add: consumeApprovedDecision_def insert_consumption_def insert_row_def split: sum.split)
next
  case False
  then show ?thesis using assms by (auto simp: consumeApprovedDecision_def split: sum.splits)
qed

theorem consumeApprovedDecision_once_witness:
  "\<exists>d'. consumeApprovedDecision \<lparr>svc_now = 5, sql_now = 5\<rparr> ''u'' ''d1'' ''run'' sample_decisions = (d', True)
     \<and> consumeApprovedDecision \<lparr>svc_now = 6, sql_now = 6\<rparr> ''w'' ''d1'' ''other'' d' = (d', False)"
proof -
  have t: "snd (consumeApprovedDecision \<lparr>svc_now = 5, sql_now = 5\<rparr> ''u'' ''d1'' ''run'' sample_decisions)"
    by code_simp
  obtain d' ok where
    c: "consumeApprovedDecision \<lparr>svc_now = 5, sql_now = 5\<rparr> ''u'' ''d1'' ''run'' sample_decisions = (d', ok)"
    by (cases "consumeApprovedDecision \<lparr>svc_now = 5, sql_now = 5\<rparr> ''u'' ''d1'' ''run'' sample_decisions")
  with t have ok: ok by simp
  have "consumeApprovedDecision \<lparr>svc_now = 6, sql_now = 6\<rparr> ''w'' ''d1'' ''other'' d' = (d', False)"
    using consumeApprovedDecision_once [OF c] ok by blast
  then show ?thesis using c ok by simp
qed

lemma isApprovedDecision_iff:
  "isApprovedDecision ck d i e \<longleftrightarrow>
     (\<exists>row. lookup_row d_id i (decisionRequests d) = Some row
        \<and> d_status row = Dec_approved \<and> d_category row = ex_category e
        \<and> (ex_taskId e = None \<or> d_taskId row = ex_taskId e)
        \<and> (ex_projectId e = None \<or> d_projectId row = ex_projectId e)
        \<and> (ex_requireUnconsumed e \<longrightarrow> d_consumedByRunId row = None)
        \<and> (ex_requireExpiry e \<longrightarrow> d_expiresAt row \<noteq> None)
        \<and> (\<forall>t. d_expiresAt row = Some t \<longrightarrow> at_or_now ck (ex_now e) < t)
        \<and> (\<forall>sc. ex_scope e = Some sc \<longrightarrow> scope_authorises row sc))"
  by (cases "lookup_row d_id i (decisionRequests d)")
     (auto simp: isApprovedDecision_def split: option.splits)

end
