(* ===== verification/Keyed_Store.thy ===== *)
theory Keyed_Store
  imports Decision_Service
begin

text \<open>
  The contract between the services and the tables they update by primary key: a
  conditional UPDATE of one row (compare and swap) either changes exactly the row with that
  key or changes nothing. The services test the number of changed rows; the locale states
  what that number tells them, and every table of the store that is updated by key is an
  instance.
\<close>

section \<open>The contract\<close>

locale keyed_cas =
  fixes get :: "'d \<Rightarrow> 'k \<Rightarrow> 'r option"
    and cas :: "'c \<Rightarrow> 'k \<Rightarrow> ('r \<Rightarrow> bool) \<Rightarrow> ('r \<Rightarrow> 'r) \<Rightarrow> 'd \<Rightarrow> ('d \<times> nat) outcome"
    and stamp :: "'c \<Rightarrow> 'r \<Rightarrow> 'r"
    and key :: "'r \<Rightarrow> 'k"
    and wf :: "'d \<Rightarrow> bool"
  assumes stamp_key: "key (stamp c r) = key r"
    and get_key: "get d k = Some r \<Longrightarrow> key r = k"
    and cas_wf: "wf d \<Longrightarrow> (\<And>r. key (f r) = key r) \<Longrightarrow> cas c k P f d = Inr (d', n) \<Longrightarrow> wf d'"
    and cas_get: "wf d \<Longrightarrow> (\<And>r. key (f r) = key r) \<Longrightarrow> cas c k P f d = Inr (d', n) \<Longrightarrow>
      get d' j = map_option (\<lambda>r. if key r = k \<and> P r then stamp c (f r) else r) (get d j)"
    and cas_count: "wf d \<Longrightarrow> cas c k P f d = Inr (d', n) \<Longrightarrow>
      n = (case get d k of None \<Rightarrow> 0 | Some r \<Rightarrow> if P r then 1 else 0)"
begin

lemma cas_one:
  assumes "wf d" "\<And>r. key (f r) = key r" "cas c k P f d = Inr (d', 1)"
  obtains r where "get d k = Some r" "P r" "get d' k = Some (stamp c (f r))"
proof -
  obtain r where r: "get d k = Some r" "P r"
    using cas_count [OF assms(1,3)] by (auto split: option.splits if_splits)
  then have "get d' k = Some (stamp c (f r))"
    using cas_get [OF assms, of k] get_key [OF r(1)] by simp
  with r show thesis by (rule that)
qed

lemma cas_frame:
  assumes "wf d" "\<And>r. key (f r) = key r" "cas c k P f d = Inr (d', n)" "j \<noteq> k"
  shows "get d' j = get d j"
proof (cases "get d j")
  case (Some r)
  then show ?thesis using cas_get [OF assms(1-3), of j] get_key [OF Some] assms(4) by simp
qed (use cas_get [OF assms(1-3), of j] in simp)

lemma cas_none:
  assumes "wf d" "\<And>r. key (f r) = key r" "cas c k P f d = Inr (d', n)" "n \<noteq> 1"
  shows "get d' j = get d j"
proof (cases "j = k")
  case True
  then show ?thesis
    using cas_get [OF assms(1-3), of k] cas_count [OF assms(1,3)] assms(4)
    by (cases "get d k") (auto split: if_splits)
qed (rule cas_frame [OF assms(1-3)])

text \<open>Compare and swap is one-shot: a row whose new value falsifies \<open>Q\<close> loses the next race.\<close>

lemma cas_once:
  assumes "wf d" "\<And>r. key (f r) = key r" "cas c k P f d = Inr (d', 1)"
    and "\<And>r. P r \<Longrightarrow> \<not> Q (stamp c (f r))" and "cas c' k Q g d' = Inr (d'', m)"
  shows "m = 0"
proof -
  obtain r where "P r" "get d' k = Some (stamp c (f r))" by (rule cas_one [OF assms(1-3)])
  then show ?thesis
    using cas_count [OF cas_wf [OF assms(1-3)] assms(5)] assms(4) by simp
qed

end

section \<open>The tables keep it\<close>

lemma keyed_update:
  assumes "unique_by key rows" "\<And>r. key (f r) = key r"
  shows "unique_by key (update_where (\<lambda>r. key r = k \<and> P r) f rows)"
    and "lookup_row key j (update_where (\<lambda>r. key r = k \<and> P r) f rows) =
           map_option (\<lambda>r. if key r = k \<and> P r then f r else r) (lookup_row key j rows)"
  using assms by (simp_all add: unique_by_update_where lookup_row_update_where)

lemma keyed_count:
  assumes "unique_by key rows"
  shows "count_where (\<lambda>r. key r = k \<and> P r) rows =
    (case lookup_row key k rows of None \<Rightarrow> 0 | Some r \<Rightarrow> if P r then 1 else 0)"
proof (cases "lookup_row key k rows")
  case None
  then have "\<forall>r \<in> set rows. \<not> (key r = k \<and> P r)" by (auto simp: lookup_row_None_iff)
  then have "count_where (\<lambda>r. key r = k \<and> P r) rows = 0" by (simp only: count_where_0_iff)
  then show ?thesis using None by simp
next
  case (Some r)
  then have r: "r \<in> set rows" "key r = k" by (auto dest: lookup_row_SomeD)
  show ?thesis
  proof (cases "P r")
    case True
    then show ?thesis using Some r count_key [OF assms r(1), of P] by simp
  next
    case False
    have "\<not> (key s = k \<and> P s)" if "s \<in> set rows" for s
      using unique_by_inj [OF assms that r(1)] False r(2) by auto
    then have "count_where (\<lambda>r. key r = k \<and> P r) rows = 0" by (simp only: count_where_0_iff) blast
    then show ?thesis using Some False by simp
  qed
qed

definition get_task :: "db \<Rightarrow> string \<Rightarrow> task_row option" where
  "get_task d k = lookup_row t_id k (tasks d)"

definition cas_task ::
  "clock \<Rightarrow> string \<Rightarrow> (task_row \<Rightarrow> bool) \<Rightarrow> (task_row \<Rightarrow> task_row) \<Rightarrow> db \<Rightarrow> (db \<times> nat) outcome" where
  "cas_task ck k P f d = update_tasks ck (\<lambda>t. t_id t = k \<and> P t) f d"

definition get_claim_row :: "db \<Rightarrow> string \<Rightarrow> claim_row option" where
  "get_claim_row d k = lookup_row c_id k (taskClaims d)"

definition cas_claim ::
  "clock \<Rightarrow> string \<Rightarrow> (claim_row \<Rightarrow> bool) \<Rightarrow> (claim_row \<Rightarrow> claim_row) \<Rightarrow> db \<Rightarrow> (db \<times> nat) outcome" where
  "cas_claim ck k P f d = update_claims ck (\<lambda>c. c_id c = k \<and> P c) f d"

definition get_suggestion_row :: "db \<Rightarrow> string \<Rightarrow> suggestion_row option" where
  "get_suggestion_row d k = lookup_row s_id k (taskSuggestions d)"

definition cas_suggestion ::
  "clock \<Rightarrow> string \<Rightarrow> (suggestion_row \<Rightarrow> bool) \<Rightarrow> (suggestion_row \<Rightarrow> suggestion_row) \<Rightarrow> db
     \<Rightarrow> (db \<times> nat) outcome" where
  "cas_suggestion ck k P f d = update_suggestions ck (\<lambda>s. s_id s = k \<and> P s) f d"

definition get_run_row :: "db \<Rightarrow> string \<Rightarrow> run_row option" where
  "get_run_row d k = lookup_row r_id k (agentRuns d)"

definition cas_run ::
  "clock \<Rightarrow> string \<Rightarrow> (run_row \<Rightarrow> bool) \<Rightarrow> (run_row \<Rightarrow> run_row) \<Rightarrow> db \<Rightarrow> (db \<times> nat) outcome" where
  "cas_run ck k P f d = update_runs ck (\<lambda>r. r_id r = k \<and> P r) f d"

lemmas cas_defs = get_task_def cas_task_def get_claim_row_def cas_claim_def get_suggestion_row_def
  cas_suggestion_def get_run_row_def cas_run_def

lemmas keyed_laws = keyed_update keyed_count lookup_row_SomeD

interpretation task_cas: keyed_cas get_task cas_task "\<lambda>ck t. t\<lparr>t_updatedAt := svc_now ck\<rparr>" t_id
  "\<lambda>d. unique_by t_id (tasks d)"
  by unfold_locales
     (auto simp: cas_defs keyed_update keyed_count dest!: update_tasks_InrD dest: lookup_row_SomeD)

interpretation claim_cas: keyed_cas get_claim_row cas_claim "\<lambda>ck t. t\<lparr>c_updatedAt := svc_now ck\<rparr>" c_id
  "\<lambda>d. unique_by c_id (taskClaims d)"
  by unfold_locales
     (auto simp: cas_defs keyed_update keyed_count dest!: update_claims_InrD dest: lookup_row_SomeD)

interpretation suggestion_cas: keyed_cas get_suggestion_row cas_suggestion
  "\<lambda>ck t. t\<lparr>s_updatedAt := svc_now ck\<rparr>" s_id "\<lambda>d. unique_by s_id (taskSuggestions d)"
  by unfold_locales
     (auto simp: cas_defs keyed_update keyed_count dest!: update_suggestions_InrD dest: lookup_row_SomeD)

interpretation run_cas: keyed_cas get_run_row cas_run "\<lambda>ck t. t\<lparr>r_updatedAt := svc_now ck\<rparr>" r_id
  "\<lambda>d. unique_by r_id (agentRuns d)"
  by unfold_locales
     (auto simp: cas_defs keyed_update keyed_count dest!: update_runs_InrD dest: lookup_row_SomeD)

end
