(* ===== verification/Task_Service.thy ===== *)
theory Task_Service
  imports Keyed_Store
begin

text \<open>
  The task service of src/domain/task-service.ts: creating tasks, guarded transitions with
  their compare-and-swap, dependencies, evidence and the suggestion inbox. Every exported
  function is a definition; a transaction of the code is the sequence of its statements on
  the database value, which an error discards as a whole.
\<close>

section \<open>Claim fences\<close>

record claim_fence =
  fn_claimId :: string
  fn_workerId :: string
  fn_now :: "instant option"

definition fence_is_live :: "instant \<Rightarrow> db \<Rightarrow> claim_fence \<Rightarrow> string \<Rightarrow> bool" where
  "fence_is_live now d fence taskId =
     (case lookup_row c_id (fn_claimId fence) (taskClaims d) of
        None \<Rightarrow> False
      | Some claim \<Rightarrow>
          \<not> (c_workerId claim \<noteq> fn_workerId fence \<or> c_taskId claim \<noteq> taskId
             \<or> c_status claim \<noteq> Clm_active \<or> c_leaseExpiresAt claim \<le> now))"

definition assertLiveClaim :: "clock \<Rightarrow> db \<Rightarrow> claim_fence \<Rightarrow> string \<Rightarrow> unit outcome" where
  "assertLiveClaim ck d fence taskId =
     ensure (fence_is_live (at_or_now ck (fn_now fence)) d fence taskId)
       (StaleClaimError (fn_claimId fence))"

section \<open>Creating tasks\<close>

record new_task =
  nt_projectId :: string
  nt_title :: string
  nt_description :: "string option"
  nt_complexity :: "task_complexity option"
  nt_roadmapItemId :: "string option"
  nt_suggestionId :: "string option"
  nt_completionCriteriaJson :: "json_text option"
  nt_paths :: "string list option"

definition assertApprovalEnabled :: "unit outcome" where
  "assertApprovalEnabled = Inl SuggestionApprovalUnavailableError"

definition or_else :: "'a option \<Rightarrow> 'a \<Rightarrow> 'a" where
  "or_else x y = (case x of None \<Rightarrow> y | Some v \<Rightarrow> v)"

definition getTask :: "db \<Rightarrow> string \<Rightarrow> task_row outcome" where
  "getTask d taskId =
     (case get_task d taskId of None \<Rightarrow> Inl (Not_found ''task'' taskId) | Some t \<Rightarrow> Inr t)"

definition insertTask :: "clock \<Rightarrow> string \<Rightarrow> new_task \<Rightarrow> db \<Rightarrow> (db \<times> task_row) outcome" where
  "insertTask ck uuid input d =
     rbind (if nt_completionCriteriaJson input = None then Inr ()
            else rbind (parseCompletionCriteria (nt_completionCriteriaJson input)) (\<lambda>_. Inr ()))
     (\<lambda>_. let row = \<lparr>t_id = newId ''task'' uuid, t_projectId = nt_projectId input,
                 t_roadmapItemId = nt_roadmapItemId input, t_suggestionId = nt_suggestionId input,
                 t_title = nt_title input, t_description = or_else (nt_description input) [],
                 t_status = St_draft, t_complexity = or_else (nt_complexity input) Cx_bounded,
                 t_version = 0, t_mutationClaimId = None, t_mutationWorkerId = None,
                 t_completionCriteriaJson = nt_completionCriteriaJson input,
                 t_completionCriteriaSnapshotJson = None, t_completionCriteriaLockedAt = None,
                 t_paths = (case nt_paths input of None \<Rightarrow> None | Some ps \<Rightarrow> if ps = [] then None else Some ps),
                 t_createdAt = svc_now ck, t_updatedAt = svc_now ck\<rparr>
          in rbind (insert_task row d) (\<lambda>d'. rbind (getTask d' (t_id row)) (\<lambda>t. Inr (d', t))))"

definition addTask :: "clock \<Rightarrow> string \<Rightarrow> new_task \<Rightarrow> db \<Rightarrow> (db \<times> task_row) outcome" where
  "addTask ck uuid input d =
     rbind (if nt_suggestionId input \<noteq> None then assertApprovalEnabled else Inr ())
       (\<lambda>_. insertTask ck uuid input d)"

section \<open>Transitions\<close>

definition incompleteDependencyCount :: "db \<Rightarrow> string \<Rightarrow> nat" where
  "incompleteDependencyCount d taskId =
     (let deps = map td_dependsOnTaskId (filter (\<lambda>x. td_taskId x = taskId) (taskDependencies d))
      in if deps = [] then 0
         else count_where (\<lambda>t. t_id t \<in> set deps \<and> t_status t \<noteq> St_completed) (tasks d))"

definition transition_patch ::
  "clock \<Rightarrow> task_status \<Rightarrow> claim_fence option \<Rightarrow> task_row \<Rightarrow> task_row \<Rightarrow> task_row" where
  "transition_patch ck to fence task t =
     (let t1 = t\<lparr>t_status := to, t_version := t_version task + 1,
               t_mutationClaimId := map_option fn_claimId fence,
               t_mutationWorkerId := map_option fn_workerId fence\<rparr>
      in if to = St_queued \<and> t_completionCriteriaSnapshotJson task = None
         then t1\<lparr>t_completionCriteriaSnapshotJson := Some (criteria_or_empty (t_completionCriteriaJson task)),
                 t_completionCriteriaLockedAt := Some (svc_now ck)\<rparr>
         else t1)"

definition transition_guards_for ::
  "db \<Rightarrow> task_row \<Rightarrow> task_status \<Rightarrow> completion_failure transition_guards outcome" where
  "transition_guards_for d task to =
     (let n = incompleteDependencyCount d (t_id task) in
      if to = St_completed then
        rbind (parseCompletionCriteria (t_completionCriteriaSnapshotJson task))
          (\<lambda>criteria. Inr \<lparr>incompleteDependencyCount_guard = Some n,
             completionProof_guard = Some (evaluateCompletionProof True d (t_id task) criteria)\<rparr>)
      else Inr \<lparr>incompleteDependencyCount_guard = Some n, completionProof_guard = None\<rparr>)"

definition transition_allowed ::
  "task_status \<Rightarrow> task_status \<Rightarrow> completion_failure transition_guards \<Rightarrow> unit outcome" where
  "transition_allowed from to guards =
     (case assertTransition from to guards of
        Inl (TransitionError a b reason) \<Rightarrow> Inl (Transition_refused a b reason)
      | Inr _ \<Rightarrow> Inr ())"

definition applyTransition ::
  "clock \<Rightarrow> string \<Rightarrow> task_status \<Rightarrow> claim_fence option \<Rightarrow> db \<Rightarrow> (db \<times> task_row) outcome" where
  "applyTransition ck taskId to fence d =
     rbind (if fence \<noteq> None then require_capability Cap_worker_owned_downstream_mutations else Inr ())
     (\<lambda>_. rbind (if to = St_completed then require_capability Cap_automated_task_completion else Inr ())
     (\<lambda>_. rbind (case fence of None \<Rightarrow> Inr () | Some f \<Rightarrow> assertLiveClaim ck d f taskId)
     (\<lambda>_. rbind (getTask d taskId)
     (\<lambda>task. rbind (transition_guards_for d task to)
     (\<lambda>guards. rbind (transition_allowed (t_status task) to guards)
     (\<lambda>_. rbind (cas_task ck taskId
                   (\<lambda>t. t_status t = t_status task \<and> t_version t = t_version task)
                   (transition_patch ck to fence task) d)
     (\<lambda>(d', changes).
        if changes \<noteq> 1 then Inl (ConcurrencyError taskId)
        else rbind (getTask d' taskId) (\<lambda>t. Inr (d', t)))))))))"

definition transitionTask ::
  "clock \<Rightarrow> string \<Rightarrow> task_status \<Rightarrow> claim_fence option \<Rightarrow> db \<Rightarrow> (db \<times> task_row) outcome" where
  "transitionTask ck taskId to fence d = applyTransition ck taskId to fence d"

section \<open>Dependencies and evidence\<close>

definition addDependency ::
  "clock \<Rightarrow> string \<Rightarrow> string \<Rightarrow> string \<Rightarrow> db \<Rightarrow> (db \<times> task_dependency_row) outcome" where
  "addDependency ck uuid taskId dependsOnTaskId d =
     (if taskId = dependsOnTaskId then Inl Self_dependency
      else rbind (getTask d taskId) (\<lambda>_. rbind (getTask d dependsOnTaskId) (\<lambda>_.
        let row = \<lparr>td_id = newId ''tdep'' uuid, td_taskId = taskId,
                   td_dependsOnTaskId = dependsOnTaskId, td_createdAt = svc_now ck\<rparr>
        in rbind (insert_dependency row d) (\<lambda>d'. Inr (d', row)))))"

record new_evidence =
  ne_taskId :: string
  ne_kind :: evidence_kind
  ne_summary :: string
  ne_ref :: "string option"
  ne_dataJson :: "string option"
  ne_agentRunId :: "string option"

definition addEvidence :: "clock \<Rightarrow> string \<Rightarrow> new_evidence \<Rightarrow> db \<Rightarrow> (db \<times> evidence_row) outcome" where
  "addEvidence ck uuid input d =
     (let row = \<lparr>e_id = newId ''evid'' uuid, e_taskId = ne_taskId input,
                 e_agentRunId = ne_agentRunId input, e_kind = ne_kind input, e_ref = ne_ref input,
                 e_summary = ne_summary input, e_dataJson = ne_dataJson input,
                 e_createdAt = svc_now ck\<rparr>
      in rbind (insert_evidence ck row d) (\<lambda>d'. Inr (d', row)))"

section \<open>Suggestions\<close>

text \<open>
  The normal form of a suggestion's scope: lower case, every character that is neither a
  letter, a digit nor white space replaced by a blank, runs of white space collapsed and the
  ends trimmed. Lower-casing a Latin-1 letter beyond ASCII cannot produce an ASCII letter,
  so such letters become blanks whichever their case.
\<close>

definition js_lower_ascii :: "char \<Rightarrow> char" where
  "js_lower_ascii c =
     (let n = (of_char c :: nat) in if 65 \<le> n \<and> n \<le> 90 then char_of (n + 32) else c)"

definition alnum :: "char \<Rightarrow> bool" where
  "alnum c = (let n = (of_char c :: nat) in (97 \<le> n \<and> n \<le> 122) \<or> (48 \<le> n \<and> n \<le> 57))"

lemma title_char_code [code]:
  "js_lower_ascii c = (if char_between (CHR ''A'') c (CHR ''Z'') then with_case_bit c else c)"
  "alnum c = (char_between (CHR ''a'') c (CHR ''z'') \<or> char_between (CHR ''0'') c (CHR ''9''))"
  by (simp_all add: js_lower_ascii_def alnum_def char_between_def char_upto_def Let_def lowered_letter)

definition blank_out :: "char \<Rightarrow> char" where
  "blank_out c = (if alnum c \<or> js_space c then c else CHR '' '')"

text \<open>\<open>squeeze b s\<close>: collapse white space; \<open>b\<close> tells whether a blank was just written.\<close>

fun squeeze :: "bool \<Rightarrow> string \<Rightarrow> string" where
  "squeeze b [] = []"
| "squeeze b (c # cs) =
     (if js_space c then (if b then squeeze True cs else CHR '' '' # squeeze True cs)
      else c # squeeze False cs)"

definition scope_normal :: "string \<Rightarrow> string \<Rightarrow> string" where
  "scope_normal title description =
     js_trim (squeeze False (map blank_out (map js_lower_ascii (title @ [CHR 0x0A] @ description))))"

text \<open>SHA-256 in hexadecimal (node:crypto) is the argument \<open>sha256\<close>.\<close>

definition scopeFingerprint :: "(string \<Rightarrow> string) \<Rightarrow> string \<Rightarrow> string option \<Rightarrow> string" where
  "scopeFingerprint sha256 title description = sha256 (scope_normal title (or_else description []))"

record new_suggestion =
  ns_projectId :: string
  ns_title :: string
  ns_description :: "string option"
  ns_rationale :: "string option"
  ns_suggestedBy :: "string option"
  ns_sourceType :: "suggestion_source_type option"
  ns_sourceRef :: "string option"
  ns_roadmapItemId :: "string option"
  ns_supersedes :: "string option"

datatype suggestion_outcome =
    Sug_created suggestion_row | Sug_duplicate suggestion_row | Sug_suppressed suggestion_row

definition getSuggestion :: "db \<Rightarrow> string \<Rightarrow> suggestion_row outcome" where
  "getSuggestion d i =
     (case get_suggestion_row d i of None \<Rightarrow> Inl (Not_found ''suggestion'' i) | Some s \<Rightarrow> Inr s)"

definition pending_duplicate :: "db \<Rightarrow> string \<Rightarrow> string \<Rightarrow> suggestion_row option" where
  "pending_duplicate d projectId fingerprint =
     find (\<lambda>s. s_projectId s = projectId \<and> s_scopeFingerprint s = fingerprint
        \<and> s_status s = Sug_pending) (taskSuggestions d)"

text \<open>The newest rejected, not yet superseded suggestion of this scope.\<close>

definition last_rejected :: "db \<Rightarrow> string \<Rightarrow> string \<Rightarrow> suggestion_row option" where
  "last_rejected d projectId fingerprint =
     (case sort_key (\<lambda>s. - s_createdAt s)
             (filter (\<lambda>s. s_projectId s = projectId \<and> s_scopeFingerprint s = fingerprint
                \<and> s_status s = Sug_rejected \<and> s_supersededById s = None) (taskSuggestions d)) of
        [] \<Rightarrow> None | s # _ \<Rightarrow> Some s)"

definition suggestion_from :: "clock \<Rightarrow> string \<Rightarrow> string \<Rightarrow> new_suggestion \<Rightarrow> suggestion_row" where
  "suggestion_from ck uuid fingerprint input =
     \<lparr>s_id = newId ''tsug'' uuid, s_projectId = ns_projectId input,
      s_roadmapItemId = ns_roadmapItemId input, s_title = ns_title input,
      s_description = or_else (ns_description input) [], s_rationale = or_else (ns_rationale input) [],
      s_suggestedBy = or_else (ns_suggestedBy input) ''human'',
      s_sourceType = or_else (ns_sourceType input) Src_human, s_sourceRef = ns_sourceRef input,
      s_scopeFingerprint = fingerprint, s_status = Sug_pending, s_decidedAt = None,
      s_decisionNote = None, s_approvedTaskId = None, s_supersededById = None,
      s_createdAt = svc_now ck, s_updatedAt = svc_now ck\<rparr>"

definition addSuggestion ::
  "(string \<Rightarrow> string) \<Rightarrow> clock \<Rightarrow> string \<Rightarrow> new_suggestion \<Rightarrow> db \<Rightarrow> (db \<times> suggestion_outcome) outcome" where
  "addSuggestion sha256 ck uuid input d =
     (let fingerprint = scopeFingerprint sha256 (ns_title input) (ns_description input) in
      case pending_duplicate d (ns_projectId input) fingerprint of
        Some pending \<Rightarrow> Inr (d, Sug_duplicate pending)
      | None \<Rightarrow>
        (let rejected = last_rejected d (ns_projectId input) fingerprint;
             create = (\<lambda>superseded.
               let row = suggestion_from ck uuid fingerprint input in
               rbind (insert_suggestion row d) (\<lambda>d1.
               rbind (case superseded of None \<Rightarrow> Inr d1
                      | Some r \<Rightarrow> rbind (cas_suggestion ck (s_id r) (\<lambda>_. True)
                                          (\<lambda>s. s\<lparr>s_supersededById := Some (s_id row)\<rparr>) d1)
                                   (\<lambda>(d2, _). Inr d2))
               (\<lambda>d2. rbind (getSuggestion d2 (s_id row)) (\<lambda>s. Inr (d2, Sug_created s)))))
         in case rejected of
              None \<Rightarrow> create None
            | Some r \<Rightarrow> if ns_supersedes input \<noteq> Some (s_id r) then Inr (d, Sug_suppressed r)
                        else create (Some r)))"

text \<open>
  The transaction behind the approval gate is kept as \<open>approve_transaction\<close>; the exported
  function refuses before it.
\<close>

definition approve_transaction ::
  "clock \<Rightarrow> string \<Rightarrow> string \<Rightarrow> string option \<Rightarrow> db \<Rightarrow> (db \<times> suggestion_row \<times> task_row) outcome" where
  "approve_transaction ck uuid suggestionId note d =
     rbind (getSuggestion d suggestionId) (\<lambda>s.
       if s_status s \<noteq> Sug_pending then Inl (Suggestion_already_decided suggestionId (s_status s))
       else rbind (transition_allowed St_suggested St_draft no_guards) (\<lambda>_.
         rbind (insertTask ck uuid
                  \<lparr>nt_projectId = s_projectId s, nt_title = s_title s, nt_description = Some (s_description s),
                   nt_complexity = None, nt_roadmapItemId = s_roadmapItemId s,
                   nt_suggestionId = Some (s_id s), nt_completionCriteriaJson = None, nt_paths = None\<rparr> d)
         (\<lambda>(d1, task).
            rbind (cas_suggestion ck suggestionId (\<lambda>u. s_status u = Sug_pending)
                     (\<lambda>u. u\<lparr>s_status := Sug_approved, s_approvedTaskId := Some (t_id task),
                           s_decidedAt := Some (svc_now ck), s_decisionNote := note\<rparr>) d1)
            (\<lambda>(d2, changes).
               if changes \<noteq> 1 then Inl (ConcurrencyError suggestionId)
               else rbind (getSuggestion d2 suggestionId) (\<lambda>s'. Inr (d2, s', task))))))"

definition approveSuggestion ::
  "clock \<Rightarrow> string \<Rightarrow> string \<Rightarrow> string option \<Rightarrow> db \<Rightarrow> (db \<times> suggestion_row \<times> task_row) outcome" where
  "approveSuggestion ck uuid suggestionId note d =
     rbind assertApprovalEnabled (\<lambda>_. approve_transaction ck uuid suggestionId note d)"

definition rejectSuggestion ::
  "clock \<Rightarrow> string \<Rightarrow> string option \<Rightarrow> db \<Rightarrow> (db \<times> suggestion_row) outcome" where
  "rejectSuggestion ck suggestionId note d =
     rbind (getSuggestion d suggestionId) (\<lambda>s.
       if s_status s \<noteq> Sug_pending then Inl (Suggestion_already_decided suggestionId (s_status s))
       else rbind (cas_suggestion ck suggestionId (\<lambda>u. s_status u = Sug_pending)
                     (\<lambda>u. u\<lparr>s_status := Sug_rejected, s_decidedAt := Some (svc_now ck),
                           s_decisionNote := note\<rparr>) d)
            (\<lambda>(d', changes).
               if changes \<noteq> 1 then Inl (ConcurrencyError suggestionId)
               else rbind (getSuggestion d' suggestionId) (\<lambda>s'. Inr (d', s'))))"

section \<open>Listing\<close>

text \<open>An empty project id is falsy and lists every project.\<close>

definition listTasks :: "db \<Rightarrow> string option \<Rightarrow> task_row list" where
  "listTasks d projectId =
     (if truthy projectId then filter (\<lambda>t. Some (t_projectId t) = projectId) (tasks d) else tasks d)"

definition queueableTasks :: "db \<Rightarrow> string option \<Rightarrow> task_row list" where
  "queueableTasks d projectId =
     filter (\<lambda>t. t_status t = St_queued
               \<or> (t_status t = St_ready \<and> incompleteDependencyCount d (t_id t) = 0))
       (filter (\<lambda>t. t_status t \<notin> set TERMINAL_STATUSES) (listTasks d projectId))"

section \<open>Guarded transitions\<close>

lemma getTask_Inr_iff [simp]: "getTask d i = Inr t \<longleftrightarrow> get_task d i = Some t"
  by (auto simp: getTask_def split: option.splits)

lemma getSuggestion_Inr_iff [simp]: "getSuggestion d i = Inr s \<longleftrightarrow> get_suggestion_row d i = Some s"
  by (auto simp: getSuggestion_def split: option.splits)

lemma capability_guard [simp]: "(if b then require_capability c else Inr ()) = Inr ()"
  by simp

lemma assertLiveClaim_Inr_iff [simp]:
  "assertLiveClaim ck d f i = Inr u \<longleftrightarrow> fence_is_live (at_or_now ck (fn_now f)) d f i"
  by (simp add: assertLiveClaim_def)

lemma transition_allowed_Inr_iff:
  "transition_allowed from to g = Inr () \<longleftrightarrow> validateTransition from to g = Inr ()"
  by (auto simp: transition_allowed_def assertTransition_def split: sum.splits)

lemma get_task_key: "get_task d i = Some t \<Longrightarrow> t_id t = i"
  by (rule task_cas.get_key)

lemma transition_patch_key [simp]: "t_id (transition_patch ck to fence u t) = t_id t"
  by (simp add: transition_patch_def Let_def)

text \<open>\<open>transition_ok\<close>: what the stored data must grant for a transition.\<close>

definition transition_ok :: "db \<Rightarrow> task_row \<Rightarrow> task_status \<Rightarrow> bool" where
  "transition_ok d t to \<longleftrightarrow>
     to \<in> set (TRANSITIONS (t_status t))
     \<and> (t_status t = St_ready \<and> to = St_queued \<longrightarrow> incompleteDependencyCount d (t_id t) = 0)
     \<and> (to = St_completed \<longrightarrow>
          (\<exists>c. parseCompletionCriteria (t_completionCriteriaSnapshotJson t) = Inr c
             \<and> proof_ok (evaluateCompletionProof True d (t_id t) c)))"

lemma validate_cases:
  "validateTransition from to g = Inr () \<longleftrightarrow>
     to \<in> set (TRANSITIONS from) \<and>
     (from = St_ready \<and> to = St_queued \<longrightarrow> incompleteDependencyCount_guard g = Some 0) \<and>
     (to = St_completed \<longrightarrow> (\<exists>p. completionProof_guard g = Some p \<and> proof_ok p))"
  by (auto simp: validateTransition_def split: option.splits if_splits)

lemma transition_granted:
  assumes "transition_guards_for d t to = Inr g"
  shows "transition_allowed (t_status t) to g = Inr () \<longleftrightarrow> transition_ok d t to"
proof (cases "to = St_completed")
  case True
  then obtain c where "parseCompletionCriteria (t_completionCriteriaSnapshotJson t) = Inr c"
      "g = \<lparr>incompleteDependencyCount_guard = Some (incompleteDependencyCount d (t_id t)),
            completionProof_guard = Some (evaluateCompletionProof True d (t_id t) c)\<rparr>"
    using assms by (auto simp: transition_guards_for_def Let_def rbind_eq_Inr)
  then show ?thesis
    unfolding transition_allowed_Inr_iff validate_cases transition_ok_def by (simp add: True)
next
  case False
  then show ?thesis
    using assms unfolding transition_allowed_Inr_iff validate_cases transition_ok_def
    by (auto simp: transition_guards_for_def Let_def)
qed

lemma applyTransition_Inr:
  assumes "applyTransition ck i to fence d = Inr (d', t')"
  obtains t where "get_task d i = Some t" "transition_ok d t to"
    "\<forall>f. fence = Some f \<longrightarrow> fence_is_live (at_or_now ck (fn_now f)) d f i"
    "cas_task ck i (\<lambda>u. t_status u = t_status t \<and> t_version u = t_version t)
       (transition_patch ck to fence t) d = Inr (d', 1)"
    "get_task d' i = Some t'"
proof -
  obtain t g d1 n where t: "get_task d i = Some t"
    and f: "(case fence of None \<Rightarrow> Inr () | Some f \<Rightarrow> assertLiveClaim ck d f i) = Inr ()"
    and g: "transition_guards_for d t to = Inr g" "transition_allowed (t_status t) to g = Inr ()"
    and c: "cas_task ck i (\<lambda>u. t_status u = t_status t \<and> t_version u = t_version t)
       (transition_patch ck to fence t) d = Inr (d1, n)"
    and e: "(if n \<noteq> 1 then Inl (ConcurrencyError i) else rbind (getTask d1 i) (\<lambda>t. Inr (d1, t))) = Inr (d', t')"
    using assms unfolding applyTransition_def rbind_eq_Inr by fastforce
  have "n = 1" "d1 = d'" "get_task d' i = Some t'"
    using e by (auto simp: rbind_eq_Inr split: if_splits)
  moreover have "transition_ok d t to" using g transition_granted by blast
  moreover have "\<forall>f. fence = Some f \<longrightarrow> fence_is_live (at_or_now ck (fn_now f)) d f i"
    using f by (auto split: option.splits)
  ultimately show thesis using t c by (intro that) simp_all
qed

lemma cas_task_tables: "cas_task ck i P f d = Inr (d', n) \<Longrightarrow> d' = d\<lparr>tasks := tasks d'\<rparr>"
  by (auto simp: cas_task_def dest!: update_tasks_InrD)

text \<open>
  C10. A transition that returns did all of this and nothing else: the stored task was in a
  status the table lets reach the target, with dependencies and completion proof as
  required, under a live claim of this task when a fence was given; exactly this task's row
  changed, to the target status and the next version, with its criteria frozen when it was
  queued for the first time; no other table changed.
\<close>

theorem applyTransition_correct:
  assumes "unique_by t_id (tasks d)" and "applyTransition ck i to fence d = Inr (d', t')"
  shows "\<exists>t. get_task d i = Some t \<and> transition_ok d t to
    \<and> (\<forall>f. fence = Some f \<longrightarrow> fence_is_live (at_or_now ck (fn_now f)) d f i)
    \<and> t' = (transition_patch ck to fence t t)\<lparr>t_updatedAt := svc_now ck\<rparr>
    \<and> get_task d' i = Some t' \<and> t_status t' = to \<and> t_version t' = t_version t + 1
    \<and> (\<forall>j. j \<noteq> i \<longrightarrow> get_task d' j = get_task d j) \<and> d' = d\<lparr>tasks := tasks d'\<rparr>"
proof -
  obtain t where t: "get_task d i = Some t" "transition_ok d t to"
    "\<forall>f. fence = Some f \<longrightarrow> fence_is_live (at_or_now ck (fn_now f)) d f i"
    and c: "cas_task ck i (\<lambda>u. t_status u = t_status t \<and> t_version u = t_version t)
       (transition_patch ck to fence t) d = Inr (d', 1)"
    and t': "get_task d' i = Some t'"
    by (rule applyTransition_Inr [OF assms(2)])
  have "t' = (transition_patch ck to fence t t)\<lparr>t_updatedAt := svc_now ck\<rparr>"
    using task_cas.cas_get [OF assms(1) _ c, of i] t t' get_task_key [OF t(1)] by simp
  moreover have "\<forall>j. j \<noteq> i \<longrightarrow> get_task d' j = get_task d j"
    using task_cas.cas_frame [OF assms(1) _ c] by simp
  ultimately show ?thesis
    using t t' cas_task_tables [OF c] by (auto simp: transition_patch_def Let_def)
qed

definition sample_task :: "string \<Rightarrow> task_status \<Rightarrow> task_row" where
  "sample_task i st = \<lparr>t_id = i, t_projectId = ''p'', t_roadmapItemId = None, t_suggestionId = None,
     t_title = ''T'', t_description = [], t_status = st, t_complexity = Cx_bounded, t_version = 0,
     t_mutationClaimId = None, t_mutationWorkerId = None, t_completionCriteriaJson = None,
     t_completionCriteriaSnapshotJson = None, t_completionCriteriaLockedAt = None, t_paths = None,
     t_createdAt = 0, t_updatedAt = 0\<rparr>"

definition sample_tasks :: db where
  "sample_tasks = empty_db\<lparr>tasks := [sample_task ''a'' St_draft, sample_task ''b'' St_ready]\<rparr>"

definition sample_clock :: clock where
  "sample_clock = \<lparr>svc_now = 10, sql_now = 10\<rparr>"

theorem applyTransition_correct_witness:
  "\<exists>d' t. applyTransition sample_clock ''b'' St_queued None sample_tasks = Inr (d', t)
     \<and> t_status t = St_queued \<and> get_task d' ''a'' = get_task sample_tasks ''a''"
proof -
  have u: "unique_by t_id (tasks sample_tasks)" by code_simp
  have "succeeds (applyTransition sample_clock ''b'' St_queued None sample_tasks)" by code_simp
  then obtain d' t where ok: "applyTransition sample_clock ''b'' St_queued None sample_tasks = Inr (d', t)"
    by (auto simp: succeeds_iff)
  have "t_status t = St_queued \<and> get_task d' ''a'' = get_task sample_tasks ''a''"
    using applyTransition_correct [OF u ok] by auto
  then show ?thesis using ok by blast
qed

lemma cas_task_no_race:
  assumes "unique_by t_id (tasks d)" "get_task d i = Some t" "P t" "cas_task ck i P f d = Inr (d', n)"
  shows "n = 1"
  using task_cas.cas_count [OF assms(1,4)] assms(2,3) by simp

lemma cas_task_error: "cas_task ck i P f d = Inl e \<Longrightarrow> \<exists>n. e = Constraint_failed n"
  by (auto simp: cas_task_def update_tasks_def update_rows_def rbind_eq_Inl dest!: check_all_Inl)

lemma transition_guards_error: "transition_guards_for d t to = Inl e \<Longrightarrow> e = Invalid_criteria"
  by (auto simp: transition_guards_for_def Let_def rbind_eq_Inl parseCompletionCriteria_def
      split: if_splits option.splits)

text \<open>
  C11. Why a transition fails: an unknown task, a stale fence, a refusal of the lifecycle,
  criteria that do not parse on the way to completed, or a database constraint. Inside
  its own transaction the compare-and-swap never loses: ConcurrencyError is not raised.
\<close>

theorem applyTransition_errors:
  assumes "unique_by t_id (tasks d)" and "applyTransition ck i to fence d = Inl e"
  shows "(e = Not_found ''task'' i \<and> get_task d i = None)
    \<or> (\<exists>f. fence = Some f \<and> e = StaleClaimError (fn_claimId f)
          \<and> \<not> fence_is_live (at_or_now ck (fn_now f)) d f i)
    \<or> (\<exists>t r. get_task d i = Some t \<and> e = Transition_refused (t_status t) to r \<and> \<not> transition_ok d t to)
    \<or> (e = Invalid_criteria \<and> to = St_completed) \<or> (\<exists>n. e = Constraint_failed n)"
proof (cases "case fence of None \<Rightarrow> Inr () | Some f \<Rightarrow> assertLiveClaim ck d f i")
  case (Inl e')
  then show ?thesis using assms(2)
    by (auto simp: applyTransition_def rbind_eq_Inl assertLiveClaim_def split: option.splits if_splits)
next
  case (Inr u)
  show ?thesis
  proof (cases "get_task d i")
    case None
    then show ?thesis using Inr assms(2) by (simp add: applyTransition_def getTask_def rbind_eq_Inl)
  next
    case (Some t)
    show ?thesis
    proof (cases "transition_guards_for d t to")
      case (Inl e')
      then have "e' = Invalid_criteria \<and> to = St_completed"
        using transition_guards_error [OF Inl] by (auto simp: transition_guards_for_def Let_def split: if_splits)
      then show ?thesis using Inl Inr Some assms(2) by (simp add: applyTransition_def getTask_def)
    next
      case g: (Inr g)
      show ?thesis
      proof (cases "transition_allowed (t_status t) to g")
        case (Inl e')
        then have "\<not> transition_ok d t to" using transition_granted [OF g] by simp
        moreover have "\<exists>r. e' = Transition_refused (t_status t) to r"
          using Inl by (auto simp: transition_allowed_def assertTransition_def split: sum.splits)
        moreover have "e = e'"
          using g Inl Inr Some assms(2) by (simp add: applyTransition_def getTask_def)
        ultimately show ?thesis using Some by blast
      next
        case a: (Inr u')
        have "e = Constraint_failed n" if "cas_task ck i (\<lambda>u. t_status u = t_status t \<and> t_version u = t_version t)
            (transition_patch ck to fence t) d = Inl (Constraint_failed n)" for n
          using that a g Inr Some assms(2) by (simp add: applyTransition_def getTask_def)
        moreover have False if "cas_task ck i (\<lambda>u. t_status u = t_status t \<and> t_version u = t_version t)
            (transition_patch ck to fence t) d = Inr (d', n)" for d' n
        proof -
          note c = that
          have "n = 1" using cas_task_no_race [OF assms(1) Some _ c] by simp
          obtain t2 where "get_task d' i = Some t2"
            by (rule task_cas.cas_one [OF assms(1) _ c [unfolded \<open>n = 1\<close>]]) simp_all
          then show False using c \<open>n = 1\<close> a g Inr Some assms(2) by (simp add: applyTransition_def getTask_def)
        qed
        moreover have "\<exists>n. cas_task ck i (\<lambda>u. t_status u = t_status t \<and> t_version u = t_version t)
            (transition_patch ck to fence t) d = Inl (Constraint_failed n)"
          if no: "\<not> (\<exists>d' n. cas_task ck i (\<lambda>u. t_status u = t_status t \<and> t_version u = t_version t)
            (transition_patch ck to fence t) d = Inr (d', n))"
          using no by (cases "cas_task ck i (\<lambda>u. t_status u = t_status t \<and> t_version u = t_version t)
            (transition_patch ck to fence t) d") (auto dest: cas_task_error)
        ultimately show ?thesis by blast
      qed
    qed
  qed
qed

theorem applyTransition_errors_witness:
  "applyTransition sample_clock ''a'' St_completed None sample_tasks
     = Inl (Transition_refused St_draft St_completed (Illegal_transition St_draft St_completed))
   \<and> \<not> transition_ok sample_tasks (sample_task ''a'' St_draft) St_completed"
proof -
  have u: "unique_by t_id (tasks sample_tasks)" by code_simp
  have e: "applyTransition sample_clock ''a'' St_completed None sample_tasks
      = Inl (Transition_refused St_draft St_completed (Illegal_transition St_draft St_completed))"
    by code_simp
  have t: "get_task sample_tasks ''a'' = Some (sample_task ''a'' St_draft)" by code_simp
  show ?thesis using applyTransition_errors [OF u e] t e by auto
qed

end
