(* ===== verification/Claim_Service.thy ===== *)
theory Claim_Service
  imports Task_Service
begin

text \<open>
  Queue claims of src/domain/claim-service.ts: the lease a worker holds on a running task,
  its heartbeat, its end by completion or release, and the recovery of expired leases. The
  services read \<open>svc_now\<close> where the code calls \<^verbatim>\<open>new Date()\<close>; an injected clock is the
  optional \<open>now\<close>. Leases are compared with the instants of the service clock; the triggers
  compare them with \<open>sql_now\<close>.
\<close>

definition DEFAULT_LEASE_MS :: int where
  "DEFAULT_LEASE_MS = 5 * 60 * 1000"

record claim_options =
  co_workerId :: string
  co_leaseMs :: "int option"
  co_projectId :: "string option"
  co_taskId :: "string option"
  co_now :: "instant option"

definition getClaim :: "db \<Rightarrow> string \<Rightarrow> claim_row outcome" where
  "getClaim d claimId =
     (case get_claim_row d claimId of None \<Rightarrow> Inl (Not_found ''claim'' claimId) | Some c \<Rightarrow> Inr c)"

text \<open>Queued tasks, oldest first; an empty project or task id is falsy and filters nothing.\<close>

definition claim_candidates :: "db \<Rightarrow> claim_options \<Rightarrow> task_row list" where
  "claim_candidates d opts =
     sort_key t_createdAt
       (filter (\<lambda>t. t_status t = St_queued
                  \<and> (truthy (co_projectId opts) \<longrightarrow> Some (t_projectId t) = co_projectId opts)
                  \<and> (truthy (co_taskId opts) \<longrightarrow> Some (t_id t) = co_taskId opts)) (tasks d))"

definition new_claim :: "clock \<Rightarrow> string \<Rightarrow> claim_options \<Rightarrow> nat \<Rightarrow> task_row \<Rightarrow> claim_row" where
  "new_claim ck uuid opts lastAttempt task =
     (let nowMs = at_or_now ck (co_now opts) in
      \<lparr>c_id = newId ''tclm'' uuid, c_taskId = t_id task, c_workerId = co_workerId opts,
       c_attempt = lastAttempt + 1, c_status = Clm_active,
       c_leaseExpiresAt = nowMs + or_else (co_leaseMs opts) DEFAULT_LEASE_MS, c_heartbeatAt = nowMs,
       c_outcomeReason = None, c_createdAt = svc_now ck, c_updatedAt = svc_now ck\<rparr>)"

text \<open>The loop body that returns: insert the claim, then move its task to running under it.\<close>

definition take_claim ::
  "clock \<Rightarrow> string \<Rightarrow> claim_options \<Rightarrow> task_row \<Rightarrow> db \<Rightarrow> (db \<times> claim_row \<times> task_row) outcome" where
  "take_claim ck uuid opts task d =
     (let claim = new_claim ck uuid opts (last_attempt d (t_id task)) task in
      rbind (insert_claim claim d) (\<lambda>d1.
      rbind (applyTransition ck (t_id task) St_running
               (Some \<lparr>fn_claimId = c_id claim, fn_workerId = c_workerId claim, fn_now = co_now opts\<rparr>) d1)
      (\<lambda>(d2, updated). rbind (getClaim d2 (c_id claim)) (\<lambda>c. Inr (d2, c, updated)))))"

text \<open>The first candidate without an active claim is taken; the others are skipped.\<close>

definition claimNextTask ::
  "clock \<Rightarrow> string \<Rightarrow> claim_options \<Rightarrow> db \<Rightarrow> (db \<times> (claim_row \<times> task_row) option) outcome" where
  "claimNextTask ck uuid opts d =
     rbind (require_capability Cap_worker_owned_downstream_mutations) (\<lambda>_.
       case find (\<lambda>t. \<not> has_active_claim d (t_id t)) (claim_candidates d opts) of
         None \<Rightarrow> Inr (d, None)
       | Some task \<Rightarrow> rbind (take_claim ck uuid opts task d) (\<lambda>(d', c, t). Inr (d', Some (c, t))))"

text \<open>\<open>ownerFence\<close>: this worker's claim, still active, lease unexpired.\<close>

definition ownerFence :: "string \<Rightarrow> instant \<Rightarrow> claim_row \<Rightarrow> bool" where
  "ownerFence workerId nowMs c =
     (c_workerId c = workerId \<and> c_status c = Clm_active \<and> c_leaseExpiresAt c > nowMs)"

definition heartbeatClaim ::
  "clock \<Rightarrow> string \<Rightarrow> string \<Rightarrow> int option \<Rightarrow> instant option \<Rightarrow> db \<Rightarrow> (db \<times> claim_row) outcome" where
  "heartbeatClaim ck claimId workerId leaseMs now d =
     rbind (require_capability Cap_worker_owned_downstream_mutations) (\<lambda>_.
       let nowMs = at_or_now ck now in
       rbind (cas_claim ck claimId (ownerFence workerId nowMs)
                (\<lambda>c. c\<lparr>c_heartbeatAt := nowMs,
                       c_leaseExpiresAt := nowMs + or_else leaseMs DEFAULT_LEASE_MS\<rparr>) d)
       (\<lambda>(d', changes). if changes \<noteq> 1 then Inl (StaleClaimError claimId)
          else rbind (getClaim d' claimId) (\<lambda>c. Inr (d', c))))"

definition closeClaim ::
  "clock \<Rightarrow> string \<Rightarrow> string \<Rightarrow> claim_status \<Rightarrow> string \<Rightarrow> instant \<Rightarrow> db \<Rightarrow> (db \<times> claim_row) outcome" where
  "closeClaim ck claimId workerId status reason nowMs d =
     rbind (cas_claim ck claimId (ownerFence workerId nowMs)
              (\<lambda>c. c\<lparr>c_status := status, c_outcomeReason := Some reason\<rparr>) d)
       (\<lambda>(d', changes). if changes \<noteq> 1 then Inl (StaleClaimError claimId)
          else rbind (getClaim d' claimId) (\<lambda>c. Inr (d', c)))"

definition completeClaim ::
  "clock \<Rightarrow> string \<Rightarrow> string \<Rightarrow> string option \<Rightarrow> instant option \<Rightarrow> db \<Rightarrow> (db \<times> claim_row) outcome" where
  "completeClaim ck claimId workerId reason now d =
     rbind (require_capability Cap_worker_owned_downstream_mutations) (\<lambda>_.
       closeClaim ck claimId workerId Clm_completed (or_else reason ''completed'') (at_or_now ck now) d)"

record release_options =
  ro_claimId :: string
  ro_workerId :: string
  ro_requeue :: bool
  ro_reason :: string
  ro_now :: "instant option"

definition releaseClaim ::
  "clock \<Rightarrow> release_options \<Rightarrow> db \<Rightarrow> (db \<times> claim_row \<times> task_row) outcome" where
  "releaseClaim ck opts d =
     rbind (require_capability Cap_worker_owned_downstream_mutations) (\<lambda>_.
       rbind (closeClaim ck (ro_claimId opts) (ro_workerId opts) Clm_released (ro_reason opts)
                (at_or_now ck (ro_now opts)) d)
       (\<lambda>(d1, claim). rbind (applyTransition ck (c_taskId claim)
                               (if ro_requeue opts then St_queued else St_cancelled) None d1)
          (\<lambda>(d2, task). Inr (d2, claim, task))))"

text \<open>
  The sweep: the expired claims are selected once, then each is expired and its task, when
  still running, queued again. \<open>render\<close> is the ISO text of an instant inside the outcome
  reason.
\<close>

definition lapsed_claims :: "instant \<Rightarrow> db \<Rightarrow> claim_row list" where
  "lapsed_claims now d =
     filter (\<lambda>c. c_status c = Clm_active \<and> c_leaseExpiresAt c < now) (taskClaims d)"

definition recover_one ::
  "(instant \<Rightarrow> string) \<Rightarrow> clock \<Rightarrow> claim_row \<Rightarrow> db \<Rightarrow> db outcome" where
  "recover_one render ck claim d =
     rbind (cas_claim ck (c_id claim) (\<lambda>c. c_status c = Clm_active)
              (\<lambda>c. c\<lparr>c_status := Clm_expired,
                     c_outcomeReason := Some (''lease expired at '' @ render (c_leaseExpiresAt claim))\<rparr>) d)
       (\<lambda>(d1, changes).
          if changes \<noteq> 1 then Inl (ConcurrencyError (c_id claim))
          else (case get_task d1 (c_taskId claim) of
                  None \<Rightarrow> Inr d1
                | Some t \<Rightarrow> if t_status t = St_running
                            then rbind (applyTransition ck (c_taskId claim) St_queued None d1) (\<lambda>(d2, _). Inr d2)
                            else Inr d1))"

fun recover_all ::
  "(instant \<Rightarrow> string) \<Rightarrow> clock \<Rightarrow> claim_row list \<Rightarrow> db \<Rightarrow> (db \<times> (string \<times> string) list) outcome" where
  "recover_all render ck [] d = Inr (d, [])"
| "recover_all render ck (c # cs) d =
     rbind (recover_one render ck c d) (\<lambda>d1.
     rbind (recover_all render ck cs d1) (\<lambda>(d2, recovered). Inr (d2, (c_id c, c_taskId c) # recovered)))"

definition recoverExpiredClaims ::
  "(instant \<Rightarrow> string) \<Rightarrow> clock \<Rightarrow> instant option \<Rightarrow> db \<Rightarrow> (db \<times> (string \<times> string) list) outcome" where
  "recoverExpiredClaims render ck now d =
     recover_all render ck (lapsed_claims (at_or_now ck now) d) d"

section \<open>Fencing: a stale worker changes nothing\<close>

lemma getClaim_Inr_iff [simp]: "getClaim d i = Inr c \<longleftrightarrow> get_claim_row d i = Some c"
  by (auto simp: getClaim_def split: option.splits)

lemma get_claim_key: "get_claim_row d i = Some c \<Longrightarrow> c_id c = i"
  by (rule claim_cas.get_key)

lemma cas_claim_idle:
  assumes "unique_by c_id (taskClaims d)" and "\<And>c. get_claim_row d i = Some c \<Longrightarrow> \<not> P c"
  shows "cas_claim ck i P f d = Inr (d, 0)"
proof -
  have none: "\<forall>c \<in> set (taskClaims d). \<not> (c_id c = i \<and> P c)"
    using assms by (auto simp: get_claim_row_def lookup_row_iff)
  then have "filter (\<lambda>c. c_id c = i \<and> P c) (taskClaims d) = []"
      "count_where (\<lambda>c. c_id c = i \<and> P c) (taskClaims d) = 0"
    by (simp_all only: filter_empty_conv count_where_0_iff)
  then show ?thesis
    by (simp add: cas_claim_def update_claims_def update_rows_def update_where_none)
qed

lemma cas_claim_tables: "cas_claim ck i P f d = Inr (d', n) \<Longrightarrow> d' = d\<lparr>taskClaims := taskClaims d'\<rparr>"
  by (auto simp: cas_claim_def dest!: update_claims_InrD)

text \<open>\<open>holds_lease\<close>: at the instant \<open>now\<close>, worker \<open>w\<close> holds claim \<open>i\<close>.\<close>

definition holds_lease :: "db \<Rightarrow> instant \<Rightarrow> string \<Rightarrow> string \<Rightarrow> bool" where
  "holds_lease d now i w = (case get_claim_row d i of None \<Rightarrow> False | Some c \<Rightarrow> ownerFence w now c)"

lemma fence_is_live_lease: "fence_is_live now d f i \<Longrightarrow> holds_lease d now (fn_claimId f) (fn_workerId f)"
  by (auto simp: fence_is_live_def holds_lease_def get_claim_row_def ownerFence_def not_le split: option.splits)

text \<open>
  C13. Fencing: a worker that does not hold the lease at that instant (unknown claim, another
  worker's claim, a closed claim, or a lease that has run out even before any recovery
  sweep) can neither extend, complete nor release the claim, nor move any task in its name.
\<close>

theorem stale_worker_refused:
  assumes "unique_by c_id (taskClaims d)" and "\<not> holds_lease d now i w"
  shows "heartbeatClaim ck i w ms (Some now) d = Inl (StaleClaimError i)
    \<and> completeClaim ck i w reason (Some now) d = Inl (StaleClaimError i)
    \<and> releaseClaim ck \<lparr>ro_claimId = i, ro_workerId = w, ro_requeue = rq, ro_reason = why, ro_now = Some now\<rparr> d
          = Inl (StaleClaimError i)
    \<and> applyTransition ck task to (Some \<lparr>fn_claimId = i, fn_workerId = w, fn_now = Some now\<rparr>) d
          = Inl (StaleClaimError i)"
proof (intro conjI)
  have idle: "cas_claim ck i (ownerFence w now) f d = Inr (d, 0)" for f
    using assms by (intro cas_claim_idle) (auto simp: holds_lease_def)
  show "heartbeatClaim ck i w ms (Some now) d = Inl (StaleClaimError i)"
    by (simp add: heartbeatClaim_def at_or_now_def idle)
  show "completeClaim ck i w reason (Some now) d = Inl (StaleClaimError i)"
    by (simp add: completeClaim_def closeClaim_def at_or_now_def idle)
  show "releaseClaim ck \<lparr>ro_claimId = i, ro_workerId = w, ro_requeue = rq, ro_reason = why, ro_now = Some now\<rparr> d
      = Inl (StaleClaimError i)"
    by (simp add: releaseClaim_def closeClaim_def at_or_now_def idle)
  have "\<not> fence_is_live now d \<lparr>fn_claimId = i, fn_workerId = w, fn_now = Some now\<rparr> task"
    using assms(2) fence_is_live_lease by fastforce
  then show "applyTransition ck task to (Some \<lparr>fn_claimId = i, fn_workerId = w, fn_now = Some now\<rparr>) d
      = Inl (StaleClaimError i)"
    by (simp add: applyTransition_def assertLiveClaim_def at_or_now_def ensure_def)
qed

definition sample_claim :: "string \<Rightarrow> instant \<Rightarrow> claim_row" where
  "sample_claim i lease = \<lparr>c_id = i, c_taskId = ''b'', c_workerId = ''w'', c_attempt = 1,
     c_status = Clm_active, c_leaseExpiresAt = lease, c_heartbeatAt = 0, c_outcomeReason = None,
     c_createdAt = 0, c_updatedAt = 0\<rparr>"

definition sample_running :: "instant \<Rightarrow> db" where
  "sample_running lease = empty_db\<lparr>taskClaims := [sample_claim ''c'' lease],
     tasks := [(sample_task ''b'' St_running)\<lparr>t_mutationClaimId := Some ''c'', t_mutationWorkerId := Some ''w'',
       t_completionCriteriaSnapshotJson := Some (Json_doc (JObj [])),
       t_completionCriteriaLockedAt := Some 1\<rparr>]\<rparr>"

theorem stale_worker_refused_witness:
  "heartbeatClaim sample_clock ''c'' ''w'' None (Some 20) (sample_running 20) = Inl (StaleClaimError ''c'')"
proof -
  have "unique_by c_id (taskClaims (sample_running 20))" "\<not> holds_lease (sample_running 20) 20 ''c'' ''w''"
    by (code_simp, code_simp)
  then show ?thesis using stale_worker_refused by blast
qed

lemma closeClaim_Inr:
  assumes "unique_by c_id (taskClaims d)" and "closeClaim ck i w st why now d = Inr (d', c')"
  obtains c where "get_claim_row d i = Some c" "ownerFence w now c"
    "c' = c\<lparr>c_status := st, c_outcomeReason := Some why, c_updatedAt := svc_now ck\<rparr>"
    "get_claim_row d' i = Some c'" "\<And>j. j \<noteq> i \<Longrightarrow> get_claim_row d' j = get_claim_row d j"
    "d' = d\<lparr>taskClaims := taskClaims d'\<rparr>" "unique_by c_id (taskClaims d')"
proof -
  let ?f = "\<lambda>c. c\<lparr>c_status := st, c_outcomeReason := Some why\<rparr>"
  obtain d1 n where cas: "cas_claim ck i (ownerFence w now) ?f d = Inr (d1, n)"
    and e: "(if n \<noteq> 1 then Inl (StaleClaimError i) else rbind (getClaim d1 i) (\<lambda>c. Inr (d1, c))) = Inr (d', c')"
    using assms(2) by (auto simp: closeClaim_def rbind_eq_Inr)
  then have n: "n = 1" "d1 = d'" and c': "get_claim_row d' i = Some c'"
    by (auto simp: rbind_eq_Inr split: if_splits)
  have cas1: "cas_claim ck i (ownerFence w now) ?f d = Inr (d', 1)" using cas n by simp
  obtain c where c: "get_claim_row d i = Some c" "ownerFence w now c"
      "get_claim_row d' i = Some ((?f c)\<lparr>c_updatedAt := svc_now ck\<rparr>)"
    by (rule claim_cas.cas_one [OF assms(1) _ cas1]) simp_all
  show thesis
    using c c' claim_cas.cas_frame [OF assms(1) _ cas1] cas_claim_tables [OF cas1]
      claim_cas.cas_wf [OF assms(1) _ cas1]
    by (intro that [of c]) simp_all
qed

section \<open>Claiming\<close>

lemma applyTransition_wf:
  assumes "unique_by t_id (tasks d)" and "applyTransition ck i to fence d = Inr (d', t')"
  shows "unique_by t_id (tasks d')" and "get_task d' i = Some t'" and "t_status t' = to"
    and "\<And>j. j \<noteq> i \<Longrightarrow> get_task d' j = get_task d j" and "d' = d\<lparr>tasks := tasks d'\<rparr>"
    and "\<exists>t. get_task d i = Some t \<and> to \<in> set (TRANSITIONS (t_status t))
           \<and> t' = (transition_patch ck to fence t t)\<lparr>t_updatedAt := svc_now ck\<rparr>"
proof -
  obtain t where t: "get_task d i = Some t" "transition_ok d t to"
    and c: "cas_task ck i (\<lambda>u. t_status u = t_status t \<and> t_version u = t_version t)
       (transition_patch ck to fence t) d = Inr (d', 1)"
    and t': "get_task d' i = Some t'"
    by (rule applyTransition_Inr [OF assms(2)])
  have eq: "t' = (transition_patch ck to fence t t)\<lparr>t_updatedAt := svc_now ck\<rparr>"
    using task_cas.cas_get [OF assms(1) _ c, of i] t t' get_task_key [OF t(1)] by simp
  show "unique_by t_id (tasks d')" using task_cas.cas_wf [OF assms(1) _ c] by simp
  show "get_task d' i = Some t'" by (rule t')
  show "t_status t' = to" unfolding eq by (simp add: transition_patch_def Let_def)
  show "get_task d' j = get_task d j" if "j \<noteq> i" for j
    using task_cas.cas_frame [OF assms(1) _ c that] by simp
  show "d' = d\<lparr>tasks := tasks d'\<rparr>" by (rule cas_task_tables [OF c])
  show "\<exists>t. get_task d i = Some t \<and> to \<in> set (TRANSITIONS (t_status t))
      \<and> t' = (transition_patch ck to fence t t)\<lparr>t_updatedAt := svc_now ck\<rparr>"
    using t eq by (auto simp: transition_ok_def)
qed

lemma find_sorted:
  assumes "find P (sort_key k xs) = Some x" and "y \<in> set xs" and "k y < k x"
  shows "\<not> P y"
proof
  assume "P y"
  let ?ys = "sort_key k xs"
  obtain i where i: "i < length ?ys" "?ys ! i = x" "\<forall>j<i. \<not> P (?ys ! j)"
    using assms(1) by (auto simp: find_Some_iff)
  obtain j where j: "j < length ?ys" "?ys ! j = y"
    using assms(2) by (metis in_set_conv_nth set_sort)
  have "\<not> j < i" using i(3) j(2) \<open>P y\<close> by auto
  then have "k x \<le> k y"
    using sorted_nth_mono [OF sorted_sort_key [of k xs], of i j] i j by simp
  then show False using assms(3) by simp
qed


definition sample_queue :: db where
  "sample_queue = empty_db\<lparr>tasks := [(sample_task ''b'' St_queued)
      \<lparr>t_completionCriteriaSnapshotJson := Some (Json_doc (JObj [])), t_completionCriteriaLockedAt := Some 1\<rparr>,
      sample_task ''a'' St_draft]\<rparr>"

definition sample_claim_options :: claim_options where
  "sample_claim_options = \<lparr>co_workerId = ''w'', co_leaseMs = None, co_projectId = None,
     co_taskId = None, co_now = None\<rparr>"


section \<open>Recovery\<close>

definition expire_claim :: "(instant \<Rightarrow> string) \<Rightarrow> clock \<Rightarrow> claim_row \<Rightarrow> claim_row" where
  "expire_claim render ck c = c\<lparr>c_status := Clm_expired,
     c_outcomeReason := Some (''lease expired at '' @ render (c_leaseExpiresAt c)), c_updatedAt := svc_now ck\<rparr>"

text \<open>\<open>requeue_rel\<close>: a task is either as it was, or was running and is queued again.\<close>

definition requeue_rel :: "task_row option \<Rightarrow> task_row option \<Rightarrow> bool" where
  "requeue_rel x y \<longleftrightarrow> x = y
     \<or> (\<exists>t t'. x = Some t \<and> y = Some t' \<and> t_status t = St_running \<and> t_status t' = St_queued)"

definition not_running :: "task_row option \<Rightarrow> bool" where
  "not_running x \<longleftrightarrow> (\<forall>t. x = Some t \<longrightarrow> t_status t \<noteq> St_running)"

lemma requeue_trans: "requeue_rel x y \<Longrightarrow> requeue_rel y z \<Longrightarrow> requeue_rel x z"
  by (auto simp: requeue_rel_def)

lemma requeue_not_running: "requeue_rel x y \<Longrightarrow> not_running x \<Longrightarrow> not_running y"
  by (auto simp: requeue_rel_def not_running_def)

lemma recover_one_Inr:
  assumes u: "unique_by t_id (tasks d)" "unique_by c_id (taskClaims d)"
    and c: "get_claim_row d (c_id c) = Some c" "c_status c = Clm_active"
    and r: "recover_one render ck c d = Inr d'"
  shows "unique_by t_id (tasks d')" and "unique_by c_id (taskClaims d')"
    and "get_claim_row d' (c_id c) = Some (expire_claim render ck c)"
    and "\<And>j. j \<noteq> c_id c \<Longrightarrow> get_claim_row d' j = get_claim_row d j"
    and "\<And>j. j \<noteq> c_taskId c \<Longrightarrow> get_task d' j = get_task d j"
    and "requeue_rel (get_task d (c_taskId c)) (get_task d' (c_taskId c))"
    and "not_running (get_task d' (c_taskId c))"
proof -
  let ?f = "\<lambda>x. x\<lparr>c_status := Clm_expired,
     c_outcomeReason := Some (''lease expired at '' @ render (c_leaseExpiresAt c))\<rparr>"
  obtain d1 n where cas: "cas_claim ck (c_id c) (\<lambda>x. c_status x = Clm_active) ?f d = Inr (d1, n)"
    and rest: "(if n \<noteq> 1 then Inl (ConcurrencyError (c_id c))
        else (case get_task d1 (c_taskId c) of None \<Rightarrow> Inr d1
              | Some t \<Rightarrow> if t_status t = St_running
                  then rbind (applyTransition ck (c_taskId c) St_queued None d1) (\<lambda>(d2, _). Inr d2)
                  else Inr d1)) = Inr d'"
    using r by (auto simp: recover_one_def rbind_eq_Inr)
  have u1: "unique_by c_id (taskClaims d1)" using claim_cas.cas_wf [OF u(2) _ cas] by simp
  have d1: "d1 = d\<lparr>taskClaims := taskClaims d1\<rparr>" by (rule cas_claim_tables [OF cas])
  have tasks1: "tasks d1 = tasks d" using arg_cong [OF d1, of tasks] by simp
  have g1: "get_claim_row d1 (c_id c) = Some (expire_claim render ck c)"
    using claim_cas.cas_get [OF u(2) _ cas, of "c_id c"] c by (simp add: expire_claim_def)
  have f1: "get_claim_row d1 j = get_claim_row d j" if "j \<noteq> c_id c" for j
    using claim_cas.cas_frame [OF u(2) _ cas that] by simp
  have t1: "get_task d1 j = get_task d j" for j by (simp add: get_task_def tasks1)
  have ut1: "unique_by t_id (tasks d1)" using u(1) tasks1 by simp
  have cases: "(d' = d1 \<and> not_running (get_task d1 (c_taskId c)))
      \<or> (\<exists>t t'. get_task d1 (c_taskId c) = Some t \<and> t_status t = St_running
           \<and> applyTransition ck (c_taskId c) St_queued None d1 = Inr (d', t'))"
    using rest by (auto simp: not_running_def rbind_eq_Inr split: if_splits option.splits)
  have "unique_by t_id (tasks d') \<and> taskClaims d' = taskClaims d1
    \<and> (\<forall>j. j \<noteq> c_taskId c \<longrightarrow> get_task d' j = get_task d j)
    \<and> requeue_rel (get_task d (c_taskId c)) (get_task d' (c_taskId c)) \<and> not_running (get_task d' (c_taskId c))"
    using cases
  proof (elim disjE conjE exE)
    assume "d' = d1" "not_running (get_task d1 (c_taskId c))"
    then show ?thesis using ut1 t1 by (simp add: requeue_rel_def)
  next
    fix t t' assume t: "get_task d1 (c_taskId c) = Some t" "t_status t = St_running"
      and ap: "applyTransition ck (c_taskId c) St_queued None d1 = Inr (d', t')"
    note wf = applyTransition_wf [OF ut1 ap]
    have "taskClaims d' = taskClaims d1" using arg_cong [OF wf(5), of taskClaims] by simp
    then show ?thesis using wf(1,2,3,4) t t1 by (auto simp: requeue_rel_def not_running_def)
  qed
  then show "unique_by t_id (tasks d')" "unique_by c_id (taskClaims d')"
    "get_claim_row d' (c_id c) = Some (expire_claim render ck c)"
    "\<And>j. j \<noteq> c_id c \<Longrightarrow> get_claim_row d' j = get_claim_row d j"
    "\<And>j. j \<noteq> c_taskId c \<Longrightarrow> get_task d' j = get_task d j"
    "requeue_rel (get_task d (c_taskId c)) (get_task d' (c_taskId c))"
    "not_running (get_task d' (c_taskId c))"
    using u1 g1 f1 by (simp_all add: get_claim_row_def)
qed

lemma recover_all_Inr:
  "recover_all render ck cs d = Inr (d', rec) \<Longrightarrow>
   unique_by t_id (tasks d) \<Longrightarrow> unique_by c_id (taskClaims d) \<Longrightarrow> distinct (map c_id cs) \<Longrightarrow>
   (\<And>c. c \<in> set cs \<Longrightarrow> get_claim_row d (c_id c) = Some c \<and> c_status c = Clm_active) \<Longrightarrow>
   unique_by t_id (tasks d') \<and> unique_by c_id (taskClaims d')
   \<and> rec = map (\<lambda>c. (c_id c, c_taskId c)) cs
   \<and> (\<forall>c \<in> set cs. get_claim_row d' (c_id c) = Some (expire_claim render ck c)
        \<and> not_running (get_task d' (c_taskId c)))
   \<and> (\<forall>j. j \<notin> c_id ` set cs \<longrightarrow> get_claim_row d' j = get_claim_row d j)
   \<and> (\<forall>j. requeue_rel (get_task d j) (get_task d' j))
   \<and> (\<forall>j. j \<notin> c_taskId ` set cs \<longrightarrow> get_task d' j = get_task d j)"
proof (induction cs arbitrary: d d' rec)
  case Nil
  then show ?case by (simp add: requeue_rel_def)
next
  case (Cons c cs)
  obtain d1 rec1 where one: "recover_one render ck c d = Inr d1"
    and all: "recover_all render ck cs d1 = Inr (d', rec1)" and rec: "rec = (c_id c, c_taskId c) # rec1"
    using Cons.prems(1) by (auto simp: rbind_eq_Inr)
  have c: "get_claim_row d (c_id c) = Some c" "c_status c = Clm_active"
    using Cons.prems(5) [of c] by simp_all
  note one = recover_one_Inr [OF Cons.prems(2,3) c one]
  have "get_claim_row d1 (c_id x) = Some x \<and> c_status x = Clm_active" if "x \<in> set cs" for x
    using Cons.prems(4,5) that one(4) [of "c_id x"] by (metis distinct.simps(2) image_eqI insert_iff list.set(2) list.simps(9) set_map)
  note IH = Cons.IH [OF all one(1,2) _ this]
  have dist: "distinct (map c_id cs)" "c_id c \<notin> c_id ` set cs" using Cons.prems(4) by auto
  note IH = IH [OF dist(1)]
  have rel: "requeue_rel (get_task d j) (get_task d1 j)" for j
    using one(5) [of j] one(6) by (cases "j = c_taskId c") (auto simp: requeue_rel_def)
  have "requeue_rel (get_task d j) (get_task d' j)" for j
    using rel [of j] IH requeue_trans by blast
  moreover have "not_running (get_task d' (c_taskId c))"
    using one(7) IH requeue_not_running by blast
  moreover have "get_claim_row d' (c_id c) = Some (expire_claim render ck c)"
    using IH dist(2) one(3) by simp
  ultimately show ?case using IH one(4,5) rec by auto
qed

lemma lapsed_claims_props:
  assumes "unique_by c_id (taskClaims d)"
  shows "distinct (map c_id (lapsed_claims now d))"
    and "c \<in> set (lapsed_claims now d) \<Longrightarrow> get_claim_row d (c_id c) = Some c \<and> c_status c = Clm_active"
  using assms
  by (auto simp: lapsed_claims_def unique_by_def distinct_map_filter get_claim_row_def lookup_row_iff)

text \<open>
  C15. Crash recovery does its job and is idempotent: every claim that was active with a
  lease over before the sweep is expired and its task is not left running (it is queued
  again); claims that had not lapsed and tasks without a lapsed claim are untouched, no
  task changes other than from running to queued, and a second sweep at the same instant
  finds nothing and changes nothing.
\<close>

theorem recoverExpiredClaims_correct:
  assumes "unique_by t_id (tasks d)" and "unique_by c_id (taskClaims d)"
    and "recoverExpiredClaims render ck (Some now) d = Inr (d', recovered)"
  shows "recovered = map (\<lambda>c. (c_id c, c_taskId c)) (lapsed_claims now d)
    \<and> (\<forall>c \<in> set (lapsed_claims now d). get_claim_row d' (c_id c) = Some (expire_claim render ck c)
         \<and> not_running (get_task d' (c_taskId c)))
    \<and> (\<forall>c \<in> set (taskClaims d). c \<notin> set (lapsed_claims now d) \<longrightarrow> get_claim_row d' (c_id c) = Some c)
    \<and> (\<forall>j. requeue_rel (get_task d j) (get_task d' j))
    \<and> (\<forall>j. j \<notin> c_taskId ` set (lapsed_claims now d) \<longrightarrow> get_task d' j = get_task d j)
    \<and> recoverExpiredClaims render ck' (Some now) d' = Inr (d', [])"
proof -
  let ?cs = "lapsed_claims now d"
  have r: "recover_all render ck ?cs d = Inr (d', recovered)"
    using assms(3) by (simp add: recoverExpiredClaims_def at_or_now_def)
  have live: "get_claim_row d (c_id c) = Some c \<and> c_status c = Clm_active" if "c \<in> set ?cs" for c
    by (rule lapsed_claims_props(2) [OF assms(2) that])
  note all = recover_all_Inr [OF r assms(1,2) lapsed_claims_props(1) [OF assms(2)] live]
  have keep: "get_claim_row d' (c_id c) = Some c" if "c \<in> set (taskClaims d)" "c \<notin> set ?cs" for c
  proof -
    have "c_id c \<notin> c_id ` set ?cs"
      using that unique_by_inj [OF assms(2)] by (auto simp: lapsed_claims_def)
    moreover have "get_claim_row d (c_id c) = Some c"
      using that(1) assms(2) by (simp add: get_claim_row_def lookup_row_iff)
    ultimately show ?thesis using all by simp
  qed
  have u': "unique_by c_id (taskClaims d')" using all by blast
  have "lapsed_claims now d' = []"
  proof -
    have False if x: "x \<in> set (lapsed_claims now d')" for x
    proof -
      have x': "get_claim_row d' (c_id x) = Some x" "c_status x = Clm_active" "c_leaseExpiresAt x < now"
        using x lapsed_claims_props(2) [OF u' x] by (simp_all add: lapsed_claims_def)
      show False
      proof (cases "c_id x \<in> c_id ` set ?cs")
        case True
        then obtain c where "c \<in> set ?cs" "c_id x = c_id c" by auto
        then have "x = expire_claim render ck c" using all x'(1) by simp
        then show False using x'(2) by (simp add: expire_claim_def)
      next
        case False
        then have "get_claim_row d (c_id x) = Some x" using all x'(1) by simp
        then have "x \<in> set ?cs" using x' by (auto simp: lapsed_claims_def get_claim_row_def dest: lookup_row_SomeD)
        then show False using False by auto
      qed
    qed
    then show ?thesis by (cases "lapsed_claims now d'") auto
  qed
  then have "recoverExpiredClaims render ck' (Some now) d' = Inr (d', [])"
    by (simp add: recoverExpiredClaims_def at_or_now_def)
  then show ?thesis using all keep by simp
qed

theorem recoverExpiredClaims_correct_witness:
  "\<exists>d'. recoverExpiredClaims (\<lambda>_. []) sample_clock (Some 9) (sample_running 8) = Inr (d', [(''c'', ''b'')])
     \<and> not_running (get_task d' ''b'')"
proof -
  have u: "unique_by t_id (tasks (sample_running 8))" "unique_by c_id (taskClaims (sample_running 8))"
    by (code_simp, code_simp)
  have "succeeds (recoverExpiredClaims (\<lambda>_. []) sample_clock (Some 9) (sample_running 8))" by code_simp
  then obtain d' r where ok: "recoverExpiredClaims (\<lambda>_. []) sample_clock (Some 9) (sample_running 8) = Inr (d', r)"
    by (auto simp: succeeds_iff)
  have l: "lapsed_claims 9 (sample_running 8) = [sample_claim ''c'' 8]" by code_simp
  show ?thesis using recoverExpiredClaims_correct [OF u ok] ok unfolding l by (simp add: sample_claim_def)
qed

end
