(* ===== verification/Run_Service.thy ===== *)
theory Run_Service
  imports Claim_Service
begin

text \<open>
  Agent runs of src/domain/run-service.ts: the authorisation of a run inside its
  transaction, its status, its append-only event history, verification records and usage
  observations, with the normalisation of provider usage of src/providers/evidence.ts.
  The redaction and rendering of payloads (\<^verbatim>\<open>JSON.stringify(redactValue(x))\<close>), the
  redaction of texts and SHA-256 are the arguments \<open>render\<close>, \<open>redactText\<close>, \<open>sha256\<close>.
\<close>

section \<open>Creating a run\<close>

record new_run =
  nr_taskId :: string
  nr_providerId :: string
  nr_claimId :: "string option"
  nr_claimWorkerId :: "string option"
  nr_modelId :: "string option"
  nr_modelRef :: string
  nr_purpose :: run_purpose
  nr_billingMode :: billing_mode
  nr_routingReason :: string
  nr_paidUsageDecisionId :: "string option"
  nr_independenceLoss :: "string option"
  nr_sourceHead :: "string option"
  nr_allowanceState :: "string option"
  nr_worktreeId :: "string option"
  nr_now :: "instant option"

definition head_well_formed :: "new_run \<Rightarrow> bool" where
  "head_well_formed input = (case nr_sourceHead input of None \<Rightarrow> True | Some h \<Rightarrow> is_sha40 h)"

text \<open>Runs that change or judge the candidate run at its frozen head.\<close>

definition check_frozen_head :: "task_row \<Rightarrow> new_run \<Rightarrow> unit outcome" where
  "check_frozen_head task input =
     (if nr_purpose input \<in> {Pur_verification, Pur_implementation, Pur_repair, Pur_review} then
        rbind (parseCompletionCriteria (t_completionCriteriaSnapshotJson task)) (\<lambda>criteria.
          case cc_progressiveValidation criteria of
            None \<Rightarrow> Inr ()
          | Some p \<Rightarrow>
              ensure (nr_sourceHead input = pg_candidateHead p)
                (RunAuthorisationError (Frozen_candidate_head_required (nr_purpose input) (pg_candidateHead p))))
      else Inr ())"

definition model_of :: "db \<Rightarrow> new_run \<Rightarrow> model_row option" where
  "model_of d input =
     find (\<lambda>m. am_providerId m = nr_providerId input \<and> am_modelRef m = nr_modelRef input) (agentModels d)"

definition check_billing :: "db \<Rightarrow> new_run \<Rightarrow> unit outcome" where
  "check_billing d input =
     (if nr_billingMode input = Bill_unknown then Inl (RunAuthorisationError Billing_unknown)
      else (case model_of d input of
              None \<Rightarrow> Inl (RunAuthorisationError (No_authoritative_billing (nr_modelRef input)))
            | Some m \<Rightarrow>
                if am_billingMode m = Bill_unknown
                then Inl (RunAuthorisationError (No_authoritative_billing (nr_modelRef input)))
                else if am_billingMode m \<noteq> nr_billingMode input
                then Inl (RunAuthorisationError (Billing_mismatch (nr_billingMode input) (am_billingMode m)))
                else if nr_modelId input \<noteq> None \<and> nr_modelId input \<noteq> Some (am_id m)
                then Inl (RunAuthorisationError (Model_id_mismatch (nr_modelRef input)))
                else Inr ()))"

definition run_claim_live :: "clock \<Rightarrow> db \<Rightarrow> new_run \<Rightarrow> string \<Rightarrow> bool" where
  "run_claim_live ck d input claimId =
     (case lookup_row c_id claimId (taskClaims d) of
        None \<Rightarrow> False
      | Some c \<Rightarrow> c_taskId c = nr_taskId input \<and> c_status c = Clm_active
          \<and> \<not> c_leaseExpiresAt c \<le> at_or_now ck (nr_now input)
          \<and> Some (c_workerId c) = nr_claimWorkerId input)"

definition check_claim :: "clock \<Rightarrow> db \<Rightarrow> new_run \<Rightarrow> unit outcome" where
  "check_claim ck d input =
     (case nr_claimId input of None \<Rightarrow> Inr ()
      | Some i \<Rightarrow> ensure (run_claim_live ck d input i) (StaleClaimError i))"

text \<open>What a paid run must hold: the expectations passed to \<open>isApprovedDecision\<close>.\<close>

definition paid_expectation :: "db \<Rightarrow> task_row \<Rightarrow> new_run \<Rightarrow> decision_expectation" where
  "paid_expectation d task input =
     \<lparr>ex_category = ''paid_usage'', ex_taskId = Some (nr_taskId input), ex_projectId = Some (t_projectId task),
      ex_scope = Some \<lparr>ds_provider = Some (or_else (provider_name d (nr_providerId input)) []),
                       ds_modelRef = Some (nr_modelRef input),
                       ds_purpose = Some (purpose_name (nr_purpose input)), ds_actionDigest = None\<rparr>,
      ex_requireExpiry = True, ex_requireUnconsumed = True, ex_now = nr_now input\<rparr>"

definition check_paid :: "clock \<Rightarrow> db \<Rightarrow> task_row \<Rightarrow> new_run \<Rightarrow> unit outcome" where
  "check_paid ck d task input =
     (if paid_billing (nr_billingMode input) then
        (if \<not> truthy (nr_paidUsageDecisionId input) then Inl (RunAuthorisationError Paid_requires_decision)
         else let i = or_else (nr_paidUsageDecisionId input) [] in
           ensure (isApprovedDecision ck d i (paid_expectation d task input))
             (RunAuthorisationError (Decision_does_not_authorise i)))
      else Inr ())"

definition run_from :: "clock \<Rightarrow> string \<Rightarrow> new_run \<Rightarrow> run_row" where
  "run_from ck uuid input =
     \<lparr>r_id = newId ''arun'' uuid, r_taskId = nr_taskId input, r_claimId = nr_claimId input,
      r_claimWorkerId = nr_claimWorkerId input, r_providerId = nr_providerId input,
      r_modelId = nr_modelId input, r_modelRef = nr_modelRef input, r_purpose = nr_purpose input,
      r_billingMode = nr_billingMode input, r_routingReason = nr_routingReason input,
      r_paidUsageDecisionId = nr_paidUsageDecisionId input, r_independenceLoss = nr_independenceLoss input,
      r_sourceHead = nr_sourceHead input, r_allowanceState = nr_allowanceState input,
      r_worktreeId = nr_worktreeId input, r_status = Run_pending, r_sessionRef = None,
      r_startedAt = None, r_endedAt = None, r_createdAt = svc_now ck, r_updatedAt = svc_now ck\<rparr>"

definition consumption_verified :: "db \<Rightarrow> run_row \<Rightarrow> bool" where
  "consumption_verified d row =
     (paid_billing (r_billingMode row) \<and> truthy (r_paidUsageDecisionId row) \<longrightarrow>
        (case lookup_row d_id (or_else (r_paidUsageDecisionId row) []) (decisionRequests d) of
           None \<Rightarrow> False | Some x \<Rightarrow> d_consumedByRunId x = Some (r_id row)))"

definition createRun :: "clock \<Rightarrow> string \<Rightarrow> new_run \<Rightarrow> db \<Rightarrow> (db \<times> run_row) outcome" where
  "createRun ck uuid input d =
     rbind (ensure (head_well_formed input) (RunAuthorisationError Source_head_not_sha)) (\<lambda>_.
     rbind (if paid_billing (nr_billingMode input) then require_capability Cap_paid_provider_execution else Inr ()) (\<lambda>_.
     rbind (if nr_claimId input \<noteq> None then require_capability Cap_worker_owned_downstream_mutations else Inr ()) (\<lambda>_.
     rbind (getTask d (nr_taskId input)) (\<lambda>task.
     rbind (check_frozen_head task input) (\<lambda>_.
     rbind (check_billing d input) (\<lambda>_.
     rbind (check_claim ck d input) (\<lambda>_.
     rbind (check_paid ck d task input) (\<lambda>_.
       let row = run_from ck uuid input in
       rbind (insert_run ck row d) (\<lambda>d'.
         if consumption_verified d' row then Inr (d', row)
         else Inl (RunAuthorisationError
                (Approval_not_consumed (or_else (nr_paidUsageDecisionId input) []) (r_id row))))))))))))"

section \<open>Provider usage\<close>

fun usage_count :: "json option \<Rightarrow> rat option" where
  "usage_count (Some (JNum q)) = (if 0 \<le> q then Some q else None)"
| "usage_count _ = None"

record usage_tokens =
  ut_input :: "rat option"
  ut_output :: "rat option"
  ut_cacheRead :: "rat option"
  ut_cacheCreation :: "rat option"
  ut_reasoning :: "rat option"
  ut_total :: "rat option"

record normalized_usage =
  nu_tokens :: "usage_tokens option"
  nu_cost :: "rat option"

definition is_object :: "json option \<Rightarrow> bool" where
  "is_object j = (case j of Some (JObj _) \<Rightarrow> True | Some (JArr _) \<Rightarrow> True | _ \<Rightarrow> False)"

definition opt_or :: "'a option \<Rightarrow> 'a option \<Rightarrow> 'a option" where
  "opt_or x y = (case x of None \<Rightarrow> y | Some v \<Rightarrow> Some v)"

definition normalizeProviderUsage :: "json option \<Rightarrow> normalized_usage option" where
  "normalizeProviderUsage raw =
     (if \<not> is_object raw then None
      else let outer_obj = the raw;
               u = (if is_object (jget ''total_token_usage'' outer_obj)
                    then the (jget ''total_token_usage'' outer_obj) else outer_obj);
               count = (\<lambda>k. usage_count (jget k u));
               inp = count ''input_tokens''; out = count ''output_tokens'';
               tokens = (if inp \<noteq> None \<or> out \<noteq> None then
                   Some \<lparr>ut_input = inp, ut_output = out,
                     ut_cacheRead = opt_or (count ''cache_read_input_tokens'') (count ''cached_input_tokens''),
                     ut_cacheCreation = count ''cache_creation_input_tokens'',
                     ut_reasoning = count ''reasoning_output_tokens'',
                     ut_total = opt_or (count ''total_tokens'')
                       (case (inp, out) of (Some a, Some b) \<Rightarrow> Some (a + b) | _ \<Rightarrow> None)\<rparr>
                 else None);
               cost = usage_count (jget ''total_cost_usd'' outer_obj)
           in if tokens \<noteq> None \<or> cost \<noteq> None
              then Some \<lparr>nu_tokens = tokens, nu_cost = cost\<rparr> else None)"

definition num_or_null :: "rat option \<Rightarrow> json" where
  "num_or_null x = (case x of None \<Rightarrow> JNull | Some q \<Rightarrow> JNum q)"

definition tokens_json :: "usage_tokens \<Rightarrow> json" where
  "tokens_json t = JObj [(''input'', num_or_null (ut_input t)), (''output'', num_or_null (ut_output t)),
     (''cacheRead'', num_or_null (ut_cacheRead t)), (''cacheCreation'', num_or_null (ut_cacheCreation t)),
     (''reasoning'', num_or_null (ut_reasoning t)), (''total'', num_or_null (ut_total t))]"

definition cost_json :: "rat \<Rightarrow> json" where
  "cost_json c = JObj [(''cost'', JNum c), (''currency'', JStr ''USD'')]"

text \<open>\<^verbatim>\<open>x ?? {}\<close>: null stands for the empty object.\<close>

definition payload_or_empty :: "json \<Rightarrow> json" where
  "payload_or_empty j = (if j = JNull then JObj [] else j)"

record new_usage =
  nu_providerId :: string
  nu_modelId :: "string option"
  nu_agentRunId :: "string option"
  nu_kind :: usage_kind
  nu_data :: json

definition recordUsage ::
  "(json \<Rightarrow> string) \<Rightarrow> clock \<Rightarrow> string \<Rightarrow> new_usage \<Rightarrow> db \<Rightarrow> (db \<times> usage_row) outcome" where
  "recordUsage render ck uuid input d =
     (let row = \<lparr>u_id = newId ''usage'' uuid, u_providerId = nu_providerId input, u_modelId = nu_modelId input,
                 u_agentRunId = nu_agentRunId input, u_kind = nu_kind input, u_dataJson = render (payload_or_empty (nu_data input)),
                 u_observedAt = svc_now ck, u_createdAt = svc_now ck\<rparr>
      in rbind (insert_usage ck row d) (\<lambda>d'. Inr (d', row)))"

section \<open>Run status\<close>

definition getRun :: "db \<Rightarrow> string \<Rightarrow> run_row outcome" where
  "getRun d runId =
     (case get_run_row d runId of None \<Rightarrow> Inl (Not_found ''agent run'' runId) | Some r \<Rightarrow> Inr r)"

definition ended_status :: "run_status \<Rightarrow> bool" where
  "ended_status s = (s \<in> {Run_succeeded, Run_failed, Run_cancelled, Run_timed_out, Run_checkpointed})"

definition status_patch :: "clock \<Rightarrow> run_status \<Rightarrow> string option \<Rightarrow> run_row \<Rightarrow> run_row" where
  "status_patch ck status sessionRef r =
     (let r1 = r\<lparr>r_status := status\<rparr>;
          r2 = (if truthy sessionRef then r1\<lparr>r_sessionRef := sessionRef\<rparr> else r1);
          r3 = (if status = Run_running then r2\<lparr>r_startedAt := Some (svc_now ck)\<rparr> else r2)
      in if ended_status status then r3\<lparr>r_endedAt := Some (svc_now ck)\<rparr> else r3)"

definition usage_link :: "run_row \<Rightarrow> string \<Rightarrow> usage_kind \<Rightarrow> json \<Rightarrow> new_usage" where
  "usage_link run runId kind data =
     \<lparr>nu_providerId = r_providerId run, nu_modelId = (if truthy (r_modelId run) then r_modelId run else None),
      nu_agentRunId = Some runId, nu_kind = kind, nu_data = data\<rparr>"

text \<open>
  \<open>setRunStatus\<close> opens no transaction: a failure after a usage row was written leaves that
  row. The result pairs the database reached with the outcome.
\<close>

definition set_status_only ::
  "clock \<Rightarrow> string \<Rightarrow> run_status \<Rightarrow> string option \<Rightarrow> db \<Rightarrow> db \<times> run_row outcome" where
  "set_status_only ck runId status sessionRef d =
     (case cas_run ck runId (\<lambda>_. True) (status_patch ck status sessionRef) d of
        Inl e \<Rightarrow> (d, Inl e) | Inr (d', _) \<Rightarrow> (d', getRun d' runId))"

fun record_usages ::
  "(json \<Rightarrow> string) \<Rightarrow> clock \<Rightarrow> (string \<times> new_usage) list \<Rightarrow> db \<Rightarrow> db \<times> unit outcome" where
  "record_usages render ck [] d = (d, Inr ())"
| "record_usages render ck ((uuid, u) # us) d =
     (case recordUsage render ck uuid u d of
        Inl e \<Rightarrow> (d, Inl e) | Inr (d', _) \<Rightarrow> record_usages render ck us d')"

definition setRunStatus ::
  "(json \<Rightarrow> string) \<Rightarrow> clock \<Rightarrow> string \<times> string \<Rightarrow> string \<Rightarrow> run_status \<Rightarrow> string option \<Rightarrow> json option
     \<Rightarrow> db \<Rightarrow> db \<times> run_row outcome" where
  "setRunStatus render ck uuids runId status sessionRef usage d =
     (case normalizeProviderUsage usage of
        None \<Rightarrow> set_status_only ck runId status sessionRef d
      | Some nu \<Rightarrow>
          (case getRun d runId of
             Inl e \<Rightarrow> (d, Inl e)
           | Inr run \<Rightarrow>
               let us = (case nu_tokens nu of None \<Rightarrow> []
                         | Some t \<Rightarrow> [(fst uuids, usage_link run runId Use_tokens (tokens_json t))])
                        @ (case nu_cost nu of None \<Rightarrow> []
                           | Some c \<Rightarrow> [(snd uuids, usage_link run runId Use_cost (cost_json c))])
               in (case record_usages render ck us d of
                     (d1, Inl e) \<Rightarrow> (d1, Inl e)
                   | (d1, Inr _) \<Rightarrow> set_status_only ck runId status sessionRef d1)))"

section \<open>Run events\<close>

record appended_event =
  ae_event :: run_event_row
  ae_duplicate :: bool

definition hashEventPayload :: "(string \<Rightarrow> string) \<Rightarrow> string \<Rightarrow> string \<Rightarrow> string" where
  "hashEventPayload sha256 type payloadJson = sha256 (type @ [CHR 0x0A] @ payloadJson)"

definition event_with_key :: "db \<Rightarrow> string \<Rightarrow> string option \<Rightarrow> run_event_row option" where
  "event_with_key d runId eventKey =
     (case eventKey of None \<Rightarrow> None
      | Some k \<Rightarrow> find (\<lambda>e. ev_runId e = runId \<and> ev_eventKey e = Some k) (agentRunEvents d))"

text \<open>\<open>last_seq\<close>: the sequence number ordered first by \<^verbatim>\<open>desc(seq) limit 1\<close>, or 0.\<close>

definition last_seq :: "db \<Rightarrow> string \<Rightarrow> nat" where
  "last_seq d runId =
     foldr (\<lambda>e m. if ev_runId e = runId then max (ev_seq e) m else m) (agentRunEvents d) 0"

definition getEvent :: "db \<Rightarrow> string \<Rightarrow> run_event_row outcome" where
  "getEvent d i =
     (case lookup_row ev_id i (agentRunEvents d) of
        None \<Rightarrow> Inl (Not_found ''run event'' i) | Some e \<Rightarrow> Inr e)"

definition appendRunEvent ::
  "(json \<Rightarrow> string) \<Rightarrow> (string \<Rightarrow> string) \<Rightarrow> clock \<Rightarrow> string \<Rightarrow> string \<Rightarrow> string \<Rightarrow> json \<Rightarrow> string option
     \<Rightarrow> db \<Rightarrow> (db \<times> appended_event) outcome" where
  "appendRunEvent render sha256 ck uuid runId type payload eventKey d =
     (let payloadJson = render (payload_or_empty payload);
          payloadHash = hashEventPayload sha256 type payloadJson
      in case event_with_key d runId eventKey of
           Some existing \<Rightarrow>
             if ev_payloadHash existing = payloadHash \<and> ev_type existing = type
             then Inr (d, \<lparr>ae_event = existing, ae_duplicate = True\<rparr>)
             else Inl (ConflictingEventError runId (or_else eventKey []))
         | None \<Rightarrow>
             let row = \<lparr>ev_id = newId ''aevt'' uuid, ev_runId = runId, ev_seq = last_seq d runId + 1,
                        ev_type = type, ev_eventKey = eventKey, ev_payloadHash = payloadHash,
                        ev_payloadJson = payloadJson, ev_createdAt = svc_now ck\<rparr>
             in rbind (insert_run_event ck row d) (\<lambda>d'.
                rbind (getEvent d' (ev_id row)) (\<lambda>e. Inr (d', \<lparr>ae_event = e, ae_duplicate = False\<rparr>))))"

definition listRunEvents :: "db \<Rightarrow> string \<Rightarrow> run_event_row list" where
  "listRunEvents d runId = sort_key ev_seq (filter (\<lambda>e. ev_runId e = runId) (agentRunEvents d))"

section \<open>Verification records\<close>

record new_verification =
  nv_taskId :: string
  nv_command :: string
  nv_status :: verification_status
  nv_exitCode :: "int option"
  nv_outputSummary :: "string option"
  nv_validationSubject :: "string option"
  nv_agentRunId :: "string option"
  nv_startedAt :: "instant option"
  nv_endedAt :: "instant option"

definition recordVerificationRun ::
  "(string \<Rightarrow> string) \<Rightarrow> clock \<Rightarrow> string \<Rightarrow> new_verification \<Rightarrow> db \<Rightarrow> (db \<times> verification_row) outcome" where
  "recordVerificationRun redactText ck uuid input d =
     (let terminal = (nv_status input = Ver_passed \<or> nv_status input = Ver_failed);
          stamp = (\<lambda>t. case t of Some x \<Rightarrow> Some x | None \<Rightarrow> if terminal then Some (svc_now ck) else None)
      in if nv_status input = Ver_passed \<and> nv_exitCode input \<noteq> Some 0
         then Inl (Passed_requires_exit_zero (nv_exitCode input))
         else let row = \<lparr>v_id = newId ''vrun'' uuid, v_taskId = nv_taskId input,
                   v_agentRunId = nv_agentRunId input, v_command = nv_command input,
                   v_status = nv_status input, v_exitCode = nv_exitCode input,
                   v_outputSummary = map_option redactText (nv_outputSummary input),
                   v_validationSubject = nv_validationSubject input,
                   v_startedAt = stamp (nv_startedAt input), v_endedAt = stamp (nv_endedAt input),
                   v_createdAt = svc_now ck\<rparr>
              in rbind (insert_verification ck row d) (\<lambda>d'. Inr (d', row)))"

section \<open>What an authorised run holds\<close>

lemma getRun_Inr_iff [simp]: "getRun d i = Inr r \<longleftrightarrow> get_run_row d i = Some r"
  by (auto simp: getRun_def split: option.splits)

lemma insert_run_Inr:
  assumes "insert_run ck r d = Inr d'"
  shows "list_all snd (run_insert_constraints ck d r)" and "agentRuns d' = agentRuns d @ [r]"
    and "\<not> paid_billing (r_billingMode r) \<Longrightarrow> d' = d\<lparr>agentRuns := agentRuns d @ [r]\<rparr>"
    and "paid_billing (r_billingMode r) \<Longrightarrow> decisionRequests d' =
      update_where (\<lambda>x. Some (d_id x) = r_paidUsageDecisionId r \<and> d_consumedByRunId x = None)
        (\<lambda>x. x\<lparr>d_consumedByRunId := Some (r_id r)\<rparr>) (decisionRequests d)"
  using assms
  by (auto simp: insert_run_def rbind_eq_Inr insert_row_Inr_iff Let_def split: if_splits
      dest!: update_decisions_InrD)

lemma createRun_Inr:
  assumes "createRun ck uuid input d = Inr (d', row)"
  obtains task where "get_task d (nr_taskId input) = Some task" "head_well_formed input"
    "check_frozen_head task input = Inr ()" "check_billing d input = Inr ()"
    "check_claim ck d input = Inr ()" "check_paid ck d task input = Inr ()"
    "row = run_from ck uuid input" "insert_run ck row d = Inr d'" "consumption_verified d' row"
  using assms
  unfolding createRun_def rbind_eq_Inr Let_def
  by (auto split: if_splits)

lemma check_billing_Inr:
  "check_billing d input = Inr () \<Longrightarrow> nr_billingMode input \<noteq> Bill_unknown
     \<and> (\<exists>m \<in> set (agentModels d). am_providerId m = nr_providerId input \<and> am_modelRef m = nr_modelRef input
          \<and> am_billingMode m = nr_billingMode input)"
  by (auto simp: check_billing_def model_of_def split: option.splits if_splits dest!: find_SomeD)

lemma check_frozen_head_Inr:
  assumes "check_frozen_head task input = Inr ()" "nr_purpose input \<noteq> Pur_analysis"
  shows "\<exists>c. parseCompletionCriteria (t_completionCriteriaSnapshotJson task) = Inr c
    \<and> (\<forall>p. cc_progressiveValidation c = Some p \<longrightarrow> nr_sourceHead input = pg_candidateHead p)"
  using assms
  by (cases "nr_purpose input") (auto simp: check_frozen_head_def rbind_eq_Inr split: option.splits)

definition paid_grant :: "clock \<Rightarrow> db \<Rightarrow> task_row \<Rightarrow> new_run \<Rightarrow> decision_row \<Rightarrow> bool" where
  "paid_grant ck d task input x \<longleftrightarrow>
     Some (d_id x) = nr_paidUsageDecisionId input \<and> d_status x = Dec_approved \<and> d_category x = ''paid_usage''
     \<and> d_taskId x = Some (nr_taskId input) \<and> d_projectId x = Some (t_projectId task)
     \<and> d_consumedByRunId x = None
     \<and> (\<exists>e. d_expiresAt x = Some e \<and> at_or_now ck (nr_now input) < e)"

lemma check_paid_Inr:
  assumes "check_paid ck d task input = Inr ()" "paid_billing (nr_billingMode input)"
  shows "\<exists>x. lookup_row d_id (d_id x) (decisionRequests d) = Some x \<and> paid_grant ck d task input x"
proof -
  obtain i where i: "nr_paidUsageDecisionId input = Some i"
    and ok: "isApprovedDecision ck d i (paid_expectation d task input)"
    using assms by (cases "nr_paidUsageDecisionId input") (auto simp: check_paid_def truthy_def or_else_def Let_def split: if_splits)
  then obtain x where "lookup_row d_id i (decisionRequests d) = Some x" "d_status x = Dec_approved"
      "d_category x = ''paid_usage''" "d_taskId x = Some (nr_taskId input)" "d_projectId x = Some (t_projectId task)"
      "d_consumedByRunId x = None" "d_expiresAt x \<noteq> None"
      "\<forall>t. d_expiresAt x = Some t \<longrightarrow> at_or_now ck (nr_now input) < t"
    unfolding isApprovedDecision_iff by (auto simp: paid_expectation_def)
  moreover from this(1) have "d_id x = i" by (auto dest: lookup_row_SomeD)
  ultimately show ?thesis using i by (intro exI [of _ x]) (auto simp: paid_grant_def)
qed


text \<open>
  One approval, one charge: after a paid run was created, no other run can be created
  on the same decision.
\<close>

theorem paid_approval_used_once:
  assumes "createRun ck uuid input d = Inr (d', row)" and "paid_billing (nr_billingMode input)"
    and "paid_billing (nr_billingMode input')"
    and "nr_paidUsageDecisionId input' = nr_paidUsageDecisionId input"
  shows "\<exists>e. createRun ck' uuid' input' d' = Inl e"
proof (cases "createRun ck' uuid' input' d'")
  case (Inr res)
  obtain d2 row2 where "createRun ck' uuid' input' d' = Inr (d2, row2)"
    using Inr by (cases res) auto
  then obtain task2 where paid2: "check_paid ck' d' task2 input' = Inr ()"
    by (rule createRun_Inr)
  obtain x where x: "lookup_row d_id (d_id x) (decisionRequests d') = Some x" "paid_grant ck' d' task2 input' x"
    using check_paid_Inr [OF paid2 assms(3)] by blast
  obtain task where row: "row = run_from ck uuid input" and v: "consumption_verified d' row"
      and paid: "check_paid ck d task input = Inr ()"
    by (rule createRun_Inr [OF assms(1)])
  have id: "nr_paidUsageDecisionId input = Some (d_id x)"
    using x(2) assms(4) by (simp add: paid_grant_def)
  have "truthy (nr_paidUsageDecisionId input)"
    using paid assms(2) by (auto simp: check_paid_def split: if_splits)
  then have "d_consumedByRunId x = Some (r_id row)"
    using v assms(2) x(1) id by (simp add: consumption_verified_def row run_from_def or_else_def)
  then show ?thesis using x(2) by (simp add: paid_grant_def)
qed blast

definition sample_grant :: decision_row where
  "sample_grant = \<lparr>d_id = ''dec'', d_projectId = Some ''p'', d_taskId = Some ''t'', d_category = ''paid_usage'',
     d_question = [], d_contextJson = Some (Json_doc (JObj [(''scope'', JObj [(''provider'', JStr ''pv''),
       (''modelRef'', JStr ''m''), (''purpose'', JStr ''analysis'')])])), d_status = Dec_approved,
     d_resolution = None, d_resolvedAt = Some 1, d_expiresAt = Some 100, d_consumedByRunId = None,
     d_createdAt = 0, d_updatedAt = 1\<rparr>"

definition sample_paid_db :: db where
  "sample_paid_db = empty_db\<lparr>tasks := [sample_task ''t'' St_draft],
     agentProviders := [\<lparr>ap_id = ''pv1'', ap_name = ''pv'', ap_accountLabel = ''default'', ap_executable = None,
       ap_version = None, ap_credentialFingerprint = None, ap_lastDiscoveredAt = None, ap_createdAt = 0,
       ap_updatedAt = 0\<rparr>],
     agentModels := [\<lparr>am_id = ''m1'', am_providerId = ''pv1'', am_modelRef = ''m'', am_routingClass = Cls_opus,
       am_visible = True, am_authenticated = True, am_availability = Av_available,
       am_billingMode = Bill_api_billing, am_prohibited = False, am_prohibitedReason = None,
       am_lastProbedAt = None, am_nextProbeAt = None, am_createdAt = 0, am_updatedAt = 0\<rparr>],
     decisionRequests := [sample_grant]\<rparr>"

definition sample_new_run :: new_run where
  "sample_new_run = \<lparr>nr_taskId = ''t'', nr_providerId = ''pv1'', nr_claimId = None, nr_claimWorkerId = None,
     nr_modelId = None, nr_modelRef = ''m'', nr_purpose = Pur_analysis, nr_billingMode = Bill_api_billing,
     nr_routingReason = [], nr_paidUsageDecisionId = Some ''dec'', nr_independenceLoss = None,
     nr_sourceHead = None, nr_allowanceState = None, nr_worktreeId = None, nr_now = None\<rparr>"

lemma sample_paid_run: "succeeds (createRun sample_clock ''u'' sample_new_run sample_paid_db)"
  by code_simp


theorem paid_approval_used_once_witness:
  "\<exists>d' row e. createRun sample_clock ''u'' sample_new_run sample_paid_db = Inr (d', row)
     \<and> createRun sample_clock ''v'' sample_new_run d' = Inl e"
proof -
  obtain d' row where ok: "createRun sample_clock ''u'' sample_new_run sample_paid_db = Inr (d', row)"
    using sample_paid_run by (auto simp: succeeds_iff)
  have p: "paid_billing (nr_billingMode sample_new_run)" by code_simp
  show ?thesis using paid_approval_used_once [OF ok p p refl] ok by blast
qed

section \<open>The event history\<close>

lemma last_seq_ge: "e \<in> set (agentRunEvents d) \<Longrightarrow> ev_runId e = i \<Longrightarrow> ev_seq e \<le> last_seq d i"
proof -
  have "e \<in> set es \<Longrightarrow> ev_runId e = i \<Longrightarrow>
      ev_seq e \<le> foldr (\<lambda>e m. if ev_runId e = i then max (ev_seq e) m else m) es 0" for es
    by (induction es) auto
  then show "e \<in> set (agentRunEvents d) \<Longrightarrow> ev_runId e = i \<Longrightarrow> ev_seq e \<le> last_seq d i"
    by (simp add: last_seq_def)
qed

lemma find_snoc: "find P xs = None \<Longrightarrow> find P (xs @ [x]) = (if P x then Some x else None)"
  by (induction xs) (auto split: if_splits)

lemma appendRunEvent_new:
  assumes "appendRunEvent render sha ck uuid i ty payload key d = Inr (d', a)" and "\<not> ae_duplicate a"
  shows "event_with_key d i key = None" and "agentRunEvents d' = agentRunEvents d @ [ae_event a]"
    and "ae_event a = \<lparr>ev_id = newId ''aevt'' uuid, ev_runId = i, ev_seq = last_seq d i + 1, ev_type = ty,
           ev_eventKey = key, ev_payloadHash = hashEventPayload sha ty (render (payload_or_empty payload)),
           ev_payloadJson = render (payload_or_empty payload), ev_createdAt = svc_now ck\<rparr>"
proof -
  let ?row = "\<lparr>ev_id = newId ''aevt'' uuid, ev_runId = i, ev_seq = last_seq d i + 1, ev_type = ty,
           ev_eventKey = key, ev_payloadHash = hashEventPayload sha ty (render (payload_or_empty payload)),
           ev_payloadJson = render (payload_or_empty payload), ev_createdAt = svc_now ck\<rparr>"
  show none: "event_with_key d i key = None"
    using assms by (auto simp: appendRunEvent_def Let_def split: option.splits if_splits)
  then obtain e where ins: "insert_run_event ck ?row d = Inr d'" and e: "getEvent d' (ev_id ?row) = Inr e"
      and a: "a = \<lparr>ae_event = e, ae_duplicate = False\<rparr>"
    using assms(1) by (auto simp: appendRunEvent_def Let_def rbind_eq_Inr)
  have d': "agentRunEvents d' = agentRunEvents d @ [?row]"
    using insert_run_event_InrD [OF ins] by simp
  have "ev_id ?row \<notin> ev_id ` set (agentRunEvents d)"
    using ins by (auto simp: insert_run_event_def insert_row_Inr_iff rbind_eq_Inr)
  then have "e = ?row"
    using e by (simp add: getEvent_def d' lookup_row_append lookup_row_None_iff [THEN iffD2])
  then show "ae_event a = ?row" "agentRunEvents d' = agentRunEvents d @ [ae_event a]"
    using a d' by simp_all
qed

text \<open>
  The event history is append-only, ordered and idempotent: a new event goes to the
  end with a sequence number above every earlier one of its run and leaves the earlier
  events as they are; a keyed event delivered again is answered with the stored event and
  changes nothing, and different content under the same key is refused as a conflict.
\<close>

theorem appendRunEvent_history:
  assumes "appendRunEvent render sha ck uuid i ty payload key d = Inr (d', a)"
  shows "(ae_duplicate a \<longrightarrow> d' = d \<and> ae_event a \<in> set (agentRunEvents d))
    \<and> (\<not> ae_duplicate a \<longrightarrow> agentRunEvents d' = agentRunEvents d @ [ae_event a]
         \<and> (\<forall>e \<in> set (agentRunEvents d). ev_runId e = i \<longrightarrow> ev_seq e < ev_seq (ae_event a)))
    \<and> ev_runId (ae_event a) = i \<and> ev_type (ae_event a) = ty
    \<and> (key \<noteq> None \<longrightarrow>
         appendRunEvent render sha ck' uuid' i ty payload key d' = Inr (d', \<lparr>ae_event = ae_event a, ae_duplicate = True\<rparr>)
         \<and> (ty' \<noteq> ty \<longrightarrow>
              appendRunEvent render sha ck' uuid' i ty' payload' key d' = Inl (ConflictingEventError i (or_else key []))))"
proof (cases "ae_duplicate a")
  case True
  then have d': "d' = d" and e: "event_with_key d i key = Some (ae_event a)"
      "ev_payloadHash (ae_event a) = hashEventPayload sha ty (render (payload_or_empty payload))"
      "ev_type (ae_event a) = ty"
    using assms by (auto simp: appendRunEvent_def Let_def rbind_eq_Inr split: option.splits if_splits)
  then have "ae_event a \<in> set (agentRunEvents d)" "ev_runId (ae_event a) = i"
    by (auto simp: event_with_key_def split: option.splits dest!: find_SomeD)
  then show ?thesis using True d' e by (simp add: appendRunEvent_def Let_def)
next
  case False
  note new = appendRunEvent_new [OF assms False]
  have seq: "ev_seq e < ev_seq (ae_event a)" if "e \<in> set (agentRunEvents d)" "ev_runId e = i" for e
    using last_seq_ge [OF that] new(3) by simp
  have key: "event_with_key d' i key = Some (ae_event a)" if kn: "key \<noteq> None"
  proof -
    obtain k where k: "key = Some k" using kn by blast
    then have "find (\<lambda>e. ev_runId e = i \<and> ev_eventKey e = Some k) (agentRunEvents d) = None"
      using new(1) by (simp add: event_with_key_def)
    then have "find (\<lambda>e. ev_runId e = i \<and> ev_eventKey e = Some k) (agentRunEvents d @ [ae_event a]) = Some (ae_event a)"
      using new(3) k by (simp add: find_snoc)
    then show ?thesis using k new(2) by (simp add: event_with_key_def)
  qed
  then show ?thesis using False new(2,3) seq by (auto simp: appendRunEvent_def Let_def)
qed

definition sample_events_db :: db where
  "sample_events_db = empty_db\<lparr>agentRuns := [sample_run ''r'' Pur_analysis],
     tasks := [sample_task ''t'' St_running]\<rparr>"

theorem appendRunEvent_history_witness:
  "\<exists>d' a. appendRunEvent (\<lambda>_. ''j'') (\<lambda>s. s) sample_clock ''u'' ''r'' ''log'' JNull (Some ''k'') sample_events_db = Inr (d', a)
     \<and> appendRunEvent (\<lambda>_. ''j'') (\<lambda>s. s) sample_clock ''w'' ''r'' ''other'' JNull (Some ''k'') d'
         = Inl (ConflictingEventError ''r'' ''k'')"
proof -
  have "succeeds (appendRunEvent (\<lambda>_. ''j'') (\<lambda>s. s) sample_clock ''u'' ''r'' ''log'' JNull (Some ''k'') sample_events_db)"
    by code_simp
  then obtain d' a where
    ok: "appendRunEvent (\<lambda>_. ''j'') (\<lambda>s. s) sample_clock ''u'' ''r'' ''log'' JNull (Some ''k'') sample_events_db = Inr (d', a)"
    by (auto simp: succeeds_iff)
  have "''other'' \<noteq> ''log''" by simp
  then have "appendRunEvent (\<lambda>_. ''j'') (\<lambda>s. s) sample_clock ''w'' ''r'' ''other'' JNull (Some ''k'') d'
      = Inl (ConflictingEventError ''r'' (or_else (Some ''k'') []))"
    using appendRunEvent_history [OF ok, where ty' = "''other''" and payload' = JNull
        and ck' = sample_clock and uuid' = "''w''"] by simp
  then show ?thesis using ok by (auto simp: or_else_def)
qed

section \<open>Verification records\<close>

text \<open>
  A verification record cannot claim success without proof: a stored passed record has
  exit code 0 and both timestamps; a record citing a run cites a run of the same task, and
  while a worker actively claims the task only a run under that live claim may record.
\<close>

theorem recordVerificationRun_sound:
  assumes "recordVerificationRun redact ck uuid input d = Inr (d', v)"
  shows "d' = d\<lparr>verificationRuns := verificationRuns d @ [v]\<rparr> \<and> v_taskId v = nv_taskId input
    \<and> (v_status v = Ver_passed \<longrightarrow> v_exitCode v = Some 0 \<and> v_startedAt v \<noteq> None \<and> v_endedAt v \<noteq> None)
    \<and> (\<forall>i. v_agentRunId v = Some i \<longrightarrow> (\<exists>r \<in> set (agentRuns d). r_id r = i \<and> r_taskId r = v_taskId v))
    \<and> (has_active_claim d (v_taskId v) \<longrightarrow> run_claim_row_live ck d (v_agentRunId v) (v_taskId v))"
proof -
  have ins: "insert_verification ck v d = Inr d'" and task: "v_taskId v = nv_taskId input"
    using assms by (auto simp: recordVerificationRun_def Let_def rbind_eq_Inr split: if_splits)
  have "(\<forall>i. v_agentRunId v = Some i \<longrightarrow> (\<exists>r \<in> set (agentRuns d). r_id r = i \<and> r_taskId r = v_taskId v))
    \<and> (v_status v = Ver_passed \<longrightarrow> v_exitCode v = Some 0 \<and> v_startedAt v \<noteq> None \<and> v_endedAt v \<noteq> None)
    \<and> task_write_fenced ck d (v_taskId v) (v_agentRunId v)"
    using ins by (auto simp: insert_verification_def insert_row_Inr_iff rbind_eq_Inr list_ex_iff)
  then show ?thesis using insert_verification_InrD [OF ins] task by (simp add: task_write_fenced_def)
qed

theorem recordVerificationRun_sound_witness:
  "\<exists>d' v. recordVerificationRun (\<lambda>s. s) sample_clock ''u'' \<lparr>nv_taskId = ''t'', nv_command = ''c'',
       nv_status = Ver_passed, nv_exitCode = Some 0, nv_outputSummary = None, nv_validationSubject = None,
       nv_agentRunId = Some ''r'', nv_startedAt = None, nv_endedAt = None\<rparr> sample_events_db = Inr (d', v)
     \<and> v_taskId v = ''t''"
proof -
  let ?i = "\<lparr>nv_taskId = ''t'', nv_command = ''c'',
       nv_status = Ver_passed, nv_exitCode = Some 0, nv_outputSummary = None, nv_validationSubject = None,
       nv_agentRunId = Some ''r'', nv_startedAt = None, nv_endedAt = None\<rparr>"
  have "succeeds (recordVerificationRun (\<lambda>s. s) sample_clock ''u'' ?i sample_events_db)" by code_simp
  then obtain d' v where ok: "recordVerificationRun (\<lambda>s. s) sample_clock ''u'' ?i sample_events_db = Inr (d', v)"
    by (auto simp: succeeds_iff)
  show ?thesis using recordVerificationRun_sound [OF ok] ok by auto
qed

end
