(* ===== verification/Transition_System.thy ===== *)
theory Transition_System
  imports Major_Prelude
begin

text \<open>
  Systems that keep an invariant: start states, a step relation, an invariant every step
  keeps and a preorder every step respects. The services and the lease store are instances.
\<close>

locale invariant_system =
  fixes start :: "'s \<Rightarrow> bool"
    and step :: "'s \<Rightarrow> 's \<Rightarrow> bool"
    and inv :: "'s \<Rightarrow> bool"
    and evolves :: "'s \<Rightarrow> 's \<Rightarrow> bool"
  assumes start_inv: "start s \<Longrightarrow> inv s"
    and step_inv: "inv s \<Longrightarrow> step s s' \<Longrightarrow> inv s'"
    and evolves_refl: "evolves s s"
    and evolves_trans: "evolves s t \<Longrightarrow> evolves t u \<Longrightarrow> evolves s u"
    and step_evolves: "inv s \<Longrightarrow> step s s' \<Longrightarrow> evolves s s'"
begin

definition reachable :: "'s \<Rightarrow> bool" where
  "reachable s \<longleftrightarrow> (\<exists>s0. start s0 \<and> step\<^sup>*\<^sup>* s0 s)"

lemma run_inv:
  assumes "step\<^sup>*\<^sup>* s s'" and "inv s"
  shows "inv s' \<and> evolves s s'"
  using assms
proof (induction rule: rtranclp_induct)
  case base
  then show ?case using evolves_refl by blast
next
  case (step t u)
  then show ?case using step_inv step_evolves evolves_trans by blast
qed

lemma reachable_inv: "reachable s \<Longrightarrow> inv s"
  using run_inv start_inv by (auto simp: reachable_def)

lemma reachable_evolves: "reachable s \<Longrightarrow> step\<^sup>*\<^sup>* s s' \<Longrightarrow> evolves s s'"
  using run_inv reachable_inv by blast

end

end
