(* ===== verification/Service_System.thy ===== *)
theory Service_System
  imports Run_Service Transition_System
begin

text \<open>
  The services together: a step relation with one rule per exported mutating operation of
  the decision, task, claim and run services (and one for writes of other parts of the
  program to the tables these services only read), its reachable databases and the
  invariants that hold in all of them. A failed operation is no step: its transaction is
  rolled back. \<open>setRunStatus\<close>, which has no transaction, steps to the database it reached.
\<close>

section \<open>Core steps\<close>

text \<open>
  Every operation is a sequence of these writes; the invariants are proved about them once.
\<close>

definition claim_change :: "(claim_row \<Rightarrow> claim_row) \<Rightarrow> bool" where
  "claim_change f \<longleftrightarrow> (\<forall>c. c_id (f c) = c_id c \<and> c_taskId (f c) = c_taskId c \<and> c_attempt (f c) = c_attempt c
     \<and> (c_status (f c) = Clm_active \<longrightarrow> c_status c = Clm_active))"

definition suggestion_change :: "(suggestion_row \<Rightarrow> suggestion_row) \<Rightarrow> bool" where
  "suggestion_change f \<longleftrightarrow> (\<forall>s. s_id (f s) = s_id s \<and> s_projectId (f s) = s_projectId s
     \<and> s_scopeFingerprint (f s) = s_scopeFingerprint s \<and> s_approvedTaskId (f s) = s_approvedTaskId s
     \<and> (s_status (f s) = s_status s \<or> s_status (f s) = Sug_rejected))"

inductive core_step :: "db \<Rightarrow> db \<Rightarrow> bool" where
  core_task: "insert_task t d = Inr d' \<Longrightarrow> t_status t = St_draft \<Longrightarrow> t_suggestionId t = None \<Longrightarrow>
    t_completionCriteriaSnapshotJson t = None \<Longrightarrow> core_step d d'"
| core_move: "applyTransition ck i to fence d = Inr (d', t) \<Longrightarrow> core_step d d'"
| core_claim: "insert_claim c d = Inr d' \<Longrightarrow> core_step d d'"
| core_claim_update: "cas_claim ck i P f d = Inr (d', n) \<Longrightarrow> claim_change f \<Longrightarrow> core_step d d'"
| core_suggestion: "insert_suggestion s d = Inr d' \<Longrightarrow> s_status s = Sug_pending \<Longrightarrow>
    s_approvedTaskId s = None \<Longrightarrow> core_step d d'"
| core_suggestion_update: "cas_suggestion ck i P f d = Inr (d', n) \<Longrightarrow> suggestion_change f \<Longrightarrow> core_step d d'"
| core_other: "tasks d' = tasks d \<Longrightarrow> taskClaims d' = taskClaims d \<Longrightarrow> taskSuggestions d' = taskSuggestions d \<Longrightarrow>
    core_step d d'"

inductive_cases core_stepE: "core_step d d'"

section \<open>The services as steps\<close>

inductive service_step :: "db \<Rightarrow> db \<Rightarrow> bool" where
  step_createDecision: "createDecisionRequest ck u nd d = Inr (d', x) \<Longrightarrow> service_step d d'"
| step_expireDecisions: "expireStaleDecisions ck now d = Inr (d', n) \<Longrightarrow> service_step d d'"
| step_resolveDecision: "resolveDecision ck i st res d = Inr (d', x) \<Longrightarrow> service_step d d'"
| step_consumeDecision: "consumeApprovedDecision ck u i k d = (d', ok) \<Longrightarrow> service_step d d'"
| step_addTask: "addTask ck u nt d = Inr (d', t) \<Longrightarrow> service_step d d'"
| step_transition: "transitionTask ck i to fence d = Inr (d', t) \<Longrightarrow> service_step d d'"
| step_addDependency: "addDependency ck u i j d = Inr (d', x) \<Longrightarrow> service_step d d'"
| step_addEvidence: "addEvidence ck u ne d = Inr (d', x) \<Longrightarrow> service_step d d'"
| step_addSuggestion: "addSuggestion sha ck u ns d = Inr (d', o') \<Longrightarrow> service_step d d'"
| step_approveSuggestion: "approveSuggestion ck u i note d = Inr (d', s, t) \<Longrightarrow> service_step d d'"
| step_rejectSuggestion: "rejectSuggestion ck i note d = Inr (d', s) \<Longrightarrow> service_step d d'"
| step_claimNext: "claimNextTask ck u opts d = Inr (d', r) \<Longrightarrow> service_step d d'"
| step_heartbeat: "heartbeatClaim ck i w ms now d = Inr (d', c) \<Longrightarrow> service_step d d'"
| step_completeClaim: "completeClaim ck i w reason now d = Inr (d', c) \<Longrightarrow> service_step d d'"
| step_releaseClaim: "releaseClaim ck ropts d = Inr (d', c, t) \<Longrightarrow> service_step d d'"
| step_recover: "recoverExpiredClaims render ck now d = Inr (d', r) \<Longrightarrow> service_step d d'"
| step_createRun: "createRun ck u nr d = Inr (d', r) \<Longrightarrow> service_step d d'"
| step_setRunStatus: "setRunStatus jrender ck uu i st ref usage d = (d', res) \<Longrightarrow> service_step d d'"
| step_appendRunEvent: "appendRunEvent jrender sha ck u i ty payload k d = Inr (d', a) \<Longrightarrow> service_step d d'"
| step_recordVerification: "recordVerificationRun redact ck u nv d = Inr (d', v) \<Longrightarrow> service_step d d'"
| step_recordUsage: "recordUsage jrender ck u nu d = Inr (d', x) \<Longrightarrow> service_step d d'"
| step_environment: "tasks d' = tasks d \<Longrightarrow> taskClaims d' = taskClaims d \<Longrightarrow>
    taskSuggestions d' = taskSuggestions d \<Longrightarrow> service_step d d'"

inductive_cases service_stepE: "service_step d d'"

text \<open>\<open>same_core\<close>: the three tables the invariants speak about are unchanged.\<close>

definition same_core :: "db \<Rightarrow> db \<Rightarrow> bool" where
  "same_core d d' \<longleftrightarrow> tasks d' = tasks d \<and> taskClaims d' = taskClaims d \<and> taskSuggestions d' = taskSuggestions d"

lemma same_core_step: "same_core d d' \<Longrightarrow> core_step\<^sup>*\<^sup>* d d'"
  by (auto simp: same_core_def intro: core_other)

lemma same_core_trans: "same_core a b \<Longrightarrow> same_core b c \<Longrightarrow> same_core a c"
  by (simp add: same_core_def)

lemma update_decisions_core: "update_decisions P f d = Inr (d', n) \<Longrightarrow> same_core d d'"
  by (drule update_decisions_InrD) (simp add: same_core_def)

lemma insert_run_core:
  assumes "insert_run ck r d = Inr d'"
  shows "same_core d d'"
proof -
  obtain rows where rows: "(if paid_billing (r_billingMode r) then
         rbind (update_decisions
                  (\<lambda>dec. Some (d_id dec) = r_paidUsageDecisionId r \<and> d_consumedByRunId dec = None)
                  (\<lambda>dec. dec\<lparr>d_consumedByRunId := Some (r_id r)\<rparr>) (d\<lparr>agentRuns := rows\<rparr>))
           (\<lambda>(d'', n). if n \<noteq> 1 then Inl (Constraint_failed ''agent_runs_consume_paid_decision'')
                        else Inr d'')
       else Inr (d\<lparr>agentRuns := rows\<rparr>)) = Inr d'"
    using assms unfolding insert_run_def rbind_eq_Inr [of "insert_row _ _ _"] Let_def by blast
  show ?thesis
  proof (cases "paid_billing (r_billingMode r)")
    case True
    then obtain n where "update_decisions
                  (\<lambda>dec. Some (d_id dec) = r_paidUsageDecisionId r \<and> d_consumedByRunId dec = None)
                  (\<lambda>dec. dec\<lparr>d_consumedByRunId := Some (r_id r)\<rparr>) (d\<lparr>agentRuns := rows\<rparr>) = Inr (d', n)"
      using rows by (auto simp: rbind_eq_Inr split: if_splits)
    then show ?thesis by (auto simp: same_core_def dest: update_decisions_core)
  next
    case False
    then show ?thesis using rows by (auto simp: same_core_def)
  qed
qed

lemma cas_run_core: "cas_run ck i P f d = Inr (d', n) \<Longrightarrow> same_core d d'"
  unfolding cas_run_def by (drule update_runs_InrD) (simp add: same_core_def)

lemma set_status_core: "set_status_only ck i st ref d = (d', r) \<Longrightarrow> same_core d d'"
  by (auto simp: set_status_only_def same_core_def split: sum.splits dest!: cas_run_core)

lemma recordUsage_core: "recordUsage jrender ck u nu d = Inr (d', x) \<Longrightarrow> same_core d d'"
  by (auto simp: recordUsage_def Let_def rbind_eq_Inr same_core_def dest!: insert_usage_InrD)

lemma record_usages_core: "record_usages jrender ck us d = (d', r) \<Longrightarrow> same_core d d'"
proof (induction jrender ck us d rule: record_usages.induct)
  case (2 jrender ck uuid u us d)
  show ?case
  proof (cases "recordUsage jrender ck uuid u d")
    case (Inr res)
    then obtain d1 x where "recordUsage jrender ck uuid u d = Inr (d1, x)" by (cases res) auto
    then show ?thesis using 2 recordUsage_core same_core_trans by fastforce
  qed (use 2 in \<open>simp add: same_core_def\<close>)
qed (simp add: same_core_def)

lemma same_core_refl [simp]: "same_core d d"
  by (simp add: same_core_def)

lemma setRunStatus_core:
  assumes "setRunStatus jrender ck uu i st ref usage d = (d', res)"
  shows "same_core d d'"
proof (cases "normalizeProviderUsage usage")
  case None
  then show ?thesis using assms by (simp add: setRunStatus_def set_status_core)
next
  case (Some nu)
  show ?thesis
  proof (cases "getRun d i")
    case (Inl e)
    then show ?thesis using assms Some by (simp add: setRunStatus_def)
  next
    case (Inr run)
    let ?us = "(case nu_tokens nu of None \<Rightarrow> [] | Some t \<Rightarrow> [(fst uu, usage_link run i Use_tokens (tokens_json t))])
        @ (case nu_cost nu of None \<Rightarrow> [] | Some c \<Rightarrow> [(snd uu, usage_link run i Use_cost (cost_json c))])"
    obtain d1 r where us: "record_usages jrender ck ?us d = (d1, r)" by (rule prod.exhaust)
    have "(case r of Inl e \<Rightarrow> (d1, Inl e) | Inr _ \<Rightarrow> set_status_only ck i st ref d1) = (d', res)"
      using assms Some Inr us by (simp add: setRunStatus_def Let_def)
    then have "same_core d1 d'" by (cases r) (auto dest: set_status_core)
    then show ?thesis using record_usages_core [OF us] same_core_trans by blast
  qed
qed

section \<open>Every service operation is a sequence of core steps\<close>

lemma core_move_path: "applyTransition ck i to fence d = Inr (d', t) \<Longrightarrow> core_step\<^sup>*\<^sup>* d d'"
  by (rule r_into_rtranclp) (rule core_move)

lemma insertTask_path:
  assumes "insertTask ck u nt d = Inr (d', t)" and "nt_suggestionId nt = None"
  shows "core_step\<^sup>*\<^sup>* d d'"
proof -
  obtain row where "insert_task row d = Inr d'" "t_status row = St_draft" "t_suggestionId row = None"
      "t_completionCriteriaSnapshotJson row = None"
    using assms by (auto simp: insertTask_def rbind_eq_Inr Let_def)
  then show ?thesis by (intro r_into_rtranclp core_task)
qed

lemma addTask_path: "addTask ck u nt d = Inr (d', t) \<Longrightarrow> core_step\<^sup>*\<^sup>* d d'"
  by (auto simp: addTask_def rbind_eq_Inr assertApprovalEnabled_def split: if_splits dest: insertTask_path)

lemma superseded_change: "suggestion_change (\<lambda>s. s\<lparr>s_supersededById := v\<rparr>)"
  unfolding suggestion_change_def by (rule allI) simp

lemma rejected_change:
  "suggestion_change (\<lambda>s. s\<lparr>s_status := Sug_rejected, s_decidedAt := x, s_decisionNote := y\<rparr>)"
  unfolding suggestion_change_def by (rule allI) simp

lemma heartbeat_change: "claim_change (\<lambda>c. c\<lparr>c_heartbeatAt := x, c_leaseExpiresAt := y\<rparr>)"
  unfolding claim_change_def by (rule allI) simp

lemma close_change: "st \<noteq> Clm_active \<Longrightarrow> claim_change (\<lambda>c. c\<lparr>c_status := st, c_outcomeReason := x\<rparr>)"
  unfolding claim_change_def by (rule allI) simp

lemma getSuggestion_created:
  "rbind (getSuggestion d2 i) (\<lambda>s. Inr (d2, f s)) = Inr (d', x) \<Longrightarrow> d' = d2"
  by (auto simp: rbind_eq_Inr)

lemma addSuggestion_path:
  assumes "addSuggestion sha ck u ns d = Inr (d', out)"
  shows "core_step\<^sup>*\<^sup>* d d'"
proof -
  let ?fp = "scopeFingerprint sha (ns_title ns) (ns_description ns)"
  let ?row = "suggestion_from ck u ?fp ns"
  have created: "core_step\<^sup>*\<^sup>* d d'"
    if c: "rbind (insert_suggestion ?row d) (\<lambda>d1.
               rbind (case sup of None \<Rightarrow> Inr d1
                      | Some r \<Rightarrow> rbind (cas_suggestion ck (s_id r) (\<lambda>_. True)
                                          (\<lambda>s. s\<lparr>s_supersededById := Some (s_id ?row)\<rparr>) d1)
                                   (\<lambda>(d2, _). Inr d2))
               (\<lambda>d2. rbind (getSuggestion d2 (s_id ?row)) (\<lambda>s. Inr (d2, Sug_created s)))) = Inr (d', out)" for sup
  proof -
    obtain d1 where ins: "insert_suggestion ?row d = Inr d1"
      and rest: "(case sup of None \<Rightarrow> Inr d1
                      | Some r \<Rightarrow> rbind (cas_suggestion ck (s_id r) (\<lambda>_. True)
                                          (\<lambda>s. s\<lparr>s_supersededById := Some (s_id ?row)\<rparr>) d1)
                                   (\<lambda>(d2, _). Inr d2)) = Inr d'"
      using c by (auto simp: rbind_eq_Inr)
    have one: "core_step d d1"
      by (rule core_suggestion [OF ins]) (simp_all add: suggestion_from_def)
    have two: "core_step\<^sup>*\<^sup>* d1 d'"
    proof (cases sup)
      case None
      then show ?thesis using rest by simp
    next
      case (Some r)
      then obtain n where "cas_suggestion ck (s_id r) (\<lambda>_. True)
          (\<lambda>s. s\<lparr>s_supersededById := Some (s_id ?row)\<rparr>) d1 = Inr (d', n)"
        using rest by (auto simp: rbind_eq_Inr)
      then show ?thesis
        by (intro r_into_rtranclp core_suggestion_update [OF _ superseded_change])
    qed
    show ?thesis using one two by (rule converse_rtranclp_into_rtranclp)
  qed
  show ?thesis
    using assms created [of None] created [of "last_rejected d (ns_projectId ns) ?fp"]
    unfolding addSuggestion_def Let_def by (auto split: option.splits if_splits)
qed

lemma rejectSuggestion_path: "rejectSuggestion ck i note d = Inr (d', s) \<Longrightarrow> core_step\<^sup>*\<^sup>* d d'"
proof -
  assume r: "rejectSuggestion ck i note d = Inr (d', s)"
  obtain d1 n where "cas_suggestion ck i (\<lambda>u. s_status u = Sug_pending)
      (\<lambda>u. u\<lparr>s_status := Sug_rejected, s_decidedAt := Some (svc_now ck), s_decisionNote := note\<rparr>) d
      = Inr (d1, n)"
    and "(if n \<noteq> 1 then Inl (ConcurrencyError i) else rbind (getSuggestion d1 i) (\<lambda>s'. Inr (d1, s'))) = Inr (d', s)"
    using r by (auto simp: rejectSuggestion_def rbind_eq_Inr [of "getSuggestion d i"] rbind_eq_Inr [of "cas_suggestion _ _ _ _ _"]
        simp del: getSuggestion_Inr_iff split: if_splits)
  moreover from this(2) have "d1 = d'" by (auto simp: rbind_eq_Inr split: if_splits)
  ultimately show ?thesis by (auto intro: r_into_rtranclp core_suggestion_update [OF _ rejected_change])
qed

lemma take_claim_path: "take_claim ck u opts task d = Inr (d', c, t) \<Longrightarrow> core_step\<^sup>*\<^sup>* d d'"
proof -
  assume "take_claim ck u opts task d = Inr (d', c, t)"
  then obtain d1 f where "insert_claim (new_claim ck u opts (last_attempt d (t_id task)) task) d = Inr d1"
      "applyTransition ck (t_id task) St_running f d1 = Inr (d', t)"
    by (auto simp: take_claim_def Let_def rbind_eq_Inr)
  then show ?thesis using core_claim core_move_path by (blast intro: converse_rtranclp_into_rtranclp)
qed

lemma claimNextTask_path: "claimNextTask ck u opts d = Inr (d', r) \<Longrightarrow> core_step\<^sup>*\<^sup>* d d'"
  by (auto simp: claimNextTask_def rbind_eq_Inr split: option.splits dest: take_claim_path)

lemma heartbeat_path: "heartbeatClaim ck i w ms now d = Inr (d', c) \<Longrightarrow> core_step\<^sup>*\<^sup>* d d'"
  by (auto simp: heartbeatClaim_def Let_def rbind_eq_Inr split: if_splits
      intro!: r_into_rtranclp core_claim_update [OF _ heartbeat_change])

lemma closeClaim_path:
  "closeClaim ck i w st reason now d = Inr (d', c) \<Longrightarrow> st \<noteq> Clm_active \<Longrightarrow> core_step\<^sup>*\<^sup>* d d'"
  by (auto simp: closeClaim_def rbind_eq_Inr split: if_splits
      intro!: r_into_rtranclp core_claim_update [OF _ close_change])

lemma completeClaim_path: "completeClaim ck i w reason now d = Inr (d', c) \<Longrightarrow> core_step\<^sup>*\<^sup>* d d'"
  by (auto simp: completeClaim_def dest: closeClaim_path)

lemma releaseClaim_path: "releaseClaim ck ropts d = Inr (d', c, t) \<Longrightarrow> core_step\<^sup>*\<^sup>* d d'"
  by (auto simp: releaseClaim_def rbind_eq_Inr dest!: closeClaim_path core_move_path intro: rtranclp_trans)

lemma recover_one_path:
  assumes "recover_one render ck c d = Inr d'"
  shows "core_step\<^sup>*\<^sup>* d d'"
proof -
  obtain d1 n where cas: "cas_claim ck (c_id c) (\<lambda>c. c_status c = Clm_active)
      (\<lambda>x. x\<lparr>c_status := Clm_expired,
             c_outcomeReason := Some (''lease expired at '' @ render (c_leaseExpiresAt c))\<rparr>) d = Inr (d1, n)"
    and rest: "d' = d1 \<or> (\<exists>t. applyTransition ck (c_taskId c) St_queued None d1 = Inr (d', t))"
    using assms by (auto simp: recover_one_def rbind_eq_Inr split: if_splits option.splits)
  have "core_step d d1"
    by (rule core_claim_update [OF cas]) (simp add: close_change)
  then show ?thesis using rest core_move_path by (auto intro: converse_rtranclp_into_rtranclp)
qed

lemma recover_all_path: "recover_all render ck cs d = Inr (d', r) \<Longrightarrow> core_step\<^sup>*\<^sup>* d d'"
proof (induction render ck cs d arbitrary: d' r rule: recover_all.induct)
  case (2 render ck c cs d)
  then obtain d1 r1 where 1: "recover_one render ck c d = Inr d1" "recover_all render ck cs d1 = Inr (d', r1)"
    by (auto simp: rbind_eq_Inr)
  then show ?case using 2 recover_one_path rtranclp_trans by metis
qed simp

lemma service_step_core: "service_step d d' \<Longrightarrow> core_step\<^sup>*\<^sup>* d d'"
proof (induction rule: service_step.induct)
  case (step_createDecision ck u nd d d' x)
  then show ?case
    by (auto simp: createDecisionRequest_def Let_def rbind_eq_Inr same_core_def dest!: insert_decision_InrD
        intro!: same_core_step)
next
  case (step_expireDecisions ck now d d' n)
  then show ?case
    by (auto simp: expireStaleDecisions_def Let_def dest!: update_decisions_core intro!: same_core_step)
next
  case (step_resolveDecision ck i st res d d' x)
  then obtain d1 n where "update_decisions (\<lambda>x. d_id x = i \<and> d_status x = Dec_open)
      (\<lambda>x. x\<lparr>d_status := resolved_status st, d_resolution := res,
             d_resolvedAt := Some (svc_now ck), d_updatedAt := svc_now ck\<rparr>) d = Inr (d1, n)" "d' = d1"
    by (auto simp: resolveDecision_def rbind_eq_Inr split: if_splits)
  then show ?case using update_decisions_core same_core_step by blast
next
  case (step_consumeDecision ck u i k d d' ok)
  then show ?case
    by (auto simp: consumeApprovedDecision_def same_core_def split: sum.splits dest!: insert_consumption_InrD
        intro!: same_core_step)
next
  case (step_addDependency ck u i j d d' x)
  then show ?case
    by (auto simp: addDependency_def Let_def rbind_eq_Inr same_core_def split: if_splits
        dest!: insert_dependency_InrD intro!: same_core_step)
next
  case (step_addEvidence ck u ne d d' x)
  then show ?case
    by (auto simp: addEvidence_def Let_def rbind_eq_Inr same_core_def dest!: insert_evidence_InrD
        intro!: same_core_step)
next
  case (step_approveSuggestion ck u i why d d' s t)
  then show ?case by (simp add: approveSuggestion_def assertApprovalEnabled_def)
next
  case (step_createRun ck u nr d d' r)
  then obtain row where "insert_run ck row d = Inr d'" by (auto elim: createRun_Inr)
  then show ?case by (intro same_core_step insert_run_core)
next
  case (step_appendRunEvent jrender sha ck u i ty payload k d d' a)
  then show ?case
    by (auto simp: appendRunEvent_def Let_def rbind_eq_Inr same_core_def split: option.splits if_splits
        dest!: insert_run_event_InrD intro!: same_core_step)
next
  case (step_recordVerification redact ck u nv d d' v)
  then show ?case
    by (auto simp: recordVerificationRun_def Let_def rbind_eq_Inr same_core_def split: if_splits
        dest!: insert_verification_InrD intro!: same_core_step)
qed (auto simp: transitionTask_def recoverExpiredClaims_def same_core_def
    intro: addTask_path core_move_path addSuggestion_path rejectSuggestion_path claimNextTask_path
      heartbeat_path completeClaim_path releaseClaim_path recover_all_path
      same_core_step [OF setRunStatus_core] same_core_step [OF recordUsage_core]
      r_into_rtranclp core_other)

section \<open>The invariant\<close>

definition undispatched :: "task_status \<Rightarrow> bool" where
  "undispatched st \<longleftrightarrow> st \<in> {St_draft, St_ready, St_cancelled}"

definition task_ok :: "task_row \<Rightarrow> bool" where
  "task_ok t \<longleftrightarrow> t_suggestionId t = None \<and> t_status t \<noteq> St_suggested
     \<and> (undispatched (t_status t) \<or> t_completionCriteriaSnapshotJson t \<noteq> None)"

definition tasks_ok :: "db \<Rightarrow> bool" where
  "tasks_ok d \<longleftrightarrow> unique_by t_id (tasks d) \<and> (\<forall>t \<in> set (tasks d). task_ok t)"

text \<open>\<open>exclusive key R rows\<close>: no two different rows stand in the relation \<open>R\<close>.\<close>

definition exclusive :: "('r \<Rightarrow> string) \<Rightarrow> ('r \<Rightarrow> 'r \<Rightarrow> bool) \<Rightarrow> 'r list \<Rightarrow> bool" where
  "exclusive key R rows \<longleftrightarrow> (\<forall>x \<in> set rows. \<forall>y \<in> set rows. R x y \<longrightarrow> key x = key y)"

lemma exclusive_map:
  assumes "exclusive key R rows" and "\<And>x. key (g x) = key x" and "\<And>x y. R (g x) (g y) \<Longrightarrow> R x y"
  shows "exclusive key R (map g rows)"
  using assms by (auto simp: exclusive_def)

lemma exclusive_snoc:
  assumes "exclusive key R rows" and "\<And>x y. R x y \<Longrightarrow> R y x" and "\<And>x. x \<in> set rows \<Longrightarrow> \<not> R x r"
  shows "exclusive key R (rows @ [r])"
  unfolding exclusive_def
proof (intro ballI impI)
  fix x y assume "x \<in> set (rows @ [r])" "y \<in> set (rows @ [r])" and xy: "R x y"
  then consider "x \<in> set rows" "y \<in> set rows" | "x \<in> set rows" "y = r" | "x = r" "y \<in> set rows" | "x = r" "y = r"
    by auto
  then show "key x = key y"
  proof cases
    case 1
    then show ?thesis using assms(1) xy unfolding exclusive_def by blast
  next
    case 2
    then show ?thesis using assms(3) [of x] xy by simp
  next
    case 3
    then show ?thesis using assms(3) [of y] assms(2) [OF xy] by simp
  qed simp
qed

definition claim_clash :: "claim_row \<Rightarrow> claim_row \<Rightarrow> bool" where
  "claim_clash c c' \<longleftrightarrow> c_taskId c = c_taskId c'
     \<and> (c_attempt c = c_attempt c' \<or> c_status c = Clm_active \<and> c_status c' = Clm_active)"

definition claims_ok :: "db \<Rightarrow> bool" where
  "claims_ok d \<longleftrightarrow> unique_by c_id (taskClaims d) \<and> exclusive c_id claim_clash (taskClaims d)"

definition suggestion_ok :: "suggestion_row \<Rightarrow> bool" where
  "suggestion_ok s \<longleftrightarrow> s_status s \<noteq> Sug_approved \<and> s_approvedTaskId s = None"

definition suggestion_clash :: "suggestion_row \<Rightarrow> suggestion_row \<Rightarrow> bool" where
  "suggestion_clash s s' \<longleftrightarrow> s_projectId s = s_projectId s' \<and> s_scopeFingerprint s = s_scopeFingerprint s'
     \<and> s_status s = Sug_pending \<and> s_status s' = Sug_pending"

definition suggestions_ok :: "db \<Rightarrow> bool" where
  "suggestions_ok d \<longleftrightarrow> unique_by s_id (taskSuggestions d) \<and> list_all suggestion_ok (taskSuggestions d)
     \<and> exclusive s_id suggestion_clash (taskSuggestions d)"

definition db_inv :: "db \<Rightarrow> bool" where
  "db_inv d \<longleftrightarrow> tasks_ok d \<and> claims_ok d \<and> suggestions_ok d"

definition fresh_db :: "db \<Rightarrow> bool" where
  "fresh_db d \<longleftrightarrow> tasks d = [] \<and> taskClaims d = [] \<and> taskSuggestions d = []"

lemma fresh_db_inv: "fresh_db d \<Longrightarrow> db_inv d"
  by (simp add: fresh_db_def db_inv_def tasks_ok_def claims_ok_def suggestions_ok_def unique_by_def exclusive_def)

lemma transition_leaves_draft: "to \<in> set (TRANSITIONS from) \<Longrightarrow> to \<noteq> St_suggested"
  by (cases "from") auto

lemma dispatch_source:
  "to \<in> set (TRANSITIONS from) \<Longrightarrow> \<not> undispatched to \<Longrightarrow> to \<noteq> St_queued \<Longrightarrow> from \<noteq> St_suggested \<Longrightarrow>
     \<not> undispatched from"
  by (cases "from") (auto simp: undispatched_def)

lemma patched_task_ok:
  assumes "task_ok t" and "to \<in> set (TRANSITIONS (t_status t))"
  shows "task_ok ((transition_patch ck to fence t t)\<lparr>t_updatedAt := now\<rparr>)"
  using assms transition_leaves_draft [OF assms(2)] dispatch_source [OF assms(2)]
  by (auto simp: task_ok_def transition_patch_def Let_def)

lemma get_task_iff: "unique_by t_id (tasks d) \<Longrightarrow> t \<in> set (tasks d) \<longleftrightarrow> get_task d (t_id t) = Some t"
  by (auto simp: get_task_def lookup_row_iff)

lemma core_tasks_ok:
  assumes "core_step d d'" and "tasks_ok d"
  shows "tasks_ok d'"
  using assms
proof (cases rule: core_step.cases)
  case (core_task t)
  have "t_id t \<notin> t_id ` set (tasks d)"
    using core_task(1) by (auto simp: insert_task_def insert_row_Inr_iff rbind_eq_Inr task_insert_constraints_def)
  then show ?thesis
    using insert_task_InrD [OF core_task(1)] core_task assms(2)
    by (auto simp: tasks_ok_def unique_by_append1 task_ok_def undispatched_def)
next
  case (core_move ck i to fence t)
  have u: "unique_by t_id (tasks d)" using assms(2) by (simp add: tasks_ok_def)
  note wf = applyTransition_wf [OF u core_move]
  obtain t0 where t0: "get_task d i = Some t0" "to \<in> set (TRANSITIONS (t_status t0))"
      "t = (transition_patch ck to fence t0 t0)\<lparr>t_updatedAt := svc_now ck\<rparr>"
    using wf(6) by blast
  have "t0 \<in> set (tasks d)" using t0(1) by (auto simp: get_task_def dest: lookup_row_SomeD)
  then have "task_ok t" using t0 assms(2) patched_task_ok by (auto simp: tasks_ok_def)
  moreover have "task_ok x" if x: "x \<in> set (tasks d')" "t_id x \<noteq> i" for x
  proof -
    have "get_task d (t_id x) = Some x"
      using x(1) get_task_iff [OF wf(1), of x] wf(4) [OF x(2)] by simp
    then have "x \<in> set (tasks d)" using get_task_iff [OF u, of x] by simp
    then show ?thesis using assms(2) by (simp add: tasks_ok_def)
  qed
  moreover have "x = t" if x: "x \<in> set (tasks d')" "t_id x = i" for x
    using x get_task_iff [OF wf(1), of x] wf(2) by simp
  ultimately show ?thesis unfolding tasks_ok_def using wf(1) by blast
next
  case (core_claim c)
  then show ?thesis using assms(2) insert_claim_InrD [OF core_claim] by (simp add: tasks_ok_def)
next
  case (core_claim_update ck i P f n)
  have "tasks d' = tasks d" using arg_cong [OF cas_claim_tables [OF core_claim_update(1)], of tasks] by simp
  then show ?thesis using assms(2) by (simp add: tasks_ok_def)
next
  case (core_suggestion s)
  then show ?thesis using assms(2) insert_suggestion_InrD [OF core_suggestion(1)] by (simp add: tasks_ok_def)
next
  case (core_suggestion_update ck i P f n)
  have "tasks d' = tasks d"
    using core_suggestion_update(1) unfolding cas_suggestion_def by (drule_tac update_suggestions_InrD) simp
  then show ?thesis using assms(2) by (simp add: tasks_ok_def)
next
  case core_other
  then show ?thesis using assms(2) by (simp add: tasks_ok_def)
qed

lemma claims_ok_insert:
  assumes "insert_claim c d = Inr d'" and "claims_ok d"
  shows "claims_ok d'"
proof -
  have d': "taskClaims d' = taskClaims d @ [c]" using insert_claim_InrD [OF assms(1)] by simp
  have k: "list_all snd (claim_insert_constraints d c)"
    using assms(1) by (auto simp: insert_claim_def insert_row_Inr_iff rbind_eq_Inr)
  have id: "c_id c \<notin> c_id ` set (taskClaims d)" using k by (auto simp: claim_insert_constraints_def)
  have new: "\<not> claim_clash x c" if "x \<in> set (taskClaims d)" for x
    using k that by (auto simp: claim_clash_def claim_insert_constraints_def list_ex_iff has_active_claim_def)
  have "exclusive c_id claim_clash (taskClaims d @ [c])"
    using assms(2) new by (intro exclusive_snoc) (auto simp: claims_ok_def claim_clash_def)
  then show ?thesis using assms(2) id d' unfolding claims_ok_def by (simp add: unique_by_append1)
qed

lemma claims_ok_update:
  assumes "cas_claim ck i P f d = Inr (d', n)" and f: "claim_change f" and "claims_ok d"
  shows "claims_ok d'"
proof -
  define g where "g = (\<lambda>c. if c_id c = i \<and> P c then (f c)\<lparr>c_updatedAt := svc_now ck\<rparr> else c)"
  have "d' = d\<lparr>taskClaims := update_where (\<lambda>c. c_id c = i \<and> P c)
      (\<lambda>c. (f c)\<lparr>c_updatedAt := svc_now ck\<rparr>) (taskClaims d)\<rparr>"
    using update_claims_InrD [OF assms(1) [unfolded cas_claim_def]] by blast
  then have rows: "taskClaims d' = map g (taskClaims d)" by (simp add: update_where_def g_def)
  have G: "c_id (g c) = c_id c \<and> c_taskId (g c) = c_taskId c \<and> c_attempt (g c) = c_attempt c
      \<and> (c_status (g c) = Clm_active \<longrightarrow> c_status c = Clm_active)" for c
    using f [unfolded claim_change_def, rule_format, of c] by (cases "c_id c = i \<and> P c") (simp_all add: g_def)
  have "claim_clash x y" if "claim_clash (g x) (g y)" for x y
    using that G [of x] G [of y] unfolding claim_clash_def by metis
  then have "exclusive c_id claim_clash (map g (taskClaims d))"
    using assms(3) G by (intro exclusive_map) (simp_all add: claims_ok_def)
  moreover have "unique_by c_id (map g (taskClaims d))"
    using assms(3) G by (simp add: claims_ok_def unique_by_def o_def)
  ultimately show ?thesis unfolding claims_ok_def rows by blast
qed

lemma core_claims_ok:
  assumes "core_step d d'" and "claims_ok d" and "tasks_ok d"
  shows "claims_ok d'"
  using assms(1)
proof (cases rule: core_step.cases)
  case (core_claim c)
  then show ?thesis using assms(2) claims_ok_insert by blast
next
  case (core_claim_update ck i P f n)
  then show ?thesis using assms(2) claims_ok_update by blast
next
  case (core_move ck i to fence t)
  have "taskClaims d' = taskClaims d"
    using arg_cong [OF applyTransition_wf(5) [OF _ core_move], of taskClaims] assms(3) by (simp add: tasks_ok_def)
  then show ?thesis using assms(2) by (simp add: claims_ok_def)
next
  case (core_task t)
  then show ?thesis using insert_task_InrD [OF core_task(1)] assms(2) by (simp add: claims_ok_def)
next
  case (core_suggestion s)
  then show ?thesis using insert_suggestion_InrD [OF core_suggestion(1)] assms(2) by (simp add: claims_ok_def)
next
  case (core_suggestion_update ck i P f n)
  have "taskClaims d' = taskClaims d"
    using update_suggestions_InrD [OF core_suggestion_update(1) [unfolded cas_suggestion_def]] by simp
  then show ?thesis using assms(2) by (simp add: claims_ok_def)
next
  case core_other
  then show ?thesis using assms(2) by (simp add: claims_ok_def)
qed

lemma suggestions_ok_insert:
  assumes "insert_suggestion s d = Inr d'" and s: "s_status s = Sug_pending" "s_approvedTaskId s = None"
    and "suggestions_ok d"
  shows "suggestions_ok d'"
proof -
  have d': "taskSuggestions d' = taskSuggestions d @ [s]" using insert_suggestion_InrD [OF assms(1)] by simp
  have k: "list_all snd (suggestion_checks d (taskSuggestions d) s)" "s_id s \<notin> s_id ` set (taskSuggestions d)"
    using assms(1) by (auto simp: insert_suggestion_def insert_row_Inr_iff rbind_eq_Inr)
  have new: "\<not> suggestion_clash x s" if "x \<in> set (taskSuggestions d)" for x
    using k(1) that s(1) by (auto simp: suggestion_clash_def suggestion_checks_def list_ex_iff)
  have "exclusive s_id suggestion_clash (taskSuggestions d @ [s])"
    using assms(4) new by (intro exclusive_snoc) (auto simp: suggestions_ok_def suggestion_clash_def)
  then show ?thesis
    using assms(4) s k(2) d' unfolding suggestions_ok_def by (simp add: unique_by_append1 suggestion_ok_def)
qed

lemma suggestions_ok_update:
  assumes "cas_suggestion ck i P f d = Inr (d', n)" and f: "suggestion_change f" and "suggestions_ok d"
  shows "suggestions_ok d'"
proof -
  define g where "g = (\<lambda>s. if s_id s = i \<and> P s then (f s)\<lparr>s_updatedAt := svc_now ck\<rparr> else s)"
  have "d' = d\<lparr>taskSuggestions := update_where (\<lambda>s. s_id s = i \<and> P s)
      (\<lambda>s. (f s)\<lparr>s_updatedAt := svc_now ck\<rparr>) (taskSuggestions d)\<rparr>"
    using update_suggestions_InrD [OF assms(1) [unfolded cas_suggestion_def]] by blast
  then have rows: "taskSuggestions d' = map g (taskSuggestions d)" by (simp add: update_where_def g_def)
  have G: "s_id (g s) = s_id s \<and> s_projectId (g s) = s_projectId s \<and> s_scopeFingerprint (g s) = s_scopeFingerprint s
      \<and> s_approvedTaskId (g s) = s_approvedTaskId s
      \<and> (s_status (g s) = s_status s \<or> s_status (g s) = Sug_rejected)" for s
    using f [unfolded suggestion_change_def, rule_format, of s] by (cases "s_id s = i \<and> P s") (simp_all add: g_def)
  have "suggestion_clash x y" if "suggestion_clash (g x) (g y)" for x y
    using that G [of x] G [of y] unfolding suggestion_clash_def by (metis suggestion_status.distinct(3))
  then have "exclusive s_id suggestion_clash (map g (taskSuggestions d))"
    using assms(3) G by (intro exclusive_map) (simp_all add: suggestions_ok_def)
  moreover have "unique_by s_id (map g (taskSuggestions d))"
    using assms(3) G by (simp add: suggestions_ok_def unique_by_def o_def)
  moreover have "list_all suggestion_ok (map g (taskSuggestions d))"
  proof -
    have "suggestion_ok (g s)" if "suggestion_ok s" for s
      using that G [of s] unfolding suggestion_ok_def by (metis suggestion_status.distinct(5))
    then show ?thesis using assms(3) unfolding suggestions_ok_def list.pred_map list_all_iff by simp
  qed
  ultimately show ?thesis unfolding suggestions_ok_def rows by blast
qed

lemma core_suggestions_ok:
  assumes "core_step d d'" and "suggestions_ok d" and "tasks_ok d"
  shows "suggestions_ok d'"
  using assms(1)
proof (cases rule: core_step.cases)
  case (core_suggestion s)
  then show ?thesis using assms(2) suggestions_ok_insert by blast
next
  case (core_suggestion_update ck i P f n)
  then show ?thesis using assms(2) suggestions_ok_update by blast
next
  case (core_move ck i to fence t)
  have "taskSuggestions d' = taskSuggestions d"
    using arg_cong [OF applyTransition_wf(5) [OF _ core_move], of taskSuggestions] assms(3) by (simp add: tasks_ok_def)
  then show ?thesis using assms(2) by (simp add: suggestions_ok_def)
next
  case (core_task t)
  then show ?thesis using insert_task_InrD [OF core_task(1)] assms(2) by (simp add: suggestions_ok_def)
next
  case (core_claim c)
  then show ?thesis using insert_claim_InrD [OF core_claim] assms(2) by (simp add: suggestions_ok_def)
next
  case (core_claim_update ck i P f n)
  have "taskSuggestions d' = taskSuggestions d"
    using arg_cong [OF cas_claim_tables [OF core_claim_update(1)], of taskSuggestions] by simp
  then show ?thesis using assms(2) by (simp add: suggestions_ok_def)
next
  case core_other
  then show ?thesis using assms(2) by (simp add: suggestions_ok_def)
qed

lemma core_inv: "core_step d d' \<Longrightarrow> db_inv d \<Longrightarrow> db_inv d'"
  by (simp add: db_inv_def core_tasks_ok core_claims_ok core_suggestions_ok)

section \<open>History: what a task and a claim may become\<close>

definition task_evolves :: "task_row \<Rightarrow> task_row \<Rightarrow> bool" where
  "task_evolves t t' \<longleftrightarrow> t_version t \<le> t_version t' \<and> (t_version t' = t_version t \<longrightarrow> t' = t)
     \<and> t_projectId t' = t_projectId t \<and> t_title t' = t_title t
     \<and> t_completionCriteriaJson t' = t_completionCriteriaJson t
     \<and> (t_completionCriteriaSnapshotJson t \<noteq> None \<longrightarrow>
          t_completionCriteriaSnapshotJson t' = t_completionCriteriaSnapshotJson t
          \<and> t_completionCriteriaLockedAt t' = t_completionCriteriaLockedAt t)
     \<and> (isTerminal (t_status t) \<longrightarrow> t' = t)"

definition claim_evolves :: "claim_row \<Rightarrow> claim_row \<Rightarrow> bool" where
  "claim_evolves c c' \<longleftrightarrow> c_taskId c' = c_taskId c \<and> c_attempt c' = c_attempt c
     \<and> (c_status c \<noteq> Clm_active \<longrightarrow> c_status c' \<noteq> Clm_active)"

definition rows_evolve :: "('r \<Rightarrow> 'r \<Rightarrow> bool) \<Rightarrow> ('d \<Rightarrow> string \<Rightarrow> 'r option) \<Rightarrow> 'd \<Rightarrow> 'd \<Rightarrow> bool" where
  "rows_evolve E get d d' \<longleftrightarrow> (\<forall>i r. get d i = Some r \<longrightarrow> (\<exists>r'. get d' i = Some r' \<and> E r r'))"

lemma rows_evolve_trans:
  "(\<And>x y z. E x y \<Longrightarrow> E y z \<Longrightarrow> E x z) \<Longrightarrow> rows_evolve E get a b \<Longrightarrow> rows_evolve E get b c \<Longrightarrow> rows_evolve E get a c"
  unfolding rows_evolve_def by metis

lemma rows_evolve_same: "(\<And>x. E x x) \<Longrightarrow> (\<And>i. get d' i = get d i) \<Longrightarrow> rows_evolve E get d d'"
  by (simp add: rows_evolve_def)

definition db_evolves :: "db \<Rightarrow> db \<Rightarrow> bool" where
  "db_evolves d d' \<longleftrightarrow> rows_evolve task_evolves get_task d d' \<and> rows_evolve claim_evolves get_claim_row d d'"

lemma task_evolves_refl [simp]: "task_evolves t t"
  by (simp add: task_evolves_def)

lemma claim_evolves_refl [simp]: "claim_evolves c c"
  by (simp add: claim_evolves_def)

lemma task_evolves_trans: "task_evolves a b \<Longrightarrow> task_evolves b c \<Longrightarrow> task_evolves a c"
proof -
  assume ab: "task_evolves a b" and bc: "task_evolves b c"
  show ?thesis
  proof (cases "b = a \<or> c = b")
    case True
    then show ?thesis using ab bc by auto
  next
    case False
    then have "t_version a < t_version b" "t_version b < t_version c" "\<not> isTerminal (t_status a)"
      using ab bc by (auto simp: task_evolves_def less_le)
    then show ?thesis using ab bc by (simp add: task_evolves_def)
  qed
qed

lemma claim_evolves_trans: "claim_evolves a b \<Longrightarrow> claim_evolves b c \<Longrightarrow> claim_evolves a c"
  by (simp add: claim_evolves_def)

lemma db_evolves_refl: "db_evolves d d"
  by (simp add: db_evolves_def rows_evolve_same)

lemma db_evolves_trans: "db_evolves a b \<Longrightarrow> db_evolves b c \<Longrightarrow> db_evolves a c"
  unfolding db_evolves_def
  by (elim conjE, intro conjI)
     (rule rows_evolve_trans [where E = task_evolves and b = b], rule task_evolves_trans, assumption+,
      rule rows_evolve_trans [where E = claim_evolves and b = b], rule claim_evolves_trans, assumption+)

lemma db_evolves_same:
  "tasks d' = tasks d \<Longrightarrow> taskClaims d' = taskClaims d \<Longrightarrow> db_evolves d d'"
  by (simp add: db_evolves_def rows_evolve_same get_task_def get_claim_row_def)

lemma rows_evolve_snoc:
  "(\<And>x. E x x) \<Longrightarrow> (\<And>d i. get d i = lookup_row key i (tab d)) \<Longrightarrow> tab d' = tab d @ [r] \<Longrightarrow> rows_evolve E get d d'"
  by (simp add: rows_evolve_def lookup_row_append)

lemma move_evolves:
  assumes "unique_by t_id (tasks d)" and "applyTransition ck i to fence d = Inr (d', t')"
  shows "db_evolves d d'"
proof -
  note wf = applyTransition_wf [OF assms]
  obtain t where t: "get_task d i = Some t" "to \<in> set (TRANSITIONS (t_status t))"
      "t' = (transition_patch ck to fence t t)\<lparr>t_updatedAt := svc_now ck\<rparr>"
    using wf(6) by blast
  have "\<not> isTerminal (t_status t)"
    using t(2) by (auto simp: isTerminal_def TERMINAL_STATUSES_def)
  then have "task_evolves t t'"
    by (auto simp: t(3) task_evolves_def transition_patch_def Let_def)
  then have "rows_evolve task_evolves get_task d d'"
    unfolding rows_evolve_def using t(1) wf(2,4) by (metis option.inject task_evolves_refl)
  moreover have "taskClaims d' = taskClaims d" using arg_cong [OF wf(5), of taskClaims] by simp
  ultimately show ?thesis by (simp add: db_evolves_def rows_evolve_same get_claim_row_def)
qed

lemma claim_update_evolves:
  assumes "unique_by c_id (taskClaims d)" and "cas_claim ck i P f d = Inr (d', n)" and "claim_change f"
  shows "db_evolves d d'"
proof -
  have key: "c_id (f r) = c_id r" for r using assms(3) by (simp add: claim_change_def)
  have tasks: "tasks d' = tasks d" using arg_cong [OF cas_claim_tables [OF assms(2)], of tasks] by simp
  have "\<exists>r'. get_claim_row d' j = Some r' \<and> claim_evolves r r'" if r: "get_claim_row d j = Some r" for j r
  proof -
    have "get_claim_row d' j = Some (if c_id r = i \<and> P r then (f r)\<lparr>c_updatedAt := svc_now ck\<rparr> else r)"
      using claim_cas.cas_get [OF assms(1) key assms(2), of j] r by simp
    moreover have "claim_evolves r ((f r)\<lparr>c_updatedAt := svc_now ck\<rparr>)"
      using assms(3) [unfolded claim_change_def, rule_format, of r] by (auto simp: claim_evolves_def)
    ultimately show ?thesis by auto
  qed
  then show ?thesis
    using tasks unfolding db_evolves_def by (auto simp: rows_evolve_def get_task_def)
qed

lemma core_evolves:
  assumes "core_step d d'" and "db_inv d"
  shows "db_evolves d d'"
  using assms(1)
proof (cases rule: core_step.cases)
  case (core_task t)
  then have "d' = d\<lparr>tasks := tasks d @ [t]\<rparr>" by (intro insert_task_InrD)
  then show ?thesis unfolding db_evolves_def
    by (intro conjI rows_evolve_snoc [where key = t_id and tab = tasks and r = t] rows_evolve_same)
       (simp_all add: get_task_def get_claim_row_def)
next
  case (core_move ck i to fence t)
  then show ?thesis using assms(2) move_evolves by (simp add: db_inv_def tasks_ok_def)
next
  case (core_claim c)
  then have "d' = d\<lparr>taskClaims := taskClaims d @ [c]\<rparr>" by (intro insert_claim_InrD)
  then show ?thesis unfolding db_evolves_def
    by (intro conjI rows_evolve_snoc [where key = c_id and tab = taskClaims and r = c] rows_evolve_same)
       (simp_all add: get_task_def get_claim_row_def)
next
  case (core_claim_update ck i P f n)
  then show ?thesis using assms(2) claim_update_evolves by (simp add: db_inv_def claims_ok_def)
next
  case (core_suggestion s)
  then show ?thesis using insert_suggestion_InrD [OF core_suggestion(1)] by (intro db_evolves_same) simp_all
next
  case (core_suggestion_update ck i P f n)
  then show ?thesis
    using update_suggestions_InrD [OF core_suggestion_update(1) [unfolded cas_suggestion_def]]
    by (intro db_evolves_same) simp_all
next
  case core_other
  then show ?thesis by (intro db_evolves_same)
qed

interpretation core: invariant_system fresh_db core_step db_inv db_evolves
  by unfold_locales
     (auto intro: fresh_db_inv core_inv db_evolves_refl db_evolves_trans core_evolves)

text \<open>The services inherit the invariant from the core: a service step is a run of core steps.\<close>

interpretation services: invariant_system fresh_db service_step db_inv db_evolves
proof unfold_locales
  show "db_inv d" if "fresh_db d" for d using that by (rule fresh_db_inv)
  show "db_inv d'" if "db_inv d" "service_step d d'" for d d'
    using core.run_inv [OF service_step_core [OF that(2)] that(1)] by blast
  show "db_evolves d d'" if "db_inv d" "service_step d d'" for d d'
    using core.run_inv [OF service_step_core [OF that(2)] that(1)] by blast
qed (rule db_evolves_refl, rule db_evolves_trans)

section \<open>Properties of all reachable databases\<close>

definition reachable_db :: "db \<Rightarrow> bool" where
  "reachable_db d \<longleftrightarrow> (\<exists>d0. fresh_db d0 \<and> service_step\<^sup>*\<^sup>* d0 d)"

lemma reachable_db_inv: "reachable_db d \<Longrightarrow> db_inv d"
  using services.reachable_inv unfolding services.reachable_def reachable_db_def by blast

lemma reachable_db_step: "reachable_db d \<Longrightarrow> service_step d d' \<Longrightarrow> reachable_db d'"
  unfolding reachable_db_def by (meson rtranclp.rtrancl_into_rtrancl)

text \<open>A run: a task is created, made ready, queued and claimed by a worker.\<close>

definition demo_start :: db where
  "demo_start = empty_db\<lparr>projects := [\<lparr>p_id = ''p'', p_name = ''P'', p_repoPath = ''/r'', p_githubRepo = None,
     p_configJson = ''{}'', p_createdAt = 0, p_updatedAt = 0\<rparr>]\<rparr>"

definition demo_task :: new_task where
  "demo_task = \<lparr>nt_projectId = ''p'', nt_title = ''T'', nt_description = None, nt_complexity = None,
     nt_roadmapItemId = None, nt_suggestionId = None, nt_completionCriteriaJson = None, nt_paths = None\<rparr>"

definition demo_draft :: "db outcome" where
  "demo_draft = rbind (addTask sample_clock ''1'' demo_task demo_start) (\<lambda>(d, _). Inr d)"

definition demo_claimed :: "db \<Rightarrow> db outcome" where
  "demo_claimed d0 =
     rbind (transitionTask sample_clock ''task_1'' St_ready None d0) (\<lambda>(d1, _).
     rbind (transitionTask sample_clock ''task_1'' St_queued None d1) (\<lambda>(d2, _).
     rbind (claimNextTask sample_clock ''2'' sample_claim_options d2) (\<lambda>(d3, _). Inr d3)))"

lemma demo_claimed_steps: "demo_claimed d = Inr d' \<Longrightarrow> service_step\<^sup>*\<^sup>* d d'"
proof -
  assume "demo_claimed d = Inr d'"
  then obtain d1 t1 d2 t2 r where
      "transitionTask sample_clock ''task_1'' St_ready None d = Inr (d1, t1)"
      "transitionTask sample_clock ''task_1'' St_queued None d1 = Inr (d2, t2)"
      "claimNextTask sample_clock ''2'' sample_claim_options d2 = Inr (d', r)"
    by (auto simp: demo_claimed_def rbind_eq_Inr)
  then have "service_step d d1" "service_step d1 d2" "service_step d2 d'"
    by (blast intro: step_transition step_claimNext)+
  then show ?thesis by (meson converse_rtranclp_into_rtranclp r_into_rtranclp)
qed

lemma demo_run:
  obtains d0 d1 where "demo_draft = Inr d0" "reachable_db d0" "demo_claimed d0 = Inr d1" "reachable_db d1"
    "service_step\<^sup>*\<^sup>* d0 d1"
proof -
  have "succeeds (rbind demo_draft demo_claimed)" by code_simp
  then obtain d0 d1 where d: "demo_draft = Inr d0" "demo_claimed d0 = Inr d1"
    by (auto simp: succeeds_iff rbind_eq_Inr)
  obtain t where "addTask sample_clock ''1'' demo_task demo_start = Inr (d0, t)"
    using d(1) by (auto simp: demo_draft_def rbind_eq_Inr)
  moreover have "fresh_db demo_start" by code_simp
  ultimately have r0: "reachable_db d0" unfolding reachable_db_def by (blast intro: step_addTask)
  have steps: "service_step\<^sup>*\<^sup>* d0 d1" using d(2) by (rule demo_claimed_steps)
  then have "reachable_db d1" using r0 unfolding reachable_db_def by (meson rtranclp_trans)
  then show thesis using d r0 steps that by blast
qed

lemma demo_shape:
  assumes "demo_draft = Inr d0" and "demo_claimed d0 = Inr d1"
  shows "map c_status (taskClaims d1) = [Clm_active]" and "map t_status (tasks d1) = [St_running]"
    and "map t_id (tasks d0) = [''task_1'']"
proof -
  have "(case rbind demo_draft demo_claimed of Inl _ \<Rightarrow> False | Inr d \<Rightarrow>
     map c_status (taskClaims d) = [Clm_active] \<and> map t_status (tasks d) = [St_running])"
    by code_simp
  then show "map c_status (taskClaims d1) = [Clm_active]" "map t_status (tasks d1) = [St_running]"
    unfolding assms rbind_Inr sum.case by blast+
  have "(case demo_draft of Inl _ \<Rightarrow> False | Inr d \<Rightarrow> map t_id (tasks d) = [''task_1''])"
    by code_simp
  then show "map t_id (tasks d0) = [''task_1'']" unfolding assms sum.case .
qed

text \<open>
  C17. Mutual exclusion: in every database the services can reach, a task has at most one
  active claim, and no two claims of a task carry the same attempt number, whatever
  interleaving of workers, heartbeats, releases and recovery sweeps led there.
\<close>

theorem one_live_claim_per_task:
  assumes "reachable_db d" and "c \<in> set (taskClaims d)" and "c' \<in> set (taskClaims d)"
    and "c_taskId c = c_taskId c'"
    and "c_status c = Clm_active \<and> c_status c' = Clm_active \<or> c_attempt c = c_attempt c'"
  shows "c = c'"
proof -
  have ok: "claims_ok d" using reachable_db_inv [OF assms(1)] by (simp add: db_inv_def)
  then have "c_id c = c_id c'"
    using assms(2-5) unfolding claims_ok_def exclusive_def claim_clash_def by blast
  then show ?thesis using ok assms(2,3) unique_by_inj unfolding claims_ok_def by metis
qed

theorem one_live_claim_per_task_witness:
  "\<exists>d c. reachable_db d \<and> c \<in> set (taskClaims d) \<and> c_status c = Clm_active
     \<and> (\<forall>c' \<in> set (taskClaims d). c_taskId c = c_taskId c' \<longrightarrow> c_status c' = Clm_active \<longrightarrow> c = c')"
proof -
  obtain d0 d1 where d: "demo_draft = Inr d0" "demo_claimed d0 = Inr d1" "reachable_db d1" by (rule demo_run)
  from demo_shape(1) [OF d(1,2)] obtain c where "taskClaims d1 = [c]" "c_status c = Clm_active" by auto
  then show ?thesis using one_live_claim_per_task [OF d(3)] d(3) by (intro exI [of _ d1] exI [of _ c]) simp
qed

text \<open>
  Suggestions stay suggestions: no reachable database holds an approved suggestion or a
  task with suggestion provenance, and every approval is refused in every database.
\<close>

theorem suggestions_never_materialise:
  assumes "reachable_db d"
  shows "(\<forall>t \<in> set (tasks d). t_suggestionId t = None)
    \<and> (\<forall>s \<in> set (taskSuggestions d). s_status s \<noteq> Sug_approved \<and> s_approvedTaskId s = None)
    \<and> approveSuggestion ck u i why d = Inl SuggestionApprovalUnavailableError"
  using reachable_db_inv [OF assms]
  by (auto simp: db_inv_def tasks_ok_def suggestions_ok_def task_ok_def suggestion_ok_def list_all_iff
      approveSuggestion_def assertApprovalEnabled_def)

theorem suggestions_never_materialise_witness:
  "\<exists>d. reachable_db d \<and> tasks d \<noteq> [] \<and> (\<forall>t \<in> set (tasks d). t_suggestionId t = None)"
proof -
  obtain d0 d1 where d: "demo_draft = Inr d0" "demo_claimed d0 = Inr d1" "reachable_db d1" by (rule demo_run)
  have "tasks d1 \<noteq> []" using demo_shape(2) [OF d(1,2)] by auto
  then show ?thesis using suggestions_never_materialise [OF d(3)] d(3) by (intro exI [of _ d1]) auto
qed

text \<open>
  A dispatched task works against frozen criteria: in every reachable database each task
  that has left draft and ready, other than by cancellation, has its completion criteria
  captured, and no stored task is in the conceptual status suggested.
\<close>

theorem dispatched_task_has_frozen_criteria:
  assumes "reachable_db d" and "t \<in> set (tasks d)" and "t_status t \<notin> {St_draft, St_ready, St_cancelled}"
  shows "t_completionCriteriaSnapshotJson t \<noteq> None \<and> t_status t \<noteq> St_suggested"
  using reachable_db_inv [OF assms(1)] assms(2,3)
  by (auto simp: db_inv_def tasks_ok_def task_ok_def undispatched_def)

theorem dispatched_task_has_frozen_criteria_witness:
  "\<exists>d t. reachable_db d \<and> tasks d = [t] \<and> t_status t = St_running \<and> t_completionCriteriaSnapshotJson t \<noteq> None"
proof -
  obtain d0 d1 where d: "demo_draft = Inr d0" "demo_claimed d0 = Inr d1" "reachable_db d1" by (rule demo_run)
  from demo_shape(2) [OF d(1,2)] obtain t where t: "tasks d1 = [t]" "t_status t = St_running" by auto
  then show ?thesis using dispatched_task_has_frozen_criteria [OF d(3), of t] d(3)
    by (intro exI [of _ d1] exI [of _ t]) simp
qed

text \<open>
  C18. History is honest: along every run of the services no task and no claim disappears, the
  version of a task never decreases and identifies its content (same version, same row),
  frozen criteria never change, a completed or cancelled task never changes again, and a
  closed claim never becomes active again.
\<close>

theorem task_and_claim_history:
  assumes "reachable_db d" and "service_step\<^sup>*\<^sup>* d d'"
  shows "(\<forall>i t. get_task d i = Some t \<longrightarrow> (\<exists>t'. get_task d' i = Some t' \<and> task_evolves t t'))
    \<and> (\<forall>i c. get_claim_row d i = Some c \<longrightarrow> (\<exists>c'. get_claim_row d' i = Some c' \<and> claim_evolves c c'))"
  using services.run_inv [OF assms(2) reachable_db_inv [OF assms(1)]]
  unfolding db_evolves_def rows_evolve_def by blast

theorem task_and_claim_history_witness:
  "\<exists>d d' t t'. reachable_db d \<and> service_step\<^sup>*\<^sup>* d d' \<and> get_task d ''task_1'' = Some t
     \<and> get_task d' ''task_1'' = Some t' \<and> task_evolves t t'"
proof -
  obtain d0 d1 where d: "demo_draft = Inr d0" "reachable_db d0" "service_step\<^sup>*\<^sup>* d0 d1"
      "demo_claimed d0 = Inr d1" by (rule demo_run)
  from demo_shape(3) [OF d(1,4)] obtain t where "get_task d0 ''task_1'' = Some t"
    by (auto simp: get_task_def)
  then show ?thesis using task_and_claim_history [OF d(2,3)] d(2,3) by blast
qed

end
