(* ===== verification/Regex.thy ===== *)
theory Regex
  imports Major_Prelude
begin

text \<open>
  The regular expressions of JavaScript the sources write, as an executable backtracking
  matcher. A pattern is parsed from the text of the source, so that the theories quote the
  source's own patterns. The matcher returns every way to match, in the order in which a
  backtracking engine tries them (the first one is the match JavaScript reports); the
  inductive relation \<open>rx_rel\<close> is the reference semantics, and both agree.
\<close>

section \<open>Patterns\<close>

datatype char_class = Cc_range char char | Cc_word | Cc_space | Cc_not_space | Cc_digit | Cc_any

datatype rx =
    Rx_eps
  | Rx_class bool "char_class list"
  | Rx_seq rx rx
  | Rx_alt rx rx
  | Rx_rep bool rx nat "nat option"
  | Rx_word_edge
  | Rx_start
  | Rx_end
  | Rx_ahead bool rx
  | Rx_behind bool string

abbreviation code_point :: "char \<Rightarrow> nat" where
  "code_point c \<equiv> of_char c"

definition in_range :: "nat \<Rightarrow> char \<Rightarrow> nat \<Rightarrow> bool" where
  "in_range a c b = (a \<le> code_point c \<and> code_point c \<le> b)"

definition ascii_upper :: "char \<Rightarrow> bool" where "ascii_upper c = in_range 65 c 90"
definition ascii_lower :: "char \<Rightarrow> bool" where "ascii_lower c = in_range 97 c 122"
definition ascii_digit :: "char \<Rightarrow> bool" where "ascii_digit c = in_range 48 c 57"

definition word_char :: "char \<Rightarrow> bool" where
  "word_char c = (ascii_upper c \<or> ascii_lower c \<or> ascii_digit c \<or> c = CHR ''_'')"

definition to_lower :: "char \<Rightarrow> char" where
  "to_lower c = (if ascii_upper c then char_of (code_point c + 32) else c)"

definition to_upper :: "char \<Rightarrow> char" where
  "to_upper c = (if ascii_lower c then char_of (code_point c - 32) else c)"

primrec in_class :: "char \<Rightarrow> char_class \<Rightarrow> bool" where
  "in_class c (Cc_range a b) = (code_point a \<le> code_point c \<and> code_point c \<le> code_point b)"
| "in_class c Cc_word = word_char c"
| "in_class c Cc_space = js_space c"
| "in_class c Cc_not_space = (\<not> js_space c)"
| "in_class c Cc_digit = ascii_digit c"
| "in_class c Cc_any = (c \<notin> {CHR 0x0A, CHR 0x0D})"

lemma ascii_code [code]:
  "ascii_upper c = char_between (CHR ''A'') c (CHR ''Z'')"
  "ascii_lower c = char_between (CHR ''a'') c (CHR ''z'')"
  "ascii_digit c = char_between (CHR ''0'') c (CHR ''9'')"
  "to_lower c = (if ascii_upper c then with_case_bit c else c)"
  "to_upper c = (if ascii_lower c then without_case_bit c else c)"
  by (simp_all add: ascii_upper_def ascii_lower_def ascii_digit_def to_lower_def to_upper_def in_range_def
      char_between_def char_upto_def lowered_letter raised_letter)

lemma in_class_code [code]:
  "in_class c (Cc_range a b) = char_between a c b"
  "in_class c Cc_word = word_char c"
  "in_class c Cc_space = js_space c"
  "in_class c Cc_not_space = (\<not> js_space c)"
  "in_class c Cc_digit = ascii_digit c"
  "in_class c Cc_any = (c \<notin> {CHR 0x0A, CHR 0x0D})"
  by (simp_all add: char_between_def char_upto_def)

text \<open>With the flag \<^verbatim>\<open>i\<close> a character matches when one of its cases does.\<close>

definition char_ok :: "bool \<Rightarrow> bool \<Rightarrow> char_class list \<Rightarrow> char \<Rightarrow> bool" where
  "char_ok ci neg cls c =
     (neg \<noteq> list_ex (\<lambda>k. in_class c k \<or> (ci \<and> (in_class (to_lower c) k \<or> in_class (to_upper c) k))) cls)"

section \<open>The matcher\<close>

text \<open>
  A position in the text is the part before it, reversed, and the part after it.
\<close>

type_synonym position = "string \<times> string"

definition at_word :: "string \<Rightarrow> bool" where
  "at_word s = (case s of [] \<Rightarrow> False | c # _ \<Rightarrow> word_char c)"

definition at_edge :: "position \<Rightarrow> bool" where
  "at_edge p = (at_word (fst p) \<noteq> at_word (snd p))"

definition same_text :: "bool \<Rightarrow> string \<Rightarrow> string \<Rightarrow> bool" where
  "same_text ci s t = (if ci then map to_lower s = map to_lower t else s = t)"

definition preceded_by :: "bool \<Rightarrow> string \<Rightarrow> string \<Rightarrow> bool" where
  "preceded_by ci s bef =
     (length s \<le> length bef \<and> same_text ci (rev s) (take (length s) bef))"

text \<open>
  A quantified pattern is tried again only as long as the minimum is not reached or the
  last iteration consumed something (ECMAScript's empty check). \<open>n\<close> bounds the iterations;
  the minimum plus the length of the rest is always enough (\<open>iterate_complete\<close>). A greedy
  quantifier prefers to go on, a lazy one (\<open>g\<close> is false) to stop.
\<close>

definition choices :: "bool \<Rightarrow> 'a list \<Rightarrow> 'a list \<Rightarrow> 'a list" where
  "choices g more stop = (if g then more @ stop else stop @ more)"

lemma set_choices [simp]: "set (choices g more stop) = set more \<union> set stop"
  by (auto simp: choices_def)

primrec iterate ::
  "bool \<Rightarrow> (position \<Rightarrow> position list) \<Rightarrow> nat \<Rightarrow> nat \<Rightarrow> nat option \<Rightarrow> position \<Rightarrow> position list" where
  "iterate g f 0 lo hi p = (if lo = 0 then [p] else [])"
| "iterate g f (Suc n) lo hi p =
     (if hi = Some 0 then (if lo = 0 then [p] else [])
      else choices g
             (concat (map (iterate g f n (lo - 1) (map_option (\<lambda>k. k - 1) hi))
                          (filter (\<lambda>q. lo > 0 \<or> length (snd q) < length (snd p)) (f p))))
             (if lo = 0 then [p] else []))"

primrec rx_run :: "bool \<Rightarrow> rx \<Rightarrow> position \<Rightarrow> position list" where
  "rx_run i Rx_eps p = [p]"
| "rx_run i (Rx_class neg cls) p =
     (case snd p of [] \<Rightarrow> [] | c # cs \<Rightarrow> if char_ok i neg cls c then [(c # fst p, cs)] else [])"
| "rx_run i (Rx_seq r s) p = concat (map (rx_run i s) (rx_run i r p))"
| "rx_run i (Rx_alt r s) p = rx_run i r p @ rx_run i s p"
| "rx_run i (Rx_rep g r lo hi) p = iterate g (rx_run i r) (lo + length (snd p)) lo hi p"
| "rx_run i Rx_word_edge p = (if at_edge p then [p] else [])"
| "rx_run i Rx_start p = (if fst p = [] then [p] else [])"
| "rx_run i Rx_end p = (if snd p = [] then [p] else [])"
| "rx_run i (Rx_ahead pos r) p = (if (rx_run i r p \<noteq> []) = pos then [p] else [])"
| "rx_run i (Rx_behind pos s) p = (if preceded_by i s (fst p) = pos then [p] else [])"

text \<open>\<^verbatim>\<open>RegExp.prototype.exec\<close>: the first match from the left, as the text before the
  match (reversed) and the position after it.\<close>

primrec rx_find :: "bool \<Rightarrow> rx \<Rightarrow> string \<Rightarrow> string \<Rightarrow> (string \<times> position) option" where
  "rx_find i r bef [] = (case rx_run i r (bef, []) of [] \<Rightarrow> None | q # _ \<Rightarrow> Some (bef, q))"
| "rx_find i r bef (c # cs) =
     (case rx_run i r (bef, c # cs) of
        q # _ \<Rightarrow> Some (bef, q)
      | [] \<Rightarrow> rx_find i r (c # bef) cs)"

definition rx_test :: "bool \<Rightarrow> rx \<Rightarrow> string \<Rightarrow> bool" where
  "rx_test i r s = (rx_find i r [] s \<noteq> None)"

section \<open>Reading a pattern\<close>

datatype rx_token =
    Tk_open "rx \<Rightarrow> rx"
  | Tk_close
  | Tk_bar
  | Tk_atom rx
  | Tk_times bool nat "nat option"

definition rx_char :: "char \<Rightarrow> rx" where
  "rx_char c = Rx_class False [Cc_range c c]"

definition escape_class :: "char \<Rightarrow> char_class" where
  "escape_class c =
     (if c = CHR ''w'' then Cc_word else if c = CHR ''s'' then Cc_space else if c = CHR ''S'' then Cc_not_space
      else if c = CHR ''d'' then Cc_digit else if c = CHR ''n'' then Cc_range (CHR 0x0A) (CHR 0x0A)
      else if c = CHR ''r'' then Cc_range (CHR 0x0D) (CHR 0x0D)
      else if c = CHR ''t'' then Cc_range (CHR 0x09) (CHR 0x09)
      else Cc_range c c)"

definition escape_atom :: "char \<Rightarrow> rx" where
  "escape_atom c =
     (if c = CHR ''b'' then Rx_word_edge
      else if c = CHR ''W'' then Rx_class True [Cc_word]
      else if c = CHR ''S'' then Rx_class True [Cc_space]
      else if c = CHR ''D'' then Rx_class True [Cc_digit]
      else Rx_class False [escape_class c])"

text \<open>A bracket expression: its body up to the closing bracket, and the classes it lists.\<close>

primrec class_body :: "bool \<Rightarrow> string \<Rightarrow> string" where
  "class_body esc [] = []"
| "class_body esc (c # cs) =
     (if \<not> esc \<and> c = CHR '']'' then [] else c # class_body (\<not> esc \<and> c = CHR 0x5C) cs)"

fun class_items :: "string \<Rightarrow> char_class list" where
  "class_items [] = []"
| "class_items [c] = [Cc_range c c]"
| "class_items [c, d] = (if c = CHR 0x5C then [escape_class d] else [Cc_range c c, Cc_range d d])"
| "class_items (c # d # e # es) =
     (if c = CHR 0x5C then escape_class d # class_items (e # es)
      else if d = CHR ''-'' then Cc_range c e # class_items es
      else Cc_range c c # class_items (d # e # es))"

definition digits_value :: "string \<Rightarrow> nat" where
  "digits_value s = foldl (\<lambda>n c. 10 * n + (code_point c - 48)) 0 s"

text \<open>\<^verbatim>\<open>{m}\<close>, \<^verbatim>\<open>{m,}\<close> and \<^verbatim>\<open>{m,n}\<close>, from the text between the braces.\<close>

definition braces :: "string \<Rightarrow> nat \<times> nat option" where
  "braces s =
     (let lo = digits_value (takeWhile ascii_digit s) in
      case dropWhile ascii_digit s of
        [] \<Rightarrow> (lo, Some lo)
      | _ # hi \<Rightarrow> (lo, if hi = [] then None else Some (digits_value hi)))"

definition starts_with :: "string \<Rightarrow> string \<Rightarrow> bool" where
  "starts_with p s = (take (length p) s = p)"

text \<open>A quantifier that a question mark follows is lazy.\<close>

definition greedy :: "string \<Rightarrow> bool" where
  "greedy cs = (\<not> starts_with ''?'' cs)"

definition lazy_mark :: "string \<Rightarrow> nat" where
  "lazy_mark cs = (if greedy cs then 0 else 1)"

text \<open>The tokens of a pattern; \<open>k\<close> characters are already part of the last one.\<close>

primrec rx_tokens :: "string \<Rightarrow> nat \<Rightarrow> rx_token list" where
  "rx_tokens [] k = []"
| "rx_tokens (c # cs) k =
     (if k > 0 then rx_tokens cs (k - 1)
      else if c = CHR ''('' then
        (if starts_with ''?:'' cs then Tk_open id # rx_tokens cs 2
         else if starts_with ''?='' cs then Tk_open (Rx_ahead True) # rx_tokens cs 2
         else if starts_with ''?!'' cs then Tk_open (Rx_ahead False) # rx_tokens cs 2
         else if starts_with ''?<='' cs \<or> starts_with ''?<!'' cs then
           (let body = takeWhile (\<lambda>d. d \<noteq> CHR '')'') (drop 3 cs) in
            Tk_atom (Rx_behind (starts_with ''?<='' cs) body) # rx_tokens cs (4 + length body))
         else Tk_open id # rx_tokens cs 0)
      else if c = CHR '')'' then Tk_close # rx_tokens cs 0
      else if c = CHR ''|'' then Tk_bar # rx_tokens cs 0
      else if c = CHR ''?'' then Tk_times (greedy cs) 0 (Some 1) # rx_tokens cs (lazy_mark cs)
      else if c = CHR ''*'' then Tk_times (greedy cs) 0 None # rx_tokens cs (lazy_mark cs)
      else if c = CHR ''+'' then Tk_times (greedy cs) 1 None # rx_tokens cs (lazy_mark cs)
      else if c = CHR ''{'' then
        (let body = takeWhile (\<lambda>d. d \<noteq> CHR ''}'') cs in
         (case braces body of (lo, hi) \<Rightarrow> Tk_times (greedy (drop (1 + length body) cs)) lo hi)
         # rx_tokens cs (1 + length body + lazy_mark (drop (1 + length body) cs)))
      else if c = CHR ''['' then
        (let neg = starts_with ''^'' cs; skip = (if neg then 1 else 0);
             body = class_body False (drop skip cs) in
         Tk_atom (Rx_class neg (class_items body)) # rx_tokens cs (skip + length body + 1))
      else if c = CHR 0x5C then
        (case cs of [] \<Rightarrow> [] | d # _ \<Rightarrow> Tk_atom (escape_atom d) # rx_tokens cs 1)
      else if c = CHR ''^'' then Tk_atom Rx_start # rx_tokens cs 0
      else if c = CHR ''$'' then Tk_atom Rx_end # rx_tokens cs 0
      else if c = CHR ''.'' then Tk_atom (Rx_class False [Cc_any]) # rx_tokens cs 0
      else Tk_atom (rx_char c) # rx_tokens cs 0)"

text \<open>
  A frame of the parser is an open group: its kind, the alternatives read so far, and the
  atoms of the current alternative, both latest first.
\<close>

type_synonym rx_frame = "(rx \<Rightarrow> rx) \<times> rx list \<times> rx list"

definition rx_sequence :: "rx list \<Rightarrow> rx" where
  "rx_sequence atoms = foldl (\<lambda>r a. if r = Rx_eps then a else Rx_seq a r) Rx_eps atoms"

definition rx_group :: "rx list \<Rightarrow> rx list \<Rightarrow> rx" where
  "rx_group alts atoms = foldl (\<lambda>r a. Rx_alt a r) (rx_sequence atoms) alts"

fun rx_step :: "rx_frame list \<Rightarrow> rx_token \<Rightarrow> rx_frame list" where
  "rx_step [] t = []"
| "rx_step fs (Tk_open k) = (k, [], []) # fs"
| "rx_step ((k, alts, atoms) # fs) Tk_bar = (k, rx_sequence atoms # alts, []) # fs"
| "rx_step ((k, alts, atoms) # fs) (Tk_atom r) = (k, alts, r # atoms) # fs"
| "rx_step ((k, alts, r # atoms) # fs) (Tk_times g lo hi) = (k, alts, Rx_rep g r lo hi # atoms) # fs"
| "rx_step ((k, alts, atoms) # (k', alts', atoms') # fs) Tk_close =
     (k', alts', k (rx_group alts atoms) # atoms') # fs"
| "rx_step (f # fs) t = []"

text \<open>\<open>None\<close> is the \<^verbatim>\<open>SyntaxError\<close> of the constructor.\<close>

definition rx_parse :: "string \<Rightarrow> rx option" where
  "rx_parse s =
     (case foldl rx_step [(id, [], [])] (rx_tokens s 0) of
        [(k, alts, atoms)] \<Rightarrow> Some (rx_group alts atoms)
      | _ \<Rightarrow> None)"

definition pattern_test :: "bool \<Rightarrow> string \<Rightarrow> string \<Rightarrow> bool" where
  "pattern_test i pattern s = (case rx_parse pattern of None \<Rightarrow> False | Some r \<Rightarrow> rx_test i r s)"

text \<open>Patterns are quoted from the source with \<^verbatim>\<open>%\<close> for the backslash.\<close>

definition pat :: "string \<Rightarrow> string" where
  "pat s = map (\<lambda>c. if c = CHR ''%'' then CHR 0x5C else c) s"

section \<open>The reference semantics\<close>

text \<open>
  \<open>reps R lo hi\<close> relates the ends of a chain of at least \<open>lo\<close> and at most \<open>hi\<close> steps of \<open>R\<close>;
  no step is excluded for being empty.
\<close>

abbreviation fewer :: "nat option \<Rightarrow> nat option" where
  "fewer hi \<equiv> map_option (\<lambda>k. k - 1) hi"

inductive reps :: "(position \<Rightarrow> position \<Rightarrow> bool) \<Rightarrow> nat \<Rightarrow> nat option \<Rightarrow> position \<Rightarrow> position \<Rightarrow> bool"
  for R where
  reps_done: "reps R 0 hi p p"
| reps_must: "hi \<noteq> Some 0 \<Longrightarrow> R p q \<Longrightarrow> reps R lo (fewer hi) q s \<Longrightarrow> reps R (Suc lo) hi p s"
| reps_more: "hi \<noteq> Some 0 \<Longrightarrow> R p q \<Longrightarrow> reps R 0 (fewer hi) q s \<Longrightarrow> reps R 0 hi p s"

primrec rx_rel :: "bool \<Rightarrow> rx \<Rightarrow> position \<Rightarrow> position \<Rightarrow> bool" where
  "rx_rel i Rx_eps = (\<lambda>p q. q = p)"
| "rx_rel i (Rx_class neg cls) =
     (\<lambda>p q. \<exists>c cs. snd p = c # cs \<and> char_ok i neg cls c \<and> q = (c # fst p, cs))"
| "rx_rel i (Rx_seq r s) = (\<lambda>p q. \<exists>m. rx_rel i r p m \<and> rx_rel i s m q)"
| "rx_rel i (Rx_alt r s) = (\<lambda>p q. rx_rel i r p q \<or> rx_rel i s p q)"
| "rx_rel i (Rx_rep g r lo hi) = reps (rx_rel i r) lo hi"
| "rx_rel i Rx_word_edge = (\<lambda>p q. q = p \<and> at_edge p)"
| "rx_rel i Rx_start = (\<lambda>p q. q = p \<and> fst p = [])"
| "rx_rel i Rx_end = (\<lambda>p q. q = p \<and> snd p = [])"
| "rx_rel i (Rx_ahead pos r) = (\<lambda>p q. q = p \<and> (\<exists>m. rx_rel i r p m) = pos)"
| "rx_rel i (Rx_behind pos s) = (\<lambda>p q. q = p \<and> preceded_by i s (fst p) = pos)"

definition moves_on :: "position \<Rightarrow> position \<Rightarrow> bool" where
  "moves_on p q = (\<exists>w. snd p = w @ snd q \<and> fst q = rev w @ fst p)"

lemma moves_on_refl: "moves_on p p"
  by (simp add: moves_on_def)

lemma moves_on_trans: "moves_on p q \<Longrightarrow> moves_on q s \<Longrightarrow> moves_on p s"
  unfolding moves_on_def by (metis append.assoc rev_append)

lemma moves_on_length: "moves_on p q \<Longrightarrow> length (snd q) \<le> length (snd p)"
  unfolding moves_on_def by (metis le_add2 length_append)

lemma moves_on_stay: "moves_on p q \<Longrightarrow> length (snd q) = length (snd p) \<Longrightarrow> q = p"
  unfolding moves_on_def by (auto intro: prod_eqI)

lemma reps_moves_on:
  assumes "reps R lo hi p q" and "\<And>p q. R p q \<Longrightarrow> moves_on p q"
  shows "moves_on p q"
  using assms by (induction) (blast intro: moves_on_refl moves_on_trans)+

lemma rx_rel_moves_on: "rx_rel i r p q \<Longrightarrow> moves_on p q"
proof (induction r arbitrary: p q)
  case (Rx_class neg cls)
  then show ?case by (auto simp: moves_on_def)
next
  case (Rx_rep g r lo hi)
  show ?case
    by (rule reps_moves_on [of "rx_rel i r" lo hi]) (use Rx_rep in simp_all)
next
  case (Rx_seq r s)
  from Rx_seq.prems obtain m where "rx_rel i r p m" "rx_rel i s m q" by auto
  then show ?case by (rule moves_on_trans [OF Rx_seq.IH])
next
  case (Rx_alt r s)
  then show ?case by fastforce
qed (simp_all add: moves_on_refl)

text \<open>Dropping a repetition bound only adds matches.\<close>

definition looser :: "nat option \<Rightarrow> nat option \<Rightarrow> bool" where
  "looser h h' = (case h' of None \<Rightarrow> True | Some b \<Rightarrow> (case h of None \<Rightarrow> False | Some a \<Rightarrow> a \<le> b))"

lemma looser_fewer: "looser (fewer h) h" "looser h h' \<Longrightarrow> looser (fewer h) (fewer h')"
  by (auto simp: looser_def split: option.splits)

lemma iterate_Suc_iff:
  "q \<in> set (iterate g f (Suc n) lo hi p) \<longleftrightarrow>
     (lo = 0 \<and> q = p) \<or>
     (hi \<noteq> Some 0 \<and> (\<exists>m \<in> set (f p). (lo > 0 \<or> length (snd m) < length (snd p)) \<and>
                       q \<in> set (iterate g f n (lo - 1) (fewer hi) m)))"
  by (auto simp: Bex_def)

declare iterate.simps(2) [simp del]

lemma iterate_looser:
  "looser h h' \<Longrightarrow> q \<in> set (iterate g f n lo h p) \<Longrightarrow> q \<in> set (iterate g f n lo h' p)"
proof (induction n arbitrary: lo h h' p)
  case (Suc n)
  have "h' = Some 0 \<Longrightarrow> h = Some 0"
    using Suc.prems(1) by (auto simp: looser_def split: option.splits)
  with Suc.prems(2) Suc.IH [OF looser_fewer(2) [OF Suc.prems(1)]]
  show ?case unfolding iterate_Suc_iff by blast
qed simp

lemma iterate_sound:
  assumes "\<And>p q. q \<in> set (f p) \<Longrightarrow> R p q"
  shows "q \<in> set (iterate g f n lo hi p) \<Longrightarrow> reps R lo hi p q"
proof (induction n arbitrary: lo hi p)
  case 0
  then show ?case by (auto intro: reps_done split: if_splits)
next
  case (Suc n)
  then consider "lo = 0" "q = p"
    | m where "hi \<noteq> Some 0" "m \<in> set (f p)" "q \<in> set (iterate g f n (lo - 1) (fewer hi) m)"
    unfolding iterate_Suc_iff by blast
  then show ?case
  proof cases
    case 1
    then show ?thesis by (simp add: reps_done)
  next
    case 2
    note s = Suc.IH [OF 2(3)]
    show ?thesis
    proof (cases lo)
      case 0
      with s 2(1) assms [OF 2(2)] show ?thesis by (auto intro: reps_more)
    next
      case (Suc k)
      with s 2(1) assms [OF 2(2)] show ?thesis by (auto intro: reps_must)
    qed
  qed
qed

lemma iterate_here: "p \<in> set (iterate g f n 0 hi p)"
  by (cases n) (simp_all add: iterate_Suc_iff)

lemma iterate_complete:
  assumes f: "\<And>p q. R p q \<longleftrightarrow> q \<in> set (f p)" and mv: "\<And>p q. R p q \<Longrightarrow> moves_on p q"
  shows "reps R lo hi p q \<Longrightarrow> lo + length (snd p) \<le> n \<Longrightarrow> q \<in> set (iterate g f n lo hi p)"
proof (induction arbitrary: n rule: reps.induct)
  case (reps_done hi p)
  show ?case by (rule iterate_here)
next
  case (reps_must hi p q lo s)
  obtain k where k: "n = Suc k" using reps_must.prems by (cases n) auto
  have "lo + length (snd q) \<le> k"
    using reps_must.prems moves_on_length [OF mv [OF reps_must.hyps(2)]] by (simp add: k)
  from reps_must.IH [OF this] reps_must.hyps(1,2) show ?case
    unfolding k iterate_Suc_iff f by force
next
  case (reps_more hi p q s)
  note mq = mv [OF reps_more.hyps(2)]
  show ?case
  proof (cases "length (snd q) < length (snd p)")
    case True
    obtain k where k: "n = Suc k" using reps_more.prems True by (cases n) auto
    have "0 + length (snd q) \<le> k" using reps_more.prems True by (simp add: k)
    from reps_more.IH [OF this] reps_more.hyps(1,2) True show ?thesis
      unfolding k iterate_Suc_iff f by force
  next
    case False
    then have "q = p" using moves_on_stay [OF mq] moves_on_length [OF mq] by simp
    then show ?thesis
      using reps_more.IH [of n] reps_more.prems iterate_looser [OF looser_fewer(1)] by auto
  qed
qed

text \<open>The matcher finds exactly the matches of the reference semantics.\<close>

lemma rx_run_iff: "q \<in> set (rx_run i r p) \<longleftrightarrow> rx_rel i r p q"
proof (induction r arbitrary: p q)
  case (Rx_class neg cls)
  show ?case by (auto split: list.splits)
next
  case (Rx_rep g r lo hi)
  have "reps (rx_rel i r) lo hi p q" if "q \<in> set (iterate g (rx_run i r) (lo + length (snd p)) lo hi p)"
    by (rule iterate_sound [OF _ that]) (simp add: Rx_rep)
  moreover have "q \<in> set (iterate g (rx_run i r) (lo + length (snd p)) lo hi p)"
    if "reps (rx_rel i r) lo hi p q"
    by (rule iterate_complete [OF _ _ that]) (simp_all add: Rx_rep rx_rel_moves_on)
  ultimately show ?case by auto
next
  case (Rx_ahead pos r)
  have "rx_run i r p \<noteq> [] \<longleftrightarrow> (\<exists>m. rx_rel i r p m)"
    unfolding Rx_ahead [symmetric] by (metis ex_in_conv set_empty)
  then show ?case by auto
next
  case (Rx_seq r s)
  have "q \<in> set (rx_run i (Rx_seq r s) p) \<longleftrightarrow> (\<exists>m \<in> set (rx_run i r p). q \<in> set (rx_run i s m))"
    by simp
  then show ?case unfolding Rx_seq.IH by (auto simp: Bex_def Rx_seq.IH)
qed auto

lemma rx_run_Nil: "rx_run i r p = [] \<longleftrightarrow> (\<forall>q. \<not> rx_rel i r p q)"
  unfolding rx_run_iff [symmetric] by (simp add: all_not_in_conv)

lemma rx_find_None:
  "rx_find i r b s = None \<longleftrightarrow> (\<forall>u v q. s = u @ v \<longrightarrow> \<not> rx_rel i r (rev u @ b, v) q)"
proof (induction s arbitrary: b)
  case Nil
  have "rx_find i r b [] = None \<longleftrightarrow> rx_run i r (b, []) = []" by (simp split: list.split)
  then show ?case by (simp add: rx_run_Nil)
next
  case (Cons c s)
  have "rx_find i r b (c # s) = None \<longleftrightarrow> rx_run i r (b, c # s) = [] \<and> rx_find i r (c # b) s = None"
    by (simp split: list.split)
  also have "\<dots> \<longleftrightarrow> (\<forall>u v q. c # s = u @ v \<longrightarrow> \<not> rx_rel i r (rev u @ b, v) q)" (is "?l = ?r")
  proof
    assume l: ?l
    show ?r
    proof (intro allI impI)
      fix u v q
      assume e: "c # s = u @ v"
      show "\<not> rx_rel i r (rev u @ b, v) q"
      proof (cases u)
        case Nil
        with l e show ?thesis by (cases q) (simp add: rx_run_Nil)
      next
        case (Cons d u')
        with e have su: "s = u' @ v" "d = c" by simp_all
        from l have "rx_find i r (c # b) s = None" by simp
        with su(1) have "\<not> rx_rel i r (rev u' @ c # b, v) q" unfolding Cons.IH by blast
        with Cons su(2) show ?thesis by simp
      qed
    qed
  next
    assume r: ?r
    have "rx_run i r (b, c # s) = []"
      unfolding rx_run_Nil using r by (metis append_Nil rev.simps(1))
    moreover have "rx_find i r (c # b) s = None"
      unfolding Cons.IH
    proof (intro allI impI)
      fix u v q
      assume "s = u @ v"
      then show "\<not> rx_rel i r (rev u @ c # b, v) q"
        using r [rule_format, of "c # u" v q] by simp
    qed
    ultimately show ?l by simp
  qed
  finally show ?case .
qed

text \<open>A text passes the test exactly when a part of it matches.\<close>

lemma rx_test_iff:
  "rx_test i r s \<longleftrightarrow> (\<exists>u m v. s = u @ m @ v \<and> rx_rel i r (rev u, m @ v) (rev m @ rev u, v))"
proof -
  have "rx_test i r s \<longleftrightarrow> (\<exists>u v q. s = u @ v \<and> rx_rel i r (rev u, v) q)"
    unfolding rx_test_def rx_find_None by simp
  also have "\<dots> \<longleftrightarrow> (\<exists>u m v. s = u @ m @ v \<and> rx_rel i r (rev u, m @ v) (rev m @ rev u, v))"
  proof
    assume "\<exists>u v q. s = u @ v \<and> rx_rel i r (rev u, v) q"
    then obtain u v q where h: "s = u @ v" "rx_rel i r (rev u, v) q" by blast
    from rx_rel_moves_on [OF h(2)] obtain w where w: "v = w @ snd q" "fst q = rev w @ rev u"
      by (auto simp: moves_on_def)
    then have "q = (rev w @ rev u, snd q)" by (simp add: prod_eq_iff)
    with h w(1) show "\<exists>u m v. s = u @ m @ v \<and> rx_rel i r (rev u, m @ v) (rev m @ rev u, v)" by metis
  qed metis
  finally show ?thesis .
qed

end
