(* ===== verification/Accounts.thy ===== *)
theory Accounts
  imports Major_Prelude
begin

text \<open>
  Account labels and capacity keys of src/providers/account.ts. A key names one account of
  a provider: the bare provider name for the default account, \<^verbatim>\<open>provider#label\<close> otherwise.
\<close>

datatype account_error =
    Invalid_account_label string
  | Separator_in_key string string
  | Ambiguous_key string
  | Unsafe_auth_path string
  | Default_account_has_no_parents

type_synonym 'a account_result = "(account_error, 'a) result"

definition DEFAULT_ACCOUNT_LABEL :: string where
  "DEFAULT_ACCOUNT_LABEL = ''default''"

definition SEPARATOR :: char where
  "SEPARATOR = CHR ''#''"

definition lower_letter :: "char \<Rightarrow> bool" where
  "lower_letter c = (let n = (of_char c :: nat) in 97 \<le> n \<and> n \<le> 122)"

definition digit :: "char \<Rightarrow> bool" where
  "digit c = (let n = (of_char c :: nat) in 48 \<le> n \<and> n \<le> 57)"

definition label_char :: "char \<Rightarrow> bool" where
  "label_char c = (lower_letter c \<or> digit c \<or> c = CHR ''-'')"

text \<open>\<^verbatim>\<open>/^[a-z][a-z0-9-]{0,31}$/\<close>\<close>

definition ACCOUNT_LABEL_PATTERN :: "string \<Rightarrow> bool" where
  "ACCOUNT_LABEL_PATTERN s =
     (case s of [] \<Rightarrow> False
      | c # cs \<Rightarrow> lower_letter c \<and> list_all label_char cs \<and> length cs \<le> 31)"

definition assertAccountLabel :: "string \<Rightarrow> string account_result" where
  "assertAccountLabel label =
     (if label = DEFAULT_ACCOUNT_LABEL then Inr label
      else if \<not> ACCOUNT_LABEL_PATTERN label \<or> label = ''accounts'' then Inl (Invalid_account_label label)
      else Inr label)"

section \<open>Labels for policy ids\<close>

definition lower_ascii :: "char \<Rightarrow> char" where
  "lower_ascii c =
     (let n = (of_char c :: nat) in if 65 \<le> n \<and> n \<le> 90 then char_of (n + 32) else c)"

lemma account_char_code [code]:
  "lower_letter c = char_between (CHR ''a'') c (CHR ''z'')" "digit c = char_between (CHR ''0'') c (CHR ''9'')"
  "lower_ascii c = (if char_between (CHR ''A'') c (CHR ''Z'') then with_case_bit c else c)"
  by (simp_all add: lower_letter_def digit_def lower_ascii_def char_between_def char_upto_def Let_def lowered_letter)

text \<open>\<open>dash_runs ok\<close>: replace every run of characters outside \<open>ok\<close> by one dash.\<close>

fun dash_runs :: "(char \<Rightarrow> bool) \<Rightarrow> bool \<Rightarrow> string \<Rightarrow> string" where
  "dash_runs ok b [] = []"
| "dash_runs ok b (c # cs) =
     (if ok c then c # dash_runs ok False cs
      else if b then dash_runs ok True cs else CHR ''-'' # dash_runs ok True cs)"

definition strip_dashes :: "string \<Rightarrow> string" where
  "strip_dashes s = rev (dropWhile (\<lambda>c. c = CHR ''-'') (rev (dropWhile (\<lambda>c. c = CHR ''-'') s)))"

definition strip_trailing_dashes :: "string \<Rightarrow> string" where
  "strip_trailing_dashes s = rev (dropWhile (\<lambda>c. c = CHR ''-'') (rev s))"

definition starts_with_letter :: "string \<Rightarrow> bool" where
  "starts_with_letter s = (case s of [] \<Rightarrow> False | c # _ \<Rightarrow> lower_letter c)"

definition policy_label :: "string \<Rightarrow> string" where
  "policy_label policyId =
     (let n0 = strip_dashes (dash_runs (\<lambda>c. lower_letter c \<or> digit c) False
                 (map lower_ascii (js_trim policyId)));
          n1 = (if n0 = [] \<or> \<not> starts_with_letter n0
                then strip_dashes (dash_runs (\<lambda>c. c \<noteq> CHR ''-'') False
                       (''p-'' @ (if n0 = [] then ''profile'' else n0)))
                else n0);
          n2 = (if length n1 > 32 then strip_trailing_dashes (take 32 n1) else n1)
      in if n2 = [] then ''profile'' else n2)"

definition normalizePolicyIdToAccountLabel :: "string \<Rightarrow> string account_result" where
  "normalizePolicyIdToAccountLabel policyId = assertAccountLabel (policy_label policyId)"

datatype mapping_error = Cannot_normalize string | Label_collision string string string

fun map_policy_ids ::
  "string list \<Rightarrow> (string \<rightharpoonup> string) \<Rightarrow> (string \<rightharpoonup> string) \<Rightarrow> (mapping_error, string \<rightharpoonup> string) result" where
  "map_policy_ids [] labels ownerByLabel = Inr labels"
| "map_policy_ids (policyId # ids) labels ownerByLabel =
     (case normalizePolicyIdToAccountLabel policyId of
        Inl _ \<Rightarrow> Inl (Cannot_normalize policyId)
      | Inr accountLabel \<Rightarrow>
          (case ownerByLabel accountLabel of
             Some prior \<Rightarrow>
               if prior \<noteq> policyId then Inl (Label_collision prior policyId accountLabel)
               else map_policy_ids ids (labels(policyId \<mapsto> accountLabel)) (ownerByLabel(accountLabel \<mapsto> policyId))
           | None \<Rightarrow>
               map_policy_ids ids (labels(policyId \<mapsto> accountLabel)) (ownerByLabel(accountLabel \<mapsto> policyId))))"

definition mapPolicyIdsToAccountLabels :: "string list \<Rightarrow> (mapping_error, string \<rightharpoonup> string) result" where
  "mapPolicyIdsToAccountLabels policyIds = map_policy_ids policyIds Map.empty Map.empty"

section \<open>Capacity keys\<close>

definition capacityKey :: "string \<Rightarrow> string \<Rightarrow> string account_result" where
  "capacityKey providerName accountLabel =
     rbind (assertAccountLabel accountLabel) (\<lambda>_.
       if SEPARATOR \<in> set providerName \<or> SEPARATOR \<in> set accountLabel
       then Inl (Separator_in_key providerName accountLabel)
       else Inr (if accountLabel = DEFAULT_ACCOUNT_LABEL then providerName
                 else providerName @ [SEPARATOR] @ accountLabel))"

definition parseCapacityKey :: "string \<Rightarrow> (string \<times> string) account_result" where
  "parseCapacityKey key =
     (if SEPARATOR \<notin> set key then Inr (key, DEFAULT_ACCOUNT_LABEL)
      else let providerName = takeWhile (\<lambda>c. c \<noteq> SEPARATOR) key in
        rbind (assertAccountLabel (drop (length providerName + 1) key)) (\<lambda>accountLabel.
          if SEPARATOR \<in> set accountLabel then Inl (Ambiguous_key key)
          else Inr (providerName, accountLabel)))"

section \<open>Credential store paths\<close>

fun has_infix :: "string \<Rightarrow> string \<Rightarrow> bool" where
  "has_infix pat [] = (pat = [])"
| "has_infix pat (c # cs) = (take (length pat) (c # cs) = pat \<or> has_infix pat cs)"

definition accountAuthStoreRelativePath :: "string \<Rightarrow> string \<Rightarrow> string account_result" where
  "accountAuthStoreRelativePath authRelativePath accountLabel =
     rbind (assertAccountLabel accountLabel) (\<lambda>_.
       if has_infix ''..'' authRelativePath \<or> take 1 authRelativePath = ''/''
       then Inl (Unsafe_auth_path authRelativePath)
       else Inr (if accountLabel = DEFAULT_ACCOUNT_LABEL then authRelativePath
                 else ''accounts/'' @ accountLabel @ ''/'' @ authRelativePath))"

text \<open>\<open>dirname\<close>: the text before the last slash.\<close>

definition dirname :: "string \<Rightarrow> string" where
  "dirname s = rev (tl (dropWhile (\<lambda>c. c \<noteq> CHR ''/'') (rev s)))"

definition namedAuthStoreParentRelativePaths :: "string \<Rightarrow> string \<Rightarrow> string list account_result" where
  "namedAuthStoreParentRelativePaths authRelativePath accountLabel =
     rbind (assertAccountLabel accountLabel) (\<lambda>_.
       if accountLabel = DEFAULT_ACCOUNT_LABEL then Inl Default_account_has_no_parents
       else let relParent = (if CHR ''/'' \<in> set authRelativePath then dirname authRelativePath else ''.'')
            in Inr [''accounts'', ''accounts/'' @ accountLabel, ''accounts/'' @ accountLabel @ ''/'' @ relParent])"

definition providerStateAccountArgs :: "string \<Rightarrow> string list account_result" where
  "providerStateAccountArgs accountLabel =
     rbind (assertAccountLabel accountLabel) (\<lambda>_.
       Inr (if accountLabel = DEFAULT_ACCOUNT_LABEL then [] else [accountLabel]))"

section \<open>Keys name one account each\<close>

lemma label_char_not_separator [simp]: "\<not> label_char SEPARATOR"
  by code_simp

lemma lower_letter_not_separator [simp]: "\<not> lower_letter SEPARATOR"
  by code_simp

lemma label_no_separator: "ACCOUNT_LABEL_PATTERN l \<Longrightarrow> SEPARATOR \<notin> set l"
  by (auto simp: ACCOUNT_LABEL_PATTERN_def list_all_iff split: list.splits)

lemma assertAccountLabel_Inr:
  "assertAccountLabel l = Inr x \<longleftrightarrow> x = l \<and> (l = DEFAULT_ACCOUNT_LABEL \<or> ACCOUNT_LABEL_PATTERN l \<and> l \<noteq> ''accounts'')"
  by (auto simp: assertAccountLabel_def)

lemma takeWhile_to_separator:
  "SEPARATOR \<notin> set n \<Longrightarrow> takeWhile (\<lambda>c. c \<noteq> SEPARATOR) (n @ SEPARATOR # l) = n"
  by (induction n) auto

lemma capacityKey_Inr:
  "capacityKey n l = Inr k \<longleftrightarrow> assertAccountLabel l = Inr l \<and> SEPARATOR \<notin> set n \<and> SEPARATOR \<notin> set l
     \<and> k = (if l = DEFAULT_ACCOUNT_LABEL then n else n @ SEPARATOR # l)"
proof (cases "assertAccountLabel l")
  case (Inr x)
  then have "x = l" by (simp add: assertAccountLabel_Inr)
  then show ?thesis using Inr by (auto simp: capacityKey_def)
qed (simp add: capacityKey_def)

lemma parse_plain: "SEPARATOR \<notin> set k \<Longrightarrow> parseCapacityKey k = Inr (k, DEFAULT_ACCOUNT_LABEL)"
  by (simp add: parseCapacityKey_def)

lemma parse_named:
  "SEPARATOR \<notin> set n \<Longrightarrow> assertAccountLabel l = Inr l \<Longrightarrow> SEPARATOR \<notin> set l \<Longrightarrow>
     parseCapacityKey (n @ SEPARATOR # l) = Inr (n, l)"
  by (simp add: parseCapacityKey_def Let_def takeWhile_to_separator)

lemma capacityKey_parses: "capacityKey n l = Inr k \<Longrightarrow> parseCapacityKey k = Inr (n, l)"
  unfolding capacityKey_Inr by (cases "l = DEFAULT_ACCOUNT_LABEL") (simp_all add: parse_plain parse_named)

lemma parsed_key_valid:
  assumes p: "parseCapacityKey k = Inr (n, l)"
  shows "\<exists>k'. capacityKey n l = Inr k'"
proof (cases "SEPARATOR \<in> set k")
  case True
  then have "assertAccountLabel l = Inr l" "SEPARATOR \<notin> set l" "n = takeWhile (\<lambda>c. c \<noteq> SEPARATOR) k"
    using p by (auto simp: parseCapacityKey_def rbind_eq_Inr Let_def assertAccountLabel_Inr split: if_splits)
  moreover from this(3) have "SEPARATOR \<notin> set n" by (auto dest: set_takeWhileD)
  ultimately show ?thesis unfolding capacityKey_Inr by simp
next
  case False
  then have "l = DEFAULT_ACCOUNT_LABEL" "n = k" using p by (simp_all add: parse_plain)
  moreover have "SEPARATOR \<notin> set DEFAULT_ACCOUNT_LABEL" by code_simp
  ultimately show ?thesis using False unfolding capacityKey_Inr by (simp add: assertAccountLabel_def)
qed

text \<open>
  Capacity keys round-trip and are unambiguous: the key of a provider and label parses
  back to exactly that provider and label, so two accounts never share a key, and every
  key that parses names a valid label.
\<close>

theorem capacityKey_roundtrip:
  "(capacityKey n l = Inr k \<longrightarrow> parseCapacityKey k = Inr (n, l))
   \<and> (capacityKey n l = Inr k \<and> capacityKey n' l' = Inr k \<longrightarrow> n = n' \<and> l = l')
   \<and> (parseCapacityKey k = Inr (n, l) \<longrightarrow> (\<exists>k'. capacityKey n l = Inr k' \<and> parseCapacityKey k' = Inr (n, l)))"
proof (intro conjI impI)
  show "parseCapacityKey k = Inr (n, l)" if "capacityKey n l = Inr k" using that by (rule capacityKey_parses)
  assume "capacityKey n l = Inr k \<and> capacityKey n' l' = Inr k"
  then have "Inr (n, l) = (Inr (n', l') :: (account_error, string \<times> string) result)"
    using capacityKey_parses by metis
  then show "n = n'" "l = l'" by simp_all
next
  assume "parseCapacityKey k = Inr (n, l)"
  then show "\<exists>k'. capacityKey n l = Inr k' \<and> parseCapacityKey k' = Inr (n, l)"
    using parsed_key_valid capacityKey_parses by blast
qed

theorem capacityKey_roundtrip_witness:
  "capacityKey ''codex'' ''work'' = Inr ''codex#work'' \<and> parseCapacityKey ''codex#work'' = Inr (''codex'', ''work'')"
proof -
  have k: "capacityKey ''codex'' ''work'' = Inr ''codex#work''" by code_simp
  have "parseCapacityKey ''codex#work'' = Inr (''codex'', ''work'')"
    using capacityKey_roundtrip k by blast
  with k show ?thesis by blast
qed

section \<open>Policy labels\<close>

lemma strip_dashes_set: "set (strip_dashes s) \<subseteq> set s"
  by (auto simp: strip_dashes_def dest!: set_dropWhileD)

lemma dash_runs_label: "(\<And>c. ok c \<Longrightarrow> label_char c) \<Longrightarrow> list_all label_char (dash_runs ok b s)"
  by (induction ok b s rule: dash_runs.induct) (auto simp: label_char_def)

lemma dash_runs_keeps_label: "list_all label_char s \<Longrightarrow> list_all label_char (dash_runs ok b s)"
  by (induction ok b s rule: dash_runs.induct) (auto simp: label_char_def)

lemma list_all_subset: "list_all P s \<Longrightarrow> set t \<subseteq> set s \<Longrightarrow> list_all P t"
  by (auto simp: list_all_iff)

lemma dropWhile_snoc: "\<not> P c \<Longrightarrow> \<exists>xs. dropWhile P (ys @ [c]) = xs @ [c]"
  by (induction ys) auto

lemma letter_not_dash: "lower_letter c \<Longrightarrow> c \<noteq> CHR ''-''"
  by (auto simp: lower_letter_def)

lemma strip_trailing_letter:
  assumes "lower_letter c"
  shows "starts_with_letter (strip_trailing_dashes (c # s))"
proof -
  obtain xs where "dropWhile (\<lambda>c. c = CHR ''-'') (rev s @ [c]) = xs @ [c]"
    using dropWhile_snoc [of "\<lambda>c. c = CHR ''-''" c "rev s"] letter_not_dash [OF assms] by blast
  then have "strip_trailing_dashes (c # s) = c # rev xs" by (simp add: strip_trailing_dashes_def)
  then show ?thesis using assms by (simp add: starts_with_letter_def)
qed

lemma strip_dashes_letter: "lower_letter c \<Longrightarrow> starts_with_letter (strip_dashes (c # s))"
  using strip_trailing_letter [of c s] letter_not_dash [of c]
  by (simp add: strip_dashes_def strip_trailing_dashes_def)

lemma strip_trailing_set: "set (strip_trailing_dashes s) \<subseteq> set s"
  by (auto simp: strip_trailing_dashes_def dest!: set_dropWhileD)

lemma strip_trailing_length: "length (strip_trailing_dashes s) \<le> length s"
  using length_dropWhile_le [of "\<lambda>c. c = CHR ''-''" "rev s"] by (simp add: strip_trailing_dashes_def)

text \<open>\<open>label_shape\<close>: starts with a letter and consists of label characters.\<close>

definition label_shape :: "string \<Rightarrow> bool" where
  "label_shape s \<longleftrightarrow> starts_with_letter s \<and> list_all label_char s"

lemma label_shape_pattern: "label_shape s \<Longrightarrow> length s \<le> 32 \<Longrightarrow> ACCOUNT_LABEL_PATTERN s"
  by (cases s) (auto simp: label_shape_def starts_with_letter_def ACCOUNT_LABEL_PATTERN_def)

lemma label_shape_cut:
  assumes "label_shape s"
  shows "label_shape (strip_trailing_dashes (take 32 s))" and "length (strip_trailing_dashes (take 32 s)) \<le> 32"
proof -
  obtain c cs where s: "s = c # cs" "lower_letter c"
    using assms by (cases s) (auto simp: label_shape_def starts_with_letter_def)
  have "starts_with_letter (strip_trailing_dashes (c # take 31 cs))" using s(2) by (rule strip_trailing_letter)
  moreover have "take 32 s = c # take 31 cs" using s(1) by simp
  moreover have "list_all label_char (strip_trailing_dashes (take 32 s))"
    using assms strip_trailing_set set_take_subset unfolding label_shape_def
    by (meson list_all_subset order_trans)
  ultimately show "label_shape (strip_trailing_dashes (take 32 s))" by (simp add: label_shape_def)
  show "length (strip_trailing_dashes (take 32 s)) \<le> 32"
    using strip_trailing_length [of "take 32 s"] by simp
qed

lemma prefixed_label_shape:
  assumes "list_all label_char x"
  shows "label_shape (strip_dashes (dash_runs (\<lambda>c. c \<noteq> CHR ''-'') False (''p-'' @ x)))"
proof -
  let ?d = "dash_runs (\<lambda>c. c \<noteq> CHR ''-'') False (''p-'' @ x)"
  have p: "lower_letter (CHR ''p'')" by code_simp
  have "starts_with_letter (strip_dashes ?d)"
    using strip_dashes_letter [OF p] by simp
  moreover have "list_all label_char (''p-'' @ x)"
    using assms by (simp add: label_char_def p)
  then have "list_all label_char (strip_dashes ?d)"
    using dash_runs_keeps_label strip_dashes_set list_all_subset by blast
  ultimately show ?thesis by (simp add: label_shape_def)
qed

lemma policy_label_pattern: "ACCOUNT_LABEL_PATTERN (policy_label policyId)"
proof -
  define n0 where "n0 = strip_dashes (dash_runs (\<lambda>c. lower_letter c \<or> digit c) False
                 (map lower_ascii (js_trim policyId)))"
  define n1 where "n1 = (if n0 = [] \<or> \<not> starts_with_letter n0
                then strip_dashes (dash_runs (\<lambda>c. c \<noteq> CHR ''-'') False
                       (''p-'' @ (if n0 = [] then ''profile'' else n0)))
                else n0)"
  have n0: "list_all label_char n0"
    unfolding n0_def by (rule list_all_subset [OF dash_runs_label strip_dashes_set]) (auto simp: label_char_def)
  have "list_all label_char ''profile''" by code_simp
  then have n1: "label_shape n1"
    using n0 prefixed_label_shape unfolding n1_def by (simp add: label_shape_def)
  define n2 where "n2 = (if length n1 > 32 then strip_trailing_dashes (take 32 n1) else n1)"
  have n2: "label_shape n2" "length n2 \<le> 32"
    using n1 label_shape_cut [OF n1] by (auto simp: n2_def)
  then have "n2 \<noteq> []" by (auto simp: label_shape_def starts_with_letter_def)
  moreover have "policy_label policyId = (if n2 = [] then ''profile'' else n2)"
    unfolding policy_label_def Let_def n2_def n1_def n0_def by (rule refl)
  ultimately have "policy_label policyId = n2" by simp
  then show ?thesis using n2 label_shape_pattern by simp
qed

text \<open>
  Every policy id, whatever its text, is normalised to a text that satisfies the label
  pattern; the only refusal is the reserved word accounts, so an accepted label is always
  safe as a directory name and as part of a capacity key.
\<close>

theorem policy_label_valid:
  "normalizePolicyIdToAccountLabel policyId =
     (if policy_label policyId = ''accounts'' then Inl (Invalid_account_label ''accounts'')
      else Inr (policy_label policyId))
   \<and> ACCOUNT_LABEL_PATTERN (policy_label policyId) \<and> SEPARATOR \<notin> set (policy_label policyId)"
  using policy_label_pattern [of policyId] label_no_separator
  by (auto simp: normalizePolicyIdToAccountLabel_def assertAccountLabel_def DEFAULT_ACCOUNT_LABEL_def)

lemma map_policy_ids_inv:
  assumes "map_policy_ids ids labels owner = Inr m"
    and "\<And>i l. labels i = Some l \<Longrightarrow> owner l = Some i \<and> normalizePolicyIdToAccountLabel i = Inr l"
  shows "dom m = dom labels \<union> set ids \<and> inj_on m (dom m)
    \<and> (\<forall>i l. m i = Some l \<longrightarrow> normalizePolicyIdToAccountLabel i = Inr l)"
  using assms
proof (induction ids labels owner rule: map_policy_ids.induct)
  case (1 labels owner)
  then have "inj_on labels (dom labels)" by (intro inj_onI) (metis domD option.inject)
  then show ?case using 1 by auto
next
  case (2 i ids labels owner)
  obtain l where l: "normalizePolicyIdToAccountLabel i = Inr l"
    using 2(3) by (auto split: sum.splits)
  have free: "owner l = None \<or> owner l = Some i" and
    rest: "map_policy_ids ids (labels(i \<mapsto> l)) (owner(l \<mapsto> i)) = Inr m"
    using 2(3) l by (auto split: option.splits if_splits)
  have keep: "(owner(l \<mapsto> i)) k = Some j \<and> normalizePolicyIdToAccountLabel j = Inr k"
    if "(labels(i \<mapsto> l)) j = Some k" for j k
  proof (cases "j = i")
    case True
    then show ?thesis using that l by simp
  next
    case False
    then have "owner k = Some j" "normalizePolicyIdToAccountLabel j = Inr k" using that 2(4) by auto
    moreover have "k \<noteq> l" using calculation(1) free False by auto
    ultimately show ?thesis by simp
  qed
  have "dom m = dom (labels(i \<mapsto> l)) \<union> set ids \<and> inj_on m (dom m)
      \<and> (\<forall>i l. m i = Some l \<longrightarrow> normalizePolicyIdToAccountLabel i = Inr l)"
  proof (cases "owner l")
    case None
    then show ?thesis using 2(1) [OF l None rest keep] by blast
  next
    case (Some j)
    then show ?thesis using 2(2) [OF l Some _ rest keep] free Some by auto
  qed
  moreover have "dom (labels(i \<mapsto> l)) \<union> set ids = dom labels \<union> set (i # ids)" by auto
  ultimately show ?case by metis
qed

text \<open>
  A batch of policy ids is mapped completely and without collision or not at all:
  an accepted mapping gives every id of the batch a valid label, no two different ids share
  one, and ids outside the batch get none.
\<close>

theorem policy_mapping_injective:
  assumes "mapPolicyIdsToAccountLabels ids = Inr labels"
  shows "dom labels = set ids \<and> inj_on labels (dom labels)
    \<and> (\<forall>i l. labels i = Some l \<longrightarrow> l = policy_label i \<and> ACCOUNT_LABEL_PATTERN l \<and> l \<noteq> ''accounts'')"
proof -
  have m: "dom labels = set ids \<and> inj_on labels (dom labels)
      \<and> (\<forall>i l. labels i = Some l \<longrightarrow> normalizePolicyIdToAccountLabel i = Inr l)"
    using map_policy_ids_inv [OF assms [unfolded mapPolicyIdsToAccountLabels_def]]
    by (metis Un_empty_left dom_empty option.distinct(1))
  have "l = policy_label i \<and> l \<noteq> ''accounts''" if "normalizePolicyIdToAccountLabel i = Inr l" for i l
    using that by (auto simp: normalizePolicyIdToAccountLabel_def assertAccountLabel_Inr DEFAULT_ACCOUNT_LABEL_def)
  then show ?thesis using m policy_label_pattern by blast
qed

theorem policy_mapping_injective_witness:
  "\<exists>labels. mapPolicyIdsToAccountLabels [''COD-01'', ''2nd''] = Inr labels \<and> dom labels = {''COD-01'', ''2nd''}"
proof -
  have "succeeds (mapPolicyIdsToAccountLabels [''COD-01'', ''2nd''])" by code_simp
  then obtain labels where ok: "mapPolicyIdsToAccountLabels [''COD-01'', ''2nd''] = Inr labels"
    by (auto simp: succeeds_iff)
  show ?thesis using policy_mapping_injective [OF ok] ok by auto
qed

end
