(* ===== verification/Router.thy ===== *)
theory Router
  imports Schema Accounts
begin

text \<open>
  Model routing: the ladder of src/routing/router.ts, which chooses a model for a request
  or checkpoints, and the account pool and context continuity of
  src/routing/subscription-accounts.ts, which sit beneath it. Capacity keys that do not
  parse throw, so the operations that parse keys have a result. The free-text reasons of a
  decision are kept as the data they render.
\<close>

section \<open>Models and providers\<close>

record model_state =
  ms_modelRef :: string
  ms_routingClass :: routing_class
  ms_visible :: bool
  ms_authenticated :: bool
  ms_availability :: model_availability
  ms_retryEligible :: bool
  ms_billingMode :: billing_mode
  ms_prohibited :: bool
  ms_prohibitedReason :: "string option"

record provider_info =
  pi_name :: string
  pi_executable :: "string option"
  pi_version :: "string option"
  pi_installed :: bool
  pi_models :: "model_state list"

datatype risk_level = Risk_normal | Risk_high | Risk_security_sensitive

datatype effort = Effort_low | Effort_medium | Effort_high

datatype target_class = Tgt_fable | Tgt_opus | Tgt_sonnet

record routing_request =
  rq_purpose :: run_purpose
  rq_complexity :: task_complexity
  rq_riskLevel :: "risk_level option"
  rq_implementedByProvider :: "string option"
  rq_repairAttempts :: "int option"
  rq_approvedPaidUsage :: "string option"
  rq_targetClass :: "target_class option"

record candidate =
  cd_provider :: string
  cd_model :: model_state

datatype route_reason =
    Reason_included run_purpose task_complexity risk_level routing_class effort string string routing_class billing_mode
  | Reason_paid_approved routing_class string string billing_mode string

datatype checkpoint_reason =
    Only_paid_options routing_class run_purpose bool
  | No_usable_model routing_class run_purpose

record route_choice =
  rc_provider :: string
  rc_modelRef :: string
  rc_routingClass :: routing_class
  rc_billingMode :: billing_mode
  rc_effort :: effort
  rc_reason :: route_reason
  rc_paidUsageDecisionId :: "string option"

datatype routing_decision =
    Route route_choice
  | Checkpoint checkpoint_reason "candidate list"

definition FREE_BILLING :: billing_mode where
  "FREE_BILLING = Bill_subscription_included"

fun LADDERS :: "routing_class \<Rightarrow> routing_class list" where
  "LADDERS Cls_fable = [Cls_fable, Cls_opus, Cls_codex, Cls_sonnet]"
| "LADDERS Cls_opus = [Cls_opus, Cls_fable, Cls_codex, Cls_sonnet]"
| "LADDERS Cls_sonnet = [Cls_sonnet, Cls_codex, Cls_opus, Cls_fable]"
| "LADDERS Cls_codex = [Cls_codex, Cls_opus, Cls_sonnet, Cls_fable]"
| "LADDERS Cls_unknown = []"

fun class_of_target :: "target_class \<Rightarrow> routing_class" where
  "class_of_target Tgt_fable = Cls_fable"
| "class_of_target Tgt_opus = Cls_opus"
| "class_of_target Tgt_sonnet = Cls_sonnet"

fun escalate :: "target_class \<Rightarrow> target_class" where
  "escalate Tgt_sonnet = Tgt_opus"
| "escalate Tgt_opus = Tgt_fable"
| "escalate Tgt_fable = Tgt_fable"

definition escalations :: "routing_request \<Rightarrow> nat" where
  "escalations rq = nat (min 2 ((case rq_repairAttempts rq of None \<Rightarrow> 0 | Some k \<Rightarrow> k) div 2))"

definition base_target :: "routing_request \<Rightarrow> target_class" where
  "base_target rq =
     (case rq_targetClass rq of
        Some t \<Rightarrow> t
      | None \<Rightarrow>
          if rq_riskLevel rq = Some Risk_security_sensitive \<or> rq_riskLevel rq = Some Risk_high then Tgt_opus
          else if rq_complexity rq = Cx_architectural then Tgt_fable
          else if rq_complexity rq = Cx_complex then
            (if rq_purpose rq = Pur_analysis \<or> rq_purpose rq = Pur_implementation then Tgt_fable else Tgt_opus)
          else Tgt_sonnet)"

definition targetClass :: "routing_request \<Rightarrow> target_class" where
  "targetClass rq = (escalate ^^ escalations rq) (base_target rq)"

definition risk_or_normal :: "routing_request \<Rightarrow> risk_level" where
  "risk_or_normal rq = (case rq_riskLevel rq of None \<Rightarrow> Risk_normal | Some r \<Rightarrow> r)"

definition effortFor :: "routing_request \<Rightarrow> effort" where
  "effortFor rq =
     (if rq_purpose rq = Pur_review \<or> risk_or_normal rq \<noteq> Risk_normal then Effort_high
      else (case targetClass rq of Tgt_fable \<Rightarrow> Effort_high | Tgt_sonnet \<Rightarrow> Effort_low | Tgt_opus \<Rightarrow> Effort_medium))"

definition usable_model :: "model_state \<Rightarrow> bool" where
  "usable_model m =
     (ms_visible m \<and> ms_authenticated m \<and> \<not> ms_prohibited m
      \<and> (ms_availability m = Av_available \<or> ms_retryEligible m) \<and> ms_billingMode m \<noteq> Bill_unknown)"

definition usable :: "candidate \<Rightarrow> bool" where
  "usable c = usable_model (cd_model c)"

definition collectCandidates :: "provider_info list \<Rightarrow> candidate list" where
  "collectCandidates providers =
     concat (map (\<lambda>p. map (\<lambda>m. \<lparr>cd_provider = pi_name p, cd_model = m\<rparr>) (pi_models p)) providers)"

section \<open>The ladder\<close>

text \<open>
  The two nested loops: \<open>pick_rung\<close> runs over the candidates for one class and stops at the
  first free one; \<open>pick_ladder\<close> runs over the classes. Paid candidates met on the way are
  collected in order.
\<close>

definition eligible :: "routing_class \<Rightarrow> routing_request \<Rightarrow> bool \<Rightarrow> candidate \<Rightarrow> bool" where
  "eligible cls rq preserveCodex c =
     (ms_routingClass (cd_model c) = cls \<and> usable c
      \<and> \<not> (preserveCodex \<and> ms_routingClass (cd_model c) = Cls_codex \<and> rq_purpose rq \<noteq> Pur_review))"

fun pick_rung ::
  "routing_class \<Rightarrow> routing_request \<Rightarrow> bool \<Rightarrow> candidate list \<Rightarrow> candidate list
     \<Rightarrow> candidate option \<times> candidate list" where
  "pick_rung cls rq preserve [] paid = (None, paid)"
| "pick_rung cls rq preserve (c # cs) paid =
     (if \<not> eligible cls rq preserve c then pick_rung cls rq preserve cs paid
      else if ms_billingMode (cd_model c) = FREE_BILLING then (Some c, paid)
      else pick_rung cls rq preserve cs (paid @ [c]))"

fun pick_ladder ::
  "routing_class list \<Rightarrow> candidate list \<Rightarrow> routing_request \<Rightarrow> bool \<Rightarrow> candidate list
     \<Rightarrow> candidate option \<times> candidate list" where
  "pick_ladder [] cs rq preserve paid = (None, paid)"
| "pick_ladder (cls # ladder) cs rq preserve paid =
     (case pick_rung cls rq preserve cs paid of
        (Some c, paid') \<Rightarrow> (Some c, paid')
      | (None, paid') \<Rightarrow> pick_ladder ladder cs rq preserve paid')"

definition pickFromLadder ::
  "routing_class list \<Rightarrow> candidate list \<Rightarrow> routing_request \<Rightarrow> bool \<Rightarrow> candidate option \<times> candidate list" where
  "pickFromLadder ladder cs rq preserve = pick_ladder ladder cs rq preserve []"

text \<open>Filtering by a parsed key: the first key that does not parse throws.\<close>

fun filter_keys :: "(string \<Rightarrow> bool) \<Rightarrow> ('a \<Rightarrow> string) \<Rightarrow> 'a list \<Rightarrow> 'a list account_result" where
  "filter_keys P key [] = Inr []"
| "filter_keys P key (x # xs) =
     rbind (parseCapacityKey (key x)) (\<lambda>(providerName, _).
     rbind (filter_keys P key xs) (\<lambda>ys. Inr (if P providerName then x # ys else ys)))"

definition review_ladder :: "routing_class list" where
  "review_ladder = [Cls_codex, Cls_opus, Cls_fable, Cls_sonnet]"

definition route_target :: "routing_request \<Rightarrow> routing_class" where
  "route_target rq = (if rq_purpose rq = Pur_review then Cls_codex else class_of_target (targetClass rq))"

definition route_ladder :: "routing_request \<Rightarrow> routing_class list" where
  "route_ladder rq = (if rq_purpose rq = Pur_review then review_ladder else LADDERS (route_target rq))"

definition nonempty_text :: "string option \<Rightarrow> string option" where
  "nonempty_text s = (case s of Some [] \<Rightarrow> None | _ \<Rightarrow> s)"

text \<open>The pool: for a review, the candidates of other providers when they offer a free model.\<close>

definition route_pool :: "routing_request \<Rightarrow> candidate list \<Rightarrow> bool \<Rightarrow> candidate list account_result" where
  "route_pool rq cs preserve =
     (case (if rq_purpose rq = Pur_review then nonempty_text (rq_implementedByProvider rq) else None) of
        None \<Rightarrow> Inr cs
      | Some implementer \<Rightarrow>
          rbind (parseCapacityKey implementer) (\<lambda>(implementedBy, _).
          rbind (filter_keys (\<lambda>n. n \<noteq> implementedBy) cd_provider cs) (\<lambda>independent.
            Inr (case pickFromLadder (route_ladder rq) independent rq preserve of
                   (Some _, _) \<Rightarrow> independent | (None, _) \<Rightarrow> cs))))"

definition choice_of ::
  "routing_request \<Rightarrow> candidate \<Rightarrow> route_reason \<Rightarrow> string option \<Rightarrow> route_choice" where
  "choice_of rq c reason decisionId =
     \<lparr>rc_provider = cd_provider c, rc_modelRef = ms_modelRef (cd_model c),
      rc_routingClass = ms_routingClass (cd_model c), rc_billingMode = ms_billingMode (cd_model c),
      rc_effort = effortFor rq, rc_reason = reason, rc_paidUsageDecisionId = decisionId\<rparr>"

definition decide :: "routing_request \<Rightarrow> candidate option \<times> candidate list \<Rightarrow> routing_decision" where
  "decide rq picked =
     (case picked of
        (Some free, _) \<Rightarrow>
          Route (choice_of rq free
            (Reason_included (rq_purpose rq) (rq_complexity rq) (risk_or_normal rq) (route_target rq) (effortFor rq)
               (cd_provider free) (ms_modelRef (cd_model free)) (ms_routingClass (cd_model free))
               (ms_billingMode (cd_model free))) None)
      | (None, paid) \<Rightarrow>
          (case (paid, rq_approvedPaidUsage rq, isCapabilityAvailable Cap_paid_provider_execution) of
             (chosen # _, Some decisionId, True) \<Rightarrow>
               Route (choice_of rq chosen
                 (Reason_paid_approved (route_target rq) (cd_provider chosen) (ms_modelRef (cd_model chosen))
                    (ms_billingMode (cd_model chosen)) decisionId) (Some decisionId))
           | _ \<Rightarrow>
               Checkpoint
                 (if paid \<noteq> []
                  then Only_paid_options (route_target rq) (rq_purpose rq)
                         (isCapabilityAvailable Cap_paid_provider_execution)
                  else No_usable_model (route_target rq) (rq_purpose rq)) paid))"

definition route :: "routing_request \<Rightarrow> provider_info list \<Rightarrow> bool \<Rightarrow> routing_decision account_result" where
  "route rq providers preserveCodexForReview =
     rbind (route_pool rq (collectCandidates providers) preserveCodexForReview) (\<lambda>pool.
       Inr (decide rq (pickFromLadder (route_ladder rq) pool rq preserveCodexForReview)))"

section \<open>The account pool\<close>

definition usableSubscriptionModel :: "model_state \<Rightarrow> bool" where
  "usableSubscriptionModel m =
     (ms_visible m \<and> ms_authenticated m \<and> \<not> ms_prohibited m
      \<and> (ms_availability m = Av_available \<or> ms_retryEligible m) \<and> ms_billingMode m \<noteq> Bill_unknown)"

definition providerHasUsableCapacity :: "provider_info \<Rightarrow> bool" where
  "providerHasUsableCapacity info = list_ex usableSubscriptionModel (pi_models info)"

definition quotaRank :: "provider_info \<Rightarrow> int" where
  "quotaRank info =
     (if list_ex (\<lambda>m. usableSubscriptionModel m \<and> ms_availability m = Av_available) (pi_models info) then 0
      else if list_ex (\<lambda>m. usableSubscriptionModel m \<and> ms_retryEligible m) (pi_models info) then 1
      else 2)"

text \<open>\<open>collate\<close> is \<^verbatim>\<open>String.prototype.localeCompare\<close>, whose collation is the host's.\<close>

definition byQuotaThenName :: "(string \<Rightarrow> string \<Rightarrow> int) \<Rightarrow> provider_info \<Rightarrow> provider_info \<Rightarrow> int" where
  "byQuotaThenName collate left right =
     (let rank = quotaRank left - quotaRank right
      in if rank \<noteq> 0 then rank else collate (pi_name left) (pi_name right))"

definition compareSubscriptionAccounts ::
  "(string \<Rightarrow> string \<Rightarrow> int) \<Rightarrow> provider_info \<Rightarrow> provider_info \<Rightarrow> string option \<Rightarrow> int account_result" where
  "compareSubscriptionAccounts collate left right preferredProvider =
     (case nonempty_text preferredProvider of
        None \<Rightarrow> Inr (byQuotaThenName collate left right)
      | Some preferred \<Rightarrow>
          rbind (parseCapacityKey (pi_name left)) (\<lambda>(l, _).
          rbind (parseCapacityKey (pi_name right)) (\<lambda>(r, _).
            Inr (if l = preferred \<and> r \<noteq> preferred then -1
                 else if r = preferred \<and> l \<noteq> preferred then 1
                 else byQuotaThenName collate left right))))"

text \<open>A stable sort by a comparator: equal elements keep their order.\<close>

fun insert_by :: "('a \<Rightarrow> 'a \<Rightarrow> int) \<Rightarrow> 'a \<Rightarrow> 'a list \<Rightarrow> 'a list" where
  "insert_by cmp x [] = [x]"
| "insert_by cmp x (y # ys) = (if cmp x y \<le> 0 then x # y # ys else y # insert_by cmp x ys)"

definition sort_by :: "('a \<Rightarrow> 'a \<Rightarrow> int) \<Rightarrow> 'a list \<Rightarrow> 'a list" where
  "sort_by cmp xs = foldr (insert_by cmp) xs []"

definition lastCapacityKey ::
  "string option \<Rightarrow> string option \<Rightarrow> string option \<Rightarrow> (string \<rightharpoonup> string) \<Rightarrow> string option account_result" where
  "lastCapacityKey lastCoordinator preferredCoordinator lastAccountLabel hostProviders =
     (case nonempty_text (case lastCoordinator of None \<Rightarrow> preferredCoordinator | Some h \<Rightarrow> Some h) of
        None \<Rightarrow> Inr None
      | Some host \<Rightarrow>
          (case nonempty_text (hostProviders host) of
             None \<Rightarrow> Inr None
           | Some providerName \<Rightarrow>
               rbind (capacityKey providerName
                        (case lastAccountLabel of None \<Rightarrow> DEFAULT_ACCOUNT_LABEL | Some l \<Rightarrow> l))
                 (\<lambda>k. Inr (Some k))))"

datatype pool_reason = Quota_rotation string string bool | Work_failure_rotation string

text \<open>The decision once the siblings of the last account (same provider, another key) are known.\<close>

definition rotate_pool ::
  "(string \<Rightarrow> string \<Rightarrow> int) \<Rightarrow> provider_info list \<Rightarrow> string \<Rightarrow> string \<Rightarrow> int \<Rightarrow> provider_info list
     \<Rightarrow> provider_info list \<times> pool_reason option" where
  "rotate_pool collate providers lastKey providerName consecutiveFailures siblings =
     (let last_unusable = (case find (\<lambda>p. pi_name p = lastKey) providers of
                             None \<Rightarrow> True | Some p \<Rightarrow> \<not> providerHasUsableCapacity p);
          usableSiblings = filter providerHasUsableCapacity siblings
      in if last_unusable \<and> siblings \<noteq> [] then
           (sort_by (byQuotaThenName collate) (if usableSiblings \<noteq> [] then usableSiblings else siblings),
            Some (Quota_rotation lastKey providerName (usableSiblings \<noteq> [])))
         else if consecutiveFailures \<ge> 2 then
           (filter (\<lambda>p. pi_name p \<noteq> lastKey) providers, Some (Work_failure_rotation lastKey))
         else (providers, None))"

definition subscriptionAccountPool ::
  "(string \<Rightarrow> string \<Rightarrow> int) \<Rightarrow> provider_info list \<Rightarrow> string option \<Rightarrow> int
     \<Rightarrow> (provider_info list \<times> pool_reason option) account_result" where
  "subscriptionAccountPool collate providers lastKeyOpt consecutiveFailures =
     (case nonempty_text lastKeyOpt of
        None \<Rightarrow> Inr (providers, None)
      | Some lastKey \<Rightarrow>
          rbind (parseCapacityKey lastKey) (\<lambda>(providerName, _).
          rbind (filter_keys (\<lambda>n. n = providerName) pi_name (filter (\<lambda>p. pi_name p \<noteq> lastKey) providers)) (\<lambda>siblings.
            Inr (rotate_pool collate providers lastKey providerName consecutiveFailures siblings))))"

section \<open>Context continuity\<close>

datatype provider_host = Host_claude | Host_codex | Host_cursor | Host_antigravity

fun host_name :: "provider_host \<Rightarrow> string" where
  "host_name Host_claude = ''claude''"
| "host_name Host_codex = ''codex''"
| "host_name Host_cursor = ''cursor''"
| "host_name Host_antigravity = ''antigravity''"

text \<open>\<open>on_host\<close>: whether \<^verbatim>\<open>configuredExecutionPath()\<close> is host (an environment setting).\<close>

fun providerSupportsVendorResume :: "bool \<Rightarrow> provider_host \<Rightarrow> bool" where
  "providerSupportsVendorResume on_host Host_cursor = True"
| "providerSupportsVendorResume on_host Host_antigravity = True"
| "providerSupportsVendorResume on_host Host_claude = False"
| "providerSupportsVendorResume on_host Host_codex = on_host"

record continuity_input =
  ci_lastCoordinator :: "string option"
  ci_lastAccountLabel :: "string option"
  ci_lastSessionRef :: "string option"
  ci_lastSummary :: "string option"
  ci_nextHost :: provider_host
  ci_nextAccountLabel :: string

datatype prompt_block =
    Resuming_session string
  | Same_account_summary string
  | Other_account_summary string string string
  | First_hop

record continuity =
  cn_resumeSessionRef :: "string option"
  cn_promptBlock :: prompt_block

definition contextContinuity :: "bool \<Rightarrow> continuity_input \<Rightarrow> continuity" where
  "contextContinuity on_host i =
     (let previousAccount = (case ci_lastAccountLabel i of None \<Rightarrow> DEFAULT_ACCOUNT_LABEL | Some l \<Rightarrow> l);
          previousSlot = (case ci_lastCoordinator i of None \<Rightarrow> ''unassigned'' | Some c \<Rightarrow> c) @ ''/'' @ previousAccount;
          nextSlot = host_name (ci_nextHost i) @ ''/'' @ ci_nextAccountLabel i;
          sameAccount = (ci_lastCoordinator i = Some (host_name (ci_nextHost i))
                         \<and> previousAccount = ci_nextAccountLabel i);
          resume = (if sameAccount \<and> nonempty_text (ci_lastSessionRef i) \<noteq> None
                       \<and> providerSupportsVendorResume on_host (ci_nextHost i)
                    then ci_lastSessionRef i else None);
          summary = nonempty_text (map_option js_trim (ci_lastSummary i))
      in \<lparr>cn_resumeSessionRef = resume,
          cn_promptBlock = (if resume \<noteq> None then Resuming_session nextSlot
             else (case summary of
                     Some s \<Rightarrow> if sameAccount then Same_account_summary s
                               else Other_account_summary previousSlot nextSlot s
                   | None \<Rightarrow> First_hop))\<rparr>)"

section \<open>What the router may choose\<close>

definition free_for :: "routing_class \<Rightarrow> routing_request \<Rightarrow> bool \<Rightarrow> candidate \<Rightarrow> bool" where
  "free_for cls rq preserve c \<longleftrightarrow> eligible cls rq preserve c \<and> ms_billingMode (cd_model c) = FREE_BILLING"

definition paid_for :: "routing_class \<Rightarrow> routing_request \<Rightarrow> bool \<Rightarrow> candidate \<Rightarrow> bool" where
  "paid_for cls rq preserve c \<longleftrightarrow> eligible cls rq preserve c \<and> ms_billingMode (cd_model c) \<noteq> FREE_BILLING"

lemma pick_rung_fst: "fst (pick_rung cls rq pr cs paid) = find (free_for cls rq pr) cs"
  by (induction cls rq pr cs paid rule: pick_rung.induct) (auto simp: free_for_def)

lemma pick_rung_snd:
  "c \<in> set (snd (pick_rung cls rq pr cs paid)) \<Longrightarrow> c \<in> set paid \<or> c \<in> set cs \<and> paid_for cls rq pr c"
  by (induction cls rq pr cs paid rule: pick_rung.induct) (auto simp: paid_for_def split: if_splits)

lemma pick_ladder_Some:
  "pick_ladder ladder cs rq pr paid = (Some c, paid') \<Longrightarrow>
     \<exists>pre cls post. ladder = pre @ cls # post \<and> c \<in> set cs \<and> free_for cls rq pr c
       \<and> (\<forall>k \<in> set pre. \<forall>x \<in> set cs. \<not> free_for k rq pr x)"
proof (induction ladder arbitrary: paid)
  case (Cons cls ladder)
  obtain r p where rp: "pick_rung cls rq pr cs paid = (r, p)" by (rule prod.exhaust)
  then have r: "r = find (free_for cls rq pr) cs" using pick_rung_fst [of cls rq pr cs paid] by simp
  show ?case
  proof (cases r)
    case None
    then have "\<forall>x \<in> set cs. \<not> free_for cls rq pr x" using r find_NoneD by metis
    moreover have m: "pick_ladder ladder cs rq pr p = (Some c, paid')" using Cons.prems rp None by simp
    from Cons.IH [OF m] obtain pre k post where "ladder = pre @ k # post" "c \<in> set cs"
        "free_for k rq pr c" "\<forall>k \<in> set pre. \<forall>x \<in> set cs. \<not> free_for k rq pr x"
      by blast
    ultimately show ?thesis by (intro exI [of _ "cls # pre"] exI [of _ k] exI [of _ post]) simp
  next
    case (Some x)
    then have "x = c" using Cons.prems rp by simp
    then have "c \<in> set cs" "free_for cls rq pr c" using r Some find_SomeD by metis+
    then show ?thesis by (intro exI [of _ "[]"] exI [of _ cls] exI [of _ ladder]) simp
  qed
qed simp

lemma pick_ladder_None:
  "pick_ladder ladder cs rq pr paid = (None, paid') \<Longrightarrow>
     (\<forall>k \<in> set ladder. \<forall>x \<in> set cs. \<not> free_for k rq pr x)
     \<and> (\<forall>c \<in> set paid'. c \<in> set paid \<or> c \<in> set cs \<and> (\<exists>k \<in> set ladder. paid_for k rq pr c))"
proof (induction ladder arbitrary: paid)
  case (Cons cls ladder)
  obtain r p where rp: "pick_rung cls rq pr cs paid = (r, p)" by (rule prod.exhaust)
  then have r: "r = find (free_for cls rq pr) cs" using pick_rung_fst [of cls rq pr cs paid] by simp
  have "r = None"
  proof (rule ccontr)
    assume "r \<noteq> None"
    then show False using Cons.prems rp by auto
  qed
  from \<open>r = None\<close> have "\<forall>x \<in> set cs. \<not> free_for cls rq pr x" using r find_NoneD by metis
  moreover have "pick_ladder ladder cs rq pr p = (None, paid')" using Cons.prems rp \<open>r = None\<close> by simp
  moreover have "\<forall>c \<in> set p. c \<in> set paid \<or> c \<in> set cs \<and> paid_for cls rq pr c"
    using pick_rung_snd [of _ cls rq pr cs paid] rp by simp
  ultimately show ?case using Cons.IH [of p] by auto
qed simp

lemma route_Inr:
  assumes "route rq providers pr = Inr dec"
  obtains pool where "route_pool rq (collectCandidates providers) pr = Inr pool"
    "dec = decide rq (pickFromLadder (route_ladder rq) pool rq pr)"
  using assms by (auto simp: route_def rbind_eq_Inr)

lemma filter_keys_Inr:
  "filter_keys P key xs = Inr ys \<Longrightarrow>
     set ys = {x \<in> set xs. \<exists>n l. parseCapacityKey (key x) = Inr (n, l) \<and> P n}
     \<and> (\<forall>x \<in> set xs. \<exists>n l. parseCapacityKey (key x) = Inr (n, l))"
proof (induction xs arbitrary: ys)
  case (Cons x xs)
  then obtain n l zs where "parseCapacityKey (key x) = Inr (n, l)" "filter_keys P key xs = Inr zs"
      "ys = (if P n then x # zs else zs)"
    by (auto simp: rbind_eq_Inr)
  then show ?case using Cons.IH by auto
qed simp

lemma route_pool_subset:
  assumes "route_pool rq cs pr = Inr pool"
  shows "set pool \<subseteq> set cs"
proof (cases "if rq_purpose rq = Pur_review then nonempty_text (rq_implementedByProvider rq) else None")
  case None
  then show ?thesis using assms by (simp add: route_pool_def)
next
  case (Some i)
  then obtain n l ind where "parseCapacityKey i = Inr (n, l)" "filter_keys (\<lambda>m. m \<noteq> n) cd_provider cs = Inr ind"
      "pool = (case pickFromLadder (route_ladder rq) ind rq pr of (Some _, _) \<Rightarrow> ind | (None, _) \<Rightarrow> cs)"
    using assms by (auto simp: route_pool_def rbind_eq_Inr)
  then show ?thesis using filter_keys_Inr by (fastforce split: prod.splits option.splits)
qed

lemma decide_Route:
  assumes "decide rq picked = Route ch"
  obtains (free) c where "fst picked = Some c" "rc_provider ch = cd_provider c"
      "rc_modelRef ch = ms_modelRef (cd_model c)" "rc_billingMode ch = ms_billingMode (cd_model c)"
      "rc_routingClass ch = ms_routingClass (cd_model c)" "rc_paidUsageDecisionId ch = None"
    | (paid) c rest i where "fst picked = None" "snd picked = c # rest" "rq_approvedPaidUsage rq = Some i"
      "rc_provider ch = cd_provider c"
      "rc_modelRef ch = ms_modelRef (cd_model c)" "rc_billingMode ch = ms_billingMode (cd_model c)"
      "rc_routingClass ch = ms_routingClass (cd_model c)" "rc_paidUsageDecisionId ch = Some i"
  using assms
  by (cases picked) (auto simp: decide_def choice_of_def split: option.splits list.splits bool.splits)

lemma route_allowed:
  assumes "route rq providers pr = Inr (Route ch)"
  shows "\<exists>c \<in> set (collectCandidates providers). \<exists>pool.
     rc_provider ch = cd_provider c \<and> rc_modelRef ch = ms_modelRef (cd_model c)
     \<and> rc_billingMode ch = ms_billingMode (cd_model c)
     \<and> usable c \<and> ms_billingMode (cd_model c) \<noteq> Bill_unknown
     \<and> ms_routingClass (cd_model c) \<in> set (route_ladder rq)
     \<and> route_pool rq (collectCandidates providers) pr = Inr pool
     \<and> ((rc_billingMode ch = Bill_subscription_included \<and> rc_paidUsageDecisionId ch = None)
        \<or> (rc_billingMode ch \<noteq> Bill_subscription_included \<and> rq_approvedPaidUsage rq \<noteq> None
            \<and> rc_paidUsageDecisionId ch = rq_approvedPaidUsage rq
            \<and> (\<forall>k \<in> set (route_ladder rq). \<forall>x \<in> set pool. \<not> free_for k rq pr x)))"
proof -
  obtain pool where pool: "route_pool rq (collectCandidates providers) pr = Inr pool"
    and dec: "decide rq (pickFromLadder (route_ladder rq) pool rq pr) = Route ch"
    using route_Inr [OF assms] by metis
  have sub: "set pool \<subseteq> set (collectCandidates providers)" by (rule route_pool_subset [OF pool])
  obtain r p where rp: "pickFromLadder (route_ladder rq) pool rq pr = (r, p)" by (rule prod.exhaust)
  show ?thesis
    using dec
  proof (cases rule: decide_Route)
    case (free c)
    then have "pick_ladder (route_ladder rq) pool rq pr [] = (Some c, p)" using rp by (simp add: pickFromLadder_def)
    from pick_ladder_Some [OF this] obtain pre cls post where "route_ladder rq = pre @ cls # post"
        and in_pool: "c \<in> set pool" and fr: "free_for cls rq pr c" by blast
    then have cls: "cls \<in> set (route_ladder rq)" "c \<in> set pool" "free_for cls rq pr c" by simp_all
    then have "usable c" "ms_routingClass (cd_model c) = cls" "ms_billingMode (cd_model c) = Bill_subscription_included"
      by (simp_all add: free_for_def eligible_def FREE_BILLING_def)
    then show ?thesis using free cls(1,2) sub pool
      by (intro bexI [of _ c] exI [of _ pool]) auto
  next
    case (paid c rest i)
    then have "pick_ladder (route_ladder rq) pool rq pr [] = (None, p)" "c \<in> set p"
      using rp by (auto simp: pickFromLadder_def)
    with pick_ladder_None [OF this(1)] obtain cls where cls: "cls \<in> set (route_ladder rq)" "c \<in> set pool"
        "paid_for cls rq pr c" and none: "\<forall>k \<in> set (route_ladder rq). \<forall>x \<in> set pool. \<not> free_for k rq pr x"
      by auto
    then have "usable c" "ms_routingClass (cd_model c) = cls" "ms_billingMode (cd_model c) \<noteq> Bill_subscription_included"
      by (simp_all add: paid_for_def eligible_def FREE_BILLING_def)
    then show ?thesis using paid cls(1,2) none sub pool
      by (intro bexI [of _ c] exI [of _ pool]) (auto simp: usable_def usable_model_def)
  qed
qed

text \<open>
  A route is always allowed: it names a listed model that is visible, authenticated, not
  prohibited, available (or eligible for a retry) and of known billing, on a class of the
  ladder. Either the model is included in a subscription and no paid decision is cited, or
  the request carries an approval, the route cites exactly it, and no free candidate of the
  pool was eligible on any class of the ladder.
\<close>

theorem route_is_allowed:
  assumes "route rq providers pr = Inr (Route ch)"
  shows "\<exists>c \<in> set (collectCandidates providers). \<exists>pool.
     rc_provider ch = cd_provider c \<and> rc_modelRef ch = ms_modelRef (cd_model c)
     \<and> rc_billingMode ch = ms_billingMode (cd_model c)
     \<and> usable c \<and> ms_billingMode (cd_model c) \<noteq> Bill_unknown
     \<and> ms_routingClass (cd_model c) \<in> set (route_ladder rq)
     \<and> route_pool rq (collectCandidates providers) pr = Inr pool
     \<and> ((rc_billingMode ch = Bill_subscription_included \<and> rc_paidUsageDecisionId ch = None)
        \<or> (rc_billingMode ch \<noteq> Bill_subscription_included \<and> rq_approvedPaidUsage rq \<noteq> None
            \<and> rc_paidUsageDecisionId ch = rq_approvedPaidUsage rq
            \<and> (\<forall>k \<in> set (route_ladder rq). \<forall>x \<in> set pool. \<not> free_for k rq pr x)))"
  by (rule route_allowed [OF assms])

definition sample_model :: "string \<Rightarrow> routing_class \<Rightarrow> billing_mode \<Rightarrow> model_state" where
  "sample_model ref cls bill = \<lparr>ms_modelRef = ref, ms_routingClass = cls, ms_visible = True, ms_authenticated = True,
     ms_availability = Av_available, ms_retryEligible = False, ms_billingMode = bill, ms_prohibited = False,
     ms_prohibitedReason = None\<rparr>"

definition sample_request :: "run_purpose \<Rightarrow> string option \<Rightarrow> routing_request" where
  "sample_request pur impl = \<lparr>rq_purpose = pur, rq_complexity = Cx_bounded, rq_riskLevel = None,
     rq_implementedByProvider = impl, rq_repairAttempts = None, rq_approvedPaidUsage = None, rq_targetClass = None\<rparr>"

definition sample_account :: "string \<Rightarrow> model_state list \<Rightarrow> provider_info" where
  "sample_account n ms = \<lparr>pi_name = n, pi_executable = None, pi_version = None, pi_installed = True, pi_models = ms\<rparr>"

definition sample_fleet :: "provider_info list" where
  "sample_fleet = [sample_account ''codex#work'' [sample_model ''gpt'' Cls_codex Bill_subscription_included],
     sample_account ''claude-code'' [sample_model ''opus'' Cls_opus Bill_subscription_included]]"

theorem route_is_allowed_witness:
  "\<exists>ch c. route (sample_request Pur_implementation None) sample_fleet False = Inr (Route ch)
     \<and> c \<in> set (collectCandidates sample_fleet) \<and> usable c \<and> rc_provider ch = cd_provider c"
proof -
  have "case route (sample_request Pur_implementation None) sample_fleet False of Inr (Route _) \<Rightarrow> True | _ \<Rightarrow> False"
    by code_simp
  then obtain ch where ok: "route (sample_request Pur_implementation None) sample_fleet False = Inr (Route ch)"
    by (auto split: sum.splits routing_decision.splits)
  show ?thesis using route_is_allowed [OF ok] ok by blast
qed

text \<open>
  Reviews are independent whenever they can be: if any candidate of a provider other than
  the implementer offers an eligible subscription model, the route of the review goes to a
  provider other than the implementer, whatever account labels the keys carry.
\<close>

theorem review_is_independent:
  assumes "rq_purpose rq = Pur_review" and "rq_implementedByProvider rq = Some impl" and "impl \<noteq> []"
    and "parseCapacityKey impl = Inr (n, l)"
    and "c \<in> set (collectCandidates providers)" and "parseCapacityKey (cd_provider c) = Inr (m, k)" and "m \<noteq> n"
    and "usable c" and "ms_billingMode (cd_model c) = Bill_subscription_included"
    and "ms_routingClass (cd_model c) \<noteq> Cls_unknown"
    and "route rq providers pr = Inr (Route ch)"
  shows "\<exists>m' k'. parseCapacityKey (rc_provider ch) = Inr (m', k') \<and> m' \<noteq> n"
proof -
  let ?cs = "collectCandidates providers" and ?lad = "route_ladder rq"
  obtain pool where pool: "route_pool rq ?cs pr = Inr pool"
    and dec: "decide rq (pickFromLadder ?lad pool rq pr) = Route ch"
    using route_Inr [OF assms(11)] by metis
  have ne: "nonempty_text (Some impl) = Some impl" using assms(3) by (cases impl) (simp_all add: nonempty_text_def)
  obtain ind where ind: "filter_keys (\<lambda>x. x \<noteq> n) cd_provider ?cs = Inr ind"
    and p: "pool = (case pickFromLadder ?lad ind rq pr of (Some _, _) \<Rightarrow> ind | (None, _) \<Rightarrow> ?cs)"
    using pool assms(1,2,4) ne by (auto simp: route_pool_def rbind_eq_Inr)
  have c: "c \<in> set ind" using filter_keys_Inr [OF ind] assms(5-7) by auto
  have lad: "ms_routingClass (cd_model c) \<in> set ?lad"
    using assms(1,10) by (cases "ms_routingClass (cd_model c)") (simp_all add: route_ladder_def review_ladder_def)
  have free: "free_for (ms_routingClass (cd_model c)) rq pr c"
    using assms(1,8,9) by (simp add: free_for_def eligible_def FREE_BILLING_def)
  obtain r q where rq: "pickFromLadder ?lad ind rq pr = (r, q)" by (rule prod.exhaust)
  have "r \<noteq> None"
    using pick_ladder_None [of ?lad ind rq pr "[]" q] rq lad free c by (auto simp: pickFromLadder_def)
  then obtain x where x: "r = Some x" by blast
  then have "pool = ind" using p rq by simp
  then have "decide rq (Some x, q) = Route ch" using dec rq x by simp
  then have ch: "rc_provider ch = cd_provider x" by (auto simp: decide_def choice_of_def)
  have "pick_ladder ?lad ind rq pr [] = (Some x, q)" using rq x by (simp add: pickFromLadder_def)
  then have "x \<in> set ind" using pick_ladder_Some by blast
  then show ?thesis using filter_keys_Inr [OF ind] ch by auto
qed

theorem review_is_independent_witness:
  "\<exists>ch m k. route (sample_request Pur_review (Some ''codex'')) sample_fleet False = Inr (Route ch)
     \<and> parseCapacityKey (rc_provider ch) = Inr (m, k) \<and> m \<noteq> ''codex''"
proof -
  let ?rq = "sample_request Pur_review (Some ''codex'')"
  let ?c = "\<lparr>cd_provider = ''claude-code'', cd_model = sample_model ''opus'' Cls_opus Bill_subscription_included\<rparr>"
  have "case route ?rq sample_fleet False of Inr (Route _) \<Rightarrow> True | _ \<Rightarrow> False" by code_simp
  then obtain ch where ok: "route ?rq sample_fleet False = Inr (Route ch)"
    by (auto split: sum.splits routing_decision.splits)
  have h: "rq_purpose ?rq = Pur_review" "rq_implementedByProvider ?rq = Some ''codex''" "''codex'' \<noteq> []"
    "parseCapacityKey ''codex'' = Inr (''codex'', ''default'')" "?c \<in> set (collectCandidates sample_fleet)"
    "parseCapacityKey (cd_provider ?c) = Inr (''claude-code'', ''default'')" "''claude-code'' \<noteq> ''codex''"
    "usable ?c" "ms_billingMode (cd_model ?c) = Bill_subscription_included" "ms_routingClass (cd_model ?c) \<noteq> Cls_unknown"
    by (simp_all add: sample_request_def sample_model_def sample_fleet_def sample_account_def collectCandidates_def usable_def
        usable_model_def parseCapacityKey_def SEPARATOR_def DEFAULT_ACCOUNT_LABEL_def)
  show ?thesis using review_is_independent [OF h ok] ok by blast
qed

section \<open>Rotation stays inside its bounds\<close>

lemma set_insert_by [simp]: "set (insert_by cmp x ys) = insert x (set ys)"
  by (induction ys) auto

lemma set_sort_by [simp]: "set (sort_by cmp xs) = set xs"
  by (induction xs) (auto simp: sort_by_def)

lemma usable_models_agree: "usableSubscriptionModel = usable_model"
  by (rule ext) (simp add: usableSubscriptionModel_def usable_model_def)

lemma rotate_pool_cases:
  assumes "rotate_pool collate providers key n failures sib = (pool, why)"
  obtains (quota) "sib \<noteq> []"
      "pool = sort_by (byQuotaThenName collate)
         (if filter providerHasUsableCapacity sib \<noteq> [] then filter providerHasUsableCapacity sib else sib)"
      "why = Some (Quota_rotation key n (filter providerHasUsableCapacity sib \<noteq> []))"
    | (failure) "2 \<le> failures" "pool = filter (\<lambda>p. pi_name p \<noteq> key) providers" "why = Some (Work_failure_rotation key)"
    | (all) "pool = providers" "why = None"
proof -
  define lost where "lost = (case find (\<lambda>p. pi_name p = key) providers of
      None \<Rightarrow> True | Some p \<Rightarrow> \<not> providerHasUsableCapacity p)"
  define us where "us = filter providerHasUsableCapacity sib"
  have eq: "(pool, why) = (if lost \<and> sib \<noteq> [] then
      (sort_by (byQuotaThenName collate) (if us \<noteq> [] then us else sib), Some (Quota_rotation key n (us \<noteq> [])))
      else if 2 \<le> failures then (filter (\<lambda>p. pi_name p \<noteq> key) providers, Some (Work_failure_rotation key))
      else (providers, None))"
    using assms unfolding rotate_pool_def Let_def lost_def us_def by (rule sym)
  show ?thesis
  proof (cases "lost \<and> sib \<noteq> []")
    case True
    with eq have "pool = sort_by (byQuotaThenName collate) (if us \<noteq> [] then us else sib)"
        "why = Some (Quota_rotation key n (us \<noteq> []))" by simp_all
    with True show ?thesis unfolding us_def by (intro quota) simp_all
  next
    case F: False
    show ?thesis
    proof (cases "2 \<le> failures")
      case True
      with eq F have "pool = filter (\<lambda>p. pi_name p \<noteq> key) providers" "why = Some (Work_failure_rotation key)"
        by simp_all
      with True show ?thesis by (intro failure)
    next
      case False
      with eq F have "pool = providers" "why = None" by simp_all
      then show ?thesis by (rule all)
    qed
  qed
qed

text \<open>
  Quota rotation never leaves the provider and never invents capacity: the pool is a part
  of the listed providers; when the pool was rotated for quota, it consists of sibling
  accounts of the same provider, without the exhausted account, all of them usable if any
  sibling is; and a pool that was not rotated for quota keeps every provider except, after
  two work failures, the last account.
\<close>

theorem account_pool_bounds:
  assumes "subscriptionAccountPool collate providers (Some key) failures = Inr (pool, why)"
    and "key \<noteq> []" and "parseCapacityKey key = Inr (n, l)"
  shows "set pool \<subseteq> set providers
    \<and> (\<forall>k m b. why = Some (Quota_rotation k m b) \<longrightarrow>
         pool \<noteq> [] \<and> (\<forall>p \<in> set pool. pi_name p \<noteq> key \<and> (\<exists>a. parseCapacityKey (pi_name p) = Inr (n, a)))
         \<and> (b \<longrightarrow> (\<forall>p \<in> set pool. providerHasUsableCapacity p))
         \<and> (\<forall>p \<in> set providers. pi_name p \<noteq> key \<and> (\<exists>a. parseCapacityKey (pi_name p) = Inr (n, a))
              \<and> providerHasUsableCapacity p \<longrightarrow> p \<in> set pool))
    \<and> (why = None \<longrightarrow> pool = providers)
    \<and> (\<forall>k. why = Some (Work_failure_rotation k) \<longrightarrow>
         2 \<le> failures \<and> pool = filter (\<lambda>p. pi_name p \<noteq> key) providers)"
proof -
  have ne: "nonempty_text (Some key) = Some key" using assms(2) by (cases key) (simp_all add: nonempty_text_def)
  have "rbind (filter_keys (\<lambda>x. x = n) pi_name (filter (\<lambda>p. pi_name p \<noteq> key) providers))
      (\<lambda>sib. Inr (rotate_pool collate providers key n failures sib)) = Inr (pool, why)"
    using assms(1) unfolding subscriptionAccountPool_def ne option.case assms(3) rbind_Inr prod.case by simp
  then obtain sib where sib: "filter_keys (\<lambda>x. x = n) pi_name (filter (\<lambda>p. pi_name p \<noteq> key) providers) = Inr sib"
    and pool: "rotate_pool collate providers key n failures sib = (pool, why)"
    unfolding rbind_eq_Inr by blast
  have s: "set sib = {p \<in> set providers. pi_name p \<noteq> key \<and> (\<exists>a. parseCapacityKey (pi_name p) = Inr (n, a))}"
    using filter_keys_Inr [OF sib] by auto
  let ?us = "filter providerHasUsableCapacity sib"
  let ?pool = "if ?us \<noteq> [] then ?us else sib"
  consider (quota) "sib \<noteq> []" "pool = sort_by (byQuotaThenName collate) ?pool" "why = Some (Quota_rotation key n (?us \<noteq> []))"
    | (failure) "2 \<le> failures" "pool = filter (\<lambda>p. pi_name p \<noteq> key) providers" "why = Some (Work_failure_rotation key)"
    | (all) "pool = providers" "why = None"
    using pool by (rule rotate_pool_cases)
  then show ?thesis
  proof cases
    case quota
    have set_pool: "set pool = set ?pool" using quota(2) by simp
    have "pool \<noteq> []" using set_pool quota(1) by (metis list.set_intros(1) neq_Nil_conv empty_iff list.set(1))
    moreover have "set ?pool \<subseteq> set sib" by auto
    moreover have "\<forall>p \<in> set sib. providerHasUsableCapacity p \<longrightarrow> p \<in> set ?pool" by (auto simp: filter_empty_conv)
    moreover have "?us \<noteq> [] \<longrightarrow> (\<forall>p \<in> set ?pool. providerHasUsableCapacity p)" by auto
    ultimately show ?thesis unfolding quota(3) set_pool using s by blast
  qed auto
qed

theorem account_pool_bounds_witness:
  "\<exists>pool why. subscriptionAccountPool (\<lambda>_ _. 0) sample_fleet (Some ''codex'') 0 = Inr (pool, why)
     \<and> pool \<noteq> [] \<and> set pool \<subseteq> set sample_fleet"
proof -
  have k: "''codex'' \<noteq> []" "parseCapacityKey ''codex'' = Inr (''codex'', ''default'')" by (simp, code_simp)
  have "case subscriptionAccountPool (\<lambda>_ _. 0) sample_fleet (Some ''codex'') 0 of Inr (pool, _) \<Rightarrow> pool \<noteq> [] | _ \<Rightarrow> False"
    by code_simp
  then obtain pool why where ok: "subscriptionAccountPool (\<lambda>_ _. 0) sample_fleet (Some ''codex'') 0 = Inr (pool, why)" "pool \<noteq> []"
    by (auto split: sum.splits)
  show ?thesis using account_pool_bounds [OF ok(1) k] ok by blast
qed

text \<open>
  Vendor sessions never cross accounts or hosts: a session is resumed only when the next
  run is on the very host and account of the last one and that host supports resuming, and
  then it is exactly the recorded session.
\<close>

theorem session_never_crosses_accounts:
  assumes "cn_resumeSessionRef (contextContinuity on_host i) = Some ref"
  shows "ci_lastSessionRef i = Some ref \<and> ref \<noteq> [] \<and> ci_lastCoordinator i = Some (host_name (ci_nextHost i))
    \<and> (case ci_lastAccountLabel i of None \<Rightarrow> DEFAULT_ACCOUNT_LABEL | Some l \<Rightarrow> l) = ci_nextAccountLabel i
    \<and> providerSupportsVendorResume on_host (ci_nextHost i) \<and> ci_nextHost i \<noteq> Host_claude"
  using assms
  by (cases "ci_nextHost i") (auto simp: contextContinuity_def Let_def nonempty_text_def split: if_splits)

theorem session_never_crosses_accounts_witness:
  "ci_nextAccountLabel \<lparr>ci_lastCoordinator = Some ''cursor'', ci_lastAccountLabel = None, ci_lastSessionRef = Some ''s'',
       ci_lastSummary = None, ci_nextHost = Host_cursor, ci_nextAccountLabel = ''default''\<rparr> = DEFAULT_ACCOUNT_LABEL"
proof -
  let ?i = "\<lparr>ci_lastCoordinator = Some ''cursor'', ci_lastAccountLabel = None, ci_lastSessionRef = Some ''s'',
       ci_lastSummary = None, ci_nextHost = Host_cursor, ci_nextAccountLabel = ''default''\<rparr>"
  have "cn_resumeSessionRef (contextContinuity True ?i) = Some ''s''" by code_simp
  from session_never_crosses_accounts [OF this] show ?thesis by simp
qed

end
