(* ===== verification/Resources.thy ===== *)
theory Resources
  imports Schema Transition_System
begin

text \<open>
  The lease store of src/supervisor/resources.ts: the capacity limits derived from the host,
  the leases and the queue, their reclamation and promotion, and the fenced operations on
  them. Every operation runs under the lock of the store file, so it is a function on the
  store; an error leaves the file as it was. What the code reads from its process and host
  is the record \<open>host_env\<close>. Sizes are exact rationals where the code has doubles. The texts of
  refusals are kept as the data they render.
\<close>

section \<open>Kinds, limits, leases\<close>

datatype resource_kind = Kind_worker | Kind_browser | Kind_build

definition RESOURCE_KINDS :: "resource_kind list" where
  "RESOURCE_KINDS = [Kind_worker, Kind_browser, Kind_build]"

text \<open>A limit: \<open>None\<close> is positive infinity.\<close>

type_synonym cap = "int option"

definition reaches :: "nat \<Rightarrow> cap \<Rightarrow> bool" where
  "reaches n c = (case c of None \<Rightarrow> False | Some k \<Rightarrow> int n \<ge> k)"

record resource_limits =
  lim_total :: cap
  lim_workers :: cap
  lim_browsers :: cap
  lim_builds :: cap
  lim_maxSubagentDepth :: cap
  lim_softMemoryAvailablePercent :: rat

definition GLOBAL_RESOURCE_LIMITS :: resource_limits where
  "GLOBAL_RESOURCE_LIMITS = \<lparr>lim_total = None, lim_workers = None, lim_browsers = None, lim_builds = None,
     lim_maxSubagentDepth = None, lim_softMemoryAvailablePercent = 25\<rparr>"

text \<open>Times are \<open>None\<close> where the stored text is not a date.\<close>

record resource_lease =
  ls_id :: string
  ls_taskId :: string
  ls_resourceId :: string
  ls_fencingToken :: string
  ls_kind :: resource_kind
  ls_owner :: string
  ls_project :: "string option"
  ls_parentLeaseId :: "string option"
  ls_depth :: int
  ls_pid :: "int option"
  ls_createdAt :: "instant option"
  ls_heartbeatAt :: "instant option"
  ls_ttlMs :: rat
  ls_expiresAt :: "instant option"
  ls_graceMs :: rat
  ls_reclaimAfter :: "instant option"

datatype capacity_reason =
    Below_soft_floor rat rat
  | Global_cap_reached cap
  | Kind_cap_reached resource_kind cap

record queued_request =
  rs_id :: string
  rs_taskId :: string
  rs_resourceId :: string
  rs_fencingToken :: string
  rs_kind :: resource_kind
  rs_owner :: string
  rs_project :: "string option"
  rs_parentLeaseId :: "string option"
  rs_depth :: int
  rs_pid :: "int option"
  rs_ttlMs :: rat
  rs_requestedAt :: "instant option"
  rs_reason :: "capacity_reason option"

record reclaim_telemetry =
  rt_total :: int
  rt_expired :: int
  rt_deadProcess :: int
  rt_lastReclaimedAt :: "instant option"
  rt_lastReclaimedLeaseIds :: "string list"

record resource_store =
  st_leases :: "resource_lease list"
  st_queue :: "queued_request list"
  st_reclaims :: "reclaim_telemetry option"

datatype resource_error =
    Nonpositive_ttl
  | Invalid_store
  | Invalid_time
  | Lease_not_active string
  | Not_the_current_fence string
  | Owns_active_child string
  | Not_the_active_fence resource_kind string
  | Queued_request_gone string
  | Wait_timed_out string

type_synonym 'a lease_result = "(resource_error, 'a) result"

fun DEFAULT_TTL_MS :: "resource_kind \<Rightarrow> rat" where
  "DEFAULT_TTL_MS Kind_worker = 30 * 60 * 1000"
| "DEFAULT_TTL_MS Kind_browser = 15 * 60 * 1000"
| "DEFAULT_TTL_MS Kind_build = 20 * 60 * 1000"

definition RESOURCE_RECLAIM_GRACE_MS :: rat where
  "RESOURCE_RECLAIM_GRACE_MS = 60000"

definition emptyReclaimTelemetry :: reclaim_telemetry where
  "emptyReclaimTelemetry = \<lparr>rt_total = 0, rt_expired = 0, rt_deadProcess = 0, rt_lastReclaimedAt = None,
     rt_lastReclaimedLeaseIds = []\<rparr>"

definition emptyStore :: resource_store where
  "emptyStore = \<lparr>st_leases = [], st_queue = [], st_reclaims = Some emptyReclaimTelemetry\<rparr>"

fun kind_name :: "resource_kind \<Rightarrow> string" where
  "kind_name Kind_worker = ''worker''"
| "kind_name Kind_browser = ''browser''"
| "kind_name Kind_build = ''build''"

definition fallbackTaskId :: "string \<Rightarrow> string" where
  "fallbackTaskId owner = ''legacy:task:'' @ owner"

definition fallbackResourceId :: "resource_kind \<Rightarrow> string option \<Rightarrow> string" where
  "fallbackResourceId kind project =
     ''legacy:resource:'' @ kind_name kind @ '':'' @ (case project of None \<Rightarrow> ''global'' | Some p \<Rightarrow> p)"

definition fallbackFencingToken :: "string \<Rightarrow> string" where
  "fallbackFencingToken i = ''legacy:fence:'' @ i"

text \<open>
  \<^verbatim>\<open>new Date(x).toISOString()\<close>: fractions are cut, and a time outside the range of dates
  (or not finite) is a RangeError.
\<close>

definition js_date :: "rat \<Rightarrow> instant lease_result" where
  "js_date x = (if \<bar>x\<bar> > 8640000000000000 then Inl Invalid_time
     else Inr (if x \<ge> 0 then \<lfloor>x\<rfloor> else - \<lfloor>- x\<rfloor>))"

section \<open>The store file\<close>

text \<open>A stored lease or request, before the fields of earlier releases are completed.\<close>

record raw_lease =
  rl_lease :: resource_lease
  rl_taskId :: "string option"
  rl_resourceId :: "string option"
  rl_fencingToken :: "string option"
  rl_ttlMs :: "js_number option"
  rl_graceMs :: "js_number option"

record raw_request =
  rwr_request :: queued_request
  rwr_taskId :: "string option"
  rwr_resourceId :: "string option"
  rwr_fencingToken :: "string option"

text \<open>The file: absent, or a document whose lists are \<open>None\<close> when they are no arrays.\<close>

record raw_store =
  rw_version :: int
  rw_leases :: "raw_lease list option"
  rw_queue :: "raw_request list option"
  rw_reclaims :: "reclaim_telemetry option"

definition derived_ttl :: "resource_lease \<Rightarrow> rat" where
  "derived_ttl l =
     (case (ls_expiresAt l, ls_heartbeatAt l) of
        (Some e, Some h) \<Rightarrow> max 1 (of_int (e - h))
      | _ \<Rightarrow> DEFAULT_TTL_MS (ls_kind l))"

definition migrated_ttl :: "raw_lease \<Rightarrow> rat" where
  "migrated_ttl r =
     (case rl_ttlMs r of
        Some (Js_finite q) \<Rightarrow> if q > 0 then q else derived_ttl (rl_lease r)
      | _ \<Rightarrow> derived_ttl (rl_lease r))"

definition migrated_grace :: "raw_lease \<Rightarrow> rat" where
  "migrated_grace r =
     (case rl_graceMs r of
        Some (Js_finite q) \<Rightarrow> if q \<ge> 0 then q else RESOURCE_RECLAIM_GRACE_MS
      | _ \<Rightarrow> RESOURCE_RECLAIM_GRACE_MS)"

definition or_default :: "'a option \<Rightarrow> 'a \<Rightarrow> 'a" where
  "or_default x d = (case x of None \<Rightarrow> d | Some y \<Rightarrow> y)"

definition migrate_lease :: "raw_lease \<Rightarrow> resource_lease lease_result" where
  "migrate_lease r =
     (let l = rl_lease r in
      rbind (case ls_reclaimAfter l of
               Some t \<Rightarrow> Inr t
             | None \<Rightarrow> (case ls_expiresAt l of
                          None \<Rightarrow> Inl Invalid_time
                        | Some e \<Rightarrow> js_date (of_int e + migrated_grace r)))
       (\<lambda>t. Inr (l\<lparr>ls_taskId := or_default (rl_taskId r) (fallbackTaskId (ls_owner l)),
                   ls_resourceId := or_default (rl_resourceId r) (fallbackResourceId (ls_kind l) (ls_project l)),
                   ls_fencingToken := or_default (rl_fencingToken r) (fallbackFencingToken (ls_id l)),
                   ls_ttlMs := migrated_ttl r, ls_graceMs := migrated_grace r, ls_reclaimAfter := Some t\<rparr>)))"

definition migrate_request :: "raw_request \<Rightarrow> queued_request" where
  "migrate_request r =
     (let q = rwr_request r in
      q\<lparr>rs_taskId := or_default (rwr_taskId r) (fallbackTaskId (rs_owner q)),
        rs_resourceId := or_default (rwr_resourceId r) (fallbackResourceId (rs_kind q) (rs_project q)),
        rs_fencingToken := or_default (rwr_fencingToken r) (fallbackFencingToken (rs_id q))\<rparr>)"

fun migrate_all :: "('a \<Rightarrow> 'b lease_result) \<Rightarrow> 'a list \<Rightarrow> 'b list lease_result" where
  "migrate_all f [] = Inr []"
| "migrate_all f (x # xs) = rbind (f x) (\<lambda>y. rbind (migrate_all f xs) (\<lambda>ys. Inr (y # ys)))"

definition readStore :: "raw_store option \<Rightarrow> resource_store lease_result" where
  "readStore file =
     (case file of
        None \<Rightarrow> Inr emptyStore
      | Some raw \<Rightarrow>
          if rw_version raw \<noteq> 1 then Inl Invalid_store
          else (case (rw_leases raw, rw_queue raw) of
                  (Some ls, Some qs) \<Rightarrow>
                    rbind (migrate_all migrate_lease ls) (\<lambda>leases.
                      Inr \<lparr>st_leases = leases, st_queue = map migrate_request qs, st_reclaims = rw_reclaims raw\<rparr>)
                | _ \<Rightarrow> Inl Invalid_store))"

definition raw_of_lease :: "resource_lease \<Rightarrow> raw_lease" where
  "raw_of_lease l = \<lparr>rl_lease = l, rl_taskId = Some (ls_taskId l), rl_resourceId = Some (ls_resourceId l),
     rl_fencingToken = Some (ls_fencingToken l), rl_ttlMs = Some (Js_finite (ls_ttlMs l)),
     rl_graceMs = Some (Js_finite (ls_graceMs l))\<rparr>"

definition raw_of_request :: "queued_request \<Rightarrow> raw_request" where
  "raw_of_request q = \<lparr>rwr_request = q, rwr_taskId = Some (rs_taskId q), rwr_resourceId = Some (rs_resourceId q),
     rwr_fencingToken = Some (rs_fencingToken q)\<rparr>"

definition writeStore :: "resource_store \<Rightarrow> raw_store" where
  "writeStore s = \<lparr>rw_version = 1, rw_leases = Some (map raw_of_lease (st_leases s)),
     rw_queue = Some (map raw_of_request (st_queue s)), rw_reclaims = st_reclaims s\<rparr>"

text \<open>Under the lock: read, operate, write; an error writes nothing.\<close>

definition withStoreLock ::
  "(resource_store \<Rightarrow> (resource_store \<times> 'a) lease_result) \<Rightarrow> raw_store option \<Rightarrow> raw_store option \<times> 'a lease_result" where
  "withStoreLock operation file =
     (case rbind (readStore file) operation of
        Inl e \<Rightarrow> (file, Inl e)
      | Inr (s, r) \<Rightarrow> (Some (writeStore s), Inr r))"

section \<open>The host\<close>

text \<open>
  What an operation reads from its process and host: the clock when it prunes and later on,
  which processes are alive, the parsed environment variables (\<open>None\<close> or \<open>Js_nonfinite\<close> where
  \<^verbatim>\<open>parseInt\<close> and \<^verbatim>\<open>parseFloat\<close> give NaN), memory and processors, and the random parts of the
  identifiers it draws.
\<close>

record host_env =
  he_pruneNow :: instant
  he_now :: instant
  he_pidAlive :: "int \<Rightarrow> bool"
  he_memoryOverride :: js_number
  he_systemMemory :: "int option"
  he_freemem :: int
  he_totalmem :: int
  he_parallelism :: int
  he_workerMemoryMb :: "int option"
  he_workerLimit :: "int option"
  he_subagentDepth :: "int option"
  he_leaseId :: "string option"
  he_uuid :: "nat \<Rightarrow> string"

definition availableMemoryPercent :: "host_env \<Rightarrow> rat" where
  "availableMemoryPercent e =
     (case he_memoryOverride e of
        Js_finite q \<Rightarrow> max 0 (min 100 q)
      | Js_nonfinite \<Rightarrow>
          (case he_systemMemory e of
             Some k \<Rightarrow> of_int k
           | None \<Rightarrow> of_int \<lfloor>of_int (he_freemem e) / of_int (he_totalmem e) * 100 + 1 / 2 :: rat\<rfloor>))"

definition WORKER_MEMORY_ESTIMATE_BYTES :: int where
  "WORKER_MEMORY_ESTIMATE_BYTES = 256 * 1024 * 1024"

definition BROWSER_MEMORY_ESTIMATE_BYTES :: int where
  "BROWSER_MEMORY_ESTIMATE_BYTES = 768 * 1024 * 1024"

definition BUILD_MEMORY_ESTIMATE_BYTES :: int where
  "BUILD_MEMORY_ESTIMATE_BYTES = 2048 * 1024 * 1024"

definition envPositiveInt :: "int option \<Rightarrow> int option" where
  "envPositiveInt v = (case v of None \<Rightarrow> None | Some k \<Rightarrow> if k > 0 then Some k else None)"

definition workerMemoryEstimateBytes :: "host_env \<Rightarrow> int" where
  "workerMemoryEstimateBytes e =
     (case envPositiveInt (he_workerMemoryMb e) of
        None \<Rightarrow> WORKER_MEMORY_ESTIMATE_BYTES | Some mb \<Rightarrow> mb * 1024 * 1024)"

definition headroomBytes :: "host_env \<Rightarrow> rat" where
  "headroomBytes e =
     max 0 (availableMemoryPercent e - lim_softMemoryAvailablePercent GLOBAL_RESOURCE_LIMITS) / 100
       * of_int (he_totalmem e)"

definition fit :: "host_env \<Rightarrow> int \<Rightarrow> int" where
  "fit e estimate = max 1 \<lfloor>headroomBytes e / of_int estimate\<rfloor>"

definition worker_limit :: "host_env \<Rightarrow> int" where
  "worker_limit e = or_default (envPositiveInt (he_workerLimit e)) (fit e (workerMemoryEstimateBytes e))"

definition browser_limit :: "host_env \<Rightarrow> int" where
  "browser_limit e = fit e BROWSER_MEMORY_ESTIMATE_BYTES"

definition build_limit :: "host_env \<Rightarrow> int" where
  "build_limit e = min (fit e BUILD_MEMORY_ESTIMATE_BYTES) (max 1 (he_parallelism e div 2))"

definition currentResourceLimits :: "host_env \<Rightarrow> resource_limits" where
  "currentResourceLimits e =
     GLOBAL_RESOURCE_LIMITS\<lparr>lim_workers := Some (worker_limit e), lim_browsers := Some (browser_limit e),
       lim_builds := Some (build_limit e),
       lim_total := Some (worker_limit e + browser_limit e + build_limit e),
       lim_maxSubagentDepth := (case envPositiveInt (he_subagentDepth e) of
          None \<Rightarrow> lim_maxSubagentDepth GLOBAL_RESOURCE_LIMITS | Some k \<Rightarrow> Some k)\<rparr>"

section \<open>Reclamation\<close>

text \<open>\<open>None\<close> is NaN, which no time is below.\<close>

definition leaseReclaimAfter :: "resource_lease \<Rightarrow> rat option" where
  "leaseReclaimAfter l =
     (case ls_reclaimAfter l of
        Some t \<Rightarrow> Some (of_int t)
      | None \<Rightarrow> map_option (\<lambda>x. of_int x + RESOURCE_RECLAIM_GRACE_MS) (ls_expiresAt l))"

definition leaseIsActive :: "host_env \<Rightarrow> instant \<Rightarrow> resource_lease \<Rightarrow> bool" where
  "leaseIsActive e now l =
     ((case leaseReclaimAfter l of None \<Rightarrow> False | Some t \<Rightarrow> of_int now < t)
      \<or> (case ls_pid l of None \<Rightarrow> False | Some p \<Rightarrow> he_pidAlive e p))"

definition reclaim_record ::
  "instant \<Rightarrow> resource_lease list \<Rightarrow> reclaim_telemetry \<Rightarrow> reclaim_telemetry" where
  "reclaim_record now reclaimed prior =
     \<lparr>rt_total = rt_total prior + int (length reclaimed),
      rt_expired = rt_expired prior + int (count_where (\<lambda>l. ls_pid l = None) reclaimed),
      rt_deadProcess = rt_deadProcess prior + int (count_where (\<lambda>l. ls_pid l \<noteq> None) reclaimed),
      rt_lastReclaimedAt = Some now, rt_lastReclaimedLeaseIds = map ls_id reclaimed\<rparr>"

definition reclaims_of :: "resource_store \<Rightarrow> reclaim_telemetry" where
  "reclaims_of s = or_default (st_reclaims s) emptyReclaimTelemetry"

definition prune :: "host_env \<Rightarrow> resource_store \<Rightarrow> resource_store" where
  "prune e s =
     (let now = he_pruneNow e;
          reclaimed = filter (\<lambda>l. \<not> leaseIsActive e now l) (st_leases s);
          s1 = s\<lparr>st_leases := filter (leaseIsActive e now) (st_leases s)\<rparr>
      in if reclaimed \<noteq> [] then s1\<lparr>st_reclaims := Some (reclaim_record now reclaimed (reclaims_of s))\<rparr> else s1)"

section \<open>Capacity and promotion\<close>

definition countKind :: "resource_lease list \<Rightarrow> resource_kind \<Rightarrow> nat" where
  "countKind leases kind = count_where (\<lambda>l. ls_kind l = kind) leases"

fun kindLimit :: "resource_kind \<Rightarrow> resource_limits \<Rightarrow> cap" where
  "kindLimit Kind_worker lims = lim_workers lims"
| "kindLimit Kind_browser lims = lim_browsers lims"
| "kindLimit Kind_build lims = lim_builds lims"

definition kindCapReached :: "resource_lease list \<Rightarrow> resource_kind \<Rightarrow> resource_limits \<Rightarrow> bool" where
  "kindCapReached leases kind lims = reaches (countKind leases kind) (kindLimit kind lims)"

definition capacityReason ::
  "resource_lease list \<Rightarrow> resource_kind \<Rightarrow> rat \<Rightarrow> resource_limits \<Rightarrow> capacity_reason option" where
  "capacityReason leases kind memoryAvailable lims =
     (if memoryAvailable < lim_softMemoryAvailablePercent lims
      then Some (Below_soft_floor memoryAvailable (lim_softMemoryAvailablePercent lims))
      else if reaches (length leases) (lim_total lims) then Some (Global_cap_reached (lim_total lims))
      else if kindCapReached leases kind lims then Some (Kind_cap_reached kind (kindLimit kind lims))
      else None)"

definition truthy_text :: "string option \<Rightarrow> string option" where
  "truthy_text s = (case s of Some [] \<Rightarrow> None | _ \<Rightarrow> s)"

definition leaseFrom :: "instant \<Rightarrow> string \<Rightarrow> queued_request \<Rightarrow> resource_lease lease_result" where
  "leaseFrom now u q =
     rbind (js_date (of_int now + rs_ttlMs q)) (\<lambda>expires.
     rbind (js_date (of_int now + rs_ttlMs q + RESOURCE_RECLAIM_GRACE_MS)) (\<lambda>reclaim.
       Inr \<lparr>ls_id = ''lease_'' @ u, ls_taskId = rs_taskId q, ls_resourceId = rs_resourceId q,
            ls_fencingToken = rs_fencingToken q, ls_kind = rs_kind q, ls_owner = rs_owner q,
            ls_project = truthy_text (rs_project q), ls_parentLeaseId = truthy_text (rs_parentLeaseId q),
            ls_depth = rs_depth q, ls_pid = rs_pid q, ls_createdAt = Some now, ls_heartbeatAt = Some now,
            ls_ttlMs = rs_ttlMs q, ls_expiresAt = Some expires, ls_graceMs = RESOURCE_RECLAIM_GRACE_MS,
            ls_reclaimAfter = Some reclaim\<rparr>))"

definition orphaned :: "resource_lease list \<Rightarrow> queued_request \<Rightarrow> bool" where
  "orphaned leases q =
     (case truthy_text (rs_parentLeaseId q) of
        None \<Rightarrow> False | Some p \<Rightarrow> \<not> list_ex (\<lambda>l. ls_id l = p) leases)"

text \<open>
  The loop of \<^verbatim>\<open>promoteQueued\<close>: \<open>kept\<close> are the requests before the index, the next argument
  those from the index on, \<open>n\<close> the number of identifiers drawn.
\<close>

fun promote ::
  "host_env \<Rightarrow> rat \<Rightarrow> resource_limits \<Rightarrow> nat \<Rightarrow> queued_request list \<Rightarrow> queued_request list
     \<Rightarrow> resource_lease list \<Rightarrow> (queued_request list \<times> resource_lease list) lease_result" where
  "promote e mem lims n kept [] leases = Inr (kept, leases)"
| "promote e mem lims n kept (q # qs) leases =
     (if orphaned leases q then promote e mem lims n kept qs leases
      else if capacityReason leases (rs_kind q) mem lims \<noteq> None then
        (if kindCapReached leases (rs_kind q) lims then promote e mem lims n (kept @ [q]) qs leases
         else Inr (kept @ q # qs, leases))
      else rbind (leaseFrom (he_now e) (he_uuid e n) q)
             (\<lambda>l. promote e mem lims (Suc n) kept qs (leases @ [l])))"

definition promoteQueued ::
  "host_env \<Rightarrow> rat \<Rightarrow> resource_limits \<Rightarrow> nat \<Rightarrow> resource_store \<Rightarrow> resource_store lease_result" where
  "promoteQueued e mem lims n s =
     rbind (promote e mem lims n [] (st_queue s) (st_leases s))
       (\<lambda>(queue, leases). Inr (s\<lparr>st_leases := leases, st_queue := queue\<rparr>))"

section \<open>Telemetry\<close>

record usage_of_cap =
  uc_active :: nat
  uc_limit :: cap

record resource_telemetry =
  tm_workers :: usage_of_cap
  tm_browsers :: usage_of_cap
  tm_builds :: usage_of_cap
  tm_total :: usage_of_cap
  tm_queued :: nat
  tm_memoryAvailablePercent :: rat
  tm_memorySoftFloorPercent :: rat
  tm_reclaims :: reclaim_telemetry

definition telemetry :: "resource_store \<Rightarrow> rat \<Rightarrow> resource_limits \<Rightarrow> resource_telemetry" where
  "telemetry s mem lims =
     \<lparr>tm_workers = \<lparr>uc_active = countKind (st_leases s) Kind_worker, uc_limit = lim_workers lims\<rparr>,
      tm_browsers = \<lparr>uc_active = countKind (st_leases s) Kind_browser, uc_limit = lim_browsers lims\<rparr>,
      tm_builds = \<lparr>uc_active = countKind (st_leases s) Kind_build, uc_limit = lim_builds lims\<rparr>,
      tm_total = \<lparr>uc_active = length (st_leases s), uc_limit = lim_total lims\<rparr>,
      tm_queued = length (st_queue s), tm_memoryAvailablePercent = mem,
      tm_memorySoftFloorPercent = lim_softMemoryAvailablePercent lims, tm_reclaims = reclaims_of s\<rparr>"

section \<open>Requests\<close>

datatype depth_rejection =
    Only_workers_have_parents
  | Parent_not_active string
  | Depth_exceeds_cap int cap

definition requestDepth ::
  "resource_lease list \<Rightarrow> resource_kind \<Rightarrow> string option \<Rightarrow> resource_limits \<Rightarrow> (depth_rejection, int) result" where
  "requestDepth leases kind parentLeaseId lims =
     (case truthy_text parentLeaseId of
        None \<Rightarrow> Inr 0
      | Some p \<Rightarrow>
          if kind \<noteq> Kind_worker then Inl Only_workers_have_parents
          else (case lookup_row ls_id p leases of
                  None \<Rightarrow> Inl (Parent_not_active p)
                | Some parent \<Rightarrow>
                    if ls_kind parent \<noteq> Kind_worker then Inl (Parent_not_active p)
                    else (case lim_maxSubagentDepth lims of
                            None \<Rightarrow> Inr (ls_depth parent + 1)
                          | Some k \<Rightarrow> if ls_depth parent + 1 > k then Inl (Depth_exceeds_cap (ls_depth parent + 1) (Some k))
                                      else Inr (ls_depth parent + 1))))"

record resource_request =
  ri_kind :: resource_kind
  ri_owner :: string
  ri_taskId :: "string option"
  ri_resourceId :: "string option"
  ri_project :: "string option"
  ri_parentLeaseId :: "string option"
  ri_pid :: "int option"
  ri_ttlMs :: "js_number option"

datatype request_result =
    Active resource_lease resource_telemetry
  | Queued queued_request resource_telemetry
  | Rejected depth_rejection resource_telemetry

definition ttl_ok :: "js_number option \<Rightarrow> bool" where
  "ttl_ok t = (case t of None \<Rightarrow> True | Some Js_nonfinite \<Rightarrow> False | Some (Js_finite q) \<Rightarrow> q > 0)"

definition requested_ttl :: "resource_request \<Rightarrow> rat" where
  "requested_ttl i = (case ri_ttlMs i of Some (Js_finite q) \<Rightarrow> q | _ \<Rightarrow> DEFAULT_TTL_MS (ri_kind i))"

definition parent_of :: "host_env \<Rightarrow> resource_request \<Rightarrow> string option" where
  "parent_of e i = (case ri_parentLeaseId i of None \<Rightarrow> he_leaseId e | Some p \<Rightarrow> Some p)"

definition request_from :: "host_env \<Rightarrow> resource_request \<Rightarrow> int \<Rightarrow> queued_request" where
  "request_from e i depth =
     \<lparr>rs_id = ''request_'' @ he_uuid e 0, rs_taskId = or_default (ri_taskId i) (fallbackTaskId (ri_owner i)),
      rs_resourceId = or_default (ri_resourceId i) (fallbackResourceId (ri_kind i) (ri_project i)),
      rs_fencingToken = ''fence_'' @ he_uuid e 1, rs_kind = ri_kind i, rs_owner = ri_owner i,
      rs_project = truthy_text (ri_project i), rs_parentLeaseId = truthy_text (parent_of e i),
      rs_depth = depth, rs_pid = ri_pid i, rs_ttlMs = requested_ttl i,
      rs_requestedAt = Some (he_now e), rs_reason = None\<rparr>"

text \<open>The admission of a new request once the store has been pruned and promoted.\<close>

definition admit ::
  "host_env \<Rightarrow> resource_request \<Rightarrow> int \<Rightarrow> rat \<Rightarrow> resource_limits \<Rightarrow> resource_store
     \<Rightarrow> (resource_store \<times> request_result) lease_result" where
  "admit e i depth mem lims s =
     (case capacityReason (st_leases s) (ri_kind i) mem lims of
        Some reason \<Rightarrow>
          (let q = (request_from e i depth)\<lparr>rs_reason := Some reason\<rparr>;
               s' = s\<lparr>st_queue := st_queue s @ [q]\<rparr>
           in Inr (s', Queued q (telemetry s' mem lims)))
      | None \<Rightarrow>
          rbind (leaseFrom (he_now e) (he_uuid e 2) (request_from e i depth)) (\<lambda>l.
            let s' = s\<lparr>st_leases := st_leases s @ [l]\<rparr> in Inr (s', Active l (telemetry s' mem lims))))"

definition requestResource ::
  "host_env \<Rightarrow> resource_request \<Rightarrow> resource_store \<Rightarrow> (resource_store \<times> request_result) lease_result" where
  "requestResource e i s0 =
     (if \<not> ttl_ok (ri_ttlMs i) then Inl Nonpositive_ttl
      else
        let mem = availableMemoryPercent e; lims = currentResourceLimits e in
        rbind (promoteQueued e mem lims 3 (prune e s0)) (\<lambda>s.
          case find (\<lambda>l. ls_kind l = ri_kind i \<and> ls_owner l = ri_owner i) (st_leases s) of
            Some l \<Rightarrow> Inr (s, Active l (telemetry s mem lims))
          | None \<Rightarrow>
              (case find (\<lambda>q. rs_kind q = ri_kind i \<and> rs_owner q = ri_owner i) (st_queue s) of
                 Some q \<Rightarrow> Inr (s, Queued q (telemetry s mem lims))
               | None \<Rightarrow>
                   (case requestDepth (st_leases s) (ri_kind i) (parent_of e i) (currentResourceLimits e) of
                      Inl rej \<Rightarrow> Inr (s, Rejected rej (telemetry s mem lims))
                    | Inr depth \<Rightarrow> admit e i depth mem lims s))))"

definition resourceSnapshot ::
  "host_env \<Rightarrow> resource_store \<Rightarrow>
     (resource_store \<times> resource_lease list \<times> queued_request list \<times> resource_telemetry) lease_result" where
  "resourceSnapshot e s0 =
     (let mem = availableMemoryPercent e; lims = currentResourceLimits e in
      rbind (promoteQueued e mem lims 0 (prune e s0)) (\<lambda>s.
        Inr (s, st_leases s, st_queue s, telemetry s mem lims)))"

definition reclaimStaleResources ::
  "host_env \<Rightarrow> resource_store \<Rightarrow> (resource_store \<times> string list \<times> resource_telemetry) lease_result" where
  "reclaimStaleResources e s0 =
     (let before = (case st_reclaims s0 of None \<Rightarrow> 0 | Some r \<Rightarrow> rt_total r);
          mem = availableMemoryPercent e; lims = currentResourceLimits e;
          s1 = prune e s0; reclaims = reclaims_of s1 in
      rbind (promoteQueued e mem lims 0 s1) (\<lambda>s.
        Inr (s, (if rt_total reclaims > before then rt_lastReclaimedLeaseIds reclaims else []),
             telemetry s mem lims)))"

section \<open>Fenced operations\<close>

definition assertActiveResourceLease ::
  "host_env \<Rightarrow> string \<Rightarrow> string \<Rightarrow> resource_kind \<Rightarrow> string \<Rightarrow> int \<Rightarrow> resource_store
     \<Rightarrow> (resource_store \<times> resource_lease) lease_result" where
  "assertActiveResourceLease e leaseId fencingToken kind owner pid s0 =
     (let s = prune e s0 in
      case lookup_row ls_id leaseId (st_leases s) of
        None \<Rightarrow> Inl (Not_the_active_fence kind leaseId)
      | Some l \<Rightarrow>
          if \<not> leaseIsActive e (he_now e) l \<or> ls_fencingToken l \<noteq> fencingToken \<or> ls_kind l \<noteq> kind
             \<or> ls_owner l \<noteq> owner \<or> ls_pid l \<noteq> Some pid
          then Inl (Not_the_active_fence kind leaseId) else Inr (s, l))"

definition assertActiveResourceLeaseForProcess ::
  "host_env \<Rightarrow> string \<Rightarrow> string \<Rightarrow> resource_kind \<Rightarrow> int \<Rightarrow> resource_store
     \<Rightarrow> (resource_store \<times> resource_lease) lease_result" where
  "assertActiveResourceLeaseForProcess e leaseId fencingToken kind pid s0 =
     (let s = prune e s0 in
      case lookup_row ls_id leaseId (st_leases s) of
        None \<Rightarrow> Inl (Not_the_active_fence kind leaseId)
      | Some l \<Rightarrow>
          if \<not> leaseIsActive e (he_now e) l \<or> ls_fencingToken l \<noteq> fencingToken \<or> ls_kind l \<noteq> kind
             \<or> ls_pid l \<noteq> Some pid
          then Inl (Not_the_active_fence kind leaseId) else Inr (s, l))"

text \<open>The code mutates the lease it found, the first with the id.\<close>

fun update_first :: "('a \<Rightarrow> bool) \<Rightarrow> ('a \<Rightarrow> 'a) \<Rightarrow> 'a list \<Rightarrow> 'a list" where
  "update_first P f [] = []"
| "update_first P f (x # xs) = (if P x then f x # xs else x # update_first P f xs)"

lemma update_first_map: "(\<And>x. P x \<Longrightarrow> g (f x) = g x) \<Longrightarrow> map g (update_first P f xs) = map g xs"
  by (induction xs) auto

lemma update_first_lookup:
  "lookup_row key i A = Some l \<Longrightarrow> g l' = g l \<Longrightarrow> map g (update_first (\<lambda>x. key x = i) (\<lambda>_. l') A) = map g A"
  by (induction A) (auto split: if_splits)

lemma update_first_set: "set (update_first P f xs) \<subseteq> f ` set xs \<union> set xs"
  by (induction xs) auto

lemma update_first_kept: "x \<in> set xs \<Longrightarrow> \<not> P x \<Longrightarrow> x \<in> set (update_first P f xs)"
  by (induction xs) auto

lemma update_first_put: "find P xs \<noteq> None \<Longrightarrow> p \<in> set (update_first P (\<lambda>_. p) xs)"
  by (induction xs) auto

lemma update_first_found:
  "lookup_row key i A = Some l \<Longrightarrow> key l' = i \<Longrightarrow> lookup_row key i (update_first (\<lambda>x. key x = i) (\<lambda>_. l') A) = Some l'"
  by (induction A) (auto split: if_splits)

definition renewed :: "host_env \<Rightarrow> js_number option \<Rightarrow> resource_lease \<Rightarrow> resource_lease lease_result" where
  "renewed e ttlMs l =
     (case or_default ttlMs (Js_finite (ls_ttlMs l)) of
        Js_nonfinite \<Rightarrow> Inl Invalid_time
      | Js_finite nextTtlMs \<Rightarrow>
          rbind (js_date (of_int (he_now e) + nextTtlMs)) (\<lambda>expires.
          rbind (js_date (of_int (he_now e) + nextTtlMs + ls_graceMs l)) (\<lambda>reclaim.
            Inr (l\<lparr>ls_heartbeatAt := Some (he_now e), ls_ttlMs := nextTtlMs,
                   ls_expiresAt := Some expires, ls_reclaimAfter := Some reclaim\<rparr>))))"

definition heartbeatResource ::
  "host_env \<Rightarrow> string \<Rightarrow> string \<Rightarrow> js_number option \<Rightarrow> resource_store
     \<Rightarrow> (resource_store \<times> resource_lease) lease_result" where
  "heartbeatResource e leaseId fencingToken ttlMs s0 =
     (let s = prune e s0 in
      case lookup_row ls_id leaseId (st_leases s) of
        None \<Rightarrow> Inl (Lease_not_active leaseId)
      | Some l \<Rightarrow>
          if ls_fencingToken l \<noteq> fencingToken then Inl (Lease_not_active leaseId)
          else rbind (renewed e ttlMs l) (\<lambda>l'.
            Inr (s\<lparr>st_leases := update_first (\<lambda>x. ls_id x = leaseId) (\<lambda>_. l') (st_leases s)\<rparr>, l')))"

definition releaseResource ::
  "host_env \<Rightarrow> string \<Rightarrow> string \<Rightarrow> resource_store \<Rightarrow> (resource_store \<times> resource_telemetry) lease_result" where
  "releaseResource e leaseId fencingToken s0 =
     (let s = prune e s0 in
      case lookup_row ls_id leaseId (st_leases s) of
        None \<Rightarrow> Inl (Not_the_current_fence leaseId)
      | Some l \<Rightarrow>
          if ls_fencingToken l \<noteq> fencingToken then Inl (Not_the_current_fence leaseId)
          else if list_ex (\<lambda>x. ls_parentLeaseId x = Some leaseId) (st_leases s) then Inl (Owns_active_child leaseId)
          else
            let mem = availableMemoryPercent e; lims = currentResourceLimits e in
            rbind (promoteQueued e mem lims 0 (s\<lparr>st_leases := filter (\<lambda>x. ls_id x \<noteq> leaseId) (st_leases s)\<rparr>))
              (\<lambda>s'. Inr (s', telemetry s' mem lims)))"

definition cancelResourceRequest ::
  "host_env \<Rightarrow> string \<Rightarrow> resource_store \<Rightarrow> (resource_store \<times> resource_telemetry) lease_result" where
  "cancelResourceRequest e requestId s0 =
     (let s = prune e s0; mem = availableMemoryPercent e; lims = currentResourceLimits e in
      rbind (promoteQueued e mem lims 0 (s\<lparr>st_queue := filter (\<lambda>q. rs_id q \<noteq> requestId) (st_queue s)\<rparr>))
        (\<lambda>s'. Inr (s', telemetry s' mem lims)))"

text \<open>
  One turn of the polling loop of \<^verbatim>\<open>waitForResource\<close>: the request has become a lease, is
  gone, has timed out (and is cancelled), or the loop sleeps and polls again.
\<close>

datatype wait_turn = Wait_lease resource_lease | Wait_again

definition waitForResource_turn ::
  "host_env \<Rightarrow> host_env \<Rightarrow> bool \<Rightarrow> queued_request \<Rightarrow> resource_store
     \<Rightarrow> resource_store \<times> wait_turn lease_result" where
  "waitForResource_turn e e' timed_out q s0 =
     (case resourceSnapshot e s0 of
        Inl err \<Rightarrow> (s0, Inl err)
      | Inr (s, leases, queue, _) \<Rightarrow>
          (case find (\<lambda>l. ls_fencingToken l = rs_fencingToken q \<and> ls_owner l = rs_owner q \<and> ls_kind l = rs_kind q) leases of
             Some l \<Rightarrow> (s, Inr (Wait_lease l))
           | None \<Rightarrow>
               if \<not> list_ex (\<lambda>x. rs_id x = rs_id q) queue then (s, Inl (Queued_request_gone (rs_id q)))
               else if timed_out then
                 (case cancelResourceRequest e' (rs_id q) s of
                    Inl err \<Rightarrow> (s, Inl err)
                  | Inr (s', _) \<Rightarrow> (s', Inl (Wait_timed_out (rs_id q))))
               else (s, Inr Wait_again)))"

end
