(* ===== verification/Policy.thy ===== *)
theory Policy
  imports Router Resources
begin

text \<open>
  Project policies of src/supervisor/policy.ts: the trust ladder a project climbs with
  independently graded runs, and the autonomy boundaries of src/supervisor/autonomy.ts that
  rest on it. The store is the list of policies of the file, as \<^verbatim>\<open>readStore\<close> returns it.
  \<open>rsv\<close> is \<^verbatim>\<open>path.resolve\<close> (it reads the working directory), \<open>cdir\<close> is \<^verbatim>\<open>gitCommonDir\<close> (it runs
  git), \<open>base\<close> is \<^verbatim>\<open>path.basename\<close>, \<open>redact\<close> is \<^verbatim>\<open>redactText\<close>.
\<close>

datatype project_class = Class_unknown | Class_workshop | Class_client | Class_knowledge

definition PROJECT_CLASSES :: "project_class list" where
  "PROJECT_CLASSES = [Class_unknown, Class_workshop, Class_client, Class_knowledge]"

datatype trust_level = Trust_observe | Trust_assist | Trust_build | Trust_unattended

definition TRUST_LEVELS :: "trust_level list" where
  "TRUST_LEVELS = [Trust_observe, Trust_assist, Trust_build, Trust_unattended]"

datatype grade_result = Grade_pass | Grade_fail

datatype grade_kind = Grade_shadow | Grade_execution

record independent_grade =
  ig_provider :: provider_host
  ig_providerAccountLabel :: "string option"
  ig_reviewExecutionId :: "string option"
  ig_reviewedExecutionId :: "string option"
  ig_reviewedProvider :: "provider_host option"
  ig_result :: grade_result
  ig_evidence :: string
  ig_at :: instant
  ig_goalId :: "string option"
  ig_kind :: grade_kind
  ig_trustAtGrade :: trust_level

record project_policy =
  pp_project :: string
  pp_repoPath :: string
  pp_projectClass :: project_class
  pp_trust :: trust_level
  pp_maxWorkers :: int
  pp_maxRunMinutes :: int
  pp_allowBackground :: bool
  pp_allowExternalWrites :: bool
  pp_allowCrossProjectMemory :: bool
  pp_allowPaidSpend :: bool
  pp_ownerApprovedBuild :: bool
  pp_parallelWorkers :: bool
  pp_shadowRuns :: int
  pp_shadowPasses :: int
  pp_updatedAt :: instant
  pp_lastGrade :: "independent_grade option"

datatype policy_error =
    Invalid_policy_store
  | Cannot_promote string trust_level
  | Grade_without_executions
  | Grade_without_account
  | Grade_of_itself
  | Grade_compromised string
  | Grade_runs_not_canonical
  | Grade_without_receipt
  | Kill_switch_active
  | Execution_disabled string project_class trust_level

type_synonym 'a policy_result = "(policy_error, 'a) result"

text \<open>A text that is present and not blank; older stores lack the fields.\<close>

definition present :: "string option \<Rightarrow> bool" where
  "present s = (case s of None \<Rightarrow> False | Some x \<Rightarrow> js_trim x \<noteq> [])"

definition hasExecutionProvenance :: "independent_grade option \<Rightarrow> bool" where
  "hasExecutionProvenance g =
     (case g of
        None \<Rightarrow> False
      | Some g \<Rightarrow> present (ig_reviewExecutionId g) \<and> present (ig_reviewedExecutionId g)
          \<and> ig_reviewExecutionId g \<noteq> ig_reviewedExecutionId g \<and> present (ig_providerAccountLabel g))"

record trust_limits =
  tl_maxWorkers :: int
  tl_maxRunMinutes :: int
  tl_allowBackground :: bool

fun limitsFor :: "host_env \<Rightarrow> trust_level \<Rightarrow> trust_limits" where
  "limitsFor e Trust_observe = \<lparr>tl_maxWorkers = 0, tl_maxRunMinutes = 0, tl_allowBackground = False\<rparr>"
| "limitsFor e Trust_assist = \<lparr>tl_maxWorkers = 1, tl_maxRunMinutes = 30, tl_allowBackground = False\<rparr>"
| "limitsFor e Trust_build = \<lparr>tl_maxWorkers = worker_limit e, tl_maxRunMinutes = 120, tl_allowBackground = False\<rparr>"
| "limitsFor e Trust_unattended = \<lparr>tl_maxWorkers = worker_limit e, tl_maxRunMinutes = 480, tl_allowBackground = True\<rparr>"

section \<open>The policy file\<close>

text \<open>A stored policy whose newer fields may be missing.\<close>

record raw_policy =
  rp_policy :: project_policy
  rp_maxRunMinutes :: "int option"
  rp_allowPaidSpend :: "bool option"
  rp_ownerApprovedBuild :: "bool option"
  rp_parallelWorkers :: "bool option"
  rp_shadowRuns :: "int option"
  rp_shadowPasses :: "int option"
  rp_trustAtGrade :: "trust_level option"

definition normalizePolicy :: "host_env \<Rightarrow> raw_policy \<Rightarrow> project_policy" where
  "normalizePolicy e r =
     (let p = rp_policy r in
      p\<lparr>pp_maxWorkers := tl_maxWorkers (limitsFor e (pp_trust p)),
        pp_maxRunMinutes := or_default (rp_maxRunMinutes r) (tl_maxRunMinutes (limitsFor e (pp_trust p))),
        pp_allowPaidSpend := or_default (rp_allowPaidSpend r) False,
        pp_ownerApprovedBuild := or_default (rp_ownerApprovedBuild r) False,
        pp_parallelWorkers := or_default (rp_parallelWorkers r) False,
        pp_shadowRuns := or_default (rp_shadowRuns r) 0,
        pp_shadowPasses := or_default (rp_shadowPasses r) 0,
        pp_lastGrade := map_option (\<lambda>g. g\<lparr>ig_trustAtGrade := or_default (rp_trustAtGrade r) (pp_trust p)\<rparr>)
                          (pp_lastGrade p)\<rparr>)"

record raw_policies =
  rw_policyVersion :: int
  rw_projects :: "raw_policy list option"

definition readPolicyStore :: "host_env \<Rightarrow> raw_policies option \<Rightarrow> project_policy list policy_result" where
  "readPolicyStore e file =
     (case file of
        None \<Rightarrow> Inr []
      | Some raw \<Rightarrow>
          (case rw_projects raw of
             None \<Rightarrow> Inl Invalid_policy_store
           | Some ps \<Rightarrow> if rw_policyVersion raw \<noteq> 1 then Inl Invalid_policy_store
                        else Inr (map (normalizePolicy e) ps)))"

definition raw_of_policy :: "project_policy \<Rightarrow> raw_policy" where
  "raw_of_policy p = \<lparr>rp_policy = p, rp_maxRunMinutes = Some (pp_maxRunMinutes p),
     rp_allowPaidSpend = Some (pp_allowPaidSpend p), rp_ownerApprovedBuild = Some (pp_ownerApprovedBuild p),
     rp_parallelWorkers = Some (pp_parallelWorkers p), rp_shadowRuns = Some (pp_shadowRuns p),
     rp_shadowPasses = Some (pp_shadowPasses p), rp_trustAtGrade = map_option ig_trustAtGrade (pp_lastGrade p)\<rparr>"

definition writePolicyStore :: "project_policy list \<Rightarrow> raw_policies" where
  "writePolicyStore ps = \<lparr>rw_policyVersion = 1, rw_projects = Some (map raw_of_policy ps)\<rparr>"

section \<open>Reading policies\<close>

definition defaultProjectPolicy :: "(string \<Rightarrow> string) \<Rightarrow> instant \<Rightarrow> string \<Rightarrow> string \<Rightarrow> project_policy" where
  "defaultProjectPolicy rsv now project repoPath =
     \<lparr>pp_project = project, pp_repoPath = rsv repoPath, pp_projectClass = Class_unknown, pp_trust = Trust_observe,
      pp_maxWorkers = 0, pp_maxRunMinutes = 0, pp_allowBackground = False, pp_allowExternalWrites = False,
      pp_allowCrossProjectMemory = False, pp_allowPaidSpend = False, pp_ownerApprovedBuild = False,
      pp_parallelWorkers = False, pp_shadowRuns = 0, pp_shadowPasses = 0, pp_updatedAt = now, pp_lastGrade = None\<rparr>"

definition same_repository ::
  "(string \<Rightarrow> string) \<Rightarrow> (string \<Rightarrow> string option) \<Rightarrow> string \<Rightarrow> project_policy \<Rightarrow> bool" where
  "same_repository rsv cdir repoPath c =
     (rsv (pp_repoPath c) = rsv repoPath
      \<or> (cdir (rsv repoPath) \<noteq> None \<and> cdir (rsv (pp_repoPath c)) = cdir (rsv repoPath)))"

definition policy_matches ::
  "(string \<Rightarrow> string) \<Rightarrow> (string \<Rightarrow> string option) \<Rightarrow> string \<Rightarrow> string \<Rightarrow> project_policy \<Rightarrow> bool" where
  "policy_matches rsv cdir project repoPath c = (pp_project c = project \<or> same_repository rsv cdir repoPath c)"

definition getProjectPolicy ::
  "(string \<Rightarrow> string) \<Rightarrow> (string \<Rightarrow> string option) \<Rightarrow> instant \<Rightarrow> string \<Rightarrow> string \<Rightarrow> project_policy list
     \<Rightarrow> project_policy" where
  "getProjectPolicy rsv cdir now project repoPath store =
     (case find (policy_matches rsv cdir project repoPath) store of
        Some c \<Rightarrow> c\<lparr>pp_project := project, pp_repoPath := rsv repoPath\<rparr>
      | None \<Rightarrow> defaultProjectPolicy rsv now project repoPath)"

definition projectPolicyBindsLegacyIdentity ::
  "(string \<Rightarrow> string) \<Rightarrow> (string \<Rightarrow> string option) \<Rightarrow> string \<Rightarrow> string \<Rightarrow> project_policy list \<Rightarrow> bool" where
  "projectPolicyBindsLegacyIdentity rsv cdir project repoPath store =
     list_ex (\<lambda>c. pp_project c = project \<and> same_repository rsv cdir repoPath c) store"

definition projectPolicyRepoPath :: "string \<Rightarrow> project_policy list \<Rightarrow> string option" where
  "projectPolicyRepoPath project store = map_option pp_repoPath (lookup_row pp_project project store)"

fun keep_first :: "'a list \<Rightarrow> 'a list \<Rightarrow> 'a list" where
  "keep_first seen [] = []"
| "keep_first seen (x # xs) = (if x \<in> set seen then keep_first seen xs else x # keep_first (x # seen) xs)"

definition knownProjectIdentities :: "(string \<Rightarrow> string) \<Rightarrow> project_policy list \<Rightarrow> string list" where
  "knownProjectIdentities base store =
     filter (\<lambda>s. s \<noteq> [])
       (keep_first [] (concat (map (\<lambda>p. [pp_project p, pp_repoPath p, base (pp_repoPath p)]) store)))"

section \<open>Configuring trust\<close>

record policy_input =
  pi_project :: string
  pi_repoPath :: string
  pi_projectClass :: project_class
  pi_trust :: trust_level
  pi_allowExternalWrites :: "bool option"
  pi_allowPaidSpend :: "bool option"
  pi_ownerApprovedBuild :: "bool option"
  pi_parallelWorkers :: "bool option"

definition shadow_earned :: "project_policy option \<Rightarrow> bool" where
  "shadow_earned existing =
     (case existing of
        None \<Rightarrow> False
      | Some p \<Rightarrow> pp_shadowPasses p \<ge> 3 \<and> map_option ig_result (pp_lastGrade p) = Some Grade_pass
          \<and> hasExecutionProvenance (pp_lastGrade p))"

definition execution_earned :: "trust_level \<Rightarrow> project_policy option \<Rightarrow> bool" where
  "execution_earned level existing =
     (case existing of
        None \<Rightarrow> False
      | Some p \<Rightarrow> pp_trust p = level
          \<and> (case pp_lastGrade p of
               None \<Rightarrow> False
             | Some g \<Rightarrow> ig_kind g = Grade_execution \<and> ig_result g = Grade_pass \<and> ig_trustAtGrade g = level)
          \<and> hasExecutionProvenance (pp_lastGrade p))"

definition promotion_refused :: "policy_input \<Rightarrow> project_policy option \<Rightarrow> bool" where
  "promotion_refused i existing =
     (pi_trust i = Trust_assist \<and> \<not> shadow_earned existing
      \<or> pi_trust i = Trust_build \<and> pi_ownerApprovedBuild i \<noteq> Some True \<and> \<not> execution_earned Trust_assist existing
      \<or> pi_trust i = Trust_unattended \<and> \<not> execution_earned Trust_build existing)"

definition inherited :: "'a option \<Rightarrow> (project_policy \<Rightarrow> 'a) \<Rightarrow> project_policy option \<Rightarrow> 'a \<Rightarrow> 'a" where
  "inherited x f existing d =
     (case x of Some y \<Rightarrow> y | None \<Rightarrow> (case existing of Some p \<Rightarrow> f p | None \<Rightarrow> d))"

definition configured ::
  "host_env \<Rightarrow> (string \<Rightarrow> string) \<Rightarrow> instant \<Rightarrow> policy_input \<Rightarrow> project_policy option \<Rightarrow> project_policy" where
  "configured e rsv now i existing =
     \<lparr>pp_project = pi_project i, pp_repoPath = rsv (pi_repoPath i), pp_projectClass = pi_projectClass i,
      pp_trust = pi_trust i, pp_maxWorkers = tl_maxWorkers (limitsFor e (pi_trust i)),
      pp_maxRunMinutes = tl_maxRunMinutes (limitsFor e (pi_trust i)),
      pp_allowBackground = tl_allowBackground (limitsFor e (pi_trust i)),
      pp_allowExternalWrites = inherited (pi_allowExternalWrites i) pp_allowExternalWrites existing False,
      pp_allowCrossProjectMemory = (pi_projectClass i \<noteq> Class_client
         \<and> (pi_trust i = Trust_build \<or> pi_trust i = Trust_unattended)),
      pp_allowPaidSpend = inherited (pi_allowPaidSpend i) pp_allowPaidSpend existing False,
      pp_ownerApprovedBuild = inherited (pi_ownerApprovedBuild i) pp_ownerApprovedBuild existing False,
      pp_parallelWorkers = inherited (pi_parallelWorkers i) pp_parallelWorkers existing False,
      pp_shadowRuns = inherited None pp_shadowRuns existing 0,
      pp_shadowPasses = inherited None pp_shadowPasses existing 0, pp_updatedAt = now,
      pp_lastGrade = (case existing of Some p \<Rightarrow> pp_lastGrade p | None \<Rightarrow> None)\<rparr>"

text \<open>Replace the first policy that matches, or append.\<close>

definition put_policy ::
  "(project_policy \<Rightarrow> bool) \<Rightarrow> project_policy \<Rightarrow> project_policy list \<Rightarrow> project_policy list" where
  "put_policy P p store =
     (if find P store = None then store @ [p] else update_first P (\<lambda>_. p) store)"

definition configureProjectPolicy ::
  "host_env \<Rightarrow> (string \<Rightarrow> string) \<Rightarrow> (string \<Rightarrow> string option) \<Rightarrow> instant \<Rightarrow> policy_input \<Rightarrow> project_policy list
     \<Rightarrow> (project_policy list \<times> project_policy) policy_result" where
  "configureProjectPolicy e rsv cdir now i store =
     (let P = policy_matches rsv cdir (pi_project i) (pi_repoPath i);
          existing = find P store
      in if promotion_refused i existing then Inl (Cannot_promote (pi_project i) (pi_trust i))
         else let p = configured e rsv now i existing in Inr (put_policy P p store, p))"

section \<open>Grades\<close>

record grade_input =
  gi_project :: string
  gi_repoPath :: string
  gi_provider :: provider_host
  gi_result :: grade_result
  gi_evidence :: string
  gi_providerAccountLabel :: string
  gi_reviewExecutionId :: string
  gi_reviewedExecutionId :: string
  gi_reviewedProvider :: "provider_host option"
  gi_independenceLoss :: "string option"
  gi_kind :: grade_kind
  gi_goalId :: "string option"
  gi_reviewReceiptId :: "string option"

text \<open>A run joined with its provider: the join drops a run whose provider is not stored.\<close>

definition joined_run :: "db \<Rightarrow> string \<Rightarrow> (run_row \<times> provider_row) option" where
  "joined_run d i =
     (case lookup_row r_id i (agentRuns d) of
        None \<Rightarrow> None
      | Some r \<Rightarrow> map_option (Pair r) (lookup_row ap_id (r_providerId r) (agentProviders d)))"

fun provider_of_host :: "provider_host \<Rightarrow> string" where
  "provider_of_host Host_claude = ''claude-code''"
| "provider_of_host h = host_name h"

definition grade_input_error :: "grade_input \<Rightarrow> policy_error option" where
  "grade_input_error i =
     (if js_trim (gi_reviewExecutionId i) = [] \<or> js_trim (gi_reviewedExecutionId i) = [] then Some Grade_without_executions
      else if js_trim (gi_providerAccountLabel i) = [] then Some Grade_without_account
      else if gi_reviewExecutionId i = gi_reviewedExecutionId i then Some Grade_of_itself
      else if present (gi_independenceLoss i)
        then Some (Grade_compromised (or_default (gi_independenceLoss i) []))
      else None)"

definition canonical_runs :: "grade_input \<Rightarrow> run_row \<Rightarrow> provider_row \<Rightarrow> run_row \<Rightarrow> bool" where
  "canonical_runs i review reviewer reviewed =
     (r_status review = Run_succeeded \<and> r_status reviewed = Run_succeeded \<and> r_purpose review = Pur_review
      \<and> (r_purpose reviewed = Pur_implementation \<or> r_purpose reviewed = Pur_repair)
      \<and> r_independenceLoss review = None \<and> r_taskId review = r_taskId reviewed
      \<and> r_sourceHead review = r_sourceHead reviewed
      \<and> ap_name reviewer = provider_of_host (gi_provider i) \<and> ap_accountLabel reviewer = gi_providerAccountLabel i
      \<and> present (r_sessionRef review) \<and> present (r_sessionRef reviewed))"

definition receipt_binds :: "grade_input \<Rightarrow> run_row \<Rightarrow> run_row \<Rightarrow> receipt_row \<Rightarrow> bool" where
  "receipt_binds i review reviewed c =
     (rr_project c = gi_project i \<and> Some (rr_goalId c) = gi_goalId i \<and> rr_runId c = gi_reviewExecutionId i
      \<and> rr_reviewedRunId c = Some (gi_reviewedExecutionId i)
      \<and> rr_reviewSessionRef c = r_sessionRef review \<and> rr_reviewedSessionRef c = r_sessionRef reviewed
      \<and> truthy_text (rr_sourceTreeDigest c) \<noteq> None)"

definition grade_receipt_ok :: "db \<Rightarrow> grade_input \<Rightarrow> run_row \<Rightarrow> run_row \<Rightarrow> bool" where
  "grade_receipt_ok d i review reviewed =
     (gi_kind i \<noteq> Grade_execution
      \<or> (case truthy_text (gi_reviewReceiptId i) of
           None \<Rightarrow> False
         | Some rid \<Rightarrow> (case lookup_row rr_id rid (independentReviewReceipts d) of
                          None \<Rightarrow> False | Some c \<Rightarrow> receipt_binds i review reviewed c)))"

definition grade_check :: "db \<Rightarrow> grade_input \<Rightarrow> unit policy_result" where
  "grade_check d i =
     (case grade_input_error i of
        Some err \<Rightarrow> Inl err
      | None \<Rightarrow>
          (case (joined_run d (gi_reviewExecutionId i), joined_run d (gi_reviewedExecutionId i)) of
             (Some (review, reviewer), Some (reviewed, _)) \<Rightarrow>
               if \<not> canonical_runs i review reviewer reviewed then Inl Grade_runs_not_canonical
               else if \<not> grade_receipt_ok d i review reviewed then Inl Grade_without_receipt
               else Inr ()
           | _ \<Rightarrow> Inl Grade_runs_not_canonical))"

definition grade_of :: "(string \<Rightarrow> string) \<Rightarrow> instant \<Rightarrow> grade_input \<Rightarrow> trust_level \<Rightarrow> independent_grade" where
  "grade_of redact now i trust =
     \<lparr>ig_provider = gi_provider i, ig_providerAccountLabel = Some (js_trim (gi_providerAccountLabel i)),
      ig_reviewExecutionId = Some (js_trim (gi_reviewExecutionId i)),
      ig_reviewedExecutionId = Some (js_trim (gi_reviewedExecutionId i)), ig_reviewedProvider = gi_reviewedProvider i,
      ig_result = gi_result i, ig_evidence = take 12000 (redact (gi_evidence i)), ig_at = now,
      ig_goalId = truthy_text (gi_goalId i), ig_kind = gi_kind i, ig_trustAtGrade = trust\<rparr>"

definition graded_policy ::
  "(string \<Rightarrow> string) \<Rightarrow> (string \<Rightarrow> string) \<Rightarrow> instant \<Rightarrow> grade_input \<Rightarrow> project_policy \<Rightarrow> project_policy" where
  "graded_policy rsv redact now i current =
     (let next = current\<lparr>pp_repoPath := rsv (gi_repoPath i),
                         pp_lastGrade := Some (grade_of redact now i (pp_trust current)), pp_updatedAt := now\<rparr>
      in if gi_kind i = Grade_shadow
         then next\<lparr>pp_shadowRuns := pp_shadowRuns current + 1,
                   pp_shadowPasses := (if gi_result i = Grade_pass then pp_shadowPasses current + 1 else 0)\<rparr>
         else next)"

definition storeGrade ::
  "(string \<Rightarrow> string) \<Rightarrow> (string \<Rightarrow> string) \<Rightarrow> instant \<Rightarrow> db \<Rightarrow> grade_input \<Rightarrow> project_policy list
     \<Rightarrow> (project_policy list \<times> project_policy) policy_result" where
  "storeGrade rsv redact now d i store =
     rbind (grade_check d i) (\<lambda>_.
       let P = (\<lambda>c. pp_project c = gi_project i);
           current = or_default (find P store) (defaultProjectPolicy rsv now (gi_project i) (gi_repoPath i));
           next = graded_policy rsv redact now i current
       in Inr (put_policy P next store, next))"

record shadow_input =
  si_project :: string
  si_repoPath :: string
  si_planner :: provider_host
  si_provider :: provider_host
  si_providerAccountLabel :: string
  si_reviewExecutionId :: string
  si_plannerExecutionId :: string
  si_independenceLoss :: "string option"
  si_result :: grade_result
  si_evidence :: string
  si_goalId :: "string option"

definition recordShadowGrade ::
  "(string \<Rightarrow> string) \<Rightarrow> (string \<Rightarrow> string) \<Rightarrow> instant \<Rightarrow> db \<Rightarrow> shadow_input \<Rightarrow> project_policy list
     \<Rightarrow> (project_policy list \<times> project_policy) policy_result" where
  "recordShadowGrade rsv redact now d i store =
     storeGrade rsv redact now d
       \<lparr>gi_project = si_project i, gi_repoPath = si_repoPath i, gi_provider = si_provider i, gi_result = si_result i,
        gi_evidence = si_evidence i, gi_providerAccountLabel = si_providerAccountLabel i,
        gi_reviewExecutionId = si_reviewExecutionId i, gi_reviewedExecutionId = si_plannerExecutionId i,
        gi_reviewedProvider = Some (si_planner i), gi_independenceLoss = si_independenceLoss i,
        gi_kind = Grade_shadow, gi_goalId = si_goalId i, gi_reviewReceiptId = None\<rparr> store"

definition recordIndependentGrade ::
  "(string \<Rightarrow> string) \<Rightarrow> (string \<Rightarrow> string) \<Rightarrow> instant \<Rightarrow> db \<Rightarrow> grade_input \<Rightarrow> project_policy list
     \<Rightarrow> (project_policy list \<times> project_policy) policy_result" where
  "recordIndependentGrade rsv redact now d i store =
     storeGrade rsv redact now d (i\<lparr>gi_kind := Grade_execution\<rparr>) store"

section \<open>The kill switch and admission\<close>

text \<open>The stop file: its time and reason.\<close>

type_synonym stop_file = "(instant \<times> string) option"

definition requestGlobalStop :: "instant \<Rightarrow> string option \<Rightarrow> stop_file \<Rightarrow> stop_file" where
  "requestGlobalStop now reason f = Some (now, or_default reason ''manual kill switch'')"

definition clearGlobalStop :: "stop_file \<Rightarrow> stop_file" where
  "clearGlobalStop f = None"

definition globalStopRequested :: "stop_file \<Rightarrow> bool" where
  "globalStopRequested f = (f \<noteq> None)"

definition assertExecutionAllowed :: "stop_file \<Rightarrow> project_policy \<Rightarrow> unit policy_result" where
  "assertExecutionAllowed f p =
     (if globalStopRequested f then Inl Kill_switch_active
      else if pp_trust p = Trust_observe \<or> pp_maxWorkers p < 1
        then Inl (Execution_disabled (pp_project p) (pp_projectClass p) (pp_trust p))
      else Inr ())"

definition listProjectPolicies :: "project_policy list \<Rightarrow> project_policy list" where
  "listProjectPolicies store = store"

definition removeProjectPolicies ::
  "(project_policy \<Rightarrow> bool) \<Rightarrow> project_policy list \<Rightarrow> project_policy list \<times> project_policy list" where
  "removeProjectPolicies remove store =
     (let removed = filter remove store in
      if removed = [] then (store, removed) else (filter (\<lambda>p. \<not> remove p) store, removed))"

section \<open>Autonomy\<close>

datatype autonomy_boundary = Bnd_auto | Bnd_policy_gated | Bnd_human_gated

datatype autonomous_action =
    Act_project_read | Act_project_edit | Act_project_delete | Act_development_command | Act_dependency_install
  | Act_web_research | Act_branch_create | Act_development_push | Act_pull_request | Act_ci_repair
  | Act_staging_deploy | Act_production_deploy | Act_merge_protected_branch | Act_new_paid_spend
  | Act_credential_scope_change | Act_production_data_delete | Act_identity_security_change
  | Act_unrelated_project_access

definition CONTAINED_AUTO :: "autonomous_action list" where
  "CONTAINED_AUTO = [Act_project_read, Act_project_edit, Act_project_delete, Act_development_command,
     Act_dependency_install, Act_web_research, Act_branch_create, Act_ci_repair]"

definition EXTERNAL_POLICY :: "autonomous_action list" where
  "EXTERNAL_POLICY = [Act_development_push, Act_pull_request, Act_staging_deploy, Act_merge_protected_branch]"

definition classifyAutonomyBoundary :: "project_policy \<Rightarrow> autonomous_action \<Rightarrow> autonomy_boundary" where
  "classifyAutonomyBoundary p a =
     (if a \<in> {Act_new_paid_spend, Act_credential_scope_change, Act_production_data_delete,
              Act_identity_security_change, Act_production_deploy, Act_unrelated_project_access} then Bnd_human_gated
      else if a \<in> set CONTAINED_AUTO then Bnd_auto
      else if a \<in> set EXTERNAL_POLICY then (if pp_allowExternalWrites p then Bnd_auto else Bnd_policy_gated)
      else Bnd_policy_gated)"

text \<open>The three fields of a goal the metrics read.\<close>

record goal_facts =
  gf_ownerGate :: "string option"
  gf_done :: bool
  gf_cycle :: int

record autonomy_metrics =
  mt_tasks :: nat
  mt_humanInterventions :: nat
  mt_completedWithoutInterruption :: nat
  mt_completionWithoutInterruptionRate :: rat
  mt_retryingTasks :: nat
  mt_recoveredRetryingTasks :: nat
  mt_blockerSelfResolutionRate :: rat

definition uninterrupted :: "goal_facts \<Rightarrow> bool" where
  "uninterrupted g = (gf_done g \<and> truthy_text (gf_ownerGate g) = None)"

definition autonomyMetrics :: "goal_facts list \<Rightarrow> autonomy_metrics" where
  "autonomyMetrics goals =
     (let completed = count_where uninterrupted goals;
          retrying = filter (\<lambda>g. gf_cycle g > 1) goals;
          recovered = count_where uninterrupted retrying
      in \<lparr>mt_tasks = length goals,
          mt_humanInterventions = count_where (\<lambda>g. truthy_text (gf_ownerGate g) \<noteq> None) goals,
          mt_completedWithoutInterruption = completed,
          mt_completionWithoutInterruptionRate = (if goals = [] then 0 else of_nat completed / of_nat (length goals)),
          mt_retryingTasks = length retrying, mt_recoveredRetryingTasks = recovered,
          mt_blockerSelfResolutionRate = (if retrying = [] then 0 else of_nat recovered / of_nat (length retrying))\<rparr>)"

end
