(* ===== verification/Admission.thy ===== *)
theory Admission
  imports Regex Policy
begin

text \<open>
  Admission of a goal (the first half of src/supervisor/worker-report.ts): the
  deterministic risk assessment of an objective and the promotion contract it freezes. The
  risk patterns are the source's regular expressions, read and matched by \<open>Regex\<close>.
\<close>

section \<open>Risk patterns\<close>

text \<open>\<open>lower_before_upper\<close> is \<^verbatim>\<open>/([a-z])([A-Z])/g\<close> with \<^verbatim>\<open>'$1 $2'\<close>.\<close>

fun lower_before_upper :: "string \<Rightarrow> string" where
  "lower_before_upper (c # d # cs) =
     (if ascii_lower c \<and> ascii_upper d then c # CHR '' '' # lower_before_upper (d # cs)
      else c # lower_before_upper (d # cs))"
| "lower_before_upper s = s"

text \<open>
  \<^verbatim>\<open>/([A-Z]{2,})([A-Z][a-z]{2})/g\<close> with \<^verbatim>\<open>'$1 $2'\<close>: a blank before an upper-case letter that has
  two upper-case letters before it and two lower-case letters after it.
\<close>

primrec acronym_end :: "string \<Rightarrow> string \<Rightarrow> string" where
  "acronym_end bef [] = []"
| "acronym_end bef (c # cs) =
     (if ascii_upper c \<and> length (takeWhile ascii_upper bef) \<ge> 2
         \<and> length (takeWhile ascii_lower cs) \<ge> 2
      then CHR '' '' # c # acronym_end (c # bef) cs
      else c # acronym_end (c # bef) cs)"

text \<open>Every run of characters in \<open>P\<close> becomes one blank.\<close>

primrec blank_runs :: "(char \<Rightarrow> bool) \<Rightarrow> bool \<Rightarrow> string \<Rightarrow> string" where
  "blank_runs P inside [] = []"
| "blank_runs P inside (c # cs) =
     (if P c then (if inside then blank_runs P True cs else CHR '' '' # blank_runs P True cs)
      else c # blank_runs P False cs)"

definition riskText :: "string \<Rightarrow> string" where
  "riskText raw =
     blank_runs js_space False
       (blank_runs (\<lambda>c. c \<in> {CHR ''_'', CHR ''-''}) False
         (acronym_end [] (lower_before_upper raw)))"

definition words :: "string \<Rightarrow> string" where
  "words alternatives = pat ''%b(?:'' @ alternatives @ pat '')%b''"

definition GAP :: string where
  "GAP = pat ''(?:%w+ ){0,2}''"

definition RISK_CRITERIA :: "(sdlc_risk_key \<times> string \<times> string) list" where
  "RISK_CRITERIA =
    [(Risk_touchesAuthority,
      words (pat (''authorit(?:y|ies)|permissions?|polic(?:y|ies)|promot(?:e|es|ed|ing|ion|ions)|completion|'' @
        ''reviewers?|(?:independent|required|mandatory|code|pr|adversarial) reviews?|'' @
        ''reviews? (?:gate|policy|depth|requirements?|approvals?)|'' @
        ''(?:bypass|skip|require|request|need)%w* '') @ GAP @ pat ''reviews?|review '' @ GAP @
        pat ''(?:pr|pull request|diff)s?''),
      ''authority''),
     (Risk_touchesPersistence,
      words (pat ''databases?|db|sqlite|postgres%w*|schemas?|migrat%w*|persist%w*|storage''),
      ''persistence''),
     (Risk_touchesSecurity,
      words (pat (''idor|xss|sqli|cors|csp|cross site (?:scripting|request forgery)|(?:sql|command|code|prompt|html|script) injection|'' @
        ''branch protection|protected branch%w*|rulesets?|(?:repo|repository) visibility|public (?:repos?|repositor(?:y|ies)|buckets?)|'' @
        ''mak%w* '') @ GAP @ pat (''(?:repos?|repositor(?:y|ies)|buckets?|projects?) public|'' @
        ''security|secrets?|credentials?|passwords?|auth|authn|authz|(?:un)?authenticat%w*|(?:un)?authori[sz]%w*|'' @
        ''log ?(?:in|ins|ged in)|sign(?:s|ed|ing)? ?(?:in|on)|sso|access ?controls?|rls|'' @
        ''identit(?:y|ies)|oauth%w*|mfa|2fa|rbac|privileges?|(?:en|de)crypt%w*|privacy|pii|jwts?|csrf|api ?keys?|signatures?|sign(?:ing|ed)? (?:urls?|requests?|keys?)|(?:urls?|requests?) sign(?:ing|ed|atures?)?|'' @
        ''(?<!design )tokens?(?! (?:budgets?|usage|counts?|limits?|diet|costs?|spend))|'' @
        ''sessions? (?:tokens?|cookies?|fixation|hijack%w*|expir%w*|revo[ck]%w*|timeouts?|security|management|ids?|keys?|secrets?)|'' @
        ''(?:invalidat|expir|revok|terminat|hijack|rotat)%w* '') @ GAP @ pat (''sessions?|'' @
        ''roles? (?:based|assignments?|permissions?|checks?|guards?|hierarch%w*|escalation)|'' @
        ''(?:assign|grant|revok|check|elevat|chang|remov)%w* '') @ GAP @
        pat ''roles?|(?:user|admin|member|owner) roles?''),
      ''security''),
     (Risk_externalEffect,
      words (pat (''deploy%w*|publish%w*|(?:auto ?)?merg(?:e|es|ed|ing)|external ?writes?|'' @
        ''(?:git|force) push%w*|push%w* (?:%w+ )?(?:force|f)|'' @
        ''push%w* '') @ GAP @ pat ''to (?:main|master|prod%w*|origin|remote|github|upstream)''),
      ''external effect''),
     (Risk_irreversible,
      words (pat (''payments?|billing|stripe|refunds?|dns|nameservers?|domain (?:records?|transfers?)|'' @
        ''irreversibl%w*|destructive|delet(?:e|es|ed|ing|ion|ions)|truncat%w*|wip(?:e|es|ed|ing)|purg(?:e|es|ed|ing)|'' @
        ''rm rf|reset hard|'' @
        ''drop%w* '') @ GAP @ pat ''(?:tables?|columns?|databases?|index(?:es)?|schemas?|data|users?|records?|rows?)''),
      ''irreversibility''),
     (Risk_broadBlastRadius,
      words (pat (''global(?:ly)?|installers?|broad|'' @
        ''shared (?:%w+ )?(?:state|memory|dependency|dependencies|librar(?:y|ies)|config%w*|database|infra%w*|runtime)|'' @
        ''(?:supervisor|major|production) runtime'')),
      ''blast radius'')]"

definition SUBSTANTIVE_OUTCOME :: string where
  "SUBSTANTIVE_OUTCOME =
     pat ''%b(build|repair|ship|release|redesign|migrat%w*|integrat%w*|end[- ]to[- ]end|architecture|workflow|runtime|system)%b''"

definition risk_hit :: "string list \<Rightarrow> string \<Rightarrow> bool" where
  "risk_hit facts pattern = list_ex (pattern_test True pattern) facts"

section \<open>The assessment\<close>

datatype admission_class = Adm_bounded | Adm_substantive | Adm_high_consequence | Adm_unavailable

record risk_assessment =
  ra_classification :: admission_class
  ra_estimatedFiles :: int
  ra_acceptancePaths :: int
  ra_risk :: "(sdlc_risk_key \<times> bool) list"
  ra_materialRiskCriteria :: "string list"

record policy_facts =
  af_projectClass :: project_class
  af_trust :: trust_level
  af_allowExternalWrites :: bool
  af_allowPaidSpend :: bool

record promotion_contract =
  sc_review :: review_level
  sc_materialRiskCriteria :: "string list"
  sc_broaderValidationTriggers :: "broader_validation_trigger list"
  sc_repositoryPolicyRequiresBroadValidation :: bool

definition DEFAULT_SUPERVISOR_PROMOTION_CONTRACT :: promotion_contract where
  "DEFAULT_SUPERVISOR_PROMOTION_CONTRACT =
     \<lparr>sc_review = Rev_focused, sc_materialRiskCriteria = [], sc_broaderValidationTriggers = [],
      sc_repositoryPolicyRequiresBroadValidation = False\<rparr>"

definition unavailable_assessment :: risk_assessment where
  "unavailable_assessment =
     \<lparr>ra_classification = Adm_unavailable, ra_estimatedFiles = 3, ra_acceptancePaths = 2,
      ra_risk = [(Risk_touchesAuthority, True), (Risk_broadBlastRadius, True)],
      ra_materialRiskCriteria = [''authority'', ''blast radius'']\<rparr>"

text \<open>Assignment of a property of an object: a new key goes to the end.\<close>

definition set_risk :: "sdlc_risk_key \<Rightarrow> (sdlc_risk_key \<times> bool) list \<Rightarrow> (sdlc_risk_key \<times> bool) list" where
  "set_risk k risk = (if k \<in> fst ` set risk then risk else risk @ [(k, True)])"

definition add_criterion :: "string \<Rightarrow> string list \<Rightarrow> string list" where
  "add_criterion c cs = (if c \<in> set cs then cs else cs @ [c])"

text \<open>The length of \<^verbatim>\<open>split(/\s+/)\<close>: one more than the number of runs of white space.\<close>

primrec space_runs :: "bool \<Rightarrow> string \<Rightarrow> nat" where
  "space_runs inside [] = 0"
| "space_runs inside (c # cs) =
     (if js_space c then (if inside then 0 else 1) + space_runs True cs else space_runs False cs)"

definition split_pieces :: "string \<Rightarrow> nat" where
  "split_pieces s = 1 + space_runs False s"

definition matched_risks :: "string list \<Rightarrow> (sdlc_risk_key \<times> string \<times> string) list" where
  "matched_risks facts = filter (\<lambda>(k, p, c). risk_hit facts p) RISK_CRITERIA"

definition assessSupervisorAdmissionRisk ::
  "string \<Rightarrow> string list option \<Rightarrow> policy_facts option \<Rightarrow> risk_assessment" where
  "assessSupervisorAdmissionRisk outcome0 requiredOperations policy =
     (let outcome = js_trim outcome0;
          operations = rev (remdups (rev (case requiredOperations of None \<Rightarrow> [] | Some ops \<Rightarrow> ops)))
      in case policy of
           None \<Rightarrow> unavailable_assessment
         | Some pol \<Rightarrow>
           if outcome = [] \<or> af_projectClass pol = Class_unknown then unavailable_assessment
           else
             let facts = map riskText (outcome # operations);
                 matched = matched_risks facts;
                 risk0 = map (\<lambda>(k, p, c). (k, True)) matched;
                 criteria0 = map (\<lambda>(k, p, c). c) matched;
                 unattended = (af_trust pol = Trust_unattended);
                 risk1 = (if unattended then set_risk Risk_touchesAuthority risk0 else risk0);
                 criteria1 = (if unattended then add_criterion ''authority'' criteria0 else criteria0);
                 client = (af_projectClass pol = Class_client);
                 risk = (if client then set_risk Risk_touchesSecurity risk1 else risk1);
                 criteria = (if client then add_criterion ''security'' criteria1 else criteria1);
                 highConsequence = list_ex snd risk;
                 substantive = (pattern_test True SUBSTANTIVE_OUTCOME outcome
                                \<or> split_pieces outcome \<ge> 8 \<or> length operations \<ge> 2)
             in \<lparr>ra_classification = (if highConsequence then Adm_high_consequence
                                     else if substantive then Adm_substantive else Adm_bounded),
                 ra_estimatedFiles = (if substantive \<or> highConsequence then 3 else 1),
                 ra_acceptancePaths = (if substantive \<or> highConsequence then 2 else 1),
                 ra_risk = risk,
                 ra_materialRiskCriteria = criteria\<rparr>)"

definition deriveSupervisorPromotionContract ::
  "risk_assessment option \<Rightarrow> string list option \<Rightarrow> (sdlc_error, promotion_contract) result" where
  "deriveSupervisorPromotionContract admission requiredOperations =
     (let assessment = (case admission of Some a \<Rightarrow> a
            | None \<Rightarrow> assessSupervisorAdmissionRisk [] requiredOperations None)
      in rbind (decideSdlc (Js_finite (of_int (ra_estimatedFiles assessment)))
                           (Js_finite (of_int (ra_acceptancePaths assessment))) (ra_risk assessment))
           (\<lambda>decision. Inr
              \<lparr>sc_review = sd_review decision,
               sc_materialRiskCriteria = ra_materialRiskCriteria assessment,
               sc_broaderValidationTriggers =
                 (if (Risk_broadBlastRadius, True) \<in> set (ra_risk assessment) then [Trig_blast_radius] else []),
               sc_repositoryPolicyRequiresBroadValidation = False\<rparr>))"

text \<open>
  The evidence a worker reports for a goal without a canonical task. An enumeration that is
  checked after \<^verbatim>\<open>String(...)\<close> may be the name, or an array that holds only the name: the second
  passes the check and equals no name later.
\<close>

datatype 'a coerced = Plain 'a | Coerced json

record broader_evidence =
  be_triggers :: "broader_validation_trigger list"
  be_repositoryPolicyRequires :: bool
  be_performed :: bool
  be_cost :: "string option"
  be_expectedInformationGain :: "string option"
  be_evidence :: "string option"

record promotion_evidence =
  pe_focusedTests :: string
  pe_cheapestCompileTypeOrBuild :: string
  pe_criticalPathBehavior :: string
  pe_materialRiskChecks :: "(string \<times> string) list"
  pe_broaderValidation :: broader_evidence
  pe_review :: "review_level coerced \<times> bool"
  pe_blockerFindings :: nat

section \<open>What admission decides\<close>

definition unassessable :: "string \<Rightarrow> policy_facts option \<Rightarrow> bool" where
  "unassessable outcome policy \<longleftrightarrow>
     js_trim outcome = [] \<or> (case policy of None \<Rightarrow> True | Some p \<Rightarrow> af_projectClass p = Class_unknown)"

definition admission_facts :: "string \<Rightarrow> string list option \<Rightarrow> string list" where
  "admission_facts outcome ops =
     map riskText (js_trim outcome # rev (remdups (rev (case ops of None \<Rightarrow> [] | Some os \<Rightarrow> os))))"

text \<open>The objective or an operation matches a pattern of this risk.\<close>

definition risk_found :: "sdlc_risk_key \<Rightarrow> string \<Rightarrow> string list option \<Rightarrow> bool" where
  "risk_found k outcome ops \<longleftrightarrow>
     (\<exists>(k', pattern, criterion) \<in> set RISK_CRITERIA. k' = k \<and> risk_hit (admission_facts outcome ops) pattern)"

lemma set_risk_mem:
  "\<forall>x \<in> set risk. snd x \<Longrightarrow> x \<in> set (set_risk k risk) \<longleftrightarrow> x \<in> set risk \<or> x = (k, True)"
  by (force simp: set_risk_def)

lemma set_risk_true: "\<forall>x \<in> set risk. snd x \<Longrightarrow> \<forall>x \<in> set (set_risk k risk). snd x"
  by (auto simp: set_risk_def)

lemma matched_risk_mem:
  "(k, True) \<in> set (map (\<lambda>(k, p, c). (k, True)) (matched_risks (admission_facts outcome ops))) \<longleftrightarrow> risk_found k outcome ops"
  by (force simp: matched_risks_def risk_found_def)

lemma assess_unavailable:
  assumes "unassessable outcome policy"
  shows "assessSupervisorAdmissionRisk outcome ops policy = unavailable_assessment"
proof (cases policy)
  case None
  then show ?thesis by (simp only: assessSupervisorAdmissionRisk_def Let_def option.case)
next
  case (Some p)
  then have "(js_trim outcome = [] \<or> af_projectClass p = Class_unknown) = True"
    using assms by (simp add: unassessable_def)
  with Some show ?thesis by (simp only: assessSupervisorAdmissionRisk_def Let_def option.case if_True)
qed

lemma assess_risks:
  assumes "\<not> unassessable outcome (Some pol)"
  shows "x \<in> set (ra_risk (assessSupervisorAdmissionRisk outcome ops (Some pol))) \<longleftrightarrow>
     snd x \<and> (risk_found (fst x) outcome ops
               \<or> (af_trust pol = Trust_unattended \<and> fst x = Risk_touchesAuthority)
               \<or> (af_projectClass pol = Class_client \<and> fst x = Risk_touchesSecurity))"
proof -
  define r0 where "r0 = map (\<lambda>(k, p, c). (k, True)) (matched_risks (admission_facts outcome ops))"
  define r1 where "r1 = (if af_trust pol = Trust_unattended then set_risk Risk_touchesAuthority r0 else r0)"
  have risk: "ra_risk (assessSupervisorAdmissionRisk outcome ops (Some pol)) =
      (if af_projectClass pol = Class_client then set_risk Risk_touchesSecurity r1 else r1)"
    using assms
    by (simp add: assessSupervisorAdmissionRisk_def Let_def unassessable_def r0_def r1_def admission_facts_def
             del: list.map(2))
  have t0: "\<forall>x \<in> set r0. snd x" by (auto simp: r0_def)
  then have t1: "\<forall>x \<in> set r1. snd x" by (simp add: r1_def set_risk_true)
  have m0: "x \<in> set r0 \<longleftrightarrow> snd x \<and> risk_found (fst x) outcome ops" for x
    using t0 matched_risk_mem [of "fst x" outcome ops] unfolding r0_def [symmetric]
    by (cases x) auto
  have m1: "x \<in> set r1 \<longleftrightarrow> snd x \<and> (risk_found (fst x) outcome ops
               \<or> (af_trust pol = Trust_unattended \<and> fst x = Risk_touchesAuthority))" for x
    using m0 [of x] set_risk_mem [OF t0, of x] by (cases x) (auto simp: r1_def)
  show ?thesis
    unfolding risk using m1 [of x] set_risk_mem [OF t1, of x] by (cases x) auto
qed

lemma assess_shape:
  assumes "\<not> unassessable outcome (Some pol)"
  obtains substantive where
    "ra_classification (assessSupervisorAdmissionRisk outcome ops (Some pol)) =
       (if list_ex snd (ra_risk (assessSupervisorAdmissionRisk outcome ops (Some pol))) then Adm_high_consequence
        else if substantive then Adm_substantive else Adm_bounded)"
    "ra_estimatedFiles (assessSupervisorAdmissionRisk outcome ops (Some pol)) =
       (if substantive \<or> list_ex snd (ra_risk (assessSupervisorAdmissionRisk outcome ops (Some pol))) then 3 else 1)"
    "ra_acceptancePaths (assessSupervisorAdmissionRisk outcome ops (Some pol)) =
       (if substantive \<or> list_ex snd (ra_risk (assessSupervisorAdmissionRisk outcome ops (Some pol))) then 2 else 1)"
proof -
  have ne: "(js_trim outcome = [] \<or> af_projectClass pol = Class_unknown) = False"
    using assms by (simp add: unassessable_def)
  show thesis
    by (rule that; simp only: assessSupervisorAdmissionRisk_def Let_def option.case ne if_False risk_assessment.simps)
qed

lemma assess_counts:
  "(ra_classification (assessSupervisorAdmissionRisk outcome ops policy) = Adm_bounded \<longleftrightarrow>
      ra_estimatedFiles (assessSupervisorAdmissionRisk outcome ops policy) \<le> 2
      \<and> ra_acceptancePaths (assessSupervisorAdmissionRisk outcome ops policy) \<le> 1
      \<and> filter snd (ra_risk (assessSupervisorAdmissionRisk outcome ops policy)) = [])
   \<and> ra_estimatedFiles (assessSupervisorAdmissionRisk outcome ops policy) \<ge> 0
   \<and> ra_acceptancePaths (assessSupervisorAdmissionRisk outcome ops policy) \<ge> 1"
proof (cases "unassessable outcome policy")
  case True
  then show ?thesis by (simp add: assess_unavailable unavailable_assessment_def)
next
  case False
  then obtain p where p: "policy = Some p" by (cases policy) (auto simp: unassessable_def)
  obtain substantive where s: "ra_classification (assessSupervisorAdmissionRisk outcome ops policy) =
       (if list_ex snd (ra_risk (assessSupervisorAdmissionRisk outcome ops policy)) then Adm_high_consequence
        else if substantive then Adm_substantive else Adm_bounded)"
    "ra_estimatedFiles (assessSupervisorAdmissionRisk outcome ops policy) =
       (if substantive \<or> list_ex snd (ra_risk (assessSupervisorAdmissionRisk outcome ops policy)) then 3 else 1)"
    "ra_acceptancePaths (assessSupervisorAdmissionRisk outcome ops policy) =
       (if substantive \<or> list_ex snd (ra_risk (assessSupervisorAdmissionRisk outcome ops policy)) then 2 else 1)"
    by (rule assess_shape [OF False [unfolded p], of ops, folded p])
  have "filter snd rs = [] \<longleftrightarrow> \<not> list_ex snd rs" for rs :: "(sdlc_risk_key \<times> bool) list"
    by (auto simp: filter_empty_conv list_ex_iff)
  then show ?thesis unfolding s by simp
qed

lemma risks_of_assessment:
  "(\<exists>k \<in> set HIGH_CONSEQUENCE_RISKS. (k, True) \<in> set (ra_risk (assessSupervisorAdmissionRisk outcome ops policy)))
     \<longleftrightarrow> unassessable outcome policy
       \<or> (\<exists>p. policy = Some p \<and> (af_trust p = Trust_unattended \<or> af_projectClass p = Class_client))
       \<or> (\<exists>k \<in> set HIGH_CONSEQUENCE_RISKS. risk_found k outcome ops)"
  "(Risk_broadBlastRadius, True) \<in> set (ra_risk (assessSupervisorAdmissionRisk outcome ops policy))
     \<longleftrightarrow> unassessable outcome policy \<or> risk_found Risk_broadBlastRadius outcome ops"
proof -
  have "(k, True) \<in> set (ra_risk (assessSupervisorAdmissionRisk outcome ops policy)) \<longleftrightarrow>
      (if unassessable outcome policy then k \<in> {Risk_touchesAuthority, Risk_broadBlastRadius}
       else risk_found k outcome ops
         \<or> (\<exists>p. policy = Some p \<and> (af_trust p = Trust_unattended \<and> k = Risk_touchesAuthority
                                  \<or> af_projectClass p = Class_client \<and> k = Risk_touchesSecurity)))" for k
  proof (cases "unassessable outcome policy")
    case True
    then show ?thesis by (simp add: assess_unavailable unavailable_assessment_def)
  next
    case False
    then obtain p where p: "policy = Some p" by (cases policy) (auto simp: unassessable_def)
    show ?thesis using assess_risks [OF False [unfolded p], of "(k, True)" ops] False p by auto
  qed
  then show "(\<exists>k \<in> set HIGH_CONSEQUENCE_RISKS. (k, True) \<in> set (ra_risk (assessSupervisorAdmissionRisk outcome ops policy)))
     \<longleftrightarrow> unassessable outcome policy
       \<or> (\<exists>p. policy = Some p \<and> (af_trust p = Trust_unattended \<or> af_projectClass p = Class_client))
       \<or> (\<exists>k \<in> set HIGH_CONSEQUENCE_RISKS. risk_found k outcome ops)"
    "(Risk_broadBlastRadius, True) \<in> set (ra_risk (assessSupervisorAdmissionRisk outcome ops policy))
     \<longleftrightarrow> unassessable outcome policy \<or> risk_found Risk_broadBlastRadius outcome ops"
    by (auto simp: HIGH_CONSEQUENCE_RISKS_def)
qed

text \<open>
  Admission decides the depth of the review from the objective, the operations and the
  project policy alone, and it always decides. The review is independent exactly when the
  goal cannot be assessed, the project runs unattended or belongs to a client, or the text
  matches a pattern of a high-consequence risk; there is no review exactly for a bounded
  goal; and broad validation is triggered exactly when the goal cannot be assessed or
  matches a blast-radius pattern.
\<close>

theorem admission_decides_review:
  "\<exists>c. deriveSupervisorPromotionContract (Some (assessSupervisorAdmissionRisk outcome ops policy)) ops' = Inr c
     \<and> (sc_review c = Rev_independent \<longleftrightarrow>
          unassessable outcome policy
          \<or> (\<exists>p. policy = Some p \<and> (af_trust p = Trust_unattended \<or> af_projectClass p = Class_client))
          \<or> (\<exists>k \<in> set HIGH_CONSEQUENCE_RISKS. risk_found k outcome ops))
     \<and> (sc_review c = Rev_none \<longleftrightarrow>
          ra_classification (assessSupervisorAdmissionRisk outcome ops policy) = Adm_bounded)
     \<and> (Trig_blast_radius \<in> set (sc_broaderValidationTriggers c) \<longleftrightarrow>
          unassessable outcome policy \<or> risk_found Risk_broadBlastRadius outcome ops)"
proof -
  let ?a = "assessSupervisorAdmissionRisk outcome ops policy"
  have counts: "ra_estimatedFiles ?a \<ge> 0" "ra_acceptancePaths ?a \<ge> 1"
    "ra_classification ?a = Adm_bounded \<longleftrightarrow>
       ra_estimatedFiles ?a \<le> 2 \<and> ra_acceptancePaths ?a \<le> 1 \<and> filter snd (ra_risk ?a) = []"
    using assess_counts [of outcome ops policy] by blast+
  let ?high = "\<exists>k \<in> set HIGH_CONSEQUENCE_RISKS. (k, True) \<in> set (ra_risk ?a)"
  have none: "ra_classification ?a = Adm_bounded \<Longrightarrow> \<not> ?high"
    unfolding counts(3) by (auto simp: filter_empty_conv)
  have conseq: "list_ex (\<lambda>r. r \<in> set HIGH_CONSEQUENCE_RISKS) (map fst (filter snd (ra_risk ?a))) \<longleftrightarrow> ?high"
    by (force simp: list_ex_iff)
  obtain c where c: "deriveSupervisorPromotionContract (Some ?a) ops' = Inr c"
    "sc_review c = (if ?high then Rev_independent
        else if ra_estimatedFiles ?a > 2 \<or> ra_acceptancePaths ?a > 1 \<or> filter snd (ra_risk ?a) \<noteq> []
        then Rev_focused else Rev_none)"
    "sc_broaderValidationTriggers c =
       (if (Risk_broadBlastRadius, True) \<in> set (ra_risk ?a) then [Trig_blast_radius] else [])"
    using counts(1,2) unfolding conseq [symmetric]
    by (auto simp: deriveSupervisorPromotionContract_def decideSdlc_def Let_def)
  have high: "?high \<longleftrightarrow> unassessable outcome policy
          \<or> (\<exists>p. policy = Some p \<and> (af_trust p = Trust_unattended \<or> af_projectClass p = Class_client))
          \<or> (\<exists>k \<in> set HIGH_CONSEQUENCE_RISKS. risk_found k outcome ops)"
    and broad: "(Risk_broadBlastRadius, True) \<in> set (ra_risk ?a) \<longleftrightarrow>
          unassessable outcome policy \<or> risk_found Risk_broadBlastRadius outcome ops"
    using risks_of_assessment [of outcome ops policy] by blast+
  show ?thesis
    by (rule exI [of _ c]) (use c counts(3) none high broad in \<open>auto split: if_splits\<close>)
qed

end
