(* ===== verification/Goals.thy ===== *)
theory Goals
  imports Admission Run_Service
begin

text \<open>
  The goal store of src/supervisor/state.ts with the candidates of
  src/supervisor/source-identity.ts. A goal is what the owner asked for; a worker may claim
  it complete, and only an independent review may grade the claim. The state is the parsed
  supervisor-state.json; every operation runs under the state lock and writes the whole
  file, so it is a function on the state. Optional fields are options, instants are
  milliseconds, and the several \<^verbatim>\<open>new Date()\<close> of one call are one instant.
  \<open>rsv\<close> is \<^verbatim>\<open>path.resolve\<close>, \<open>cdir\<close> is \<^verbatim>\<open>gitCommonDir\<close> (it reads the file system), \<open>redact\<close> is
  \<^verbatim>\<open>redactText\<close>.
\<close>

section \<open>Candidates\<close>

record source_identity =
  so_head :: string
  so_treeDigest :: string
  so_frozenAt :: instant

datatype candidate_record =
    Cand_no_task source_identity
  | Cand_task source_identity string string json_text
  | Cand_refused source_identity binding_failure

primrec cand_source :: "candidate_record \<Rightarrow> source_identity" where
  "cand_source (Cand_no_task s) = s"
| "cand_source (Cand_task s t p c) = s"
| "cand_source (Cand_refused s f) = s"

text \<open>The kind \<^verbatim>\<open>no_task\<close> of a failed resolution; the others are ambiguous or invalid tasks.\<close>

fun is_no_task :: "binding_failure \<Rightarrow> bool" where
  "is_no_task (Bind_project_not_found r) = True"
| "is_no_task Bind_no_ready_task = True"
| "is_no_task f = False"

definition freezeSupervisorCandidate ::
  "(binding_failure, canonical_task_binding) result \<Rightarrow> source_identity \<Rightarrow> candidate_record" where
  "freezeSupervisorCandidate resolution source =
     (case resolution of
        Inr b \<Rightarrow> Cand_task source (cb_taskId b) (cb_projectId b) (cb_frozenCriteriaJson b)
      | Inl f \<Rightarrow> if is_no_task f then Cand_no_task source else Cand_refused source f)"

definition candidateDispatchFailure :: "candidate_record \<Rightarrow> binding_failure option" where
  "candidateDispatchFailure c = (case c of Cand_refused s f \<Rightarrow> Some f | _ \<Rightarrow> None)"

definition sourceIdentityMatches :: "string \<times> string \<Rightarrow> source_identity option \<Rightarrow> bool" where
  "sourceIdentityMatches expected actual =
     (case actual of None \<Rightarrow> False | Some a \<Rightarrow> so_head a = fst expected \<and> so_treeDigest a = snd expected)"

section \<open>Goals\<close>

record live_worker_claim =
  lw_host :: string
  lw_sessionId :: string
  lw_claimedAt :: instant
  lw_heartbeatAt :: instant

record ownership_reconciliation =
  or_reconciledAt :: instant
  or_previousRepoPath :: string
  or_repoPath :: string
  or_reason :: string

definition LIVE_WORKER_STALE_MS :: int where
  "LIVE_WORKER_STALE_MS = 45 * 60 * 1000"

definition isLiveWorkerFresh :: "instant \<Rightarrow> live_worker_claim \<Rightarrow> bool" where
  "isLiveWorkerFresh now claim = (now - lw_heartbeatAt claim \<le> LIVE_WORKER_STALE_MS)"

datatype goal_status = Gs_active | Gs_running | Gs_blocked | Gs_done | Gs_failed | Gs_paused

definition open_statuses :: "goal_status set" where
  "open_statuses = {Gs_active, Gs_running, Gs_blocked}"

record last_routing =
  rd_host :: provider_host
  rd_provider :: string
  rd_accountLabel :: string
  rd_modelRef :: string
  rd_reason :: string
  rd_selectedAt :: instant

record reviewed_run =
  vr_taskId :: string
  vr_runId :: string
  vr_provider :: provider_host
  vr_providerId :: string
  vr_providerAccountLabel :: string

record writing_claim =
  wc_draft :: string
  wc_draftSha256 :: string
  wc_sourcePacket :: "json option"
  wc_evidence :: "json option"
  wc_redTeamRequired :: bool
  wc_sourceCoverageRequired :: bool

record review_dispatch =
  vd_id :: string
  vd_provider :: provider_host
  vd_capacityKey :: "string option"
  vd_providerId :: "string option"
  vd_providerAccountLabel :: "string option"
  vd_taskId :: "string option"
  vd_runId :: "string option"
  vd_startedAt :: instant

datatype attempt_outcome =
  At_timeout | At_crash | At_missing_result | At_no_verdict | At_missing_session_provenance

record review_attempt =
  at_attempt :: nat
  at_dispatchId :: string
  at_provider :: provider_host
  at_capacityKey :: string
  at_runId :: string
  at_startedAt :: instant
  at_finishedAt :: instant
  at_outcome :: attempt_outcome
  at_evidence :: string

record pending_completion =
  pc_summary :: string
  pc_coordinator :: provider_host
  pc_claimedAt :: instant
  pc_taskId :: "string option"
  pc_promotionCheckedAt :: "instant option"
  pc_promotionEvidence :: "promotion_evidence option"
  pc_promotionContract :: "promotion_contract option"
  pc_sourceHead :: "string option"
  pc_sourceTreeDigest :: "string option"
  pc_candidate :: "candidate_record option"
  pc_reviewedRun :: "reviewed_run option"
  pc_writing :: "writing_claim option"
  pc_reviewDispatch :: "review_dispatch option"
  pc_reviewAttempts :: "review_attempt list option"

record supervisor_goal =
  sg_id :: string
  sg_project :: string
  sg_repoPath :: string
  sg_goal :: string
  sg_autonomous :: bool
  sg_status :: goal_status
  sg_preferredCoordinator :: provider_host
  sg_pinnedCoordinator :: "provider_host option"
  sg_cycle :: nat
  sg_consecutiveFailures :: nat
  sg_createdAt :: instant
  sg_updatedAt :: instant
  sg_lastStartedAt :: "instant option"
  sg_lastFinishedAt :: "instant option"
  sg_lastSummary :: "string option"
  sg_ownerGate :: "string option"
  sg_activePid :: "int option"
  sg_nextRunAt :: "instant option"
  sg_lastCoordinator :: "provider_host option"
  sg_lastAccountLabel :: "string option"
  sg_lastSessionRef :: "string option"
  sg_lastRoutingDecision :: "last_routing option"
  sg_requiredOperations :: "string list option"
  sg_admissionRiskAssessment :: "risk_assessment option"
  sg_promotionContract :: "promotion_contract option"
  sg_candidate :: "candidate_record option"
  sg_retryImmediately :: "bool option"
  sg_liveWorker :: "live_worker_claim option"
  sg_lastOwnershipReconciliation :: "ownership_reconciliation option"
  sg_pendingCompletion :: "pending_completion option"

record workshop_authorization =
  wa_revoked :: bool
  wa_authorizedAt :: instant
  wa_expiresAt :: instant
  wa_revokedAt :: "instant option"

record session_attachment =
  sa_id :: string
  sa_host :: string
  sa_interactionOrigin :: "string option"
  sa_cwd :: string
  sa_project :: "string option"
  sa_repoPath :: "string option"
  sa_sessionId :: "string option"
  sa_workshop :: "workshop_authorization option"
  sa_attachedAt :: instant

record supervisor_state =
  ss_goals :: "supervisor_goal list"
  ss_sessions :: "session_attachment list"

definition emptyState :: supervisor_state where
  "emptyState = \<lparr>ss_goals = [], ss_sessions = []\<rparr>"

datatype goal_error = Goal_not_found string | Contract_invalid sdlc_error

definition getGoal :: "string \<Rightarrow> supervisor_state \<Rightarrow> supervisor_goal option" where
  "getGoal i st = lookup_row sg_id i (ss_goals st)"

text \<open>Objects are mutated in place: the first goal that satisfies \<open>P\<close> is replaced.\<close>

definition put_goal :: "(supervisor_goal \<Rightarrow> bool) \<Rightarrow> supervisor_goal \<Rightarrow> supervisor_state \<Rightarrow> supervisor_state" where
  "put_goal P g st = st\<lparr>ss_goals := update_first P (\<lambda>_. g) (ss_goals st)\<rparr>"

abbreviation store_goal :: "supervisor_goal \<Rightarrow> supervisor_state \<Rightarrow> supervisor_state" where
  "store_goal g \<equiv> put_goal (\<lambda>x. sg_id x = sg_id g) g"

definition same_project ::
  "(string \<Rightarrow> string) \<Rightarrow> (string \<Rightarrow> string option) \<Rightarrow> string \<Rightarrow> string \<Rightarrow> supervisor_goal \<Rightarrow> bool" where
  "same_project rsv cdir project repoPath g =
     (sg_project g = project
      \<or> (cdir (rsv repoPath) \<noteq> None \<and> cdir (rsv (sg_repoPath g)) = cdir (rsv repoPath)))"

definition open_goal ::
  "(string \<Rightarrow> string) \<Rightarrow> (string \<Rightarrow> string option) \<Rightarrow> string \<Rightarrow> string \<Rightarrow> supervisor_goal \<Rightarrow> bool" where
  "open_goal rsv cdir project repoPath g =
     (same_project rsv cdir project repoPath g \<and> sg_status g \<in> open_statuses)"

definition clearSessionContinuityOnOutcomeChange :: "string \<Rightarrow> supervisor_goal \<Rightarrow> supervisor_goal" where
  "clearSessionContinuityOnOutcomeChange outcome g =
     (if sg_goal g = outcome then g else g\<lparr>sg_lastSessionRef := None, sg_lastSummary := None\<rparr>)"

definition contract_of ::
  "risk_assessment option \<Rightarrow> string list option \<Rightarrow> (goal_error, promotion_contract) result" where
  "contract_of a ops =
     (case deriveSupervisorPromotionContract a ops of Inl e \<Rightarrow> Inl (Contract_invalid e) | Inr c \<Rightarrow> Inr c)"

section \<open>Starting and admitting goals\<close>

record start_input =
  sti_project :: string
  sti_repoPath :: string
  sti_goal :: string
  sti_autonomous :: bool
  sti_preferredCoordinator :: "provider_host option"
  sti_pinnedCoordinator :: "provider_host option"
  sti_requiredOperations :: "string list option"
  sti_admissionRiskAssessment :: "risk_assessment option"

definition new_goal ::
  "(string \<Rightarrow> string) \<Rightarrow> instant \<Rightarrow> string \<Rightarrow> start_input \<Rightarrow> promotion_contract \<Rightarrow> supervisor_goal" where
  "new_goal rsv now uuid i contract =
     \<lparr>sg_id = uuid, sg_project = sti_project i, sg_repoPath = rsv (sti_repoPath i), sg_goal = sti_goal i,
      sg_autonomous = sti_autonomous i, sg_status = Gs_active,
      sg_preferredCoordinator =
        (case sti_pinnedCoordinator i of Some h \<Rightarrow> h
         | None \<Rightarrow> or_default (sti_preferredCoordinator i) Host_claude),
      sg_pinnedCoordinator = sti_pinnedCoordinator i, sg_cycle = 0, sg_consecutiveFailures = 0,
      sg_createdAt = now, sg_updatedAt = now, sg_lastStartedAt = None, sg_lastFinishedAt = None,
      sg_lastSummary = None, sg_ownerGate = None, sg_activePid = None, sg_nextRunAt = Some now,
      sg_lastCoordinator = None, sg_lastAccountLabel = None, sg_lastSessionRef = None,
      sg_lastRoutingDecision = None,
      sg_requiredOperations = (case sti_requiredOperations i of Some [] \<Rightarrow> None | ops \<Rightarrow> ops),
      sg_admissionRiskAssessment = sti_admissionRiskAssessment i,
      sg_promotionContract = Some contract, sg_candidate = None, sg_retryImmediately = None,
      sg_liveWorker = None, sg_lastOwnershipReconciliation = None, sg_pendingCompletion = None\<rparr>"

definition restarted ::
  "(string \<Rightarrow> string) \<Rightarrow> instant \<Rightarrow> start_input \<Rightarrow> promotion_contract \<Rightarrow> supervisor_goal \<Rightarrow> supervisor_goal" where
  "restarted rsv now i contract g =
     (clearSessionContinuityOnOutcomeChange (sti_goal i) (g\<lparr>sg_project := sti_project i\<rparr>))
       \<lparr>sg_goal := sti_goal i, sg_repoPath := rsv (sti_repoPath i), sg_autonomous := sti_autonomous i,
        sg_pinnedCoordinator := sti_pinnedCoordinator i,
        sg_preferredCoordinator := or_default (sti_pinnedCoordinator i) (sg_preferredCoordinator g),
        sg_requiredOperations := sti_requiredOperations i,
        sg_admissionRiskAssessment := sti_admissionRiskAssessment i,
        sg_promotionContract := Some contract, sg_status := Gs_active, sg_updatedAt := now,
        sg_ownerGate := None, sg_pendingCompletion := None, sg_nextRunAt := Some now,
        sg_retryImmediately := Some False\<rparr>"

definition startGoal ::
  "(string \<Rightarrow> string) \<Rightarrow> (string \<Rightarrow> string option) \<Rightarrow> instant \<Rightarrow> string \<Rightarrow> start_input \<Rightarrow> supervisor_state
     \<Rightarrow> (goal_error, supervisor_state \<times> supervisor_goal) result" where
  "startGoal rsv cdir now uuid i st =
     rbind (contract_of (sti_admissionRiskAssessment i) (sti_requiredOperations i)) (\<lambda>contract.
       let P = open_goal rsv cdir (sti_project i) (sti_repoPath i) in
       case find P (ss_goals st) of
         Some g \<Rightarrow> let g' = restarted rsv now i contract g in Inr (put_goal P g' st, g')
       | None \<Rightarrow> let g = new_goal rsv now uuid i contract
                in Inr (st\<lparr>ss_goals := ss_goals st @ [g]\<rparr>, g))"

record admit_input =
  ai_project :: string
  ai_repoPath :: string
  ai_outcome :: string
  ai_preferredCoordinator :: "provider_host option"
  ai_admissionRiskAssessment :: "risk_assessment option"
  ai_assessPreservedOutcome :: "(string \<Rightarrow> risk_assessment) option"
  ai_refine :: bool

definition refined :: "instant \<Rightarrow> admit_input \<Rightarrow> promotion_contract \<Rightarrow> supervisor_goal \<Rightarrow> supervisor_goal" where
  "refined now i contract g =
     (clearSessionContinuityOnOutcomeChange (ai_outcome i)
        (g\<lparr>sg_pendingCompletion := None, sg_candidate := None, sg_activePid := None, sg_status := Gs_active,
           sg_ownerGate := None, sg_retryImmediately := Some False, sg_nextRunAt := Some now\<rparr>))
       \<lparr>sg_goal := ai_outcome i, sg_admissionRiskAssessment := ai_admissionRiskAssessment i,
        sg_promotionContract := Some contract, sg_updatedAt := now\<rparr>"

definition assessed :: "instant \<Rightarrow> risk_assessment \<Rightarrow> promotion_contract \<Rightarrow> supervisor_goal \<Rightarrow> supervisor_goal" where
  "assessed now a contract g =
     g\<lparr>sg_admissionRiskAssessment := Some a, sg_promotionContract := Some contract, sg_updatedAt := now\<rparr>"

definition resumed :: "instant \<Rightarrow> admit_input \<Rightarrow> supervisor_goal \<Rightarrow> (goal_error, supervisor_goal) result" where
  "resumed now i g =
     (if ai_refine i
      then rbind (contract_of (ai_admissionRiskAssessment i) None) (\<lambda>c. Inr (refined now i c g))
      else case (sg_admissionRiskAssessment g, ai_assessPreservedOutcome i) of
             (None, Some assess) \<Rightarrow>
               (let a = assess (sg_goal g) in
                rbind (contract_of (Some a) None) (\<lambda>c. Inr (assessed now a c g)))
           | _ \<Rightarrow> Inr g)"

definition start_of_admission :: "admit_input \<Rightarrow> start_input" where
  "start_of_admission i =
     \<lparr>sti_project = ai_project i, sti_repoPath = ai_repoPath i, sti_goal = ai_outcome i,
      sti_autonomous = False, sti_preferredCoordinator = ai_preferredCoordinator i,
      sti_pinnedCoordinator = None, sti_requiredOperations = None,
      sti_admissionRiskAssessment = ai_admissionRiskAssessment i\<rparr>"

definition admitGoal ::
  "(string \<Rightarrow> string) \<Rightarrow> (string \<Rightarrow> string option) \<Rightarrow> instant \<Rightarrow> string \<Rightarrow> admit_input \<Rightarrow> supervisor_state
     \<Rightarrow> (goal_error, supervisor_state \<times> supervisor_goal \<times> bool) result" where
  "admitGoal rsv cdir now uuid i st =
     (let P = open_goal rsv cdir (ai_project i) (ai_repoPath i) in
      case find P (ss_goals st) of
        Some g \<Rightarrow> rbind (resumed now i g) (\<lambda>g'. Inr (put_goal P g' st, g', False))
      | None \<Rightarrow>
          rbind (contract_of (ai_admissionRiskAssessment i) None) (\<lambda>contract.
          let g = new_goal rsv now uuid (start_of_admission i) contract
          in Inr (st\<lparr>ss_goals := ss_goals st @ [g]\<rparr>, g, True)))"

section \<open>Ownership of a goal\<close>

text \<open>
  What the host says about the goal's former worktree and worker: \<^verbatim>\<open>existsSync\<close> of the old
  path, the signal probe of \<^verbatim>\<open>pidAlive\<close> (\<open>None\<close>: the signal was delivered; otherwise the
  error code) and the worker leases the caller saw.
\<close>

datatype signal_result = Signal_delivered | Signal_EPERM | Signal_ESRCH | Signal_other

definition pidAlive :: "(int \<Rightarrow> signal_result) \<Rightarrow> int \<Rightarrow> bool" where
  "pidAlive kill pid = (pid > 0 \<and> kill pid \<noteq> Signal_ESRCH)"

record reconcile_input =
  rc_goalId :: string
  rc_project :: string
  rc_repoPath :: string
  rc_host :: string
  rc_sessionId :: string
  rc_hasActiveWorkerLease :: bool

definition held_by :: "string \<Rightarrow> string \<Rightarrow> live_worker_claim \<Rightarrow> bool" where
  "held_by host sessionId c = (lw_host c = host \<and> lw_sessionId c = sessionId)"

text \<open>Another session than the caller's holds a fresh live-worker claim.\<close>

definition held_by_another :: "instant \<Rightarrow> string \<Rightarrow> string \<Rightarrow> supervisor_goal \<Rightarrow> bool" where
  "held_by_another now host sessionId g =
     (case sg_liveWorker g of None \<Rightarrow> False
      | Some c \<Rightarrow> \<not> held_by host sessionId c \<and> isLiveWorkerFresh now c)"

definition ownership_kept ::
  "(string \<Rightarrow> string) \<Rightarrow> (string \<Rightarrow> bool) \<Rightarrow> (int \<Rightarrow> signal_result) \<Rightarrow> instant \<Rightarrow> reconcile_input \<Rightarrow> supervisor_goal \<Rightarrow> bool" where
  "ownership_kept rsv exists_path kill now i g =
     (sg_project g \<noteq> rc_project i \<or> rsv (sg_repoPath g) = rsv (rc_repoPath i)
      \<or> exists_path (rsv (sg_repoPath g))
      \<or> (case sg_activePid g of None \<Rightarrow> False | Some pid \<Rightarrow> pidAlive kill pid)
      \<or> rc_hasActiveWorkerLease i
      \<or> held_by_another now (rc_host i) (rc_sessionId i) g)"

definition rebound ::
  "(string \<Rightarrow> string) \<Rightarrow> instant \<Rightarrow> reconcile_input \<Rightarrow> supervisor_goal \<Rightarrow> supervisor_goal" where
  "rebound rsv now i g =
     (let restart = (sg_status g = Gs_running \<and> sg_pendingCompletion g = None);
          foreign = (case sg_liveWorker g of None \<Rightarrow> False | Some c \<Rightarrow> \<not> held_by (rc_host i) (rc_sessionId i) c)
      in g\<lparr>sg_repoPath := rsv (rc_repoPath i), sg_activePid := None,
           sg_status := (if restart then Gs_active else sg_status g),
           sg_nextRunAt := (if restart then Some now else sg_nextRunAt g),
           sg_liveWorker := (if foreign then None else sg_liveWorker g),
           sg_lastOwnershipReconciliation := Some
             \<lparr>or_reconciledAt = now, or_previousRepoPath = rsv (sg_repoPath g), or_repoPath = rsv (rc_repoPath i),
              or_reason = ''previous worktree is missing; no live cycle PID or worker lease remains''\<rparr>,
           sg_updatedAt := now\<rparr>)"

definition reconcileStaleGoalOwnership ::
  "(string \<Rightarrow> string) \<Rightarrow> (string \<Rightarrow> bool) \<Rightarrow> (int \<Rightarrow> signal_result) \<Rightarrow> instant \<Rightarrow> reconcile_input \<Rightarrow> supervisor_state
     \<Rightarrow> (goal_error, supervisor_state \<times> supervisor_goal \<times> bool) result" where
  "reconcileStaleGoalOwnership rsv exists_path kill now i st =
     (case getGoal (rc_goalId i) st of
        None \<Rightarrow> Inl (Goal_not_found (rc_goalId i))
      | Some g \<Rightarrow>
          if ownership_kept rsv exists_path kill now i g then Inr (st, g, False)
          else let g' = rebound rsv now i g in Inr (store_goal g' st, g', True))"

text \<open>\<open>patch\<close> is the assignment of the given fields; it cannot name \<^verbatim>\<open>id\<close>.\<close>

definition updateGoal ::
  "instant \<Rightarrow> string \<Rightarrow> (supervisor_goal \<Rightarrow> supervisor_goal) \<Rightarrow> supervisor_state
     \<Rightarrow> (goal_error, supervisor_state \<times> supervisor_goal) result" where
  "updateGoal now i patch st =
     (case getGoal i st of
        None \<Rightarrow> Inl (Goal_not_found i)
      | Some g \<Rightarrow> let g' = (patch g)\<lparr>sg_id := i, sg_updatedAt := now\<rparr> in Inr (store_goal g' st, g'))"

definition new_claim_of :: "instant \<Rightarrow> string \<Rightarrow> string \<Rightarrow> live_worker_claim option \<Rightarrow> live_worker_claim" where
  "new_claim_of now host sessionId existing =
     \<lparr>lw_host = host, lw_sessionId = sessionId,
      lw_claimedAt = (case existing of None \<Rightarrow> now
                      | Some c \<Rightarrow> if held_by host sessionId c then lw_claimedAt c else now),
      lw_heartbeatAt = now\<rparr>"

definition claimLiveWorker ::
  "instant \<Rightarrow> string \<Rightarrow> string \<Rightarrow> string \<Rightarrow> supervisor_state
     \<Rightarrow> (goal_error, supervisor_state \<times> live_worker_claim \<times> bool) result" where
  "claimLiveWorker now goalId host sessionId st =
     (case getGoal goalId st of
        None \<Rightarrow> Inl (Goal_not_found goalId)
      | Some g \<Rightarrow>
          (case sg_liveWorker g of
             Some c \<Rightarrow>
               if held_by_another now host sessionId g then Inr (st, c, False)
               else let c' = new_claim_of now host sessionId (Some c)
                    in Inr (store_goal (g\<lparr>sg_liveWorker := Some c', sg_updatedAt := now\<rparr>) st, c', True)
           | None \<Rightarrow>
               let c' = new_claim_of now host sessionId None
               in Inr (store_goal (g\<lparr>sg_liveWorker := Some c', sg_updatedAt := now\<rparr>) st, c', True)))"

definition heartbeatLiveWorker ::
  "instant \<Rightarrow> string \<Rightarrow> string \<Rightarrow> string \<Rightarrow> supervisor_state \<Rightarrow> supervisor_state \<times> bool" where
  "heartbeatLiveWorker now goalId host sessionId st =
     (case getGoal goalId st of
        None \<Rightarrow> (st, False)
      | Some g \<Rightarrow>
          (case sg_liveWorker g of
             None \<Rightarrow> (st, False)
           | Some c \<Rightarrow>
               if \<not> held_by host sessionId c then (st, False)
               else (store_goal (g\<lparr>sg_liveWorker := Some (c\<lparr>lw_heartbeatAt := now\<rparr>), sg_updatedAt := now\<rparr>) st,
                     True)))"

definition bindGoalToProject ::
  "(string \<Rightarrow> string) \<Rightarrow> (string \<Rightarrow> string option) \<Rightarrow> instant \<Rightarrow> string \<Rightarrow> string \<Rightarrow> string \<Rightarrow> supervisor_state
     \<Rightarrow> supervisor_state \<times> supervisor_goal option" where
  "bindGoalToProject rsv cdir now i project repoPath st =
     (case getGoal i st of
        None \<Rightarrow> (st, None)
      | Some g \<Rightarrow>
          if \<not> same_project rsv cdir project repoPath g then (st, None)
          else let g' = g\<lparr>sg_project := project, sg_repoPath := rsv repoPath, sg_updatedAt := now\<rparr>
               in (store_goal g' st, Some g'))"

definition activeGoals ::
  "(string \<Rightarrow> string) \<Rightarrow> (string \<Rightarrow> string option) \<Rightarrow> string option \<Rightarrow> string option \<Rightarrow> supervisor_state
     \<Rightarrow> supervisor_goal list" where
  "activeGoals rsv cdir project repoPath st =
     (let commonDir = (case repoPath of None \<Rightarrow> None | Some r \<Rightarrow> if r = [] then None else cdir (rsv r)) in
      filter (\<lambda>g. sg_status g \<in> open_statuses
                \<and> (case project of None \<Rightarrow> True
                   | Some p \<Rightarrow> sg_project g = p
                       \<or> (commonDir \<noteq> None \<and> cdir (rsv (sg_repoPath g)) = commonDir)))
        (ss_goals st))"

definition removeGoals :: "string set \<Rightarrow> supervisor_state \<Rightarrow> supervisor_state \<times> supervisor_goal list" where
  "removeGoals ids st =
     (st\<lparr>ss_goals := filter (\<lambda>g. sg_id g \<notin> ids) (ss_goals st)\<rparr>, filter (\<lambda>g. sg_id g \<in> ids) (ss_goals st))"

section \<open>Sessions\<close>

text \<open>Empty optional texts are left out (\<open>nonempty_text\<close>); \<open>keep_last\<close> is \<^verbatim>\<open>slice(-n)\<close>.\<close>

definition keep_last :: "nat \<Rightarrow> 'a list \<Rightarrow> 'a list" where
  "keep_last n xs = drop (length xs - n) xs"

record attach_input =
  ati_host :: string
  ati_interactionOrigin :: "string option"
  ati_cwd :: string
  ati_project :: "string option"
  ati_repoPath :: "string option"
  ati_sessionId :: "string option"

definition push_session :: "session_attachment \<Rightarrow> session_attachment list \<Rightarrow> session_attachment list" where
  "push_session a sessions = keep_last 199 sessions @ [a]"

definition attachSession ::
  "(string \<Rightarrow> string) \<Rightarrow> instant \<Rightarrow> string \<Rightarrow> attach_input \<Rightarrow> supervisor_state
     \<Rightarrow> supervisor_state \<times> session_attachment" where
  "attachSession rsv now uuid i st =
     (let a = \<lparr>sa_id = uuid, sa_host = ati_host i,
               sa_interactionOrigin = nonempty_text (ati_interactionOrigin i), sa_cwd = rsv (ati_cwd i),
               sa_project = nonempty_text (ati_project i),
               sa_repoPath = map_option rsv (nonempty_text (ati_repoPath i)),
               sa_sessionId = nonempty_text (ati_sessionId i), sa_workshop = None, sa_attachedAt = now\<rparr>
      in (st\<lparr>ss_sessions := push_session a (ss_sessions st)\<rparr>, a))"

definition active_workshop :: "session_attachment \<Rightarrow> bool" where
  "active_workshop a = (case sa_workshop a of None \<Rightarrow> False | Some w \<Rightarrow> \<not> wa_revoked w)"

definition session_in_repo ::
  "(string \<Rightarrow> string) \<Rightarrow> (string \<Rightarrow> string option) \<Rightarrow> string option \<Rightarrow> session_attachment \<Rightarrow> bool" where
  "session_in_repo rsv cdir commonDir a =
     (commonDir \<noteq> None \<and> (case sa_repoPath a of None \<Rightarrow> False | Some r \<Rightarrow> cdir (rsv r) = commonDir))"

definition revoked_at :: "instant \<Rightarrow> session_attachment \<Rightarrow> session_attachment" where
  "revoked_at now a =
     a\<lparr>sa_workshop := map_option (\<lambda>w. w\<lparr>wa_revoked := True, wa_revokedAt := Some now\<rparr>) (sa_workshop a)\<rparr>"

record authorize_input =
  az_host :: string
  az_cwd :: string
  az_project :: string
  az_repoPath :: string
  az_sessionId :: string
  az_expiresAt :: instant

definition superseded_session ::
  "(string \<Rightarrow> string) \<Rightarrow> (string \<Rightarrow> string option) \<Rightarrow> authorize_input \<Rightarrow> session_attachment \<Rightarrow> bool" where
  "superseded_session rsv cdir i a =
     (active_workshop a
      \<and> (sa_project a = Some (az_project i) \<or> session_in_repo rsv cdir (cdir (rsv (az_repoPath i))) a))"

definition authorizeSessionWorkshop ::
  "(string \<Rightarrow> string) \<Rightarrow> (string \<Rightarrow> string option) \<Rightarrow> instant \<Rightarrow> string \<Rightarrow> authorize_input \<Rightarrow> supervisor_state
     \<Rightarrow> supervisor_state \<times> session_attachment" where
  "authorizeSessionWorkshop rsv cdir now uuid i st =
     (let sessions = update_where (superseded_session rsv cdir i) (revoked_at now) (ss_sessions st);
          a = \<lparr>sa_id = uuid, sa_host = az_host i, sa_interactionOrigin = None, sa_cwd = rsv (az_cwd i),
               sa_project = Some (az_project i), sa_repoPath = Some (rsv (az_repoPath i)),
               sa_sessionId = Some (az_sessionId i),
               sa_workshop = Some \<lparr>wa_revoked = False, wa_authorizedAt = now, wa_expiresAt = az_expiresAt i,
                                   wa_revokedAt = None\<rparr>,
               sa_attachedAt = now\<rparr>
      in (st\<lparr>ss_sessions := push_session a sessions\<rparr>, a))"

definition revokeSessionWorkshop ::
  "(string \<Rightarrow> string) \<Rightarrow> (string \<Rightarrow> string option) \<Rightarrow> instant \<Rightarrow> string option \<Rightarrow> string option \<Rightarrow> supervisor_state
     \<Rightarrow> supervisor_state \<times> nat" where
  "revokeSessionWorkshop rsv cdir now sessionId repoPath st =
     (let commonDir = (case nonempty_text repoPath of None \<Rightarrow> None | Some r \<Rightarrow> cdir (rsv r));
          P = (\<lambda>a. active_workshop a
                 \<and> (case sessionId of None \<Rightarrow> True | Some s \<Rightarrow> sa_sessionId a = Some s)
                 \<and> (repoPath = None \<or> session_in_repo rsv cdir commonDir a))
      in (st\<lparr>ss_sessions := update_where P (revoked_at now) (ss_sessions st)\<rparr>, count_where P (ss_sessions st)))"

end
