(* ===== verification/Completion_Grade.thy ===== *)
theory Completion_Grade
  imports Goals
begin

text \<open>
  Grading a completion claim: the repository writer fence
  (src/supervisor/repository-writer-fence.ts), the authority commit of migrations 0023 to
  0026 and \<^verbatim>\<open>applyIndependentCompletionGrade\<close> with its crash recovery
  (src/supervisor/state.ts). The database transaction commits first, the state file is
  written second; \<open>recoverSupervisorCompletion\<close> repairs a crash between the two.
\<close>

section \<open>The writer fence of a repository\<close>

text \<open>
  The two files of a repository: the lock, with its owner (or empty, while it is being
  written) and its modification time, and the contention marker. Opening, writing and
  removing them is one step; \<open>alive\<close> is the signal probe of the lock's process.
\<close>

datatype lock_text = Lock_empty | Lock_owner int string

record fence_files =
  ff_lock :: "(lock_text \<times> instant) option"
  ff_contended :: bool

record writer_fence =
  wf_repoPath :: string
  wf_pid :: int
  wf_token :: string
  wf_active :: bool

definition lock_age_ok :: "instant \<Rightarrow> instant \<Rightarrow> bool" where
  "lock_age_ok now mtime = (now - mtime \<le> 30000)"

definition lock_held :: "(int \<Rightarrow> bool) \<Rightarrow> instant \<Rightarrow> lock_text \<times> instant \<Rightarrow> bool" where
  "lock_held alive now l =
     (lock_age_ok now (snd l) \<or> (case fst l of Lock_empty \<Rightarrow> False | Lock_owner p t \<Rightarrow> alive p))"

definition tryAcquireRepositoryWriterFence ::
  "(string \<Rightarrow> string) \<Rightarrow> (int \<Rightarrow> bool) \<Rightarrow> instant \<Rightarrow> int \<Rightarrow> string \<Rightarrow> string \<Rightarrow> fence_files
     \<Rightarrow> fence_files \<times> writer_fence option" where
  "tryAcquireRepositoryWriterFence rsv alive now pid token repoPath files =
     (if (case ff_lock files of None \<Rightarrow> False | Some l \<Rightarrow> lock_held alive now l)
      then (files\<lparr>ff_contended := True\<rparr>, None)
      else (\<lparr>ff_lock = Some (Lock_owner pid token, now), ff_contended = False\<rparr>,
            Some \<lparr>wf_repoPath = rsv repoPath, wf_pid = pid, wf_token = token, wf_active = True\<rparr>))"

definition owns_lock :: "writer_fence \<Rightarrow> fence_files \<Rightarrow> bool" where
  "owns_lock w files =
     (case ff_lock files of None \<Rightarrow> False | Some l \<Rightarrow> fst l = Lock_owner (wf_pid w) (wf_token w))"

definition assertUncontended :: "writer_fence \<Rightarrow> fence_files \<Rightarrow> bool" where
  "assertUncontended w files = (wf_active w \<and> owns_lock w files \<and> \<not> ff_contended files)"

text \<open>\<open>files\<close> at the assertion, \<open>files'\<close> at the statement before \<^verbatim>\<open>COMMIT\<close>.\<close>

definition commitSqlite :: "writer_fence \<Rightarrow> fence_files \<Rightarrow> fence_files \<Rightarrow> bool" where
  "commitSqlite w files files' = (assertUncontended w files \<and> \<not> ff_contended files')"

definition release :: "writer_fence \<Rightarrow> fence_files \<Rightarrow> fence_files \<times> writer_fence" where
  "release w files =
     (if wf_active w \<and> owns_lock w files then files\<lparr>ff_lock := None\<rparr> else files, w\<lparr>wf_active := False\<rparr>)"

section \<open>Durable completion commits\<close>

text \<open>\<open>sc_finalGoal\<close> is the goal that \<^verbatim>\<open>final_goal_json\<close> serialises.\<close>

record completion_commit =
  sc_id :: string
  sc_project :: string
  sc_goalId :: string
  sc_receiptId :: string
  sc_pendingClaimedAt :: instant
  sc_sourceHead :: string
  sc_sourceTreeDigest :: string
  sc_verdict :: verdict
  sc_finalGoal :: supervisor_goal
  sc_createdAt :: instant

record authority =
  au_db :: db
  au_commits :: "completion_commit list"

definition same_opt :: "'a option \<Rightarrow> 'a option \<Rightarrow> bool" where
  "same_opt a b = (case a of None \<Rightarrow> False | Some x \<Rightarrow> b = Some x)"

definition receipt_provider_name :: "string \<Rightarrow> string" where
  "receipt_provider_name p = (if p = ''claude'' then ''claude-code'' else p)"

definition canonical_review :: "db \<Rightarrow> receipt_row \<Rightarrow> bool" where
  "canonical_review d r =
     (case joined_run d (rr_runId r) of
        None \<Rightarrow> False
      | Some (run, prov) \<Rightarrow>
          rr_taskId r = Some (r_taskId run) \<and> rr_providerId r = Some (r_providerId run)
          \<and> ap_name prov = receipt_provider_name (rr_provider r)
          \<and> rr_providerAccountLabel r = Some (ap_accountLabel prov)
          \<and> r_purpose run = Pur_review \<and> r_independenceLoss run = None
          \<and> r_sourceHead run = Some (rr_sourceHead r)
          \<and> present (r_sessionRef run) \<and> r_sessionRef run = rr_reviewSessionRef r
          \<and> r_status run = Run_succeeded)"

definition canonical_reviewed :: "db \<Rightarrow> receipt_row \<Rightarrow> run_row \<Rightarrow> bool" where
  "canonical_reviewed d r run =
     (rr_taskId r = Some (r_taskId run) \<and> r_purpose run \<in> {Pur_implementation, Pur_repair}
      \<and> r_sourceHead run = Some (rr_sourceHead r)
      \<and> present (r_sessionRef run) \<and> r_sessionRef run = rr_reviewedSessionRef r
      \<and> r_status run = Run_succeeded)"

definition reviewed_run_of :: "db \<Rightarrow> receipt_row \<Rightarrow> run_row option" where
  "reviewed_run_of d r =
     (case rr_reviewedRunId r of None \<Rightarrow> None | Some i \<Rightarrow> lookup_row r_id i (agentRuns d))"

text \<open>
  The trigger \<^verbatim>\<open>supervisor_completion_commits_authority_insert\<close> of migration 0026. Its session
  references are not blank after SQLite's \<^verbatim>\<open>trim\<close>, which strips blanks only; the caller has
  already refused a reference of other white space.
\<close>

definition commit_authorised :: "db \<Rightarrow> completion_commit \<Rightarrow> bool" where
  "commit_authorised d c =
     (case lookup_row rr_id (sc_receiptId c) (independentReviewReceipts d) of
        None \<Rightarrow> False
      | Some r \<Rightarrow>
          rr_project r = sc_project c \<and> rr_goalId r = sc_goalId c
          \<and> rr_pendingClaimedAt r = sc_pendingClaimedAt c \<and> rr_sourceHead r = sc_sourceHead c
          \<and> rr_sourceTreeDigest r = Some (sc_sourceTreeDigest c) \<and> rr_verdict r = sc_verdict c
          \<and> canonical_review d r \<and> rr_reviewedRunId r \<noteq> Some (rr_runId r)
          \<and> (case reviewed_run_of d r of None \<Rightarrow> False | Some run \<Rightarrow> canonical_reviewed d r run))"

definition is_digest64 :: "string \<Rightarrow> bool" where
  "is_digest64 s = (length s = 64 \<and> list_all lower_hex s)"

definition projection_ok :: "completion_commit \<Rightarrow> bool" where
  "projection_ok c =
     (sg_id (sc_finalGoal c) = sc_goalId c \<and> sg_project (sc_finalGoal c) = sc_project c
      \<and> sg_pendingCompletion (sc_finalGoal c) = None
      \<and> sg_status (sc_finalGoal c) = (if sc_verdict c = Verdict_pass then Gs_done else Gs_active))"

definition insert_commit :: "completion_commit \<Rightarrow> authority \<Rightarrow> authority outcome" where
  "insert_commit c au =
     rbind (insert_row
       [(''supervisor_completion_commits.id'', \<not> has_key sc_id (sc_id c) (au_commits au)),
        (''supervisor_completion_commits.receipt_id'', \<not> has_key sc_receiptId (sc_receiptId c) (au_commits au)),
        (''supervisor_completion_commits_head_valid'', is_sha40 (sc_sourceHead c)),
        (''supervisor_completion_commits_tree_valid'', is_digest64 (sc_sourceTreeDigest c)),
        (''supervisor_completion_commits_projection_valid'', projection_ok c),
        (''supervisor_completion_commits_authority_insert'', commit_authorised (au_db au) c)]
       c (au_commits au))
     (\<lambda>rows. Inr (au\<lparr>au_commits := rows\<rparr>))"

section \<open>Checking a receipt against the pending claim\<close>

datatype binding_refusal =
    Lacks_candidate_binding
  | Task_binding_changed
  | Criteria_for_another_head
  | Promotion_proof_failed "promotion_failure list"
  | Task_criteria_invalid
  | No_task_resolution_changed
  | Candidate_not_authoritative

datatype refusal =
    Source_identity_changed
  | Binding_refused binding_refusal
  | Identity_changed_during_commit
  | Writer_contention_during_commit
  | Writer_contention_at_commit

datatype grade_error =
    Grade_goal_not_found string
  | Grade_concurrent_writer
  | Grade_wrong_fence
  | Grade_no_receipt
  | Grade_no_pending
  | Grade_legacy_claim
  | Grade_other_goal
  | Grade_other_head
  | Grade_stale_receipt
  | Grade_other_dispatch
  | Grade_no_run_id
  | Grade_unbound
  | Grade_no_review_run
  | Grade_no_reviewed_run
  | Grade_unknown_provider
  | Grade_no_evidence
  | Grade_database major_error
  | Grade_refused refusal

definition WORKER_HOSTS :: "provider_host list" where
  "WORKER_HOSTS = [Host_claude, Host_codex, Host_cursor, Host_antigravity]"

definition dispatch_matches :: "pending_completion \<Rightarrow> receipt_row \<Rightarrow> bool" where
  "dispatch_matches p r =
     (case pc_reviewDispatch p of
        None \<Rightarrow> False
      | Some v \<Rightarrow>
          rr_dispatchId r = vd_id v \<and> rr_provider r = host_name (vd_provider v)
          \<and> rr_reviewStartedAt r = vd_startedAt v \<and> same_opt (rr_taskId r) (vd_taskId v)
          \<and> vd_runId v = Some (rr_runId r) \<and> same_opt (rr_providerId r) (vd_providerId v)
          \<and> same_opt (rr_providerAccountLabel r) (vd_providerAccountLabel v))"

definition reviewed_matches :: "pending_completion \<Rightarrow> receipt_row \<Rightarrow> bool" where
  "reviewed_matches p r =
     (case pc_reviewedRun p of
        None \<Rightarrow> False
      | Some v \<Rightarrow>
          rr_reviewedRunId r = Some (vr_runId v) \<and> rr_taskId r = Some (vr_taskId v)
          \<and> same_opt (rr_sourceTreeDigest r) (pc_sourceTreeDigest p)
          \<and> rr_reviewedRunId r \<noteq> Some (rr_runId r))"

definition reviewed_run_ok :: "db \<Rightarrow> pending_completion \<Rightarrow> receipt_row \<Rightarrow> bool" where
  "reviewed_run_ok d p r =
     (case (reviewed_run_of d r, pc_reviewedRun p) of
        (Some run, Some v) \<Rightarrow> canonical_reviewed d r run \<and> r_providerId run = vr_providerId v
      | _ \<Rightarrow> False)"

text \<open>
  The guards in the code's order; the purpose and the execution status of a stored receipt
  have a single value (checks of the table), so their two guards always pass.
\<close>

definition check_receipt ::
  "db \<Rightarrow> supervisor_goal \<Rightarrow> pending_completion \<Rightarrow> receipt_row \<Rightarrow> (grade_error, unit) result" where
  "check_receipt d g p r =
     rbind (ensure (nonempty_text (pc_sourceHead p) \<noteq> None) Grade_legacy_claim) (\<lambda>_.
     rbind (ensure (rr_project r = sg_project g \<and> rr_goalId r = sg_id g) Grade_other_goal) (\<lambda>_.
     rbind (ensure (pc_sourceHead p = Some (rr_sourceHead r)) Grade_other_head) (\<lambda>_.
     rbind (ensure (rr_pendingClaimedAt r = pc_claimedAt p \<and> pc_claimedAt p \<le> rr_reviewStartedAt r)
              Grade_stale_receipt) (\<lambda>_.
     rbind (ensure (dispatch_matches p r) Grade_other_dispatch) (\<lambda>_.
     rbind (ensure (js_trim (rr_runId r) \<noteq> []) Grade_no_run_id) (\<lambda>_.
     rbind (ensure (reviewed_matches p r) Grade_unbound) (\<lambda>_.
     rbind (ensure (canonical_review d r) Grade_no_review_run) (\<lambda>_.
     rbind (ensure (reviewed_run_ok d p r) Grade_no_reviewed_run) (\<lambda>_.
     rbind (ensure (rr_provider r \<in> set (map host_name WORKER_HOSTS)) Grade_unknown_provider) (\<lambda>_.
       ensure (js_trim (rr_evidence r) \<noteq> []) Grade_no_evidence))))))))))"

definition other_head :: "completion_criteria \<Rightarrow> string \<Rightarrow> bool" where
  "other_head criteria head =
     (case cc_progressiveValidation criteria of None \<Rightarrow> False | Some v \<Rightarrow> pg_candidateHead v \<noteq> Some head)"

definition task_refused ::
  "(string \<Rightarrow> string) \<Rightarrow> db \<Rightarrow> string \<Rightarrow> (binding_failure, canonical_task_binding) result
     \<Rightarrow> string \<Rightarrow> string \<Rightarrow> string \<Rightarrow> json_text \<Rightarrow> binding_refusal option" where
  "task_refused rsv d repoPath resolved head taskId projectId criteriaJson =
     (case resolved of
        Inl _ \<Rightarrow> Some Task_binding_changed
      | Inr b \<Rightarrow>
          if cb_taskId b \<noteq> taskId \<or> cb_projectId b \<noteq> projectId \<or> cb_frozenCriteriaJson b \<noteq> criteriaJson
          then Some Task_binding_changed
          else (case parseCompletionCriteria (Some criteriaJson) of
              Inl _ \<Rightarrow> Some Task_criteria_invalid
            | Inr criteria \<Rightarrow>
                if other_head criteria head then Some Criteria_for_another_head
                else let proof = evaluateTaskPromotionProof rsv d taskId repoPath in
                  if tp_ok proof then None else Some (Promotion_proof_failed (tp_failures proof))))"

definition binding_refused ::
  "(string \<Rightarrow> string) \<Rightarrow> db \<Rightarrow> supervisor_goal \<Rightarrow> pending_completion \<Rightarrow> binding_refusal option" where
  "binding_refused rsv d g p =
     (case pc_candidate p of
        None \<Rightarrow> Some Lacks_candidate_binding
      | Some c \<Rightarrow>
          if pc_sourceHead p \<noteq> Some (so_head (cand_source c))
             \<or> pc_sourceTreeDigest p \<noteq> Some (so_treeDigest (cand_source c))
          then Some Lacks_candidate_binding
          else let resolved = resolveCanonicalTaskBinding rsv d (sg_repoPath g) in
            (case c of
               Cand_task src taskId projectId criteriaJson \<Rightarrow>
                 task_refused rsv d (sg_repoPath g) resolved (so_head src) taskId projectId criteriaJson
             | Cand_no_task src \<Rightarrow>
                 (case resolved of
                    Inr _ \<Rightarrow> Some No_task_resolution_changed
                  | Inl f \<Rightarrow> if is_no_task f then None else Some No_task_resolution_changed)
             | Cand_refused src f \<Rightarrow> Some Candidate_not_authoritative))"

section \<open>Applying a grade\<close>

text \<open>
  What the call sees: the fence it was given or acquired, the two readings of the source
  identity, the lock files at the three assertions, its clock and fresh id. \<open>ge_show\<close>
  renders a binding refusal as the text the code composes.
\<close>

record grade_env =
  ge_rsv :: "string \<Rightarrow> string"
  ge_redact :: "string \<Rightarrow> string"
  ge_show :: "binding_refusal \<Rightarrow> string"
  ge_clock :: clock
  ge_uuid :: string
  ge_fence :: "writer_fence option"
  ge_identityBefore :: "string \<Rightarrow> source_identity option"
  ge_identityAfter :: "string \<Rightarrow> source_identity option"
  ge_filesInBody :: fence_files
  ge_filesAtCommit :: fence_files
  ge_filesBeforeCommit :: fence_files

abbreviation ge_now :: "grade_env \<Rightarrow> instant" where
  "ge_now e \<equiv> svc_now (ge_clock e)"

definition reopened :: "instant \<Rightarrow> string \<Rightarrow> supervisor_goal \<Rightarrow> supervisor_goal" where
  "reopened now summary g =
     g\<lparr>sg_status := Gs_active, sg_pendingCompletion := None, sg_activePid := None,
       sg_lastFinishedAt := Some now, sg_nextRunAt := Some now, sg_lastSummary := Some summary,
       sg_updatedAt := now\<rparr>"

definition source_changed_text :: string where
  "source_changed_text = ''Pending completion was reopened because its exact repository or source-tree identity changed before grade application.''"

definition fence_lost_text :: string where
  "fence_lost_text = ''Pending completion was reopened because its exact source identity changed at the durable commit boundary.''"

definition graded_goal :: "grade_env \<Rightarrow> pending_completion \<Rightarrow> receipt_row \<Rightarrow> supervisor_goal \<Rightarrow> supervisor_goal" where
  "graded_goal e p r g =
     (let evidence = js_trim (rr_evidence r); passed = (rr_verdict r = Verdict_pass) in
      g\<lparr>sg_pendingCompletion := None, sg_activePid := None, sg_lastFinishedAt := Some (ge_now e),
        sg_ownerGate := None, sg_consecutiveFailures := 0,
        sg_status := (if passed then Gs_done else Gs_active),
        sg_nextRunAt := (if passed then None else Some (ge_now e)),
        sg_lastSummary := Some (ge_redact e
          (if passed then ''Independent validation passed: '' @ pc_summary p @ ''. Evidence: '' @ evidence
           else ''Independent validation rejected completion: '' @ evidence)),
        sg_updatedAt := ge_now e\<rparr>)"

definition new_commit ::
  "grade_env \<Rightarrow> pending_completion \<Rightarrow> string \<times> string \<Rightarrow> receipt_row \<Rightarrow> supervisor_goal \<Rightarrow> completion_commit" where
  "new_commit e p source r g =
     \<lparr>sc_id = newId ''scommit'' (ge_uuid e), sc_project = sg_project g, sc_goalId = sg_id g,
      sc_receiptId = rr_id r, sc_pendingClaimedAt = pc_claimedAt p, sc_sourceHead = fst source,
      sc_sourceTreeDigest = snd source, sc_verdict = rr_verdict r, sc_finalGoal = g,
      sc_createdAt = ge_now e\<rparr>"

definition complete_task :: "grade_env \<Rightarrow> pending_completion \<Rightarrow> db \<Rightarrow> db outcome" where
  "complete_task e p d =
     (case pc_candidate p of
        Some (Cand_task src taskId projectId criteria) \<Rightarrow>
          rbind (update_tasks (ge_clock e) (\<lambda>t. t_id t = taskId)
                   (\<lambda>t. t\<lparr>t_status := St_completed, t_version := t_version t + 1\<rparr>) d)
            (\<lambda>(d', n). Inr d')
      | _ \<Rightarrow> Inr d)"

text \<open>
  The body of the transaction: it throws; or returns the goal, the changed authority and
  perhaps a refusal; or loses its fence, when the goal is already changed in memory.
\<close>

datatype body_result =
    Body_throws grade_error
  | Body_returns supervisor_goal authority "refusal option"
  | Body_loses_fence supervisor_goal refusal

definition settle ::
  "grade_env \<Rightarrow> authority \<Rightarrow> supervisor_goal \<Rightarrow> pending_completion \<Rightarrow> string \<times> string \<Rightarrow> receipt_row \<Rightarrow> writer_fence
     \<Rightarrow> body_result" where
  "settle e au g p source r w =
     (case (if rr_verdict r = Verdict_pass then complete_task e p (au_db au) else Inr (au_db au)) of
        Inl x \<Rightarrow> Body_throws (Grade_database x)
      | Inr d' \<Rightarrow>
          let g' = graded_goal e p r g in
          (case insert_commit (new_commit e p source r g') (au\<lparr>au_db := d'\<rparr>) of
             Inl x \<Rightarrow> Body_throws (Grade_database x)
           | Inr au' \<Rightarrow>
               if \<not> sourceIdentityMatches source (ge_identityAfter e (sg_repoPath g'))
               then Body_loses_fence g' Identity_changed_during_commit
               else if \<not> assertUncontended w (ge_filesInBody e)
               then Body_loses_fence g' Writer_contention_during_commit
               else Body_returns g' au' None))"

definition grade_claim ::
  "grade_env \<Rightarrow> authority \<Rightarrow> supervisor_goal \<Rightarrow> pending_completion \<Rightarrow> receipt_row \<Rightarrow> writer_fence \<Rightarrow> body_result" where
  "grade_claim e au g p r w =
     (let source = (or_default (pc_sourceHead p) [], or_default (pc_sourceTreeDigest p) []) in
      if nonempty_text (pc_sourceTreeDigest p) = None
         \<or> \<not> sourceIdentityMatches source (ge_identityBefore e (sg_repoPath g))
      then Body_returns (reopened (ge_now e) source_changed_text g) au (Some Source_identity_changed)
      else case (if rr_verdict r = Verdict_pass then binding_refused (ge_rsv e) (au_db au) g p else None) of
        Some f \<Rightarrow>
          Body_returns
            (reopened (ge_now e)
               (''Pending completion was reopened because final candidate promotion proof failed: '' @ ge_show e f) g)
            au (Some (Binding_refused f))
      | None \<Rightarrow> settle e au g p source r w)"

definition grade_body ::
  "grade_env \<Rightarrow> string \<Rightarrow> string \<Rightarrow> writer_fence \<Rightarrow> supervisor_state \<Rightarrow> authority \<Rightarrow> body_result" where
  "grade_body e goalId receiptId w st au =
     (case lookup_row rr_id receiptId (independentReviewReceipts (au_db au)) of
        None \<Rightarrow> Body_throws Grade_no_receipt
      | Some r \<Rightarrow>
        (case getGoal goalId st of
           None \<Rightarrow> Body_throws (Grade_goal_not_found goalId)
         | Some g \<Rightarrow>
           (case sg_pendingCompletion g of
              None \<Rightarrow> Body_throws Grade_no_pending
            | Some p \<Rightarrow>
              (case check_receipt (au_db au) g p r of
                 Inl x \<Rightarrow> Body_throws x
               | Inr _ \<Rightarrow> grade_claim e au g p r w))))"

text \<open>The state written, the authority committed, and what the call throws or returns.\<close>

type_synonym grade_outcome = "supervisor_state \<times> authority \<times> (grade_error, supervisor_goal) result"

definition lose_fence ::
  "grade_env \<Rightarrow> supervisor_goal \<Rightarrow> refusal \<Rightarrow> supervisor_state \<Rightarrow> authority \<Rightarrow> grade_outcome" where
  "lose_fence e g f st au =
     (store_goal (reopened (ge_now e) fence_lost_text g) st, au, Inl (Grade_refused f))"

definition apply_locked ::
  "grade_env \<Rightarrow> string \<Rightarrow> string \<Rightarrow> writer_fence \<Rightarrow> supervisor_state \<Rightarrow> authority \<Rightarrow> grade_outcome" where
  "apply_locked e goalId receiptId w st au =
     (case grade_body e goalId receiptId w st au of
        Body_throws x \<Rightarrow> (st, au, Inl x)
      | Body_loses_fence g f \<Rightarrow> lose_fence e g f st au
      | Body_returns g au' f \<Rightarrow>
          if commitSqlite w (ge_filesAtCommit e) (ge_filesBeforeCommit e)
          then (store_goal g st, au', case f of None \<Rightarrow> Inr g | Some x \<Rightarrow> Inl (Grade_refused x))
          else lose_fence e g Writer_contention_at_commit st au)"

text \<open>\<open>seen\<close> is the state file as read before the lock was taken.\<close>

definition applyIndependentCompletionGrade ::
  "grade_env \<Rightarrow> string \<Rightarrow> string \<Rightarrow> supervisor_state \<Rightarrow> supervisor_state \<Rightarrow> authority \<Rightarrow> grade_outcome" where
  "applyIndependentCompletionGrade e goalId receiptId seen st au =
     (case getGoal goalId seen of
        None \<Rightarrow> (st, au, Inl (Grade_goal_not_found goalId))
      | Some g0 \<Rightarrow>
        (case ge_fence e of
           None \<Rightarrow> (st, au, Inl Grade_concurrent_writer)
         | Some w \<Rightarrow>
             if ge_rsv e (wf_repoPath w) \<noteq> ge_rsv e (sg_repoPath g0) then (st, au, Inl Grade_wrong_fence)
             else apply_locked e goalId receiptId w st au))"

section \<open>Recovery after a crash\<close>

text \<open>The newest commit of a goal; among equal times the first inserted.\<close>

fun newest_commit :: "completion_commit list \<Rightarrow> completion_commit option" where
  "newest_commit [] = None"
| "newest_commit (c # cs) =
     (case newest_commit cs of
        None \<Rightarrow> Some c
      | Some d \<Rightarrow> if sc_createdAt d > sc_createdAt c then Some d else Some c)"

datatype recover_error = Invalid_goal_projection | Recover_goal_not_found string

definition recoverSupervisorCompletion ::
  "string \<Rightarrow> authority \<Rightarrow> supervisor_state
     \<Rightarrow> (recover_error, supervisor_state \<times> supervisor_goal option) result" where
  "recoverSupervisorCompletion goalId au st =
     (case newest_commit (filter (\<lambda>c. sc_goalId c = goalId) (au_commits au)) of
        None \<Rightarrow> Inr (st, None)
      | Some c \<Rightarrow>
          if sg_id (sc_finalGoal c) \<noteq> goalId \<or> sg_project (sc_finalGoal c) \<noteq> sc_project c
             \<or> sg_pendingCompletion (sc_finalGoal c) \<noteq> None
             \<or> sg_status (sc_finalGoal c) \<noteq> (if sc_verdict c = Verdict_pass then Gs_done else Gs_active)
          then Inl Invalid_goal_projection
          else (case getGoal goalId st of
             None \<Rightarrow> Inl (Recover_goal_not_found goalId)
           | Some current \<Rightarrow>
               if sg_status current = Gs_done then Inr (st, Some current)
               else if map_option pc_claimedAt (sg_pendingCompletion current) \<noteq> Some (sc_pendingClaimedAt c)
               then Inr (st, Some current)
               else Inr (store_goal (sc_finalGoal c) st, Some (sc_finalGoal c))))"

end
