(* ===== verification/Discovery.thy ===== *)
theory Discovery
  imports Store Router Transition_System
begin

text \<open>
  The persisted provider and model discovery of src/providers/discovery-store.ts. The
  current state of a model is a row of \<open>agentModels\<close>; every write appends an observation.
  Discovery never writes a billing mode, an exhausted model is retried once after its
  backoff, and routing reads only what is persisted. The tables' constraints are the ones
  of src/db/schema.ts and the triggers of drizzle/0003 and 0009. Each operation is one
  immediate transaction, so a throw leaves the store as it was.
\<close>

section \<open>Observations\<close>

datatype observation_source = Obs_registry | Obs_cli | Obs_probe | Obs_run_outcome | Obs_human

datatype observation_confidence = Conf_configured | Conf_inferred | Conf_observed

fun CONFIDENCE_BY_SOURCE :: "observation_source \<Rightarrow> observation_confidence" where
  "CONFIDENCE_BY_SOURCE Obs_registry = Conf_configured"
| "CONFIDENCE_BY_SOURCE Obs_cli = Conf_inferred"
| "CONFIDENCE_BY_SOURCE Obs_probe = Conf_inferred"
| "CONFIDENCE_BY_SOURCE Obs_run_outcome = Conf_observed"
| "CONFIDENCE_BY_SOURCE Obs_human = Conf_configured"

record observation_row =
  ob_id :: string
  ob_providerId :: string
  ob_modelId :: "string option"
  ob_observedJson :: json_text
  ob_source :: observation_source
  ob_confidence :: observation_confidence
  ob_observedAt :: instant
  ob_createdAt :: instant

record discovery_store =
  dv_db :: db
  dv_observations :: "observation_row list"

datatype discovery_error =
    Disc_account account_error
  | Disc_store major_error
  | Provider_not_persisted string
  | Model_not_persisted string string

type_synonym 'a discovery_result = "(discovery_error, 'a) result"

definition of_account :: "'a account_result \<Rightarrow> 'a discovery_result" where
  "of_account r = (case r of Inl e \<Rightarrow> Inl (Disc_account e) | Inr x \<Rightarrow> Inr x)"

definition of_store :: "'a outcome \<Rightarrow> 'a discovery_result" where
  "of_store r = (case r of Inl e \<Rightarrow> Inl (Disc_store e) | Inr x \<Rightarrow> Inr x)"

text \<open>
  What an operation takes from the host: the clock, \<^verbatim>\<open>redactText\<close>, \<^verbatim>\<open>Date.toISOString\<close> and
  the UUIDs that \<^verbatim>\<open>newId\<close> draws, in the order of the draws.
\<close>

record discovery_env =
  de_now :: instant
  de_redact :: "string \<Rightarrow> string"
  de_iso :: "instant \<Rightarrow> string"
  de_uuid :: "nat \<Rightarrow> string"

definition bounded_note :: "discovery_env \<Rightarrow> string \<Rightarrow> string" where
  "bounded_note e note = take 4000 (de_redact e note)"

section \<open>The tables\<close>

definition insert_provider :: "provider_row \<Rightarrow> db \<Rightarrow> db outcome" where
  "insert_provider p d =
     rbind (insert_row
       [(''agent_providers.id'', \<not> has_key ap_id (ap_id p) (agentProviders d)),
        (''agent_providers_name_account'',
           \<not> list_ex (\<lambda>q. ap_name q = ap_name p \<and> ap_accountLabel q = ap_accountLabel p) (agentProviders d))]
       p (agentProviders d))
     (\<lambda>rows. Inr (d\<lparr>agentProviders := rows\<rparr>))"

definition insert_model :: "model_row \<Rightarrow> db \<Rightarrow> db outcome" where
  "insert_model m d =
     rbind (insert_row
       [(''agent_models_insert_billing_unknown'', am_billingMode m = Bill_unknown),
        (''agent_models.id'', \<not> has_key am_id (am_id m) (agentModels d)),
        (''agent_models_provider_ref'',
           \<not> list_ex (\<lambda>q. am_providerId q = am_providerId m \<and> am_modelRef q = am_modelRef m) (agentModels d)),
        (''agent_models.provider_id'', has_key ap_id (am_providerId m) (agentProviders d))]
       m (agentModels d))
     (\<lambda>rows. Inr (d\<lparr>agentModels := rows\<rparr>))"

fun billing_name :: "billing_mode \<Rightarrow> string" where
  "billing_name Bill_subscription_included = ''subscription_included''"
| "billing_name Bill_usage_credits = ''usage_credits''"
| "billing_name Bill_api_billing = ''api_billing''"
| "billing_name Bill_unknown = ''unknown''"

text \<open>The observation \<open>o\<close> authorises the billing mode \<open>b\<close> of the model \<open>i\<close>.\<close>

definition attests :: "observation_row \<Rightarrow> string \<Rightarrow> billing_mode \<Rightarrow> bool" where
  "attests obs i b =
     (ob_modelId obs = Some i \<and> ob_source obs \<in> {Obs_human, Obs_run_outcome}
      \<and> column_path [''billingMode''] (Some (ob_observedJson obs)) = Some (JStr (billing_name b)))"

definition model_update_triggers ::
  "observation_row list \<Rightarrow> model_row \<Rightarrow> model_row \<Rightarrow> (string \<times> bool) list" where
  "model_update_triggers obs old new =
     [(''agent_models_billing_requires_observation'',
         am_billingMode new \<noteq> am_billingMode old \<and> am_billingMode new \<noteq> Bill_unknown \<longrightarrow>
           list_ex (\<lambda>x. attests x (am_id new) (am_billingMode new)) obs)]"

definition update_models ::
  "instant \<Rightarrow> (model_row \<Rightarrow> bool) \<Rightarrow> (model_row \<Rightarrow> model_row) \<Rightarrow> discovery_store
     \<Rightarrow> (discovery_store \<times> nat) outcome" where
  "update_models now P f s =
     rbind (update_rows (model_update_triggers (dv_observations s)) P
              (\<lambda>m. (f m)\<lparr>am_updatedAt := now\<rparr>) (agentModels (dv_db s)))
       (\<lambda>(rows, n). Inr (s\<lparr>dv_db := (dv_db s)\<lparr>agentModels := rows\<rparr>\<rparr>, n))"

definition update_providers ::
  "instant \<Rightarrow> (provider_row \<Rightarrow> bool) \<Rightarrow> (provider_row \<Rightarrow> provider_row) \<Rightarrow> db \<Rightarrow> db" where
  "update_providers now P f d =
     d\<lparr>agentProviders := update_where P (\<lambda>p. (f p)\<lparr>ap_updatedAt := now\<rparr>) (agentProviders d)\<rparr>"

text \<open>Observations are append-only: there is no update or delete of them.\<close>

definition insert_observation :: "observation_row \<Rightarrow> discovery_store \<Rightarrow> discovery_store outcome" where
  "insert_observation obs s =
     rbind (insert_row
       [(''discovery_observations.id'', \<not> has_key ob_id (ob_id obs) (dv_observations s)),
        (''discovery_observations.provider_id'', has_key ap_id (ob_providerId obs) (agentProviders (dv_db s))),
        (''discovery_observations.model_id'', opt_ref am_id (ob_modelId obs) (agentModels (dv_db s)))]
       obs (dv_observations s))
     (\<lambda>rows. Inr (s\<lparr>dv_observations := rows\<rparr>))"

definition observe ::
  "discovery_env \<Rightarrow> nat \<Rightarrow> observation_source \<Rightarrow> string \<Rightarrow> string \<Rightarrow> (string \<times> json) list \<Rightarrow> discovery_store
     \<Rightarrow> discovery_store discovery_result" where
  "observe e k source providerId modelId observed s =
     of_store (insert_observation
       \<lparr>ob_id = newId ''dobs'' (de_uuid e k), ob_providerId = providerId, ob_modelId = Some modelId,
        ob_observedJson = Json_doc (JObj observed), ob_source = source,
        ob_confidence = CONFIDENCE_BY_SOURCE source, ob_observedAt = de_now e, ob_createdAt = de_now e\<rparr> s)"

section \<open>Reading\<close>

definition provider_with :: "string \<Rightarrow> string \<Rightarrow> db \<Rightarrow> provider_row option" where
  "provider_with n l d = find (\<lambda>p. ap_name p = n \<and> ap_accountLabel p = l) (agentProviders d)"

definition selectProviderByCapacityKey :: "string \<Rightarrow> db \<Rightarrow> provider_row option discovery_result" where
  "selectProviderByCapacityKey key d =
     rbind (of_account (parseCapacityKey key)) (\<lambda>(n, l). Inr (provider_with n l d))"

definition model_with :: "string \<Rightarrow> string \<Rightarrow> db \<Rightarrow> model_row option" where
  "model_with providerId ref d = find (\<lambda>m. am_providerId m = providerId \<and> am_modelRef m = ref) (agentModels d)"

definition models_of :: "string \<Rightarrow> db \<Rightarrow> model_row list" where
  "models_of providerId d = filter (\<lambda>m. am_providerId m = providerId) (agentModels d)"

definition shouldProbe :: "instant \<Rightarrow> instant option \<Rightarrow> bool" where
  "shouldProbe now nextProbeAt = (case nextProbeAt of None \<Rightarrow> True | Some t \<Rightarrow> now \<ge> t)"

definition in_backoff_state :: "model_row \<Rightarrow> bool" where
  "in_backoff_state m = (am_availability m = Av_rate_limited \<or> am_availability m = Av_exhausted)"

definition persisted_state :: "instant \<Rightarrow> model_row \<Rightarrow> model_state" where
  "persisted_state now m =
     \<lparr>ms_modelRef = am_modelRef m, ms_routingClass = am_routingClass m, ms_visible = am_visible m,
      ms_authenticated = am_authenticated m, ms_availability = am_availability m,
      ms_retryEligible =
        (in_backoff_state m \<and> (case am_nextProbeAt m of None \<Rightarrow> False | Some t \<Rightarrow> now \<ge> t)),
      ms_billingMode = am_billingMode m, ms_prohibited = am_prohibited m,
      ms_prohibitedReason = am_prohibitedReason m\<rparr>"

definition persisted_info :: "instant \<Rightarrow> db \<Rightarrow> provider_row \<Rightarrow> provider_info account_result" where
  "persisted_info now d p =
     (let states = map (persisted_state now) (models_of (ap_id p) d) in
      rbind (capacityKey (ap_name p) (ap_accountLabel p)) (\<lambda>key.
        Inr \<lparr>pi_name = key, pi_executable = ap_executable p, pi_version = ap_version p,
             pi_installed = list_ex ms_visible states, pi_models = states\<rparr>))"

fun map_results :: "('a \<Rightarrow> ('e, 'b) result) \<Rightarrow> 'a list \<Rightarrow> ('e, 'b list) result" where
  "map_results f [] = Inr []"
| "map_results f (x # xs) = rbind (f x) (\<lambda>y. rbind (map_results f xs) (\<lambda>ys. Inr (y # ys)))"

definition loadPersistedProviderInfos :: "instant \<Rightarrow> db \<Rightarrow> provider_info list account_result" where
  "loadPersistedProviderInfos now d = map_results (persisted_info now d) (agentProviders d)"

section \<open>Discovery\<close>

text \<open>
  \<^verbatim>\<open>upsertProvider\<close>: only an authoritative source may change what is known of an existing
  provider's executable.
\<close>

definition authoritative_source :: "observation_source \<Rightarrow> bool" where
  "authoritative_source src = (src = Obs_human \<or> src = Obs_probe \<or> src = Obs_run_outcome)"

definition or_keep :: "'a option \<Rightarrow> 'a option \<Rightarrow> 'a option" where
  "or_keep new old = (case new of None \<Rightarrow> old | Some x \<Rightarrow> Some x)"

definition new_provider :: "discovery_env \<Rightarrow> string \<Rightarrow> string \<Rightarrow> provider_row" where
  "new_provider e n l =
     \<lparr>ap_id = newId ''aprov'' (de_uuid e 0), ap_name = n, ap_accountLabel = l, ap_executable = None,
      ap_version = None, ap_credentialFingerprint = None, ap_lastDiscoveredAt = Some (de_now e),
      ap_createdAt = de_now e, ap_updatedAt = de_now e\<rparr>"

definition upsertProvider ::
  "discovery_env \<Rightarrow> provider_info \<Rightarrow> observation_source \<Rightarrow> db \<Rightarrow> (db \<times> string) discovery_result" where
  "upsertProvider e info source d =
     rbind (of_account (parseCapacityKey (pi_name info))) (\<lambda>(n, l).
       case provider_with n l d of
         Some old \<Rightarrow>
           Inr (update_providers (de_now e) (\<lambda>p. ap_id p = ap_id old)
                  (\<lambda>p. p\<lparr>ap_executable := (if authoritative_source source
                                          then or_keep (pi_executable info) (ap_executable old)
                                          else ap_executable old),
                         ap_version := (if authoritative_source source
                                        then or_keep (pi_version info) (ap_version old) else ap_version old),
                         ap_lastDiscoveredAt := Some (de_now e)\<rparr>) d, ap_id old)
       | None \<Rightarrow>
           (let p = (new_provider e n l)\<lparr>ap_executable := pi_executable info, ap_version := pi_version info\<rparr>
            in rbind (of_store (insert_provider p d)) (\<lambda>d'. Inr (d', ap_id p))))"

record discovery_options =
  do_source :: observation_source
  do_note :: "string option"
  do_bypassBackoff :: bool

definition backing_off :: "instant \<Rightarrow> model_row \<Rightarrow> bool" where
  "backing_off now m =
     (in_backoff_state m \<and> (case am_nextProbeAt m of None \<Rightarrow> False | Some t \<Rightarrow> now < t))"

definition keeps_backoff :: "instant \<Rightarrow> discovery_options \<Rightarrow> model_row option \<Rightarrow> bool" where
  "keeps_backoff now opts existing =
     (\<not> do_bypassBackoff opts \<and> (case existing of None \<Rightarrow> False | Some m \<Rightarrow> backing_off now m))"

text \<open>Process-free discovery cannot revoke an earlier observation.\<close>

definition preserves_state :: "discovery_options \<Rightarrow> model_row option \<Rightarrow> bool" where
  "preserves_state opts existing =
     ((do_source opts = Obs_registry \<or> do_source opts = Obs_cli)
      \<and> (case existing of None \<Rightarrow> False
         | Some m \<Rightarrow> am_visible m \<or> am_authenticated m \<or> am_availability m \<noteq> Av_unknown))"

text \<open>The columns a discovery writes; a row of \<open>agentModels\<close> of which only they matter.\<close>

definition discovered_columns ::
  "instant \<Rightarrow> discovery_options \<Rightarrow> model_row option \<Rightarrow> model_state \<Rightarrow> model_row \<Rightarrow> model_row" where
  "discovered_columns now opts existing m r =
     (let keep = preserves_state opts existing;
          hold = (keeps_backoff now opts existing \<or> keep);
          old = (case existing of None \<Rightarrow> r | Some x \<Rightarrow> x)
      in r\<lparr>am_routingClass := (if keep then am_routingClass old else ms_routingClass m),
           am_visible := (if keep then am_visible old else ms_visible m),
           am_authenticated := (if keep then am_authenticated old else ms_authenticated m),
           am_availability := (if hold then am_availability old else ms_availability m),
           am_billingMode := (case existing of None \<Rightarrow> Bill_unknown | Some x \<Rightarrow> am_billingMode x),
           am_prohibited := (if keep then am_prohibited old else ms_prohibited m),
           am_prohibitedReason := (if keep then am_prohibitedReason old else ms_prohibitedReason m),
           am_lastProbedAt := Some now,
           am_nextProbeAt := (if hold then am_nextProbeAt old else None)\<rparr>)"

definition blank_model :: "discovery_env \<Rightarrow> string \<Rightarrow> string \<Rightarrow> string \<Rightarrow> model_row" where
  "blank_model e i providerId ref =
     \<lparr>am_id = i, am_providerId = providerId, am_modelRef = ref, am_routingClass = Cls_unknown,
      am_visible = False, am_authenticated = False, am_availability = Av_unknown,
      am_billingMode = Bill_unknown, am_prohibited = False, am_prohibitedReason = None,
      am_lastProbedAt = None, am_nextProbeAt = None, am_createdAt = de_now e, am_updatedAt = de_now e\<rparr>"

fun class_name :: "routing_class \<Rightarrow> string" where
  "class_name Cls_fable = ''fable''"
| "class_name Cls_opus = ''opus''"
| "class_name Cls_sonnet = ''sonnet''"
| "class_name Cls_codex = ''codex''"
| "class_name Cls_unknown = ''unknown''"

fun availability_name :: "model_availability \<Rightarrow> string" where
  "availability_name Av_available = ''available''"
| "availability_name Av_rate_limited = ''rate_limited''"
| "availability_name Av_exhausted = ''exhausted''"
| "availability_name Av_unknown = ''unknown''"

definition json_opt :: "string option \<Rightarrow> json" where
  "json_opt s = (case s of None \<Rightarrow> JNull | Some x \<Rightarrow> JStr x)"

definition json_instant :: "discovery_env \<Rightarrow> instant option \<Rightarrow> json" where
  "json_instant e t = json_opt (map_option (de_iso e) t)"

definition observed_columns :: "discovery_env \<Rightarrow> model_row \<Rightarrow> (string \<times> json) list" where
  "observed_columns e r =
     [(''modelRef'', JStr (am_modelRef r)), (''routingClass'', JStr (class_name (am_routingClass r))),
      (''visible'', JBool (am_visible r)), (''authenticated'', JBool (am_authenticated r)),
      (''availability'', JStr (availability_name (am_availability r))),
      (''billingMode'', JStr (billing_name (am_billingMode r))), (''prohibited'', JBool (am_prohibited r)),
      (''prohibitedReason'', json_opt (am_prohibitedReason r)),
      (''lastProbedAt'', json_instant e (am_lastProbedAt r)),
      (''nextProbeAt'', json_instant e (am_nextProbeAt r))]"

definition note_field :: "discovery_env \<Rightarrow> string option \<Rightarrow> (string \<times> json) list" where
  "note_field e note =
     (case nonempty_text note of None \<Rightarrow> [] | Some n \<Rightarrow> [(''note'', JStr (bounded_note e n))])"

record persisted_model =
  pm_modelId :: string
  pm_modelRef :: string
  pm_availability :: model_availability
  pm_nextProbeAt :: "instant option"

definition persist_model ::
  "discovery_env \<Rightarrow> discovery_options \<Rightarrow> string \<Rightarrow> nat \<Rightarrow> model_state \<Rightarrow> discovery_store
     \<Rightarrow> (discovery_store \<times> persisted_model) discovery_result" where
  "persist_model e opts providerId k m s =
     (let existing = model_with providerId (ms_modelRef m) (dv_db s);
          i = (case existing of Some x \<Rightarrow> am_id x | None \<Rightarrow> newId ''amodel'' (de_uuid e k));
          blank = blank_model e i providerId (ms_modelRef m);
          row = discovered_columns (de_now e) opts existing m blank;
          write = (case existing of
            Some x \<Rightarrow> rbind (update_models (de_now e) (\<lambda>r. am_id r = i)
                        (discovered_columns (de_now e) opts existing m) s) (\<lambda>(s', n). Inr s')
          | None \<Rightarrow> rbind (insert_model row (dv_db s)) (\<lambda>d. Inr (s\<lparr>dv_db := d\<rparr>)))
      in rbind (of_store write) (\<lambda>s1.
         rbind (observe e (Suc k) (do_source opts) providerId i
                  (observed_columns e row @ note_field e (do_note opts)) s1) (\<lambda>s2.
           Inr (s2, \<lparr>pm_modelId = i, pm_modelRef = ms_modelRef m, pm_availability = am_availability row,
                     pm_nextProbeAt = am_nextProbeAt row\<rparr>))))"

fun persist_models ::
  "discovery_env \<Rightarrow> discovery_options \<Rightarrow> string \<Rightarrow> nat \<Rightarrow> model_state list \<Rightarrow> discovery_store
     \<Rightarrow> (discovery_store \<times> persisted_model list) discovery_result" where
  "persist_models e opts providerId k [] s = Inr (s, [])"
| "persist_models e opts providerId k (m # ms) s =
     rbind (persist_model e opts providerId k m s) (\<lambda>(s1, p).
     rbind (persist_models e opts providerId (k + 2) ms s1) (\<lambda>(s2, ps). Inr (s2, p # ps)))"

definition persistProviderDiscovery ::
  "discovery_env \<Rightarrow> provider_info \<Rightarrow> discovery_options \<Rightarrow> discovery_store
     \<Rightarrow> (discovery_store \<times> string \<times> persisted_model list) discovery_result" where
  "persistProviderDiscovery e info opts s =
     rbind (upsertProvider e info (do_source opts) (dv_db s)) (\<lambda>(d, providerId).
     rbind (persist_models e opts providerId 1 (pi_models info) (s\<lparr>dv_db := d\<rparr>)) (\<lambda>(s', ps).
       Inr (s', providerId, ps)))"

section \<open>Revoking an account\<close>

definition revoked_model :: "discovery_env \<Rightarrow> string \<Rightarrow> model_row \<Rightarrow> model_row" where
  "revoked_model e note r =
     r\<lparr>am_visible := False, am_authenticated := False, am_availability := Av_unknown, am_prohibited := True,
       am_prohibitedReason := Some (bounded_note e note), am_nextProbeAt := None,
       am_lastProbedAt := Some (de_now e)\<rparr>"

definition revoked_columns :: "discovery_env \<Rightarrow> string \<Rightarrow> model_row \<Rightarrow> (string \<times> json) list" where
  "revoked_columns e note r =
     [(''modelRef'', JStr (am_modelRef r)), (''visible'', JBool False), (''authenticated'', JBool False),
      (''availability'', JStr (availability_name Av_unknown)), (''prohibited'', JBool True),
      (''prohibitedReason'', JStr (bounded_note e note)), (''nextProbeAt'', JNull),
      (''lastProbedAt'', JStr (de_iso e (de_now e)))]"

fun revoke_models ::
  "discovery_env \<Rightarrow> string \<Rightarrow> string \<Rightarrow> nat \<Rightarrow> model_row list \<Rightarrow> discovery_store \<Rightarrow> discovery_store discovery_result" where
  "revoke_models e note providerId k [] s = Inr s"
| "revoke_models e note providerId k (m # ms) s =
     rbind (of_store (update_models (de_now e) (\<lambda>r. am_id r = am_id m) (revoked_model e note) s)) (\<lambda>(s1, n).
     rbind (observe e k Obs_human providerId (am_id m) (revoked_columns e note m) s1) (\<lambda>s2.
       revoke_models e note providerId (Suc k) ms s2))"

definition revokeProviderAccountRouting ::
  "discovery_env \<Rightarrow> string \<Rightarrow> string \<Rightarrow> discovery_store \<Rightarrow> (discovery_store \<times> bool) discovery_result" where
  "revokeProviderAccountRouting e key note s =
     rbind (selectProviderByCapacityKey key (dv_db s)) (\<lambda>provider.
       case provider of
         None \<Rightarrow> Inr (s, False)
       | Some p \<Rightarrow>
           rbind (revoke_models e note (ap_id p) 0 (models_of (ap_id p) (dv_db s)) s) (\<lambda>s'. Inr (s', True)))"

section \<open>Billing and run outcomes\<close>

text \<open>The provider and model an observation is about; both must be persisted.\<close>

definition persisted_pair :: "string \<Rightarrow> string \<Rightarrow> db \<Rightarrow> (provider_row \<times> model_row) discovery_result" where
  "persisted_pair key ref d =
     rbind (selectProviderByCapacityKey key d) (\<lambda>provider.
       case provider of
         None \<Rightarrow> Inl (Provider_not_persisted key)
       | Some p \<Rightarrow>
           (case model_with (ap_id p) ref d of
              None \<Rightarrow> Inl (Model_not_persisted key ref) | Some m \<Rightarrow> Inr (p, m)))"

datatype known_billing = Known_included | Known_credits | Known_api

fun mode_of :: "known_billing \<Rightarrow> billing_mode" where
  "mode_of Known_included = Bill_subscription_included"
| "mode_of Known_credits = Bill_usage_credits"
| "mode_of Known_api = Bill_api_billing"

datatype billing_source = Bsrc_human | Bsrc_run_outcome

fun source_of :: "billing_source \<Rightarrow> observation_source" where
  "source_of Bsrc_human = Obs_human"
| "source_of Bsrc_run_outcome = Obs_run_outcome"

record billing_input =
  bi_providerName :: string
  bi_modelRef :: string
  bi_billingMode :: known_billing
  bi_source :: billing_source
  bi_note :: "string option"

definition recordBillingObservation ::
  "discovery_env \<Rightarrow> billing_input \<Rightarrow> discovery_store \<Rightarrow> (discovery_store \<times> string) discovery_result" where
  "recordBillingObservation e i s =
     rbind (persisted_pair (bi_providerName i) (bi_modelRef i) (dv_db s)) (\<lambda>(p, m).
     rbind (observe e 0 (source_of (bi_source i)) (ap_id p) (am_id m)
              [(''modelRef'', JStr (bi_modelRef i)), (''billingMode'', JStr (billing_name (mode_of (bi_billingMode i)))),
               (''note'', json_opt (map_option (bounded_note e) (nonempty_text (bi_note i))))] s) (\<lambda>s1.
     rbind (of_store (update_models (de_now e) (\<lambda>r. am_id r = am_id m)
              (\<lambda>r. r\<lparr>am_billingMode := mode_of (bi_billingMode i)\<rparr>) s1)) (\<lambda>(s2, n).
       Inr (s2, am_id m))))"

fun DEFAULT_BACKOFF_MS :: "model_availability \<Rightarrow> int option" where
  "DEFAULT_BACKOFF_MS Av_rate_limited = Some (15 * 60 * 1000)"
| "DEFAULT_BACKOFF_MS Av_exhausted = Some (60 * 60 * 1000)"
| "DEFAULT_BACKOFF_MS Av_available = None"
| "DEFAULT_BACKOFF_MS Av_unknown = None"

definition next_probe :: "instant \<Rightarrow> int option \<Rightarrow> model_availability \<Rightarrow> instant option" where
  "next_probe now backoffMs result =
     map_option (\<lambda>b. now + (case backoffMs of None \<Rightarrow> b | Some x \<Rightarrow> x)) (DEFAULT_BACKOFF_MS result)"

definition recordModelOutcome ::
  "discovery_env \<Rightarrow> string \<Rightarrow> string \<Rightarrow> model_availability \<Rightarrow> int option \<Rightarrow> discovery_store
     \<Rightarrow> (discovery_store \<times> string \<times> instant option) discovery_result" where
  "recordModelOutcome e key ref result backoffMs s =
     rbind (persisted_pair key ref (dv_db s)) (\<lambda>(p, m).
       let probe = next_probe (de_now e) backoffMs result in
       rbind (of_store (update_models (de_now e) (\<lambda>r. am_id r = am_id m)
                (\<lambda>r. r\<lparr>am_availability := result, am_nextProbeAt := probe, am_lastProbedAt := Some (de_now e)\<rparr>) s))
         (\<lambda>(s1, n).
       rbind (observe e 0 Obs_run_outcome (ap_id p) (am_id m)
                [(''modelRef'', JStr ref), (''availability'', JStr (availability_name result)),
                 (''nextProbeAt'', json_instant e probe)] s1) (\<lambda>s2.
         Inr (s2, am_id m, probe))))"

definition retry_due :: "instant \<Rightarrow> model_row \<Rightarrow> bool" where
  "retry_due now m =
     (in_backoff_state m \<and> (case am_nextProbeAt m of None \<Rightarrow> False | Some t \<Rightarrow> t \<le> now))"

definition retry_taken :: "discovery_env \<Rightarrow> provider_row \<Rightarrow> model_row \<Rightarrow> discovery_store
     \<Rightarrow> (discovery_store \<times> bool) discovery_result" where
  "retry_taken e p m s =
     rbind (of_store (update_models (de_now e)
              (\<lambda>r. am_id r = am_id m \<and> am_availability r = am_availability m
                   \<and> am_nextProbeAt r = am_nextProbeAt m)
              (\<lambda>r. r\<lparr>am_availability := Av_unknown, am_nextProbeAt := None, am_lastProbedAt := Some (de_now e)\<rparr>) s))
       (\<lambda>(s1, changes).
          if changes \<noteq> 1 then Inr (s1, False)
          else rbind (observe e 0 Obs_run_outcome (ap_id p) (am_id m)
                 [(''modelRef'', JStr (am_modelRef m)), (''availability'', JStr (availability_name Av_unknown)),
                  (''retryStartedAt'', JStr (de_iso e (de_now e)))] s1) (\<lambda>s2. Inr (s2, True)))"

definition consumeModelRetry ::
  "discovery_env \<Rightarrow> string \<Rightarrow> string \<Rightarrow> discovery_store \<Rightarrow> (discovery_store \<times> bool) discovery_result" where
  "consumeModelRetry e key ref s =
     rbind (selectProviderByCapacityKey key (dv_db s)) (\<lambda>provider.
       case provider of
         None \<Rightarrow> Inr (s, False)
       | Some p \<Rightarrow>
           (case model_with (ap_id p) ref (dv_db s) of
              None \<Rightarrow> Inr (s, False)
            | Some m \<Rightarrow> if \<not> retry_due (de_now e) m then Inr (s, False) else retry_taken e p m s))"

section \<open>Credential fingerprints\<close>

definition getCredentialFingerprint :: "string \<Rightarrow> db \<Rightarrow> string option discovery_result" where
  "getCredentialFingerprint key d =
     rbind (selectProviderByCapacityKey key d) (\<lambda>p. Inr (Option.bind p ap_credentialFingerprint))"

definition setCredentialFingerprint ::
  "discovery_env \<Rightarrow> string \<Rightarrow> string \<Rightarrow> db \<Rightarrow> db discovery_result" where
  "setCredentialFingerprint e key fingerprint d =
     rbind (of_account (parseCapacityKey key)) (\<lambda>(n, l).
       case provider_with n l d of
         Some p \<Rightarrow>
           Inr (update_providers (de_now e) (\<lambda>q. ap_id q = ap_id p)
                  (\<lambda>q. q\<lparr>ap_credentialFingerprint := Some fingerprint\<rparr>) d)
       | None \<Rightarrow>
           of_store (insert_provider ((new_provider e n l)\<lparr>ap_credentialFingerprint := Some fingerprint\<rparr>) d))"

end
