(* ===== verification/Coordinator.thy ===== *)
theory Coordinator
  imports Completion_Grade Discovery
begin

text \<open>
  The choice of a coordinator in src/supervisor/runtime.ts: from the class of the goal's
  task through the account pool and the router to one provider, account and model; the
  owner's pin; and \<^verbatim>\<open>routeGoalExecution\<close>, which reads the persisted fleet, takes an exhausted
  model's retry and records the decision on the goal. The texts of the reasons are kept as
  the data they render. \<open>collate\<close> is \<^verbatim>\<open>String.prototype.localeCompare\<close>.
\<close>

section \<open>Hosts and providers\<close>

definition PROVIDER_HOSTS :: "string \<Rightarrow> provider_host option" where
  "PROVIDER_HOSTS = map_of
     [(''claude-code'', Host_claude), (''codex'', Host_codex), (''cursor'', Host_cursor),
      (''antigravity'', Host_antigravity)]"

fun HOST_PROVIDERS :: "provider_host \<Rightarrow> string" where
  "HOST_PROVIDERS Host_claude = ''claude-code''"
| "HOST_PROVIDERS Host_codex = ''codex''"
| "HOST_PROVIDERS Host_cursor = ''cursor''"
| "HOST_PROVIDERS Host_antigravity = ''antigravity''"

text \<open>The same table, read by the name of the host.\<close>

definition host_provider_table :: "string \<Rightarrow> string option" where
  "host_provider_table = map_of (map (\<lambda>h. (host_name h, HOST_PROVIDERS h))
     [Host_claude, Host_codex, Host_cursor, Host_antigravity])"

datatype selection_why =
    Why_route route_reason
  | Why_pool pool_reason route_reason
  | Why_checkpoint checkpoint_reason
  | Why_unsupported string
  | Why_pinned provider_host selection_why
  | Why_pin_unavailable provider_host "selection_why option" selection_why
  | Why_retry_consumed string string

record coordinator_route =
  cr_host :: provider_host
  cr_provider :: string
  cr_accountLabel :: string
  cr_modelRef :: string
  cr_effort :: effort
  cr_reason :: selection_why

datatype coordinator_selection = Sel_route coordinator_route | Sel_checkpoint selection_why

fun selection_reason :: "coordinator_selection \<Rightarrow> selection_why" where
  "selection_reason (Sel_route r) = cr_reason r"
| "selection_reason (Sel_checkpoint w) = w"

fun with_reason :: "selection_why \<Rightarrow> coordinator_selection \<Rightarrow> coordinator_selection" where
  "with_reason w (Sel_route r) = Sel_route (r\<lparr>cr_reason := w\<rparr>)"
| "with_reason w (Sel_checkpoint v) = Sel_checkpoint w"

section \<open>The routing request of a task\<close>

definition base_request :: "run_purpose \<Rightarrow> task_complexity \<Rightarrow> routing_request" where
  "base_request p c =
     \<lparr>rq_purpose = p, rq_complexity = c, rq_riskLevel = None, rq_implementedByProvider = None,
      rq_repairAttempts = None, rq_approvedPaidUsage = None, rq_targetClass = None\<rparr>"

definition STRONGEST_ROUTING_REQUEST :: routing_request where
  "STRONGEST_ROUTING_REQUEST = base_request Pur_analysis Cx_architectural"

definition touches_security :: "risk_assessment \<Rightarrow> bool" where
  "touches_security a = (map_of (ra_risk a) Risk_touchesSecurity = Some True)"

definition with_repair :: "supervisor_goal \<Rightarrow> routing_request \<Rightarrow> routing_request" where
  "with_repair g rq =
     (if sg_consecutiveFailures g > 0 then rq\<lparr>rq_repairAttempts := Some (int (sg_consecutiveFailures g))\<rparr> else rq)"

definition taskRoutingRequest :: "supervisor_goal \<Rightarrow> routing_request" where
  "taskRoutingRequest g = with_repair g
     (case sg_admissionRiskAssessment g of
        None \<Rightarrow> STRONGEST_ROUTING_REQUEST
      | Some a \<Rightarrow>
          (case ra_classification a of
             Adm_high_consequence \<Rightarrow>
               (base_request Pur_implementation Cx_architectural)
                 \<lparr>rq_riskLevel := Some (if touches_security a then Risk_security_sensitive else Risk_high),
                  rq_targetClass := Some Tgt_fable\<rparr>
           | Adm_substantive \<Rightarrow>
               (base_request Pur_implementation Cx_complex)\<lparr>rq_targetClass := Some Tgt_opus\<rparr>
           | Adm_bounded \<Rightarrow>
               (base_request Pur_implementation Cx_routine)\<lparr>rq_targetClass := Some Tgt_sonnet\<rparr>
           | Adm_unavailable \<Rightarrow> STRONGEST_ROUTING_REQUEST))"

section \<open>Routing across the accounts\<close>

text \<open>
  \<^verbatim>\<open>[...providers].sort(compareSubscriptionAccounts)\<close>: the comparator throws on a key that
  does not parse, and a sort of two or more elements compares every one of them. Which of
  several bad keys the engine meets first is its own choice; here it is the first in order.
\<close>

definition compared_accounts :: "(string \<Rightarrow> string \<Rightarrow> int) \<Rightarrow> string \<Rightarrow> provider_info \<Rightarrow> provider_info \<Rightarrow> int" where
  "compared_accounts collate preferred l r =
     (case compareSubscriptionAccounts collate l r (Some preferred) of Inl _ \<Rightarrow> 0 | Inr n \<Rightarrow> n)"

definition sort_accounts ::
  "(string \<Rightarrow> string \<Rightarrow> int) \<Rightarrow> string \<Rightarrow> provider_info list \<Rightarrow> provider_info list account_result" where
  "sort_accounts collate preferred infos =
     (if length infos \<le> 1 then Inr infos
      else rbind (filter_keys (\<lambda>_. True) pi_name infos) (\<lambda>_.
        Inr (sort_by (compared_accounts collate preferred) infos)))"

text \<open>Inside a pin the pinned host is sticky, even when the last hop ran elsewhere.\<close>

definition sticky_key :: "supervisor_goal \<Rightarrow> provider_host option \<Rightarrow> string option account_result" where
  "sticky_key g pin =
     (let stickyHost = (case pin of Some h \<Rightarrow> Some h | None \<Rightarrow> sg_lastCoordinator g)
      in lastCapacityKey (map_option host_name stickyHost) (Some (host_name (sg_preferredCoordinator g)))
           (if stickyHost = sg_lastCoordinator g then nonempty_text (sg_lastAccountLabel g) else None)
           host_provider_table)"

definition is_work_failure :: "pool_reason option \<Rightarrow> bool" where
  "is_work_failure why = (case why of Some (Work_failure_rotation k) \<Rightarrow> True | _ \<Rightarrow> False)"

definition is_checkpoint :: "routing_decision \<Rightarrow> bool" where
  "is_checkpoint dec = (case dec of Checkpoint w cs \<Rightarrow> True | Route ch \<Rightarrow> False)"

definition selection_of :: "pool_reason option \<Rightarrow> routing_decision \<Rightarrow> coordinator_selection account_result" where
  "selection_of why dec =
     (case dec of
        Checkpoint w cs \<Rightarrow> Inr (Sel_checkpoint (Why_checkpoint w))
      | Route ch \<Rightarrow>
          rbind (parseCapacityKey (rc_provider ch)) (\<lambda>(providerName, accountLabel).
            Inr (case PROVIDER_HOSTS providerName of
                   None \<Rightarrow> Sel_checkpoint (Why_unsupported (rc_provider ch))
                 | Some host \<Rightarrow>
                     Sel_route \<lparr>cr_host = host, cr_provider = rc_provider ch, cr_accountLabel = accountLabel,
                       cr_modelRef = rc_modelRef ch, cr_effort = rc_effort ch,
                       cr_reason = (case why of None \<Rightarrow> Why_route (rc_reason ch)
                                    | Some w \<Rightarrow> Why_pool w (rc_reason ch))\<rparr>)))"

definition routeAcrossProviders ::
  "(string \<Rightarrow> string \<Rightarrow> int) \<Rightarrow> supervisor_goal \<Rightarrow> provider_info list \<Rightarrow> routing_request \<Rightarrow> provider_host option
     \<Rightarrow> coordinator_selection account_result" where
  "routeAcrossProviders collate g infos rq pin =
     rbind (sticky_key g pin) (\<lambda>stickyKey.
     rbind (subscriptionAccountPool collate infos stickyKey (int (sg_consecutiveFailures g))) (\<lambda>(pool, why).
     rbind (sort_accounts collate
              (HOST_PROVIDERS (case pin of Some h \<Rightarrow> h | None \<Rightarrow> sg_preferredCoordinator g)) pool) (\<lambda>ordered.
     rbind (route rq ordered False) (\<lambda>first.
     rbind (if is_checkpoint first \<and> is_work_failure why \<and> length pool \<noteq> length infos
            then route rq infos False else Inr first) (\<lambda>decision.
       selection_of why decision)))))"

text \<open>The owner's pin: the pinned provider's accounts first, the whole ladder only after them.\<close>

definition selectCoordinatorForRequest ::
  "(string \<Rightarrow> string \<Rightarrow> int) \<Rightarrow> supervisor_goal \<Rightarrow> provider_info list \<Rightarrow> routing_request \<Rightarrow> provider_host option
     \<Rightarrow> coordinator_selection account_result" where
  "selectCoordinatorForRequest collate g infos rq pin =
     (case pin of
        None \<Rightarrow> routeAcrossProviders collate g infos rq None
      | Some h \<Rightarrow>
          rbind (filter_keys (\<lambda>n. n = HOST_PROVIDERS h) pi_name infos) (\<lambda>pinnedPool.
          rbind (if pinnedPool = [] then Inr None
                 else rbind (routeAcrossProviders collate g pinnedPool rq (Some h)) (\<lambda>s. Inr (Some s))) (\<lambda>pinned.
            case pinned of
              Some (Sel_route r) \<Rightarrow> Inr (with_reason (Why_pinned h (cr_reason r)) (Sel_route r))
            | _ \<Rightarrow>
                rbind (routeAcrossProviders collate g infos rq None) (\<lambda>fallback.
                  Inr (with_reason
                        (Why_pin_unavailable h (map_option selection_reason pinned) (selection_reason fallback))
                        fallback)))))"

definition selectCoordinator ::
  "(string \<Rightarrow> string \<Rightarrow> int) \<Rightarrow> supervisor_goal \<Rightarrow> provider_info list \<Rightarrow> routing_request option
     \<Rightarrow> coordinator_selection account_result" where
  "selectCoordinator collate g infos request =
     (case request of
        Some rq \<Rightarrow> selectCoordinatorForRequest collate g infos rq None
      | None \<Rightarrow> selectCoordinatorForRequest collate g infos (taskRoutingRequest g) (sg_pinnedCoordinator g))"

text \<open>The provider that implemented the goal's pending claim, for an independent review.\<close>

definition implementedByProvider :: "supervisor_goal \<Rightarrow> string option account_result" where
  "implementedByProvider g =
     (case nonempty_text
        (case Option.bind (sg_pendingCompletion g) pc_reviewedRun of
           Some r \<Rightarrow> Some (HOST_PROVIDERS (vr_provider r))
         | None \<Rightarrow>
             (case sg_lastRoutingDecision g of
                Some d \<Rightarrow> Some (rd_provider d)
              | None \<Rightarrow> map_option HOST_PROVIDERS (sg_lastCoordinator g))) of
        None \<Rightarrow> Inr None
      | Some key \<Rightarrow> rbind (parseCapacityKey key) (\<lambda>(providerName, _). Inr (Some providerName)))"

section \<open>Routing an execution\<close>

datatype execution_error =
    Exec_policy policy_error
  | Exec_account account_error
  | Exec_discovery discovery_error
  | Exec_goal goal_error

record execution_env =
  xe_collate :: "string \<Rightarrow> string \<Rightarrow> int"
  xe_rsv :: "string \<Rightarrow> string"
  xe_cdir :: "string \<Rightarrow> string option"
  xe_show :: "selection_why \<Rightarrow> string"
  xe_discovery :: discovery_env
  xe_policies :: "project_policy list policy_result"
  xe_stop :: stop_file

record execution_options =
  xo_eligibleHosts :: "provider_host list option"
  xo_excludedCapacityKeys :: "string list"
  xo_request :: "routing_request option"

definition execution_allowed :: "execution_env \<Rightarrow> supervisor_goal \<Rightarrow> unit policy_result" where
  "execution_allowed e g =
     rbind (xe_policies e) (\<lambda>ps.
       assertExecutionAllowed (xe_stop e)
         (getProjectPolicy (xe_rsv e) (xe_cdir e) (de_now (xe_discovery e)) (sg_project g) (sg_repoPath g) ps))"

definition host_eligible :: "provider_host list option \<Rightarrow> string \<Rightarrow> bool" where
  "host_eligible hosts providerName =
     (case hosts of None \<Rightarrow> True
      | Some hs \<Rightarrow> (case PROVIDER_HOSTS providerName of None \<Rightarrow> False | Some h \<Rightarrow> h \<in> set hs))"

text \<open>An excluded key is not parsed, and no key is when every host is eligible.\<close>

fun eligible_infos :: "execution_options \<Rightarrow> provider_info list \<Rightarrow> provider_info list account_result" where
  "eligible_infos opts [] = Inr []"
| "eligible_infos opts (p # ps) =
     (if pi_name p \<in> set (xo_excludedCapacityKeys opts) then eligible_infos opts ps
      else rbind (if xo_eligibleHosts opts = None then Inr True
                  else rbind (parseCapacityKey (pi_name p)) (\<lambda>(n, _). Inr (host_eligible (xo_eligibleHosts opts) n)))
             (\<lambda>keep. rbind (eligible_infos opts ps) (\<lambda>rest. Inr (if keep then p # rest else rest))))"

definition execution_selection ::
  "execution_env \<Rightarrow> supervisor_goal \<Rightarrow> execution_options \<Rightarrow> db
     \<Rightarrow> (provider_info list \<times> coordinator_selection) account_result" where
  "execution_selection e g opts d =
     rbind (loadPersistedProviderInfos (de_now (xe_discovery e)) d) (\<lambda>infos.
     rbind (eligible_infos opts infos) (\<lambda>eligible.
     rbind (selectCoordinator (xe_collate e) g eligible (xo_request opts)) (\<lambda>sel. Inr (infos, sel))))"

definition selected_model :: "provider_info list \<Rightarrow> coordinator_route \<Rightarrow> model_state option" where
  "selected_model infos r =
     (case find (\<lambda>p. pi_name p = cr_provider r) infos of
        None \<Rightarrow> None
      | Some p \<Rightarrow> find (\<lambda>m. ms_modelRef m = cr_modelRef r) (pi_models p))"

definition take_retry ::
  "discovery_env \<Rightarrow> provider_info list \<Rightarrow> coordinator_selection \<Rightarrow> discovery_store
     \<Rightarrow> (discovery_store \<times> coordinator_selection) discovery_result" where
  "take_retry e infos sel s =
     (case sel of
        Sel_checkpoint w \<Rightarrow> Inr (s, sel)
      | Sel_route r \<Rightarrow>
          (case selected_model infos r of
             None \<Rightarrow> Inr (s, sel)
           | Some m \<Rightarrow>
               if \<not> ms_retryEligible m then Inr (s, sel)
               else rbind (consumeModelRetry e (cr_provider r) (cr_modelRef r) s) (\<lambda>(s', ok).
                 Inr (s', if ok then sel
                          else Sel_checkpoint (Why_retry_consumed (cr_provider r) (cr_modelRef r))))))"

definition routingDecisionGoalPatch ::
  "(selection_why \<Rightarrow> string) \<Rightarrow> instant \<Rightarrow> coordinator_route \<Rightarrow> supervisor_goal \<Rightarrow> supervisor_goal" where
  "routingDecisionGoalPatch show_why now r g =
     g\<lparr>sg_lastRoutingDecision := Some
         \<lparr>rd_host = cr_host r, rd_provider = cr_provider r, rd_accountLabel = cr_accountLabel r,
          rd_modelRef = cr_modelRef r, rd_reason = show_why (cr_reason r), rd_selectedAt = now\<rparr>\<rparr>"

text \<open>
  The retry and the record of a selection. The goal \<open>g\<close> is the caller's copy. The retry is
  taken in its own transaction, before the goal is updated: a goal that has gone meanwhile
  does not give it back.
\<close>

definition commit_selection ::
  "execution_env \<Rightarrow> supervisor_goal \<Rightarrow> (execution_error, provider_info list \<times> coordinator_selection) result
     \<Rightarrow> discovery_store \<Rightarrow> supervisor_state
     \<Rightarrow> discovery_store \<times> supervisor_state \<times> (execution_error, coordinator_selection) result" where
  "commit_selection e g selected s st =
     (case selected of
        Inl x \<Rightarrow> (s, st, Inl x)
      | Inr (infos, first) \<Rightarrow>
        (case take_retry (xe_discovery e) infos first s of
           Inl x \<Rightarrow> (s, st, Inl (Exec_discovery x))
         | Inr (s', sel) \<Rightarrow>
           (case sel of
              Sel_checkpoint w \<Rightarrow> (s', st, Inr sel)
            | Sel_route r \<Rightarrow>
              (case updateGoal (de_now (xe_discovery e)) (sg_id g)
                      (routingDecisionGoalPatch (xe_show e) (de_now (xe_discovery e)) r) st of
                 Inl x \<Rightarrow> (s', st, Inl (Exec_goal x))
               | Inr (st', g') \<Rightarrow> (s', st', Inr sel)))))"

definition account_failure :: "'a account_result \<Rightarrow> (execution_error, 'a) result" where
  "account_failure x = (case x of Inl err \<Rightarrow> Inl (Exec_account err) | Inr y \<Rightarrow> Inr y)"

definition routeGoalExecution ::
  "execution_env \<Rightarrow> supervisor_goal \<Rightarrow> execution_options \<Rightarrow> discovery_store \<Rightarrow> supervisor_state
     \<Rightarrow> discovery_store \<times> supervisor_state \<times> (execution_error, coordinator_selection) result" where
  "routeGoalExecution e g opts s st =
     (case execution_allowed e g of
        Inl x \<Rightarrow> (s, st, Inl (Exec_policy x))
      | Inr _ \<Rightarrow> commit_selection e g (account_failure (execution_selection e g opts (dv_db s))) s st)"

end
