(* ===== verification/Discovery_Safety.thy ===== *)
theory Discovery_Safety
  imports Discovery
begin

text \<open>
  What the persisted discovery guarantees. Every operation is a sequence of five kinds of
  row writes; the invariants are proved on those. Composed with the router: a routed model
  has an authoritative observation of its billing, is allowed, and is outside its backoff.
\<close>

section \<open>Row writes\<close>

abbreviation dmodels :: "discovery_store \<Rightarrow> model_row list" where
  "dmodels s \<equiv> agentModels (dv_db s)"

abbreviation dproviders :: "discovery_store \<Rightarrow> provider_row list" where
  "dproviders s \<equiv> agentProviders (dv_db s)"

definition same_model :: "model_row \<Rightarrow> model_row \<Rightarrow> bool" where
  "same_model m m' \<longleftrightarrow>
     am_id m' = am_id m \<and> am_providerId m' = am_providerId m \<and> am_modelRef m' = am_modelRef m"

definition same_provider :: "provider_row \<Rightarrow> provider_row \<Rightarrow> bool" where
  "same_provider p p' \<longleftrightarrow>
     ap_id p' = ap_id p \<and> ap_name p' = ap_name p \<and> ap_accountLabel p' = ap_accountLabel p"

inductive catalog_move :: "discovery_store \<Rightarrow> discovery_store \<Rightarrow> bool" where
  provider_added: "insert_provider p (dv_db s) = Inr d \<Longrightarrow> catalog_move s (s\<lparr>dv_db := d\<rparr>)"
| provider_changed: "(\<And>p. same_provider p (f p)) \<Longrightarrow>
    catalog_move s (s\<lparr>dv_db := update_providers now P f (dv_db s)\<rparr>)"
| model_added: "insert_model m (dv_db s) = Inr d \<Longrightarrow> catalog_move s (s\<lparr>dv_db := d\<rparr>)"
| model_changed: "update_models now P f s = Inr (s', n) \<Longrightarrow> (\<And>m. same_model m (f m)) \<Longrightarrow> catalog_move s s'"
| observation_added: "insert_observation obs s = Inr s' \<Longrightarrow> catalog_move s s'"

lemma of_account_Inr [simp]: "of_account r = Inr x \<longleftrightarrow> r = Inr x"
  by (cases r) (simp_all add: of_account_def)

lemma of_store_Inr [simp]: "of_store r = Inr x \<longleftrightarrow> r = Inr x"
  by (cases r) (simp_all add: of_store_def)

lemma observe_move: "observe e k src p i fs s = Inr s' \<Longrightarrow> catalog_move s s'"
  by (auto simp: observe_def intro: observation_added)

lemma upsert_moves:
  assumes "upsertProvider e info src (dv_db s) = Inr (d, i)"
  shows "catalog_move s (s\<lparr>dv_db := d\<rparr>)"
proof -
  obtain n l where nl: "parseCapacityKey (pi_name info) = Inr (n, l)"
    using assms by (auto simp: upsertProvider_def rbind_eq_Inr)
  show ?thesis
  proof (cases "provider_with n l (dv_db s)")
    case None
    then obtain p where "insert_provider p (dv_db s) = Inr d"
      using assms nl by (auto simp: upsertProvider_def rbind_eq_Inr Let_def)
    then show ?thesis by (rule provider_added)
  next
    case (Some old)
    then show ?thesis using assms nl
      by (auto simp: upsertProvider_def rbind_eq_Inr same_provider_def intro!: provider_changed)
  qed
qed

lemma discovered_same: "same_model r (discovered_columns now opts existing m r)"
  by (simp add: same_model_def discovered_columns_def Let_def)

lemma persist_model_moves:
  assumes "persist_model e opts providerId k m s = Inr (s', pm)"
  shows "catalog_move\<^sup>*\<^sup>* s s'"
proof -
  have step: "catalog_move s s1"
    if "(case model_with providerId (ms_modelRef m) (dv_db s) of
           Some x \<Rightarrow> rbind (update_models now (\<lambda>r. am_id r = i) (discovered_columns now opts y m) s) (\<lambda>(s', n). Inr s')
         | None \<Rightarrow> rbind (insert_model row (dv_db s)) (\<lambda>d. Inr (s\<lparr>dv_db := d\<rparr>))) = Inr s1"
    for now i y row s1
    using that
    by (auto simp: rbind_eq_Inr discovered_same split: option.splits intro: model_added model_changed)
  show ?thesis
    using assms unfolding persist_model_def Let_def
    by (auto simp: rbind_eq_Inr dest!: step observe_move)
qed

lemma persist_models_moves:
  "persist_models e opts providerId k ms s = Inr (s', ps) \<Longrightarrow> catalog_move\<^sup>*\<^sup>* s s'"
proof (induction ms arbitrary: k s ps)
  case (Cons m ms)
  then obtain s1 p qs where "persist_model e opts providerId k m s = Inr (s1, p)"
      "persist_models e opts providerId (k + 2) ms s1 = Inr (s', qs)"
    by (auto simp: rbind_eq_Inr)
  then show ?case using persist_model_moves Cons.IH by (meson rtranclp_trans)
qed simp

lemma persist_moves:
  assumes "persistProviderDiscovery e info opts s = Inr (s', i, ps)"
  shows "catalog_move\<^sup>*\<^sup>* s s'"
proof -
  obtain d where "upsertProvider e info (do_source opts) (dv_db s) = Inr (d, i)"
      "persist_models e opts i 1 (pi_models info) (s\<lparr>dv_db := d\<rparr>) = Inr (s', ps)"
    using assms by (auto simp: persistProviderDiscovery_def rbind_eq_Inr)
  then show ?thesis
    using upsert_moves persist_models_moves by (meson converse_rtranclp_into_rtranclp)
qed

lemma revoke_models_moves:
  "revoke_models e note i k ms s = Inr s' \<Longrightarrow> catalog_move\<^sup>*\<^sup>* s s'"
proof (induction ms arbitrary: k s)
  case (Cons m ms)
  then obtain s1 n s2 where
      u: "update_models (de_now e) (\<lambda>r. am_id r = am_id m) (revoked_model e note) s = Inr (s1, n)"
      and o: "observe e k Obs_human i (am_id m) (revoked_columns e note m) s1 = Inr s2"
      and r: "revoke_models e note i (Suc k) ms s2 = Inr s'"
    by (auto simp: rbind_eq_Inr)
  have "catalog_move s s1" by (rule model_changed [OF u]) (simp add: same_model_def revoked_model_def)
  then show ?case using observe_move [OF o] Cons.IH [OF r] by (meson converse_rtranclp_into_rtranclp)
qed simp

lemma revoke_moves:
  "revokeProviderAccountRouting e key note s = Inr (s', ok) \<Longrightarrow> catalog_move\<^sup>*\<^sup>* s s'"
  by (auto simp: revokeProviderAccountRouting_def rbind_eq_Inr split: option.splits dest: revoke_models_moves)

lemma billing_moves:
  assumes "recordBillingObservation e i s = Inr (s', j)"
  shows "catalog_move\<^sup>*\<^sup>* s s'"
proof -
  obtain p :: provider_row and m :: model_row and fs s1 n where o: "observe e 0 (source_of (bi_source i)) (ap_id p) (am_id m) fs s = Inr s1"
      and u: "update_models (de_now e) (\<lambda>r. am_id r = am_id m)
            (\<lambda>r. r\<lparr>am_billingMode := mode_of (bi_billingMode i)\<rparr>) s1 = Inr (s', n)"
    using assms by (auto simp: recordBillingObservation_def rbind_eq_Inr)
  have "catalog_move s1 s'" by (rule model_changed [OF u]) (simp add: same_model_def)
  then show ?thesis using observe_move [OF o] by (meson converse_rtranclp_into_rtranclp r_into_rtranclp)
qed

lemma outcome_moves:
  assumes "recordModelOutcome e key ref result b s = Inr (s', j, t)"
  shows "catalog_move\<^sup>*\<^sup>* s s'"
proof -
  obtain p :: provider_row and m :: model_row and fs s1 n probe where o: "observe e 0 Obs_run_outcome (ap_id p) (am_id m) fs s1 = Inr s'"
      and u: "update_models (de_now e) (\<lambda>r. am_id r = am_id m)
            (\<lambda>r. r\<lparr>am_availability := result, am_nextProbeAt := probe, am_lastProbedAt := Some (de_now e)\<rparr>) s
              = Inr (s1, n)"
    using assms by (auto simp: recordModelOutcome_def rbind_eq_Inr Let_def)
  have "catalog_move s s1" by (rule model_changed [OF u]) (simp add: same_model_def)
  then show ?thesis using observe_move [OF o] by (meson converse_rtranclp_into_rtranclp r_into_rtranclp)
qed

lemma retry_moves:
  assumes "consumeModelRetry e key ref s = Inr (s', ok)"
  shows "catalog_move\<^sup>*\<^sup>* s s'"
proof (cases "s' = s")
  case False
  then obtain p m where "retry_taken e p m s = Inr (s', ok)"
    using assms by (auto simp: consumeModelRetry_def rbind_eq_Inr split: option.splits if_splits)
  then obtain s1 n where u: "update_models (de_now e)
              (\<lambda>r. am_id r = am_id m \<and> am_availability r = am_availability m
                   \<and> am_nextProbeAt r = am_nextProbeAt m)
              (\<lambda>r. r\<lparr>am_availability := Av_unknown, am_nextProbeAt := None, am_lastProbedAt := Some (de_now e)\<rparr>) s
              = Inr (s1, n)" and rest: "s' = s1 \<or> catalog_move s1 s'"
    by (auto simp: retry_taken_def rbind_eq_Inr split: if_splits dest: observe_move)
  have "catalog_move s s1" by (rule model_changed [OF u]) (simp add: same_model_def)
  then show ?thesis using rest by (meson converse_rtranclp_into_rtranclp r_into_rtranclp)
qed simp

lemma fingerprint_moves:
  assumes "setCredentialFingerprint e key fp (dv_db s) = Inr d"
  shows "catalog_move s (s\<lparr>dv_db := d\<rparr>)"
  using assms
  by (auto simp: setCredentialFingerprint_def rbind_eq_Inr same_provider_def split: option.splits
      intro: provider_added intro!: provider_changed)

section \<open>The catalogue's invariant\<close>

text \<open>
  Primary keys and the two unique indexes; and billing authority: a known billing mode has
  an observation of a person or of a run that records exactly it.
\<close>

definition billing_attested :: "discovery_store \<Rightarrow> model_row \<Rightarrow> bool" where
  "billing_attested s m \<longleftrightarrow> am_billingMode m \<noteq> Bill_unknown \<longrightarrow>
     (\<exists>x \<in> set (dv_observations s). attests x (am_id m) (am_billingMode m))"

definition provider_key :: "provider_row \<Rightarrow> string \<times> string" where
  "provider_key p = (ap_name p, ap_accountLabel p)"

definition model_key :: "model_row \<Rightarrow> string \<times> string" where
  "model_key m = (am_providerId m, am_modelRef m)"

definition catalog_inv :: "discovery_store \<Rightarrow> bool" where
  "catalog_inv s \<longleftrightarrow> distinct (map ap_id (dproviders s)) \<and> distinct (map provider_key (dproviders s))
     \<and> distinct (map am_id (dmodels s)) \<and> distinct (map model_key (dmodels s)) \<and> (\<forall>m \<in> set (dmodels s). billing_attested s m)"

definition catalog_evolves :: "discovery_store \<Rightarrow> discovery_store \<Rightarrow> bool" where
  "catalog_evolves s s' \<longleftrightarrow> (\<exists>xs. dv_observations s' = dv_observations s @ xs)
     \<and> (\<forall>m \<in> set (dmodels s). \<exists>m' \<in> set (dmodels s'). same_model m m')"

lemma catalog_evolves_refl: "catalog_evolves s s"
  by (auto simp: catalog_evolves_def same_model_def)

lemma catalog_evolves_trans: "catalog_evolves s t \<Longrightarrow> catalog_evolves t u \<Longrightarrow> catalog_evolves s u"
  unfolding catalog_evolves_def same_model_def by (metis append.assoc)

lemma insert_provider_InrD:
  assumes "insert_provider p d = Inr d'"
  shows "d' = d\<lparr>agentProviders := agentProviders d @ [p]\<rparr>"
    and "ap_id p \<notin> ap_id ` set (agentProviders d)" and "provider_key p \<notin> provider_key ` set (agentProviders d)"
  using assms
  by (auto simp: insert_provider_def rbind_eq_Inr insert_row_Inr_iff provider_key_def list_ex_iff)

lemma insert_model_InrD:
  assumes "insert_model m d = Inr d'"
  shows "d' = d\<lparr>agentModels := agentModels d @ [m]\<rparr>" and "am_id m \<notin> am_id ` set (agentModels d)"
    and "am_billingMode m = Bill_unknown" and "model_key m \<notin> model_key ` set (agentModels d)"
  using assms by (auto simp: insert_model_def rbind_eq_Inr insert_row_Inr_iff model_key_def list_ex_iff)

lemma insert_observation_InrD:
  "insert_observation x s = Inr s' \<Longrightarrow> s' = s\<lparr>dv_observations := dv_observations s @ [x]\<rparr>"
  by (auto simp: insert_observation_def rbind_eq_Inr insert_row_Inr_iff)

definition stamped :: "instant \<Rightarrow> (model_row \<Rightarrow> model_row) \<Rightarrow> model_row \<Rightarrow> model_row" where
  "stamped now f m = (f m)\<lparr>am_updatedAt := now\<rparr>"

lemma update_models_Inr_iff:
  "update_models now P f s = Inr (s', n) \<longleftrightarrow>
     (\<forall>m \<in> set (dmodels s). P m \<longrightarrow>
        am_billingMode (f m) \<noteq> am_billingMode m \<and> am_billingMode (f m) \<noteq> Bill_unknown \<longrightarrow>
          (\<exists>x \<in> set (dv_observations s). attests x (am_id (f m)) (am_billingMode (f m))))
     \<and> s' = s\<lparr>dv_db := (dv_db s)\<lparr>agentModels := update_where P (stamped now f) (dmodels s)\<rparr>\<rparr>
     \<and> n = count_where P (dmodels s)"
  by (auto simp: update_models_def rbind_eq_Inr update_rows_Inr_iff model_update_triggers_def list_ex_iff
      stamped_def [abs_def])

lemma distinct_update_where:
  "(\<And>x. key (f x) = key x) \<Longrightarrow> map key (update_where P f xs) = map key xs"
  by (induction xs) auto

lemma catalog_move_inv: "catalog_move s s' \<Longrightarrow> catalog_inv s \<Longrightarrow> catalog_inv s'"
proof (induction rule: catalog_move.induct)
  case (provider_added p s d)
  note d = insert_provider_InrD [OF provider_added.hyps]
  show ?case using provider_added.prems d(2,3) by (simp add: catalog_inv_def d(1) billing_attested_def)
next
  case (provider_changed f s now P)
  have "map ap_id (dproviders (s\<lparr>dv_db := update_providers now P f (dv_db s)\<rparr>)) = map ap_id (dproviders s)"
    "map provider_key (dproviders (s\<lparr>dv_db := update_providers now P f (dv_db s)\<rparr>)) = map provider_key (dproviders s)"
    using provider_changed.hyps
    by (simp_all add: update_providers_def same_provider_def provider_key_def distinct_update_where)
  then show ?case using provider_changed.prems
    by (simp add: catalog_inv_def billing_attested_def update_providers_def)
next
  case (model_added m s d)
  note d = insert_model_InrD [OF model_added.hyps]
  show ?case using model_added.prems d(2-4) by (auto simp: catalog_inv_def d(1) billing_attested_def)
next
  case (model_changed now P f s s' n)
  have u: "s' = s\<lparr>dv_db := (dv_db s)\<lparr>agentModels := update_where P (stamped now f) (dmodels s)\<rparr>\<rparr>"
    and t: "\<forall>m \<in> set (dmodels s). P m \<longrightarrow>
        am_billingMode (f m) \<noteq> am_billingMode m \<and> am_billingMode (f m) \<noteq> Bill_unknown \<longrightarrow>
          (\<exists>x \<in> set (dv_observations s). attests x (am_id (f m)) (am_billingMode (f m)))"
    using model_changed.hyps(1) unfolding update_models_Inr_iff by blast+
  have same: "am_id (stamped now f m) = am_id m" "model_key (stamped now f m) = model_key m" for m
    using model_changed.hyps(2) by (simp_all add: stamped_def same_model_def model_key_def)
  have "billing_attested s' m'" if m': "m' \<in> set (dmodels s')" for m'
  proof -
    obtain m where m: "m \<in> set (dmodels s)" "m' = (if P m then stamped now f m else m)"
      using m' by (auto simp: u set_update_where)
    have "billing_attested s m" using m(1) model_changed.prems by (simp add: catalog_inv_def)
    then show ?thesis using t m model_changed.hyps(2)
      by (cases "P m") (auto simp: billing_attested_def u stamped_def same_model_def)
  qed
  then show ?case using model_changed.prems
    by (simp add: catalog_inv_def u distinct_update_where [where key = am_id, OF same(1)]
        distinct_update_where [where key = model_key, OF same(2)])
next
  case (observation_added x s s')
  then show ?case by (auto simp: catalog_inv_def billing_attested_def dest!: insert_observation_InrD)
qed

lemma catalog_move_evolves: "catalog_move s s' \<Longrightarrow> catalog_evolves s s'"
proof (induction rule: catalog_move.induct)
  case (provider_added p s d)
  then show ?case
    by (auto simp: catalog_evolves_def same_model_def dest!: insert_provider_InrD(1))
next
  case (provider_changed f s now P)
  then show ?case by (auto simp: catalog_evolves_def same_model_def update_providers_def)
next
  case (model_added m s d)
  then show ?case by (auto simp: catalog_evolves_def same_model_def dest!: insert_model_InrD(1))
next
  case (model_changed now P f s s' n)
  have "\<exists>m' \<in> set (update_where P (stamped now f) (dmodels s)). same_model m m'" if "m \<in> set (dmodels s)" for m
    using that model_changed.hyps(2)
    by (intro bexI [of _ "if P m then stamped now f m else m"])
      (auto simp: set_update_where same_model_def stamped_def)
  then show ?case using model_changed.hyps(1) unfolding update_models_Inr_iff by (simp add: catalog_evolves_def)
next
  case (observation_added x s s')
  then show ?case by (auto simp: catalog_evolves_def same_model_def dest!: insert_observation_InrD)
qed

section \<open>Reachable catalogues\<close>

inductive discovery_step :: "discovery_store \<Rightarrow> discovery_store \<Rightarrow> bool" where
  ds_persist: "persistProviderDiscovery e info opts s = Inr (s', i, ps) \<Longrightarrow> discovery_step s s'"
| ds_revoke: "revokeProviderAccountRouting e key note s = Inr (s', ok) \<Longrightarrow> discovery_step s s'"
| ds_billing: "recordBillingObservation e input s = Inr (s', i) \<Longrightarrow> discovery_step s s'"
| ds_outcome: "recordModelOutcome e key ref result b s = Inr (s', i, t) \<Longrightarrow> discovery_step s s'"
| ds_retry: "consumeModelRetry e key ref s = Inr (s', ok) \<Longrightarrow> discovery_step s s'"
| ds_fingerprint: "setCredentialFingerprint e key fp (dv_db s) = Inr d \<Longrightarrow> discovery_step s (s\<lparr>dv_db := d\<rparr>)"
| ds_elsewhere: "agentProviders d = dproviders s \<Longrightarrow> agentModels d = dmodels s \<Longrightarrow>
    discovery_step s (s\<lparr>dv_db := d\<rparr>)"

definition fresh_catalog :: "discovery_store \<Rightarrow> bool" where
  "fresh_catalog s \<longleftrightarrow> dproviders s = [] \<and> dmodels s = [] \<and> dv_observations s = []"

lemma moves_keep: "catalog_move\<^sup>*\<^sup>* s s' \<Longrightarrow> catalog_inv s \<Longrightarrow> catalog_inv s' \<and> catalog_evolves s s'"
  by (induction rule: rtranclp_induct)
    (blast intro: catalog_evolves_refl catalog_evolves_trans catalog_move_inv catalog_move_evolves)+

lemma discovery_step_keeps:
  assumes "discovery_step s s'" and "catalog_inv s"
  shows "catalog_inv s' \<and> catalog_evolves s s'"
  using assms
proof (induction rule: discovery_step.induct)
  case (ds_elsewhere d s)
  then show ?case by (auto simp: catalog_inv_def billing_attested_def catalog_evolves_def same_model_def)
qed (erule moves_keep [OF persist_moves] moves_keep [OF revoke_moves] moves_keep [OF billing_moves]
      moves_keep [OF outcome_moves] moves_keep [OF retry_moves]
      moves_keep [OF r_into_rtranclp [where r = catalog_move, OF fingerprint_moves]], assumption)+

interpretation dsc: invariant_system fresh_catalog discovery_step catalog_inv catalog_evolves
proof
  show "fresh_catalog s \<Longrightarrow> catalog_inv s" for s by (simp add: fresh_catalog_def catalog_inv_def)
qed (blast intro: catalog_evolves_refl catalog_evolves_trans dest: discovery_step_keeps)+

section \<open>A routed model is attested\<close>

lemma map_results_mem:
  "map_results f xs = Inr ys \<Longrightarrow> y \<in> set ys \<Longrightarrow> \<exists>x \<in> set xs. f x = Inr y"
  by (induction xs arbitrary: ys) (auto simp: rbind_eq_Inr)

lemma map_results_all:
  "map_results f xs = Inr ys \<Longrightarrow> x \<in> set xs \<Longrightarrow> \<exists>y \<in> set ys. f x = Inr y"
  by (induction xs arbitrary: ys) (auto simp: rbind_eq_Inr)

text \<open>A candidate of the persisted fleet is a row of \<open>agentModels\<close> under its account's key.\<close>

lemma persisted_candidate:
  assumes "loadPersistedProviderInfos now d = Inr infos" and "c \<in> set (collectCandidates infos)"
  obtains p m where "p \<in> set (agentProviders d)" "m \<in> set (agentModels d)" "am_providerId m = ap_id p"
    "capacityKey (ap_name p) (ap_accountLabel p) = Inr (cd_provider c)" "cd_model c = persisted_state now m"
proof -
  obtain i where i: "i \<in> set infos" "cd_provider c = pi_name i" "cd_model c \<in> set (pi_models i)"
    using assms(2) by (auto simp: collectCandidates_def)
  obtain p where p: "p \<in> set (agentProviders d)" "persisted_info now d p = Inr i"
    using map_results_mem assms(1) i(1) unfolding loadPersistedProviderInfos_def by metis
  then have k: "capacityKey (ap_name p) (ap_accountLabel p) = Inr (pi_name i)"
      "pi_models i = map (persisted_state now) (models_of (ap_id p) d)"
    by (auto simp: persisted_info_def Let_def rbind_eq_Inr)
  then show thesis using that [OF p(1)] i by (auto simp: models_of_def)
qed

lemma usable_persisted:
  "usable_model (persisted_state now m) \<longleftrightarrow>
     am_visible m \<and> am_authenticated m \<and> \<not> am_prohibited m \<and> am_billingMode m \<noteq> Bill_unknown
     \<and> (am_availability m = Av_available \<or> retry_due now m)"
  by (auto simp: usable_model_def persisted_state_def retry_due_def split: option.splits)

definition allowed_at :: "instant \<Rightarrow> model_row \<Rightarrow> bool" where
  "allowed_at now m \<longleftrightarrow> am_visible m \<and> am_authenticated m \<and> \<not> am_prohibited m
     \<and> (am_availability m = Av_available \<or> retry_due now m)"

lemma routed_row:
  assumes "loadPersistedProviderInfos now d = Inr infos" and "set infos' \<subseteq> set infos"
    and "route rq infos' pr = Inr (Route ch)"
  obtains p m where "p \<in> set (agentProviders d)" "m \<in> set (agentModels d)" "am_providerId m = ap_id p"
    "capacityKey (ap_name p) (ap_accountLabel p) = Inr (rc_provider ch)" "am_modelRef m = rc_modelRef ch"
    "am_billingMode m = rc_billingMode ch" "am_billingMode m \<noteq> Bill_unknown" "allowed_at now m"
proof -
  obtain c where c: "c \<in> set (collectCandidates infos')" "rc_provider ch = cd_provider c"
      "rc_modelRef ch = ms_modelRef (cd_model c)" "rc_billingMode ch = ms_billingMode (cd_model c)" "usable c"
    using route_allowed [OF assms(3)] by blast
  have "c \<in> set (collectCandidates infos)" using c(1) assms(2) by (auto simp: collectCandidates_def)
  then obtain p m where pm: "p \<in> set (agentProviders d)" "m \<in> set (agentModels d)" "am_providerId m = ap_id p"
      "capacityKey (ap_name p) (ap_accountLabel p) = Inr (cd_provider c)" "cd_model c = persisted_state now m"
    by (rule persisted_candidate [OF assms(1)])
  have "allowed_at now m" "am_billingMode m \<noteq> Bill_unknown"
    using c(5) by (simp_all add: usable_def pm(5) usable_persisted allowed_at_def)
  moreover have "am_modelRef m = rc_modelRef ch" "am_billingMode m = rc_billingMode ch"
    using c(3,4) by (simp_all add: pm(5) persisted_state_def)
  ultimately show thesis using that [OF pm(1-3)] pm(4) c(2) by simp
qed

text \<open>
  C23. Money is spent only on attested models: whatever sequence of discoveries, revocations,
  outcomes and retries produced the store, a model the router picks from it is a persisted
  row that is visible, authenticated, not prohibited, and available or past its backoff; and
  its billing mode is recorded by an observation of a person or of a run. Observations are
  append-only, so the evidence stays.
\<close>

theorem routed_model_is_attested:
  assumes "dsc.reachable s" and "loadPersistedProviderInfos now (dv_db s) = Inr infos"
    and "route rq infos pr = Inr (Route ch)"
  shows "\<exists>p \<in> set (agentProviders (dv_db s)). \<exists>m \<in> set (agentModels (dv_db s)).
     \<exists>x \<in> set (dv_observations s).
       capacityKey (ap_name p) (ap_accountLabel p) = Inr (rc_provider ch)
       \<and> am_providerId m = ap_id p \<and> am_modelRef m = rc_modelRef ch \<and> allowed_at now m
       \<and> am_billingMode m = rc_billingMode ch \<and> attests x (am_id m) (rc_billingMode ch)
       \<and> (\<forall>s'. discovery_step\<^sup>*\<^sup>* s s' \<longrightarrow> x \<in> set (dv_observations s'))"
proof -
  obtain p m where pm: "p \<in> set (dproviders s)" "m \<in> set (dmodels s)" "am_providerId m = ap_id p"
    "capacityKey (ap_name p) (ap_accountLabel p) = Inr (rc_provider ch)" "am_modelRef m = rc_modelRef ch"
    "am_billingMode m = rc_billingMode ch" "am_billingMode m \<noteq> Bill_unknown" "allowed_at now m"
    by (rule routed_row [OF assms(2) subset_refl assms(3)])
  have "billing_attested s m"
    using dsc.reachable_inv [OF assms(1)] pm(2) by (simp add: catalog_inv_def)
  then obtain x where x: "x \<in> set (dv_observations s)" "attests x (am_id m) (rc_billingMode ch)"
    using pm(6,7) by (auto simp: billing_attested_def)
  have "x \<in> set (dv_observations s')" if "discovery_step\<^sup>*\<^sup>* s s'" for s'
    using dsc.reachable_evolves [OF assms(1) that] x(1) by (auto simp: catalog_evolves_def)
  then show ?thesis using pm x by blast
qed

section \<open>Discovery keeps what is known\<close>

text \<open>What a discovery must leave of a model it finds again, or does not mention.\<close>

definition knowledge_kept :: "instant \<Rightarrow> discovery_options \<Rightarrow> model_row \<Rightarrow> model_row \<Rightarrow> bool" where
  "knowledge_kept now opts m m' \<longleftrightarrow> same_model m m' \<and> am_billingMode m' = am_billingMode m
     \<and> (keeps_backoff now opts (Some m) \<or> preserves_state opts (Some m) \<longrightarrow>
          am_availability m' = am_availability m \<and> am_nextProbeAt m' = am_nextProbeAt m)
     \<and> (preserves_state opts (Some m) \<longrightarrow>
          am_routingClass m' = am_routingClass m \<and> am_visible m' = am_visible m
          \<and> am_authenticated m' = am_authenticated m \<and> am_prohibited m' = am_prohibited m)"

lemma knowledge_kept_refl: "knowledge_kept now opts m m"
  by (simp add: knowledge_kept_def same_model_def)

lemma knowledge_kept_flags:
  assumes "knowledge_kept now opts m m'"
  shows "keeps_backoff now opts (Some m) \<Longrightarrow> keeps_backoff now opts (Some m')"
    and "preserves_state opts (Some m) \<Longrightarrow> preserves_state opts (Some m')"
  using assms
  by (auto simp: knowledge_kept_def keeps_backoff_def preserves_state_def backing_off_def in_backoff_state_def)

lemma knowledge_kept_trans:
  assumes "knowledge_kept now opts m m'" and "knowledge_kept now opts m' m''"
  shows "knowledge_kept now opts m m''"
  using assms(2) knowledge_kept_flags [OF assms(1)] assms(1)
  unfolding knowledge_kept_def same_model_def by metis

definition catalog_kept :: "instant \<Rightarrow> discovery_options \<Rightarrow> discovery_store \<Rightarrow> discovery_store \<Rightarrow> bool" where
  "catalog_kept now opts s s' \<longleftrightarrow>
     (\<forall>m \<in> set (dmodels s). \<exists>m' \<in> set (dmodels s'). knowledge_kept now opts m m')
     \<and> (\<forall>m' \<in> set (dmodels s'). am_billingMode m' = Bill_unknown
          \<or> (\<exists>m \<in> set (dmodels s). am_id m = am_id m' \<and> am_billingMode m = am_billingMode m'))"

lemma catalog_kept_same: "dmodels s' = dmodels s \<Longrightarrow> catalog_kept now opts s s'"
  by (auto simp: catalog_kept_def intro: knowledge_kept_refl)

lemma catalog_kept_trans:
  assumes "catalog_kept now opts s t" and "catalog_kept now opts t u"
  shows "catalog_kept now opts s u"
proof -
  have "\<exists>m'' \<in> set (dmodels u). knowledge_kept now opts m m''" if "m \<in> set (dmodels s)" for m
    using assms that knowledge_kept_trans unfolding catalog_kept_def by meson
  moreover have "am_billingMode m'' = Bill_unknown
      \<or> (\<exists>m \<in> set (dmodels s). am_id m = am_id m'' \<and> am_billingMode m = am_billingMode m'')"
    if m'': "m'' \<in> set (dmodels u)" for m''
  proof (cases "am_billingMode m'' = Bill_unknown")
    case False
    then obtain m' where m': "m' \<in> set (dmodels t)" "am_id m' = am_id m''" "am_billingMode m' = am_billingMode m''"
      using assms(2) m'' unfolding catalog_kept_def by blast
    then obtain m where "m \<in> set (dmodels s)" "am_id m = am_id m'" "am_billingMode m = am_billingMode m'"
      using assms(1) False unfolding catalog_kept_def by metis
    then show ?thesis using m' by auto
  qed simp
  ultimately show ?thesis by (simp add: catalog_kept_def)
qed

lemma persist_write_kept:
  assumes "distinct (map am_id (dmodels s))" and "model_with providerId ref (dv_db s) = Some x"
    and u: "update_models now (\<lambda>r. am_id r = am_id x) (discovered_columns now opts (Some x) m) s = Inr (s', n)"
  shows "catalog_kept now opts s s'"
proof -
  have x: "x \<in> set (dmodels s)" using assms(2) find_SomeD unfolding model_with_def by metis
  have only: "r = x" if "r \<in> set (dmodels s)" "am_id r = am_id x" for r
    using assms(1) x that by (auto simp: distinct_map inj_on_def)
  let ?g = "stamped now (discovered_columns now opts (Some x) m)"
  have s': "dmodels s' = update_where (\<lambda>r. am_id r = am_id x) ?g (dmodels s)"
    using u unfolding update_models_Inr_iff by simp
  have kept: "knowledge_kept now opts x (?g x)"
    by (simp add: knowledge_kept_def same_model_def stamped_def discovered_columns_def Let_def)
  have set': "set (dmodels s') = (\<lambda>r. if am_id r = am_id x then ?g r else r) ` set (dmodels s)"
    by (simp add: s' set_update_where)
  have "\<exists>r' \<in> set (dmodels s'). knowledge_kept now opts r r'" if r: "r \<in> set (dmodels s)" for r
  proof (cases "am_id r = am_id x")
    case True
    then show ?thesis using only [OF r True] kept r unfolding set' by auto
  next
    case False
    then show ?thesis using r knowledge_kept_refl unfolding set' by (intro bexI [of _ r]) auto
  qed
  moreover have "am_billingMode r' = Bill_unknown
      \<or> (\<exists>r \<in> set (dmodels s). am_id r = am_id r' \<and> am_billingMode r = am_billingMode r')"
    if r': "r' \<in> set (dmodels s')" for r'
  proof -
    obtain r where r: "r \<in> set (dmodels s)" "r' = (if am_id r = am_id x then ?g r else r)"
      using r' unfolding set' by blast
    have "am_id (?g r) = am_id r \<and> am_billingMode (?g r) = am_billingMode r" if "am_id r = am_id x"
      using kept only [OF r(1) that] by (simp add: knowledge_kept_def same_model_def)
    then show ?thesis using r by (intro disjI2 bexI [OF _ r(1)]) simp
  qed
  ultimately show ?thesis by (simp add: catalog_kept_def)
qed

lemma insert_model_kept:
  assumes "insert_model r (dv_db s) = Inr d"
  shows "catalog_kept now opts s (s\<lparr>dv_db := d\<rparr>)"
  using insert_model_InrD [OF assms] by (auto simp: catalog_kept_def intro!: knowledge_kept_refl bexI)

lemma observe_models: "observe e k src p i fs s = Inr s' \<Longrightarrow> dmodels s' = dmodels s"
  by (auto simp: observe_def dest!: insert_observation_InrD)

lemma persist_model_kept:
  assumes "distinct (map am_id (dmodels s))" and "persist_model e opts providerId k m s = Inr (s', pm)"
  shows "catalog_kept (de_now e) opts s s'"
proof (cases "model_with providerId (ms_modelRef m) (dv_db s)")
  case None
  then obtain r d i fs where "insert_model r (dv_db s) = Inr d"
      "observe e (Suc k) (do_source opts) providerId i fs (s\<lparr>dv_db := d\<rparr>) = Inr s'"
    using assms(2) unfolding persist_model_def Let_def by (auto simp: rbind_eq_Inr)
  then show ?thesis using insert_model_kept observe_models catalog_kept_same catalog_kept_trans by metis
next
  case (Some x)
  then obtain s1 n i fs where
      "update_models (de_now e) (\<lambda>r. am_id r = am_id x) (discovered_columns (de_now e) opts (Some x) m) s = Inr (s1, n)"
      "observe e (Suc k) (do_source opts) providerId i fs s1 = Inr s'"
    using assms(2) unfolding persist_model_def Let_def by (auto simp: rbind_eq_Inr)
  then show ?thesis
    using persist_write_kept [OF assms(1) Some] observe_models catalog_kept_same catalog_kept_trans by metis
qed

lemma persist_models_kept:
  "persist_models e opts providerId k ms s = Inr (s', ps) \<Longrightarrow> catalog_inv s \<Longrightarrow>
     catalog_kept (de_now e) opts s s'"
proof (induction ms arbitrary: k s ps)
  case Nil
  then show ?case using catalog_kept_same by simp
next
  case (Cons m ms)
  then obtain s1 p qs where p: "persist_model e opts providerId k m s = Inr (s1, p)"
      "persist_models e opts providerId (k + 2) ms s1 = Inr (s', qs)"
    by (auto simp: rbind_eq_Inr)
  have "catalog_inv s1" using moves_keep [OF persist_model_moves [OF p(1)]] Cons.prems(2) by blast
  then have "catalog_kept (de_now e) opts s1 s'" using Cons.IH [OF p(2)] by blast
  moreover have "catalog_kept (de_now e) opts s s1"
    using persist_model_kept [OF _ p(1)] Cons.prems(2) by (simp add: catalog_inv_def)
  ultimately show ?case by (blast intro: catalog_kept_trans)
qed

lemma upsert_models: "upsertProvider e info src d = Inr (d', i) \<Longrightarrow> agentModels d' = agentModels d"
  by (auto simp: upsertProvider_def rbind_eq_Inr update_providers_def Let_def split: option.splits
      dest!: insert_provider_InrD(1))

text \<open>
  Discovery asserts nothing about money and cannot lift a backoff: every model already
  known keeps its billing mode, keeps its availability and next probe time while it backs
  off (unless the owner asked to bypass it), and keeps its whole state when the discovery ran
  no process; a model found for the first time has unknown billing.
\<close>

theorem discovery_keeps_what_is_known:
  assumes "dsc.reachable s" and "persistProviderDiscovery e info opts s = Inr (s', i, ps)"
  shows "(\<forall>m \<in> set (agentModels (dv_db s)). \<exists>m' \<in> set (agentModels (dv_db s')).
            knowledge_kept (de_now e) opts m m')
     \<and> (\<forall>m' \<in> set (agentModels (dv_db s')). am_billingMode m' = Bill_unknown
          \<or> (\<exists>m \<in> set (agentModels (dv_db s)). am_id m = am_id m' \<and> am_billingMode m = am_billingMode m'))"
proof -
  obtain d where d: "upsertProvider e info (do_source opts) (dv_db s) = Inr (d, i)"
      "persist_models e opts i 1 (pi_models info) (s\<lparr>dv_db := d\<rparr>) = Inr (s', ps)"
    using assms(2) by (auto simp: persistProviderDiscovery_def rbind_eq_Inr)
  have "catalog_inv (s\<lparr>dv_db := d\<rparr>)"
    using catalog_move_inv [OF upsert_moves [OF d(1)]] dsc.reachable_inv [OF assms(1)] by blast
  then have "catalog_kept (de_now e) opts (s\<lparr>dv_db := d\<rparr>) s'" by (rule persist_models_kept [OF d(2)])
  then show ?thesis using upsert_models [OF d(1)] by (simp add: catalog_kept_def)
qed

section \<open>A retry is taken once\<close>

lemma find_update_where:
  "(\<And>x. Q (g x) = Q x) \<Longrightarrow>
     find Q (update_where P g xs) = map_option (\<lambda>x. if P x then g x else x) (find Q xs)"
  by (induction xs) auto

lemma retry_taken_once:
  assumes "catalog_inv s" and "model_with i ref (dv_db s) = Some m" and "retry_taken e p m s = Inr (s', ok)"
  shows "ok \<and> dproviders s' = dproviders s
     \<and> (\<exists>m'. model_with i ref (dv_db s') = Some m' \<and> am_availability m' = Av_unknown)
     \<and> (\<forall>m' \<in> set (dmodels s'). am_id m' = am_id m \<longrightarrow> am_availability m' = Av_unknown)"
proof -
  let ?P = "\<lambda>r. am_id r = am_id m \<and> am_availability r = am_availability m \<and> am_nextProbeAt r = am_nextProbeAt m"
  let ?f = "\<lambda>r. r\<lparr>am_availability := Av_unknown, am_nextProbeAt := None, am_lastProbedAt := Some (de_now e)\<rparr>"
  let ?Q = "\<lambda>r. am_providerId r = i \<and> am_modelRef r = ref"
  have m: "m \<in> set (dmodels s)" using assms(2) find_SomeD unfolding model_with_def by metis
  have only: "r = m" if "r \<in> set (dmodels s)" "am_id r = am_id m" for r
    using assms(1) m that by (auto simp: catalog_inv_def distinct_map inj_on_def)
  have one: "count_where ?P (dmodels s) = 1"
    using assms(1) m by (intro count_where_key [where key = am_id and r = m])
      (auto simp: catalog_inv_def unique_by_def)
  obtain s1 n where u: "update_models (de_now e) ?P ?f s = Inr (s1, n)"
    and rest: "(if n \<noteq> 1 then Inr (s1, False)
        else rbind (observe e 0 Obs_run_outcome (ap_id p) (am_id m)
               [(''modelRef'', JStr (am_modelRef m)), (''availability'', JStr (availability_name Av_unknown)),
                (''retryStartedAt'', JStr (de_iso e (de_now e)))] s1) (\<lambda>s2. Inr (s2, True))) = Inr (s', ok)"
    using assms(3) by (auto simp: retry_taken_def rbind_eq_Inr)
  have "n = 1" using u one unfolding update_models_Inr_iff by simp
  then obtain fs where o: "observe e 0 Obs_run_outcome (ap_id p) (am_id m) fs s1 = Inr s'" and "ok"
    using rest by (auto simp: rbind_eq_Inr)
  have s': "dmodels s' = update_where ?P (stamped (de_now e) ?f) (dmodels s)" "dproviders s' = dproviders s"
    using u o unfolding update_models_Inr_iff by (auto simp: observe_def dest!: insert_observation_InrD)
  have "model_with i ref (dv_db s') = map_option (\<lambda>x. if ?P x then stamped (de_now e) ?f x else x) (Some m)"
    using find_update_where [of ?Q "stamped (de_now e) ?f" ?P "dmodels s"] assms(2)
    by (simp add: model_with_def s' stamped_def)
  then have "model_with i ref (dv_db s') = Some (stamped (de_now e) ?f m)" by simp
  moreover have "am_availability m' = Av_unknown" if m': "m' \<in> set (dmodels s')" "am_id m' = am_id m" for m'
  proof -
    obtain r where r: "r \<in> set (dmodels s)" "m' = (if ?P r then stamped (de_now e) ?f r else r)"
      using m'(1) unfolding s'(1) set_update_where by blast
    then have "am_id r = am_id m" using m'(2) by (auto simp: stamped_def split: if_splits)
    then have "r = m" by (rule only [OF r(1)])
    then show ?thesis using r(2) by (simp add: stamped_def)
  qed
  ultimately show ?thesis using \<open>ok\<close> s'(2) by (simp add: stamped_def)
qed

lemma retry_granted:
  assumes "catalog_inv s" and "consumeModelRetry e key ref s = Inr (s', ok)"
  shows "if ok then \<exists>p m. selectProviderByCapacityKey key (dv_db s) = Inr (Some p)
        \<and> model_with (ap_id p) ref (dv_db s) = Some m \<and> retry_due (de_now e) m
        \<and> (\<forall>m' \<in> set (agentModels (dv_db s')). am_id m' = am_id m \<longrightarrow> (\<forall>now. \<not> allowed_at now m'))
        \<and> (\<forall>e'. consumeModelRetry e' key ref s' = Inr (s', False))
      else s' = s"
proof -
  obtain q where q: "selectProviderByCapacityKey key (dv_db s) = Inr q"
    using assms(2) by (auto simp: consumeModelRetry_def rbind_eq_Inr)
  show ?thesis
  proof (cases "\<exists>p m. q = Some p \<and> model_with (ap_id p) ref (dv_db s) = Some m \<and> retry_due (de_now e) m")
    case False
    then have "s' = s \<and> \<not> ok"
      using assms(2) q by (auto simp: consumeModelRetry_def split: option.splits if_splits)
    then show ?thesis by simp
  next
    case True
    then obtain p m where pm: "q = Some p" "model_with (ap_id p) ref (dv_db s) = Some m"
      "retry_due (de_now e) m" by blast
    then have t: "retry_taken e p m s = Inr (s', ok)" using assms(2) q by (simp add: consumeModelRetry_def)
    note r = retry_taken_once [OF assms(1) pm(2) t]
    then obtain m' where m': "model_with (ap_id p) ref (dv_db s') = Some m'" "am_availability m' = Av_unknown"
      by blast
    have sel: "selectProviderByCapacityKey key (dv_db s') = Inr (Some p)"
      using q pm(1) r by (simp add: selectProviderByCapacityKey_def provider_with_def)
    then have again: "\<forall>e'. consumeModelRetry e' key ref s' = Inr (s', False)"
      using m' by (simp add: consumeModelRetry_def retry_due_def in_backoff_state_def)
    have idle: "\<forall>x \<in> set (dmodels s'). am_id x = am_id m \<longrightarrow> (\<forall>now. \<not> allowed_at now x)"
      using r by (simp add: allowed_at_def retry_due_def in_backoff_state_def)
    have "ok" using r by blast
    show ?thesis
      unfolding if_P [OF \<open>ok\<close>]
      by (intro exI [of _ p] exI [of _ m] conjI pm(2,3) idle again) (simp add: q pm(1))
  qed
qed

text \<open>
  An exhausted model is retried at most once per backoff: a retry is granted only for a
  persisted model whose probe time has passed; from then on no route may use that model and
  a second request for the retry is refused, until an outcome or a discovery is recorded. A
  refused retry changes nothing.
\<close>

theorem retry_is_granted_once:
  assumes "dsc.reachable s" and "consumeModelRetry e key ref s = Inr (s', ok)"
  shows "if ok then \<exists>p m. selectProviderByCapacityKey key (dv_db s) = Inr (Some p)
        \<and> model_with (ap_id p) ref (dv_db s) = Some m \<and> retry_due (de_now e) m
        \<and> (\<forall>m' \<in> set (agentModels (dv_db s')). am_id m' = am_id m \<longrightarrow> (\<forall>now. \<not> allowed_at now m'))
        \<and> (\<forall>e'. consumeModelRetry e' key ref s' = Inr (s', False))
      else s' = s"
  by (rule retry_granted [OF dsc.reachable_inv [OF assms(1)] assms(2)])

section \<open>Revoking an account\<close>

lemma revoke_models_prohibits:
  "revoke_models e note i k ms s = Inr s' \<Longrightarrow>
     dproviders s' = dproviders s \<and>
     (\<forall>r' \<in> set (dmodels s'). \<exists>r \<in> set (dmodels s). same_model r r'
        \<and> (am_prohibited r \<or> am_id r \<in> am_id ` set ms \<longrightarrow> am_prohibited r'))"
proof (induction ms arbitrary: k s)
  case Nil
  then show ?case by (auto simp: same_model_def)
next
  case (Cons m ms)
  then obtain s1 n s2 where
      u: "update_models (de_now e) (\<lambda>r. am_id r = am_id m) (revoked_model e note) s = Inr (s1, n)"
      and o: "observe e k Obs_human i (am_id m) (revoked_columns e note m) s1 = Inr s2"
      and rest: "revoke_models e note i (Suc k) ms s2 = Inr s'"
    by (auto simp: rbind_eq_Inr)
  have s2: "dmodels s2 = update_where (\<lambda>r. am_id r = am_id m) (stamped (de_now e) (revoked_model e note)) (dmodels s)"
    "dproviders s2 = dproviders s"
    using u o unfolding update_models_Inr_iff by (auto simp: observe_def dest!: insert_observation_InrD)
  note IH = Cons.IH [OF rest]
  have "\<exists>r \<in> set (dmodels s). same_model r r' \<and> (am_prohibited r \<or> am_id r \<in> am_id ` set (m # ms) \<longrightarrow> am_prohibited r')"
    if r': "r' \<in> set (dmodels s')" for r'
  proof -
    obtain r2 where r2: "r2 \<in> set (dmodels s2)" "same_model r2 r'"
        "am_prohibited r2 \<or> am_id r2 \<in> am_id ` set ms \<longrightarrow> am_prohibited r'"
      using IH r' by blast
    obtain r where r: "r \<in> set (dmodels s)"
        "r2 = (if am_id r = am_id m then stamped (de_now e) (revoked_model e note) r else r)"
      using r2(1) by (auto simp: s2 set_update_where)
    have "same_model r r2 \<and> (am_prohibited r \<or> am_id r = am_id m \<longrightarrow> am_prohibited r2)"
      using r(2) by (simp add: stamped_def revoked_model_def same_model_def)
    then have "same_model r r'" "am_prohibited r \<or> am_id r \<in> am_id ` set (m # ms) \<longrightarrow> am_prohibited r'"
      using r2(2,3) by (simp_all add: same_model_def)
    then show ?thesis using r(1) by blast
  qed
  then show ?case using IH s2(2) by simp
qed

text \<open>
  Revoking an account fails closed: right after it, no route over the persisted store
  names that account, whichever way its key is written, whatever the request and whenever
  the store is read.
\<close>

theorem revoked_account_is_unroutable:
  assumes "dsc.reachable s" and "revokeProviderAccountRouting e key note s = Inr (s', True)"
    and "loadPersistedProviderInfos now (dv_db s') = Inr infos"
    and "route rq infos pr = Inr (Route ch)"
  shows "parseCapacityKey (rc_provider ch) \<noteq> parseCapacityKey key"
proof
  assume same: "parseCapacityKey (rc_provider ch) = parseCapacityKey key"
  obtain n l p where nl: "parseCapacityKey key = Inr (n, l)" "provider_with n l (dv_db s) = Some p"
      and rv: "revoke_models e note (ap_id p) 0 (models_of (ap_id p) (dv_db s)) s = Inr s'"
    using assms(2)
    by (auto simp: revokeProviderAccountRouting_def selectProviderByCapacityKey_def rbind_eq_Inr split: option.splits)
  have p: "p \<in> set (dproviders s)" "provider_key p = (n, l)"
    using find_SomeD [OF nl(2) [unfolded provider_with_def]] by (auto simp: provider_key_def)
  obtain p' m where pm: "p' \<in> set (dproviders s')" "m \<in> set (dmodels s')" "am_providerId m = ap_id p'"
    "capacityKey (ap_name p') (ap_accountLabel p') = Inr (rc_provider ch)" "allowed_at now m"
    by (rule routed_row [OF assms(3) subset_refl assms(4)])
  note prohibits = revoke_models_prohibits [OF rv]
  have "provider_key p' = (n, l)"
    using capacityKey_parses [OF pm(4)] same nl(1) by (simp add: provider_key_def)
  then have "p' = p"
    using dsc.reachable_inv [OF assms(1)] pm(1) p prohibits
    by (auto simp: catalog_inv_def distinct_map inj_on_def)
  obtain r where r: "r \<in> set (dmodels s)" "same_model r m"
      "am_prohibited r \<or> am_id r \<in> am_id ` set (models_of (ap_id p) (dv_db s)) \<longrightarrow> am_prohibited m"
    using prohibits pm(2) by blast
  have "r \<in> set (models_of (ap_id p) (dv_db s))"
    using r(1,2) pm(3) \<open>p' = p\<close> by (simp add: models_of_def same_model_def)
  then show False using r(3) pm(5) by (simp add: allowed_at_def)
qed

section \<open>A catalogue that uses the theorems\<close>

text \<open>One codex account: probed, billing attested by the owner, exhausted, retried, revoked.\<close>

definition sample_env :: "nat \<Rightarrow> discovery_env" where
  "sample_env t = \<lparr>de_now = int t, de_redact = (\<lambda>x. x), de_iso = (\<lambda>x. []),
     de_uuid = (\<lambda>k. replicate t CHR ''a'' @ replicate k CHR ''b'')\<rparr>"

definition sample_catalog :: discovery_store where
  "sample_catalog = \<lparr>dv_db = empty_db, dv_observations = []\<rparr>"

definition sample_options :: discovery_options where
  "sample_options = \<lparr>do_source = Obs_probe, do_note = None, do_bypassBackoff = False\<rparr>"

definition sample_info :: provider_info where
  "sample_info = sample_account ''codex#work'' [sample_model ''gpt'' Cls_codex Bill_subscription_included]"

definition sample_probe :: "(discovery_store \<times> string \<times> persisted_model list) discovery_result" where
  "sample_probe = persistProviderDiscovery (sample_env 1) sample_info sample_options sample_catalog"

definition sample_bill :: "(discovery_store \<times> string) discovery_result" where
  "sample_bill = recordBillingObservation (sample_env 2)
     \<lparr>bi_providerName = ''codex#work'', bi_modelRef = ''gpt'', bi_billingMode = Known_included,
      bi_source = Bsrc_human, bi_note = None\<rparr> (fst (projr sample_probe))"

definition sample_exhausted :: "(discovery_store \<times> string \<times> instant option) discovery_result" where
  "sample_exhausted = recordModelOutcome (sample_env 3) ''codex#work'' ''gpt'' Av_exhausted (Some 1)
     (fst (projr sample_bill))"

lemma succeeds_projr: "succeeds r \<Longrightarrow> r = Inr (projr r)"
  by (cases r) (simp_all add: succeeds_def)

lemma sample_catalog_ok:
  "sample_probe = Inr (projr sample_probe)" "sample_bill = Inr (projr sample_bill)"
  "sample_exhausted = Inr (projr sample_exhausted)"
  by (rule succeeds_projr, code_simp)+

lemma step_fst:
  "persistProviderDiscovery e info opts s = Inr x \<Longrightarrow> discovery_step s (fst x)"
  "recordBillingObservation e input s = Inr y \<Longrightarrow> discovery_step s (fst y)"
  "recordModelOutcome e key ref result b s = Inr z \<Longrightarrow> discovery_step s (fst z)"
  by (cases x, auto intro: ds_persist, cases y, auto intro: ds_billing, cases z, auto intro: ds_outcome)

lemma sample_catalog_reachable:
  "dsc.reachable sample_catalog" "dsc.reachable (fst (projr sample_probe))" "dsc.reachable (fst (projr sample_bill))"
  "dsc.reachable (fst (projr sample_exhausted))"
proof -
  have fresh: "fresh_catalog sample_catalog" by (simp add: fresh_catalog_def sample_catalog_def empty_db_def)
  then show "dsc.reachable sample_catalog" by (auto simp: dsc.reachable_def)
  have p: "discovery_step sample_catalog (fst (projr sample_probe))"
    by (rule step_fst(1) [OF sample_catalog_ok(1) [unfolded sample_probe_def], folded sample_probe_def])
  then show "dsc.reachable (fst (projr sample_probe))" using fresh by (auto simp: dsc.reachable_def)
  have b: "discovery_step (fst (projr sample_probe)) (fst (projr sample_bill))"
    by (rule step_fst(2) [OF sample_catalog_ok(2) [unfolded sample_bill_def], folded sample_bill_def])
  have x: "discovery_step (fst (projr sample_bill)) (fst (projr sample_exhausted))"
    by (rule step_fst(3) [OF sample_catalog_ok(3) [unfolded sample_exhausted_def], folded sample_exhausted_def])
  show "dsc.reachable (fst (projr sample_bill))"
    using fresh p b unfolding dsc.reachable_def by (meson converse_rtranclp_into_rtranclp rtranclp.rtrancl_refl)
  show "dsc.reachable (fst (projr sample_exhausted))"
    using fresh p b x unfolding dsc.reachable_def by (meson converse_rtranclp_into_rtranclp rtranclp.rtrancl_refl)
qed

theorem routed_model_is_attested_witness:
  "\<exists>infos ch. loadPersistedProviderInfos 2 (dv_db (fst (projr sample_bill))) = Inr infos
     \<and> route (sample_request Pur_implementation None) infos False = Inr (Route ch)
     \<and> (\<exists>x \<in> set (dv_observations (fst (projr sample_bill))). ob_source x = Obs_human \<or> ob_source x = Obs_run_outcome)"
proof -
  have "case loadPersistedProviderInfos 2 (dv_db (fst (projr sample_bill))) of Inl _ \<Rightarrow> False
      | Inr infos \<Rightarrow> (case route (sample_request Pur_implementation None) infos False of
          Inr (Route ch) \<Rightarrow> True | _ \<Rightarrow> False)"
    by code_simp
  then obtain infos ch where r: "loadPersistedProviderInfos 2 (dv_db (fst (projr sample_bill))) = Inr infos"
      "route (sample_request Pur_implementation None) infos False = Inr (Route ch)"
    by (auto split: sum.splits routing_decision.splits)
  show ?thesis
    using routed_model_is_attested [OF sample_catalog_reachable(3) r] r by (auto simp: attests_def)
qed

theorem discovery_keeps_what_is_known_witness:
  "\<exists>s' i ps. persistProviderDiscovery (sample_env 4) sample_info sample_options (fst (projr sample_exhausted))
       = Inr (s', i, ps)
     \<and> (\<forall>m \<in> set (agentModels (dv_db (fst (projr sample_exhausted)))). \<exists>m' \<in> set (agentModels (dv_db s')).
          am_billingMode m' = am_billingMode m)"
proof -
  have "succeeds (persistProviderDiscovery (sample_env 4) sample_info sample_options (fst (projr sample_exhausted)))"
    by code_simp
  then obtain s' i ps where p: "persistProviderDiscovery (sample_env 4) sample_info sample_options
      (fst (projr sample_exhausted)) = Inr (s', i, ps)"
    by (auto simp: succeeds_iff)
  show ?thesis
    using discovery_keeps_what_is_known [OF sample_catalog_reachable(4) p] p
    by (auto simp: knowledge_kept_def)
qed

theorem retry_is_granted_once_witness:
  "\<exists>s'. consumeModelRetry (sample_env 5) ''codex#work'' ''gpt'' (fst (projr sample_exhausted)) = Inr (s', True)
     \<and> consumeModelRetry (sample_env 6) ''codex#work'' ''gpt'' s' = Inr (s', False)"
proof -
  have "case consumeModelRetry (sample_env 5) ''codex#work'' ''gpt'' (fst (projr sample_exhausted)) of
      Inr (_, ok) \<Rightarrow> ok | Inl _ \<Rightarrow> False"
    by code_simp
  then obtain s' where c: "consumeModelRetry (sample_env 5) ''codex#work'' ''gpt'' (fst (projr sample_exhausted))
      = Inr (s', True)"
    by (auto split: sum.splits)
  show ?thesis using retry_is_granted_once [OF sample_catalog_reachable(4) c] c by auto
qed

theorem revoked_account_is_unroutable_witness:
  "\<exists>s' infos. revokeProviderAccountRouting (sample_env 3) ''codex#work'' ''gone'' (fst (projr sample_bill)) = Inr (s', True)
     \<and> loadPersistedProviderInfos 9 (dv_db s') = Inr infos
     \<and> (\<forall>ch. route (sample_request Pur_implementation None) infos False = Inr (Route ch) \<longrightarrow>
          parseCapacityKey (rc_provider ch) \<noteq> parseCapacityKey ''codex#work'')"
proof -
  have "case revokeProviderAccountRouting (sample_env 3) ''codex#work'' ''gone'' (fst (projr sample_bill)) of
      Inl _ \<Rightarrow> False | Inr (s', ok) \<Rightarrow> ok \<and> succeeds (loadPersistedProviderInfos 9 (dv_db s'))"
    by code_simp
  then obtain s' infos where r: "revokeProviderAccountRouting (sample_env 3) ''codex#work'' ''gone''
        (fst (projr sample_bill)) = Inr (s', True)"
      "loadPersistedProviderInfos 9 (dv_db s') = Inr infos"
    by (auto simp: succeeds_iff split: sum.splits)
  show ?thesis using revoked_account_is_unroutable [OF sample_catalog_reachable(3) r] r by blast
qed

end
