(* ===== verification/Coordinator_Safety.thy ===== *)
theory Coordinator_Safety
  imports Coordinator Discovery_Safety
begin

text \<open>
  What a routed execution guarantees, composed over the policy, the persisted fleet, the
  account pool, the router and the goal store; and what the owner's pin guarantees.
\<close>

section \<open>Pools never add an account\<close>

lemma rotate_pool_subset:
  assumes "rotate_pool collate infos key n failures sib = (pool, why)" and "set sib \<subseteq> set infos"
  shows "set pool \<subseteq> set infos"
  using assms(1)
proof (cases rule: rotate_pool_cases)
  case quota
  then show ?thesis using assms(2) by (auto split: if_splits)
qed auto

lemma account_pool_subset:
  assumes "subscriptionAccountPool collate infos key failures = Inr (pool, why)"
  shows "set pool \<subseteq> set infos"
proof (cases "nonempty_text key")
  case None
  then show ?thesis using assms by (simp add: subscriptionAccountPool_def)
next
  case (Some k)
  then obtain n l sib where sib: "filter_keys (\<lambda>m. m = n) pi_name (filter (\<lambda>p. pi_name p \<noteq> k) infos) = Inr sib"
      "rotate_pool collate infos k n failures sib = (pool, why)"
    using assms by (auto simp: subscriptionAccountPool_def rbind_eq_Inr)
  have "set sib \<subseteq> set infos" using filter_keys_Inr [OF sib(1)] by auto
  with sib(2) show ?thesis by (rule rotate_pool_subset)
qed

lemma sort_accounts_set: "sort_accounts collate preferred infos = Inr ys \<Longrightarrow> set ys = set infos"
  by (auto simp: sort_accounts_def rbind_eq_Inr split: if_splits)

text \<open>The account and host a selection names are those of its capacity key.\<close>

definition names_route :: "coordinator_route \<Rightarrow> route_choice \<Rightarrow> bool" where
  "names_route r ch \<longleftrightarrow> cr_provider r = rc_provider ch \<and> cr_modelRef r = rc_modelRef ch
     \<and> cr_effort r = rc_effort ch
     \<and> (\<exists>n. parseCapacityKey (rc_provider ch) = Inr (n, cr_accountLabel r) \<and> PROVIDER_HOSTS n = Some (cr_host r))"

lemma selection_of_Route:
  "selection_of why dec = Inr (Sel_route r) \<Longrightarrow> \<exists>ch. dec = Route ch \<and> names_route r ch"
  by (auto simp: selection_of_def rbind_eq_Inr names_route_def split: routing_decision.splits option.splits)

lemma routeAcross_Route:
  assumes "routeAcrossProviders collate g infos rq pin = Inr (Sel_route r)"
  obtains infos' ch where "set infos' \<subseteq> set infos" "route rq infos' False = Inr (Route ch)" "names_route r ch"
proof -
  obtain key pool why ordered first decision where
      pool: "subscriptionAccountPool collate infos key (int (sg_consecutiveFailures g)) = Inr (pool, why)"
      and ordered: "sort_accounts collate (HOST_PROVIDERS (case pin of Some h \<Rightarrow> h | None \<Rightarrow> sg_preferredCoordinator g)) pool
          = Inr ordered"
      and first: "route rq ordered False = Inr first"
      and second: "(if is_checkpoint first \<and> is_work_failure why \<and> length pool \<noteq> length infos
            then route rq infos False else Inr first) = Inr decision"
      and sel: "selection_of why decision = Inr (Sel_route r)"
    using assms by (auto simp: routeAcrossProviders_def rbind_eq_Inr)
  obtain ch where ch: "decision = Route ch" "names_route r ch" using selection_of_Route [OF sel] by blast
  have sub: "set ordered \<subseteq> set infos" using account_pool_subset [OF pool] sort_accounts_set [OF ordered] by simp
  show thesis
  proof (cases "is_checkpoint first \<and> is_work_failure why \<and> length pool \<noteq> length infos")
    case True
    then show ?thesis using that [OF subset_refl _ ch(2)] second ch(1) by simp
  next
    case False
    then have "first = Route ch" using second ch(1) by auto
    then show ?thesis using that [OF sub _ ch(2)] first by simp
  qed
qed

lemma names_route_with_reason: "names_route (r\<lparr>cr_reason := w\<rparr>) ch \<longleftrightarrow> names_route r ch"
  by (simp add: names_route_def)

lemma with_reason_Route: "with_reason w sel = Sel_route r \<Longrightarrow> \<exists>q. sel = Sel_route q \<and> r = q\<lparr>cr_reason := w\<rparr>"
  by (cases sel) auto

lemma selectForRequest_Route:
  assumes "selectCoordinatorForRequest collate g infos rq pin = Inr (Sel_route r)"
  obtains infos' ch where "set infos' \<subseteq> set infos" "route rq infos' False = Inr (Route ch)" "names_route r ch"
proof (cases pin)
  case None
  then have "routeAcrossProviders collate g infos rq None = Inr (Sel_route r)"
    using assms by (simp add: selectCoordinatorForRequest_def)
  then show thesis using that by (rule routeAcross_Route)
next
  case (Some h)
  obtain pool pinned where pool: "filter_keys (\<lambda>n. n = HOST_PROVIDERS h) pi_name infos = Inr pool"
      and pinned: "(if pool = [] then Inr None
         else rbind (routeAcrossProviders collate g pool rq (Some h)) (\<lambda>s. Inr (Some s))) = Inr pinned"
      and sel: "(case pinned of
              Some (Sel_route r) \<Rightarrow> Inr (with_reason (Why_pinned h (cr_reason r)) (Sel_route r))
            | _ \<Rightarrow>
                rbind (routeAcrossProviders collate g infos rq None) (\<lambda>fallback.
                  Inr (with_reason
                        (Why_pin_unavailable h (map_option selection_reason pinned) (selection_reason fallback))
                        fallback))) = Inr (Sel_route r)"
    using assms Some by (auto simp: selectCoordinatorForRequest_def rbind_eq_Inr)
  have sub: "set pool \<subseteq> set infos" using filter_keys_Inr [OF pool] by auto
  show thesis
  proof (cases "\<exists>q. pinned = Some (Sel_route q)")
    case True
    then obtain q where q: "pinned = Some (Sel_route q)" ..
    then have "routeAcrossProviders collate g pool rq (Some h) = Inr (Sel_route q)"
      using pinned by (auto simp: rbind_eq_Inr split: if_splits)
    then obtain infos' ch where "set infos' \<subseteq> set pool" "route rq infos' False = Inr (Route ch)" "names_route q ch"
      by (rule routeAcross_Route)
    moreover have "r = q\<lparr>cr_reason := Why_pinned h (cr_reason q)\<rparr>" using sel q by simp
    ultimately show ?thesis using that sub names_route_with_reason by blast
  next
    case False
    then obtain w fallback where "routeAcrossProviders collate g infos rq None = Inr fallback"
        "with_reason w fallback = Sel_route r"
      using sel by (auto simp: rbind_eq_Inr split: option.splits coordinator_selection.splits)
    then obtain q where q: "routeAcrossProviders collate g infos rq None = Inr (Sel_route q)" "r = q\<lparr>cr_reason := w\<rparr>"
      using with_reason_Route by blast
    from q(1) obtain infos' ch where "set infos' \<subseteq> set infos" "route rq infos' False = Inr (Route ch)" "names_route q ch"
      by (rule routeAcross_Route)
    then show ?thesis using that q(2) names_route_with_reason by blast
  qed
qed

section \<open>The owner's pin\<close>

lemma PROVIDER_HOSTS_inv: "PROVIDER_HOSTS (HOST_PROVIDERS h) = Some h"
  by (cases h) (simp_all add: PROVIDER_HOSTS_def)

lemma route_names_account:
  assumes "route rq infos pr = Inr (Route ch)"
  shows "rc_provider ch \<in> pi_name ` set infos"
  using route_allowed [OF assms] by (auto simp: collectCandidates_def)

text \<open>
  The owner's pin comes first: when some account of the pinned host can be routed, the
  selection is on that host; it leaves the host only when the host has no account or none
  of its accounts can be routed, and the reason says so.
\<close>

theorem pin_comes_first:
  assumes "selectCoordinatorForRequest collate g infos rq (Some h) = Inr (Sel_route r)"
  shows "cr_host r = h \<and> (\<exists>w. cr_reason r = Why_pinned h w)
     \<or> (\<exists>pool v w. filter_keys (\<lambda>n. n = HOST_PROVIDERS h) pi_name infos = Inr pool
          \<and> (pool = [] \<or> routeAcrossProviders collate g pool rq (Some h) = Inr (Sel_checkpoint v))
          \<and> (\<exists>u. cr_reason r = Why_pin_unavailable h u w))"
proof -
  obtain pool pinned where pool: "filter_keys (\<lambda>n. n = HOST_PROVIDERS h) pi_name infos = Inr pool"
      and pinned: "(if pool = [] then Inr None
         else rbind (routeAcrossProviders collate g pool rq (Some h)) (\<lambda>s. Inr (Some s))) = Inr pinned"
      and sel: "(case pinned of
              Some (Sel_route r) \<Rightarrow> Inr (with_reason (Why_pinned h (cr_reason r)) (Sel_route r))
            | _ \<Rightarrow>
                rbind (routeAcrossProviders collate g infos rq None) (\<lambda>fallback.
                  Inr (with_reason
                        (Why_pin_unavailable h (map_option selection_reason pinned) (selection_reason fallback))
                        fallback))) = Inr (Sel_route r)"
    using assms by (auto simp: selectCoordinatorForRequest_def rbind_eq_Inr)
  show ?thesis
  proof (cases "\<exists>q. pinned = Some (Sel_route q)")
    case True
    then obtain q where q: "pinned = Some (Sel_route q)" ..
    then have "routeAcrossProviders collate g pool rq (Some h) = Inr (Sel_route q)"
      using pinned by (auto simp: rbind_eq_Inr split: if_splits)
    then obtain infos' ch where ch: "set infos' \<subseteq> set pool" "route rq infos' False = Inr (Route ch)" "names_route q ch"
      by (rule routeAcross_Route)
    obtain i where i: "i \<in> set pool" "rc_provider ch = pi_name i" using route_names_account [OF ch(2)] ch(1) by blast
    obtain l where "parseCapacityKey (rc_provider ch) = Inr (HOST_PROVIDERS h, l)"
      using filter_keys_Inr [OF pool] i by auto
    then have "cr_host q = h" using ch(3) by (auto simp: names_route_def PROVIDER_HOSTS_inv)
    moreover have "r = q\<lparr>cr_reason := Why_pinned h (cr_reason q)\<rparr>" using sel q by simp
    ultimately show ?thesis by simp
  next
    case False
    then have "pool = [] \<or> (\<exists>v. routeAcrossProviders collate g pool rq (Some h) = Inr (Sel_checkpoint v))"
      using pinned by (auto simp: rbind_eq_Inr split: if_splits) (metis coordinator_selection.exhaust)
    moreover obtain fallback where "with_reason
          (Why_pin_unavailable h (map_option selection_reason pinned) (selection_reason fallback)) fallback = Sel_route r"
      using sel False by (auto simp: rbind_eq_Inr split: option.splits coordinator_selection.splits)
    then have "\<exists>u w. cr_reason r = Why_pin_unavailable h u w" using with_reason_Route by fastforce
    ultimately show ?thesis using pool by blast
  qed
qed

section \<open>A routed execution\<close>

lemma eligible_infos_set:
  "eligible_infos opts infos = Inr ys \<Longrightarrow>
     set ys = {p \<in> set infos. pi_name p \<notin> set (xo_excludedCapacityKeys opts)
       \<and> (xo_eligibleHosts opts = None
          \<or> (\<exists>n l. parseCapacityKey (pi_name p) = Inr (n, l) \<and> host_eligible (xo_eligibleHosts opts) n))}"
proof (induction infos arbitrary: ys)
  case (Cons p ps)
  show ?case
  proof (cases "pi_name p \<in> set (xo_excludedCapacityKeys opts)")
    case True
    then show ?thesis using Cons by auto
  next
    case False
    then obtain keep rest where keep: "(if xo_eligibleHosts opts = None then Inr True
           else rbind (parseCapacityKey (pi_name p)) (\<lambda>(n, _). Inr (host_eligible (xo_eligibleHosts opts) n))) = Inr keep"
        and rest: "eligible_infos opts ps = Inr rest" "ys = (if keep then p # rest else rest)"
      using Cons.prems by (auto simp: rbind_eq_Inr)
    have "keep \<longleftrightarrow> xo_eligibleHosts opts = None
        \<or> (\<exists>n l. parseCapacityKey (pi_name p) = Inr (n, l) \<and> host_eligible (xo_eligibleHosts opts) n)"
      using keep by (auto simp: rbind_eq_Inr split: if_splits)
    then show ?thesis using Cons.IH [OF rest(1)] rest(2) False by auto
  qed
qed simp

lemma take_retry_Route:
  assumes "take_retry e infos sel s = Inr (s', Sel_route r)"
  shows "sel = Sel_route r \<and>
     (if \<exists>m. selected_model infos r = Some m \<and> ms_retryEligible m
      then consumeModelRetry e (cr_provider r) (cr_modelRef r) s = Inr (s', True) else s' = s)"
proof (cases sel)
  case (Sel_route q)
  then show ?thesis using assms
    by (auto simp: take_retry_def rbind_eq_Inr split: option.splits if_splits)
qed (use assms in \<open>simp add: take_retry_def\<close>)

lemma find_ex: "\<exists>x \<in> set xs. P x \<Longrightarrow> \<exists>x. find P xs = Some x"
  by (induction xs) auto

text \<open>The state a selection names is the one of its row: keys of accounts and models are unique.\<close>

lemma selected_row:
  assumes "catalog_inv s" and "loadPersistedProviderInfos now (dv_db s) = Inr infos"
    and "p \<in> set (dproviders s)" "capacityKey (ap_name p) (ap_accountLabel p) = Inr (cr_provider r)"
    and "m \<in> set (dmodels s)" "am_providerId m = ap_id p" "am_modelRef m = cr_modelRef r"
  shows "selected_model infos r = Some (persisted_state now m)"
proof -
  have names: "i \<in> set infos \<Longrightarrow> pi_name i = cr_provider r \<Longrightarrow> persisted_info now (dv_db s) p = Inr i" for i
  proof -
    assume i: "i \<in> set infos" "pi_name i = cr_provider r"
    obtain q where q: "q \<in> set (dproviders s)" "persisted_info now (dv_db s) q = Inr i"
      using map_results_mem assms(2) i(1) unfolding loadPersistedProviderInfos_def by metis
    then have "capacityKey (ap_name q) (ap_accountLabel q) = Inr (cr_provider r)"
      using i(2) by (auto simp: persisted_info_def Let_def rbind_eq_Inr)
    then have "provider_key q = provider_key p"
      using capacityKey_parses assms(4) unfolding provider_key_def by (metis Inr_inject)
    then have "q = p" using assms(1,3) q(1) by (auto simp: catalog_inv_def distinct_map inj_on_def)
    with q(2) show "persisted_info now (dv_db s) p = Inr i" by simp
  qed
  have "\<exists>i \<in> set infos. pi_name i = cr_provider r"
  proof -
    obtain i where i: "i \<in> set infos" "persisted_info now (dv_db s) p = Inr i"
      using map_results_all assms(2,3) unfolding loadPersistedProviderInfos_def by metis
    then have "pi_name i = cr_provider r" using assms(4) by (auto simp: persisted_info_def Let_def)
    with i(1) show ?thesis by blast
  qed
  then obtain i where i: "find (\<lambda>i. pi_name i = cr_provider r) infos = Some i"
    using find_ex [of infos "\<lambda>i. pi_name i = cr_provider r"] by blast
  have "i \<in> set infos" "pi_name i = cr_provider r" using find_SomeD [OF i] by simp_all
  then have "persisted_info now (dv_db s) p = Inr i" by (rule names)
  then have ms: "pi_models i = map (persisted_state now) (models_of (ap_id p) (dv_db s))"
    by (auto simp: persisted_info_def Let_def rbind_eq_Inr)
  have m: "persisted_state now m \<in> set (pi_models i)" using assms(5,6) by (simp add: ms models_of_def)
  have ref: "ms_modelRef (persisted_state now x) = am_modelRef x" for x by (simp add: persisted_state_def)
  obtain x where x: "find (\<lambda>x. ms_modelRef x = cr_modelRef r) (pi_models i) = Some x"
    using find_ex [of "pi_models i" "\<lambda>x. ms_modelRef x = cr_modelRef r"] m ref assms(7) by metis
  then obtain y where y: "y \<in> set (dmodels s)" "am_providerId y = ap_id p" "x = persisted_state now y"
      "am_modelRef y = cr_modelRef r"
    using find_SomeD [OF x] by (auto simp: ms models_of_def ref)
  then have "model_key y = model_key m" using assms(6,7) by (simp add: model_key_def)
  then have "y = m" using assms(1,5) y(1) by (auto simp: catalog_inv_def distinct_map inj_on_def)
  then show ?thesis using i x y(3) by (simp add: selected_model_def)
qed

lemma provider_with_key:
  assumes "catalog_inv s" and "p \<in> set (dproviders s)"
    and "capacityKey (ap_name p) (ap_accountLabel p) = Inr key"
  shows "selectProviderByCapacityKey key (dv_db s) = Inr (Some p)"
proof -
  have p: "parseCapacityKey key = Inr (ap_name p, ap_accountLabel p)" by (rule capacityKey_parses [OF assms(3)])
  obtain q where q: "find (\<lambda>q. ap_name q = ap_name p \<and> ap_accountLabel q = ap_accountLabel p) (dproviders s) = Some q"
    using assms(2) find_ex [of "dproviders s" "\<lambda>q. ap_name q = ap_name p \<and> ap_accountLabel q = ap_accountLabel p"]
    by blast
  have "q = p" using find_SomeD [OF q] assms(1,2)
    by (auto simp: catalog_inv_def distinct_map inj_on_def provider_key_def)
  with q show ?thesis by (simp add: selectProviderByCapacityKey_def provider_with_def p of_account_def)
qed

text \<open>The row a selection names, and what is left of it once its retry is taken.\<close>

definition executes_row ::
  "execution_env \<Rightarrow> coordinator_route \<Rightarrow> discovery_store \<Rightarrow> discovery_store \<Rightarrow> provider_row \<Rightarrow> model_row \<Rightarrow> bool" where
  "executes_row e r s s' p m \<longleftrightarrow>
     p \<in> set (dproviders s) \<and> m \<in> set (dmodels s) \<and> am_providerId m = ap_id p
     \<and> capacityKey (ap_name p) (ap_accountLabel p) = Inr (cr_provider r) \<and> am_modelRef m = cr_modelRef r
     \<and> ap_accountLabel p = cr_accountLabel r \<and> PROVIDER_HOSTS (ap_name p) = Some (cr_host r)
     \<and> allowed_at (de_now (xe_discovery e)) m
     \<and> (\<exists>x \<in> set (dv_observations s). attests x (am_id m) (am_billingMode m))
     \<and> (am_availability m \<noteq> Av_available \<longrightarrow>
          (\<forall>m' \<in> set (dmodels s'). am_id m' = am_id m \<longrightarrow> (\<forall>now. \<not> allowed_at now m')))"

lemma routed_execution_row:
  assumes inv: "catalog_inv s" and load: "loadPersistedProviderInfos (de_now (xe_discovery e)) (dv_db s) = Inr infos"
    and sub: "set infos' \<subseteq> set infos" and rt: "route rq infos' False = Inr (Route ch)" and nm: "names_route r ch"
    and retry: "take_retry (xe_discovery e) infos (Sel_route r) s = Inr (s', Sel_route r)"
  obtains p m where "executes_row e r s s' p m" "am_billingMode m = rc_billingMode ch"
proof -
  let ?now = "de_now (xe_discovery e)"
  obtain p m where pm: "p \<in> set (dproviders s)" "m \<in> set (dmodels s)" "am_providerId m = ap_id p"
    "capacityKey (ap_name p) (ap_accountLabel p) = Inr (rc_provider ch)" "am_modelRef m = rc_modelRef ch"
    "am_billingMode m = rc_billingMode ch" "am_billingMode m \<noteq> Bill_unknown" "allowed_at ?now m"
    by (rule routed_row [OF load sub rt])
  have key: "capacityKey (ap_name p) (ap_accountLabel p) = Inr (cr_provider r)" "am_modelRef m = cr_modelRef r"
    using nm pm(4,5) by (simp_all add: names_route_def)
  have acct: "ap_accountLabel p = cr_accountLabel r" "PROVIDER_HOSTS (ap_name p) = Some (cr_host r)"
    using nm capacityKey_parses [OF pm(4)] by (auto simp: names_route_def)
  have att: "\<exists>x \<in> set (dv_observations s). attests x (am_id m) (am_billingMode m)"
    using inv pm(2,7) by (auto simp: catalog_inv_def billing_attested_def)
  have sm: "selected_model infos r = Some (persisted_state ?now m)"
    by (rule selected_row [OF inv load pm(1) key(1) pm(2,3) key(2)])
  have idle: "\<forall>m' \<in> set (dmodels s'). am_id m' = am_id m \<longrightarrow> (\<forall>now. \<not> allowed_at now m')"
    if av: "am_availability m \<noteq> Av_available"
  proof -
    have "ms_retryEligible (persisted_state ?now m)"
      using av pm(8) by (auto simp: allowed_at_def retry_due_def persisted_state_def split: option.splits)
    then have c: "consumeModelRetry (xe_discovery e) (cr_provider r) (cr_modelRef r) s = Inr (s', True)"
      using take_retry_Route [OF retry] sm by simp
    obtain p' m' where pm': "selectProviderByCapacityKey (cr_provider r) (dv_db s) = Inr (Some p')"
        "model_with (ap_id p') (cr_modelRef r) (dv_db s) = Some m'"
        "\<forall>x \<in> set (dmodels s'). am_id x = am_id m' \<longrightarrow> (\<forall>now. \<not> allowed_at now x)"
      using retry_granted [OF inv c] by (auto simp only: if_True)
    have "p' = p" using provider_with_key [OF inv pm(1) key(1)] pm'(1) by simp
    have "m' \<in> set (dmodels s)" "model_key m' = model_key m"
      using find_SomeD [OF pm'(2) [unfolded model_with_def]] \<open>p' = p\<close> pm(3) key(2) by (auto simp: model_key_def)
    then have "m' = m" using inv pm(2) by (auto simp: catalog_inv_def distinct_map inj_on_def)
    then show ?thesis using pm'(3) by simp
  qed
  have "executes_row e r s s' p m"
    unfolding executes_row_def using pm(1-3,8) key acct att idle by blast
  then show thesis using that pm(6) by blast
qed

text \<open>No request of the execution path carries an approval of paid usage.\<close>

definition free_request :: "routing_request option \<Rightarrow> bool" where
  "free_request rq \<longleftrightarrow> (case rq of None \<Rightarrow> True | Some x \<Rightarrow> rq_approvedPaidUsage x = None)"

lemma task_request_free: "rq_approvedPaidUsage (taskRoutingRequest g) = None"
  by (simp add: taskRoutingRequest_def with_repair_def base_request_def STRONGEST_ROUTING_REQUEST_def
      split: option.splits admission_class.splits)

lemma selectCoordinator_Route:
  assumes "selectCoordinator collate g infos request = Inr (Sel_route r)"
  obtains infos' rq ch where "set infos' \<subseteq> set infos" "route rq infos' False = Inr (Route ch)" "names_route r ch"
    "free_request request \<Longrightarrow> rc_billingMode ch = Bill_subscription_included"
proof -
  obtain pin rq where s: "selectCoordinatorForRequest collate g infos rq pin = Inr (Sel_route r)"
      and free: "free_request request \<longrightarrow> rq_approvedPaidUsage rq = None"
    using assms task_request_free
    by (cases request) (auto simp: selectCoordinator_def free_request_def)
  obtain infos' ch where ch: "set infos' \<subseteq> set infos" "route rq infos' False = Inr (Route ch)" "names_route r ch"
    by (rule selectForRequest_Route [OF s])
  have "rc_billingMode ch = Bill_subscription_included" if "free_request request"
    using route_allowed [OF ch(2)] free that by auto
  with ch show thesis by (rule that)
qed

text \<open>What a committed selection has done, whichever way it was selected.\<close>

definition authorised_commit ::
  "execution_env \<Rightarrow> supervisor_goal \<Rightarrow> execution_options \<Rightarrow> discovery_store \<Rightarrow> supervisor_state
     \<Rightarrow> discovery_store \<Rightarrow> supervisor_state \<Rightarrow> coordinator_route \<Rightarrow> bool" where
  "authorised_commit e g opts s st s' st' r \<longleftrightarrow>
     cr_provider r \<notin> set (xo_excludedCapacityKeys opts)
     \<and> (\<forall>hs. xo_eligibleHosts opts = Some hs \<longrightarrow> cr_host r \<in> set hs)
     \<and> (\<exists>p m. executes_row e r s s' p m
          \<and> (free_request (xo_request opts) \<longrightarrow> am_billingMode m = Bill_subscription_included))
     \<and> (\<exists>g0. getGoal (sg_id g) st = Some g0
          \<and> st' = store_goal ((routingDecisionGoalPatch (xe_show e) (de_now (xe_discovery e)) r g0)
                    \<lparr>sg_id := sg_id g, sg_updatedAt := de_now (xe_discovery e)\<rparr>) st)"

lemma committed_selection:
  assumes inv: "catalog_inv s"
    and commit: "commit_selection e g (Inr (infos, first)) s st = (s', st', Inr (Sel_route r))"
    and load: "loadPersistedProviderInfos (de_now (xe_discovery e)) (dv_db s) = Inr infos"
    and elig: "eligible_infos opts infos = Inr elig"
    and pick: "first = Sel_route r \<Longrightarrow> \<exists>infos' rq ch. set infos' \<subseteq> set elig \<and> route rq infos' False = Inr (Route ch)
        \<and> names_route r ch \<and> (free_request (xo_request opts) \<longrightarrow> rc_billingMode ch = Bill_subscription_included)"
  shows "first = Sel_route r \<and> authorised_commit e g opts s st s' st' r"
proof -
  let ?now = "de_now (xe_discovery e)"
  have retry: "take_retry (xe_discovery e) infos first s = Inr (s', Sel_route r)"
      and upd: "\<exists>g'. updateGoal ?now (sg_id g) (routingDecisionGoalPatch (xe_show e) ?now r) st = Inr (st', g')"
    using commit unfolding commit_selection_def
    by (auto split: sum.splits prod.splits coordinator_selection.splits)
  have first: "first = Sel_route r" using take_retry_Route [OF retry] by simp
  obtain infos' rq ch where ch: "set infos' \<subseteq> set elig" "route rq infos' False = Inr (Route ch)" "names_route r ch"
    "free_request (xo_request opts) \<longrightarrow> rc_billingMode ch = Bill_subscription_included"
    using pick [OF first] by blast
  have sub: "set infos' \<subseteq> set infos" using ch(1) eligible_infos_set [OF elig] by auto
  obtain i where i: "i \<in> set elig" "rc_provider ch = pi_name i" using route_names_account [OF ch(2)] ch(1) by blast
  have ex: "cr_provider r \<notin> set (xo_excludedCapacityKeys opts)"
    using i eligible_infos_set [OF elig] ch(3) by (simp add: names_route_def)
  have hosts: "cr_host r \<in> set hs" if "xo_eligibleHosts opts = Some hs" for hs
    using i eligible_infos_set [OF elig] ch(3) that by (auto simp: names_route_def host_eligible_def)
  obtain p m where pm: "executes_row e r s s' p m" "am_billingMode m = rc_billingMode ch"
    by (rule routed_execution_row [OF inv load sub ch(2,3) retry [unfolded first]])
  have "\<exists>g0. getGoal (sg_id g) st = Some g0
          \<and> st' = store_goal ((routingDecisionGoalPatch (xe_show e) ?now r g0)\<lparr>sg_id := sg_id g, sg_updatedAt := ?now\<rparr>) st"
    using upd by (auto simp: updateGoal_def Let_def split: option.splits)
  moreover have "\<exists>p m. executes_row e r s s' p m
      \<and> (free_request (xo_request opts) \<longrightarrow> am_billingMode m = Bill_subscription_included)"
    using pm ch(4) by metis
  ultimately show ?thesis unfolding authorised_commit_def using ex hosts first by blast
qed

text \<open>
  A routed execution is authorised end to end: the project's policy allows execution;
  the account is not excluded and its host eligible; the model is a persisted row that is
  allowed now, of attested billing, and without an approval of paid usage it is included in
  a subscription; when it was past its backoff, its one retry is taken and nothing can be
  routed to it again; and the goal records exactly this decision and nothing else.
\<close>

theorem routed_execution_is_authorised:
  assumes "dsc.reachable s" and "routeGoalExecution e g opts s st = (s', st', Inr (Sel_route r))"
  shows "execution_allowed e g = Inr ()
     \<and> cr_provider r \<notin> set (xo_excludedCapacityKeys opts)
     \<and> (\<forall>hs. xo_eligibleHosts opts = Some hs \<longrightarrow> cr_host r \<in> set hs)
     \<and> (\<exists>p m. executes_row e r s s' p m
          \<and> (free_request (xo_request opts) \<longrightarrow> am_billingMode m = Bill_subscription_included))
     \<and> (\<exists>g0. getGoal (sg_id g) st = Some g0
          \<and> st' = store_goal ((routingDecisionGoalPatch (xe_show e) (de_now (xe_discovery e)) r g0)
                    \<lparr>sg_id := sg_id g, sg_updatedAt := de_now (xe_discovery e)\<rparr>) st)"
proof -
  obtain infos first where allowed: "execution_allowed e g = Inr ()"
      and sel: "execution_selection e g opts (dv_db s) = Inr (infos, first)"
      and commit: "commit_selection e g (Inr (infos, first)) s st = (s', st', Inr (Sel_route r))"
    using assms(2) unfolding routeGoalExecution_def
    by (auto simp: account_failure_def commit_selection_def [of _ _ "Inl _"] split: sum.splits)
  obtain elig where load: "loadPersistedProviderInfos (de_now (xe_discovery e)) (dv_db s) = Inr infos"
      and elig: "eligible_infos opts infos = Inr elig"
      and pick: "selectCoordinator (xe_collate e) g elig (xo_request opts) = Inr first"
    using sel by (auto simp: execution_selection_def rbind_eq_Inr)
  have "authorised_commit e g opts s st s' st' r"
    using committed_selection [OF dsc.reachable_inv [OF assms(1)] commit load elig] pick selectCoordinator_Route
    by (metis (no_types, lifting))
  then show ?thesis using allowed unfolding authorised_commit_def by blast
qed

section \<open>An execution that uses the theorems\<close>

definition sample_coordinator_goal :: supervisor_goal where
  "sample_coordinator_goal = (new_goal (\<lambda>x. x) 0 ''g1''
     \<lparr>sti_project = ''app'', sti_repoPath = ''/app'', sti_goal = ''fix it'', sti_autonomous = False,
      sti_preferredCoordinator = None, sti_pinnedCoordinator = Some Host_codex, sti_requiredOperations = None,
      sti_admissionRiskAssessment = None\<rparr> DEFAULT_SUPERVISOR_PROMOTION_CONTRACT)"

definition sample_execution_env :: execution_env where
  "sample_execution_env = \<lparr>xe_collate = (\<lambda>a b. 0), xe_rsv = (\<lambda>x. x), xe_cdir = (\<lambda>x. None),
     xe_show = (\<lambda>x. ''why''), xe_discovery = sample_env 5,
     xe_policies = Inr [(defaultProjectPolicy (\<lambda>x. x) 0 ''app'' ''/app'')\<lparr>pp_trust := Trust_build, pp_maxWorkers := 1\<rparr>],
     xe_stop = None\<rparr>"

definition sample_execution_options :: execution_options where
  "sample_execution_options = \<lparr>xo_eligibleHosts = Some [Host_codex], xo_excludedCapacityKeys = [''claude-code''],
     xo_request = None\<rparr>"

definition is_pinned :: "provider_host \<Rightarrow> selection_why \<Rightarrow> bool" where
  "is_pinned h w = (case w of Why_pinned k v \<Rightarrow> k = h | _ \<Rightarrow> False)"

theorem pin_comes_first_witness:
  "\<exists>r. selectCoordinatorForRequest (\<lambda>a b. 0) sample_coordinator_goal sample_fleet
         (sample_request Pur_implementation None) (Some Host_codex) = Inr (Sel_route r) \<and> cr_host r = Host_codex"
proof -
  have "case selectCoordinatorForRequest (\<lambda>a b. 0) sample_coordinator_goal sample_fleet
         (sample_request Pur_implementation None) (Some Host_codex) of
           Inr (Sel_route r) \<Rightarrow> is_pinned Host_codex (cr_reason r) | _ \<Rightarrow> False"
    by code_simp
  then obtain r where r: "selectCoordinatorForRequest (\<lambda>a b. 0) sample_coordinator_goal sample_fleet
         (sample_request Pur_implementation None) (Some Host_codex) = Inr (Sel_route r)"
      "is_pinned Host_codex (cr_reason r)"
    by (auto split: sum.splits coordinator_selection.splits)
  show ?thesis using pin_comes_first [OF r(1)] r by (auto simp: is_pinned_def)
qed

definition sample_goal_state :: supervisor_state where
  "sample_goal_state = \<lparr>ss_goals = [sample_coordinator_goal], ss_sessions = []\<rparr>"

theorem routed_execution_is_authorised_witness:
  "\<exists>s' st' r. routeGoalExecution sample_execution_env sample_coordinator_goal sample_execution_options
       (fst (projr sample_exhausted)) sample_goal_state = (s', st', Inr (Sel_route r)) \<and> cr_host r = Host_codex"
proof -
  have "case routeGoalExecution sample_execution_env sample_coordinator_goal sample_execution_options
       (fst (projr sample_exhausted)) sample_goal_state of (_, _, Inr (Sel_route r)) \<Rightarrow> True | _ \<Rightarrow> False"
    by code_simp
  then obtain s' st' r where r: "routeGoalExecution sample_execution_env sample_coordinator_goal
       sample_execution_options (fst (projr sample_exhausted)) sample_goal_state = (s', st', Inr (Sel_route r))"
    by (auto split: prod.splits sum.splits coordinator_selection.splits)
  then have "\<forall>hs. xo_eligibleHosts sample_execution_options = Some hs \<longrightarrow> cr_host r \<in> set hs"
    using routed_execution_is_authorised [OF sample_catalog_reachable(4) r] by blast
  then show ?thesis using r by (simp add: sample_execution_options_def)
qed

end
