(* ===== verification/Redaction.thy ===== *)
theory Redaction
  imports Regex Schema
begin

text \<open>
  Redaction of secrets (src/security/redact.ts): text by patterns, structured values by the
  names of their keys. \<open>redactValue\<close> is defined on JSON documents, which have no shared or
  circular parts; \<open>extra\<close> are the caller's patterns, each as the replacement it performs. The
  patterns are the source's, read by \<open>Regex\<close>; \<^verbatim>\<open>%\<close> stands for the backslash.
\<close>

section \<open>Replacement\<close>

text \<open>
  \<^verbatim>\<open>text.replace(pattern, f)\<close> with the flag \<^verbatim>\<open>g\<close>: \<open>m\<close> gives, at a position, the text that replaces
  the match that starts there, and the length of that match. \<open>k\<close> characters still belong to
  the last match.
\<close>

primrec replace_all :: "(position \<Rightarrow> (string \<times> nat) option) \<Rightarrow> nat \<Rightarrow> string \<Rightarrow> string \<Rightarrow> string" where
  "replace_all m k bef [] = (case m (bef, []) of None \<Rightarrow> [] | Some (r, _) \<Rightarrow> if k = 0 then r else [])"
| "replace_all m k bef (c # cs) =
     (if k > 0 then replace_all m (k - 1) (c # bef) cs
      else case m (bef, c # cs) of
             None \<Rightarrow> c # replace_all m 0 (c # bef) cs
           | Some (r, 0) \<Rightarrow> r @ c # replace_all m 0 (c # bef) cs
           | Some (r, Suc n) \<Rightarrow> r @ replace_all m n (c # bef) cs)"

text \<open>The text between two positions of the same match.\<close>

definition consumed :: "position \<Rightarrow> position \<Rightarrow> string" where
  "consumed p q = take (length (snd p) - length (snd q)) (snd p)"

definition pattern_matcher :: "bool \<Rightarrow> string \<Rightarrow> (string \<Rightarrow> string) \<Rightarrow> position \<Rightarrow> (string \<times> nat) option" where
  "pattern_matcher i pattern f p =
     (case rx_parse pattern of
        None \<Rightarrow> None
      | Some r \<Rightarrow>
          (case rx_run i r p of
             [] \<Rightarrow> None
           | q # _ \<Rightarrow> Some (f (consumed p q), length (consumed p q))))"

text \<open>A pattern that consists of two groups: the replacement sees the text of both.\<close>

definition groups_matcher ::
  "bool \<Rightarrow> string \<Rightarrow> string \<Rightarrow> (string \<Rightarrow> string \<Rightarrow> string) \<Rightarrow> position \<Rightarrow> (string \<times> nat) option" where
  "groups_matcher i pattern1 pattern2 f p =
     (case (rx_parse pattern1, rx_parse pattern2) of
        (Some r1, Some r2) \<Rightarrow>
          (case concat (map (\<lambda>m. map (Pair m) (rx_run i r2 m)) (rx_run i r1 p)) of
             [] \<Rightarrow> None
           | (m, q) # _ \<Rightarrow> Some (f (consumed p m) (consumed m q), length (consumed p q)))
      | _ \<Rightarrow> None)"

section \<open>Text\<close>

definition REDACTED :: string where
  "REDACTED = ''[REDACTED]''"

definition SECRET_PATTERNS :: "string list" where
  "SECRET_PATTERNS = map pat
     [''-----BEGIN [A-Z ]*PRIVATE KEY-----[%s%S]*?-----END [A-Z ]*PRIVATE KEY-----'',
      ''%b(?:ghp|gho|ghu|ghs|ghr)_[A-Za-z0-9]{20,}%b'',
      ''%bgithub_pat_[A-Za-z0-9_]{20,}%b'',
      ''%bsk-[A-Za-z0-9_-]{16,}%b'',
      ''%b(?:AKIA|ASIA)[0-9A-Z]{16}%b'',
      ''%bAIza[0-9A-Za-z_-]{30,}%b'',
      ''%bxox[baprs]-[A-Za-z0-9-]{10,}%b'',
      ''%beyJ[A-Za-z0-9_-]{10,}%.[A-Za-z0-9_-]{10,}%.[A-Za-z0-9_-]{10,}%b'',
      ''%b[Bb]earer%s+[A-Za-z0-9._~+/=-]{16,}'']"

text \<open>The two groups of \<^verbatim>\<open>KEY_VALUE_PATTERN\<close>: the key with its separator, and the value.\<close>

definition KEY_PATTERN :: string where
  "KEY_PATTERN =
     pat (''([A-Za-z0-9_-]*(?:password|passwd|secret|token|api[_-]?key|apikey|private[_-]?key|client[_-]?secret|credential)s?'' @
       ''[A-Za-z0-9_-]*['' @ [CHR 0x22, CHR 0x27] @ '']?%s*[:=]%s*)'')"

definition VALUE_PATTERN :: string where
  "VALUE_PATTERN =
     (let d = [CHR 0x22]; q = [CHR 0x27] in
      pat (''('' @ d @ ''[^'' @ d @ ''%n]*'' @ d @ ''|'' @ q @ ''[^'' @ q @ ''%n]*'' @ q @ ''|[^%s'' @ d @ q @ '',;}]+)''))"

definition redacted_pair :: "string \<Rightarrow> string \<Rightarrow> string" where
  "redacted_pair prefix v =
     (let quote = (if starts_with [CHR 0x22] v then [CHR 0x22]
                   else if starts_with [CHR 0x27] v then [CHR 0x27] else [])
      in prefix @ quote @ REDACTED @ quote)"

definition redactText :: "(string \<Rightarrow> string) list \<Rightarrow> string \<Rightarrow> string" where
  "redactText extra s =
     (let out = foldl (\<lambda>t pattern. replace_all (pattern_matcher False pattern (\<lambda>_. REDACTED)) 0 [] t) s SECRET_PATTERNS;
          out' = replace_all (groups_matcher True KEY_PATTERN VALUE_PATTERN redacted_pair) 0 [] out
      in foldl (\<lambda>t f. f t) out' extra)"

section \<open>Keys\<close>

text \<open>\<^verbatim>\<open>toLowerCase\<close> on the characters below 256.\<close>

definition lower_char :: "char \<Rightarrow> char" where
  "lower_char c =
     (if in_range 65 c 90 \<or> (in_range 192 c 222 \<and> code_point c \<noteq> 215) then char_of (code_point c + 32) else c)"

lemma lower_char_code [code]:
  "lower_char c =
     (if char_between (CHR ''A'') c (CHR ''Z'') \<or> (char_between (CHR 0xC0) c (CHR 0xDE) \<and> c \<noteq> CHR 0xD7)
      then with_case_bit c else c)"
proof -
  have "c = CHR 0xD7 \<longleftrightarrow> code_point c = 215"
    using of_char_eq_iff [where ?'a = nat, of c "CHR 0xD7"] by simp
  then show ?thesis
    by (simp add: lower_char_def in_range_def char_between_def char_upto_def lowered_letter lowered_accented)
qed

definition split_blanks :: "string \<Rightarrow> string list" where
  "split_blanks s =
     filter (\<lambda>w. w \<noteq> [])
       (foldr (\<lambda>c ws. if c = CHR '' '' then [] # ws else (c # hd ws) # tl ws) s [[]])"

definition normalizeKeyTokens :: "string \<Rightarrow> string list" where
  "normalizeKeyTokens key =
     (let spaced = (\<lambda>a b. a @ '' '' @ b);
          s1 = replace_all (groups_matcher False ''([a-z0-9])'' ''([A-Z])'' spaced) 0 [] key;
          s2 = replace_all (groups_matcher False ''([A-Z]+)'' ''([A-Z][a-z])'' spaced) 0 [] s1;
          s3 = replace_all (pattern_matcher False (pat ''[_%-.%s]+'') (\<lambda>_. '' '')) 0 [] s2
      in split_blanks (map lower_char s3))"

definition SECRET_WORDS :: "string list" where
  "SECRET_WORDS =
     [''password'', ''passwd'', ''passphrase'', ''secret'', ''secrets'', ''token'', ''tokens'', ''credential'',
      ''credentials'', ''cookie'', ''cookies'', ''bearer'', ''auth'', ''authorization'', ''authorisation'',
      ''apikey'', ''otp'']"

definition KEY_QUALIFIERS :: "string list" where
  "KEY_QUALIFIERS =
     [''api'', ''private'', ''secret'', ''access'', ''signing'', ''encryption'', ''ssh'', ''client'', ''session'',
      ''refresh'', ''auth'', ''consumer'', ''license'', ''licence'']"

primrec sensitive_tokens :: "string option \<Rightarrow> string list \<Rightarrow> bool" where
  "sensitive_tokens prev [] = False"
| "sensitive_tokens prev (t # ts) =
     (if t \<in> set SECRET_WORDS then True
      else if t \<in> {''key'', ''keys''} \<and> (case prev of None \<Rightarrow> False | Some q \<Rightarrow> q \<in> set KEY_QUALIFIERS) then True
      else sensitive_tokens (Some t) ts)"

definition isSensitiveKey :: "string \<Rightarrow> bool" where
  "isSensitiveKey key = sensitive_tokens None (normalizeKeyTokens key)"

section \<open>Structured values\<close>

fun redactStructured :: "(string \<Rightarrow> string) list \<Rightarrow> json \<Rightarrow> json" where
  "redactStructured extra (JStr s) = JStr (redactText extra s)"
| "redactStructured extra (JArr xs) = JArr (map (redactStructured extra) xs)"
| "redactStructured extra (JObj kvs) =
     JObj (map (\<lambda>(k, v). (k, if isSensitiveKey k then JStr REDACTED else redactStructured extra v)) kvs)"
| "redactStructured extra j = j"

text \<open>On a document the round trip through JSON changes nothing.\<close>

definition redactValue :: "(string \<Rightarrow> string) list \<Rightarrow> json \<Rightarrow> json" where
  "redactValue extra j = redactStructured extra j"

section \<open>Non-interference\<close>

text \<open>Two documents that differ at most in the values under sensitive keys.\<close>

fun same_public :: "json \<Rightarrow> json \<Rightarrow> bool" where
  "same_public (JArr xs) (JArr ys) = list_all2 same_public xs ys"
| "same_public (JObj kvs) (JObj kvs') =
     list_all2 (\<lambda>(k, v) (k', v'). k = k' \<and> (isSensitiveKey k \<or> same_public v v')) kvs kvs'"
| "same_public j j' = (j = j')"

text \<open>The texts of a document that are not under a sensitive key.\<close>

fun public_texts :: "json \<Rightarrow> string set" where
  "public_texts (JStr s) = {s}"
| "public_texts (JArr xs) = \<Union> (public_texts ` set xs)"
| "public_texts (JObj kvs) = \<Union> ((\<lambda>(k, v). if isSensitiveKey k then {} else public_texts v) ` set kvs)"
| "public_texts j = {}"

fun all_texts :: "json \<Rightarrow> string set" where
  "all_texts (JStr s) = {s}"
| "all_texts (JArr xs) = \<Union> (all_texts ` set xs)"
| "all_texts (JObj kvs) = \<Union> ((\<lambda>(k, v). all_texts v) ` set kvs)"
| "all_texts j = {}"

lemma redact_same_public: "same_public j j' \<Longrightarrow> redactStructured extra j = redactStructured extra j'"
proof (induction j j' rule: same_public.induct)
  case (1 xs ys)
  have "list_all2 (\<lambda>x y. redactStructured extra x = redactStructured extra y) xs ys"
    using "1.prems" unfolding same_public.simps by (rule list.rel_mono_strong) (rule "1.IH")
  then show ?case by (simp add: list_all2_map1 list_all2_map2 list_all2_eq)
next
  case (2 kvs kvs')
  let ?f = "\<lambda>(k, v). (k, if isSensitiveKey k then JStr REDACTED else redactStructured extra v)"
  have "list_all2 (\<lambda>x y. ?f x = ?f y) kvs kvs'"
    using "2.prems" unfolding same_public.simps
    by (rule list.rel_mono_strong) (clarsimp split: prod.splits, metis "2.IH")
  then show ?case by (simp add: list_all2_map1 list_all2_map2 list_all2_eq)
qed auto

lemma texts_of_redacted: "all_texts (redactStructured extra j) \<subseteq> insert REDACTED (redactText extra ` public_texts j)"
proof (induction j rule: public_texts.induct)
  case (2 xs)
  then show ?case by fastforce
next
  case (3 kvs)
  show ?case
  proof
    fix t assume "t \<in> all_texts (redactStructured extra (JObj kvs))"
    then obtain k v where kv: "(k, v) \<in> set kvs"
        and t: "t \<in> all_texts (if isSensitiveKey k then JStr REDACTED else redactStructured extra v)"
      by auto
    show "t \<in> insert REDACTED (redactText extra ` public_texts (JObj kvs))"
    proof (cases "isSensitiveKey k")
      case True
      with t show ?thesis by simp
    next
      case False
      then have "t \<in> insert REDACTED (redactText extra ` public_texts v)"
        using t 3 [OF kv refl False] by auto
      moreover have "public_texts v \<subseteq> public_texts (JObj kvs)" using kv False by force
      ultimately show ?thesis by blast
    qed
  qed
qed auto


text \<open>Two requests that differ in their credentials.\<close>

definition sample_request :: "json \<Rightarrow> json \<Rightarrow> json" where
  "sample_request secret nested =
     JObj [(''url'', JStr ''/v1''), (''authToken'', secret),
           (''headers'', JArr [JObj [(''api_key'', nested), (''n'', JNum 1)]])]"

lemma sample_keys: "isSensitiveKey ''authToken''" "isSensitiveKey ''api_key''" "\<not> isSensitiveKey ''url''"
  by code_simp+


end
