(* ===== verification/Worker_Report.thy ===== *)
theory Worker_Report
  imports Admission Redaction Accounts Completion "HOL-Library.Monad_Syntax"
begin

text \<open>
  The report a worker ends with (the second half of src/supervisor/worker-report.ts): which
  lines of a provider's output carry authority, and the decoder of the report. The record
  \<open>report_env\<close> holds what the code takes from elsewhere: \<^verbatim>\<open>JSON.parse\<close> (\<open>None\<close> when it throws),
  \<^verbatim>\<open>JSON.stringify\<close>, and the two parsers of src/writing/runtime.ts, whose results are kept as
  documents. A decoder returns \<open>None\<close> where the code returns \<^verbatim>\<open>undefined\<close> for the whole report.
\<close>

record report_env =
  re_parse :: "string \<Rightarrow> json option"
  re_stringify :: "json \<Rightarrow> string"
  re_sourcePacket :: "json \<Rightarrow> json option"
  re_gateEvidence :: "json \<Rightarrow> json option"

section \<open>The lines that carry authority\<close>

definition WORKER_REPORT_PREFIX :: string where "WORKER_REPORT_PREFIX = ''MAJOR_RESULT: ''"
definition FINAL_REPORT_TYPE :: string where "FINAL_REPORT_TYPE = ''major.result.final''"
definition AMBIGUOUS_REPORT_TYPE :: string where "AMBIGUOUS_REPORT_TYPE = ''major.result.ambiguous''"

definition AMBIGUOUS_WORKER_REPORT_ENVELOPE :: json where
  "AMBIGUOUS_WORKER_REPORT_ENVELOPE = JObj [(''type'', JStr AMBIGUOUS_REPORT_TYPE)]"

text \<open>\<^verbatim>\<open>split(/\r?\n/)\<close>.\<close>

fun split_lines :: "string \<Rightarrow> string list" where
  "split_lines [] = [[]]"
| "split_lines (c # cs) =
     (if c = CHR 0x0A then [] # split_lines cs
      else if c = CHR 0x0D \<and> (case cs of [] \<Rightarrow> False | d # _ \<Rightarrow> d = CHR 0x0A) then split_lines cs
      else (c # hd (split_lines cs)) # tl (split_lines cs))"

definition reportLinesFromText :: "json option \<Rightarrow> string list" where
  "reportLinesFromText v =
     (case v of
        Some (JStr s) \<Rightarrow> filter (starts_with WORKER_REPORT_PREFIX) (map js_trim (split_lines s))
      | _ \<Rightarrow> [])"

definition has_type :: "string \<Rightarrow> json \<Rightarrow> bool" where
  "has_type t j = (jget ''type'' j = Some (JStr t))"

definition block_lines :: "json \<Rightarrow> string list" where
  "block_lines block =
     (if jget ''type'' block \<noteq> None \<and> \<not> has_type ''text'' block then []
      else reportLinesFromText (jget ''text'' block))"

definition reportLinesFromEnvelope :: "json \<Rightarrow> string list" where
  "reportLinesFromEnvelope event =
     (if has_type ''result'' event then reportLinesFromText (jget ''result'' event)
      else if has_type ''item.completed'' event then
        (case jget ''item'' event of
           None \<Rightarrow> []
         | Some item \<Rightarrow> if has_type ''agent_message'' item then reportLinesFromText (jget ''text'' item) else [])
      else if has_type ''assistant'' event then
        (case Option.bind (jget ''message'' event) (jget ''content'') of
           Some (JArr blocks) \<Rightarrow> concat (map block_lines blocks)
         | _ \<Rightarrow> [])
      else [])"

definition final_envelope :: "string \<Rightarrow> json" where
  "final_envelope line = JObj [(''type'', JStr FINAL_REPORT_TYPE), (''result'', JStr line)]"

definition preserveWorkerReportEnvelope :: "report_env \<Rightarrow> string \<Rightarrow> string option" where
  "preserveWorkerReportEnvelope e raw =
     (case re_parse e raw of
        None \<Rightarrow> None
      | Some event \<Rightarrow>
          (case reportLinesFromEnvelope event of
             [] \<Rightarrow> None
           | [line] \<Rightarrow> Some (re_stringify e (final_envelope line))
           | _ \<Rightarrow> Some (re_stringify e AMBIGUOUS_WORKER_REPORT_ENVELOPE)))"

text \<open>
  The events of an output: its lines that are JSON. \<open>scan_events\<close> collects the final and the
  provider-owned lines; it gives up at an event that is marked ambiguous.
\<close>

definition output_events :: "report_env \<Rightarrow> string \<Rightarrow> json list" where
  "output_events e output =
     List.map_filter (re_parse e) (filter (\<lambda>l. l \<noteq> []) (map js_trim (split_lines output)))"

definition scan_events :: "json list \<Rightarrow> (string list \<times> string list) option" where
  "scan_events events =
     (if list_ex (has_type AMBIGUOUS_REPORT_TYPE) events then None
      else Some (concat (map (\<lambda>j. if has_type FINAL_REPORT_TYPE j then reportLinesFromText (jget ''result'' j) else []) events),
                 concat (map (\<lambda>j. if has_type FINAL_REPORT_TYPE j then [] else reportLinesFromEnvelope j) events)))"

text \<open>The one line that is eligible, without its prefix.\<close>

definition report_line :: "report_env \<Rightarrow> string \<Rightarrow> string option" where
  "report_line e output =
     (case scan_events (output_events e output) of
        None \<Rightarrow> None
      | Some (finalLines, providerLines) \<Rightarrow>
          (case (if finalLines \<noteq> [] then finalLines else providerLines) of
             [line] \<Rightarrow> Some (drop (length WORKER_REPORT_PREFIX) line)
           | _ \<Rightarrow> None))"

section \<open>Fields\<close>

definition safe_text :: "nat \<Rightarrow> string \<Rightarrow> string" where
  "safe_text n s = take n (redactText [] (js_trim s))"

text \<open>A text that is not blank, trimmed, redacted and cut.\<close>

fun dec_safe :: "nat \<Rightarrow> json \<Rightarrow> string option" where
  "dec_safe n (JStr s) = (if js_trim s = [] then None else Some (safe_text n s))"
| "dec_safe n _ = None"

text \<open>\<^verbatim>\<open>typeof x === 'string' ? redactText(x.trim()).slice(0, n) : ''\<close>.\<close>

definition text_or_empty :: "nat \<Rightarrow> json option \<Rightarrow> string" where
  "text_or_empty n v = (case v of Some (JStr s) \<Rightarrow> safe_text n s | _ \<Rightarrow> [])"

definition nonempty :: "string \<Rightarrow> string option" where
  "nonempty s = (if s = [] then None else Some s)"

definition trimmed_or_empty :: "json option \<Rightarrow> string" where
  "trimmed_or_empty v = (case v of Some (JStr s) \<Rightarrow> js_trim s | _ \<Rightarrow> [])"

fun dec_object :: "json \<Rightarrow> json option" where
  "dec_object (JObj kvs) = Some (JObj kvs)"
| "dec_object _ = None"

text \<open>
  Enumerations checked with \<^verbatim>\<open>names.includes(String(value))\<close>: a text converts to itself and an
  array with one element to the conversion of the element; no other document converts to a
  name.
\<close>

fun coerced_name :: "json \<Rightarrow> string option" where
  "coerced_name (JStr s) = Some s"
| "coerced_name (JArr [j]) = coerced_name j"
| "coerced_name _ = None"

definition dec_coerced :: "(string \<Rightarrow> 'a option) \<Rightarrow> json \<Rightarrow> 'a coerced option" where
  "dec_coerced dec j =
     (case Option.bind (coerced_name j) dec of
        None \<Rightarrow> None
      | Some x \<Rightarrow> Some (case j of JStr _ \<Rightarrow> Plain x | _ \<Rightarrow> Coerced j))"

definition dec_name :: "(string \<times> 'a) list \<Rightarrow> string \<Rightarrow> 'a option" where
  "dec_name names s = map_of names s"

definition dec_exact :: "(string \<times> 'a) list \<Rightarrow> json \<Rightarrow> 'a option" where
  "dec_exact names j = (case j of JStr s \<Rightarrow> map_of names s | _ \<Rightarrow> None)"

text \<open>\<^verbatim>\<open>Buffer.byteLength(s, 'utf8')\<close> of characters below 256.\<close>

definition byteLength :: "string \<Rightarrow> nat" where
  "byteLength s = sum_list (map (\<lambda>c. if code_point c < 128 then 1 else 2) s)"

text \<open>\<^verbatim>\<open>[...new Set(xs)]\<close>: the first occurrences, in order.\<close>

definition first_occurrences :: "'a list \<Rightarrow> 'a list" where
  "first_occurrences xs = rev (remdups (rev xs))"

section \<open>The report\<close>

datatype report_status = Rep_active | Rep_blocked | Rep_done

record review_report =
  rv_goalId :: string
  rv_sourceHead :: string
  rv_verdict :: "verdict coerced"
  rv_evidence :: string

datatype learning_source = Learn_user_correction | Learn_recurring_failure | Learn_successful_procedure | Learn_manual

record learning_report =
  lr_source :: learning_source
  lr_summary :: string
  lr_key :: "string option"
  lr_evidence :: "string option"

record workflow_report =
  wf_task :: string
  wf_outcome :: string
  wf_steps :: "string list"
  wf_tools :: "string list"
  wf_validations :: "string list"
  wf_global :: bool

record asset_report =
  as_id :: string
  as_kind :: string
  as_summary :: string
  as_locator :: string
  as_tags :: "string list"
  as_shared :: "bool coerced"

record worker_report =
  wr_status :: "report_status coerced"
  wr_summary :: string
  wr_taskId :: "string option"
  wr_promotionEvidence :: "promotion_evidence option"
  wr_independentReview :: "review_report option"
  wr_ownerGate :: "string option"
  wr_learning :: "learning_report option"
  wr_workflow :: "workflow_report option"
  wr_assetCandidate :: "asset_report option"
  wr_capabilityUse :: "(string \<times> string) list option"
  wr_writingDraft :: "string option"
  wr_writingSourcePacket :: "json option"
  wr_writingEvidence :: "json option"

definition completedWorkflow :: "worker_report option \<Rightarrow> workflow_report option" where
  "completedWorkflow r =
     (case r of None \<Rightarrow> None | Some w \<Rightarrow> if wr_status w = Plain Rep_done then wr_workflow w else None)"

definition REPORT_STATUSES :: "(string \<times> report_status) list" where
  "REPORT_STATUSES = [(''active'', Rep_active), (''blocked'', Rep_blocked), (''done'', Rep_done)]"

definition TASK_ID_PATTERN :: string where "TASK_ID_PATTERN = ''^[a-z][a-z0-9_-]{2,127}$''"

fun dec_task_id :: "json \<Rightarrow> string option" where
  "dec_task_id (JStr s) =
     (if pattern_test False TASK_ID_PATTERN (js_trim s) then Some (js_trim s) else None)"
| "dec_task_id _ = None"

fun dec_draft :: "json \<Rightarrow> string option" where
  "dec_draft (JStr s) = (if js_trim s = [] \<or> byteLength s > 100000 then None else Some s)"
| "dec_draft _ = None"

fun dec_risk_check :: "json \<Rightarrow> (string \<times> string) option" where
  "dec_risk_check (JStr s) =
     (let legacy = safe_text 2000 s in if legacy = [] then None else Some (''legacy:'' @ legacy, legacy))"
| "dec_risk_check j = do {
     proof \<leftarrow> dec_object j;
     criterion \<leftarrow> field_req ''criterion'' proof (dec_safe 500);
     evidence \<leftarrow> field_req ''evidence'' proof (dec_safe 2000);
     Some (criterion, evidence)
   }"

definition dec_risk_checks :: "json \<Rightarrow> (string \<times> string) list option" where
  "dec_risk_checks j = (case j of
     JArr items \<Rightarrow> if length items > 24 then None else those (map dec_risk_check items)
   | _ \<Rightarrow> None)"

definition dec_text_field :: "string \<Rightarrow> json \<Rightarrow> string option" where
  "dec_text_field k j = nonempty (text_or_empty 4000 (jget k j))"

definition dec_broad :: "json \<Rightarrow> broader_evidence option" where
  "dec_broad j = do {
     broad \<leftarrow> dec_object j;
     triggers \<leftarrow> field_req ''triggers'' broad (dec_array dec_trigger);
     requires \<leftarrow> field_req ''repositoryPolicyRequires'' broad dec_bool;
     performed \<leftarrow> field_req ''performed'' broad dec_bool;
     Some \<lparr>be_triggers = first_occurrences triggers, be_repositoryPolicyRequires = requires,
           be_performed = performed, be_cost = dec_text_field ''cost'' broad,
           be_expectedInformationGain = dec_text_field ''expectedInformationGain'' broad,
           be_evidence = dec_text_field ''evidence'' broad\<rparr>
   }"

definition REVIEW_LEVELS :: "(string \<times> review_level) list" where
  "REVIEW_LEVELS = [(''none'', Rev_none), (''focused'', Rev_focused), (''independent'', Rev_independent)]"

definition dec_review_evidence :: "json \<Rightarrow> (review_level coerced \<times> bool) option" where
  "dec_review_evidence j = do {
     review \<leftarrow> dec_object j;
     level \<leftarrow> field_req ''level'' review (dec_coerced (dec_name REVIEW_LEVELS));
     passed \<leftarrow> field_req ''passed'' review dec_bool;
     Some (level, passed)
   }"

fun dec_count :: "json \<Rightarrow> nat option" where
  "dec_count (JNum q) =
     (case js_int (Js_finite q) of None \<Rightarrow> None | Some k \<Rightarrow> if k < 0 then None else Some (nat k))"
| "dec_count _ = None"

definition dec_promotion :: "json \<Rightarrow> promotion_evidence option" where
  "dec_promotion j = do {
     record \<leftarrow> dec_object j;
     checks \<leftarrow> field_req ''materialRiskChecks'' record dec_risk_checks;
     tests \<leftarrow> dec_text_field ''focusedTests'' record;
     build \<leftarrow> dec_text_field ''cheapestCompileTypeOrBuild'' record;
     critical \<leftarrow> dec_text_field ''criticalPathBehavior'' record;
     broad \<leftarrow> field_req ''broaderValidation'' record dec_broad;
     review \<leftarrow> field_req ''review'' record dec_review_evidence;
     blockers \<leftarrow> field_req ''blockerFindings'' record dec_count;
     Some \<lparr>pe_focusedTests = tests, pe_cheapestCompileTypeOrBuild = build,
           pe_criticalPathBehavior = critical, pe_materialRiskChecks = checks,
           pe_broaderValidation = broad, pe_review = review, pe_blockerFindings = blockers\<rparr>
   }"

definition VERDICTS :: "(string \<times> verdict) list" where
  "VERDICTS = [(''pass'', Verdict_pass), (''fail'', Verdict_fail)]"

fun dec_trimmed_text :: "json \<Rightarrow> string option" where
  "dec_trimmed_text (JStr s) = nonempty (js_trim s)"
| "dec_trimmed_text _ = None"

fun dec_review_text :: "json \<Rightarrow> string option" where
  "dec_review_text (JStr s) =
     (if js_trim s = [] \<or> byteLength s > 4000 then None else Some (redactText [] (js_trim s)))"
| "dec_review_text _ = None"

definition dec_independent :: "json \<Rightarrow> review_report option" where
  "dec_independent j = do {
     review \<leftarrow> dec_object j;
     _ \<leftarrow> field_req ''purpose'' review (dec_exact [(''independent_completion_review'', ())]);
     goalId \<leftarrow> field_req ''goalId'' review dec_trimmed_text;
     head \<leftarrow> field_req ''sourceHead'' review dec_head;
     verdict \<leftarrow> field_req ''verdict'' review (dec_coerced (dec_name VERDICTS));
     evidence \<leftarrow> field_req ''evidence'' review dec_review_text;
     Some \<lparr>rv_goalId = goalId, rv_sourceHead = head, rv_verdict = verdict, rv_evidence = evidence\<rparr>
   }"

definition LEARNING_SOURCES :: "(string \<times> learning_source) list" where
  "LEARNING_SOURCES =
     [(''user-correction'', Learn_user_correction), (''recurring-failure'', Learn_recurring_failure),
      (''successful-procedure'', Learn_successful_procedure), (''manual'', Learn_manual)]"

definition dec_learning :: "json \<Rightarrow> learning_report option" where
  "dec_learning j = do {
     candidate \<leftarrow> dec_object j;
     source \<leftarrow> field_req ''source'' candidate (dec_exact LEARNING_SOURCES);
     summary \<leftarrow> field_req ''summary'' candidate (dec_safe 4000);
     Some \<lparr>lr_source = source, lr_summary = summary,
           lr_key = Option.bind (jget ''key'' candidate) (dec_safe 200),
           lr_evidence = Option.bind (jget ''evidence'' candidate) (dec_safe 4000)\<rparr>
   }"

fun all_texts_of :: "json list \<Rightarrow> string list option" where
  "all_texts_of [] = Some []"
| "all_texts_of (JStr s # js) = map_option (Cons s) (all_texts_of js)"
| "all_texts_of (_ # js) = None"

definition dec_strings :: "string \<Rightarrow> bool \<Rightarrow> json \<Rightarrow> string list option" where
  "dec_strings k required j =
     (case jget k j of
        Some (JArr items) \<Rightarrow>
          (case all_texts_of items of
             None \<Rightarrow> if required then None else Some []
           | Some xs \<Rightarrow>
               let sanitized = first_occurrences (filter (\<lambda>s. s \<noteq> []) (map (safe_text 1000) xs))
               in if required \<and> sanitized = [] then None else Some (take 20 sanitized))
      | _ \<Rightarrow> if required then None else Some [])"

definition dec_workflow :: "json \<Rightarrow> workflow_report option" where
  "dec_workflow j = do {
     candidate \<leftarrow> dec_object j;
     task \<leftarrow> nonempty (text_or_empty 2000 (jget ''task'' candidate));
     outcome \<leftarrow> nonempty (text_or_empty 2000 (jget ''outcome'' candidate));
     steps \<leftarrow> dec_strings ''steps'' True candidate;
     tools \<leftarrow> dec_strings ''tools'' False candidate;
     validations \<leftarrow> dec_strings ''validations'' True candidate;
     Some \<lparr>wf_task = task, wf_outcome = outcome, wf_steps = steps, wf_tools = tools,
           wf_validations = validations, wf_global = (jget ''scope'' candidate = Some (JStr ''global''))\<rparr>
   }"

definition CAPABILITY_KEY_PATTERN :: string where
  "CAPABILITY_KEY_PATTERN = ''^[a-z0-9][a-z0-9-]{1,79}$''"

fun dec_capability_uses :: "string list \<Rightarrow> json list \<Rightarrow> (string \<times> string) list option" where
  "dec_capability_uses seen [] = Some []"
| "dec_capability_uses seen (item # items) = do {
     candidate \<leftarrow> dec_object item;
     (let key = trimmed_or_empty (jget ''key'' candidate);
          evidence = trimmed_or_empty (jget ''evidence'' candidate)
      in if \<not> pattern_test False CAPABILITY_KEY_PATTERN key \<or> evidence = [] \<or> key \<in> set seen then None
         else map_option (Cons (key, take 2000 (redactText [] evidence)))
                (dec_capability_uses (key # seen) items))
   }"

definition dec_capabilities :: "json \<Rightarrow> (string \<times> string) list option" where
  "dec_capabilities j = (case j of
     JArr items \<Rightarrow> if length items > 24 then None else dec_capability_uses [] items
   | _ \<Rightarrow> None)"

definition ASSET_ID_PATTERN :: string where "ASSET_ID_PATTERN = ''^[a-z0-9]+(?:-[a-z0-9]+)*$''"

definition asset_tags :: "json option \<Rightarrow> string list" where
  "asset_tags v = (case v of
     Some (JArr items) \<Rightarrow>
       first_occurrences (filter (\<lambda>s. s \<noteq> [])
         (map js_trim (List.map_filter (\<lambda>j. case j of JStr s \<Rightarrow> Some s | _ \<Rightarrow> None) items)))
   | _ \<Rightarrow> [])"

definition ASSET_SCOPES :: "(string \<times> bool) list" where
  "ASSET_SCOPES = [(''shared'', True), (''project-local'', False)]"

definition dec_asset :: "json \<Rightarrow> asset_report option" where
  "dec_asset j = do {
     candidate \<leftarrow> dec_object j;
     (let ident = trimmed_or_empty (jget ''id'' candidate);
          kind = trimmed_or_empty (jget ''kind'' candidate);
          summary = trimmed_or_empty (jget ''summary'' candidate);
          locator = trimmed_or_empty (jget ''locator'' candidate);
          tags = asset_tags (jget ''tags'' candidate)
      in if \<not> pattern_test False ASSET_ID_PATTERN ident \<or> kind = [] \<or> summary = [] \<or> locator = []
            \<or> starts_with ''/'' locator \<or> has_infix ''..'' locator \<or> tags = [] \<or> length tags > 20
         then None
         else do {
           scope \<leftarrow> field_req ''scope'' candidate (dec_coerced (dec_name ASSET_SCOPES));
           Some \<lparr>as_id = ident, as_kind = take 80 (redactText [] kind),
                 as_summary = take 2000 (redactText [] summary), as_locator = locator,
                 as_tags = map (\<lambda>t. take 80 (redactText [] t)) tags, as_shared = scope\<rparr>
         })
   }"

definition dec_report :: "report_env \<Rightarrow> json \<Rightarrow> worker_report option" where
  "dec_report e v = do {
     status \<leftarrow> field_req ''status'' v (dec_coerced (dec_name REPORT_STATUSES));
     summary \<leftarrow> field_req ''summary'' v (dec_safe 12000);
     draft \<leftarrow> field_opt ''writingDraft'' v dec_draft;
     taskId \<leftarrow> field_opt ''taskId'' v dec_task_id;
     packet \<leftarrow> field_opt ''writingSourcePacket'' v (re_sourcePacket e);
     gates \<leftarrow> field_opt ''writingEvidence'' v (re_gateEvidence e);
     promotion \<leftarrow> field_opt ''promotionEvidence'' v dec_promotion;
     review \<leftarrow> field_opt ''independentReview'' v dec_independent;
     (let ownerGate = text_or_empty 4000 (jget ''ownerGate'' v) in
      if status = Plain Rep_blocked \<and> ownerGate = [] then None
      else do {
        learning \<leftarrow> field_opt ''learning'' v dec_learning;
        workflow \<leftarrow> field_opt ''workflow'' v dec_workflow;
        uses \<leftarrow> field_opt ''capabilityUse'' v dec_capabilities;
        asset \<leftarrow> field_opt ''assetCandidate'' v dec_asset;
        Some \<lparr>wr_status = status, wr_summary = summary, wr_taskId = taskId,
              wr_promotionEvidence = promotion, wr_independentReview = review,
              wr_ownerGate = nonempty ownerGate, wr_learning = learning, wr_workflow = workflow,
              wr_assetCandidate = asset, wr_capabilityUse = uses, wr_writingDraft = draft,
              wr_writingSourcePacket = packet, wr_writingEvidence = gates\<rparr>
      })
   }"

definition parseWorkerReport :: "report_env \<Rightarrow> string \<Rightarrow> worker_report option" where
  "parseWorkerReport e output =
     Option.bind (Option.bind (report_line e output) (re_parse e)) (dec_report e)"

end
