(* ===== verification/Repair.thy ===== *)
theory Repair
  imports Goals Worker_Report Js_Text
begin

text \<open>
  What happens to a goal after a worker that did not succeed: the repair policy
  (src/intelligence/repair-gate.ts) and the failure patches of src/supervisor/runtime.ts. The
  decision kernel, which asks a local model, is the argument \<open>rj_answer\<close>: from the redacted
  task and failure it gives a choice with a confidence, or nothing.
\<close>

section \<open>Outcomes of workers\<close>

datatype worker_status = Wk_succeeded | Wk_failed | Wk_timed_out

record worker_outcome =
  wo_host :: provider_host
  wo_status :: worker_status
  wo_exitCode :: "int option"
  wo_stdout :: string
  wo_stderr :: string
  wo_rateLimited :: bool
  wo_exhausted :: bool
  wo_workspaceMutated :: "bool option"
  wo_sessionRef :: "string option"
  wo_usage :: "json option"

fun providerAuthFailure :: "provider_host \<Rightarrow> string" where
  "providerAuthFailure Host_claude = pat ''(?:invalid api key|not logged in|please run /login)''"
| "providerAuthFailure Host_codex = pat ''(?:invalid api key|not logged in|run[^%n]*codex login)''"
| "providerAuthFailure Host_cursor =
     pat ''(?:invalid api key|not authenticated|login required|cursor(?:-agent| agent) login)''"
| "providerAuthFailure Host_antigravity =
     pat ''(?:antigravity[^%n]*not signed in|launch the cli without arguments to sign in)''"

definition UNTRUSTED_INSTALLATION :: string where
  "UNTRUSTED_INSTALLATION = ''no trusted installation|cannot trust|not an executable regular file''"

definition modelOutcomeForWorker :: "worker_outcome \<Rightarrow> model_availability option" where
  "modelOutcomeForWorker o' =
     (if wo_exhausted o' then Some Av_exhausted
      else if wo_rateLimited o' then Some Av_rate_limited
      else if wo_status o' = Wk_succeeded then Some Av_available
      else if pattern_test True UNTRUSTED_INSTALLATION (wo_stderr o') then Some Av_unknown
      else if pattern_test True (providerAuthFailure (wo_host o')) (wo_stderr o') then Some Av_unknown
      else None)"

definition trim_tail :: "string \<Rightarrow> string" where
  "trim_tail s = keep_last 12000 s"

text \<open>\<^verbatim>\<open>a || b\<close> on texts.\<close>

definition text_or :: "string \<Rightarrow> string \<Rightarrow> string" where
  "text_or a b = (if a = [] then b else a)"

section \<open>The repair policy\<close>

datatype repair_action = Act_accept | Act_targeted_fix | Act_change_strategy | Act_escalate | Act_stop

definition REPAIR_ACTIONS :: "(string \<times> repair_action) list" where
  "REPAIR_ACTIONS =
     [(''accept'', Act_accept), (''targeted_fix'', Act_targeted_fix), (''change_strategy'', Act_change_strategy),
      (''escalate'', Act_escalate), (''stop'', Act_stop)]"

record repair_policy_input =
  rp_semanticAction :: "repair_action option"
  rp_failureCount :: nat
  rp_materiallyUnchangedFailures :: nat
  rp_hardFailureLimit :: "nat option"
  rp_independentReviewSatisfied :: bool
  rp_workerSucceeded :: bool

text \<open>The action after each of the policy's three corrections.\<close>

definition repair_action_of :: "repair_policy_input \<Rightarrow> repair_action" where
  "repair_action_of i =
     (let a1 = (case rp_semanticAction i of None \<Rightarrow> Act_targeted_fix | Some a \<Rightarrow> a);
          a2 = (if a1 = Act_accept \<and> (\<not> rp_workerSucceeded i \<or> \<not> rp_independentReviewSatisfied i)
                then Act_targeted_fix else a1);
          a3 = (if a2 \<in> {Act_stop, Act_escalate} \<and> rp_failureCount i < 3
                then (if rp_materiallyUnchangedFailures i \<ge> 2 then Act_change_strategy else Act_targeted_fix)
                else a2)
      in if rp_materiallyUnchangedFailures i \<ge> 2 \<and> a3 \<in> {Act_accept, Act_targeted_fix}
         then Act_change_strategy else a3)"

definition composeRepairPolicy :: "repair_policy_input \<Rightarrow> repair_action \<times> string" where
  "composeRepairPolicy i =
     (let hardLimit = (case rp_hardFailureLimit i of None \<Rightarrow> 6 | Some n \<Rightarrow> n) in
      if rp_failureCount i \<ge> hardLimit
      then (Act_stop, ''hard failure limit reached ('' @ decimal hardLimit @ '')'')
      else let action = repair_action_of i in
        (action,
         if rp_materiallyUnchangedFailures i \<ge> 2 \<and> action = Act_change_strategy
         then ''two materially unchanged failures require a different strategy''
         else if rp_semanticAction i \<noteq> None
         then ''bounded semantic repair judgment composed with hard policy''
         else ''deterministic targeted repair fallback''))"

definition normalized_failure :: "string \<Rightarrow> string" where
  "normalized_failure s =
     (let s1 = replace_all (pattern_matcher False ''[0-9a-f]{7,64}'' (\<lambda>_. ''<id>'')) 0 [] (map lower_char s);
          s2 = replace_all (pattern_matcher False (pat ''%d+'') (\<lambda>_. ''<n>'')) 0 [] s1;
          s3 = replace_all (pattern_matcher False (pat ''%s+'') (\<lambda>_. '' '')) 0 [] s2
      in take 800 (js_trim s3))"

definition materiallySameFailure :: "string \<Rightarrow> string option \<Rightarrow> bool" where
  "materiallySameFailure current previous =
     (let left = normalized_failure current;
          right = normalized_failure (case previous of None \<Rightarrow> [] | Some p \<Rightarrow> p)
      in if left = [] \<or> right = [] then False
         else if left = right then True
         else let shorter = (if length left \<le> length right then left else right);
                  longer = (if length left > length right then left else right)
              in length shorter \<ge> 80 \<and> has_infix (take (min 260 (length shorter)) shorter) longer)"

definition DEFAULT_DECISION_CONFIDENCE :: rat where
  "DEFAULT_DECISION_CONFIDENCE = 72 / 100"

text \<open>
  \<open>rj_allowed\<close>: the project allows its texts to leave to the kernel; \<open>rj_enabled\<close>: the kernel
  is installed.
\<close>

record repair_judge =
  rj_allowed :: bool
  rj_enabled :: bool
  rj_answer :: "string \<Rightarrow> string \<Rightarrow> nat \<Rightarrow> nat \<Rightarrow> (string \<times> rat) option"

definition judgeRepairAction ::
  "repair_judge \<Rightarrow> rat option \<Rightarrow> string \<Rightarrow> string \<Rightarrow> nat \<Rightarrow> nat \<Rightarrow> (repair_action \<times> string) \<times> bool" where
  "judgeRepairAction j confidence task failureSummary failureCount unchanged =
     (let answer = rj_answer j (redactText [] task) (take 12000 (redactText [] failureSummary)) failureCount unchanged;
          threshold = (case confidence of None \<Rightarrow> max DEFAULT_DECISION_CONFIDENCE (82 / 100) | Some c \<Rightarrow> c);
          semantic = (case answer of
              None \<Rightarrow> None
            | Some (choice, c) \<Rightarrow> if c \<ge> threshold then map_of REPAIR_ACTIONS choice else None)
      in (composeRepairPolicy
            \<lparr>rp_semanticAction = semantic, rp_failureCount = failureCount,
             rp_materiallyUnchangedFailures = unchanged, rp_hardFailureLimit = None,
             rp_independentReviewSatisfied = False, rp_workerSucceeded = False\<rparr>,
          semantic \<noteq> None))"

section \<open>Failure patches\<close>

record failure_input =
  fi_modelOutcome :: "model_availability option"
  fi_stderr :: string
  fi_stdout :: string
  fi_provider :: string
  fi_modelRef :: string
  fi_host :: provider_host
  fi_consecutiveFailures :: nat

record failure_patch =
  fp_status :: goal_status
  fp_consecutiveFailures :: nat
  fp_lastSummary :: string
  fp_nextRunDelayMs :: int
  fp_retryImmediately :: bool

text \<open>An outcome that marks capacity as unavailable, not the work as failed.\<close>

definition capacity_outcome :: "failure_input \<Rightarrow> bool" where
  "capacity_outcome i = (fi_modelOutcome i \<noteq> None \<and> fi_modelOutcome i \<noteq> Some Av_available)"

fun outcome_description :: "model_availability \<Rightarrow> string" where
  "outcome_description Av_unknown = ''unavailable (authentication/trust failure)''"
| "outcome_description Av_exhausted = ''exhausted''"
| "outcome_description Av_rate_limited = ''rate_limited''"
| "outcome_description Av_available = ''available''"

definition failure_summary :: "failure_input \<Rightarrow> string" where
  "failure_summary i =
     trim_tail (text_or (fi_stderr i) (text_or (fi_stdout i)
       (''Coordinator '' @ host_name (fi_host i) @ '' failed.'')))"

definition nonSuccessCyclePatch :: "failure_input \<Rightarrow> failure_patch" where
  "nonSuccessCyclePatch i =
     (if capacity_outcome i
      then \<lparr>fp_status = Gs_active, fp_consecutiveFailures = fi_consecutiveFailures i,
            fp_lastSummary = ''Provider '' @ fi_provider i @ ''/'' @ fi_modelRef i @ '' reported ''
              @ (case fi_modelOutcome i of None \<Rightarrow> [] | Some m \<Rightarrow> outcome_description m)
              @ ''; marked unavailable and rerouting to the next available capacity.'',
            fp_nextRunDelayMs = 0, fp_retryImmediately = True\<rparr>
      else let failures = fi_consecutiveFailures i + 1 in
           \<lparr>fp_status = (if failures \<ge> 6 then Gs_failed else Gs_active),
            fp_consecutiveFailures = failures, fp_lastSummary = failure_summary i,
            fp_nextRunDelayMs = min 60000 (int failures * 10000), fp_retryImmediately = False\<rparr>)"

definition repair_decision ::
  "repair_judge \<Rightarrow> string \<Rightarrow> string \<Rightarrow> nat \<Rightarrow> nat \<Rightarrow> repair_action \<times> string" where
  "repair_decision j task summary failureCount unchanged =
     (if rj_allowed j \<and> rj_enabled j then fst (judgeRepairAction j None task summary failureCount unchanged)
      else composeRepairPolicy
            \<lparr>rp_semanticAction = None, rp_failureCount = failureCount,
             rp_materiallyUnchangedFailures = unchanged, rp_hardFailureLimit = None,
             rp_independentReviewSatisfied = False, rp_workerSucceeded = False\<rparr>)"

fun action_name :: "repair_action \<Rightarrow> string" where
  "action_name Act_accept = ''accept''"
| "action_name Act_targeted_fix = ''targeted_fix''"
| "action_name Act_change_strategy = ''change_strategy''"
| "action_name Act_escalate = ''escalate''"
| "action_name Act_stop = ''stop''"

definition smartNonSuccessCyclePatch ::
  "repair_judge \<Rightarrow> string \<Rightarrow> string option \<Rightarrow> failure_input \<Rightarrow> failure_patch" where
  "smartNonSuccessCyclePatch j task previousSummary i =
     (let deterministic = nonSuccessCyclePatch i in
      if capacity_outcome i then deterministic
      else
        let summary = failure_summary i;
            failureCount = fi_consecutiveFailures i + 1;
            unchanged = (if materiallySameFailure summary previousSummary then max 2 failureCount else 0);
            decision = repair_decision j task summary failureCount unchanged
        in if fst decision = Act_change_strategy
           then \<lparr>fp_status = Gs_active,
                 fp_consecutiveFailures = max 2 (fp_consecutiveFailures deterministic),
                 fp_lastSummary = trim_tail (summary @ [CHR 0x0A] @ ''Repair posture: change strategy. '' @ snd decision),
                 fp_nextRunDelayMs = 0, fp_retryImmediately = True\<rparr>
           else if fst decision \<in> {Act_stop, Act_escalate}
           then deterministic\<lparr>fp_status := Gs_failed,
                 fp_lastSummary := trim_tail (summary @ [CHR 0x0A] @ ''Repair posture: ''
                   @ action_name (fst decision) @ ''. '' @ snd decision),
                 fp_retryImmediately := False\<rparr>
           else deterministic)"

section \<open>A refused claim of mutation\<close>

definition codexMutationClaimRefusal :: "worker_outcome \<Rightarrow> worker_report option \<Rightarrow> string option" where
  "codexMutationClaimRefusal o' report =
     (case report of
        None \<Rightarrow> None
      | Some r \<Rightarrow>
          if wo_host o' \<noteq> Host_codex \<or> wo_workspaceMutated o' \<noteq> Some False then None
          else if \<not> pattern_test False (pat ''^BUILT(?:%b|:)'') (wr_summary r) then None
          else Some (''Rejected Codex mutation claim: the contained execution backend compared the returned workspace '' @
                     ''with its input and observed no project delta. The task remains active.''))"

definition mutationClaimRefusalGoalPatch ::
  "instant \<Rightarrow> string \<Rightarrow> worker_outcome \<Rightarrow> nat \<Rightarrow> supervisor_goal \<Rightarrow> supervisor_goal" where
  "mutationClaimRefusalGoalPatch now refusal o' consecutiveFailures g =
     (let failure = nonSuccessCyclePatch
            \<lparr>fi_modelOutcome = None, fi_stderr = refusal, fi_stdout = [], fi_provider = ''codex'',
             fi_modelRef = ''readiness-claim'', fi_host = Host_codex,
             fi_consecutiveFailures = consecutiveFailures\<rparr>
      in g\<lparr>sg_status := fp_status failure, sg_consecutiveFailures := fp_consecutiveFailures failure,
           sg_activePid := None, sg_lastFinishedAt := Some now, sg_lastSummary := Some (fp_lastSummary failure),
           sg_nextRunAt := Some (now + fp_nextRunDelayMs failure), sg_pendingCompletion := None,
           sg_retryImmediately := Some (fp_retryImmediately failure),
           sg_lastSessionRef := (case wo_sessionRef o' of Some (c # cs) \<Rightarrow> Some (c # cs) | _ \<Rightarrow> sg_lastSessionRef g)\<rparr>)"

section \<open>Failures end a goal\<close>

lemma failure_status: "fp_status (smartNonSuccessCyclePatch j task prev i) \<in> {Gs_active, Gs_failed}"
  by (auto simp: smartNonSuccessCyclePatch_def nonSuccessCyclePatch_def Let_def)

lemma capacity_keeps_count:
  assumes "capacity_outcome i"
  shows "smartNonSuccessCyclePatch j task prev i = nonSuccessCyclePatch i"
    and "fp_status (nonSuccessCyclePatch i) = Gs_active"
    and "fp_consecutiveFailures (nonSuccessCyclePatch i) = fi_consecutiveFailures i"
    and "fp_retryImmediately (nonSuccessCyclePatch i)"
  using assms by (simp_all add: smartNonSuccessCyclePatch_def nonSuccessCyclePatch_def)

lemma work_failure_counts:
  assumes "\<not> capacity_outcome i"
  shows "fp_consecutiveFailures (smartNonSuccessCyclePatch j task prev i) > fi_consecutiveFailures i"
  using assms by (simp add: smartNonSuccessCyclePatch_def nonSuccessCyclePatch_def Let_def less_Suc_eq_le)

lemma hard_limit_stops: "failureCount \<ge> 6 \<Longrightarrow> fst (repair_decision j task summary failureCount unchanged) = Act_stop"
  by (simp add: repair_decision_def judgeRepairAction_def composeRepairPolicy_def Let_def)

lemma sixth_failure_fails:
  assumes "\<not> capacity_outcome i" and "fi_consecutiveFailures i \<ge> 5"
  shows "fp_status (smartNonSuccessCyclePatch j task prev i) = Gs_failed
     \<and> \<not> fp_retryImmediately (smartNonSuccessCyclePatch j task prev i)"
  using assms hard_limit_stops by (simp add: smartNonSuccessCyclePatch_def Let_def)

text \<open>A kernel is never asked to accept: the worker has not succeeded.\<close>

lemma repair_never_accepts: "fst (repair_decision j task summary n u) \<noteq> Act_accept"
  by (auto simp: repair_decision_def judgeRepairAction_def composeRepairPolicy_def repair_action_of_def Let_def)

text \<open>
  A series of unsuccessful cycles of one goal: each starts from the count the previous one
  stored. \<open>prev\<close> is whatever summary the goal has then.
\<close>

primrec failure_run ::
  "repair_judge \<Rightarrow> string \<Rightarrow> nat \<Rightarrow> (failure_input \<times> string option) list \<Rightarrow> failure_patch list" where
  "failure_run j task n [] = []"
| "failure_run j task n (x # xs) =
     (let p = smartNonSuccessCyclePatch j task (snd x) ((fst x)\<lparr>fi_consecutiveFailures := n\<rparr>)
      in p # failure_run j task (fp_consecutiveFailures p) xs)"

definition work_failure :: "failure_input \<times> string option \<Rightarrow> bool" where
  "work_failure x \<longleftrightarrow> \<not> capacity_outcome (fst x)"

lemma capacity_update [simp]: "capacity_outcome (i\<lparr>fi_consecutiveFailures := n\<rparr>) = capacity_outcome i"
  by (simp add: capacity_outcome_def)

lemma failure_run_ends:
  "n + count_where work_failure xs \<ge> 6 \<Longrightarrow> n \<le> 5 \<Longrightarrow> \<exists>p \<in> set (failure_run j task n xs). fp_status p = Gs_failed"
proof (induction xs arbitrary: n)
  case (Cons x xs)
  let ?i = "(fst x)\<lparr>fi_consecutiveFailures := n\<rparr>"
  let ?p = "smartNonSuccessCyclePatch j task (snd x) ?i"
  show ?case
  proof (cases "work_failure x")
    case True
    then have w: "\<not> capacity_outcome ?i" by (simp add: work_failure_def)
    have more: "fp_consecutiveFailures ?p > n" using work_failure_counts [OF w] by simp
    show ?thesis
    proof (cases "fp_consecutiveFailures ?p \<le> 5")
      case True
      then have "\<exists>p \<in> set (failure_run j task (fp_consecutiveFailures ?p) xs). fp_status p = Gs_failed"
        using Cons.prems more \<open>work_failure x\<close> by (intro Cons.IH) (simp_all add: count_where_Cons)
      then show ?thesis by (auto simp: Let_def)
    next
      case False
      then have "n \<ge> 5"
        by (auto simp: smartNonSuccessCyclePatch_def nonSuccessCyclePatch_def Let_def w split: if_splits)
      then have "fp_status ?p = Gs_failed" using sixth_failure_fails [OF w] by simp
      then show ?thesis by (auto simp: Let_def)
    qed
  next
    case False
    then have c: "capacity_outcome ?i" by (simp add: work_failure_def)
    have "fp_consecutiveFailures ?p = n" using capacity_keeps_count [OF c] by simp
    moreover have "\<exists>p \<in> set (failure_run j task n xs). fp_status p = Gs_failed"
      using Cons False by (intro Cons.IH) (simp_all add: count_where_Cons)
    ultimately show ?thesis by (auto simp: Let_def)
  qed
qed (simp add: count_where_Nil)

text \<open>
  C26. Repeated failure ends a goal, whatever the decision kernel answers: among unsuccessful
  cycles with six failures of the work, some cycle marks the goal failed; exhausted, rate
  limited or untrusted capacity in between is not counted and never fails the goal; and no
  unsuccessful cycle makes a goal done.
\<close>

theorem repeated_failure_ends_goal:
  assumes "count_where work_failure xs \<ge> 6"
  shows "(\<exists>p \<in> set (failure_run j task 0 xs). fp_status p = Gs_failed)
     \<and> (\<forall>prev i. fp_status (smartNonSuccessCyclePatch j task prev i) \<in> {Gs_active, Gs_failed}
          \<and> (capacity_outcome i \<longrightarrow> fp_status (smartNonSuccessCyclePatch j task prev i) = Gs_active
               \<and> fp_consecutiveFailures (smartNonSuccessCyclePatch j task prev i) = fi_consecutiveFailures i))"
proof -
  have "\<exists>p \<in> set (failure_run j task 0 xs). fp_status p = Gs_failed"
    using failure_run_ends [of 0 xs] assms by simp
  then show ?thesis using failure_status capacity_keeps_count by simp
qed

text \<open>Six crashes, with a rate limit between them, and a kernel that always asks to go on.\<close>

definition sample_failure :: "model_availability option \<Rightarrow> failure_input" where
  "sample_failure m = \<lparr>fi_modelOutcome = m, fi_stderr = ''boom'', fi_stdout = [], fi_provider = ''codex'',
     fi_modelRef = ''m'', fi_host = Host_codex, fi_consecutiveFailures = 0\<rparr>"

definition sample_failures :: "(failure_input \<times> string option) list" where
  "sample_failures = replicate 3 (sample_failure None, None) @ (sample_failure (Some Av_rate_limited), None)
     # replicate 3 (sample_failure None, None)"

definition eager_judge :: repair_judge where
  "eager_judge = \<lparr>rj_allowed = True, rj_enabled = True, rj_answer = (\<lambda>_ _ _ _. Some (''change_strategy'', 1))\<rparr>"

theorem repeated_failure_ends_goal_witness:
  "count_where work_failure sample_failures = 6
   \<and> (\<exists>p \<in> set (failure_run eager_judge ''task'' 0 sample_failures). fp_status p = Gs_failed)"
proof -
  have "count_where work_failure sample_failures = 6" by code_simp
  then show ?thesis using repeated_failure_ends_goal [of sample_failures eager_judge "''task''"] by simp
qed

end
