(* ===== verification/Smart_Routing.thy ===== *)
theory Smart_Routing
  imports Coordinator_Safety Repair
begin

text \<open>
  Routing with a semantic classification of the task (src/intelligence/semantic-routing.ts and
  \<^verbatim>\<open>routeGoalExecutionSmart\<close> of src/supervisor/runtime.ts). The decision kernel is the argument
  \<open>rk_answers\<close>: from the redacted task it gives a choice and a confidence per question, or is
  unavailable.
\<close>

section \<open>Classification\<close>

type_synonym kernel_answer = "(string \<times> rat) option"

record routing_kernel =
  rk_enabled :: bool
  rk_answers :: "string \<Rightarrow> (kernel_answer \<times> kernel_answer \<times> kernel_answer) option"

record routing_classification =
  cl_purpose :: run_purpose
  cl_complexity :: task_complexity
  cl_riskLevel :: risk_level
  cl_semantic :: bool

definition FALLBACK_ROUTING_CLASSIFICATION :: routing_classification where
  "FALLBACK_ROUTING_CLASSIFICATION =
     \<lparr>cl_purpose = Pur_analysis, cl_complexity = Cx_architectural, cl_riskLevel = Risk_normal, cl_semantic = False\<rparr>"

definition purpose_choices :: "(string \<times> run_purpose) list" where
  "purpose_choices =
     [(''implementation'', Pur_implementation), (''verification'', Pur_verification), (''review'', Pur_review),
      (''repair'', Pur_repair), (''analysis'', Pur_analysis)]"

definition complexity_choices :: "(string \<times> task_complexity) list" where
  "complexity_choices =
     [(''routine'', Cx_routine), (''bounded'', Cx_bounded), (''complex'', Cx_complex),
      (''architectural'', Cx_architectural)]"

definition risk_choices :: "(string \<times> risk_level) list" where
  "risk_choices =
     [(''normal'', Risk_normal), (''high'', Risk_high), (''security_sensitive'', Risk_security_sensitive)]"

definition confidentChoice :: "kernel_answer \<Rightarrow> (string \<times> 'a) list \<Rightarrow> 'a \<Rightarrow> rat \<Rightarrow> 'a" where
  "confidentChoice answer allowed fallback threshold =
     (case answer of
        None \<Rightarrow> fallback
      | Some (choice, confidence) \<Rightarrow>
          (case map_of allowed choice of
             None \<Rightarrow> fallback
           | Some x \<Rightarrow> if confidence \<ge> threshold then x else fallback))"

definition REVIEW_TASK :: string where
  "REVIEW_TASK =
     pat ''%b(?:independent review|code review|review this|audit this|red[- ]team|review the implementation)%b''"

definition VERIFICATION_TASK :: string where
  "VERIFICATION_TASK = pat ''%b(?:verify|validate|verification|qa check|test only|inspect only)%b''"

definition deterministicPurpose :: "string \<Rightarrow> run_purpose option" where
  "deterministicPurpose task =
     (if pattern_test True REVIEW_TASK task then Some Pur_review
      else if pattern_test True VERIFICATION_TASK task then Some Pur_verification
      else None)"

definition SECURITY_TASK :: string where
  "SECURITY_TASK =
     pat (''%b(?:security|credential|secret|token|password|authentication|authorization|permission|vulnerab|'' @
       ''exploit|cryptograph|encryption|sandbox|trust boundary)%b'')"

definition HIGH_RISK_TASK :: string where
  "HIGH_RISK_TASK =
     pat (''%b(?:production|deploy|release|delete|destroy|drop|truncate|migrate|external write|irreversible|'' @
       ''billing|payment|dns)%b'')"

definition deterministicRisk :: "string \<Rightarrow> risk_level" where
  "deterministicRisk task =
     (if pattern_test True SECURITY_TASK task then Risk_security_sensitive
      else if pattern_test True HIGH_RISK_TASK task then Risk_high
      else Risk_normal)"

fun risk_rank :: "risk_level \<Rightarrow> nat" where
  "risk_rank Risk_normal = 0"
| "risk_rank Risk_high = 1"
| "risk_rank Risk_security_sensitive = 2"

definition maxRisk :: "risk_level \<Rightarrow> risk_level \<Rightarrow> risk_level" where
  "maxRisk left right = (if risk_rank left \<ge> risk_rank right then left else right)"

definition classifyRoutingRequest :: "routing_kernel \<Rightarrow> rat option \<Rightarrow> string \<Rightarrow> routing_classification" where
  "classifyRoutingRequest k confidence task =
     (case rk_answers k (redactText [] task) of
        None \<Rightarrow> FALLBACK_ROUTING_CLASSIFICATION
      | Some (purpose, complexity, risk) \<Rightarrow>
          let threshold = (case confidence of None \<Rightarrow> DEFAULT_DECISION_CONFIDENCE | Some c \<Rightarrow> c);
              semanticRisk = confidentChoice risk risk_choices Risk_normal threshold
          in \<lparr>cl_purpose = (case deterministicPurpose task of
                Some p \<Rightarrow> p
              | None \<Rightarrow> confidentChoice purpose purpose_choices (cl_purpose FALLBACK_ROUTING_CLASSIFICATION) threshold),
              cl_complexity = confidentChoice complexity complexity_choices
                (cl_complexity FALLBACK_ROUTING_CLASSIFICATION) threshold,
              cl_riskLevel = maxRisk (deterministicRisk task) semanticRisk,
              cl_semantic = True\<rparr>)"

section \<open>Selection\<close>

definition semanticEgressAllowed :: "project_policy \<Rightarrow> bool" where
  "semanticEgressAllowed p = (pp_projectClass p \<in> {Class_workshop, Class_knowledge})"

definition with_owner :: "target_class option \<Rightarrow> routing_request \<Rightarrow> routing_request" where
  "with_owner owner rq = (case owner of None \<Rightarrow> rq | Some t \<Rightarrow> rq\<lparr>rq_targetClass := Some t\<rparr>)"

definition classified_request :: "supervisor_goal \<Rightarrow> target_class option \<Rightarrow> routing_classification \<Rightarrow> routing_request" where
  "classified_request g owner c =
     with_owner owner (with_repair g
       ((base_request (cl_purpose c) (cl_complexity c))\<lparr>rq_riskLevel := Some (cl_riskLevel c)\<rparr>))"

definition selectCoordinatorSmart ::
  "(string \<Rightarrow> string \<Rightarrow> int) \<Rightarrow> routing_kernel \<Rightarrow> project_policy \<Rightarrow> target_class option \<Rightarrow> supervisor_goal \<Rightarrow> provider_info list
     \<Rightarrow> coordinator_selection account_result" where
  "selectCoordinatorSmart collate k policy owner g infos =
     (if \<not> rk_enabled k \<or> \<not> semanticEgressAllowed policy
      then selectCoordinatorForRequest collate g infos (with_owner owner (taskRoutingRequest g)) (sg_pinnedCoordinator g)
      else
        let rq = classified_request g owner (classifyRoutingRequest k None (sg_goal g)) in
        if rq_purpose rq = Pur_review
        then rbind (implementedByProvider g) (\<lambda>provider.
               selectCoordinatorForRequest collate g infos
                 (case nonempty_text provider of
                    Some p \<Rightarrow> rq\<lparr>rq_implementedByProvider := Some p\<rparr> | None \<Rightarrow> rq) None)
        else selectCoordinatorForRequest collate g infos rq (sg_pinnedCoordinator g))"

definition smart_options :: execution_options where
  "smart_options = \<lparr>xo_eligibleHosts = None, xo_excludedCapacityKeys = [], xo_request = None\<rparr>"

definition goal_policy :: "execution_env \<Rightarrow> supervisor_goal \<Rightarrow> project_policy list \<Rightarrow> project_policy" where
  "goal_policy e g ps =
     getProjectPolicy (xe_rsv e) (xe_cdir e) (de_now (xe_discovery e)) (sg_project g) (sg_repoPath g) ps"

definition routeGoalExecutionSmart ::
  "execution_env \<Rightarrow> routing_kernel \<Rightarrow> target_class option \<Rightarrow> supervisor_goal \<Rightarrow> execution_options \<Rightarrow> discovery_store
     \<Rightarrow> supervisor_state \<Rightarrow> discovery_store \<times> supervisor_state \<times> (execution_error, coordinator_selection) result" where
  "routeGoalExecutionSmart e k owner g opts s st =
     (case execution_allowed e g of
        Inl x \<Rightarrow> (s, st, Inl (Exec_policy x))
      | Inr _ \<Rightarrow>
        (case xe_policies e of
           Inl x \<Rightarrow> (s, st, Inl (Exec_policy x))
         | Inr ps \<Rightarrow>
           commit_selection e g
             (account_failure
               (rbind (loadPersistedProviderInfos (de_now (xe_discovery e)) (dv_db s)) (\<lambda>infos.
                rbind (eligible_infos opts infos) (\<lambda>eligible.
                rbind (selectCoordinatorSmart (xe_collate e) k (goal_policy e g ps) owner g eligible) (\<lambda>sel.
                  Inr (infos, sel))))))
             s st))"

section \<open>What a classification can change\<close>

lemma maxRisk_left: "risk_rank (maxRisk a b) \<ge> risk_rank a"
  by (simp add: maxRisk_def)

lemma smart_requests_free:
  "rq_approvedPaidUsage (with_owner owner (taskRoutingRequest g)) = None"
  "rq_approvedPaidUsage (classified_request g owner c) = None"
  using task_request_free
  by (simp_all add: with_owner_def classified_request_def with_repair_def base_request_def split: option.splits)

lemma selectForRequest_free:
  assumes "selectCoordinatorForRequest collate g infos rq pin = Inr (Sel_route r)" and "rq_approvedPaidUsage rq = None"
  shows "\<exists>infos' rq ch. set infos' \<subseteq> set infos \<and> route rq infos' False = Inr (Route ch) \<and> names_route r ch
     \<and> rc_billingMode ch = Bill_subscription_included"
proof -
  obtain infos' ch where ch: "set infos' \<subseteq> set infos" "route rq infos' False = Inr (Route ch)" "names_route r ch"
    by (rule selectForRequest_Route [OF assms(1)])
  moreover have "rc_billingMode ch = Bill_subscription_included" using route_allowed [OF ch(2)] assms(2) by auto
  ultimately show ?thesis by blast
qed

lemma selectCoordinatorSmart_Route:
  assumes "selectCoordinatorSmart collate k policy owner g infos = Inr (Sel_route r)"
  shows "\<exists>infos' rq ch. set infos' \<subseteq> set infos \<and> route rq infos' False = Inr (Route ch) \<and> names_route r ch
     \<and> rc_billingMode ch = Bill_subscription_included"
proof -
  obtain rq pin where "selectCoordinatorForRequest collate g infos rq pin = Inr (Sel_route r)"
      "rq_approvedPaidUsage rq = None"
  proof (cases "\<not> rk_enabled k \<or> \<not> semanticEgressAllowed policy")
    case True
    then show thesis using assms that smart_requests_free(1) by (simp add: selectCoordinatorSmart_def)
  next
    case False
    let ?rq = "classified_request g owner (classifyRoutingRequest k None (sg_goal g))"
    show thesis
    proof (cases "rq_purpose ?rq = Pur_review")
      case True
      then obtain provider where "selectCoordinatorForRequest collate g infos
                 (case nonempty_text provider of
                    Some p \<Rightarrow> ?rq\<lparr>rq_implementedByProvider := Some p\<rparr> | None \<Rightarrow> ?rq) None = Inr (Sel_route r)"
        using assms False by (auto simp: selectCoordinatorSmart_def rbind_eq_Inr Let_def)
      then show thesis by (rule that) (simp add: smart_requests_free(2) split: option.splits)
    next
      case rev: False
      then show thesis using assms False that smart_requests_free(2)
        by (simp add: selectCoordinatorSmart_def Let_def)
    qed
  qed
  then show ?thesis by (rule selectForRequest_free)
qed

lemma smart_execution_authorised:
  assumes "dsc.reachable s" and "routeGoalExecutionSmart e k owner g opts s st = (s', st', Inr (Sel_route r))"
  shows "execution_allowed e g = Inr () \<and> authorised_commit e g (opts\<lparr>xo_request := None\<rparr>) s st s' st' r"
proof -
  obtain ps where allowed: "execution_allowed e g = Inr ()" and ps: "xe_policies e = Inr ps"
    using assms(2) unfolding routeGoalExecutionSmart_def by (auto split: sum.splits)
  let ?sel = "rbind (loadPersistedProviderInfos (de_now (xe_discovery e)) (dv_db s)) (\<lambda>infos.
                rbind (eligible_infos opts infos) (\<lambda>eligible.
                rbind (selectCoordinatorSmart (xe_collate e) k (goal_policy e g ps) owner g eligible) (\<lambda>sel.
                  Inr (infos, sel))))"
  have c: "commit_selection e g (account_failure ?sel) s st = (s', st', Inr (Sel_route r))"
    using assms(2) unfolding routeGoalExecutionSmart_def allowed ps by simp
  then obtain infos first where sel: "?sel = Inr (infos, first)"
    by (cases ?sel) (auto simp: account_failure_def commit_selection_def)
  have commit: "commit_selection e g (Inr (infos, first)) s st = (s', st', Inr (Sel_route r))"
    using c unfolding sel by (simp add: account_failure_def)
  obtain elig where load: "loadPersistedProviderInfos (de_now (xe_discovery e)) (dv_db s) = Inr infos"
      and elig: "eligible_infos opts infos = Inr elig"
      and pick: "selectCoordinatorSmart (xe_collate e) k (goal_policy e g ps) owner g elig = Inr first"
    using sel by (auto simp: rbind_eq_Inr)
  have elig': "eligible_infos (opts\<lparr>xo_request := None\<rparr>) infos = Inr elig"
  proof -
    have "eligible_infos (opts\<lparr>xo_request := None\<rparr>) xs = eligible_infos opts xs" for xs
      by (induction xs) simp_all
    with elig show ?thesis by simp
  qed
  have "first = Sel_route r \<and> authorised_commit e g (opts\<lparr>xo_request := None\<rparr>) s st s' st' r"
  proof (rule committed_selection [OF dsc.reachable_inv [OF assms(1)] commit load elig'])
    assume "first = Sel_route r"
    from selectCoordinatorSmart_Route [OF pick [unfolded this]]
    show "\<exists>infos' rq ch. set infos' \<subseteq> set elig \<and> route rq infos' False = Inr (Route ch)
        \<and> names_route r ch
        \<and> (free_request (xo_request (opts\<lparr>xo_request := None\<rparr>)) \<longrightarrow> rc_billingMode ch = Bill_subscription_included)"
      by blast
  qed
  then show ?thesis using allowed by blast
qed


text \<open>
  When the kernel is enabled but does not answer, the classification falls back without
  looking at the task: a stated review is not routed as one, and a stated risk is dropped.
\<close>

lemma silent_kernel_forgets_the_task:
  "deterministicPurpose ''code review'' = Some Pur_review
   \<and> (rk_answers k = (\<lambda>_. None) \<longrightarrow> cl_purpose (classifyRoutingRequest k None ''code review'') = Pur_analysis)"
proof -
  have "deterministicPurpose ''code review'' = Some Pur_review" by code_simp
  then show ?thesis by (simp add: classifyRoutingRequest_def FALLBACK_ROUTING_CLASSIFICATION_def)
qed

definition sample_kernel :: routing_kernel where
  "sample_kernel = \<lparr>rk_enabled = True, rk_answers = (\<lambda>_. None)\<rparr>"


end
