(* ===== verification/Goal_Cycle.thy ===== *)
theory Goal_Cycle
  imports Smart_Routing Run_Service
begin

text \<open>
  One cycle of a goal (src/supervisor/runtime.ts): dispatch of a worker, the verdict on its
  report, the independent review of a pending claim, and the loop of a foreground run. The
  world of a cycle is the state file, the database with its observations, and the completion
  commits. An operation returns the world it leaves and a result, so that a step that throws
  keeps what it had already written. Observations of performance, learning records and texts
  on the console are left out: they are best effort and nothing reads them back here.
\<close>

section \<open>The world and its effects\<close>

record cycle_world =
  cw_goals :: supervisor_state
  cw_store :: discovery_store
  cw_commits :: "completion_commit list"

abbreviation world_db :: "cycle_world \<Rightarrow> db" where
  "world_db w \<equiv> dv_db (cw_store w)"

definition world_authority :: "cycle_world \<Rightarrow> authority" where
  "world_authority w = \<lparr>au_db = world_db w, au_commits = cw_commits w\<rparr>"

datatype review_error =
    Review_identity_incomplete | Review_bad_head | Review_bad_digest | Review_same_run
  | Review_unbound_verdict | Review_bad_verdict | Review_predates_claim | Review_no_reviewed_run
  | Review_no_review_run | Review_receipt_refused | Review_no_verdict

datatype cycle_error =
    Cyc_goal goal_error
  | Cyc_execution execution_error
  | Cyc_database major_error
  | Cyc_account account_error
  | Cyc_sdlc sdlc_error
  | Cyc_config
  | Cyc_not_persisted
  | Cyc_billing_unknown
  | Cyc_review review_error
  | Cyc_recovery recover_error
  | Cyc_goal_not_found string
  | Cyc_grade grade_error

type_synonym 'a cycle_step = "cycle_world \<Rightarrow> cycle_world \<times> (cycle_error, 'a) result"

definition cbind :: "'a cycle_step \<Rightarrow> ('a \<Rightarrow> 'b cycle_step) \<Rightarrow> 'b cycle_step" where
  "cbind m f w = (case m w of (w', Inl x) \<Rightarrow> (w', Inl x) | (w', Inr a) \<Rightarrow> f a w')"

definition creturn :: "'a \<Rightarrow> 'a cycle_step" where
  "creturn a w = (w, Inr a)"

definition cthrow :: "cycle_error \<Rightarrow> 'a cycle_step" where
  "cthrow x w = (w, Inl x)"

definition cread :: "(cycle_world \<Rightarrow> 'a) \<Rightarrow> 'a cycle_step" where
  "cread f w = (w, Inr (f w))"

text \<open>\<^verbatim>\<open>updateGoal(goal.id, patch)\<close>.\<close>

definition patch_goal :: "instant \<Rightarrow> string \<Rightarrow> (supervisor_goal \<Rightarrow> supervisor_goal) \<Rightarrow> unit cycle_step" where
  "patch_goal now gid patch w =
     (case updateGoal now gid patch (cw_goals w) of
        Inl x \<Rightarrow> (w, Inl (Cyc_goal x))
      | Inr (st', g) \<Rightarrow> (w\<lparr>cw_goals := st'\<rparr>, Inr ()))"

definition put_db :: "db \<Rightarrow> cycle_world \<Rightarrow> cycle_world" where
  "put_db d w = w\<lparr>cw_store := (cw_store w)\<lparr>dv_db := d\<rparr>\<rparr>"

text \<open>A transaction of the services.\<close>

definition in_db :: "(db \<Rightarrow> (db \<times> 'a) outcome) \<Rightarrow> 'a cycle_step" where
  "in_db f w = (case f (world_db w) of Inl x \<Rightarrow> (w, Inl (Cyc_database x)) | Inr (d, a) \<Rightarrow> (put_db d w, Inr a))"

definition run_status_step ::
  "(json \<Rightarrow> string) \<Rightarrow> clock \<Rightarrow> string \<times> string \<Rightarrow> string \<Rightarrow> run_status \<Rightarrow> string option \<Rightarrow> json option \<Rightarrow> unit cycle_step" where
  "run_status_step render ck uuids runId status sessionRef usage w =
     (case setRunStatus render ck uuids runId status sessionRef usage (world_db w) of
        (d, Inl x) \<Rightarrow> (put_db d w, Inl (Cyc_database x))
      | (d, Inr r) \<Rightarrow> (put_db d w, Inr ()))"

text \<open>\<^verbatim>\<open>recordModelOutcome\<close>; \<open>quiet\<close> is the call inside \<^verbatim>\<open>try\<close> that ignores an error.\<close>

definition model_outcome_step ::
  "discovery_env \<Rightarrow> bool \<Rightarrow> coordinator_route \<Rightarrow> model_availability \<Rightarrow> unit cycle_step" where
  "model_outcome_step e quiet r outcome w =
     (case recordModelOutcome e (cr_provider r) (cr_modelRef r) outcome None (cw_store w) of
        Inl x \<Rightarrow> (w, if quiet then Inr () else Inl (Cyc_execution (Exec_discovery x)))
      | Inr (s, _) \<Rightarrow> (w\<lparr>cw_store := s\<rparr>, Inr ()))"

text \<open>The fields every end of a cycle sets.\<close>

definition rested :: "goal_status \<Rightarrow> instant \<Rightarrow> string \<Rightarrow> instant option \<Rightarrow> supervisor_goal \<Rightarrow> supervisor_goal" where
  "rested status now summary next_run g =
     g\<lparr>sg_status := status, sg_activePid := None, sg_lastFinishedAt := Some now,
       sg_lastSummary := Some summary, sg_nextRunAt := next_run\<rparr>"

definition retrying :: "bool \<Rightarrow> supervisor_goal \<Rightarrow> supervisor_goal" where
  "retrying b g = g\<lparr>sg_retryImmediately := Some b\<rparr>"

definition unclaimed :: "supervisor_goal \<Rightarrow> supervisor_goal" where
  "unclaimed g = g\<lparr>sg_pendingCompletion := None\<rparr>"

definition with_session :: "worker_outcome \<Rightarrow> supervisor_goal \<Rightarrow> supervisor_goal" where
  "with_session o' g =
     (case wo_sessionRef o' of Some (c # cs) \<Rightarrow> g\<lparr>sg_lastSessionRef := Some (c # cs)\<rparr> | _ \<Rightarrow> g)"

section \<open>The promotion proof of a done claim\<close>

datatype done_failure =
    Done_binding binding_failure
  | Done_must_cite_task
  | Done_needs_evidence
  | Done_blocked promotion_blocker
  | Done_other_head
  | Done_task promotion_failure

record done_proof =
  dp_taskId :: "string option"
  dp_ok :: bool
  dp_failures :: "done_failure list"
  dp_promotionEvidence :: "promotion_evidence option"

definition refused_proof :: "string option \<Rightarrow> done_failure \<Rightarrow> done_proof" where
  "refused_proof taskId f = \<lparr>dp_taskId = taskId, dp_ok = False, dp_failures = [f], dp_promotionEvidence = None\<rparr>"

definition missing_risk_criteria :: "promotion_contract \<Rightarrow> promotion_evidence \<Rightarrow> string list" where
  "missing_risk_criteria c v =
     filter (\<lambda>k. \<not> (\<exists>x \<in> set (pe_materialRiskChecks v). fst x = k \<and> \<not> js_blank (snd x))) (sc_materialRiskCriteria c)"

definition filled :: "string option \<Rightarrow> bool" where
  "filled s = (case s of None \<Rightarrow> False | Some t \<Rightarrow> \<not> js_blank t)"

definition broad_passed :: "validation_plan \<Rightarrow> broader_evidence \<Rightarrow> bool" where
  "broad_passed plan b =
     (be_performed b = vp_broaderValidationRequired plan
      \<and> (\<not> be_performed b \<or> (filled (be_cost b) \<and> filled (be_expectedInformationGain b) \<and> filled (be_evidence b))))"

definition contract_plan :: "promotion_contract \<Rightarrow> validation_plan" where
  "contract_plan c =
     planProgressiveValidation (sc_materialRiskCriteria c) (\<lambda>t. t \<in> set (sc_broaderValidationTriggers c))
       (sc_repositoryPolicyRequiresBroadValidation c)"

definition evidence_proof ::
  "promotion_contract \<Rightarrow> promotion_evidence \<Rightarrow> (cycle_error, done_proof) result" where
  "evidence_proof c v =
     (case assessPromotion
         (\<not> js_blank (pe_focusedTests v) \<and> \<not> js_blank (pe_cheapestCompileTypeOrBuild v)
          \<and> \<not> js_blank (pe_criticalPathBehavior v) \<and> missing_risk_criteria c v = []
          \<and> broad_passed (contract_plan c) (pe_broaderValidation v))
         (sc_review c) (pe_review v = (Plain (sc_review c), True)) (Js_finite (of_nat (pe_blockerFindings v))) of
        Inl x \<Rightarrow> Inl (Cyc_sdlc x)
      | Inr p \<Rightarrow> Inr \<lparr>dp_taskId = None, dp_ok = (pa_promotion p = PROMOTABLE),
                      dp_failures = map Done_blocked (pa_blockers p), dp_promotionEvidence = Some v\<rparr>)"

definition task_proof :: "task_promotion_proof \<Rightarrow> done_proof" where
  "task_proof p = \<lparr>dp_taskId = Some (tp_taskId p), dp_ok = tp_ok p, dp_failures = map Done_task (tp_failures p),
     dp_promotionEvidence = None\<rparr>"

text \<open>
  \<open>liveHead\<close> is the option of that name, \<open>head\<close> the answer of \<^verbatim>\<open>exactRepositoryHead\<close>. \<open>None\<close> is
  \<^verbatim>\<open>undefined\<close>: the report does not claim to be done.
\<close>

definition coordinatorDonePromotionProof ::
  "(string \<Rightarrow> string) \<Rightarrow> db \<Rightarrow> supervisor_goal \<Rightarrow> worker_report \<Rightarrow> string option \<Rightarrow> string option
     \<Rightarrow> (cycle_error, done_proof option) result" where
  "coordinatorDonePromotionProof rsv d g report liveHead head =
     (if wr_status report \<noteq> Plain Rep_done then Inr None
      else
        let resolved = resolveCanonicalTaskBinding rsv d (sg_repoPath g) in
        (case nonempty_text (wr_taskId report) of
           None \<Rightarrow>
             (case resolved of
                Inr b \<Rightarrow> Inr (Some (refused_proof (Some (cb_taskId b)) Done_must_cite_task))
              | Inl f \<Rightarrow>
                  if \<not> is_no_task f then Inr (Some (refused_proof None (Done_binding f)))
                  else (case wr_promotionEvidence report of
                      None \<Rightarrow> Inr (Some (refused_proof None Done_needs_evidence))
                    | Some v \<Rightarrow>
                        (case (case sg_promotionContract g of Some c \<Rightarrow> Inr c
                               | None \<Rightarrow> deriveSupervisorPromotionContract None None) of
                           Inl x \<Rightarrow> Inl (Cyc_sdlc x)
                         | Inr c \<Rightarrow> rbind (evidence_proof c v) (\<lambda>p. Inr (Some p)))))
         | Some taskId \<Rightarrow>
             (case resolved of
                Inl f \<Rightarrow> Inr (Some (refused_proof (Some []) (Done_binding f)))
              | Inr b \<Rightarrow>
                  if taskId \<noteq> cb_taskId b
                  then Inr (Some (refused_proof (Some (cb_taskId b)) Done_must_cite_task))
                  else (case parseCompletionCriteria (Some (cb_frozenCriteriaJson b)) of
                      Inl x \<Rightarrow> Inl (Cyc_database x)
                    | Inr criteria \<Rightarrow>
                        (case cc_progressiveValidation criteria of
                           Some v \<Rightarrow>
                             if (case liveHead of Some h \<Rightarrow> Some h | None \<Rightarrow> head) \<noteq> pg_candidateHead v
                             then Inr (Some (refused_proof (Some (cb_taskId b)) Done_other_head))
                             else Inr (Some (task_proof (evaluateTaskPromotionProof rsv d (cb_taskId b) (sg_repoPath g))))
                         | None \<Rightarrow>
                             Inr (Some (task_proof (evaluateTaskPromotionProof rsv d (cb_taskId b) (sg_repoPath g)))))))))"

section \<open>Inconclusive reviews\<close>

definition MAX_INDEPENDENT_REVIEW_ATTEMPTS :: nat where
  "MAX_INDEPENDENT_REVIEW_ATTEMPTS = 3"

definition classifyInconclusiveReviewAttempt ::
  "worker_outcome \<Rightarrow> worker_report option \<Rightarrow> (attempt_outcome \<times> string) option" where
  "classifyInconclusiveReviewAttempt o' report =
     (if wo_status o' = Wk_timed_out
      then Some (At_timeout, ''review provider timed out before a verdict'')
      else if wo_status o' = Wk_failed
      then (if wo_exitCode o' = None
            then Some (At_crash, ''review provider exited without a process result'')
            else Some (At_missing_result,
              trim_tail (text_or (wo_stderr o') (text_or (wo_stdout o') ''review provider failed without a result''))))
      else if \<not> filled (wo_sessionRef o')
      then Some (At_missing_session_provenance, ''review provider returned no durable session identity'')
      else (case report of
          None \<Rightarrow> Some (At_missing_result, ''review provider returned no Major result'')
        | Some r \<Rightarrow>
            if wr_independentReview r = None
            then Some (At_no_verdict, ''review result contained no independent verdict'')
            else None))"

definition review_attempts :: "pending_completion \<Rightarrow> review_attempt list" where
  "review_attempts p = (case pc_reviewAttempts p of None \<Rightarrow> [] | Some xs \<Rightarrow> xs)"

definition without_dispatch :: "pending_completion \<Rightarrow> pending_completion" where
  "without_dispatch p = p\<lparr>pc_reviewDispatch := None\<rparr>"

fun attempt_name :: "attempt_outcome \<Rightarrow> string" where
  "attempt_name At_timeout = ''timeout''"
| "attempt_name At_crash = ''crash''"
| "attempt_name At_missing_result = ''missing_result''"
| "attempt_name At_no_verdict = ''no_verdict''"
| "attempt_name At_missing_session_provenance = ''missing_session_provenance''"

definition reviewerAvailabilityExhaustedPatch ::
  "instant \<Rightarrow> pending_completion \<Rightarrow> review_attempt list \<Rightarrow> supervisor_goal \<Rightarrow> supervisor_goal" where
  "reviewerAvailabilityExhaustedPatch now p attempts g =
     g\<lparr>sg_status := Gs_active, sg_activePid := None, sg_retryImmediately := Some False,
       sg_pendingCompletion := Some ((without_dispatch p)\<lparr>pc_reviewAttempts := Some attempts\<rparr>),
       sg_lastFinishedAt := Some (if attempts = [] then now else at_finishedAt (last attempts)),
       sg_lastSummary := Some (''Independent reviewer availability is exhausted after '' @ decimal (length attempts)
         @ '' inconclusive attempts; no implementation BLOCKER verdict was produced.''),
       sg_nextRunAt := Some (now + 60000)\<rparr>"

definition recordInconclusiveReviewAttemptPatch ::
  "instant \<Rightarrow> pending_completion \<Rightarrow> review_attempt \<Rightarrow> supervisor_goal \<Rightarrow> supervisor_goal" where
  "recordInconclusiveReviewAttemptPatch now p attempt g =
     (let attempts = review_attempts p @ [attempt] in
      if length attempts \<ge> MAX_INDEPENDENT_REVIEW_ATTEMPTS
      then reviewerAvailabilityExhaustedPatch now p attempts g
      else g\<lparr>sg_status := Gs_active, sg_activePid := None, sg_retryImmediately := Some True,
             sg_pendingCompletion := Some ((without_dispatch p)\<lparr>pc_reviewAttempts := Some attempts\<rparr>),
             sg_lastFinishedAt := Some (at_finishedAt attempt),
             sg_lastSummary := Some (''Independent review attempt '' @ decimal (at_attempt attempt)
               @ '' was inconclusive ('' @ attempt_name (at_outcome attempt)
               @ ''); its lease was released and Major will select a fresh independent execution. ''
               @ ''No implementation BLOCKER verdict was produced.''),
             sg_nextRunAt := Some now\<rparr>)"

text \<open>
  A dispatch left behind by a crash: its run is failed and counts as an attempt. The
  \<^verbatim>\<open>None\<close> result is \<^verbatim>\<open>undefined\<close>: there is nothing to recover.
\<close>

definition recovered_attempt :: "instant \<Rightarrow> pending_completion \<Rightarrow> review_dispatch \<Rightarrow> string \<Rightarrow> string \<Rightarrow> review_attempt" where
  "recovered_attempt now p v runId key =
     \<lparr>at_attempt = length (review_attempts p) + 1, at_dispatchId = vd_id v, at_provider = vd_provider v,
      at_capacityKey = key, at_runId = runId, at_startedAt = vd_startedAt v, at_finishedAt = now,
      at_outcome = At_crash,
      at_evidence = ''Major recovered abandoned review dispatch '' @ vd_id v
        @ '' after acquiring the repository writer fence''\<rparr>"

definition recoverAbandonedReviewDispatch ::
  "(json \<Rightarrow> string) \<Rightarrow> clock \<Rightarrow> pending_completion \<Rightarrow> (supervisor_goal \<Rightarrow> supervisor_goal) option cycle_step" where
  "recoverAbandonedReviewDispatch render ck p =
     (case pc_reviewDispatch p of
        None \<Rightarrow> creturn None
      | Some v \<Rightarrow>
          (case (nonempty_text (vd_runId v), nonempty_text (vd_capacityKey v)) of
             (Some runId, Some key) \<Rightarrow>
               cbind (run_status_step render ck ([], []) runId Run_failed None None) (\<lambda>_.
                 creturn (Some (recordInconclusiveReviewAttemptPatch (svc_now ck) p
                   (recovered_attempt (svc_now ck) p v runId key))))
           | _ \<Rightarrow> creturn None))"

text \<open>\<open>head\<close> is \<^verbatim>\<open>exactRepositoryHead\<close>, \<open>digest\<close> the tree hash (\<open>None\<close> when hashing throws).\<close>

definition postReviewSourceChangePatch ::
  "instant \<Rightarrow> string option \<Rightarrow> string option \<Rightarrow> string \<Rightarrow> string \<Rightarrow> bool option
     \<Rightarrow> (supervisor_goal \<Rightarrow> supervisor_goal) option" where
  "postReviewSourceChangePatch now head digest expectedHead expectedDigest workspaceMutated =
     (if workspaceMutated \<noteq> Some True \<and> head = Some expectedHead \<and> digest = Some expectedDigest then None
      else Some (\<lambda>g. unclaimed (rested Gs_active now
        ''Pending completion was reopened because the repository or source tree changed during independent review.''
        (Some now) g)))"

section \<open>A foreground run\<close>

definition FOREGROUND_CONTINUATION_HOP_LIMIT :: nat where
  "FOREGROUND_CONTINUATION_HOP_LIMIT = 32"

text \<open>
  \<open>clk\<close> reads the clock of the world; \<open>cycle\<close> is \<^verbatim>\<open>runCycle\<close> with its timeout: the world it
  leaves and whether it ran, or the error it throws. The result of the loop is the number of
  hops and whether the loop ended at its own limit.
\<close>

record 'w foreground =
  fg_clock :: "'w \<Rightarrow> instant"
  fg_goals :: "'w \<Rightarrow> supervisor_state"
  fg_put :: "supervisor_state \<Rightarrow> 'w \<Rightarrow> 'w"
  fg_cycle :: "int \<Rightarrow> 'w \<Rightarrow> 'w \<times> (cycle_error, bool) result"

definition continues :: "'w foreground \<Rightarrow> string \<Rightarrow> 'w \<Rightarrow> bool" where
  "continues f gid w =
     (case getGoal gid (fg_goals f w) of
        None \<Rightarrow> False
      | Some g \<Rightarrow> sg_retryImmediately g = Some True \<and> sg_status g \<in> {Gs_active, Gs_running})"

fun hop_loop :: "'w foreground \<Rightarrow> string \<Rightarrow> instant \<Rightarrow> nat \<Rightarrow> nat \<Rightarrow> 'w \<Rightarrow> 'w \<times> (cycle_error, nat \<times> bool) result" where
  "hop_loop f gid deadline 0 hops w = (w, Inr (hops, True))"
| "hop_loop f gid deadline (Suc n) hops w =
     (if deadline - fg_clock f w \<le> 0 then (w, Inr (hops, True))
      else (case fg_cycle f (deadline - fg_clock f w) w of
          (w', Inl x) \<Rightarrow> (w', Inl x)
        | (w', Inr did) \<Rightarrow>
            if \<not> did then (w', Inr (hops, False))
            else if \<not> continues f gid w' then (w', Inr (hops + 1, False))
            else hop_loop f gid deadline n (hops + 1) w'))"

definition stalled_patch :: "instant \<Rightarrow> supervisor_goal \<Rightarrow> supervisor_goal \<Rightarrow> supervisor_goal" where
  "stalled_patch now stalled g =
     g\<lparr>sg_retryImmediately := Some False,
       sg_lastSummary := Some (trim_tail (js_trim (or_default (sg_lastSummary stalled) []
         @ '' Foreground continuation stopped after rotating through available capacity; ''
         @ ''checkpointing instead of hot-looping.''))),
       sg_nextRunAt := Some (now + 60000)\<rparr>"

definition runForegroundGoal ::
  "'w foreground \<Rightarrow> string \<Rightarrow> int option \<Rightarrow> 'w \<Rightarrow> 'w \<times> (cycle_error, nat) result" where
  "runForegroundGoal f gid maxRun w =
     (let minutes = max 1 (case maxRun of None \<Rightarrow> 120 | Some m \<Rightarrow> m);
          deadline = fg_clock f w + minutes * 60 * 1000
      in case hop_loop f gid deadline FOREGROUND_CONTINUATION_HOP_LIMIT 0 w of
           (w', Inl x) \<Rightarrow> (w', Inl x)
         | (w', Inr (hops, False)) \<Rightarrow> (w', Inr hops)
         | (w', Inr (hops, True)) \<Rightarrow>
             (case getGoal gid (fg_goals f w') of
                None \<Rightarrow> (w', Inr hops)
              | Some stalled \<Rightarrow>
                  if sg_retryImmediately stalled \<noteq> Some True then (w', Inr hops)
                  else (case updateGoal (fg_clock f w') gid (stalled_patch (fg_clock f w') stalled) (fg_goals f w') of
                      Inl x \<Rightarrow> (w', Inl (Cyc_goal x))
                    | Inr (st', g) \<Rightarrow> (fg_put f st' w', Inr hops))))"

section \<open>The daemon's candidates\<close>

definition daemon_candidate ::
  "(supervisor_goal \<Rightarrow> project_policy) \<Rightarrow> (int \<Rightarrow> signal_result) \<Rightarrow> instant \<Rightarrow> supervisor_goal \<Rightarrow> bool" where
  "daemon_candidate policy kill now g =
     (pp_trust (policy g) = Trust_unattended \<and> pp_allowBackground (policy g)
      \<and> sg_autonomous g \<and> sg_status g \<noteq> Gs_blocked
      \<and> \<not> (case sg_activePid g of None \<Rightarrow> False | Some pid \<Rightarrow> pid \<noteq> 0 \<and> pidAlive kill pid)
      \<and> (case sg_nextRunAt g of None \<Rightarrow> True | Some t \<Rightarrow> t \<le> now))"

definition daemon_turn ::
  "(string \<Rightarrow> string) \<Rightarrow> (string \<Rightarrow> string option) \<Rightarrow> stop_file \<Rightarrow> (supervisor_goal \<Rightarrow> project_policy)
     \<Rightarrow> (int \<Rightarrow> signal_result) \<Rightarrow> instant \<Rightarrow> supervisor_state \<Rightarrow> supervisor_goal list" where
  "daemon_turn rsv cdir stop policy kill now st =
     (if globalStopRequested stop then []
      else filter (daemon_candidate policy kill now) (activeGoals rsv cdir None None st))"

section \<open>What a cycle asks its host\<close>

datatype gate_state = Gate_passed | Gate_failed | Gate_degraded | Gate_pending

record writing_inspection =
  wi_gates :: "(string \<times> gate_state \<times> string) list"
  wi_finalPassed :: bool
  wi_highStakes :: bool
  wi_sourceCoverage :: bool

text \<open>
  The clock before and after the worker; random parts; the host's answers: installed CLIs,
  capabilities, a parallel cycle, the source identity at three moments, the worker; the
  writing runtime; and the renderings of structured values as texts.
\<close>

record cycle_env =
  cy_exec :: execution_env
  cy_kernel :: routing_kernel
  cy_judge :: "string \<Rightarrow> string \<Rightarrow> nat \<Rightarrow> nat \<Rightarrow> (string \<times> rat) option"
  cy_owner :: "target_class option"
  cy_before :: clock
  cy_after :: clock
  cy_pid :: int
  cy_uuid :: "nat \<Rightarrow> string"
  cy_render :: "json \<Rightarrow> string"
  cy_hostAvailable :: "provider_host \<Rightarrow> bool"
  cy_cliPath :: "provider_host \<Rightarrow> string"
  cy_capabilities :: "supervisor_goal \<Rightarrow> string option cycle_step"
  cy_parallel :: "supervisor_goal \<Rightarrow> coordinator_route \<Rightarrow> bool cycle_step"
  cy_configJson :: "string \<Rightarrow> string \<Rightarrow> string"
  cy_sourceBefore :: "source_identity option"
  cy_sourceDispatch :: "source_identity option"
  cy_sourceAfter :: "source_identity option"
  cy_head :: "string option"
  cy_digest :: "string option"
  cy_worker :: "coordinator_route \<Rightarrow> supervisor_goal \<Rightarrow> int option \<Rightarrow> cycle_world \<Rightarrow> cycle_world \<times> worker_outcome"
  cy_reviewer :: "coordinator_route \<Rightarrow> supervisor_goal \<Rightarrow> pending_completion \<Rightarrow> int \<Rightarrow> cycle_world
    \<Rightarrow> cycle_world \<times> worker_outcome"
  cy_report :: report_env
  cy_learning :: "worker_report option \<Rightarrow> string"
  cy_writingRoute :: "string \<Rightarrow> bool option"
  cy_inspect :: "db \<Rightarrow> supervisor_goal \<Rightarrow> string \<Rightarrow> string \<times> string \<Rightarrow> string \<Rightarrow> json option \<Rightarrow> json option
    \<Rightarrow> writing_inspection"
  cy_draftDigest :: "string \<Rightarrow> string"
  cy_reviewBound :: "writing_claim \<Rightarrow> string \<Rightarrow> bool"
  cy_sourcePreserved :: "json \<Rightarrow> bool"
  cy_grade :: grade_env
  cy_fence :: "string \<Rightarrow> fence_files \<times> writer_fence option"
  cy_showError :: "major_error \<Rightarrow> string"
  cy_showBinding :: "binding_failure \<Rightarrow> string"
  cy_showProof :: "done_failure list \<Rightarrow> string"

abbreviation before_now :: "cycle_env \<Rightarrow> instant" where "before_now e \<equiv> svc_now (cy_before e)"
abbreviation after_now :: "cycle_env \<Rightarrow> instant" where "after_now e \<equiv> svc_now (cy_after e)"

abbreviation cy_rsv :: "cycle_env \<Rightarrow> string \<Rightarrow> string" where "cy_rsv e \<equiv> xe_rsv (cy_exec e)"

definition cycle_policy :: "cycle_env \<Rightarrow> supervisor_goal \<Rightarrow> (cycle_error, project_policy) result" where
  "cycle_policy e g =
     (case xe_policies (cy_exec e) of
        Inl x \<Rightarrow> Inl (Cyc_execution (Exec_policy x))
      | Inr ps \<Rightarrow> Inr (goal_policy (cy_exec e) g ps))"

definition of_result :: "(cycle_error, 'a) result \<Rightarrow> 'a cycle_step" where
  "of_result r w = (w, r)"

section \<open>Opening a run\<close>

definition routedWorkerModel :: "coordinator_route \<Rightarrow> db \<Rightarrow> (cycle_error, provider_row \<times> model_row) result" where
  "routedWorkerModel r d =
     (case parseCapacityKey (cr_provider r) of
        Inl x \<Rightarrow> Inl (Cyc_account x)
      | Inr (n, l) \<Rightarrow>
        (case provider_with n l d of
           None \<Rightarrow> Inl Cyc_not_persisted
         | Some p \<Rightarrow>
           (case model_with (ap_id p) (cr_modelRef r) d of
              None \<Rightarrow> Inl Cyc_billing_unknown
            | Some m \<Rightarrow> if am_billingMode m = Bill_unknown then Inl Cyc_billing_unknown else Inr (p, m))))"

definition insert_project :: "project_row \<Rightarrow> db \<Rightarrow> db outcome" where
  "insert_project p d =
     rbind (insert_row
       [(''projects.id'', \<not> has_key p_id (p_id p) (projects d)),
        (''projects_name_unique'', \<not> has_key p_name (p_name p) (projects d))] p (projects d))
     (\<lambda>rows. Inr (d\<lparr>projects := rows\<rparr>))"

definition getOrAddProject ::
  "(string \<Rightarrow> string) \<Rightarrow> clock \<Rightarrow> string \<Rightarrow> string \<Rightarrow> string \<Rightarrow> string \<Rightarrow> db \<Rightarrow> (db \<times> string) outcome" where
  "getOrAddProject rsv ck uuid configJson name repoPath d =
     (case find (\<lambda>p. rsv (p_repoPath p) = rsv repoPath) (projects d) of
        Some p \<Rightarrow> Inr (d, p_id p)
      | None \<Rightarrow>
        (case find (\<lambda>p. p_name p = name) (projects d) of
           Some p \<Rightarrow> Inr (d, p_id p)
         | None \<Rightarrow>
             let row = \<lparr>p_id = newId ''proj'' uuid, p_name = name, p_repoPath = repoPath, p_githubRepo = None,
                        p_configJson = configJson, p_createdAt = svc_now ck, p_updatedAt = svc_now ck\<rparr>
             in rbind (insert_project row d) (\<lambda>d'. Inr (d', p_id row))))"

definition provenance_task :: "supervisor_goal \<Rightarrow> string \<Rightarrow> new_task" where
  "provenance_task g projectId =
     \<lparr>nt_projectId = projectId, nt_title = ''Supervisor worker execution for goal '' @ sg_id g,
      nt_description = Some ''Major-owned canonical execution provenance; not a promotable task.'',
      nt_complexity = None, nt_roadmapItemId = None, nt_suggestionId = None,
      nt_completionCriteriaJson = None, nt_paths = None\<rparr>"

definition routed_run ::
  "cycle_env \<Rightarrow> coordinator_route \<Rightarrow> string \<Rightarrow> run_purpose \<Rightarrow> string \<Rightarrow> provider_row \<Rightarrow> model_row \<Rightarrow> new_run" where
  "routed_run e r taskId purpose head p m =
     \<lparr>nr_taskId = taskId, nr_providerId = ap_id p, nr_claimId = None, nr_claimWorkerId = None,
      nr_modelId = Some (am_id m), nr_modelRef = am_modelRef m, nr_purpose = purpose,
      nr_billingMode = am_billingMode m, nr_routingReason = xe_show (cy_exec e) (cr_reason r),
      nr_paidUsageDecisionId = None, nr_independenceLoss = None, nr_sourceHead = Some head,
      nr_allowanceState = None, nr_worktreeId = None, nr_now = None\<rparr>"

text \<open>The identifiers of the run a worker executes: task, run, provider and account.\<close>

record canonical_worker =
  kw_taskId :: string
  kw_runId :: string
  kw_providerId :: string
  kw_providerAccountLabel :: string

definition start_run ::
  "cycle_env \<Rightarrow> coordinator_route \<Rightarrow> string \<Rightarrow> run_purpose \<Rightarrow> string \<Rightarrow> canonical_worker cycle_step" where
  "start_run e r taskId purpose head =
     cbind (cread world_db) (\<lambda>d.
     cbind (of_result (routedWorkerModel r d)) (\<lambda>(p, m).
     cbind (in_db (createRun (cy_before e) (cy_uuid e 2) (routed_run e r taskId purpose head p m))) (\<lambda>run.
     cbind (run_status_step (cy_render e) (cy_before e) ([], []) (r_id run) Run_running None None) (\<lambda>_.
       creturn \<lparr>kw_taskId = taskId, kw_runId = r_id run, kw_providerId = ap_id p,
                kw_providerAccountLabel = ap_accountLabel p\<rparr>))))"

definition execution_task ::
  "cycle_env \<Rightarrow> supervisor_goal \<Rightarrow> (binding_failure, canonical_task_binding) result \<Rightarrow> string cycle_step" where
  "execution_task e g resolved =
     (if sg_project g = [] \<or> sg_repoPath g = [] then cthrow Cyc_config
      else cbind (in_db (getOrAddProject (cy_rsv e) (cy_before e) (cy_uuid e 0)
               (cy_configJson e (sg_project g) (sg_repoPath g)) (sg_project g) (sg_repoPath g))) (\<lambda>projectId.
        case resolved of
          Inr b \<Rightarrow> creturn (cb_taskId b)
        | Inl _ \<Rightarrow>
            cbind (in_db (addTask (cy_before e) (cy_uuid e 1) (provenance_task g projectId)))
              (\<lambda>t. creturn (t_id t))))"

section \<open>After the worker\<close>

definition source_pair :: "source_identity \<Rightarrow> string \<times> string" where
  "source_pair s = (so_head s, so_treeDigest s)"

definition AUTHORITY_GATES :: "string list" where
  "AUTHORITY_GATES = [''independent-red-team'', ''source-claim-check'']"

definition canAwaitPersistedReview :: "(string \<times> gate_state \<times> string) list \<Rightarrow> bool" where
  "canAwaitPersistedReview gates =
     (let outstanding = filter (\<lambda>(gate, state, detail). state \<noteq> Gate_passed) gates in
      list_ex (\<lambda>(gate, state, detail). gate \<in> set AUTHORITY_GATES \<and> state = Gate_pending) outstanding
      \<and> list_all (\<lambda>(gate, state, detail).
           (gate \<in> set AUTHORITY_GATES \<and> state = Gate_pending)
           \<or> (gate = ''final-verification'' \<and> state = Gate_failed)) outstanding)"

primrec joined :: "string \<Rightarrow> string list \<Rightarrow> string" where
  "joined sep [] = []"
| "joined sep (x # xs) = x @ (if xs = [] then [] else sep @ joined sep xs)"

definition gate_texts :: "(gate_state \<Rightarrow> bool) \<Rightarrow> (string \<times> gate_state \<times> string) list \<Rightarrow> string" where
  "gate_texts P gates =
     joined ''; '' (map (\<lambda>(gate, state, detail). gate @ '': '' @ detail) (filter (\<lambda>(gate, state, detail). P state) gates))"

text \<open>The end of a cycle whose worker succeeded without a claim: ten seconds of rest.\<close>

definition settled :: "cycle_env \<Rightarrow> worker_outcome \<Rightarrow> string \<Rightarrow> supervisor_goal \<Rightarrow> supervisor_goal" where
  "settled e o' summary g =
     with_session o' (retrying False (unclaimed
       ((rested Gs_active (after_now e) summary (Some (after_now e + 10000)) g)\<lparr>sg_consecutiveFailures := 0\<rparr>)))"

text \<open>
  The writing gate of a done claim: refused with a text, or passed with the claim that still
  waits for its review, if any.
\<close>

definition writing_gate ::
  "cycle_env \<Rightarrow> db \<Rightarrow> supervisor_goal \<Rightarrow> candidate_record \<Rightarrow> canonical_worker \<Rightarrow> worker_report
     \<Rightarrow> string + writing_claim option" where
  "writing_gate e d g cand k report =
     (if cy_writingRoute e (sg_goal g) = None then Inr None
      else (case wr_writingDraft report of
          None \<Rightarrow> Inl ''Writing completion refused because bounded provider-owned writingDraft is missing.''
        | Some draft \<Rightarrow>
            let w = cy_inspect e d g (kw_runId k) (source_pair (cand_source cand)) draft
                      (wr_writingSourcePacket report) (wr_writingEvidence report) in
            if canAwaitPersistedReview (wi_gates w)
            then Inr (Some \<lparr>wc_draft = draft, wc_draftSha256 = cy_draftDigest e draft,
                   wc_sourcePacket = wr_writingSourcePacket report, wc_evidence = wr_writingEvidence report,
                   wc_redTeamRequired = wi_highStakes w, wc_sourceCoverageRequired = wi_sourceCoverage w\<rparr>)
            else if \<not> wi_finalPassed w
            then Inl (''Writing completion refused by canonical runtime: ''
              @ gate_texts (\<lambda>s. s \<in> {Gate_failed, Gate_pending}) (wi_gates w))
            else Inr None))"

definition claimed_completion ::
  "cycle_env \<Rightarrow> provider_host \<Rightarrow> worker_report \<Rightarrow> candidate_record \<Rightarrow> canonical_worker \<Rightarrow> writing_claim option
     \<Rightarrow> done_proof \<Rightarrow> promotion_contract \<Rightarrow> pending_completion" where
  "claimed_completion e host report cand k writing proof contract =
     \<lparr>pc_summary = wr_summary report, pc_coordinator = host, pc_claimedAt = after_now e,
      pc_taskId = nonempty_text (dp_taskId proof), pc_promotionCheckedAt = Some (after_now e),
      pc_promotionEvidence = dp_promotionEvidence proof, pc_promotionContract = Some contract,
      pc_sourceHead = map_option so_head (cy_sourceAfter e),
      pc_sourceTreeDigest = map_option so_treeDigest (cy_sourceAfter e), pc_candidate = Some cand,
      pc_reviewedRun = Some \<lparr>vr_taskId = kw_taskId k, vr_runId = kw_runId k, vr_provider = host,
         vr_providerId = kw_providerId k, vr_providerAccountLabel = kw_providerAccountLabel k\<rparr>,
      pc_writing = writing, pc_reviewDispatch = None, pc_reviewAttempts = None\<rparr>"

definition frozen_contract :: "supervisor_goal \<Rightarrow> (cycle_error, promotion_contract) result" where
  "frozen_contract g =
     (case sg_promotionContract g of
        Some c \<Rightarrow> Inr c
      | None \<Rightarrow>
          (case deriveSupervisorPromotionContract (sg_admissionRiskAssessment g) (sg_requiredOperations g) of
             Inl x \<Rightarrow> Inl (Cyc_sdlc x) | Inr c \<Rightarrow> Inr c))"

text \<open>A done claim: the writing gate, the unchanged candidate, the promotion proof; then it waits.\<close>

definition done_claim ::
  "cycle_env \<Rightarrow> coordinator_route \<Rightarrow> supervisor_goal \<Rightarrow> candidate_record \<Rightarrow> canonical_worker \<Rightarrow> worker_outcome
     \<Rightarrow> worker_report \<Rightarrow> string \<Rightarrow> unit cycle_step" where
  "done_claim e r g cand k o' report warning =
     cbind (cread world_db) (\<lambda>d.
     case writing_gate e d g cand k report of
       Inl refusal \<Rightarrow> patch_goal (after_now e) (sg_id g) (settled e o' refusal)
     | Inr writing \<Rightarrow>
         if \<not> sourceIdentityMatches (source_pair (cand_source cand)) (cy_sourceAfter e)
         then patch_goal (after_now e) (sg_id g) (settled e o'
           (''Worker done claim refused because the worker changed the frozen candidate; '' @
            ''Major re-freezes and validates the new candidate next cycle.''))
         else cbind (of_result (coordinatorDonePromotionProof (cy_rsv e) d g report
                (map_option so_head (cy_sourceAfter e)) (cy_head e))) (\<lambda>proof.
           case proof of
             Some p \<Rightarrow>
               if dp_ok p
               then cbind (of_result (frozen_contract g)) (\<lambda>contract.
                 patch_goal (after_now e) (sg_id g) (\<lambda>h.
                   with_session o' (retrying False
                     ((rested Gs_active (after_now e)
                        (''Worker completion claim awaiting independent validation: '' @ wr_summary report @ warning) None h)
                       \<lparr>sg_consecutiveFailures := 0,
                        sg_pendingCompletion := Some (claimed_completion e (cr_host r) report cand k writing p contract)\<rparr>))))
               else patch_goal (after_now e) (sg_id g) (settled e o'
                 (''Worker done claim refused by canonical promotion proof: '' @ cy_showProof e (dp_failures p) @ warning))
           | None \<Rightarrow> patch_goal (after_now e) (sg_id g) (settled e o'
               (''Worker done claim refused by canonical promotion proof: proof unavailable'' @ warning))))"

definition blocked_patch :: "cycle_env \<Rightarrow> worker_outcome \<Rightarrow> worker_report \<Rightarrow> string \<Rightarrow> supervisor_goal \<Rightarrow> supervisor_goal" where
  "blocked_patch e o' report warning g =
     with_session o' (retrying False (unclaimed
       (g\<lparr>sg_status := Gs_blocked, sg_consecutiveFailures := 0, sg_activePid := None,
          sg_lastFinishedAt := Some (after_now e), sg_lastSummary := Some (wr_summary report @ warning),
          sg_ownerGate := wr_ownerGate report\<rparr>)))"

definition success_step ::
  "cycle_env \<Rightarrow> coordinator_route \<Rightarrow> supervisor_goal \<Rightarrow> supervisor_goal \<Rightarrow> candidate_record \<Rightarrow> canonical_worker
     \<Rightarrow> worker_outcome \<Rightarrow> unit cycle_step" where
  "success_step e r g after cand k o' =
     (let report = parseWorkerReport (cy_report e) (wo_stdout o') in
      case codexMutationClaimRefusal o' report of
        Some refusal \<Rightarrow>
          patch_goal (after_now e) (sg_id g)
            (mutationClaimRefusalGoalPatch (after_now e) refusal o' (sg_consecutiveFailures after))
      | None \<Rightarrow>
          let warning = keep_last 2000 (cy_learning e report) in
          (case report of
             None \<Rightarrow> patch_goal (after_now e) (sg_id g) (settled e o'
               (trim_tail (text_or (wo_stdout o') ''Coordinator cycle completed without an explicit Major report.'')))
           | Some w \<Rightarrow>
               if wr_status w = Plain Rep_blocked
               then patch_goal (after_now e) (sg_id g) (blocked_patch e o' w warning)
               else if wr_status w = Plain Rep_done then done_claim e r g cand k o' w warning
               else patch_goal (after_now e) (sg_id g) (settled e o' (wr_summary w @ warning))))"

definition failure_goal_patch ::
  "cycle_env \<Rightarrow> failure_patch \<Rightarrow> supervisor_goal \<Rightarrow> supervisor_goal \<Rightarrow> supervisor_goal" where
  "failure_goal_patch e p after g =
     retrying (fp_retryImmediately p) (unclaimed
       ((rested (fp_status p) (after_now e)
          (case nonempty_text (sg_lastSummary after) of
             Some s \<Rightarrow> if fp_retryImmediately p then trim_tail (s @ [CHR 0x0A] @ fp_lastSummary p) else fp_lastSummary p
           | None \<Rightarrow> fp_lastSummary p)
          (Some (after_now e + fp_nextRunDelayMs p)) g)
         \<lparr>sg_consecutiveFailures := fp_consecutiveFailures p\<rparr>))"

definition failure_step ::
  "cycle_env \<Rightarrow> project_policy \<Rightarrow> coordinator_route \<Rightarrow> supervisor_goal \<Rightarrow> supervisor_goal \<Rightarrow> worker_outcome
     \<Rightarrow> unit cycle_step" where
  "failure_step e policy r g after o' =
     (let j = \<lparr>rj_allowed = semanticEgressAllowed policy, rj_enabled = rk_enabled (cy_kernel e), rj_answer = cy_judge e\<rparr>;
          p = smartNonSuccessCyclePatch j (sg_goal g) (nonempty_text (sg_lastSummary after))
            \<lparr>fi_modelOutcome = modelOutcomeForWorker o', fi_stderr = wo_stderr o', fi_stdout = wo_stdout o',
             fi_provider = cr_provider r, fi_modelRef = cr_modelRef r, fi_host = cr_host r,
             fi_consecutiveFailures = sg_consecutiveFailures after\<rparr>
      in patch_goal (after_now e) (sg_id g) (failure_goal_patch e p after))"

fun run_result :: "worker_status \<Rightarrow> bool \<Rightarrow> run_status" where
  "run_result Wk_succeeded True = Run_succeeded"
| "run_result Wk_timed_out b = Run_timed_out"
| "run_result s b = Run_failed"

definition worker_session :: "worker_outcome \<Rightarrow> string option" where
  "worker_session o' = nonempty_text (map_option js_trim (wo_sessionRef o'))"

definition verdict_step ::
  "cycle_env \<Rightarrow> project_policy \<Rightarrow> coordinator_route \<Rightarrow> supervisor_goal \<Rightarrow> candidate_record \<Rightarrow> canonical_worker
     \<Rightarrow> worker_outcome \<Rightarrow> unit cycle_step" where
  "verdict_step e policy r g cand k o' =
     cbind (run_status_step (cy_render e) (cy_after e) (cy_uuid e 3, cy_uuid e 4) (kw_runId k)
              (run_result (wo_status o') (worker_session o' \<noteq> None)) (worker_session o') (wo_usage o')) (\<lambda>_.
     if wo_status o' = Wk_succeeded \<and> worker_session o' = None
     then patch_goal (after_now e) (sg_id g) (\<lambda>h. retrying False (unclaimed (rested Gs_active (after_now e)
       ''Worker result was refused because the provider returned no durable session identity.''
       (Some (after_now e + 10000)) h)))
     else
     cbind (case modelOutcomeForWorker o' of
              None \<Rightarrow> creturn ()
            | Some m \<Rightarrow> model_outcome_step ((xe_discovery (cy_exec e))\<lparr>de_now := after_now e\<rparr>) True r m) (\<lambda>_.
     cbind (cread (\<lambda>w. getGoal (sg_id g) (cw_goals w))) (\<lambda>current.
     case current of
       None \<Rightarrow> creturn ()
     | Some after \<Rightarrow>
         if sg_status after \<in> {Gs_done, Gs_blocked, Gs_paused}
         then patch_goal (after_now e) (sg_id g)
                (\<lambda>h. h\<lparr>sg_activePid := None, sg_lastFinishedAt := Some (after_now e)\<rparr>)
         else if wo_status o' = Wk_succeeded then success_step e r g after cand k o'
         else failure_step e policy r g after o')))"

section \<open>Dispatch of a worker\<close>

definition route_step :: "cycle_env \<Rightarrow> supervisor_goal \<Rightarrow> coordinator_selection cycle_step" where
  "route_step e g w =
     (case routeGoalExecutionSmart (cy_exec e) (cy_kernel e) (cy_owner e) g smart_options (cw_store w) (cw_goals w) of
        (s, st, res) \<Rightarrow>
          (w\<lparr>cw_store := s, cw_goals := st\<rparr>, case res of Inl x \<Rightarrow> Inl (Cyc_execution x) | Inr sel \<Rightarrow> Inr sel))"

text \<open>Admission facts of the project's policy.\<close>

definition admission_policy :: "project_policy \<Rightarrow> policy_facts" where
  "admission_policy p =
     \<lparr>af_projectClass = pp_projectClass p, af_trust = pp_trust p,
      af_allowExternalWrites = pp_allowExternalWrites p, af_allowPaidSpend = pp_allowPaidSpend p\<rparr>"

text \<open>An unassessed goal is assessed before its first dispatch; the cycle goes on with the result.\<close>

definition assess_step :: "cycle_env \<Rightarrow> project_policy \<Rightarrow> supervisor_goal \<Rightarrow> supervisor_goal cycle_step" where
  "assess_step e policy g =
     (if sg_admissionRiskAssessment g \<noteq> None then creturn g
      else
        let a = assessSupervisorAdmissionRisk (sg_goal g) (sg_requiredOperations g) (Some (admission_policy policy)) in
        (case deriveSupervisorPromotionContract (Some a) (sg_requiredOperations g) of
           Inl x \<Rightarrow> cthrow (Cyc_sdlc x)
         | Inr c \<Rightarrow>
             cbind (patch_goal (before_now e) (sg_id g)
                     (\<lambda>h. h\<lparr>sg_admissionRiskAssessment := Some a, sg_promotionContract := Some c\<rparr>)) (\<lambda>_.
               creturn (g\<lparr>sg_admissionRiskAssessment := Some a, sg_promotionContract := Some c\<rparr>))))"

definition running_patch ::
  "cycle_env \<Rightarrow> coordinator_route \<Rightarrow> supervisor_goal \<Rightarrow> candidate_record \<Rightarrow> supervisor_goal \<Rightarrow> supervisor_goal" where
  "running_patch e r g cand h =
     h\<lparr>sg_status := Gs_running, sg_cycle := sg_cycle g + 1, sg_lastStartedAt := Some (before_now e),
       sg_activePid := Some (cy_pid e), sg_lastCoordinator := Some (cr_host r),
       sg_lastAccountLabel := Some (cr_accountLabel r), sg_ownerGate := None,
       sg_pendingCompletion := None, sg_candidate := Some cand\<rparr>"

text \<open>Why a frozen candidate is not dispatched.\<close>

definition dispatch_refusal :: "cycle_env \<Rightarrow> candidate_record \<Rightarrow> string option" where
  "dispatch_refusal e cand =
     (case candidateDispatchFailure cand of
        Some f \<Rightarrow> Some (cy_showBinding e f)
      | None \<Rightarrow>
          (case cand of
             Cand_task src taskId projectId criteriaJson \<Rightarrow>
               (case parseCompletionCriteria (Some criteriaJson) of
                  Inl x \<Rightarrow> Some (''canonical task criteria are invalid: '' @ cy_showError e x)
                | Inr criteria \<Rightarrow>
                    if other_head criteria (so_head src)
                    then Some ''canonical task criteria target a different candidate head'' else None)
           | _ \<Rightarrow> None))"

definition dispatch_rest :: "cycle_env \<Rightarrow> string \<Rightarrow> supervisor_goal \<Rightarrow> supervisor_goal" where
  "dispatch_rest e summary g =
     retrying False (unclaimed (rested Gs_active (before_now e) summary (Some (before_now e + 10000)) g))"

definition worker_timeout :: "project_policy \<Rightarrow> int option \<Rightarrow> int" where
  "worker_timeout policy maxTimeoutMs =
     (let own = max 1 (pp_maxRunMinutes policy) * 60 * 1000
      in case maxTimeoutMs of None \<Rightarrow> own | Some t \<Rightarrow> min own t)"

definition worker_step ::
  "cycle_env \<Rightarrow> coordinator_route \<Rightarrow> supervisor_goal \<Rightarrow> int option \<Rightarrow> worker_outcome cycle_step" where
  "worker_step e r g timeout w = (case cy_worker e r g timeout w of (w', o') \<Rightarrow> (w', Inr o'))"

definition dispatch_step ::
  "cycle_env \<Rightarrow> project_policy \<Rightarrow> coordinator_route \<Rightarrow> supervisor_goal \<Rightarrow> int option \<Rightarrow> unit cycle_step" where
  "dispatch_step e policy r g maxTimeoutMs =
     cbind (cread world_db) (\<lambda>d.
     let resolved = resolveCanonicalTaskBinding (cy_rsv e) d (sg_repoPath g) in
     case cy_sourceBefore e of
       None \<Rightarrow> patch_goal (before_now e) (sg_id g)
         (dispatch_rest e ''Candidate source identity could not be frozen before dispatch.'')
     | Some source \<Rightarrow>
         let cand = freezeSupervisorCandidate resolved source in
         cbind (execution_task e g resolved) (\<lambda>taskId.
         cbind (start_run e r taskId (case resolved of Inr _ \<Rightarrow> Pur_repair | Inl _ \<Rightarrow> Pur_implementation) (so_head source)) (\<lambda>k.
         cbind (patch_goal (before_now e) (sg_id g) (running_patch e r g cand)) (\<lambda>_.
         case dispatch_refusal e cand of
           Some why \<Rightarrow> patch_goal (before_now e) (sg_id g)
             (dispatch_rest e (''Canonical task resolution refused worker dispatch: '' @ why))
         | None \<Rightarrow>
             if \<not> sourceIdentityMatches (source_pair (cand_source cand)) (cy_sourceDispatch e)
             then patch_goal (before_now e) (sg_id g)
                    (dispatch_rest e ''Candidate source identity changed before worker dispatch.'')
             else cbind (worker_step e r g (Some (worker_timeout policy maxTimeoutMs))) (\<lambda>o'.
               verdict_step e policy r (g\<lparr>sg_candidate := Some cand\<rparr>) cand k o')))))"

text \<open>
  \<^verbatim>\<open>runLockedGoalCycle\<close>: routing, the installed CLI, the capabilities, a parallel batch if the
  policy asks for one, the assessment, and the dispatch. \<open>g\<close> is the goal as read at the start.
\<close>

definition runLockedGoalCycle :: "cycle_env \<Rightarrow> int option \<Rightarrow> supervisor_goal \<Rightarrow> unit cycle_step" where
  "runLockedGoalCycle e maxTimeoutMs g =
     cbind (of_result (cycle_policy e g)) (\<lambda>policy.
     cbind (route_step e g) (\<lambda>sel.
     case sel of
       Sel_checkpoint w \<Rightarrow> patch_goal (before_now e) (sg_id g) (\<lambda>h. retrying False
         (rested Gs_active (before_now e) (''Provider routing checkpoint: '' @ xe_show (cy_exec e) w)
           (Some (before_now e + 60000)) h))
     | Sel_route r \<Rightarrow>
         if \<not> cy_hostAvailable e (cr_host r)
         then cbind (model_outcome_step (xe_discovery (cy_exec e)) False r Av_unknown) (\<lambda>_.
           patch_goal (before_now e) (sg_id g) (\<lambda>h. retrying True
             (rested Gs_active (before_now e)
               (''Provider routing checkpoint: '' @ cr_provider r @ ''/'' @ cr_modelRef r @ '' is persisted as '' @
                ''available but the canonical CLI is missing at '' @ cy_cliPath e (cr_host r) @ ''. '' @
                ''Marking it unavailable and rerouting to the next candidate instead of selecting it again.'')
               (Some (before_now e)) h)))
         else cbind (cy_capabilities e g) (\<lambda>checkpoint.
           case checkpoint of
             Some reason \<Rightarrow> patch_goal (before_now e) (sg_id g) (\<lambda>h.
               (retrying False (rested Gs_blocked (before_now e) reason None h))
                 \<lparr>sg_ownerGate := Some ''Review the Toolsmith checkpoint or register an approved capability.''\<rparr>)
           | None \<Rightarrow>
               cbind (if \<not> pp_parallelWorkers policy then creturn False else cy_parallel e g r) (\<lambda>handled.
               if handled then creturn ()
               else cbind (assess_step e policy g) (\<lambda>g'. dispatch_step e policy r g' maxTimeoutMs)))))"

section \<open>The independent review of a claim\<close>

definition review_patch :: "supervisor_goal \<Rightarrow> string \<Rightarrow> instant \<Rightarrow> unit cycle_step" where
  "review_patch g summary now =
     patch_goal now (sg_id g) (\<lambda>h. (unclaimed h)\<lparr>sg_status := Gs_active, sg_lastSummary := Some summary,
       sg_nextRunAt := Some now\<rparr>)"

definition writing_claim_broken :: "cycle_env \<Rightarrow> supervisor_goal \<Rightarrow> writing_claim \<Rightarrow> bool" where
  "writing_claim_broken e g c =
     (wc_draft c = [] \<or> cy_draftDigest e (wc_draft c) \<noteq> wc_draftSha256 c
      \<or> (cy_writingRoute e (sg_goal g) = Some True
          \<and> Option.bind (wc_sourcePacket c) (re_sourcePacket (cy_report e)) = None)
      \<or> (case wc_evidence c of None \<Rightarrow> False | Some v \<Rightarrow> re_gateEvidence (cy_report e) v = None)
      \<or> (wc_sourceCoverageRequired c
          \<and> (case wc_evidence c of None \<Rightarrow> True | Some v \<Rightarrow> \<not> cy_sourcePreserved e v)))"

definition review_input_ok :: "receipt_row \<Rightarrow> review_report \<Rightarrow> db
    \<Rightarrow> (review_error, unit) result" where
  "review_input_ok r v d =
     rbind (ensure (\<forall>x \<in> set [rr_project r, rr_goalId r, rr_runId r, or_default (rr_reviewedRunId r) [],
                or_default (rr_taskId r) [], rr_dispatchId r, rr_provider r, or_default (rr_providerId r) [],
                or_default (rr_providerAccountLabel r) []]. \<not> js_blank x) Review_identity_incomplete) (\<lambda>_.
     rbind (ensure (is_sha40 (rr_sourceHead r)) Review_bad_head) (\<lambda>_.
     rbind (ensure (is_digest64 (or_default (rr_sourceTreeDigest r) [])) Review_bad_digest) (\<lambda>_.
     rbind (ensure (rr_reviewedRunId r \<noteq> Some (rr_runId r)) Review_same_run) (\<lambda>_.
     rbind (ensure (rv_goalId v = rr_goalId r \<and> rv_sourceHead v = rr_sourceHead r) Review_unbound_verdict) (\<lambda>_.
     rbind (ensure (\<not> js_blank (rv_evidence v)) Review_bad_verdict) (\<lambda>_.
     rbind (ensure (rr_pendingClaimedAt r \<le> rr_reviewStartedAt r) Review_predates_claim) (\<lambda>_.
     rbind (ensure (case reviewed_run_of d r of None \<Rightarrow> False | Some run \<Rightarrow>
              rr_taskId r = Some (r_taskId run) \<and> r_purpose run \<in> {Pur_implementation, Pur_repair}
              \<and> r_sourceHead run = Some (rr_sourceHead r) \<and> present (r_sessionRef run)
              \<and> r_status run = Run_succeeded) Review_no_reviewed_run) (\<lambda>_.
       ensure (case joined_run d (rr_runId r) of None \<Rightarrow> False | Some (run, prov) \<Rightarrow>
          rr_taskId r = Some (r_taskId run) \<and> rr_providerId r = Some (r_providerId run)
          \<and> ap_name prov = receipt_provider_name (rr_provider r)
          \<and> rr_providerAccountLabel r = Some (ap_accountLabel prov)
          \<and> r_purpose run = Pur_review \<and> r_independenceLoss run = None
          \<and> r_sourceHead run = Some (rr_sourceHead r) \<and> present (r_sessionRef run)
          \<and> r_status run = Run_succeeded) Review_no_review_run))))))))"

text \<open>
  \<^verbatim>\<open>recordIndependentReviewExecution\<close>. The checks above are those of the insert trigger of
  migration 0026, on the references as stored: the row is then refused only for its key or
  for a verdict that is no text.
\<close>

definition session_of_run :: "db \<Rightarrow> string \<Rightarrow> string option" where
  "session_of_run d runId = map_option js_trim (Option.bind (lookup_row r_id runId (agentRuns d)) r_sessionRef)"

definition recordIndependentReviewExecution ::
  "string \<Rightarrow> instant \<Rightarrow> supervisor_goal \<Rightarrow> pending_completion \<Rightarrow> canonical_worker \<Rightarrow> reviewed_run \<Rightarrow> string \<Rightarrow> provider_host
     \<Rightarrow> instant \<Rightarrow> review_report \<Rightarrow> string cycle_step" where
  "recordIndependentReviewExecution uuid now g p k v dispatchId host startedAt review w =
     (let d = world_db w;
          row = \<lparr>rr_id = uuid, rr_project = js_trim (sg_project g), rr_goalId = sg_id g, rr_runId = kw_runId k,
                 rr_reviewedRunId = Some (vr_runId v), rr_reviewSessionRef = session_of_run d (kw_runId k),
                 rr_reviewedSessionRef = session_of_run d (vr_runId v), rr_taskId = Some (kw_taskId k),
                 rr_providerId = Some (kw_providerId k), rr_providerAccountLabel = Some (kw_providerAccountLabel k),
                 rr_dispatchId = dispatchId, rr_provider = host_name host,
                 rr_sourceHead = or_default (pc_sourceHead p) [], rr_sourceTreeDigest = pc_sourceTreeDigest p,
                 rr_verdict = (case rv_verdict review of Plain x \<Rightarrow> x | Coerced _ \<Rightarrow> Verdict_fail),
                 rr_evidence = js_trim (rv_evidence review), rr_pendingClaimedAt = pc_claimedAt p,
                 rr_reviewStartedAt = startedAt, rr_createdAt = now\<rparr>
      in case review_input_ok row review d of
           Inl x \<Rightarrow> (w, Inl (Cyc_review x))
         | Inr _ \<Rightarrow>
             if (case rv_verdict review of Plain x \<Rightarrow> False | Coerced j \<Rightarrow> True) \<or> has_key rr_id uuid (independentReviewReceipts d)
             then (w, Inl (Cyc_review Review_receipt_refused))
             else (put_db (d\<lparr>independentReviewReceipts := independentReviewReceipts d @ [row]\<rparr>) w, Inr uuid))"

definition grade_step :: "cycle_env \<Rightarrow> string \<Rightarrow> string \<Rightarrow> unit cycle_step" where
  "grade_step e goalId receiptId w =
     (case applyIndependentCompletionGrade (cy_grade e) goalId receiptId (cw_goals w) (cw_goals w) (world_authority w) of
        (st, au, res) \<Rightarrow>
          ((put_db (au_db au) w)\<lparr>cw_goals := st, cw_commits := au_commits au\<rparr>,
           case res of Inl x \<Rightarrow> Inl (Cyc_grade x) | Inr g \<Rightarrow> Inr ()))"

text \<open>
  \<^verbatim>\<open>runPendingCompletionReview\<close>. A claim that is incomplete, no longer whole or no longer about
  the repository's source is dropped; a dispatch that a crash left behind counts as an
  attempt; then a reviewer is routed, run and read.
\<close>

definition claim_complete :: "pending_completion \<Rightarrow> bool" where
  "claim_complete p =
     (nonempty_text (pc_sourceHead p) \<noteq> None \<and> nonempty_text (pc_sourceTreeDigest p) \<noteq> None
      \<and> pc_candidate p \<noteq> None \<and> pc_reviewedRun p \<noteq> None)"

definition claim_source :: "pending_completion \<Rightarrow> string \<times> string" where
  "claim_source p = (or_default (pc_sourceHead p) [], or_default (pc_sourceTreeDigest p) [])"

definition claim_refusal :: "cycle_env \<Rightarrow> supervisor_goal \<Rightarrow> pending_completion \<Rightarrow> string option" where
  "claim_refusal e g p =
     (if \<not> claim_complete p
      then Some (''Legacy pending completion lacked exact candidate or reviewed-execution provenance '' @
                 ''and must be revalidated.'')
      else if (case pc_writing p of None \<Rightarrow> False | Some c \<Rightarrow> writing_claim_broken e g c)
      then Some ''Pending writing completion lacked its bounded exact draft and evidence.''
      else if \<not> sourceIdentityMatches (claim_source p) (cy_sourceBefore e)
      then Some (''Pending completion became stale because its repository or source-tree identity changed.'')
      else None)"

definition review_options :: "review_attempt list \<Rightarrow> execution_options" where
  "review_options attempts =
     \<lparr>xo_eligibleHosts = None, xo_excludedCapacityKeys = map at_capacityKey attempts,
      xo_request = Some STRONGEST_ROUTING_REQUEST\<rparr>"

definition review_route_step ::
  "cycle_env \<Rightarrow> supervisor_goal \<Rightarrow> review_attempt list \<Rightarrow> coordinator_selection cycle_step" where
  "review_route_step e g attempts w =
     (case routeGoalExecution (cy_exec e) g (review_options attempts) (cw_store w) (cw_goals w) of
        (s, st, res) \<Rightarrow>
          (w\<lparr>cw_store := s, cw_goals := st\<rparr>, case res of Inl x \<Rightarrow> Inl (Cyc_execution x) | Inr sel \<Rightarrow> Inr sel))"

definition waiting_summary :: "cycle_env \<Rightarrow> review_attempt list \<Rightarrow> selection_why \<Rightarrow> string" where
  "waiting_summary e attempts why =
     (if attempts \<noteq> []
      then ''Independent reviewer availability is exhausted after '' @ decimal (length attempts) @ '' inconclusive attempt''
        @ (if length attempts = 1 then [] else ''s'') @ ''; no implementation BLOCKER verdict was produced. ''
        @ xe_show (cy_exec e) why
      else ''Independent completion review is waiting for execution capacity: '' @ xe_show (cy_exec e) why)"

definition waiting_patch :: "cycle_env \<Rightarrow> review_attempt list \<Rightarrow> selection_why \<Rightarrow> supervisor_goal \<Rightarrow> supervisor_goal" where
  "waiting_patch e attempts why g =
     g\<lparr>sg_retryImmediately := Some False, sg_lastSummary := Some (waiting_summary e attempts why),
       sg_nextRunAt := Some (before_now e + 10000)\<rparr>"

definition review_dispatch_of :: "cycle_env \<Rightarrow> coordinator_route \<Rightarrow> canonical_worker \<Rightarrow> review_dispatch" where
  "review_dispatch_of e r k =
     \<lparr>vd_id = cy_uuid e 5, vd_provider = cr_host r, vd_capacityKey = Some (cr_provider r),
      vd_providerId = Some (kw_providerId k), vd_providerAccountLabel = Some (kw_providerAccountLabel k),
      vd_taskId = Some (kw_taskId k), vd_runId = Some (kw_runId k), vd_startedAt = before_now e\<rparr>"

definition reviewing_patch ::
  "cycle_env \<Rightarrow> coordinator_route \<Rightarrow> pending_completion \<Rightarrow> canonical_worker \<Rightarrow> supervisor_goal \<Rightarrow> supervisor_goal" where
  "reviewing_patch e r p k g =
     g\<lparr>sg_activePid := Some (cy_pid e), sg_lastStartedAt := Some (before_now e),
       sg_lastCoordinator := Some (cr_host r), sg_lastAccountLabel := Some (cr_accountLabel r),
       sg_lastSummary := Some (''Independent completion review running on '' @ host_name (cr_host r) @ ''.''),
       sg_pendingCompletion := Some (p\<lparr>pc_reviewDispatch := Some (review_dispatch_of e r k)\<rparr>)\<rparr>"

definition reviewer_step ::
  "cycle_env \<Rightarrow> coordinator_route \<Rightarrow> supervisor_goal \<Rightarrow> pending_completion \<Rightarrow> int \<Rightarrow> worker_outcome cycle_step" where
  "reviewer_step e r g p timeout w = (case cy_reviewer e r g p timeout w of (w', o') \<Rightarrow> (w', Inr o'))"

definition finished_attempt ::
  "cycle_env \<Rightarrow> coordinator_route \<Rightarrow> pending_completion \<Rightarrow> canonical_worker \<Rightarrow> attempt_outcome \<Rightarrow> string
     \<Rightarrow> review_attempt" where
  "finished_attempt e r p k result evidence =
     \<lparr>at_attempt = length (review_attempts p) + 1, at_dispatchId = cy_uuid e 5, at_provider = cr_host r,
      at_capacityKey = cr_provider r, at_runId = kw_runId k, at_startedAt = before_now e,
      at_finishedAt = after_now e, at_outcome = result, at_evidence = evidence\<rparr>"

text \<open>A claim that keeps waiting after its review: ten seconds, without the dispatch.\<close>

definition retained_patch ::
  "cycle_env \<Rightarrow> string \<Rightarrow> pending_completion \<Rightarrow> supervisor_goal \<Rightarrow> supervisor_goal" where
  "retained_patch e summary p g =
     g\<lparr>sg_activePid := None, sg_lastFinishedAt := Some (after_now e), sg_lastSummary := Some summary,
       sg_pendingCompletion := Some (without_dispatch p), sg_nextRunAt := Some (after_now e + 10000),
       sg_retryImmediately := Some False\<rparr>"

text \<open>The verdict of a conclusive review is stored as a receipt and graded.\<close>

definition final_writing :: "cycle_env \<Rightarrow> supervisor_goal \<Rightarrow> pending_completion \<Rightarrow> reviewed_run \<Rightarrow> review_report \<Rightarrow> db
    \<Rightarrow> writing_inspection option" where
  "final_writing e g p v review d =
     (case pc_writing p of
        None \<Rightarrow> None
      | Some c \<Rightarrow>
          if rv_verdict review \<noteq> Plain Verdict_pass then None
          else Some (cy_inspect e d g (vr_runId v) (claim_source p) (wc_draft c) (wc_sourcePacket c) (wc_evidence c)))"

definition grade_review ::
  "cycle_env \<Rightarrow> coordinator_route \<Rightarrow> supervisor_goal \<Rightarrow> pending_completion \<Rightarrow> canonical_worker \<Rightarrow> reviewed_run
     \<Rightarrow> review_report \<Rightarrow> unit cycle_step" where
  "grade_review e r g p k v review =
     cbind (recordIndependentReviewExecution (cy_uuid e 6) (after_now e) g p k v (cy_uuid e 5) (cr_host r)
              (before_now e) review) (\<lambda>receiptId.
     cbind (cread (\<lambda>w. final_writing e g p v review (world_db w))) (\<lambda>inspected.
     case inspected of
       Some w \<Rightarrow>
         if wi_finalPassed w then grade_step e (sg_id g) receiptId
         else patch_goal (after_now e) (sg_id g) (retained_patch e
           (''Independent writing review was persisted, but canonical final verification still refused completion: ''
             @ gate_texts (\<lambda>s. s \<noteq> Gate_passed) (wi_gates w)) p)
     | None \<Rightarrow> grade_step e (sg_id g) receiptId))"

definition read_review ::
  "cycle_env \<Rightarrow> coordinator_route \<Rightarrow> supervisor_goal \<Rightarrow> pending_completion \<Rightarrow> canonical_worker \<Rightarrow> reviewed_run
     \<Rightarrow> worker_outcome \<Rightarrow> unit cycle_step" where
  "read_review e r g p k v o' =
     (let report = (if wo_status o' = Wk_succeeded then parseWorkerReport (cy_report e) (wo_stdout o') else None) in
      case classifyInconclusiveReviewAttempt o' report of
        Some (result, evidence) \<Rightarrow>
          patch_goal (after_now e) (sg_id g)
            (recordInconclusiveReviewAttemptPatch (after_now e) p (finished_attempt e r p k result evidence))
      | None \<Rightarrow>
          (case Option.bind report wr_independentReview of
             None \<Rightarrow> cthrow (Cyc_review Review_no_verdict)
           | Some review \<Rightarrow>
               if (case pc_writing p of None \<Rightarrow> False
                   | Some c \<Rightarrow> rv_verdict review = Plain Verdict_pass \<and> \<not> cy_reviewBound e c (rv_evidence review))
               then patch_goal (after_now e) (sg_id g) (retained_patch e
                 (''Independent writing review remained pending because its pass verdict was not bound '' @
                  ''to the frozen writingDraft digest.'') p)
               else (case postReviewSourceChangePatch (after_now e) (cy_head e) (cy_digest e) (fst (claim_source p))
                            (snd (claim_source p)) (wo_workspaceMutated o') of
                   Some patch \<Rightarrow> patch_goal (after_now e) (sg_id g) patch
                 | None \<Rightarrow> grade_review e r g p k v review)))"

definition run_review ::
  "cycle_env \<Rightarrow> int option \<Rightarrow> coordinator_route \<Rightarrow> supervisor_goal \<Rightarrow> pending_completion \<Rightarrow> reviewed_run
     \<Rightarrow> unit cycle_step" where
  "run_review e maxTimeoutMs r g p v =
     cbind (start_run e r (vr_taskId v) Pur_review (fst (claim_source p))) (\<lambda>k.
     cbind (patch_goal (before_now e) (sg_id g) (reviewing_patch e r p k)) (\<lambda>_.
     cbind (reviewer_step e r g p (or_default maxTimeoutMs (15 * 60 * 1000))) (\<lambda>o'.
     cbind (run_status_step (cy_render e) (cy_after e) (cy_uuid e 3, cy_uuid e 4) (kw_runId k)
              (run_result (wo_status o') (worker_session o' \<noteq> None)) (worker_session o') (wo_usage o')) (\<lambda>_.
       read_review e r g p k v o'))))"

definition pending_review_step ::
  "cycle_env \<Rightarrow> int option \<Rightarrow> supervisor_goal \<Rightarrow> pending_completion \<Rightarrow> reviewed_run \<Rightarrow> unit cycle_step" where
  "pending_review_step e maxTimeoutMs g p v =
     cbind (recoverAbandonedReviewDispatch (cy_render e) (cy_before e) p) (\<lambda>recovered.
     case recovered of
       Some patch \<Rightarrow> patch_goal (before_now e) (sg_id g) patch
     | None \<Rightarrow>
         if length (review_attempts p) \<ge> MAX_INDEPENDENT_REVIEW_ATTEMPTS
         then patch_goal (before_now e) (sg_id g)
                (reviewerAvailabilityExhaustedPatch (before_now e) p (review_attempts p))
         else cbind (review_route_step e g (review_attempts p)) (\<lambda>sel.
           case sel of
             Sel_checkpoint why \<Rightarrow> patch_goal (before_now e) (sg_id g) (waiting_patch e (review_attempts p) why)
           | Sel_route r \<Rightarrow> run_review e maxTimeoutMs r g p v))"

definition runPendingCompletionReview ::
  "cycle_env \<Rightarrow> int option \<Rightarrow> supervisor_goal \<Rightarrow> pending_completion \<Rightarrow> unit cycle_step" where
  "runPendingCompletionReview e maxTimeoutMs g p =
     (case (claim_refusal e g p, pc_reviewedRun p) of
        (None, Some v) \<Rightarrow> pending_review_step e maxTimeoutMs g p v
      | (refusal, _) \<Rightarrow> review_patch g (or_default refusal []) (before_now e))"

section \<open>A cycle\<close>

definition recover_step :: "string \<Rightarrow> unit cycle_step" where
  "recover_step gid w =
     (case recoverSupervisorCompletion gid (world_authority w) (cw_goals w) of
        Inl x \<Rightarrow> (w, Inl (Cyc_recovery x))
      | Inr (st, _) \<Rightarrow> (w\<lparr>cw_goals := st\<rparr>, Inr ()))"

text \<open>
  \<^verbatim>\<open>runGoalCycle\<close>. \<open>cy_fence\<close> is the answer of \<^verbatim>\<open>tryAcquireRepositoryWriterFence\<close>; the fence is
  released in every case, which changes nothing in the world here.
\<close>

definition runGoalCycle :: "cycle_env \<Rightarrow> string \<Rightarrow> int option \<Rightarrow> bool cycle_step" where
  "runGoalCycle e gid maxTimeoutMs =
     cbind (recover_step gid) (\<lambda>_.
     cbind (cread (\<lambda>w. getGoal gid (cw_goals w))) (\<lambda>found.
     case found of
       None \<Rightarrow> cthrow (Cyc_goal_not_found gid)
     | Some g \<Rightarrow>
         if sg_status g \<in> {Gs_done, Gs_paused} then creturn False
         else (case snd (cy_fence e (sg_repoPath g)) of
             None \<Rightarrow> creturn False
           | Some fence \<Rightarrow>
               let e' = e\<lparr>cy_grade := (cy_grade e)\<lparr>ge_fence := Some fence\<rparr>\<rparr> in
               cbind (case sg_pendingCompletion g of
                        Some p \<Rightarrow> runPendingCompletionReview e' maxTimeoutMs g p
                      | None \<Rightarrow> runLockedGoalCycle e' maxTimeoutMs g)
                 (\<lambda>_. creturn True))))"

end
