(* ===== verification/Goal_Safety.thy ===== *)
theory Goal_Safety
  imports Completion_Grade Transition_System
begin

text \<open>
  What the goal store guarantees: a grade rests on an independent review, a goal is done
  only by a committed passing grade, a crash between the two writes is repaired, ownership
  moves only from an abandoned worktree, and the writer fence detects other writers.
\<close>

section \<open>What an applied grade rests on\<close>

lemma check_receipt_Inr_iff:
  "check_receipt d g p r = Inr u \<longleftrightarrow>
     nonempty_text (pc_sourceHead p) \<noteq> None \<and> rr_project r = sg_project g \<and> rr_goalId r = sg_id g
     \<and> pc_sourceHead p = Some (rr_sourceHead r)
     \<and> rr_pendingClaimedAt r = pc_claimedAt p \<and> pc_claimedAt p \<le> rr_reviewStartedAt r
     \<and> dispatch_matches p r \<and> js_trim (rr_runId r) \<noteq> [] \<and> reviewed_matches p r
     \<and> canonical_review d r \<and> reviewed_run_ok d p r
     \<and> rr_provider r \<in> set (map host_name WORKER_HOSTS) \<and> js_trim (rr_evidence r) \<noteq> []"
  by (simp add: check_receipt_def rbind_eq_Inr del: set_map list.map)

definition grade_source :: "pending_completion \<Rightarrow> string \<times> string" where
  "grade_source p = (or_default (pc_sourceHead p) [], or_default (pc_sourceTreeDigest p) [])"

text \<open>Everything an applied grade has passed, as one predicate.\<close>

definition grade_granted ::
  "grade_env \<Rightarrow> authority \<Rightarrow> supervisor_goal \<Rightarrow> pending_completion \<Rightarrow> receipt_row \<Rightarrow> bool" where
  "grade_granted e au g p r \<longleftrightarrow>
     check_receipt (au_db au) g p r = Inr ()
     \<and> nonempty_text (pc_sourceTreeDigest p) \<noteq> None
     \<and> sourceIdentityMatches (grade_source p) (ge_identityBefore e (sg_repoPath g))
     \<and> sourceIdentityMatches (grade_source p) (ge_identityAfter e (sg_repoPath g))
     \<and> (rr_verdict r = Verdict_pass \<longrightarrow> binding_refused (ge_rsv e) (au_db au) g p = None)"

definition fence_kept :: "grade_env \<Rightarrow> bool" where
  "fence_kept e \<longleftrightarrow>
     (\<exists>w. ge_fence e = Some w \<and> assertUncontended w (ge_filesInBody e)
        \<and> commitSqlite w (ge_filesAtCommit e) (ge_filesBeforeCommit e))"

lemma graded_simps [simp]:
  "sg_id (graded_goal e p r g) = sg_id g" "sg_project (graded_goal e p r g) = sg_project g"
  "sg_repoPath (graded_goal e p r g) = sg_repoPath g" "sg_pendingCompletion (graded_goal e p r g) = None"
  "sg_status (graded_goal e p r g) = (if rr_verdict r = Verdict_pass then Gs_done else Gs_active)"
  by (simp_all add: graded_goal_def Let_def)

lemma reopened_simps [simp]:
  "sg_id (reopened now s g) = sg_id g" "sg_status (reopened now s g) = Gs_active"
  "sg_pendingCompletion (reopened now s g) = None"
  by (simp_all add: reopened_def)

lemma insert_commit_Inr_iff:
  "insert_commit c au = Inr au' \<longleftrightarrow>
     sc_id c \<notin> sc_id ` set (au_commits au) \<and> sc_receiptId c \<notin> sc_receiptId ` set (au_commits au)
     \<and> is_sha40 (sc_sourceHead c) \<and> is_digest64 (sc_sourceTreeDigest c) \<and> projection_ok c
     \<and> commit_authorised (au_db au) c \<and> au' = au\<lparr>au_commits := au_commits au @ [c]\<rparr>"
  by (auto simp: insert_commit_def rbind_eq_Inr insert_row_Inr_iff)

text \<open>The database after the grade: a passed task candidate is completed, nothing else changes.\<close>

definition graded_db :: "grade_env \<Rightarrow> pending_completion \<Rightarrow> receipt_row \<Rightarrow> db \<Rightarrow> db outcome" where
  "graded_db e p r d = (if rr_verdict r = Verdict_pass then complete_task e p d else Inr d)"

lemma settle_Body_returns_iff:
  "settle e au g p source r w = Body_returns g' au' f \<longleftrightarrow>
     (\<exists>d'. graded_db e p r (au_db au) = Inr d' \<and> g' = graded_goal e p r g
        \<and> insert_commit (new_commit e p source r g') (au\<lparr>au_db := d'\<rparr>) = Inr au'
        \<and> sourceIdentityMatches source (ge_identityAfter e (sg_repoPath g))
        \<and> assertUncontended w (ge_filesInBody e) \<and> f = None)"
  unfolding settle_def graded_db_def Let_def
  by (auto split: sum.splits if_splits)

lemma grade_claim_applied:
  assumes "grade_claim e au g p r w = Body_returns g' au' None"
  shows "nonempty_text (pc_sourceTreeDigest p) \<noteq> None"
    and "sourceIdentityMatches (grade_source p) (ge_identityBefore e (sg_repoPath g))"
    and "rr_verdict r = Verdict_pass \<longrightarrow> binding_refused (ge_rsv e) (au_db au) g p = None"
    and "settle e au g p (grade_source p) r w = Body_returns g' au' None"
  using assms by (auto simp: grade_claim_def Let_def grade_source_def split: if_splits option.splits)

lemma grade_body_returnsD:
  assumes "grade_body e goalId receiptId w st au = Body_returns g' au' f"
  obtains r g p where "lookup_row rr_id receiptId (independentReviewReceipts (au_db au)) = Some r"
    "getGoal goalId st = Some g" "sg_pendingCompletion g = Some p"
    "check_receipt (au_db au) g p r = Inr ()" "grade_claim e au g p r w = Body_returns g' au' f"
  using assms by (auto simp: grade_body_def split: option.splits sum.splits)

lemma apply_InrD:
  assumes "applyIndependentCompletionGrade e goalId receiptId seen st au = (st', au', Inr g')"
  obtains w where "ge_fence e = Some w" "grade_body e goalId receiptId w st au = Body_returns g' au' None"
    "commitSqlite w (ge_filesAtCommit e) (ge_filesBeforeCommit e)" "st' = store_goal g' st"
  using assms
  by (auto simp: applyIndependentCompletionGrade_def apply_locked_def lose_fence_def
           split: option.splits if_splits body_result.splits)

lemma apply_applied:
  assumes "applyIndependentCompletionGrade e goalId receiptId seen st au = (st', au', Inr g')"
  obtains r g p d' where
    "lookup_row rr_id receiptId (independentReviewReceipts (au_db au)) = Some r"
    "getGoal goalId st = Some g" "sg_pendingCompletion g = Some p"
    "grade_granted e au g p r" "fence_kept e" "g' = graded_goal e p r g"
    "graded_db e p r (au_db au) = Inr d'"
    "insert_commit (new_commit e p (grade_source p) r g') (au\<lparr>au_db := d'\<rparr>) = Inr au'"
    "st' = store_goal g' st"
proof -
  obtain w where w: "ge_fence e = Some w" "grade_body e goalId receiptId w st au = Body_returns g' au' None"
    "commitSqlite w (ge_filesAtCommit e) (ge_filesBeforeCommit e)" "st' = store_goal g' st"
    by (rule apply_InrD [OF assms])
  obtain r g p where b: "lookup_row rr_id receiptId (independentReviewReceipts (au_db au)) = Some r"
    "getGoal goalId st = Some g" "sg_pendingCompletion g = Some p"
    "check_receipt (au_db au) g p r = Inr ()" "grade_claim e au g p r w = Body_returns g' au' None"
    by (rule grade_body_returnsD [OF w(2)])
  note c = grade_claim_applied [OF b(5)]
  obtain d' where d: "graded_db e p r (au_db au) = Inr d'" "g' = graded_goal e p r g"
    "insert_commit (new_commit e p (grade_source p) r g') (au\<lparr>au_db := d'\<rparr>) = Inr au'"
    "sourceIdentityMatches (grade_source p) (ge_identityAfter e (sg_repoPath g))"
    "assertUncontended w (ge_filesInBody e)"
    using c(4) unfolding settle_Body_returns_iff by blast
  have gr: "grade_granted e au g p r" unfolding grade_granted_def using b(4) c(1,2,3) d(4) by simp
  have fk: "fence_kept e" unfolding fence_kept_def using w(1,3) d(5) by blast
  show thesis by (rule that [OF b(1,2,3) gr fk d(2,1,3) w(4)])
qed

text \<open>
  The review behind a grade: two different succeeded runs of the receipt's task, one a
  review without loss of independence and one the implementation or repair it reviewed, both
  at the exact head of the claim and both with a session of their own.
\<close>

definition independently_reviewed :: "db \<Rightarrow> pending_completion \<Rightarrow> receipt_row \<Rightarrow> bool" where
  "independently_reviewed d p r \<longleftrightarrow>
     (\<exists>review work reviewedId.
        lookup_row r_id (rr_runId r) (agentRuns d) = Some review
        \<and> rr_reviewedRunId r = Some reviewedId
        \<and> lookup_row r_id reviewedId (agentRuns d) = Some work
        \<and> r_id review \<noteq> r_id work \<and> r_taskId review = r_taskId work
        \<and> r_purpose review = Pur_review \<and> r_independenceLoss review = None
        \<and> r_purpose work \<in> {Pur_implementation, Pur_repair}
        \<and> r_status review = Run_succeeded \<and> r_status work = Run_succeeded
        \<and> r_sourceHead review = pc_sourceHead p \<and> r_sourceHead work = pc_sourceHead p
        \<and> present (r_sessionRef review) \<and> present (r_sessionRef work))"

lemma granted_independently_reviewed:
  assumes "grade_granted e au g p r"
  shows "independently_reviewed (au_db au) p r"
proof -
  have c: "pc_sourceHead p = Some (rr_sourceHead r)" "reviewed_matches p r" "canonical_review (au_db au) r"
    "reviewed_run_ok (au_db au) p r"
    using assms unfolding grade_granted_def check_receipt_Inr_iff by blast+
  obtain rv prov where rv: "lookup_row r_id (rr_runId r) (agentRuns (au_db au)) = Some rv"
    "rr_taskId r = Some (r_taskId rv)" "r_purpose rv = Pur_review" "r_independenceLoss rv = None"
    "r_sourceHead rv = Some (rr_sourceHead r)" "present (r_sessionRef rv)" "r_status rv = Run_succeeded"
    using c(3) by (auto simp: canonical_review_def joined_run_def split: option.splits)
  obtain i im where im: "rr_reviewedRunId r = Some i" "lookup_row r_id i (agentRuns (au_db au)) = Some im"
    "canonical_reviewed (au_db au) r im"
    using c(4) by (auto simp: reviewed_run_ok_def reviewed_run_of_def split: option.splits)
  have ne: "i \<noteq> rr_runId r" using c(2) im(1) by (auto simp: reviewed_matches_def split: option.splits)
  have ids: "r_id rv = rr_runId r" "r_id im = i"
    using lookup_row_SomeD [OF rv(1)] lookup_row_SomeD [OF im(2)] by simp_all
  have m: "r_taskId rv = r_taskId im" "r_purpose im \<in> {Pur_implementation, Pur_repair}"
    "r_sourceHead im = Some (rr_sourceHead r)" "present (r_sessionRef im)" "r_status im = Run_succeeded"
    using im(3) rv(2) unfolding canonical_reviewed_def by auto
  show ?thesis
    unfolding independently_reviewed_def
    by (rule exI [of _ rv], rule exI [of _ im], rule exI [of _ i])
       (use rv im(1,2) m c(1) ne ids in simp)
qed

text \<open>
  C4. A grade that is applied rests on an independent review of exactly this claim. The
  receipt is stored, belongs to the goal and was never used before; behind it are two
  different succeeded runs at the head of the claim; the repository had the claim's source
  identity before the grade and again before the commit; a pass also has its task binding
  and promotion proof; and the writer fence was uncontended up to the commit. The effect is
  one new commit, the graded goal, and, for a passed task candidate, the completed task.
\<close>

theorem applied_grade_rests_on_review:
  assumes "applyIndependentCompletionGrade e goalId receiptId seen st au = (st', au', Inr g')"
  shows "\<exists>g p r c. getGoal goalId st = Some g \<and> sg_pendingCompletion g = Some p
     \<and> lookup_row rr_id receiptId (independentReviewReceipts (au_db au)) = Some r
     \<and> rr_goalId r = goalId \<and> rr_pendingClaimedAt r = pc_claimedAt p
     \<and> independently_reviewed (au_db au) p r
     \<and> sourceIdentityMatches (grade_source p) (ge_identityBefore e (sg_repoPath g))
     \<and> sourceIdentityMatches (grade_source p) (ge_identityAfter e (sg_repoPath g))
     \<and> (rr_verdict r = Verdict_pass \<longrightarrow> binding_refused (ge_rsv e) (au_db au) g p = None)
     \<and> fence_kept e
     \<and> g' = graded_goal e p r g \<and> st' = store_goal g' st
     \<and> graded_db e p r (au_db au) = Inr (au_db au')
     \<and> au_commits au' = au_commits au @ [c]
     \<and> sc_receiptId c = receiptId \<and> sc_goalId c = goalId \<and> sc_verdict c = rr_verdict r
     \<and> receiptId \<notin> sc_receiptId ` set (au_commits au)"
proof -
  obtain r g p d' where a: "lookup_row rr_id receiptId (independentReviewReceipts (au_db au)) = Some r"
    "getGoal goalId st = Some g" "sg_pendingCompletion g = Some p"
    "grade_granted e au g p r" "fence_kept e" "g' = graded_goal e p r g"
    "graded_db e p r (au_db au) = Inr d'"
    "insert_commit (new_commit e p (grade_source p) r g') (au\<lparr>au_db := d'\<rparr>) = Inr au'"
    "st' = store_goal g' st"
    by (rule apply_applied [OF assms])
  note gr = a(4) [unfolded grade_granted_def check_receipt_Inr_iff]
  have ids: "rr_id r = receiptId" "sg_id g = goalId"
    using lookup_row_SomeD [OF a(1)] lookup_row_SomeD [OF a(2) [unfolded getGoal_def]] by simp_all
  let ?c = "new_commit e p (grade_source p) r g'"
  have c: "sc_receiptId ?c = receiptId" "sc_goalId ?c = goalId" "sc_verdict ?c = rr_verdict r"
    using ids a(6) by (simp_all add: new_commit_def)
  have ins: "au_commits au' = au_commits au @ [?c]" "au_db au' = d'" "receiptId \<notin> sc_receiptId ` set (au_commits au)"
    using a(8) c(1) unfolding insert_commit_Inr_iff by simp_all
  show ?thesis
    by (rule exI [of _ g], rule exI [of _ p], rule exI [of _ r], rule exI [of _ ?c])
       (use a c ins gr ids granted_independently_reviewed [OF a(4)] in simp)
qed

text \<open>What the body does when it does not apply a grade.\<close>

lemma ensure_Inl: "check_receipt d g p r = Inl x \<Longrightarrow> \<forall>f. x \<noteq> Grade_refused f"
  by (auto simp: check_receipt_def rbind_eq_Inl)

lemma settle_kinds:
  "settle e au g p source r w = Body_throws x \<Longrightarrow> \<forall>f. x \<noteq> Grade_refused f"
  "settle e au g p source r w = Body_loses_fence h f \<Longrightarrow> sg_id h = sg_id g"
  "settle e au g p source r w = Body_returns h au' f' \<Longrightarrow> sg_id h = sg_id g \<and> f' = None"
  by (auto simp: settle_def Let_def split: sum.splits if_splits)

lemma grade_claim_kinds:
  "grade_claim e au g p r w = Body_throws x \<Longrightarrow> \<forall>f. x \<noteq> Grade_refused f"
  "grade_claim e au g p r w = Body_loses_fence h f \<Longrightarrow> sg_id h = sg_id g"
  "grade_claim e au g p r w = Body_returns h au' (Some f) \<Longrightarrow>
     au' = au \<and> sg_id h = sg_id g \<and> sg_status h = Gs_active \<and> sg_pendingCompletion h = None"
  "grade_claim e au g p r w = Body_returns h au' f' \<Longrightarrow> sg_id h = sg_id g"
  by (auto simp: grade_claim_def Let_def dest: settle_kinds split: if_splits option.splits)

lemma getGoal_id: "getGoal i st = Some g \<Longrightarrow> sg_id g = i"
  unfolding getGoal_def using lookup_row_SomeD by fastforce

lemma grade_body_kinds:
  "grade_body e i rid w st au = Body_throws x \<Longrightarrow> \<forall>f. x \<noteq> Grade_refused f"
  "grade_body e i rid w st au = Body_loses_fence h f \<Longrightarrow> sg_id h = i"
  "grade_body e i rid w st au = Body_returns h au' (Some f) \<Longrightarrow>
     au' = au \<and> sg_id h = i \<and> sg_status h = Gs_active \<and> sg_pendingCompletion h = None"
  "grade_body e i rid w st au = Body_returns h au' f' \<Longrightarrow> sg_id h = i"
  by (auto simp: grade_body_def dest: grade_claim_kinds ensure_Inl getGoal_id
           split: option.splits sum.splits)

lemma apply_cases:
  "(\<exists>w. ge_fence e = Some w \<and> applyIndependentCompletionGrade e i rid seen st au = apply_locked e i rid w st au)
   \<or> (\<exists>y. applyIndependentCompletionGrade e i rid seen st au = (st, au, Inl y) \<and> (\<forall>f. y \<noteq> Grade_refused f))"
  by (simp add: applyIndependentCompletionGrade_def split: option.split)

lemma apply_refused:
  assumes "applyIndependentCompletionGrade e goalId receiptId seen st au = (st', au', Inl x)"
  shows "au' = au
     \<and> (if \<exists>f. x = Grade_refused f
        then \<exists>g. sg_id g = goalId \<and> sg_status g = Gs_active \<and> sg_pendingCompletion g = None
               \<and> st' = store_goal g st
        else st' = st)"
proof -
  have lost: ?thesis if "lose_fence e h f st au = (st', au', Inl x)" "sg_id h = goalId" for h f
    using that by (auto simp: lose_fence_def intro: exI [of _ "reopened (ge_now e) fence_lost_text h"])
  have locked: ?thesis if l: "apply_locked e goalId receiptId w st au = (st', au', Inl x)" for w
  proof (cases "grade_body e goalId receiptId w st au")
    case (Body_throws y)
    with l have "st' = st" "au' = au" "y = x" by (simp_all add: apply_locked_def)
    then show ?thesis using grade_body_kinds(1) [OF Body_throws] by simp
  next
    case (Body_loses_fence h f)
    with l show ?thesis using lost grade_body_kinds(2) [OF Body_loses_fence] by (simp add: apply_locked_def)
  next
    case (Body_returns h au2 f)
    show ?thesis
    proof (cases "commitSqlite w (ge_filesAtCommit e) (ge_filesBeforeCommit e)")
      case True
      with l Body_returns obtain y where y: "f = Some y" "st' = store_goal h st" "au' = au2" "x = Grade_refused y"
        by (auto simp: apply_locked_def split: option.splits)
      then show ?thesis using grade_body_kinds(3) [OF Body_returns [unfolded y(1)]] by auto
    next
      case False
      with l Body_returns have "lose_fence e h Writer_contention_at_commit st au = (st', au', Inl x)"
        by (simp add: apply_locked_def)
      then show ?thesis by (rule lost) (rule grade_body_kinds(4) [OF Body_returns])
    qed
  qed
  from apply_cases [of e goalId receiptId seen st au] show ?thesis
    unfolding assms
  proof (elim disjE exE conjE)
    fix w assume "(st', au', Inl x) = apply_locked e goalId receiptId w st au"
    then show ?thesis by (rule locked [OF sym])
  next
    fix y assume "(st', au', Inl x) = (st, au, Inl y)" "\<forall>f. y \<noteq> Grade_refused f"
    then show ?thesis by simp
  qed
qed

text \<open>
  C9. A grade that is refused commits nothing: the database and the commits are unchanged,
  and the state file is either untouched or has this one goal reopened, active and without a
  claim, which happens exactly when the refusal says so.
\<close>

theorem refused_grade_commits_nothing:
  assumes "applyIndependentCompletionGrade e goalId receiptId seen st au = (st', au', Inl x)"
  shows "au' = au
     \<and> (if \<exists>f. x = Grade_refused f
        then \<exists>g. sg_id g = goalId \<and> sg_status g = Gs_active \<and> sg_pendingCompletion g = None
               \<and> st' = store_goal g st
        else st' = st)"
  by (rule apply_refused [OF assms])

section \<open>Crash recovery\<close>

lemma newest_commit_snoc:
  "(\<forall>x \<in> set cs. sc_createdAt x < sc_createdAt c) \<Longrightarrow> newest_commit (cs @ [c]) = Some c"
  by (induction cs) auto

text \<open>
  C8. A crash after the authority commit and before the state file is written loses nothing:
  recovery turns the old state file into exactly the file the grade would have written, and
  run again, or after a completed grade, it changes nothing.
\<close>

theorem crash_recovery_completes_grade:
  assumes ok: "applyIndependentCompletionGrade e goalId receiptId seen st au = (st', au', Inr g')"
    and newest: "\<forall>c \<in> set (au_commits au). sc_goalId c = goalId \<longrightarrow> sc_createdAt c < ge_now e"
    and not_done: "map_option sg_status (getGoal goalId st) \<noteq> Some Gs_done"
  shows "recoverSupervisorCompletion goalId au' st = Inr (st', Some g')
     \<and> recoverSupervisorCompletion goalId au' st' = Inr (st', Some g')"
proof -
  obtain r g p d' where a: "lookup_row rr_id receiptId (independentReviewReceipts (au_db au)) = Some r"
    "getGoal goalId st = Some g" "sg_pendingCompletion g = Some p"
    "grade_granted e au g p r" "fence_kept e" "g' = graded_goal e p r g"
    "graded_db e p r (au_db au) = Inr d'"
    "insert_commit (new_commit e p (grade_source p) r g') (au\<lparr>au_db := d'\<rparr>) = Inr au'"
    "st' = store_goal g' st"
    by (rule apply_applied [OF ok])
  have id: "sg_id g = goalId" using lookup_row_SomeD [OF a(2) [unfolded getGoal_def]] by simp
  let ?c = "new_commit e p (grade_source p) r g'"
  have c: "sc_goalId ?c = goalId" "sc_createdAt ?c = ge_now e" "sc_finalGoal ?c = g'"
    "sc_pendingClaimedAt ?c = pc_claimedAt p" "sc_project ?c = sg_project g" "sc_verdict ?c = rr_verdict r"
    using id a(6) by (simp_all add: new_commit_def)
  have "au_commits au' = au_commits au @ [?c]"
    using a(8) unfolding insert_commit_Inr_iff by simp
  then have "newest_commit (filter (\<lambda>x. sc_goalId x = goalId) (au_commits au')) = Some ?c"
    using newest c(1,2) by (simp add: newest_commit_snoc)
  note rec = recoverSupervisorCompletion_def [of goalId au', unfolded this option.case]
  have g': "sg_id g' = goalId" "sg_project g' = sg_project g" "sg_pendingCompletion g' = None"
    "sg_status g' = (if rr_verdict r = Verdict_pass then Gs_done else Gs_active)"
    using a(6) id by simp_all
  have now: "getGoal goalId st' = Some g'"
    unfolding a(9) put_goal_def getGoal_def g'(1)
    using update_first_found [OF a(2) [unfolded getGoal_def] g'(1)] by simp
  have nd: "sg_status g \<noteq> Gs_done" using not_done a(2) by simp
  have "recoverSupervisorCompletion goalId au' st = Inr (st', Some g')"
    unfolding rec c g'(1,2,3,4) a(2) option.case using a(3,9) nd g'(1) by simp
  moreover have "recoverSupervisorCompletion goalId au' st' = Inr (st', Some g')"
    unfolding rec c g'(1,2,3,4) now option.case by simp
  ultimately show ?thesis by (rule conjI)
qed

section \<open>All interleavings of the store's operations\<close>

text \<open>
  One step per operation of the goal store, on the pair of the state file and the authority.
  The services that share the database are one step: they may change it freely, but receipts
  are append-only (triggers of migration 0022). The patches of \<open>updateGoal\<close> never make a goal
  done: the callers in src/supervisor/runtime.ts and the statuses \<^verbatim>\<open>goal report\<close> accepts
  in src/supervisor/cli.ts are active, running, blocked, failed and paused.
\<close>

type_synonym store_state = "supervisor_state \<times> authority"

inductive goal_step :: "store_state \<Rightarrow> store_state \<Rightarrow> bool" where
  gs_start: "startGoal rsv cdir now uuid i st = Inr (st', g) \<Longrightarrow> goal_step (st, au) (st', au)"
| gs_admit: "admitGoal rsv cdir now uuid ai st = Inr (st', g, b) \<Longrightarrow> goal_step (st, au) (st', au)"
| gs_reconcile: "reconcileStaleGoalOwnership rsv ex kill now ri st = Inr (st', g, b)
    \<Longrightarrow> goal_step (st, au) (st', au)"
| gs_update: "updateGoal now gid patch st = Inr (st', g)
    \<Longrightarrow> (\<And>h. sg_status (patch h) = Gs_done \<Longrightarrow> sg_status h = Gs_done) \<Longrightarrow> goal_step (st, au) (st', au)"
| gs_claim: "claimLiveWorker now gid host sid st = Inr (st', c, b) \<Longrightarrow> goal_step (st, au) (st', au)"
| gs_heartbeat: "goal_step (st, au) (fst (heartbeatLiveWorker now gid host sid st), au)"
| gs_bind: "goal_step (st, au) (fst (bindGoalToProject rsv cdir now gid project repoPath st), au)"
| gs_attach: "goal_step (st, au) (fst (attachSession rsv now uuid ti st), au)"
| gs_authorize: "goal_step (st, au) (fst (authorizeSessionWorkshop rsv cdir now uuid zi st), au)"
| gs_revoke: "goal_step (st, au) (fst (revokeSessionWorkshop rsv cdir now sid' repo' st), au)"
| gs_remove: "goal_step (st, au) (fst (removeGoals ids st), au)"
| gs_grade: "applyIndependentCompletionGrade e gid rid seen st au = (st', au', res)
    \<Longrightarrow> goal_step (st, au) (st', au')"
| gs_crashed_grade: "applyIndependentCompletionGrade e gid rid seen st au = (st', au', res)
    \<Longrightarrow> goal_step (st, au) (st, au')"
| gs_recover: "recoverSupervisorCompletion gid au st = Inr (st', g') \<Longrightarrow> goal_step (st, au) (st', au)"
| gs_services: "independentReviewReceipts d' = independentReviewReceipts (au_db au) @ new
    \<Longrightarrow> goal_step (st, au) (st, au\<lparr>au_db := d'\<rparr>)"

definition store_start :: "store_state \<Rightarrow> bool" where
  "store_start s \<longleftrightarrow> fst s = emptyState \<and> au_commits (snd s) = []"

definition done_ids :: "supervisor_state \<Rightarrow> string set" where
  "done_ids st = sg_id ` {g \<in> set (ss_goals st). sg_status g = Gs_done}"

definition passed_ids :: "authority \<Rightarrow> string set" where
  "passed_ids au = sc_goalId ` {c \<in> set (au_commits au). sc_verdict c = Verdict_pass}"

text \<open>A commit cites a stored receipt of its goal and verdict with two different runs.\<close>

definition commit_backed :: "db \<Rightarrow> completion_commit \<Rightarrow> bool" where
  "commit_backed d c \<longleftrightarrow>
     (\<exists>r \<in> set (independentReviewReceipts d).
        rr_id r = sc_receiptId c \<and> rr_goalId r = sc_goalId c \<and> rr_verdict r = sc_verdict c
        \<and> rr_sourceHead r = sc_sourceHead c \<and> rr_reviewedRunId r \<noteq> Some (rr_runId r))"

definition authority_ok :: "authority \<Rightarrow> bool" where
  "authority_ok au \<longleftrightarrow>
     (\<forall>c \<in> set (au_commits au). projection_ok c \<and> commit_backed (au_db au) c)
     \<and> distinct (map sc_receiptId (au_commits au))"

definition workshop_of :: "string \<Rightarrow> session_attachment \<Rightarrow> bool" where
  "workshop_of p a \<longleftrightarrow> active_workshop a \<and> sa_project a = Some p"

definition sessions_ok :: "supervisor_state \<Rightarrow> bool" where
  "sessions_ok st \<longleftrightarrow> length (ss_sessions st) \<le> 200 \<and> (\<forall>p. count_where (workshop_of p) (ss_sessions st) \<le> 1)"

definition store_inv :: "store_state \<Rightarrow> bool" where
  "store_inv s \<longleftrightarrow> done_ids (fst s) \<subseteq> passed_ids (snd s) \<and> authority_ok (snd s) \<and> sessions_ok (fst s)"

definition store_evolves :: "store_state \<Rightarrow> store_state \<Rightarrow> bool" where
  "store_evolves s s' \<longleftrightarrow> (\<exists>cs. au_commits (snd s') = au_commits (snd s) @ cs)"

subsection \<open>Goals that are done\<close>

lemma done_ids_goals: "ss_goals st' = ss_goals st \<Longrightarrow> done_ids st' = done_ids st"
  by (simp add: done_ids_def)

lemma done_ids_put:
  "done_ids (put_goal P g st) \<subseteq> done_ids st \<union> (if sg_status g = Gs_done then {sg_id g} else {})"
  using update_first_set [of P "\<lambda>_. g" "ss_goals st"] by (auto simp: done_ids_def put_goal_def)

lemma done_ids_replace:
  assumes "getGoal i st = Some g" and "sg_id h = sg_id g" and "sg_status h = Gs_done \<longrightarrow> sg_status g = Gs_done"
  shows "done_ids (put_goal P h st) \<subseteq> done_ids st"
proof -
  have "sg_id g \<in> done_ids st" if "sg_status g = Gs_done"
    using lookup_row_SomeD [OF assms(1) [unfolded getGoal_def]] that by (auto simp: done_ids_def)
  then show ?thesis using done_ids_put [of P h st] assms(2,3) by (auto split: if_splits)
qed

lemma done_ids_snoc: "sg_status g \<noteq> Gs_done \<Longrightarrow> done_ids (st\<lparr>ss_goals := ss_goals st @ [g]\<rparr>) = done_ids st"
  by (auto simp: done_ids_def)

lemma put_goal_sessions [simp]: "ss_sessions (put_goal P g st) = ss_sessions st"
  by (simp add: put_goal_def)

lemma find_open: "find (open_goal rsv cdir p r) gs = Some g \<Longrightarrow> sg_status g \<noteq> Gs_done"
  by (drule find_SomeD) (auto simp: open_goal_def open_statuses_def)

text \<open>Operations that leave the authority alone: no goal becomes done, no session changes.\<close>

definition tame :: "supervisor_state \<Rightarrow> supervisor_state \<Rightarrow> bool" where
  "tame st st' \<longleftrightarrow> done_ids st' \<subseteq> done_ids st \<and> ss_sessions st' = ss_sessions st"

lemma tame_refl: "tame st st"
  by (simp add: tame_def)

lemma tame_put: "sg_status g \<noteq> Gs_done \<Longrightarrow> tame st (put_goal P g st)"
  using done_ids_put [of P g st] by (simp add: tame_def)

lemma tame_replace:
  "getGoal i st = Some g \<Longrightarrow> sg_id h = sg_id g \<Longrightarrow> sg_status h = Gs_done \<longrightarrow> sg_status g = Gs_done
    \<Longrightarrow> tame st (put_goal P h st)"
  using done_ids_replace by (simp add: tame_def)

lemma tame_snoc: "sg_status g \<noteq> Gs_done \<Longrightarrow> tame st (st\<lparr>ss_goals := ss_goals st @ [g]\<rparr>)"
  by (simp add: tame_def done_ids_snoc)

lemma new_goal_active [simp]: "sg_status (new_goal rsv now uuid i c) = Gs_active"
  by (simp add: new_goal_def)

lemma startGoal_tame: "startGoal rsv cdir now uuid i st = Inr (st', g) \<Longrightarrow> tame st st'"
  by (auto simp: startGoal_def rbind_eq_Inr Let_def restarted_def clearSessionContinuityOnOutcomeChange_def
           intro!: tame_put tame_snoc split: option.splits)

lemma resumed_open:
  "resumed now i g = Inr g' \<Longrightarrow> sg_status g \<noteq> Gs_done \<Longrightarrow> sg_status g' \<noteq> Gs_done"
  by (auto simp: resumed_def rbind_eq_Inr refined_def assessed_def Let_def
      clearSessionContinuityOnOutcomeChange_def split: if_splits option.splits)

lemma admitGoal_tame: "admitGoal rsv cdir now uuid i st = Inr (st', g, b) \<Longrightarrow> tame st st'"
  by (auto simp: admitGoal_def rbind_eq_Inr Let_def
           intro!: tame_put tame_snoc split: option.splits dest: find_open resumed_open)

lemma rebound_simps [simp]:
  "sg_id (rebound rsv now i g) = sg_id g"
  "sg_status (rebound rsv now i g) = Gs_done \<longleftrightarrow> sg_status g = Gs_done"
  by (auto simp: rebound_def Let_def)

lemma reconcile_tame: "reconcileStaleGoalOwnership rsv ex kill now i st = Inr (st', g, b) \<Longrightarrow> tame st st'"
  by (auto simp: reconcileStaleGoalOwnership_def Let_def
           intro!: tame_refl tame_replace split: option.splits if_splits)

lemma updateGoal_tame:
  "updateGoal now i patch st = Inr (st', g)
    \<Longrightarrow> (\<And>h. sg_status (patch h) = Gs_done \<Longrightarrow> sg_status h = Gs_done) \<Longrightarrow> tame st st'"
  by (auto simp: updateGoal_def Let_def dest: getGoal_id intro!: tame_replace split: option.splits)

lemma claimLiveWorker_tame: "claimLiveWorker now i host sid st = Inr (st', c, b) \<Longrightarrow> tame st st'"
  by (auto simp: claimLiveWorker_def Let_def
           intro!: tame_refl tame_replace split: option.splits if_splits)

lemma heartbeat_tame: "tame st (fst (heartbeatLiveWorker now i host sid st))"
  by (auto simp: heartbeatLiveWorker_def
           intro!: tame_refl tame_replace split: option.splits)

lemma bind_tame: "tame st (fst (bindGoalToProject rsv cdir now i p r st))"
  by (auto simp: bindGoalToProject_def Let_def
           intro!: tame_refl tame_replace split: option.splits)

lemma remove_tame: "tame st (fst (removeGoals ids st))"
  by (auto simp: removeGoals_def tame_def done_ids_def)

lemma tame_inv: "store_inv (st, au) \<Longrightarrow> tame st st' \<Longrightarrow> store_inv (st', au)"
  by (auto simp: store_inv_def tame_def sessions_ok_def)

subsection \<open>Sessions\<close>

lemma count_keep_last: "count_where P (keep_last n xs) \<le> count_where P xs"
proof -
  have "count_where P xs = count_where P (take (length xs - n) xs) + count_where P (drop (length xs - n) xs)"
    by (metis append_take_drop_id count_where_append)
  then show ?thesis by (simp add: keep_last_def)
qed

lemma length_push: "length (push_session a xs) \<le> 200"
  by (simp add: push_session_def keep_last_def)

lemma count_push: "count_where P (push_session a xs) \<le> count_where P xs + (if P a then 1 else 0)"
  using count_keep_last [of P 199 xs] by (simp add: push_session_def count_where_append count_where_Cons)

lemma active_revoked [simp]: "\<not> active_workshop (revoked_at now a)"
  by (auto simp: revoked_at_def active_workshop_def split: option.splits)

lemma workshop_revoked: "\<not> workshop_of p (revoked_at now a)"
  by (simp add: workshop_of_def)

lemma count_revoked: "count_where (workshop_of p) (update_where Q (revoked_at now) xs) \<le> count_where (workshop_of p) xs"
  by (induction xs) (auto simp: count_where_Cons workshop_revoked)

lemma count_superseded:
  "count_where (workshop_of (az_project i)) (update_where (superseded_session rsv cdir i) (revoked_at now) xs) = 0"
  by (induction xs)
     (auto simp: count_where_Cons workshop_revoked superseded_session_def workshop_of_def)

lemma attach_sessions: "sessions_ok st \<Longrightarrow> sessions_ok (fst (attachSession rsv now uuid i st))"
  using count_push length_push
  by (fastforce simp: sessions_ok_def attachSession_def Let_def workshop_of_def active_workshop_def intro: order_trans)

lemma revoke_sessions: "sessions_ok st \<Longrightarrow> sessions_ok (fst (revokeSessionWorkshop rsv cdir now s r st))"
  using count_revoked
  by (fastforce simp: sessions_ok_def revokeSessionWorkshop_def Let_def length_update_where intro: order_trans)

lemma authorize_sessions:
  assumes "sessions_ok st"
  shows "sessions_ok (fst (authorizeSessionWorkshop rsv cdir now uuid i st))"
proof -
  let ?xs = "update_where (superseded_session rsv cdir i) (revoked_at now) (ss_sessions st)"
  let ?a = "snd (authorizeSessionWorkshop rsv cdir now uuid i st)"
  have st': "ss_sessions (fst (authorizeSessionWorkshop rsv cdir now uuid i st)) = push_session ?a ?xs"
    and a: "workshop_of p ?a \<longleftrightarrow> p = az_project i" for p
    by (auto simp: authorizeSessionWorkshop_def Let_def workshop_of_def active_workshop_def)
  have "count_where (workshop_of p) (push_session ?a ?xs) \<le> 1" for p
  proof (cases "p = az_project i")
    case True
    then show ?thesis using count_push [of "workshop_of p" ?a ?xs] count_superseded by (simp split: if_splits)
  next
    case False
    then have "count_where (workshop_of p) (push_session ?a ?xs) \<le> count_where (workshop_of p) ?xs"
      using count_push [of "workshop_of p" ?a ?xs] a by simp
    also have "\<dots> \<le> count_where (workshop_of p) (ss_sessions st)" by (rule count_revoked)
    also have "\<dots> \<le> 1" using assms by (simp add: sessions_ok_def)
    finally show ?thesis .
  qed
  then show ?thesis unfolding sessions_ok_def st' using length_push by blast
qed

lemma session_goals:
  "done_ids (fst (attachSession rsv now uuid ti st)) = done_ids st"
  "done_ids (fst (authorizeSessionWorkshop rsv cdir now uuid zi st)) = done_ids st"
  "done_ids (fst (revokeSessionWorkshop rsv cdir now s r st)) = done_ids st"
  by (simp_all add: attachSession_def authorizeSessionWorkshop_def revokeSessionWorkshop_def Let_def done_ids_def)

subsection \<open>The authority\<close>

lemma graded_db_receipts:
  "graded_db e p r d = Inr d' \<Longrightarrow> independentReviewReceipts d' = independentReviewReceipts d"
  by (auto simp: graded_db_def complete_task_def rbind_eq_Inr
           dest!: update_tasks_InrD split: if_splits option.splits candidate_record.splits)

lemma commit_backed_more:
  "commit_backed d c \<Longrightarrow> set (independentReviewReceipts d) \<subseteq> set (independentReviewReceipts d') \<Longrightarrow> commit_backed d' c"
  unfolding commit_backed_def by blast

lemma authority_ok_db:
  "authority_ok au \<Longrightarrow> set (independentReviewReceipts (au_db au)) \<subseteq> set (independentReviewReceipts d')
    \<Longrightarrow> authority_ok (au\<lparr>au_db := d'\<rparr>)"
  by (auto simp: authority_ok_def intro: commit_backed_more)

lemma authorised_backed: "commit_authorised d c \<Longrightarrow> commit_backed d c"
  unfolding commit_authorised_def commit_backed_def
  by (auto split: option.splits dest!: lookup_row_SomeD)

text \<open>What a grade does to the authority, in one case split.\<close>

lemma apply_authority:
  assumes "applyIndependentCompletionGrade e gid rid seen st au = (st', au', res)"
  obtains (kept) "au' = au" "done_ids st' \<subseteq> done_ids st"
  | (committed) g' c where "res = Inr g'" "st' = store_goal g' st" "sg_id g' = gid"
      "sg_status g' = Gs_done \<longrightarrow> sc_verdict c = Verdict_pass" "sc_goalId c = gid"
      "au_commits au' = au_commits au @ [c]" "projection_ok c" "commit_backed (au_db au') c"
      "sc_receiptId c \<notin> sc_receiptId ` set (au_commits au)"
      "independentReviewReceipts (au_db au') = independentReviewReceipts (au_db au)"
proof (cases res)
  case (Inl x)
  have "au' = au \<and> done_ids st' \<subseteq> done_ids st"
    using apply_refused [OF assms [unfolded Inl]] done_ids_put
    by (fastforce split: if_splits)
  then show thesis using kept by blast
next
  case (Inr g')
  obtain r g p d' where a: "getGoal gid st = Some g" "g' = graded_goal e p r g"
    "graded_db e p r (au_db au) = Inr d'"
    "insert_commit (new_commit e p (grade_source p) r g') (au\<lparr>au_db := d'\<rparr>) = Inr au'"
    "st' = store_goal g' st"
    by (rule apply_applied [OF assms [unfolded Inr]])
  let ?c = "new_commit e p (grade_source p) r g'"
  have ins: "au' = au\<lparr>au_db := d', au_commits := au_commits au @ [?c]\<rparr>" "projection_ok ?c"
    "commit_authorised d' ?c" "sc_receiptId ?c \<notin> sc_receiptId ` set (au_commits au)"
    using a(4) unfolding insert_commit_Inr_iff by simp_all
  have id: "sg_id g' = gid" using getGoal_id [OF a(1)] a(2) by simp
  show thesis
    by (rule committed [of g' ?c])
       (use ins id a(2,5) Inr authorised_backed [OF ins(3)] graded_db_receipts [OF a(3)] in
         \<open>simp_all add: new_commit_def split: if_splits\<close>)
qed

lemma authority_ok_snoc:
  assumes "authority_ok au" "au_commits au' = au_commits au @ [c]" "projection_ok c"
    "commit_backed (au_db au') c" "sc_receiptId c \<notin> sc_receiptId ` set (au_commits au)"
    "independentReviewReceipts (au_db au') = independentReviewReceipts (au_db au)"
  shows "authority_ok au'"
proof -
  have "commit_backed (au_db au') x" if "commit_backed (au_db au) x" for x
    using that assms(6) by (simp add: commit_backed_def)
  then show ?thesis using assms(1-5) by (auto simp: authority_ok_def)
qed

lemma grade_inv:
  assumes "store_inv (st, au)" and "applyIndependentCompletionGrade e gid rid seen st au = (st', au', res)"
  shows "store_inv (st', au') \<and> store_inv (st, au') \<and> store_evolves (st, au) (st', au')"
proof -
  have i: "done_ids st \<subseteq> passed_ids au" "authority_ok au" "sessions_ok st"
    using assms(1) by (simp_all add: store_inv_def)
  have ss: "ss_sessions st' = ss_sessions st"
    using assms(2) unfolding applyIndependentCompletionGrade_def apply_locked_def lose_fence_def
    by (auto split: option.splits if_splits body_result.splits)
  show ?thesis
    using assms(2)
  proof (cases rule: apply_authority)
    case kept
    then show ?thesis using i ss by (auto simp: store_inv_def sessions_ok_def store_evolves_def)
  next
    case (committed g' c)
    have "passed_ids au \<subseteq> passed_ids au'" using committed(6) by (auto simp: passed_ids_def)
    moreover have "sg_status g' = Gs_done \<Longrightarrow> gid \<in> passed_ids au'"
      using committed(4,5,6) by (auto simp: passed_ids_def)
    moreover have "done_ids st' \<subseteq> done_ids st \<union> (if sg_status g' = Gs_done then {gid} else {})"
      unfolding committed(2) committed(3) [symmetric] by (rule done_ids_put)
    moreover have "authority_ok au'" by (rule authority_ok_snoc [OF i(2) committed(6-10)])
    ultimately show ?thesis
      using i ss committed(6) by (auto simp: store_inv_def sessions_ok_def store_evolves_def split: if_splits)
  qed
qed

lemma newest_commit_mem: "newest_commit cs = Some c \<Longrightarrow> c \<in> set cs"
  by (induction cs) (auto split: option.splits if_splits)

lemma recover_inv:
  assumes "store_inv (st, au)" and "recoverSupervisorCompletion gid au st = Inr (st', g')"
  shows "store_inv (st', au)"
proof (cases "newest_commit (filter (\<lambda>c. sc_goalId c = gid) (au_commits au))")
  case None
  with assms show ?thesis by (simp add: recoverSupervisorCompletion_def)
next
  case (Some c)
  have c: "c \<in> set (au_commits au)" "sc_goalId c = gid" using newest_commit_mem [OF Some] by simp_all
  consider "st' = st" | "st' = store_goal (sc_finalGoal c) st" "sg_id (sc_finalGoal c) = gid"
      "sg_status (sc_finalGoal c) = Gs_done \<longrightarrow> sc_verdict c = Verdict_pass"
    using assms(2) Some by (auto simp: recoverSupervisorCompletion_def split: if_splits option.splits)
  then show ?thesis
  proof cases
    case 1
    then show ?thesis using assms(1) by simp
  next
    case 2
    have "sg_status (sc_finalGoal c) = Gs_done \<Longrightarrow> gid \<in> passed_ids au"
      using c 2(3) by (auto simp: passed_ids_def)
    then show ?thesis
      using assms(1) 2(1,2) done_ids_put [of _ "sc_finalGoal c" st]
      by (fastforce simp: store_inv_def sessions_ok_def split: if_splits)
  qed
qed

lemma services_inv:
  assumes "store_inv (st, au)" and "independentReviewReceipts d' = independentReviewReceipts (au_db au) @ new"
  shows "store_inv (st, au\<lparr>au_db := d'\<rparr>)"
  using assms authority_ok_db [of au d'] by (auto simp: store_inv_def passed_ids_def)

lemma quiet_step: "store_inv (st', au) \<Longrightarrow> store_inv (st', au) \<and> store_evolves (st, au) (st', au)"
  by (simp add: store_evolves_def)

lemma tame_step: "tame st st' \<Longrightarrow> store_inv (st, au) \<Longrightarrow> store_inv (st', au) \<and> store_evolves (st, au) (st', au)"
  by (rule quiet_step, rule tame_inv)

lemma session_step:
  "done_ids st' = done_ids st \<Longrightarrow> (sessions_ok st \<Longrightarrow> sessions_ok st') \<Longrightarrow> store_inv (st, au)
    \<Longrightarrow> store_inv (st', au) \<and> store_evolves (st, au) (st', au)"
  by (simp add: store_inv_def store_evolves_def)

lemma goal_step_inv: "goal_step s s' \<Longrightarrow> store_inv s \<Longrightarrow> store_inv s' \<and> store_evolves s s'"
proof (induction rule: goal_step.induct)
  case gs_start
  show ?case by (rule tame_step [OF startGoal_tame [OF gs_start(1)] gs_start(2)])
next
  case gs_admit
  show ?case by (rule tame_step [OF admitGoal_tame [OF gs_admit(1)] gs_admit(2)])
next
  case gs_reconcile
  show ?case by (rule tame_step [OF reconcile_tame [OF gs_reconcile(1)] gs_reconcile(2)])
next
  case gs_update
  show ?case by (rule tame_step [OF updateGoal_tame [OF gs_update(1,2)] gs_update(3)])
next
  case gs_claim
  show ?case by (rule tame_step [OF claimLiveWorker_tame [OF gs_claim(1)] gs_claim(2)])
next
  case gs_heartbeat
  show ?case by (rule tame_step [OF heartbeat_tame gs_heartbeat])
next
  case gs_bind
  show ?case by (rule tame_step [OF bind_tame gs_bind])
next
  case gs_attach
  show ?case by (rule session_step [OF session_goals(1) attach_sessions gs_attach])
next
  case gs_authorize
  show ?case by (rule session_step [OF session_goals(2) authorize_sessions gs_authorize])
next
  case gs_revoke
  show ?case by (rule session_step [OF session_goals(3) revoke_sessions gs_revoke])
next
  case gs_remove
  show ?case by (rule tame_step [OF remove_tame gs_remove])
next
  case gs_grade
  show ?case using grade_inv [OF gs_grade(2,1)] by blast
next
  case gs_crashed_grade
  show ?case using grade_inv [OF gs_crashed_grade(2,1)] by (simp add: store_evolves_def)
next
  case gs_recover
  show ?case by (rule quiet_step [OF recover_inv [OF gs_recover(2,1)]])
next
  case gs_services
  show ?case using services_inv [OF gs_services(2,1)] by (simp add: store_evolves_def)
qed

interpretation gst: invariant_system store_start goal_step store_inv store_evolves
proof unfold_locales
  show "store_start s \<Longrightarrow> store_inv s" for s
    by (cases s) (auto simp: store_start_def store_inv_def emptyState_def done_ids_def authority_ok_def sessions_ok_def)
qed (auto simp: store_evolves_def dest: goal_step_inv)

text \<open>
  C5. In every reachable state, whatever the interleaving of the operations, of crashed
  grades and of the services on the database: a goal that is done has a committed passing
  grade, every commit cites a stored receipt of its goal with two different runs, and no
  receipt is used by two commits. Commits are append-only along every run.
\<close>

theorem done_goals_were_graded:
  assumes "gst.reachable s" and "goal_step\<^sup>*\<^sup>* s s'"
  shows "(\<forall>g \<in> set (ss_goals (fst s)). sg_status g = Gs_done \<longrightarrow>
            (\<exists>c \<in> set (au_commits (snd s)). sc_goalId c = sg_id g \<and> sc_verdict c = Verdict_pass
               \<and> commit_backed (au_db (snd s)) c))
     \<and> distinct (map sc_receiptId (au_commits (snd s)))
     \<and> (\<exists>cs. au_commits (snd s') = au_commits (snd s) @ cs)"
proof -
  have i: "done_ids (fst s) \<subseteq> passed_ids (snd s)" "authority_ok (snd s)"
    using gst.reachable_inv [OF assms(1)] by (simp_all add: store_inv_def)
  have "\<exists>c \<in> set (au_commits (snd s)). sc_goalId c = sg_id g \<and> sc_verdict c = Verdict_pass
               \<and> commit_backed (au_db (snd s)) c"
    if "g \<in> set (ss_goals (fst s))" "sg_status g = Gs_done" for g
  proof -
    have "sg_id g \<in> passed_ids (snd s)" using i(1) that by (auto simp: done_ids_def)
    then show ?thesis using i(2) by (auto simp: passed_ids_def authority_ok_def)
  qed
  moreover have "store_evolves s s'" by (rule gst.reachable_evolves [OF assms])
  ultimately show ?thesis using i(2) by (auto simp: authority_ok_def store_evolves_def)
qed

text \<open>
  Workshop authority is exclusive: in every reachable state a project has at most one
  session with an authorisation that is not revoked, and at most 200 sessions are kept.
\<close>

theorem workshop_authority_exclusive:
  assumes "gst.reachable s"
  shows "count_where (\<lambda>a. active_workshop a \<and> sa_project a = Some p) (ss_sessions (fst s)) \<le> 1
     \<and> length (ss_sessions (fst s)) \<le> 200"
  using gst.reachable_inv [OF assms] by (simp add: store_inv_def sessions_ok_def workshop_of_def [abs_def])

section \<open>Ownership\<close>

text \<open>
  Ownership of a goal moves only from an abandoned worktree. A reconciliation rebinds
  the goal exactly when the project is the same, the path another, the old worktree is gone,
  no cycle process is alive, no worker lease is held and no other session is freshly at
  work; it then keeps the objective and a pending claim, and otherwise it changes nothing.
\<close>

theorem ownership_moves_only_when_abandoned:
  assumes "reconcileStaleGoalOwnership rsv exists_path kill now i st = Inr (st', g', moved)"
  shows "\<exists>g. getGoal (rc_goalId i) st = Some g
     \<and> (moved \<longleftrightarrow> sg_project g = rc_project i \<and> rsv (sg_repoPath g) \<noteq> rsv (rc_repoPath i)
           \<and> \<not> exists_path (rsv (sg_repoPath g))
           \<and> (\<forall>pid. sg_activePid g = Some pid \<longrightarrow> \<not> pidAlive kill pid)
           \<and> \<not> rc_hasActiveWorkerLease i
           \<and> (\<forall>c. sg_liveWorker g = Some c \<longrightarrow>
                held_by (rc_host i) (rc_sessionId i) c \<or> now - lw_heartbeatAt c > LIVE_WORKER_STALE_MS))
     \<and> (if moved
        then st' = store_goal g' st \<and> sg_repoPath g' = rsv (rc_repoPath i) \<and> sg_activePid g' = None
           \<and> sg_goal g' = sg_goal g \<and> sg_pendingCompletion g' = sg_pendingCompletion g
           \<and> (sg_status g' = Gs_done \<longleftrightarrow> sg_status g = Gs_done)
           \<and> map_option or_previousRepoPath (sg_lastOwnershipReconciliation g') = Some (rsv (sg_repoPath g))
        else st' = st \<and> g' = g)"
proof -
  obtain g where g: "getGoal (rc_goalId i) st = Some g"
    using assms by (auto simp: reconcileStaleGoalOwnership_def split: option.splits)
  have kept: "\<not> ownership_kept rsv exists_path kill now i g \<longleftrightarrow>
     sg_project g = rc_project i \<and> rsv (sg_repoPath g) \<noteq> rsv (rc_repoPath i)
           \<and> \<not> exists_path (rsv (sg_repoPath g))
           \<and> (\<forall>pid. sg_activePid g = Some pid \<longrightarrow> \<not> pidAlive kill pid)
           \<and> \<not> rc_hasActiveWorkerLease i
           \<and> (\<forall>c. sg_liveWorker g = Some c \<longrightarrow>
                held_by (rc_host i) (rc_sessionId i) c \<or> now - lw_heartbeatAt c > LIVE_WORKER_STALE_MS)"
    by (auto simp: ownership_kept_def held_by_another_def isLiveWorkerFresh_def split: option.splits)
  show ?thesis
  proof (cases "ownership_kept rsv exists_path kill now i g")
    case True
    with assms g have "st' = st" "g' = g" "\<not> moved" by (simp_all add: reconcileStaleGoalOwnership_def)
    with g True kept show ?thesis by simp
  next
    case False
    with assms g have "st' = store_goal g' st" "g' = rebound rsv now i g" "moved"
      by (auto simp: reconcileStaleGoalOwnership_def Let_def)
    with g False kept show ?thesis by (simp add: rebound_def Let_def)
  qed
qed

section \<open>The writer fence\<close>

text \<open>What other processes do to the fence files: attempts to acquire, and releases.\<close>

datatype fence_event = Ev_attempt instant int string | Ev_release writer_fence

primrec fence_event_step :: "(int \<Rightarrow> bool) \<Rightarrow> fence_files \<Rightarrow> fence_event \<Rightarrow> fence_files" where
  "fence_event_step alive files (Ev_attempt now pid token) =
     fst (tryAcquireRepositoryWriterFence id alive now pid token [] files)"
| "fence_event_step alive files (Ev_release w) = fst (release w files)"

definition fence_run :: "(int \<Rightarrow> bool) \<Rightarrow> fence_event list \<Rightarrow> fence_files \<Rightarrow> fence_files" where
  "fence_run alive evs files = foldl (fence_event_step alive) files evs"

primrec of_other :: "writer_fence \<Rightarrow> fence_event \<Rightarrow> bool" where
  "of_other w (Ev_attempt now pid token) = True"
| "of_other w (Ev_release v) = (wf_token v \<noteq> wf_token w)"

primrec is_attempt :: "fence_event \<Rightarrow> bool" where
  "is_attempt (Ev_attempt now pid token) = True"
| "is_attempt (Ev_release v) = False"

lemma fence_run_owned:
  assumes "alive (wf_pid w)" and "owns_lock w files" and "list_all (of_other w) evs"
  shows "owns_lock w (fence_run alive evs files)
     \<and> ff_contended (fence_run alive evs files) = (ff_contended files \<or> list_ex is_attempt evs)"
  using assms(2,3)
proof (induction evs arbitrary: files)
  case Nil
  then show ?case by (simp add: fence_run_def)
next
  case (Cons ev evs)
  obtain m where m: "ff_lock files = Some (Lock_owner (wf_pid w) (wf_token w), m)"
    using Cons.prems(1) by (cases "ff_lock files") (auto simp: owns_lock_def)
  have one: "owns_lock w (fence_event_step alive files ev)
      \<and> ff_contended (fence_event_step alive files ev) = (ff_contended files \<or> is_attempt ev)"
  proof (cases ev)
    case (Ev_attempt now pid token)
    then show ?thesis
      using m assms(1) by (simp add: tryAcquireRepositoryWriterFence_def lock_held_def owns_lock_def)
  next
    case (Ev_release v)
    then show ?thesis using m Cons.prems(2) by (auto simp: release_def owns_lock_def)
  qed
  have "fence_run alive (ev # evs) files = fence_run alive evs (fence_event_step alive files ev)"
    by (simp add: fence_run_def)
  then show ?case using Cons.IH [of "fence_event_step alive files ev"] one Cons.prems(2) by auto
qed


section \<open>A graded goal\<close>

text \<open>
  A concrete run: a goal is started, a worker claims it complete, and the stored receipt of
  an independent review grades it. It instantiates the theorems above.
\<close>

definition sample_digest :: string where "sample_digest = replicate 64 CHR ''b''"

definition sample_identity :: source_identity where
  "sample_identity = \<lparr>so_head = sample_head, so_treeDigest = sample_digest, so_frozenAt = 1\<rparr>"

definition sample_agent_run :: "string \<Rightarrow> string \<Rightarrow> run_purpose \<Rightarrow> string \<Rightarrow> run_row" where
  "sample_agent_run i provider purpose session =
     (sample_run i purpose)\<lparr>r_providerId := provider, r_sessionRef := Some session\<rparr>"

definition sample_reviewer :: provider_row where
  "sample_reviewer =
     \<lparr>ap_id = ''prov_2'', ap_name = ''codex'', ap_accountLabel = ''default'', ap_executable = None, ap_version = None,
      ap_credentialFingerprint = None, ap_lastDiscoveredAt = None, ap_createdAt = 1, ap_updatedAt = 1\<rparr>"

definition sample_review_receipt :: receipt_row where
  "sample_review_receipt =
     sample_receipt\<lparr>rr_id := ''receipt_1'', rr_project := ''repo'', rr_goalId := ''goal_1'', rr_runId := ''run_2'',
       rr_reviewedRunId := Some ''run_1'', rr_reviewSessionRef := Some ''s2'', rr_reviewedSessionRef := Some ''s1'',
       rr_providerId := Some ''prov_2'', rr_providerAccountLabel := Some ''default'', rr_dispatchId := ''d1'',
       rr_provider := ''codex'', rr_sourceTreeDigest := Some sample_digest, rr_pendingClaimedAt := 5,
       rr_reviewStartedAt := 6\<rparr>"

definition sample_authority :: authority where
  "sample_authority =
     \<lparr>au_db = empty_db\<lparr>agentProviders := [sample_reviewer],
                       agentRuns := [sample_agent_run ''run_1'' ''prov_1'' Pur_implementation ''s1'',
                                     sample_agent_run ''run_2'' ''prov_2'' Pur_review ''s2''],
                       independentReviewReceipts := [sample_review_receipt]\<rparr>,
      au_commits = []\<rparr>"

definition sample_completion_claim :: pending_completion where
  "sample_completion_claim =
     \<lparr>pc_summary = ''done'', pc_coordinator = Host_claude, pc_claimedAt = 5, pc_taskId = None,
      pc_promotionCheckedAt = None, pc_promotionEvidence = None, pc_promotionContract = None,
      pc_sourceHead = Some sample_head, pc_sourceTreeDigest = Some sample_digest,
      pc_candidate = Some (Cand_no_task sample_identity),
      pc_reviewedRun = Some \<lparr>vr_taskId = ''t'', vr_runId = ''run_1'', vr_provider = Host_claude,
                             vr_providerId = ''prov_1'', vr_providerAccountLabel = ''default''\<rparr>,
      pc_writing = None,
      pc_reviewDispatch = Some \<lparr>vd_id = ''d1'', vd_provider = Host_codex, vd_capacityKey = None,
                                vd_providerId = Some ''prov_2'', vd_providerAccountLabel = Some ''default'',
                                vd_taskId = Some ''t'', vd_runId = Some ''run_2'', vd_startedAt = 6\<rparr>,
      pc_reviewAttempts = None\<rparr>"

definition sample_start :: start_input where
  "sample_start =
     \<lparr>sti_project = ''repo'', sti_repoPath = ''/r'', sti_goal = ''fix it'', sti_autonomous = False,
      sti_preferredCoordinator = None, sti_pinnedCoordinator = None, sti_requiredOperations = None,
      sti_admissionRiskAssessment = Some unavailable_assessment\<rparr>"

definition claim_done :: "supervisor_goal \<Rightarrow> supervisor_goal" where
  "claim_done g = g\<lparr>sg_status := Gs_running, sg_pendingCompletion := Some sample_completion_claim\<rparr>"

definition sample_contract :: promotion_contract where
  "sample_contract =
     \<lparr>sc_review = Rev_independent, sc_materialRiskCriteria = [''authority'', ''blast radius''],
      sc_broaderValidationTriggers = [Trig_blast_radius], sc_repositoryPolicyRequiresBroadValidation = False\<rparr>"

definition sample_goal :: supervisor_goal where
  "sample_goal = new_goal id 1 ''goal_1'' sample_start sample_contract"

definition sample_claimed :: supervisor_state where
  "sample_claimed = \<lparr>ss_goals = [(claim_done sample_goal)\<lparr>sg_updatedAt := 5\<rparr>], ss_sessions = []\<rparr>"

definition sample_fence :: writer_fence where
  "sample_fence = \<lparr>wf_repoPath = ''/r'', wf_pid = 42, wf_token = ''t'', wf_active = True\<rparr>"

definition sample_files :: fence_files where
  "sample_files = \<lparr>ff_lock = Some (Lock_owner 42 ''t'', 7), ff_contended = False\<rparr>"

definition sample_grade_env :: grade_env where
  "sample_grade_env =
     \<lparr>ge_rsv = id, ge_redact = id, ge_show = (\<lambda>_. []), ge_clock = \<lparr>svc_now = 9, sql_now = 9\<rparr>, ge_uuid = ''u'',
      ge_fence = Some sample_fence, ge_identityBefore = (\<lambda>_. Some sample_identity),
      ge_identityAfter = (\<lambda>_. Some sample_identity), ge_filesInBody = sample_files, ge_filesAtCommit = sample_files,
      ge_filesBeforeCommit = sample_files\<rparr>"

definition sample_goal_graded :: grade_outcome where
  "sample_goal_graded =
     applyIndependentCompletionGrade sample_grade_env ''goal_1'' ''receipt_1'' sample_claimed sample_claimed sample_authority"

lemma sample_grade_values:
  shows sample_started: "startGoal id (\<lambda>_. None) 1 ''goal_1'' sample_start emptyState = Inr (\<lparr>ss_goals = [sample_goal], ss_sessions = []\<rparr>, sample_goal)"
    and sample_claimed: "updateGoal 5 ''goal_1'' claim_done \<lparr>ss_goals = [sample_goal], ss_sessions = []\<rparr> = Inr (sample_claimed, (claim_done sample_goal)\<lparr>sg_updatedAt := 5\<rparr>)"
    and sample_goal_grade: "case sample_goal_graded of (st', au', Inr g') \<Rightarrow> map sg_status (ss_goals st') = [Gs_done] | _ \<Rightarrow> False"
    and sample_refused: "snd (snd (applyIndependentCompletionGrade (sample_grade_env\<lparr>ge_fence := None\<rparr>) ''goal_1'' ''receipt_1''
         sample_claimed sample_claimed sample_authority)) = Inl Grade_concurrent_writer"
    and sample_receipt_row: "lookup_row rr_id ''receipt_1'' (independentReviewReceipts (au_db sample_authority)) = Some sample_review_receipt"
    and sample_not_done: "map_option sg_status (getGoal ''goal_1'' sample_claimed) \<noteq> Some Gs_done"
  by code_simp+

lemma sample_grade_result:
  obtains st' au' g' where "sample_goal_graded = (st', au', Inr g')" "map sg_status (ss_goals st') = [Gs_done]"
proof -
  obtain st' au' res where s: "sample_goal_graded = (st', au', res)" by (cases sample_goal_graded)
  note c = sample_goal_grade [unfolded s prod.case]
  show thesis
  proof (cases res)
    case (Inl x)
    with c show ?thesis by simp
  next
    case (Inr g')
    with c have "map sg_status (ss_goals st') = [Gs_done]" by simp
    with s Inr show ?thesis by (intro that) simp_all
  qed
qed

lemma sample_reachable: "gst.reachable (sample_claimed, sample_authority)"
proof -
  let ?started = "\<lparr>ss_goals = [sample_goal], ss_sessions = []\<rparr>"
  have start: "store_start (emptyState, sample_authority)"
    by (simp add: store_start_def sample_authority_def)
  have one: "goal_step (emptyState, sample_authority) (?started, sample_authority)"
    by (rule gs_start [OF sample_started])
  have two: "goal_step (?started, sample_authority) (sample_claimed, sample_authority)"
    by (rule gs_update [OF sample_claimed]) (simp add: claim_done_def)
  have "goal_step\<^sup>*\<^sup>* (emptyState, sample_authority) (sample_claimed, sample_authority)"
    using one two by (meson rtranclp.simps)
  with start show ?thesis unfolding gst.reachable_def by blast
qed

lemma sample_graded_reachable:
  assumes "sample_goal_graded = (st', au', Inr g')"
  shows "gst.reachable (st', au')"
proof -
  have "goal_step (sample_claimed, sample_authority) (st', au')"
    by (rule gs_grade [OF assms [unfolded sample_goal_graded_def]])
  with sample_reachable show ?thesis unfolding gst.reachable_def by (meson rtranclp.simps)
qed

theorem applied_grade_rests_on_review_witness:
  "\<exists>st' au' g' p. sample_goal_graded = (st', au', Inr g') \<and> independently_reviewed (au_db sample_authority) p sample_review_receipt"
proof -
  obtain st' au' g' where s: "sample_goal_graded = (st', au', Inr g')" by (rule sample_grade_result)
  show ?thesis using sample_receipt_row applied_grade_rests_on_review [OF s [unfolded sample_goal_graded_def]] s by auto
qed

theorem refused_grade_commits_nothing_witness:
  "\<exists>x. applyIndependentCompletionGrade (sample_grade_env\<lparr>ge_fence := None\<rparr>) ''goal_1'' ''receipt_1''
         sample_claimed sample_claimed sample_authority = (sample_claimed, sample_authority, Inl x)"
proof -
  obtain st' au' where s: "applyIndependentCompletionGrade (sample_grade_env\<lparr>ge_fence := None\<rparr>) ''goal_1'' ''receipt_1''
         sample_claimed sample_claimed sample_authority = (st', au', Inl Grade_concurrent_writer)"
    using sample_refused by (metis prod.collapse)
  show ?thesis using refused_grade_commits_nothing [OF s] s by simp
qed

theorem crash_recovery_completes_grade_witness:
  "\<exists>st' au' g'. sample_goal_graded = (st', au', Inr g')
     \<and> recoverSupervisorCompletion ''goal_1'' au' sample_claimed = Inr (st', Some g')"
proof -
  obtain st' au' g' where s: "sample_goal_graded = (st', au', Inr g')" by (rule sample_grade_result)
  have newest: "\<forall>c \<in> set (au_commits sample_authority). sc_goalId c = ''goal_1'' \<longrightarrow> sc_createdAt c < ge_now sample_grade_env"
    by (simp add: sample_authority_def)
  from sample_not_done crash_recovery_completes_grade [OF s [unfolded sample_goal_graded_def] newest] s show ?thesis by blast
qed

theorem done_goals_were_graded_witness:
  "\<exists>st' au' g. gst.reachable (st', au') \<and> g \<in> set (ss_goals st') \<and> sg_status g = Gs_done
     \<and> (\<exists>c \<in> set (au_commits au'). sc_goalId c = sg_id g \<and> commit_backed (au_db au') c)"
proof -
  obtain st' au' g' where s: "sample_goal_graded = (st', au', Inr g')" "map sg_status (ss_goals st') = [Gs_done]"
    by (rule sample_grade_result)
  note r = sample_graded_reachable [OF s(1)]
  obtain g where g: "g \<in> set (ss_goals st')" "sg_status g = Gs_done" using s(2) by (cases "ss_goals st'") auto
  show ?thesis using done_goals_were_graded [OF r rtranclp.rtrancl_refl] r g by fastforce
qed

theorem workshop_authority_exclusive_witness:
  "length (ss_sessions sample_claimed) \<le> 200"
  using workshop_authority_exclusive [OF sample_reachable] by simp

theorem ownership_moves_only_when_abandoned_witness:
  "\<exists>st' g'. reconcileStaleGoalOwnership id (\<lambda>_. False) (\<lambda>_. Signal_ESRCH) 10
      \<lparr>rc_goalId = ''goal_1'', rc_project = ''repo'', rc_repoPath = ''/w'', rc_host = ''codex'', rc_sessionId = ''s'',
       rc_hasActiveWorkerLease = False\<rparr> sample_claimed = Inr (st', g', True) \<and> sg_repoPath g' = ''/w''"
proof -
  let ?i = "\<lparr>rc_goalId = ''goal_1'', rc_project = ''repo'', rc_repoPath = ''/w'', rc_host = ''codex'', rc_sessionId = ''s'',
       rc_hasActiveWorkerLease = False\<rparr>"
  have "case reconcileStaleGoalOwnership id (\<lambda>_. False) (\<lambda>_. Signal_ESRCH) 10 ?i sample_claimed of
          Inr (st', g', b) \<Rightarrow> b | _ \<Rightarrow> False"
    by code_simp
  then obtain st' g' where s: "reconcileStaleGoalOwnership id (\<lambda>_. False) (\<lambda>_. Signal_ESRCH) 10 ?i sample_claimed = Inr (st', g', True)"
    by (auto split: sum.splits)
  from ownership_moves_only_when_abandoned [OF s] s show ?thesis by auto
qed


end
