(* ===== verification/Goal_Cycle_Safety.thy ===== *)
theory Goal_Cycle_Safety
  imports Goal_Cycle Goal_Safety
begin

text \<open>
  What a cycle guarantees. Whatever the worker answers and wherever a step throws, a cycle is
  a sequence of operations of the goal store, so its invariants hold after it. A done claim
  is accepted only with a promotion proof, and the loops of a foreground run and of
  inconclusive reviews are bounded.
\<close>

section \<open>A cycle refines the goal store\<close>

text \<open>Operations of the services keep the receipts.\<close>

definition keeps_receipts :: "db \<Rightarrow> db \<Rightarrow> bool" where
  "keeps_receipts d d' \<longleftrightarrow> independentReviewReceipts d' = independentReviewReceipts d"

lemma keeps_refl [intro!]: "keeps_receipts d d"
  by (simp add: keeps_receipts_def)

lemma insert_run_receipts:
  assumes "insert_run ck r d = Inr d'"
  shows "keeps_receipts d d'"
proof -
  obtain rows where r: "(if paid_billing (r_billingMode r) then
      rbind (update_decisions
               (\<lambda>dec. Some (d_id dec) = r_paidUsageDecisionId r \<and> d_consumedByRunId dec = None)
               (\<lambda>dec. dec\<lparr>d_consumedByRunId := Some (r_id r)\<rparr>) (d\<lparr>agentRuns := rows\<rparr>))
        (\<lambda>(d'', n). if n \<noteq> 1 then Inl (Constraint_failed ''agent_runs_consume_paid_decision'') else Inr d'')
      else Inr (d\<lparr>agentRuns := rows\<rparr>)) = Inr d'"
    using assms unfolding insert_run_def rbind_eq_Inr Let_def by blast
  show ?thesis
  proof (cases "paid_billing (r_billingMode r)")
    case True
    with r obtain n where "update_decisions
        (\<lambda>dec. Some (d_id dec) = r_paidUsageDecisionId r \<and> d_consumedByRunId dec = None)
        (\<lambda>dec. dec\<lparr>d_consumedByRunId := Some (r_id r)\<rparr>) (d\<lparr>agentRuns := rows\<rparr>) = Inr (d', n)"
      by (auto simp: rbind_eq_Inr split: if_splits)
    from update_decisions_InrD(1) [OF this] show ?thesis by (simp add: keeps_receipts_def)
  next
    case False
    with r show ?thesis by (auto simp: keeps_receipts_def)
  qed
qed

lemma createRun_receipts: "createRun ck u i d = Inr (d', r) \<Longrightarrow> keeps_receipts d d'"
  by (erule createRun_Inr) (rule insert_run_receipts)

lemma addTask_receipts: "addTask ck u i d = Inr (d', t) \<Longrightarrow> keeps_receipts d d'"
  by (auto simp: addTask_def insertTask_def rbind_eq_Inr Let_def keeps_receipts_def
           dest!: insert_task_InrD split: if_splits)

lemma getOrAddProject_receipts: "getOrAddProject rsv ck u c n p d = Inr (d', i) \<Longrightarrow> keeps_receipts d d'"
  by (auto simp: getOrAddProject_def insert_project_def rbind_eq_Inr Let_def keeps_receipts_def split: option.splits)

lemma record_usages_receipts: "keeps_receipts d (fst (record_usages render ck us d))"
proof (induction us arbitrary: d)
  case (Cons u us)
  show ?case
  proof (cases "recordUsage render ck (fst u) (snd u) d")
    case (Inl x)
    then show ?thesis by (cases u) auto
  next
    case (Inr q)
    then have "keeps_receipts d (fst q)"
      by (cases q) (auto simp: recordUsage_def Let_def rbind_eq_Inr keeps_receipts_def dest!: insert_usage_InrD)
    with Inr Cons.IH [of "fst q"] show ?thesis by (cases u; cases q) (simp add: keeps_receipts_def)
  qed
qed auto

lemma set_status_only_receipts: "keeps_receipts d (fst (set_status_only ck i s ref d))"
  by (auto simp: set_status_only_def cas_run_def keeps_receipts_def dest!: update_runs_InrD split: sum.splits)

lemma setRunStatus_receipts: "keeps_receipts d (fst (setRunStatus render ck us i s ref usage d))"
proof -
  have "keeps_receipts d (fst (case record_usages render ck xs d of
      (d1, Inl e) \<Rightarrow> (d1, Inl e) | (d1, Inr y) \<Rightarrow> set_status_only ck i s ref d1))" for xs
    using record_usages_receipts [of d render ck xs] set_status_only_receipts [of "fst (record_usages render ck xs d)" ck i s ref]
    by (auto simp: keeps_receipts_def split: prod.splits sum.splits)
  then show ?thesis
    unfolding setRunStatus_def Let_def
    by (auto simp: set_status_only_receipts split: option.splits sum.splits)
qed

lemma update_models_receipts:
  "update_models now P f s = Inr (s', n) \<Longrightarrow> keeps_receipts (dv_db s) (dv_db s')"
  by (auto simp: update_models_def rbind_eq_Inr keeps_receipts_def)

lemma observe_receipts: "observe e k src p m o' s = Inr s' \<Longrightarrow> keeps_receipts (dv_db s) (dv_db s')"
  by (auto simp: observe_def keeps_receipts_def dest!: insert_observation_InrD)

lemma recordModelOutcome_receipts:
  assumes "recordModelOutcome e key ref m b s = Inr (s', x)"
  shows "keeps_receipts (dv_db s) (dv_db s')"
  using assms
  by (auto simp: recordModelOutcome_def rbind_eq_Inr Let_def of_store_Inr keeps_receipts_def
           dest!: update_models_receipts observe_receipts)

lemma retry_taken_receipts: "retry_taken e p m s = Inr (s', ok) \<Longrightarrow> keeps_receipts (dv_db s) (dv_db s')"
  by (auto simp: retry_taken_def rbind_eq_Inr of_store_Inr keeps_receipts_def
           dest!: update_models_receipts observe_receipts split: if_splits)

lemma consumeModelRetry_receipts: "consumeModelRetry e key ref s = Inr (s', ok) \<Longrightarrow> keeps_receipts (dv_db s) (dv_db s')"
  by (auto simp: consumeModelRetry_def rbind_eq_Inr dest: retry_taken_receipts split: option.splits if_splits)

lemma take_retry_receipts: "take_retry e infos sel s = Inr (s', sel') \<Longrightarrow> keeps_receipts (dv_db s) (dv_db s')"
  by (auto simp: take_retry_def rbind_eq_Inr dest: consumeModelRetry_receipts
           split: coordinator_selection.splits option.splits if_splits)

subsection \<open>Steps of a cycle\<close>

definition store_view :: "cycle_world \<Rightarrow> store_state" where
  "store_view w = (cw_goals w, world_authority w)"

text \<open>A cycle step is a sequence of operations of the goal store, whatever it returns.\<close>

definition refines_store :: "'a cycle_step \<Rightarrow> bool" where
  "refines_store m \<longleftrightarrow> (\<forall>w. goal_step\<^sup>*\<^sup>* (store_view w) (store_view (fst (m w))))"

named_theorems refines

lemma refines_bind_of:
  assumes "refines_store m" and "\<And>w w' a. m w = (w', Inr a) \<Longrightarrow> refines_store (f a)"
  shows "refines_store (cbind m f)"
proof -
  have "goal_step\<^sup>*\<^sup>* (store_view w) (store_view (fst (cbind m f w)))" for w
  proof (cases "m w")
    case (Pair w' res)
    have one: "goal_step\<^sup>*\<^sup>* (store_view w) (store_view w')"
      using assms(1) Pair unfolding refines_store_def by (metis fst_conv)
    show ?thesis
    proof (cases res)
      case (Inl x)
      with Pair one show ?thesis by (simp add: cbind_def)
    next
      case (Inr a)
      have "goal_step\<^sup>*\<^sup>* (store_view w') (store_view (fst (f a w')))"
        using assms(2) [OF Pair [unfolded Inr]] unfolding refines_store_def by blast
      with one have "goal_step\<^sup>*\<^sup>* (store_view w) (store_view (fst (f a w')))" by (rule rtranclp_trans)
      then show ?thesis using Pair Inr by (simp add: cbind_def)
    qed
  qed
  then show ?thesis unfolding refines_store_def by blast
qed

lemma refines_bind [refines]:
  "refines_store m \<Longrightarrow> (\<And>a. refines_store (f a)) \<Longrightarrow> refines_store (cbind m f)"
  by (rule refines_bind_of)

lemma refines_pure [refines]:
  "refines_store (creturn a)" "refines_store (cthrow x)" "refines_store (cread f)" "refines_store (of_result r)"
  by (simp_all add: refines_store_def creturn_def cthrow_def cread_def of_result_def)

text \<open>A patch that makes no goal done.\<close>

definition patch_tame :: "(supervisor_goal \<Rightarrow> supervisor_goal) \<Rightarrow> bool" where
  "patch_tame patch \<longleftrightarrow> (\<forall>h. sg_status (patch h) = Gs_done \<longrightarrow> sg_status h = Gs_done)"

lemma refines_patch [refines]:
  assumes "patch_tame patch"
  shows "refines_store (patch_goal now gid patch)"
proof -
  have "goal_step\<^sup>*\<^sup>* (store_view w) (store_view (fst (patch_goal now gid patch w)))" for w
  proof (cases "updateGoal now gid patch (cw_goals w)")
    case (Inl x)
    then show ?thesis by (simp add: patch_goal_def)
  next
    case (Inr q)
    obtain st g where q: "q = (st, g)" by (cases q)
    have "goal_step (cw_goals w, world_authority w) (st, world_authority w)"
      by (rule gs_update [OF Inr [unfolded q]]) (use assms in \<open>simp add: patch_tame_def\<close>)
    then show ?thesis using Inr q by (simp add: patch_goal_def store_view_def world_authority_def)
  qed
  then show ?thesis unfolding refines_store_def by blast
qed

lemma services_view:
  assumes "keeps_receipts (world_db w) (dv_db s)"
  shows "goal_step\<^sup>*\<^sup>* (store_view w) (store_view (w\<lparr>cw_store := s\<rparr>))"
proof -
  have "goal_step (cw_goals w, world_authority w) (cw_goals w, (world_authority w)\<lparr>au_db := dv_db s\<rparr>)"
    by (rule gs_services [where new = "[]"]) (use assms in \<open>simp add: keeps_receipts_def world_authority_def\<close>)
  then show ?thesis by (simp add: store_view_def world_authority_def)
qed

lemma put_db_view: "keeps_receipts (world_db w) d \<Longrightarrow> goal_step\<^sup>*\<^sup>* (store_view w) (store_view (put_db d w))"
  unfolding put_db_def by (rule services_view) simp

lemma refines_in_db [refines]:
  assumes "\<And>d d' a. f d = Inr (d', a) \<Longrightarrow> keeps_receipts d d'"
  shows "refines_store (in_db f)"
  using assms unfolding refines_store_def
  by (auto simp: in_db_def intro: put_db_view split: sum.split prod.split)

lemma refines_run_status [refines]: "refines_store (run_status_step render ck us i s ref usage)"
  unfolding refines_store_def
proof
  fix w
  have "keeps_receipts (world_db w) (fst (setRunStatus render ck us i s ref usage (world_db w)))"
    by (rule setRunStatus_receipts)
  then show "goal_step\<^sup>*\<^sup>* (store_view w) (store_view (fst (run_status_step render ck us i s ref usage w)))"
    by (auto simp: run_status_step_def intro: put_db_view split: prod.split sum.split)
qed

lemma refines_model_outcome [refines]: "refines_store (model_outcome_step e quiet r m)"
  unfolding refines_store_def
  by (auto simp: model_outcome_step_def intro: services_view dest: recordModelOutcome_receipts split: sum.split prod.split)

lemma commit_selection_view:
  assumes "commit_selection e g sel (cw_store w) (cw_goals w) = (s, st, res)"
  shows "goal_step\<^sup>*\<^sup>* (store_view w) (store_view (w\<lparr>cw_store := s, cw_goals := st\<rparr>))"
proof -
  have t: "goal_step\<^sup>*\<^sup>* (store_view w) (store_view (w\<lparr>cw_store := s', cw_goals := st'\<rparr>))"
    if "keeps_receipts (world_db w) (dv_db s')"
      and "st' = cw_goals w \<or> updateGoal now i (routingDecisionGoalPatch sh now' r) (cw_goals w) = Inr (st', g')"
    for s' st' now i sh now' r g'
  proof -
    let ?v = "w\<lparr>cw_store := s'\<rparr>"
    have one: "goal_step\<^sup>*\<^sup>* (store_view w) (store_view ?v)" by (rule services_view [OF that(1)])
    have two: "goal_step\<^sup>*\<^sup>* (store_view ?v) (store_view (?v\<lparr>cw_goals := st'\<rparr>))"
    proof (cases "st' = cw_goals w")
      case True
      then show ?thesis by simp
    next
      case False
      with that(2) have u: "updateGoal now i (routingDecisionGoalPatch sh now' r) (cw_goals ?v) = Inr (st', g')" by simp
      have "goal_step (cw_goals ?v, world_authority ?v) (st', world_authority ?v)"
        by (rule gs_update [OF u]) (simp add: routingDecisionGoalPatch_def)
      then show ?thesis by (simp add: store_view_def world_authority_def)
    qed
    from rtranclp_trans [OF one two] show ?thesis by simp
  qed
  have kept: "keeps_receipts (world_db w) (dv_db s')"
    if "take_retry (xe_discovery e) infos first (cw_store w) = Inr (s', sel')" for infos first s' sel'
    using that by (rule take_retry_receipts)
  consider "s = cw_store w" "st = cw_goals w"
    | infos first sel' where "take_retry (xe_discovery e) infos first (cw_store w) = Inr (s, sel')" "st = cw_goals w"
    | infos first sel' now i sh now' r g' where "take_retry (xe_discovery e) infos first (cw_store w) = Inr (s, sel')"
        "updateGoal now i (routingDecisionGoalPatch sh now' r) (cw_goals w) = Inr (st, g')"
    using assms by (auto simp: commit_selection_def split: sum.splits prod.splits coordinator_selection.splits)
  then show ?thesis
  proof cases
    case 1
    then show ?thesis by simp
  next
    case 2
    show ?thesis by (rule t [OF kept [OF 2(1)]]) (rule disjI1 [OF 2(2)])
  next
    case 3
    show ?thesis by (rule t [OF kept [OF 3(1)]]) (rule disjI2 [OF 3(2)])
  qed
qed

subsection \<open>The patches of a cycle\<close>

lemma patch_tameI: "(\<And>h. sg_status (patch h) \<noteq> Gs_done) \<Longrightarrow> patch_tame patch"
  and patch_tame_keeps: "(\<And>h. sg_status (patch h) = sg_status h) \<Longrightarrow> patch_tame patch"
  by (simp_all add: patch_tame_def)

lemma status_wrappers [simp]:
  "sg_status (rested s now x t g) = s" "sg_status (retrying b g) = sg_status g"
  "sg_status (unclaimed g) = sg_status g" "sg_status (with_session o' g) = sg_status g"
  by (simp_all add: rested_def retrying_def unclaimed_def with_session_def split: option.split list.split)

lemma smart_patch_status: "fp_status (smartNonSuccessCyclePatch j task prev i) \<noteq> Gs_done"
  by (simp add: smartNonSuccessCyclePatch_def nonSuccessCyclePatch_def Let_def)

lemma claim_patches_status [simp]:
  "sg_status (recordInconclusiveReviewAttemptPatch now p a g) = Gs_active"
  "sg_status (reviewerAvailabilityExhaustedPatch now p as g) = Gs_active"
  "sg_status (mutationClaimRefusalGoalPatch now refusal o' n g) \<noteq> Gs_done"
  by (simp_all add: recordInconclusiveReviewAttemptPatch_def reviewerAvailabilityExhaustedPatch_def Let_def
      mutationClaimRefusalGoalPatch_def nonSuccessCyclePatch_def)

lemma changed_source_status: "postReviewSourceChangePatch now h d eh ed m = Some patch \<Longrightarrow> sg_status (patch g) = Gs_active"
  by (auto simp: postReviewSourceChangePatch_def split: if_splits)

lemmas status_of_patches = settled_def blocked_patch_def failure_goal_patch_def running_patch_def dispatch_rest_def

lemma patches_tame [refines]:
  "patch_tame (settled e o' x)" "patch_tame (blocked_patch e o' w y)" "patch_tame (running_patch e r g cand)"
  "patch_tame (dispatch_rest e x)" "patch_tame (recordInconclusiveReviewAttemptPatch now p a)"
  "patch_tame (reviewerAvailabilityExhaustedPatch now p as)" "patch_tame (mutationClaimRefusalGoalPatch now refusal o' n)"
  "patch_tame (waiting_patch e as why)" "patch_tame (reviewing_patch e r p k)" "patch_tame (retained_patch e x p)"
  by (rule patch_tameI patch_tame_keeps;
      simp add: status_of_patches waiting_patch_def reviewing_patch_def retained_patch_def)+

lemma failure_patch_tame: "fp_status p \<noteq> Gs_done \<Longrightarrow> patch_tame (failure_goal_patch e p after)"
  by (simp add: patch_tame_def failure_goal_patch_def)

subsection \<open>Its steps\<close>

lemma refines_route [refines]: "refines_store (route_step e g)" "refines_store (review_route_step e g as)"
proof -
  have route: "goal_step\<^sup>*\<^sup>* (store_view w) (store_view (w\<lparr>cw_store := s, cw_goals := st\<rparr>))"
    if "routeGoalExecutionSmart x k owner g opts (cw_store w) (cw_goals w) = (s, st, res)
        \<or> routeGoalExecution x g opts (cw_store w) (cw_goals w) = (s, st, res)" for x k owner opts w s st res
  proof -
    have "s = cw_store w \<and> st = cw_goals w \<or> (\<exists>sel. commit_selection x g sel (cw_store w) (cw_goals w) = (s, st, res))"
      using that by (auto simp: routeGoalExecutionSmart_def routeGoalExecution_def split: sum.splits)
    then show ?thesis using commit_selection_view by auto
  qed
  show "refines_store (route_step e g)" "refines_store (review_route_step e g as)"
    unfolding refines_store_def route_step_def review_route_step_def
    by (auto split: prod.split intro: route)
qed

lemma refines_start_run [refines]: "refines_store (start_run e r taskId purpose head)"
  unfolding start_run_def
  by (rule refines createRun_receipts | assumption | (split prod.split, intro allI impI))+

lemma refines_execution_task [refines]: "refines_store (execution_task e g resolved)"
  unfolding execution_task_def
  by (auto intro!: refines dest: getOrAddProject_receipts addTask_receipts split: sum.split)

lemma refines_record_review [refines]:
  "refines_store (recordIndependentReviewExecution uuid now g p k v dispatchId host startedAt review)"
proof -
  have "goal_step\<^sup>*\<^sup>* (store_view w) (store_view (put_db (d\<lparr>independentReviewReceipts := independentReviewReceipts d @ [row]\<rparr>) w))"
    if "d = world_db w" for w d row
  proof -
    have "goal_step (cw_goals w, world_authority w) (cw_goals w, (world_authority w)
       \<lparr>au_db := d\<lparr>independentReviewReceipts := independentReviewReceipts d @ [row]\<rparr>\<rparr>)"
      by (rule gs_services [where new = "[row]"]) (simp add: that world_authority_def)
    then show ?thesis by (simp add: store_view_def world_authority_def put_db_def)
  qed
  then show ?thesis
    unfolding refines_store_def recordIndependentReviewExecution_def Let_def
    by (auto split: sum.split)
qed

lemma refines_grade [refines]: "refines_store (grade_step e goalId receiptId)"
  unfolding refines_store_def
proof
  fix w
  obtain st au res where a: "applyIndependentCompletionGrade (cy_grade e) goalId receiptId (cw_goals w) (cw_goals w)
      (world_authority w) = (st, au, res)" by (metis prod_cases3)
  have "goal_step (cw_goals w, world_authority w) (st, au)" by (rule gs_grade [OF a])
  then show "goal_step\<^sup>*\<^sup>* (store_view w) (store_view (fst (grade_step e goalId receiptId w)))"
    unfolding grade_step_def a
    by (cases au) (auto simp: store_view_def world_authority_def put_db_def)
qed

lemma refines_recover [refines]: "refines_store (recover_step gid)"
  unfolding refines_store_def
proof
  fix w
  show "goal_step\<^sup>*\<^sup>* (store_view w) (store_view (fst (recover_step gid w)))"
  proof (cases "recoverSupervisorCompletion gid (world_authority w) (cw_goals w)")
    case (Inl x)
    then show ?thesis by (simp add: recover_step_def)
  next
    case (Inr q)
    then have "goal_step (cw_goals w, world_authority w) (fst q, world_authority w)"
      by (cases q) (auto intro: gs_recover)
    with Inr show ?thesis by (cases q) (simp add: recover_step_def store_view_def world_authority_def)
  qed
qed

text \<open>
  What the host does inside a cycle: capability provisioning, a parallel batch, the worker
  and the reviewer run other commands of the program, so each is a sequence of operations.
\<close>

definition host_refines :: "cycle_env \<Rightarrow> bool" where
  "host_refines e \<longleftrightarrow>
     (\<forall>g. refines_store (cy_capabilities e g)) \<and> (\<forall>g r. refines_store (cy_parallel e g r))
     \<and> (\<forall>r g t. refines_store (worker_step e r g t)) \<and> (\<forall>r g p t. refines_store (reviewer_step e r g p t))"

lemma refines_failure [refines]: "refines_store (failure_step e policy r g after o')"
  unfolding failure_step_def Let_def
  by (intro refines failure_patch_tame smart_patch_status)

lemma patch_tame_claim [refines]:
  "patch_tame (\<lambda>h. with_session o' (retrying b ((rested Gs_active now x t h)\<lparr>sg_consecutiveFailures := n, sg_pendingCompletion := c\<rparr>)))"
  "patch_tame (\<lambda>h. retrying b (unclaimed (rested Gs_active now x t h)))"
  "patch_tame (\<lambda>h. retrying b (rested Gs_active now x t h))"
  "patch_tame (\<lambda>h. (unclaimed h)\<lparr>sg_status := Gs_active, sg_lastSummary := y, sg_nextRunAt := t\<rparr>)"
  "patch_tame (\<lambda>h. h\<lparr>sg_activePid := None, sg_lastFinishedAt := t\<rparr>)"
  "patch_tame (\<lambda>h. h\<lparr>sg_admissionRiskAssessment := a, sg_promotionContract := d\<rparr>)"
  "patch_tame (\<lambda>h. (retrying b (rested Gs_blocked now x t h))\<lparr>sg_ownerGate := y\<rparr>)"
  by (simp_all add: patch_tame_def)

lemma refines_done_claim [refines]: "refines_store (done_claim e r g cand k o' report warning)"
  unfolding done_claim_def by (auto intro!: refines split: sum.split option.split)

lemma refines_success [refines]: "refines_store (success_step e r g after cand k o')"
  unfolding success_step_def Let_def by (auto intro!: refines split: option.split)

lemma refines_verdict [refines]: "refines_store (verdict_step e policy r g cand k o')"
  unfolding verdict_step_def by (auto intro!: refines split: option.split)

lemma refines_assess [refines]: "refines_store (assess_step e policy g)"
  unfolding assess_step_def Let_def by (auto intro!: refines split: sum.split)

lemma refines_dispatch [refines]:
  assumes "host_refines e"
  shows "refines_store (dispatch_step e policy r g t)"
  using assms unfolding dispatch_step_def Let_def host_refines_def
  by (auto intro!: refines split: option.split)

lemma refines_locked_cycle [refines]:
  assumes "host_refines e"
  shows "refines_store (runLockedGoalCycle e t g)"
  unfolding runLockedGoalCycle_def
  by (auto intro!: refines assms split: coordinator_selection.split option.split)
     (use assms in \<open>auto simp: host_refines_def intro!: refines\<close>)

lemma refines_recover_dispatch [refines]:
  "refines_store (recoverAbandonedReviewDispatch render ck p)"
  unfolding recoverAbandonedReviewDispatch_def by (auto intro!: refines split: option.split)

lemma recovered_patch_tame:
  "recoverAbandonedReviewDispatch render ck p w = (w', Inr (Some patch)) \<Longrightarrow> patch_tame patch"
  by (auto simp: recoverAbandonedReviewDispatch_def cbind_def creturn_def
           intro!: refines split: option.splits prod.splits sum.splits)

lemma refines_grade_review [refines]: "refines_store (grade_review e r g p k v review)"
  unfolding grade_review_def by (auto intro!: refines split: option.split)

lemma refines_read_review [refines]: "refines_store (read_review e r g p k v o')"
  unfolding read_review_def Let_def
  by (auto intro!: refines patch_tameI simp: changed_source_status split: option.split)

lemma refines_run_review [refines]:
  assumes "host_refines e"
  shows "refines_store (run_review e t r g p v)"
  using assms unfolding run_review_def host_refines_def by (auto intro!: refines)

lemma refines_pending_review [refines]:
  assumes "host_refines e"
  shows "refines_store (pending_review_step e t g p v)"
  unfolding pending_review_step_def
  by (rule refines_bind_of)
     (auto intro!: refines assms dest: recovered_patch_tame split: option.split coordinator_selection.split)

lemma refines_review [refines]:
  assumes "host_refines e"
  shows "refines_store (runPendingCompletionReview e t g p)"
  unfolding runPendingCompletionReview_def review_patch_def
  by (auto intro!: refines assms split: option.split)

lemma host_refines_grade: "host_refines (e\<lparr>cy_grade := x\<rparr>) \<longleftrightarrow> host_refines e"
  by (simp add: host_refines_def worker_step_def [abs_def] reviewer_step_def [abs_def])

lemma refines_cycle:
  assumes "host_refines e"
  shows "refines_store (runGoalCycle e gid t)"
  unfolding runGoalCycle_def Let_def
  by (auto intro!: refines simp: host_refines_grade assms split: option.split)


section \<open>Done claims\<close>

text \<open>What the evidence of a report without a task has to show under a contract.\<close>

definition evidence_supports :: "promotion_contract \<Rightarrow> promotion_evidence \<Rightarrow> bool" where
  "evidence_supports c v \<longleftrightarrow>
     \<not> js_blank (pe_focusedTests v) \<and> \<not> js_blank (pe_cheapestCompileTypeOrBuild v)
     \<and> \<not> js_blank (pe_criticalPathBehavior v)
     \<and> (\<forall>k \<in> set (sc_materialRiskCriteria c). \<exists>x \<in> set (pe_materialRiskChecks v). fst x = k \<and> \<not> js_blank (snd x))
     \<and> (be_performed (pe_broaderValidation v) \<longleftrightarrow>
          sc_broaderValidationTriggers c \<noteq> [] \<or> sc_repositoryPolicyRequiresBroadValidation c)
     \<and> (be_performed (pe_broaderValidation v) \<longrightarrow>
          filled (be_cost (pe_broaderValidation v)) \<and> filled (be_expectedInformationGain (pe_broaderValidation v))
          \<and> filled (be_evidence (pe_broaderValidation v)))
     \<and> (sc_review c \<noteq> Rev_none \<longrightarrow> pe_review v = (Plain (sc_review c), True))
     \<and> pe_blockerFindings v = 0"

lemma missing_risk_Nil:
  "missing_risk_criteria c v = [] \<longleftrightarrow>
     (\<forall>k \<in> set (sc_materialRiskCriteria c). \<exists>x \<in> set (pe_materialRiskChecks v). fst x = k \<and> \<not> js_blank (snd x))"
  by (auto simp: missing_risk_criteria_def filter_empty_conv)

lemma contract_plan_broad:
  "vp_broaderValidationRequired (contract_plan c) \<longleftrightarrow>
     sc_broaderValidationTriggers c \<noteq> [] \<or> sc_repositoryPolicyRequiresBroadValidation c"
proof -
  have "filter (\<lambda>t. t \<in> set xs) BROADER_VALIDATION_TRIGGERS = [] \<longleftrightarrow> xs = []" for xs
    by (cases xs) (auto simp: filter_empty_conv)
  then show ?thesis by (simp add: contract_plan_def planProgressiveValidation_def Let_def)
qed

lemma evidence_proof_ok:
  assumes "evidence_proof c v = Inr p" and "dp_ok p"
  shows "evidence_supports c v \<and> dp_taskId p = None \<and> dp_promotionEvidence p = Some v"
  using assms
  by (auto simp: evidence_proof_def evidence_supports_def assessPromotion_nat Let_def missing_risk_Nil broad_passed_def
      contract_plan_broad split: if_splits)

text \<open>
  The two ways a done claim is supported: by the canonical task it cites, whose promotion
  proof holds, or, where the repository has no task, by the evidence of the report.
\<close>

definition claim_supported ::
  "(string \<Rightarrow> string) \<Rightarrow> db \<Rightarrow> supervisor_goal \<Rightarrow> worker_report \<Rightarrow> done_proof \<Rightarrow> bool" where
  "claim_supported rsv d g report p \<longleftrightarrow>
     (case dp_taskId p of
        Some t \<Rightarrow> wr_taskId report = Some t \<and> t \<noteq> []
          \<and> (\<exists>b. resolveCanonicalTaskBinding rsv d (sg_repoPath g) = Inr b \<and> cb_taskId b = t)
          \<and> tp_ok (evaluateTaskPromotionProof rsv d t (sg_repoPath g))
      | None \<Rightarrow> nonempty_text (wr_taskId report) = None
          \<and> (\<exists>f. resolveCanonicalTaskBinding rsv d (sg_repoPath g) = Inl f \<and> is_no_task f)
          \<and> (\<exists>c v. (sg_promotionContract g = Some c \<or> sg_promotionContract g = None \<and> deriveSupervisorPromotionContract None None = Inr c)
               \<and> wr_promotionEvidence report = Some v \<and> dp_promotionEvidence p = Some v \<and> evidence_supports c v))"

lemma task_proof_id: "tp_taskId (evaluateTaskPromotionProof rsv d t r) = t"
  by (auto simp: evaluateTaskPromotionProof_def Let_def dest: lookup_row_SomeD split: option.splits sum.splits)

lemma done_proof_ok:
  assumes "coordinatorDonePromotionProof rsv d g report live head = Inr (Some p)" and ok: "dp_ok p"
  shows "wr_status report = Plain Rep_done \<and> claim_supported rsv d g report p"
proof -
  have st: "wr_status report = Plain Rep_done"
    using assms(1) by (auto simp: coordinatorDonePromotionProof_def split: if_splits)
  note def = assms(1) [unfolded coordinatorDonePromotionProof_def Let_def]
  show ?thesis
  proof (cases "nonempty_text (wr_taskId report)")
    case None
    then obtain f c v where r: "resolveCanonicalTaskBinding rsv d (sg_repoPath g) = Inl f" "is_no_task f"
      "wr_promotionEvidence report = Some v" "evidence_proof c v = Inr p"
      "sg_promotionContract g = Some c \<or> sg_promotionContract g = None \<and> deriveSupervisorPromotionContract None None = Inr c"
      using def st ok by (auto simp: refused_proof_def rbind_eq_Inr split: sum.splits option.splits if_splits)
    then show ?thesis using st None evidence_proof_ok [OF r(4) ok] unfolding claim_supported_def by auto
  next
    case (Some t)
    then have t: "wr_taskId report = Some t" "t \<noteq> []" by (auto simp: nonempty_text_def split: option.splits list.splits)
    obtain b where r: "resolveCanonicalTaskBinding rsv d (sg_repoPath g) = Inr b" "cb_taskId b = t"
      "p = task_proof (evaluateTaskPromotionProof rsv d t (sg_repoPath g))"
      using def st ok Some by (auto simp: refused_proof_def split: sum.splits option.splits if_splits)
    then show ?thesis using st t ok by (simp add: claim_supported_def task_proof_def task_proof_id)
  qed
qed

lemma patch_goal_result:
  assumes "patch_goal now gid patch w = (w', Inr u)"
  obtains g where "getGoal gid (cw_goals w) = Some g"
    "getGoal gid (cw_goals w') = Some ((patch g)\<lparr>sg_id := gid, sg_updatedAt := now\<rparr>)"
    "cw_store w' = cw_store w" "cw_commits w' = cw_commits w"
proof -
  obtain st g' where u: "updateGoal now gid patch (cw_goals w) = Inr (st, g')" "w' = w\<lparr>cw_goals := st\<rparr>"
    using assms by (auto simp: patch_goal_def split: sum.splits prod.splits)
  obtain g where g: "getGoal gid (cw_goals w) = Some g" "g' = (patch g)\<lparr>sg_id := gid, sg_updatedAt := now\<rparr>"
    "st = store_goal g' (cw_goals w)"
    using u(1) by (auto simp: updateGoal_def Let_def split: option.splits)
  have "getGoal gid st = Some g'"
    using update_first_found [OF g(1) [unfolded getGoal_def], of g'] g(2,3) by (simp add: getGoal_def put_goal_def)
  with that g u show thesis by simp
qed

lemma settled_claim [simp]: "sg_pendingCompletion (settled e o' x g) = None"
  by (simp add: settled_def with_session_def retrying_def unclaimed_def split: option.split list.split)

lemma claimed_patch_fields:
  "sg_pendingCompletion (with_session o' (retrying b (g\<lparr>sg_consecutiveFailures := n, sg_pendingCompletion := c\<rparr>))) = c"
  "sg_status (with_session o' (retrying b (g\<lparr>sg_consecutiveFailures := n, sg_pendingCompletion := c\<rparr>))) = sg_status g"
  "sg_nextRunAt (with_session o' (retrying b (g\<lparr>sg_consecutiveFailures := n, sg_pendingCompletion := c\<rparr>))) = sg_nextRunAt g"
  by (simp_all add: with_session_def retrying_def split: option.split list.split)

lemma rested_fields [simp]: "sg_nextRunAt (rested s now x t g) = t" "sg_pendingCompletion (rested s now x t g) = sg_pendingCompletion g"
  by (simp_all add: rested_def)

text \<open>
  C7. A worker cannot complete a goal by saying so. If a report leaves a pending claim, the
  report says done, the source of the repository is the frozen candidate's, the writing gate
  let it pass, and the promotion proof holds: the one canonical task, cited by its
  identifier, or, without a task, evidence that meets every material risk, broad validation
  exactly when the contract asks for it, the review at the contract's level and no blocker.
  The claim is bound to that candidate and run, and the goal stays active until it is graded.
\<close>

theorem accepted_claim_is_supported:
  assumes step: "done_claim e r g cand k o' report warning w = (w', Inr u)"
    and goal: "getGoal (sg_id g) (cw_goals w') = Some h" and claim: "sg_pendingCompletion h = Some p"
  shows "wr_status report = Plain Rep_done
     \<and> sourceIdentityMatches (source_pair (cand_source cand)) (cy_sourceAfter e)
     \<and> (\<exists>writing. writing_gate e (world_db w) g cand k report = Inr writing \<and> pc_writing p = writing)
     \<and> (\<exists>proof. claim_supported (cy_rsv e) (world_db w) g report proof \<and> dp_ok proof
          \<and> pc_taskId p = dp_taskId proof \<and> pc_promotionEvidence p = dp_promotionEvidence proof)
     \<and> pc_candidate p = Some cand \<and> pc_sourceHead p = Some (so_head (cand_source cand))
     \<and> pc_sourceTreeDigest p = Some (so_treeDigest (cand_source cand))
     \<and> map_option vr_runId (pc_reviewedRun p) = Some (kw_runId k)
     \<and> pc_reviewDispatch p = None \<and> review_attempts p = []
     \<and> sg_status h = Gs_active \<and> sg_nextRunAt h = None \<and> cw_store w' = cw_store w"
proof -
  let ?proof = "coordinatorDonePromotionProof (cy_rsv e) (world_db w) g report (map_option so_head (cy_sourceAfter e)) (cy_head e)"
  have no: False if "patch_goal (after_now e) (sg_id g) (settled e o' x) w = (w', Inr u)" for x
    by (rule patch_goal_result [OF that]) (use claim goal in auto)
  note def = step [unfolded done_claim_def cbind_def cread_def of_result_def, simplified]
  obtain writing where wr: "writing_gate e (world_db w) g cand k report = Inr writing"
    using def no by (auto split: sum.splits)
  have src: "sourceIdentityMatches (source_pair (cand_source cand)) (cy_sourceAfter e)"
    using def no wr by (auto split: if_splits)
  obtain q c where q: "?proof = Inr (Some q)" "dp_ok q" "frozen_contract g = Inr c"
    and patch: "patch_goal (after_now e) (sg_id g) (\<lambda>h. with_session o' (retrying False
       ((rested Gs_active (after_now e)
          (''Worker completion claim awaiting independent validation: '' @ wr_summary report @ warning) None h)
         \<lparr>sg_consecutiveFailures := 0,
          sg_pendingCompletion := Some (claimed_completion e (cr_host r) report cand k writing q c)\<rparr>))) w = (w', Inr u)"
    using def no wr src by (auto split: sum.splits option.splits if_splits)
  obtain g0 where res: "getGoal (sg_id g) (cw_goals w') = Some ((with_session o' (retrying False
       ((rested Gs_active (after_now e)
          (''Worker completion claim awaiting independent validation: '' @ wr_summary report @ warning) None g0)
         \<lparr>sg_consecutiveFailures := 0,
          sg_pendingCompletion := Some (claimed_completion e (cr_host r) report cand k writing q c)\<rparr>)))
          \<lparr>sg_id := sg_id g, sg_updatedAt := after_now e\<rparr>)" "cw_store w' = cw_store w"
    by (rule patch_goal_result [OF patch]) blast
  have p: "p = claimed_completion e (cr_host r) report cand k writing q c" "sg_status h = Gs_active" "sg_nextRunAt h = None"
    using goal claim res(1) by (auto simp: claimed_patch_fields)
  note supp = done_proof_ok [OF q(1,2)]
  have t: "nonempty_text (dp_taskId q) = dp_taskId q"
    using supp by (auto simp: claim_supported_def nonempty_text_def split: option.splits list.splits)
  have s: "map_option so_head (cy_sourceAfter e) = Some (so_head (cand_source cand))"
    "map_option so_treeDigest (cy_sourceAfter e) = Some (so_treeDigest (cand_source cand))"
    using src by (auto simp: sourceIdentityMatches_def source_pair_def split: option.splits)
  show ?thesis
    using supp wr src q(2) p t s res(2)
    by (auto simp: claimed_completion_def review_attempts_def)
qed

section \<open>A foreground run is bounded\<close>

text \<open>The same run with the timeouts it hands to its cycles written down, latest first.\<close>

definition logged :: "'w foreground \<Rightarrow> ('w \<times> int list) foreground" where
  "logged f =
     \<lparr>fg_clock = (\<lambda>(w, ts). fg_clock f w), fg_goals = (\<lambda>(w, ts). fg_goals f w),
      fg_put = (\<lambda>st (w, ts). (fg_put f st w, ts)),
      fg_cycle = (\<lambda>t (w, ts). case fg_cycle f t w of (w', res) \<Rightarrow> ((w', t # ts), res))\<rparr>"

lemma logged_simps [simp]:
  "fg_clock (logged f) (w, ts) = fg_clock f w" "fg_goals (logged f) (w, ts) = fg_goals f w"
  "fg_put (logged f) st (w, ts) = (fg_put f st w, ts)"
  "fg_cycle (logged f) t (w, ts) = (case fg_cycle f t w of (w', res) \<Rightarrow> ((w', t # ts), res))"
  "continues (logged f) gid (w, ts) = continues f gid w"
  by (simp_all add: logged_def continues_def)

text \<open>The clock of the world never runs backwards during a cycle.\<close>

definition forward_clock :: "'w foreground \<Rightarrow> bool" where
  "forward_clock f \<longleftrightarrow> (\<forall>t w. fg_clock f w \<le> fg_clock f (fst (fg_cycle f t w)))"

definition put_get :: "'w foreground \<Rightarrow> bool" where
  "put_get f \<longleftrightarrow> (\<forall>st w. fg_goals f (fg_put f st w) = st)"

lemma logged_cycle:
  "fg_cycle f t w = (w', res) \<Longrightarrow> fg_cycle (logged f) t (w, ts) = ((w', t # ts), res)"
  by simp

lemma hop_loop_logged:
  "hop_loop (logged f) gid deadline n hops (w, ts) =
     (case hop_loop f gid deadline n hops w of
        (w', res) \<Rightarrow> ((w', snd (fst (hop_loop (logged f) gid deadline n hops (w, ts)))), res))"
proof (induction n arbitrary: hops w ts)
  case (Suc n)
  obtain w' res where c: "fg_cycle f (deadline - fg_clock f w) w = (w', res)" by (cases "fg_cycle f (deadline - fg_clock f w) w")
  show ?case
    using Suc.IH [of "hops + 1" w' "(deadline - fg_clock f w) # ts"] c
    by (auto split: sum.splits prod.splits)
qed simp

lemma hop_loop_times:
  assumes "forward_clock f" and "deadline - fg_clock f w \<le> budget"
    and "hop_loop (logged f) gid deadline n hops (w, ts) = ((w', ts'), res)"
  shows "\<exists>us. ts' = us @ ts \<and> length us \<le> n \<and> (\<forall>t \<in> set us. 0 < t \<and> t \<le> budget)
     \<and> (\<forall>k b. res = Inr (k, b) \<longrightarrow> k \<le> hops + length us)"
  using assms(2,3)
proof (induction n arbitrary: hops w ts)
  case 0
  then show ?case by auto
next
  case (Suc n)
  let ?t = "deadline - fg_clock f w"
  show ?case
  proof (cases "?t \<le> 0")
    case True
    with Suc.prems show ?thesis by auto
  next
    case False
    obtain v r where c: "fg_cycle f ?t w = (v, r)" by (cases "fg_cycle f ?t w")
    have le: "deadline - fg_clock f v \<le> budget"
    proof -
      have "fg_clock f w \<le> fg_clock f v" using assms(1) c unfolding forward_clock_def by (metis fst_conv)
      with Suc.prems(1) show ?thesis by simp
    qed
    show ?thesis
    proof (cases "\<exists>x. r = Inl x \<or> r = Inr False \<or> (r = Inr True \<and> \<not> continues f gid v)")
      case True
      with Suc.prems c False have "ts' = ?t # ts" "\<forall>k b. res = Inr (k, b) \<longrightarrow> k \<le> hops + 1" by auto
      then show ?thesis using False Suc.prems(1) by (intro exI [of _ "[?t]"]) simp
    next
      case more: False
      have r: "r = Inr True" "continues f gid v"
      proof -
        show "r = Inr True"
        proof (cases r)
          case (Inl y)
          with more show ?thesis by blast
        next
          case (Inr b)
          with more show ?thesis by (cases b) auto
        qed
        then show "continues f gid v" using more by blast
      qed
      have loop: "hop_loop (logged f) gid deadline n (hops + 1) (v, ?t # ts) = ((w', ts'), res)"
        using Suc.prems(2) c r False by simp
      obtain us where u: "ts' = us @ ?t # ts" "length us \<le> n" "\<forall>t \<in> set us. 0 < t \<and> t \<le> budget"
        "\<forall>k b. res = Inr (k, b) \<longrightarrow> k \<le> hops + 1 + length us"
        using Suc.IH [OF le loop] by blast
      then show ?thesis using False Suc.prems(1) by (intro exI [of _ "us @ [?t]"]) simp
    qed
  qed
qed

lemma hop_loop_end:
  assumes "hop_loop f gid deadline n hops w = (w', Inr (k, False))"
  shows "\<not> continues f gid w' \<or> (\<exists>t v. fg_cycle f t v = (w', Inr False))"
  using assms
proof (induction n arbitrary: hops w)
  case (Suc n)
  obtain v r where c: "fg_cycle f (deadline - fg_clock f w) w = (v, r)" by (cases "fg_cycle f (deadline - fg_clock f w) w")
  show ?case
  proof (cases r)
    case (Inl x)
    with Suc.prems c show ?thesis by (auto split: if_splits)
  next
    case (Inr did)
    with Suc.prems c Suc.IH [of "hops + 1" v] show ?thesis by (cases did) (auto split: if_splits)
  qed
qed simp

lemma stalled_stops:
  assumes "put_get f" and "updateGoal now gid (stalled_patch now s) (fg_goals f w) = Inr (st, g)"
  shows "\<not> continues f gid (fg_put f st w)"
proof -
  obtain g0 where g: "getGoal gid (fg_goals f w) = Some g0"
    "g = (stalled_patch now s g0)\<lparr>sg_id := gid, sg_updatedAt := now\<rparr>" "st = store_goal g (fg_goals f w)"
    using assms(2) by (auto simp: updateGoal_def Let_def split: option.splits)
  have "getGoal gid st = Some g"
    using update_first_found [OF g(1) [unfolded getGoal_def], of g] g(2,3) by (simp add: getGoal_def put_goal_def)
  then show ?thesis using assms(1) g(2) by (simp add: continues_def put_get_def stalled_patch_def)
qed


section \<open>Inconclusive reviews\<close>

definition attempted :: "pending_completion \<Rightarrow> review_attempt list \<Rightarrow> pending_completion" where
  "attempted p as = p\<lparr>pc_reviewDispatch := None, pc_reviewAttempts := Some as\<rparr>"

text \<open>
  A review that ends without a verdict costs the claim nothing and is retried a bounded
  number of times. The claim keeps everything but its dispatch, the attempt is appended, and
  the goal is active; it is retried at once before the third attempt and after a minute from
  then on. With three attempts no further reviewer is routed or run: neither the database nor
  the commits change.
\<close>

theorem inconclusive_reviews_are_bounded:
  "sg_pendingCompletion (recordInconclusiveReviewAttemptPatch now p a g) = Some (attempted p (review_attempts p @ [a]))
     \<and> sg_status (recordInconclusiveReviewAttemptPatch now p a g) = Gs_active
     \<and> sg_retryImmediately (recordInconclusiveReviewAttemptPatch now p a g) = Some (length (review_attempts p) < 2)
     \<and> sg_nextRunAt (recordInconclusiveReviewAttemptPatch now p a g) =
         Some (if length (review_attempts p) < 2 then now else now + 60000)
     \<and> (\<forall>e t v w w' res. pc_reviewDispatch p = None \<and> 3 \<le> length (review_attempts p)
          \<and> pending_review_step e t g p v w = (w', res) \<longrightarrow>
            cw_store w' = cw_store w \<and> cw_commits w' = cw_commits w
            \<and> (res = Inr () \<longrightarrow> \<not> (\<exists>h. getGoal (sg_id g) (cw_goals w') = Some h
                 \<and> (sg_retryImmediately h = Some True \<or> sg_pendingCompletion h \<noteq> Some (attempted p (review_attempts p))))))"
proof -
  have patch: "sg_pendingCompletion (recordInconclusiveReviewAttemptPatch now p a g) = Some (attempted p (review_attempts p @ [a]))"
    "sg_status (recordInconclusiveReviewAttemptPatch now p a g) = Gs_active"
    "sg_retryImmediately (recordInconclusiveReviewAttemptPatch now p a g) = Some (length (review_attempts p) < 2)"
    "sg_nextRunAt (recordInconclusiveReviewAttemptPatch now p a g) =
       Some (if length (review_attempts p) < 2 then now else now + 60000)"
    by (simp_all add: recordInconclusiveReviewAttemptPatch_def reviewerAvailabilityExhaustedPatch_def Let_def
        without_dispatch_def attempted_def MAX_INDEPENDENT_REVIEW_ATTEMPTS_def not_le)
  have "cw_store w' = cw_store w \<and> cw_commits w' = cw_commits w
      \<and> (res = Inr () \<longrightarrow> \<not> (\<exists>h. getGoal (sg_id g) (cw_goals w') = Some h
           \<and> (sg_retryImmediately h = Some True \<or> sg_pendingCompletion h \<noteq> Some (attempted p (review_attempts p)))))"
    if many: "pc_reviewDispatch p = None" "3 \<le> length (review_attempts p)"
      and step: "pending_review_step e t g p v w = (w', res)" for e t v w w' res
  proof -
    have s: "patch_goal (before_now e) (sg_id g) (reviewerAvailabilityExhaustedPatch (before_now e) p (review_attempts p)) w
        = (w', res)"
      using step many
      by (simp add: pending_review_step_def recoverAbandonedReviewDispatch_def cbind_def creturn_def
          MAX_INDEPENDENT_REVIEW_ATTEMPTS_def)
    show ?thesis
    proof (cases res)
      case (Inl x)
      with s show ?thesis by (auto simp: patch_goal_def split: sum.splits prod.splits)
    next
      case (Inr u)
      from s [unfolded Inr] obtain g0 where "getGoal (sg_id g) (cw_goals w') =
          Some ((reviewerAvailabilityExhaustedPatch (before_now e) p (review_attempts p) g0)\<lparr>sg_id := sg_id g, sg_updatedAt := before_now e\<rparr>)"
        "cw_store w' = cw_store w" "cw_commits w' = cw_commits w"
        by (rule patch_goal_result) blast
      then show ?thesis by (auto simp: reviewerAvailabilityExhaustedPatch_def attempted_def without_dispatch_def)
    qed
  qed
  with patch show ?thesis by blast
qed

section \<open>A cycle that uses the theorems\<close>

text \<open>A host whose worker succeeds with a session, and a reviewer that is never reached.\<close>

definition sample_outcome :: worker_outcome where
  "sample_outcome = \<lparr>wo_host = Host_codex, wo_status = Wk_succeeded, wo_exitCode = Some 0, wo_stdout = ''done'',
     wo_stderr = [], wo_rateLimited = False, wo_exhausted = False, wo_workspaceMutated = None,
     wo_sessionRef = Some ''s'', wo_usage = None\<rparr>"

definition sample_cycle_env :: cycle_env where
  "sample_cycle_env =
     \<lparr>cy_exec = sample_execution_env\<lparr>xe_policies :=
         Inr [(defaultProjectPolicy (\<lambda>x. x) 0 ''repo'' ''/r'')\<lparr>pp_trust := Trust_build, pp_maxWorkers := 1\<rparr>]\<rparr>,
      cy_kernel = \<lparr>rk_enabled = False, rk_answers = (\<lambda>t. None)\<rparr>, cy_judge = (\<lambda>a b m n. None), cy_owner = None,
      cy_before = \<lparr>svc_now = 10, sql_now = 10\<rparr>, cy_after = \<lparr>svc_now = 20, sql_now = 20\<rparr>, cy_pid = 42,
      cy_uuid = (\<lambda>n. replicate n CHR ''u''), cy_render = (\<lambda>j. []), cy_hostAvailable = (\<lambda>h. True),
      cy_cliPath = (\<lambda>h. []), cy_capabilities = (\<lambda>g. creturn None), cy_parallel = (\<lambda>g r. creturn False),
      cy_configJson = (\<lambda>a b. ''{}''), cy_sourceBefore = Some sample_identity,
      cy_sourceDispatch = Some sample_identity, cy_sourceAfter = Some sample_identity, cy_head = Some sample_head,
      cy_digest = Some sample_digest, cy_worker = (\<lambda>r g t w. (w, sample_outcome)),
      cy_reviewer = (\<lambda>r g p t w. (w, sample_outcome)),
      cy_report = \<lparr>re_parse = (\<lambda>s. None), re_stringify = (\<lambda>j. []), re_sourcePacket = Some, re_gateEvidence = Some\<rparr>,
      cy_learning = (\<lambda>r. []), cy_writingRoute = (\<lambda>t. None),
      cy_inspect = (\<lambda>d g i s t a b. \<lparr>wi_gates = [], wi_finalPassed = False, wi_highStakes = False, wi_sourceCoverage = False\<rparr>),
      cy_draftDigest = (\<lambda>t. t), cy_reviewBound = (\<lambda>c v. False), cy_sourcePreserved = (\<lambda>j. False),
      cy_grade = sample_grade_env, cy_fence = (\<lambda>r. (sample_files, Some sample_fence)),
      cy_showError = (\<lambda>x. []), cy_showBinding = (\<lambda>x. []), cy_showProof = (\<lambda>x. [])\<rparr>"

definition sample_world :: cycle_world where
  "sample_world = \<lparr>cw_goals = sample_claimed,
     cw_store = \<lparr>dv_db = au_db sample_authority, dv_observations = []\<rparr>, cw_commits = []\<rparr>"

lemma sample_host_refines: "host_refines sample_cycle_env"
  by (simp add: host_refines_def sample_cycle_env_def worker_step_def [abs_def] reviewer_step_def [abs_def]
      refines_pure) (simp add: refines_store_def)

lemma sample_world_view: "store_view sample_world = (sample_claimed, sample_authority)"
  by (simp add: store_view_def sample_world_def world_authority_def sample_authority_def)

definition sample_claimed_goal :: supervisor_goal where
  "sample_claimed_goal = (claim_done sample_goal)\<lparr>sg_updatedAt := 5\<rparr>"

lemma sample_fenced: "sample_cycle_env\<lparr>cy_grade := (cy_grade sample_cycle_env)\<lparr>ge_fence := Some sample_fence\<rparr>\<rparr> = sample_cycle_env"
  "snd (cy_fence sample_cycle_env r) = Some sample_fence"
  by (simp_all add: sample_cycle_env_def sample_grade_env_def)

definition sample_routed :: "cycle_world \<times> (cycle_error, coordinator_selection) result" where
  "sample_routed = review_route_step sample_cycle_env sample_claimed_goal [] sample_world"

definition sample_evidence :: promotion_evidence where
  "sample_evidence =
     \<lparr>pe_focusedTests = ''t'', pe_cheapestCompileTypeOrBuild = ''b'', pe_criticalPathBehavior = ''c'',
      pe_materialRiskChecks = [(''authority'', ''x''), (''blast radius'', ''y'')],
      pe_broaderValidation = \<lparr>be_triggers = [], be_repositoryPolicyRequires = False, be_performed = True,
        be_cost = Some ''1'', be_expectedInformationGain = Some ''2'', be_evidence = Some ''3''\<rparr>,
      pe_review = (Plain Rev_independent, True), pe_blockerFindings = 0\<rparr>"

definition sample_done_report :: worker_report where
  "sample_done_report =
     \<lparr>wr_status = Plain Rep_done, wr_summary = ''ok'', wr_taskId = None, wr_promotionEvidence = Some sample_evidence,
      wr_independentReview = None, wr_ownerGate = None, wr_learning = None, wr_workflow = None, wr_assetCandidate = None,
      wr_capabilityUse = None, wr_writingDraft = None, wr_writingSourcePacket = None, wr_writingEvidence = None\<rparr>"

definition sample_route :: coordinator_route where
  "sample_route = \<lparr>cr_host = Host_codex, cr_provider = ''codex'', cr_accountLabel = ''default'', cr_modelRef = ''gpt'',
     cr_effort = Effort_high, cr_reason = Why_unsupported []\<rparr>"

definition sample_claim_step :: "cycle_world \<times> (cycle_error, unit) result" where
  "sample_claim_step = done_claim sample_cycle_env sample_route sample_goal (Cand_no_task sample_identity)
     \<lparr>kw_taskId = ''t'', kw_runId = ''run_1'', kw_providerId = ''prov_1'', kw_providerAccountLabel = ''default''\<rparr>
     sample_outcome sample_done_report [] sample_world"

text \<open>A world of a clock and a goal that always asks to be retried.\<close>

definition sample_foreground :: "(int \<times> supervisor_state) foreground" where
  "sample_foreground =
     \<lparr>fg_clock = fst, fg_goals = snd, fg_put = (\<lambda>st w. (fst w, st)),
      fg_cycle = (\<lambda>t w. ((fst w + 30000, snd w), Inr True))\<rparr>"

definition sample_retried :: "int \<times> supervisor_state" where
  "sample_retried = (0, \<lparr>ss_goals = [sample_goal\<lparr>sg_retryImmediately := Some True\<rparr>], ss_sessions = []\<rparr>)"

lemma sample_cycle_values:
  shows sample_cycle_parts: "recover_step ''goal_1'' sample_world = (sample_world, Inr ())"
      "getGoal ''goal_1'' (cw_goals sample_world) = Some sample_claimed_goal"
      "sg_status sample_claimed_goal = Gs_running" "sg_pendingCompletion sample_claimed_goal = Some sample_completion_claim"
      "claim_refusal sample_cycle_env sample_claimed_goal sample_completion_claim = None"
      "review_attempts sample_completion_claim = []"
    and sample_review_route: "case sample_routed of (w, Inr (Sel_checkpoint why)) \<Rightarrow> True | _ \<Rightarrow> False"
      "case getGoal ''goal_1'' (cw_goals (fst sample_routed)) of None \<Rightarrow> False | Some g \<Rightarrow> True"
    and sample_claimed_step: "case sample_claim_step of (w', res) \<Rightarrow> res = Inr () \<and>
      (case getGoal ''goal_1'' (cw_goals w') of None \<Rightarrow> False | Some h \<Rightarrow> sg_pendingCompletion h \<noteq> None)"
    and sample_hops: "case runForegroundGoal (logged sample_foreground) ''goal_1'' (Some 5) (sample_retried, []) of
      ((w, ts), res) \<Rightarrow> res = Inr 10 \<and> length ts = 10"
    and sample_ids: "sg_id sample_goal = ''goal_1''" "sg_id sample_claimed_goal = ''goal_1''"
  by code_simp+

lemma sample_cycle:
  obtains w' where "runGoalCycle sample_cycle_env ''goal_1'' None sample_world = (w', Inr True)"
proof -
  obtain x res where s: "sample_routed = (x, res)" by (cases sample_routed)
  obtain w why g where r: "sample_routed = (w, Inr (Sel_checkpoint why))" "getGoal ''goal_1'' (cw_goals w) = Some g"
    using s sample_review_route [unfolded s fst_conv prod.case]
    by (auto split: sum.splits coordinator_selection.splits option.splits)
  have "pc_reviewDispatch sample_completion_claim = Some d \<Longrightarrow> nonempty_text (vd_capacityKey d) = None" for d
    by (auto simp: sample_completion_claim_def nonempty_text_def)
  then have none: "recoverAbandonedReviewDispatch render ck sample_completion_claim sample_world = (sample_world, Inr None)" for render ck
    by (auto simp: recoverAbandonedReviewDispatch_def creturn_def split: option.splits)
  note id = sample_ids(2)
  obtain v where v: "pc_reviewedRun sample_completion_claim = Some v" by (simp add: sample_completion_claim_def)
  obtain w' where w': "patch_goal (before_now sample_cycle_env) ''goal_1'' (waiting_patch sample_cycle_env [] why) w = (w', Inr ())"
    using r(2) by (auto simp: patch_goal_def updateGoal_def Let_def)
  have "runPendingCompletionReview sample_cycle_env None sample_claimed_goal sample_completion_claim sample_world = (w', Inr ())"
    using r(1) w' id v
    by (simp add: runPendingCompletionReview_def pending_review_step_def sample_cycle_parts none cbind_def
        MAX_INDEPENDENT_REVIEW_ATTEMPTS_def sample_routed_def)
  then have "runGoalCycle sample_cycle_env ''goal_1'' None sample_world = (w', Inr True)"
    by (simp add: runGoalCycle_def cbind_def cread_def creturn_def sample_cycle_parts sample_fenced Let_def)
  then show thesis by (rule that)
qed


theorem accepted_claim_is_supported_witness:
  "\<exists>h p. getGoal ''goal_1'' (cw_goals (fst sample_claim_step)) = Some h \<and> sg_pendingCompletion h = Some p
     \<and> pc_candidate p = Some (Cand_no_task sample_identity) \<and> sg_nextRunAt h = None"
proof -
  from sample_claimed_step sample_ids(1) obtain w' h p where w: "sample_claim_step = (w', Inr ())" "getGoal (sg_id sample_goal) (cw_goals w') = Some h"
    "sg_pendingCompletion h = Some p" "getGoal ''goal_1'' (cw_goals w') = Some h"
    by (auto split: prod.splits option.splits)
  from accepted_claim_is_supported [OF w(1) [unfolded sample_claim_step_def] w(2,3)]
  have "pc_candidate p = Some (Cand_no_task sample_identity)" "sg_nextRunAt h = None" by blast+
  with w(3,4) show ?thesis unfolding w(1) fst_conv by blast
qed


definition sample_attempt :: review_attempt where
  "sample_attempt = finished_attempt sample_cycle_env sample_route sample_completion_claim
     \<lparr>kw_taskId = ''t'', kw_runId = ''run_2'', kw_providerId = ''prov_2'', kw_providerAccountLabel = ''default''\<rparr>
     At_timeout ''x''"

theorem inconclusive_reviews_are_bounded_witness:
  "\<exists>w'. pending_review_step sample_cycle_env None sample_claimed_goal (attempted sample_completion_claim (replicate 3 sample_attempt))
         \<lparr>vr_taskId = ''t'', vr_runId = ''run_1'', vr_provider = Host_claude, vr_providerId = ''prov_1'',
          vr_providerAccountLabel = ''default''\<rparr> sample_world = (w', Inr ())
     \<and> cw_store w' = cw_store sample_world \<and> (\<exists>h. getGoal ''goal_1'' (cw_goals w') = Some h \<and> sg_retryImmediately h \<noteq> Some True)"
proof -
  let ?p = "attempted sample_completion_claim (replicate 3 sample_attempt)"
  let ?run = "\<lparr>vr_taskId = ''t'', vr_runId = ''run_1'', vr_provider = Host_claude, vr_providerId = ''prov_1'',
          vr_providerAccountLabel = ''default''\<rparr>"
  note id = sample_ids(2)
  have p: "pc_reviewDispatch ?p = None" "3 \<le> length (review_attempts ?p)"
    by (simp_all add: attempted_def review_attempts_def)
  obtain w' where s: "patch_goal (before_now sample_cycle_env) ''goal_1''
      (reviewerAvailabilityExhaustedPatch (before_now sample_cycle_env) ?p (review_attempts ?p)) sample_world = (w', Inr ())"
    using sample_cycle_parts(2) by (auto simp: patch_goal_def updateGoal_def Let_def)
  have step: "pending_review_step sample_cycle_env None sample_claimed_goal ?p ?run sample_world = (w', Inr ())"
    using p s id by (simp add: pending_review_step_def recoverAbandonedReviewDispatch_def cbind_def creturn_def
        MAX_INDEPENDENT_REVIEW_ATTEMPTS_def)
  have "cw_store w' = cw_store sample_world \<and> \<not> (\<exists>h. getGoal (sg_id sample_claimed_goal) (cw_goals w') = Some h
      \<and> (sg_retryImmediately h = Some True \<or> sg_pendingCompletion h \<noteq> Some (attempted ?p (review_attempts ?p))))"
    using inconclusive_reviews_are_bounded [of 0 ?p sample_attempt sample_claimed_goal] p step by blast
  moreover obtain h where "getGoal ''goal_1'' (cw_goals w') = Some h"
    by (rule patch_goal_result [OF s]) blast
  ultimately show ?thesis using step id by auto
qed

end
