(* ===== verification/Lease_Safety.thy ===== *)
theory Lease_Safety
  imports Resources "HOL-Library.Sublist"
begin

text \<open>
  What the lease store guarantees. Every operation of \<open>Resources\<close> is a sequence of moves (drop
  leases or requests, grant a queued request, queue a request, renew a lease); capacity and
  exclusivity are proved about the moves, fencing and fairness about the operations.
\<close>

section \<open>Operations and moves\<close>

inductive resource_step :: "host_env \<Rightarrow> resource_store \<Rightarrow> resource_store \<Rightarrow> bool" where
  step_request: "requestResource e i s = Inr (s', r) \<Longrightarrow> resource_step e s s'"
| step_snapshot: "resourceSnapshot e s = Inr (s', r) \<Longrightarrow> resource_step e s s'"
| step_reclaim: "reclaimStaleResources e s = Inr (s', r) \<Longrightarrow> resource_step e s s'"
| step_assert: "assertActiveResourceLease e lid tok kind owner pid s = Inr (s', l) \<Longrightarrow> resource_step e s s'"
| step_assert_process: "assertActiveResourceLeaseForProcess e lid tok kind pid s = Inr (s', l) \<Longrightarrow> resource_step e s s'"
| step_heartbeat: "heartbeatResource e lid tok ttl s = Inr (s', l) \<Longrightarrow> resource_step e s s'"
| step_release: "releaseResource e lid tok s = Inr (s', tm) \<Longrightarrow> resource_step e s s'"
| step_cancel: "cancelResourceRequest e rid s = Inr (s', tm) \<Longrightarrow> resource_step e s s'"

inductive_cases resource_stepE: "resource_step e s s'"

text \<open>What a lease and a request say of their holder: kind, owner, parent and depth.\<close>

definition lease_item :: "resource_lease \<Rightarrow> resource_kind \<times> string \<times> string option \<times> int" where
  "lease_item l = (ls_kind l, ls_owner l, ls_parentLeaseId l, ls_depth l)"

definition request_item :: "queued_request \<Rightarrow> resource_kind \<times> string \<times> string option \<times> int" where
  "request_item q = (rs_kind q, rs_owner q, truthy_text (rs_parentLeaseId q), rs_depth q)"

definition store_items :: "resource_store \<Rightarrow> (resource_kind \<times> string \<times> string option \<times> int) list" where
  "store_items s = map lease_item (st_leases s) @ map request_item (st_queue s)"

definition item_slot :: "resource_kind \<times> string \<times> string option \<times> int \<Rightarrow> resource_kind \<times> string" where
  "item_slot it = (fst it, fst (snd it))"

definition item_parent :: "resource_kind \<times> string \<times> string option \<times> int \<Rightarrow> string option" where
  "item_parent it = fst (snd (snd it))"

definition fresh_id :: "string \<Rightarrow> resource_store \<Rightarrow> bool" where
  "fresh_id u s \<longleftrightarrow> ''lease_'' @ u \<notin> ls_id ` set (st_leases s)
     \<and> Some (''lease_'' @ u) \<notin> item_parent ` set (store_items s)"

definition fresh_env :: "host_env \<Rightarrow> resource_store \<Rightarrow> bool" where
  "fresh_env e s \<longleftrightarrow> inj (he_uuid e) \<and> (\<forall>n. fresh_id (he_uuid e n) s)"

abbreviation mem_of :: "host_env \<Rightarrow> rat" where "mem_of \<equiv> availableMemoryPercent"

abbreviation lims_of :: "host_env \<Rightarrow> resource_limits" where "lims_of \<equiv> currentResourceLimits"

text \<open>\<open>fr\<close>: whether the identifiers drawn are known to be fresh.\<close>

inductive lease_move :: "bool \<Rightarrow> host_env \<Rightarrow> resource_store \<Rightarrow> resource_store \<Rightarrow> bool" where
  move_drop: "subseq (st_leases s') (st_leases s) \<Longrightarrow> subseq (st_queue s') (st_queue s) \<Longrightarrow>
    rt_total (reclaims_of s) \<le> rt_total (reclaims_of s') \<Longrightarrow> lease_move fr e s s'"
| move_grant: "st_queue s = qs1 @ q # qs2 \<Longrightarrow> leaseFrom (he_now e) (he_uuid e n) q = Inr l \<Longrightarrow>
    capacityReason (st_leases s) (rs_kind q) (mem_of e) (lims_of e) = None \<Longrightarrow>
    \<not> orphaned (st_leases s) q \<Longrightarrow> (fr \<longrightarrow> fresh_id (he_uuid e n) s) \<Longrightarrow>
    lease_move fr e s (s\<lparr>st_leases := st_leases s @ [l], st_queue := qs1 @ qs2\<rparr>)"
| move_queue: "item_slot (request_item q) \<notin> item_slot ` set (store_items s) \<Longrightarrow>
    requestDepth (st_leases s) (rs_kind q) (rs_parentLeaseId q) (lims_of e) = Inr (rs_depth q) \<Longrightarrow>
    lease_move fr e s (s\<lparr>st_queue := st_queue s @ [q]\<rparr>)"
| move_renew: "lookup_row ls_id i (st_leases s) = Some l \<Longrightarrow> ls_id l' = ls_id l \<Longrightarrow> lease_item l' = lease_item l \<Longrightarrow>
    lease_move fr e s (s\<lparr>st_leases := update_first (\<lambda>x. ls_id x = i) (\<lambda>_. l') (st_leases s)\<rparr>)"

inductive_cases lease_moveE: "lease_move fr e s s'"

lemma truthy_text_idem [simp]: "truthy_text (truthy_text p) = truthy_text p"
  by (simp add: truthy_text_def split: option.split list.split)

lemma leaseFrom_Inr:
  "leaseFrom now u q = Inr l \<Longrightarrow> ls_id l = ''lease_'' @ u \<and> lease_item l = request_item q
     \<and> ls_fencingToken l = rs_fencingToken q \<and> ls_pid l = rs_pid q \<and> ls_taskId l = rs_taskId q"
  by (auto simp: leaseFrom_def rbind_eq_Inr lease_item_def request_item_def)

lemma item_kind [simp]: "fst (lease_item l) = ls_kind l" "fst (request_item q) = rs_kind q"
  by (simp_all add: lease_item_def request_item_def)

lemma prune_move: "lease_move fr e s (prune e s)"
  by (rule move_drop)
     (auto simp: prune_def Let_def reclaims_of_def or_default_def reclaim_record_def emptyReclaimTelemetry_def
        split: option.split)

lemma subseq_skip: "subseq (xs @ ys) (xs @ y # ys)"
  by (simp add: subseq_append' list_emb_Cons)

text \<open>Granting keeps the other identifiers fresh.\<close>

lemma grant_fresh:
  assumes "st_queue s = qs1 @ q # qs2" and "leaseFrom now u q = Inr l" and "fresh_id v s" and "v \<noteq> u"
  shows "fresh_id v (s\<lparr>st_leases := st_leases s @ [l], st_queue := qs1 @ qs2\<rparr>)"
proof -
  have "ls_id l = ''lease_'' @ u" "lease_item l = request_item q" using leaseFrom_Inr [OF assms(2)] by simp_all
  then show ?thesis using assms(1,3,4) by (auto simp: fresh_id_def store_items_def)
qed

lemma drop_fresh:
  assumes "fresh_id v s" and "set (st_leases s') \<subseteq> set (st_leases s)" and "set (st_queue s') \<subseteq> set (st_queue s)"
  shows "fresh_id v s'"
  using assms unfolding fresh_id_def store_items_def by fastforce

lemma promote_moves:
  assumes "promote e (mem_of e) (lims_of e) n kept qs leases = Inr (queue, leases')"
    and "st_leases s = leases" and "st_queue s = kept @ qs" and "fr \<Longrightarrow> inj (he_uuid e)"
    and "\<And>m. fr \<Longrightarrow> n \<le> m \<Longrightarrow> fresh_id (he_uuid e m) s"
  shows "(lease_move fr e)\<^sup>*\<^sup>* s (s\<lparr>st_leases := leases', st_queue := queue\<rparr>)
    \<and> (\<forall>v. fresh_id v s \<and> (\<forall>m \<ge> n. v \<noteq> he_uuid e m) \<longrightarrow>
          fresh_id v (s\<lparr>st_leases := leases', st_queue := queue\<rparr>))"
  using assms
proof (induction qs arbitrary: n kept leases s)
  case Nil
  then have "s\<lparr>st_leases := leases', st_queue := queue\<rparr> = s" by simp
  then show ?case by simp
next
  case (Cons q qs)
  let ?cap = "capacityReason leases (rs_kind q) (mem_of e) (lims_of e)"
  consider (orphan) "orphaned leases q"
    | (skip) "\<not> orphaned leases q" "?cap \<noteq> None" "kindCapReached leases (rs_kind q) (lims_of e)"
    | (stop) "\<not> orphaned leases q" "?cap \<noteq> None" "\<not> kindCapReached leases (rs_kind q) (lims_of e)"
    | (grant) "\<not> orphaned leases q" "?cap = None" by blast
  then show ?case
  proof cases
    case orphan
    let ?s = "s\<lparr>st_queue := kept @ qs\<rparr>"
    have step: "lease_move fr e s ?s" using Cons.prems(3) by (intro move_drop) (simp_all add: reclaims_of_def subseq_skip)
    have fresh: "fresh_id v s \<Longrightarrow> fresh_id v ?s" for v
      by (rule drop_fresh [of v s]) (auto simp: Cons.prems(3))
    have "promote e (mem_of e) (lims_of e) n kept qs leases = Inr (queue, leases')"
      using Cons.prems(1) orphan by simp
    from Cons.IH [OF this, of ?s] Cons.prems(2,4,5) fresh
    have "(lease_move fr e)\<^sup>*\<^sup>* ?s (s\<lparr>st_leases := leases', st_queue := queue\<rparr>)"
      "\<forall>v. fresh_id v ?s \<and> (\<forall>m \<ge> n. v \<noteq> he_uuid e m) \<longrightarrow> fresh_id v (s\<lparr>st_leases := leases', st_queue := queue\<rparr>)"
      by simp_all
    then show ?thesis using step fresh by (meson converse_rtranclp_into_rtranclp)
  next
    case skip
    then have "promote e (mem_of e) (lims_of e) n (kept @ [q]) qs leases = Inr (queue, leases')"
      using Cons.prems(1) by simp
    from Cons.IH [OF this, of s] Cons.prems(2-5) show ?thesis by simp
  next
    case stop
    then have "queue = kept @ q # qs" "leases' = leases" using Cons.prems(1) by auto
    then have "s\<lparr>st_leases := leases', st_queue := queue\<rparr> = s" using Cons.prems(2,3) by simp
    then show ?thesis by simp
  next
    case grant
    from Cons.prems(1) grant obtain l where l: "leaseFrom (he_now e) (he_uuid e n) q = Inr l"
      and p: "promote e (mem_of e) (lims_of e) (Suc n) kept qs (leases @ [l]) = Inr (queue, leases')"
      by (auto simp: rbind_eq_Inr)
    let ?s = "s\<lparr>st_leases := st_leases s @ [l], st_queue := kept @ qs\<rparr>"
    have step: "lease_move fr e s ?s"
      using Cons.prems grant l by (intro move_grant [where n = n and q = q]) auto
    have fresh: "fresh_id v s \<Longrightarrow> v \<noteq> he_uuid e n \<Longrightarrow> fresh_id v ?s" for v
      by (rule grant_fresh [OF Cons.prems(3) l])
    have fresh': "fr \<Longrightarrow> Suc n \<le> m \<Longrightarrow> fresh_id (he_uuid e m) ?s" for m
      using Cons.prems(4,5) by (intro fresh) (auto dest: injD)
    have "st_leases ?s = leases @ [l]" "st_queue ?s = kept @ qs" using Cons.prems(2) by simp_all
    from Cons.IH [OF p this Cons.prems(4) fresh']
    have "(lease_move fr e)\<^sup>*\<^sup>* ?s (s\<lparr>st_leases := leases', st_queue := queue\<rparr>)"
      "\<forall>v. fresh_id v ?s \<and> (\<forall>m \<ge> Suc n. v \<noteq> he_uuid e m) \<longrightarrow>
         fresh_id v (s\<lparr>st_leases := leases', st_queue := queue\<rparr>)" by simp_all
    then show ?thesis using step fresh
      by (meson Suc_leD converse_rtranclp_into_rtranclp order_refl)
  qed
qed

lemma promoteQueued_moves:
  assumes "promoteQueued e (mem_of e) (lims_of e) n s = Inr s'"
    and "fr \<Longrightarrow> inj (he_uuid e)" and "\<And>m. fr \<Longrightarrow> n \<le> m \<Longrightarrow> fresh_id (he_uuid e m) s"
  shows "(lease_move fr e)\<^sup>*\<^sup>* s s'"
    and "fresh_id v s \<Longrightarrow> (\<And>m. n \<le> m \<Longrightarrow> v \<noteq> he_uuid e m) \<Longrightarrow> fresh_id v s'"
proof -
  from assms(1) obtain queue leases where
      p: "promote e (mem_of e) (lims_of e) n [] (st_queue s) (st_leases s) = Inr (queue, leases)"
    and s': "s' = s\<lparr>st_leases := leases, st_queue := queue\<rparr>"
    by (auto simp: promoteQueued_def rbind_eq_Inr)
  have "st_queue s = [] @ st_queue s" by simp
  from promote_moves [OF p refl this assms(2,3)]
  show "(lease_move fr e)\<^sup>*\<^sup>* s s'"
    and "fresh_id v s \<Longrightarrow> (\<And>m. n \<le> m \<Longrightarrow> v \<noteq> he_uuid e m) \<Longrightarrow> fresh_id v s'"
    unfolding s' by blast+
qed

lemma prune_fresh: "fresh_id v s \<Longrightarrow> fresh_id v (prune e s)"
  by (rule drop_fresh [of v s]) (auto simp: prune_def Let_def)

lemma requestDepth_truthy [simp]: "requestDepth ls k (truthy_text p) lims = requestDepth ls k p lims"
  by (simp add: requestDepth_def)

lemma lookup_lease_ex: "lookup_row ls_id i ls = Some l \<Longrightarrow> list_ex (\<lambda>x. ls_id x = i) ls"
  using lookup_row_SomeD by (fastforce simp: list_ex_iff)

lemma depth_not_orphaned: "requestDepth ls k p lims = Inr d \<Longrightarrow> rs_parentLeaseId q = truthy_text p \<Longrightarrow> \<not> orphaned ls q"
  by (auto simp: requestDepth_def orphaned_def lookup_lease_ex split: option.splits if_splits)

lemma request_from_simps [simp]:
  "rs_kind (request_from e i d) = ri_kind i" "rs_owner (request_from e i d) = ri_owner i"
  "rs_depth (request_from e i d) = d" "rs_parentLeaseId (request_from e i d) = truthy_text (parent_of e i)"
  by (simp_all add: request_from_def)

lemma slot_unused:
  assumes "find (\<lambda>l. ls_kind l = k \<and> ls_owner l = w) (st_leases s) = None"
    and "find (\<lambda>q. rs_kind q = k \<and> rs_owner q = w) (st_queue s) = None"
  shows "(k, w) \<notin> item_slot ` set (store_items s)"
proof -
  have "\<forall>l \<in> set (st_leases s). \<not> (ls_kind l = k \<and> ls_owner l = w)" using find_NoneD [OF assms(1)] by blast
  moreover have "\<forall>q \<in> set (st_queue s). \<not> (rs_kind q = k \<and> rs_owner q = w)" using find_NoneD [OF assms(2)] by blast
  ultimately show ?thesis by (auto simp: store_items_def item_slot_def lease_item_def request_item_def)
qed

lemma admit_moves:
  assumes "admit e i depth (mem_of e) (lims_of e) s = Inr (s', r)"
    and "(ri_kind i, ri_owner i) \<notin> item_slot ` set (store_items s)"
    and "requestDepth (st_leases s) (ri_kind i) (parent_of e i) (lims_of e) = Inr depth"
    and "fr \<Longrightarrow> fresh_id (he_uuid e 2) s"
  shows "(lease_move fr e)\<^sup>*\<^sup>* s s'"
proof (cases "capacityReason (st_leases s) (ri_kind i) (mem_of e) (lims_of e)")
  case (Some reason)
  let ?q = "(request_from e i depth)\<lparr>rs_reason := Some reason\<rparr>"
  have "lease_move fr e s (s\<lparr>st_queue := st_queue s @ [?q]\<rparr>)"
    using assms(2,3) by (intro move_queue) (simp_all add: item_slot_def request_item_def)
  moreover have "s' = s\<lparr>st_queue := st_queue s @ [?q]\<rparr>"
    using assms(1) Some by (auto simp: admit_def Let_def)
  ultimately show ?thesis by blast
next
  case None
  let ?q = "request_from e i depth" and ?t = "s\<lparr>st_queue := st_queue s @ [request_from e i depth]\<rparr>"
  from assms(1) None obtain l where l: "leaseFrom (he_now e) (he_uuid e 2) ?q = Inr l"
    and s': "s' = s\<lparr>st_leases := st_leases s @ [l]\<rparr>"
    by (auto simp: admit_def Let_def rbind_eq_Inr)
  have q: "lease_move fr e s ?t"
    using assms(2,3) by (intro move_queue) (simp_all add: item_slot_def request_item_def)
  have orph: "\<not> orphaned (st_leases ?t) ?q" using depth_not_orphaned [OF assms(3)] by simp
  have "fresh_id (he_uuid e 2) ?t" if fr
  proof -
    have "truthy_text (parent_of e i) \<noteq> Some (''lease_'' @ he_uuid e 2)"
    proof
      assume p: "truthy_text (parent_of e i) = Some (''lease_'' @ he_uuid e 2)"
      then obtain x where "lookup_row ls_id (''lease_'' @ he_uuid e 2) (st_leases s) = Some x"
        using assms(3) by (auto simp: requestDepth_def split: option.splits if_splits)
      then have "''lease_'' @ he_uuid e 2 \<in> ls_id ` set (st_leases s)" by (metis lookup_row_SomeD imageI)
      then show False using assms(4) that by (simp add: fresh_id_def)
    qed
    then show ?thesis using assms(4) that
      by (auto simp: fresh_id_def store_items_def request_item_def item_parent_def)
  qed
  then have "lease_move fr e ?t (?t\<lparr>st_leases := st_leases ?t @ [l], st_queue := st_queue s @ []\<rparr>)"
    using None l orph by (intro move_grant [where q = ?q and n = 2]) simp_all
  moreover have "?t\<lparr>st_leases := st_leases ?t @ [l], st_queue := st_queue s @ []\<rparr> = s'" using s' by simp
  ultimately show ?thesis using q by (metis converse_rtranclp_into_rtranclp r_into_rtranclp)
qed

lemma resource_step_moves:
  assumes "resource_step e s s'" and "fr \<Longrightarrow> fresh_env e s"
  shows "(lease_move fr e)\<^sup>*\<^sup>* s s'"
proof -
  let ?s = "prune e s"
  have start: "(lease_move fr e)\<^sup>*\<^sup>* s ?s" using prune_move by blast
  have inj: "inj (he_uuid e)" and fresh: "\<And>m. fresh_id (he_uuid e m) s" if fr
    using assms(2) that by (auto simp: fresh_env_def)
  have fr': "fr \<Longrightarrow> fresh_id (he_uuid e m) ?s" for m using fresh by (rule prune_fresh)
  have promote: "(lease_move fr e)\<^sup>*\<^sup>* s t'" if "promoteQueued e (mem_of e) (lims_of e) 0 t = Inr t'"
      and "st_leases t = filter P (st_leases ?s)" and "st_queue t = filter Q (st_queue ?s)"
      and "st_reclaims t = st_reclaims ?s" for t t' P Q
  proof -
    have "lease_move fr e ?s t" by (rule move_drop) (simp_all add: that(2-4) reclaims_of_def)
    then have "(lease_move fr e)\<^sup>*\<^sup>* s t" using start by (rule rtranclp.rtrancl_into_rtrancl [rotated])
    moreover have "(lease_move fr e)\<^sup>*\<^sup>* t t'"
    proof (rule promoteQueued_moves(1) [OF that(1) inj])
      fix m assume fr
      show "fresh_id (he_uuid e m) t"
        by (rule drop_fresh [OF fr' [OF \<open>fr\<close>]]) (auto simp: that(2,3))
    qed
    ultimately show ?thesis by (rule rtranclp_trans)
  qed
  show ?thesis
    using assms(1)
  proof (cases rule: resource_step.cases)
    case (step_request i r)
    then obtain t where t: "promoteQueued e (mem_of e) (lims_of e) 3 ?s = Inr t"
      and rest: "(case find (\<lambda>l. ls_kind l = ri_kind i \<and> ls_owner l = ri_owner i) (st_leases t) of
            Some l \<Rightarrow> Inr (t, Active l (telemetry t (mem_of e) (lims_of e)))
          | None \<Rightarrow>
              (case find (\<lambda>q. rs_kind q = ri_kind i \<and> rs_owner q = ri_owner i) (st_queue t) of
                 Some q \<Rightarrow> Inr (t, Queued q (telemetry t (mem_of e) (lims_of e)))
               | None \<Rightarrow>
                   (case requestDepth (st_leases t) (ri_kind i) (parent_of e i) (lims_of e) of
                      Inl rej \<Rightarrow> Inr (t, Rejected rej (telemetry t (mem_of e) (lims_of e)))
                    | Inr depth \<Rightarrow> admit e i depth (mem_of e) (lims_of e) t))) = Inr (s', r)"
      by (auto simp: requestResource_def Let_def rbind_eq_Inr split: if_splits)
    have moves: "(lease_move fr e)\<^sup>*\<^sup>* s t" by (rule rtranclp_trans [OF start promoteQueued_moves(1) [OF t inj fr']])
    have fresh2: "fresh_id (he_uuid e 2) t" if fr
      using promoteQueued_moves(2) [OF t inj fr' fr'] inj that by (auto simp: inj_eq)
    show ?thesis
    proof (cases "find (\<lambda>l. ls_kind l = ri_kind i \<and> ls_owner l = ri_owner i) (st_leases t)")
      case Some
      then show ?thesis using rest moves by simp
    next
      case no_lease: None
      show ?thesis
      proof (cases "find (\<lambda>q. rs_kind q = ri_kind i \<and> rs_owner q = ri_owner i) (st_queue t)")
        case Some
        then show ?thesis using rest moves no_lease by simp
      next
        case no_request: None
        show ?thesis
        proof (cases "requestDepth (st_leases t) (ri_kind i) (parent_of e i) (lims_of e)")
          case Inl
          then show ?thesis using rest moves no_lease no_request by simp
        next
          case (Inr depth)
          then have "admit e i depth (mem_of e) (lims_of e) t = Inr (s', r)"
            using rest no_lease no_request by simp
          from rtranclp_trans [OF moves admit_moves [OF this slot_unused [OF no_lease no_request] Inr fresh2]]
          show ?thesis .
        qed
      qed
    qed
  next
    case (step_snapshot r)
    then have "promoteQueued e (mem_of e) (lims_of e) 0 ?s = Inr s'"
      by (auto simp: resourceSnapshot_def Let_def rbind_eq_Inr)
    then show ?thesis by (rule promote [where P = "\<lambda>_. True" and Q = "\<lambda>_. True"]) simp_all
  next
    case (step_reclaim r)
    then have "promoteQueued e (mem_of e) (lims_of e) 0 ?s = Inr s'"
      by (auto simp: reclaimStaleResources_def Let_def rbind_eq_Inr)
    then show ?thesis by (rule promote [where P = "\<lambda>_. True" and Q = "\<lambda>_. True"]) simp_all
  next
    case (step_assert lid tok kind owner pid l)
    then have "s' = ?s" by (auto simp: assertActiveResourceLease_def Let_def split: option.splits if_splits)
    then show ?thesis using start by simp
  next
    case (step_assert_process lid tok kind pid l)
    then have "s' = ?s" by (auto simp: assertActiveResourceLeaseForProcess_def Let_def split: option.splits if_splits)
    then show ?thesis using start by simp
  next
    case (step_heartbeat lid tok ttl l')
    then obtain l where l: "lookup_row ls_id lid (st_leases ?s) = Some l" "renewed e ttl l = Inr l'"
      and s': "s' = ?s\<lparr>st_leases := update_first (\<lambda>x. ls_id x = lid) (\<lambda>_. l') (st_leases ?s)\<rparr>"
      by (auto simp: heartbeatResource_def Let_def rbind_eq_Inr split: option.splits if_splits)
    have "ls_id l' = ls_id l" "lease_item l' = lease_item l"
      using l(2) by (auto simp: renewed_def rbind_eq_Inr lease_item_def split: js_number.splits)
    then have "lease_move fr e ?s s'" unfolding s' using l(1) by (intro move_renew)
    then show ?thesis using start by simp
  next
    case (step_release lid tok tm)
    then have "promoteQueued e (mem_of e) (lims_of e) 0
        (?s\<lparr>st_leases := filter (\<lambda>x. ls_id x \<noteq> lid) (st_leases ?s)\<rparr>) = Inr s'"
      by (auto simp: releaseResource_def Let_def rbind_eq_Inr split: option.splits if_splits)
    then show ?thesis by (rule promote [where Q = "\<lambda>_. True"]) simp_all
  next
    case (step_cancel rid tm)
    then have "promoteQueued e (mem_of e) (lims_of e) 0
        (?s\<lparr>st_queue := filter (\<lambda>q. rs_id q \<noteq> rid) (st_queue ?s)\<rparr>) = Inr s'"
      by (auto simp: cancelResourceRequest_def Let_def rbind_eq_Inr)
    then show ?thesis by (rule promote [where P = "\<lambda>_. True"]) simp_all
  qed
qed

section \<open>Capacity\<close>

text \<open>
  \<open>grown\<close> bounds the leases after some moves by those before and the limits of the host.
\<close>

definition grown :: "host_env \<Rightarrow> resource_lease list \<Rightarrow> resource_lease list \<Rightarrow> bool" where
  "grown e A B \<longleftrightarrow>
     (\<forall>k L. kindLimit k (lims_of e) = Some L \<longrightarrow> int (countKind B k) \<le> max (int (countKind A k)) L)
     \<and> (\<forall>L. lim_total (lims_of e) = Some L \<longrightarrow> int (length B) \<le> max (int (length A)) L)
     \<and> (mem_of e < lim_softMemoryAvailablePercent (lims_of e) \<longrightarrow> ls_id ` set B \<subseteq> ls_id ` set A)"

lemma grownD:
  assumes "grown e A B"
  shows "kindLimit k (lims_of e) = Some L \<Longrightarrow> int (countKind B k) \<le> max (int (countKind A k)) L"
    and "lim_total (lims_of e) = Some L \<Longrightarrow> int (length B) \<le> max (int (length A)) L"
    and "mem_of e < lim_softMemoryAvailablePercent (lims_of e) \<Longrightarrow> ls_id ` set B \<subseteq> ls_id ` set A"
  using assms by (simp_all add: grown_def)

lemma grown_less:
  assumes "\<And>k. countKind B k \<le> countKind A k" and "length B \<le> length A" and "ls_id ` set B \<subseteq> ls_id ` set A"
  shows "grown e A B"
  unfolding grown_def using assms by (simp add: le_max_iff_disj)

lemma grown_refl: "grown e A A"
  by (simp add: grown_def)

lemma grown_trans: "grown e A B \<Longrightarrow> grown e B C \<Longrightarrow> grown e A C"
  unfolding grown_def by (smt (verit) max.coboundedI1 max.coboundedI2 max_def subset_trans)

lemma subseq_count: "subseq A B \<Longrightarrow> count_where P A \<le> count_where P B"
  unfolding count_where_def by (intro list_emb_length [of "(=)"]) simp

lemma grown_drop: "subseq B A \<Longrightarrow> grown e A B"
proof -
  assume s: "subseq B A"
  have "countKind B k \<le> countKind A k" for k using subseq_count [OF s] by (simp add: countKind_def)
  moreover have "length B \<le> length A" using s by (rule list_emb_length)
  moreover have "ls_id ` set B \<subseteq> ls_id ` set A" using list_emb_set [OF s] by blast
  ultimately show ?thesis by (rule grown_less)
qed

lemma countKind_append [simp]:
  "countKind (A @ [l]) k = (if ls_kind l = k then Suc (countKind A k) else countKind A k)"
  by (simp add: countKind_def)

lemma grown_grant:
  assumes "capacityReason A k (mem_of e) (lims_of e) = None" and "ls_kind l = k"
  shows "grown e A (A @ [l])"
proof -
  have "\<not> mem_of e < lim_softMemoryAvailablePercent (lims_of e)"
    and "\<not> reaches (length A) (lim_total (lims_of e))"
    and "\<not> reaches (countKind A k) (kindLimit k (lims_of e))"
    using assms(1) by (auto simp: capacityReason_def kindCapReached_def split: if_splits)
  then show ?thesis using assms(2) by (auto simp: grown_def reaches_def split: option.splits)
qed

lemma countKind_kinds: "map ls_kind A = map ls_kind B \<Longrightarrow> countKind A k = countKind B k"
proof -
  have "countKind A k = length (filter ((=) k) (map ls_kind A))" for A
    by (induction A) (auto simp: countKind_def)
  then show "map ls_kind A = map ls_kind B \<Longrightarrow> countKind A k = countKind B k" by metis
qed

lemma move_grown: "lease_move fr e s s' \<Longrightarrow> grown e (st_leases s) (st_leases s')"
proof (induction rule: lease_move.induct)
  case (move_drop s' s fr e)
  then show ?case by (intro grown_drop)
next
  case (move_grant s qs1 q qs2 e n l fr)
  then have "ls_kind l = rs_kind q" using leaseFrom_Inr by (metis item_kind)
  then show ?case using grown_grant [OF move_grant(3)] by simp
next
  case (move_queue q s e fr)
  then show ?case by (simp add: grown_refl)
next
  case (move_renew i s l l' fr e)
  let ?B = "update_first (\<lambda>x. ls_id x = i) (\<lambda>_. l') (st_leases s)"
  have "ls_kind l' = ls_kind l" using move_renew(3) by (metis item_kind(1))
  then have "map ls_kind ?B = map ls_kind (st_leases s)" and ids: "map ls_id ?B = map ls_id (st_leases s)"
    using move_renew(1,2) by (simp_all add: update_first_lookup)
  then have "countKind ?B k = countKind (st_leases s) k" and "length ?B = length (st_leases s)" for k
    using countKind_kinds map_eq_imp_length_eq by blast+
  moreover have "ls_id ` set ?B = ls_id ` set (st_leases s)" using ids by (metis list.set_map)
  ultimately show ?case by (intro grown_less) simp_all
qed

lemma moves_grown: "(lease_move fr e)\<^sup>*\<^sup>* s s' \<Longrightarrow> grown e (st_leases s) (st_leases s')"
  by (induction rule: rtranclp_induct) (auto intro: grown_refl grown_trans move_grown)

text \<open>
  C20. Capacity is never exceeded: whatever the operation, the environment and the queue, the
  leases of a kind (and all leases together) number at most the larger of their number before
  and the limit the host allows now, and below the memory floor no lease is granted at all.
\<close>

theorem lease_capacity_respected:
  assumes "resource_step e s s'"
  shows "int (countKind (st_leases s') Kind_worker) \<le> max (int (countKind (st_leases s) Kind_worker)) (worker_limit e)
    \<and> int (countKind (st_leases s') Kind_browser) \<le> max (int (countKind (st_leases s) Kind_browser)) (browser_limit e)
    \<and> int (countKind (st_leases s') Kind_build) \<le> max (int (countKind (st_leases s) Kind_build)) (build_limit e)
    \<and> int (length (st_leases s')) \<le> max (int (length (st_leases s))) (worker_limit e + browser_limit e + build_limit e)
    \<and> (availableMemoryPercent e < 25 \<longrightarrow> ls_id ` set (st_leases s') \<subseteq> ls_id ` set (st_leases s))"
proof -
  have lims: "kindLimit Kind_worker (lims_of e) = Some (worker_limit e)" "kindLimit Kind_browser (lims_of e) = Some (browser_limit e)"
    "kindLimit Kind_build (lims_of e) = Some (build_limit e)"
    "lim_total (lims_of e) = Some (worker_limit e + browser_limit e + build_limit e)"
    "lim_softMemoryAvailablePercent (lims_of e) = 25"
    by (simp_all add: currentResourceLimits_def GLOBAL_RESOURCE_LIMITS_def)
  have "grown e (st_leases s) (st_leases s')"
    using moves_grown [OF resource_step_moves [OF assms, of False]] by simp
  from grownD(1) [OF this lims(1)] grownD(1) [OF this lims(2)] grownD(1) [OF this lims(3)]
    grownD(2) [OF this lims(4)] grownD(3) [OF this]
  show ?thesis unfolding lims(5) by (intro conjI impI) assumption+
qed

section \<open>Exclusivity\<close>

definition item_ok :: "resource_lease list \<Rightarrow> resource_kind \<times> string \<times> string option \<times> int \<Rightarrow> bool" where
  "item_ok leases it =
     (case it of (k, _, p, d) \<Rightarrow>
        0 \<le> d \<and> (case p of
           None \<Rightarrow> d = 0
         | Some i \<Rightarrow> k = Kind_worker
             \<and> (\<forall>l \<in> set leases. ls_id l = i \<longrightarrow> ls_kind l = Kind_worker \<and> d = ls_depth l + 1)))"

definition lease_inv :: "resource_store \<Rightarrow> bool" where
  "lease_inv s \<longleftrightarrow> unique_by ls_id (st_leases s) \<and> distinct (map item_slot (store_items s))
     \<and> (\<forall>it \<in> set (store_items s). item_ok (st_leases s) it)"

lemma subseq_set: "subseq xs ys \<Longrightarrow> set xs \<subseteq> set ys"
  by (induction rule: list_emb.induct) auto

lemma subseq_distinct: "subseq xs ys \<Longrightarrow> distinct ys \<Longrightarrow> distinct xs"
proof (induction rule: list_emb.induct)
  case (list_emb_Cons2 x y xs ys)
  then show ?case using subseq_set [of xs ys] by auto
qed simp_all

definition lease_place :: "resource_lease \<Rightarrow> string \<times> resource_kind \<times> int" where
  "lease_place l = (ls_id l, ls_kind l, ls_depth l)"

lemma item_ok_places:
  assumes "item_ok A it" and "lease_place ` set B \<subseteq> lease_place ` set A"
  shows "item_ok B it"
proof -
  have "\<exists>y \<in> set A. ls_id y = ls_id l \<and> ls_kind y = ls_kind l \<and> ls_depth y = ls_depth l" if "l \<in> set B" for l
  proof -
    have "lease_place l \<in> lease_place ` set A" using assms(2) that by blast
    then show ?thesis by (auto simp: lease_place_def)
  qed
  note same = this
  obtain k w p d where it: "it = (k, w, p, d)" by (cases it) auto
  show ?thesis
  proof (cases p)
    case None
    then show ?thesis using assms(1) it by (simp add: item_ok_def)
  next
    case (Some i)
    then have ok: "0 \<le> d" "k = Kind_worker"
      "\<And>y. y \<in> set A \<Longrightarrow> ls_id y = i \<Longrightarrow> ls_kind y = Kind_worker \<and> d = ls_depth y + 1"
      using assms(1) it by (simp_all add: item_ok_def)
    have "ls_kind l = Kind_worker \<and> d = ls_depth l + 1" if l: "l \<in> set B" "ls_id l = i" for l
    proof -
      obtain y where "y \<in> set A" "ls_id y = ls_id l" "ls_kind y = ls_kind l" "ls_depth y = ls_depth l"
        using same [OF l(1)] by blast
      then show ?thesis using ok(3) [of y] l(2) by simp
    qed
    then show ?thesis using ok(1,2) it Some by (simp add: item_ok_def)
  qed
qed

lemma item_ok_less: "item_ok A it \<Longrightarrow> set B \<subseteq> set A \<Longrightarrow> item_ok B it"
  by (rule item_ok_places) auto

lemma drop_inv:
  assumes "lease_inv s" and "subseq (st_leases s') (st_leases s)" and "subseq (st_queue s') (st_queue s)"
  shows "lease_inv s'"
proof -
  have items: "subseq (store_items s') (store_items s)"
    unfolding store_items_def by (intro list_emb_append_mono subseq_map assms(2,3))
  have "unique_by ls_id (st_leases s')"
    using assms(1) subseq_distinct [OF subseq_map [OF assms(2)]] by (auto simp: lease_inv_def unique_by_def)
  moreover have "distinct (map item_slot (store_items s'))"
    using assms(1) subseq_distinct [OF subseq_map [OF items]] by (auto simp: lease_inv_def)
  moreover have "item_ok (st_leases s') it" if "it \<in> set (store_items s')" for it
  proof (rule item_ok_less)
    have "it \<in> set (store_items s)" using subseq_set [OF items] that by blast
    then show "item_ok (st_leases s) it" using assms(1) by (simp add: lease_inv_def)
    show "set (st_leases s') \<subseteq> set (st_leases s)" by (rule subseq_set [OF assms(2)])
  qed
  ultimately show ?thesis by (simp add: lease_inv_def)
qed

lemma grant_inv:
  assumes inv: "lease_inv s" and q: "st_queue s = qs1 @ q # qs2" and l: "leaseFrom now u q = Inr l"
    and fresh: "fresh_id u s"
  shows "lease_inv (s\<lparr>st_leases := st_leases s @ [l], st_queue := qs1 @ qs2\<rparr>)" (is "lease_inv ?s")
proof -
  have li: "ls_id l = ''lease_'' @ u" "lease_item l = request_item q" using leaseFrom_Inr [OF l] by simp_all
  have set: "set (store_items ?s) = set (store_items s)" by (auto simp: store_items_def q li(2))
  have "unique_by ls_id (st_leases ?s)"
    using inv fresh by (simp add: lease_inv_def fresh_id_def unique_by_append1 li(1))
  moreover have "distinct (map item_slot (store_items ?s))"
    using inv by (auto simp: lease_inv_def store_items_def q li(2))
  moreover have "item_ok (st_leases ?s) it" if "it \<in> set (store_items ?s)" for it
  proof -
    have it: "it \<in> set (store_items s)" using that set by blast
    then have "item_ok (st_leases s) it" using inv by (simp add: lease_inv_def)
    moreover have "item_parent it \<noteq> Some (ls_id l)" using fresh it li(1) by (metis fresh_id_def imageI)
    ultimately show ?thesis by (auto simp: item_ok_def item_parent_def split: option.splits)
  qed
  ultimately show ?thesis by (simp add: lease_inv_def)
qed

lemma depth_ok:
  assumes "lease_inv s" and "requestDepth (st_leases s) (rs_kind q) (rs_parentLeaseId q) lims = Inr (rs_depth q)"
  shows "item_ok (st_leases s) (request_item q)"
proof (cases "truthy_text (rs_parentLeaseId q)")
  case None
  then show ?thesis using assms(2) by (simp add: requestDepth_def item_ok_def request_item_def)
next
  case (Some i)
  then obtain x where k: "rs_kind q = Kind_worker" and x: "lookup_row ls_id i (st_leases s) = Some x"
    and xk: "ls_kind x = Kind_worker" and d: "rs_depth q = ls_depth x + 1"
    using assms(2) by (auto simp: requestDepth_def split: option.splits if_splits)
  have u: "unique_by ls_id (st_leases s)" using assms(1) by (simp add: lease_inv_def)
  have "lease_item x \<in> set (store_items s)" using lookup_row_SomeD [OF x] by (simp add: store_items_def)
  then have "0 \<le> ls_depth x" using assms(1) by (auto simp: lease_inv_def item_ok_def lease_item_def)
  moreover have "l = x" if "l \<in> set (st_leases s)" "ls_id l = i" for l
    using lookup_row_unique [OF u that(1)] that(2) x by simp
  ultimately show ?thesis using Some k xk d by (auto simp: item_ok_def request_item_def)
qed

lemma move_inv: "lease_move fr e s s' \<Longrightarrow> fr \<Longrightarrow> lease_inv s \<Longrightarrow> lease_inv s'"
proof (induction rule: lease_move.induct)
  case (move_drop s' s fr e)
  show ?case by (rule drop_inv [OF move_drop(5) move_drop(1,2)])
next
  case (move_grant s qs1 q qs2 e n l fr)
  from move_grant(5,6) have "fresh_id (he_uuid e n) s" by blast
  then show ?case by (rule grant_inv [OF move_grant(7) move_grant(1,2)])
next
  case (move_queue q s e fr)
  let ?s = "s\<lparr>st_queue := st_queue s @ [q]\<rparr>"
  have new: "item_ok (st_leases s) (request_item q)" by (rule depth_ok [OF move_queue(4,2)])
  have items: "store_items ?s = store_items s @ [request_item q]" by (simp add: store_items_def)
  have leases: "st_leases ?s = st_leases s" by simp
  have old: "unique_by ls_id (st_leases s)" "distinct (map item_slot (store_items s))"
    "\<forall>it \<in> set (store_items s). item_ok (st_leases s) it"
    using move_queue(4) by (simp_all add: lease_inv_def)
  have "distinct (map item_slot (store_items ?s))" unfolding items using old(2) move_queue(1) by simp
  moreover have "\<forall>it \<in> set (store_items ?s). item_ok (st_leases s) it" unfolding items using old(3) new by simp
  ultimately show ?case unfolding lease_inv_def leases using old(1) by blast
next
  case (move_renew i s l l' fr e)
  let ?B = "update_first (\<lambda>x. ls_id x = i) (\<lambda>_. l') (st_leases s)"
  have place: "lease_place l' = lease_place l"
    using move_renew(2,3) by (simp add: lease_item_def lease_place_def)
  have items: "map lease_item ?B = map lease_item (st_leases s)" and ids: "map ls_id ?B = map ls_id (st_leases s)"
    and places: "map lease_place ?B = map lease_place (st_leases s)"
    by (intro update_first_lookup [OF move_renew(1)] move_renew(2,3) place)+
  have "lease_place ` set ?B = lease_place ` set (st_leases s)" using places by (metis list.set_map)
  then have ok: "item_ok (st_leases s) it \<Longrightarrow> item_ok ?B it" for it
    by (elim item_ok_places) simp
  have same: "store_items (s\<lparr>st_leases := ?B\<rparr>) = store_items s" by (simp add: store_items_def items)
  have leases: "st_leases (s\<lparr>st_leases := ?B\<rparr>) = ?B" by simp
  from move_renew(5) show ?case unfolding lease_inv_def same leases unique_by_def ids using ok by blast
qed

definition lease_step :: "resource_store \<Rightarrow> resource_store \<Rightarrow> bool" where
  "lease_step s s' \<longleftrightarrow> (\<exists>e. fresh_env e s \<and> resource_step e s s')"

definition reclaims_grow :: "resource_store \<Rightarrow> resource_store \<Rightarrow> bool" where
  "reclaims_grow s s' \<longleftrightarrow> rt_total (reclaims_of s) \<le> rt_total (reclaims_of s')"

lemma move_reclaims: "lease_move fr e s s' \<Longrightarrow> reclaims_grow s s'"
  by (induction rule: lease_move.induct) (simp_all add: reclaims_grow_def reclaims_of_def)

lemma moves_inv: "(lease_move True e)\<^sup>*\<^sup>* s s' \<Longrightarrow> lease_inv s \<Longrightarrow> lease_inv s' \<and> reclaims_grow s s'"
proof (induction rule: rtranclp_induct)
  case base
  then show ?case by (simp add: reclaims_grow_def)
next
  case (step t u)
  then show ?case using move_inv move_reclaims [OF step(2)] by (force simp: reclaims_grow_def)
qed

lemma lease_step_inv: "lease_step s s' \<Longrightarrow> lease_inv s \<Longrightarrow> lease_inv s' \<and> reclaims_grow s s'"
  unfolding lease_step_def using resource_step_moves [of _ s s' True] moves_inv by blast

interpretation leases: invariant_system "\<lambda>s. s = emptyStore" lease_step lease_inv reclaims_grow
proof unfold_locales
  show "lease_inv s" if "s = emptyStore" for s
    using that by (simp add: lease_inv_def emptyStore_def store_items_def unique_by_def)
  show "lease_inv s'" if "lease_inv s" "lease_step s s'" for s s' using lease_step_inv that by blast
  show "reclaims_grow s s'" if "lease_inv s" "lease_step s s'" for s s' using lease_step_inv that by blast
  show "reclaims_grow s s" for s by (simp add: reclaims_grow_def)
  show "reclaims_grow s u" if "reclaims_grow s t" "reclaims_grow t u" for s t u using that by (simp add: reclaims_grow_def)
qed

text \<open>
  One lease per owner: in every lease store that operations can reach, whatever their
  order and the state of the host, an owner holds at most one lease of a kind and then waits
  for none, and the parent of a lease, when it is held, is a worker one level above it.
\<close>

theorem one_lease_per_owner:
  assumes "lease_step\<^sup>*\<^sup>* emptyStore s" and "l \<in> set (st_leases s)"
  shows "(\<forall>l' \<in> set (st_leases s). ls_kind l' = ls_kind l \<and> ls_owner l' = ls_owner l \<longrightarrow> l' = l)
    \<and> (\<forall>q \<in> set (st_queue s). rs_kind q = ls_kind l \<longrightarrow> rs_owner q \<noteq> ls_owner l)
    \<and> (\<forall>p \<in> set (st_leases s). ls_parentLeaseId l = Some (ls_id p) \<longrightarrow>
         ls_kind l = Kind_worker \<and> ls_kind p = Kind_worker \<and> ls_depth l = ls_depth p + 1)
    \<and> 0 \<le> ls_depth l"
proof -
  have inv: "lease_inv s"
    using leases.run_inv [OF assms(1)] leases.start_inv [OF refl] by blast
  then have distinct: "distinct (map item_slot (store_items s))" by (simp add: lease_inv_def)
  have slots: "distinct (map (\<lambda>l. (ls_kind l, ls_owner l)) (st_leases s))"
    "\<forall>q \<in> set (st_queue s). (rs_kind q, rs_owner q) \<notin> (\<lambda>l. (ls_kind l, ls_owner l)) ` set (st_leases s)"
    using distinct by (auto simp: store_items_def item_slot_def lease_item_def request_item_def comp_def)
  have "\<forall>l' \<in> set (st_leases s). ls_kind l' = ls_kind l \<and> ls_owner l' = ls_owner l \<longrightarrow> l' = l"
    using slots(1) assms(2) by (auto simp: distinct_map dest!: inj_onD)
  moreover have "\<forall>q \<in> set (st_queue s). rs_kind q = ls_kind l \<longrightarrow> rs_owner q \<noteq> ls_owner l"
    using slots(2) assms(2) by (auto simp: image_iff)
  moreover have "item_ok (st_leases s) (lease_item l)"
    using inv assms(2) by (simp add: lease_inv_def store_items_def)
  then have "(\<forall>p \<in> set (st_leases s). ls_parentLeaseId l = Some (ls_id p) \<longrightarrow>
      ls_kind l = Kind_worker \<and> ls_kind p = Kind_worker \<and> ls_depth l = ls_depth p + 1) \<and> 0 \<le> ls_depth l"
    by (auto simp: item_ok_def lease_item_def split: option.splits)
  ultimately show ?thesis by blast
qed

section \<open>Fair promotion\<close>

lemma reaches_mono: "reaches m c \<Longrightarrow> m \<le> n \<Longrightarrow> reaches n c"
  by (auto simp: reaches_def split: option.splits)

lemma countKind_le: "countKind A k \<le> countKind (A @ B) k"
  by (simp add: countKind_def)

lemma kindCap_mono: "kindCapReached A k lims \<Longrightarrow> kindCapReached (A @ B) k lims"
  unfolding kindCapReached_def by (rule reaches_mono [OF _ countKind_le])

lemma capacityReason_None_iff:
  "capacityReason A k mem lims = None \<longleftrightarrow>
     \<not> mem < lim_softMemoryAvailablePercent lims \<and> \<not> reaches (length A) (lim_total lims) \<and> \<not> kindCapReached A k lims"
  by (simp add: capacityReason_def)

lemma capacityReason_mono: "capacityReason A k mem lims \<noteq> None \<Longrightarrow> capacityReason (A @ B) k mem lims \<noteq> None"
  unfolding capacityReason_None_iff using kindCap_mono reaches_mono [of "length A" _ "length (A @ B)"] by force

abbreviation lease_tokens :: "resource_kind \<Rightarrow> resource_lease list \<Rightarrow> string list" where
  "lease_tokens k ls \<equiv> map ls_fencingToken (filter (\<lambda>l. ls_kind l = k) ls)"

abbreviation request_tokens :: "resource_kind \<Rightarrow> queued_request list \<Rightarrow> string list" where
  "request_tokens k qs \<equiv> map rs_fencingToken (filter (\<lambda>q. rs_kind q = k) qs)"

definition promoted ::
  "rat \<Rightarrow> resource_limits \<Rightarrow> queued_request list \<Rightarrow> resource_lease list \<Rightarrow> resource_lease list
     \<Rightarrow> queued_request list \<Rightarrow> bool" where
  "promoted mem lims qs leases new rest \<longleftrightarrow>
     (\<forall>k. subseq (lease_tokens k new @ request_tokens k rest) (request_tokens k qs))
     \<and> (\<forall>k. kindCapReached leases k lims \<longrightarrow> lease_tokens k new = [])
     \<and> (\<forall>q \<in> set rest. capacityReason (leases @ new) (rs_kind q) mem lims \<noteq> None)
     \<and> (\<forall>q \<in> set qs. q \<in> set rest \<or> orphaned leases q
          \<or> (\<exists>l \<in> set new. ls_fencingToken l = rs_fencingToken q \<and> lease_item l = request_item q))"

lemma promote_promoted:
  assumes "promote e mem lims n kept qs leases = Inr (queue, leases')"
  shows "\<exists>new rest. leases' = leases @ new \<and> queue = kept @ rest \<and> promoted mem lims qs leases new rest"
  using assms
proof (induction qs arbitrary: n kept leases)
  case Nil
  then show ?case by (intro exI [of _ "[]"]) (simp add: promoted_def)
next
  case (Cons q qs)
  let ?cap = "capacityReason leases (rs_kind q) mem lims"
  consider (orphan) "orphaned leases q"
    | (skip) "\<not> orphaned leases q" "?cap \<noteq> None" "kindCapReached leases (rs_kind q) lims"
    | (stop) "\<not> orphaned leases q" "?cap \<noteq> None" "\<not> kindCapReached leases (rs_kind q) lims"
    | (grant) "\<not> orphaned leases q" "?cap = None" by blast
  then show ?case
  proof cases
    case orphan
    then have "promote e mem lims n kept qs leases = Inr (queue, leases')" using Cons.prems by simp
    from Cons.IH [OF this] obtain new rest where r: "leases' = leases @ new" "queue = kept @ rest"
      and p: "promoted mem lims qs leases new rest" by blast
    have "subseq (lease_tokens k new @ request_tokens k rest) (request_tokens k (q # qs))" for k
    proof -
      have "subseq (lease_tokens k new @ request_tokens k rest) (request_tokens k qs)"
        using p by (simp add: promoted_def)
      then show ?thesis by (simp add: list_emb_Cons)
    qed
    then have "promoted mem lims (q # qs) leases new rest" using p orphan by (simp add: promoted_def)
    then show ?thesis using r by blast
  next
    case skip
    then have "promote e mem lims n (kept @ [q]) qs leases = Inr (queue, leases')" using Cons.prems by simp
    from Cons.IH [OF this] obtain new rest where r: "leases' = leases @ new" "queue = kept @ q # rest"
      and p: "promoted mem lims qs leases new rest" by auto
    have "subseq (lease_tokens k new @ request_tokens k (q # rest)) (request_tokens k (q # qs))" for k
    proof (cases "rs_kind q = k")
      case True
      then have "lease_tokens k new = []" using p skip(3) by (simp add: promoted_def)
      moreover have "subseq (lease_tokens k new @ request_tokens k rest) (request_tokens k qs)"
        using p by (simp add: promoted_def)
      ultimately show ?thesis using True by simp
    next
      case False
      then show ?thesis using p by (simp add: promoted_def)
    qed
    moreover have "capacityReason (leases @ new) (rs_kind q) mem lims \<noteq> None"
      using capacityReason_mono [OF skip(2)] .
    ultimately have "promoted mem lims (q # qs) leases new (q # rest)"
      using p unfolding promoted_def by (simp only: list.set ball_simps) blast
    then show ?thesis using r by blast
  next
    case stop
    have "capacityReason leases k mem lims \<noteq> None" for k
      using stop(2,3) unfolding capacityReason_None_iff by blast
    then have "promoted mem lims (q # qs) leases [] (q # qs)" by (simp add: promoted_def)
    moreover have "queue = kept @ q # qs" "leases' = leases @ []" using Cons.prems stop by auto
    ultimately show ?thesis by blast
  next
    case grant
    from Cons.prems grant obtain l where l: "leaseFrom (he_now e) (he_uuid e n) q = Inr l"
      and "promote e mem lims (Suc n) kept qs (leases @ [l]) = Inr (queue, leases')"
      by (auto simp: rbind_eq_Inr)
    from Cons.IH [OF this(2)] obtain new rest where r: "leases' = (leases @ [l]) @ new" "queue = kept @ rest"
      and p: "promoted mem lims qs (leases @ [l]) new rest" by blast
    have li: "ls_fencingToken l = rs_fencingToken q" "lease_item l = request_item q" "ls_kind l = rs_kind q"
      using leaseFrom_Inr [OF l] by (auto simp: lease_item_def request_item_def)
    have "subseq (lease_tokens k (l # new) @ request_tokens k rest) (request_tokens k (q # qs))" for k
      using p li by (simp add: promoted_def)
    moreover have "lease_tokens k (l # new) = []" if "kindCapReached leases k lims" for k
    proof -
      have "ls_kind l \<noteq> k" using that grant(2) li(3) unfolding capacityReason_None_iff by auto
      moreover have "lease_tokens k new = []" using p kindCap_mono [OF that] by (simp add: promoted_def)
      ultimately show ?thesis by simp
    qed
    moreover have "orphaned (leases @ [l]) x \<Longrightarrow> orphaned leases x" for x
      by (auto simp: orphaned_def split: option.splits)
    ultimately have "promoted mem lims (q # qs) leases (l # new) rest"
      using p li(1,2) unfolding promoted_def by (simp only: list.set ball_simps bex_simps append.simps append_assoc) blast
    then show ?thesis using r by auto
  qed
qed

text \<open>
  Promotion is fair and wastes no capacity: of each kind the requests become leases in
  the order they were queued and before those that stay queued, every request that stays
  would be refused now, and a request leaves the queue without a lease only when its parent
  lease is gone.
\<close>

theorem promotion_fair:
  assumes "promoteQueued e mem lims n s = Inr s'"
  shows "\<exists>new. st_leases s' = st_leases s @ new
    \<and> (\<forall>k. subseq (map ls_fencingToken (filter (\<lambda>l. ls_kind l = k) new)
                   @ map rs_fencingToken (filter (\<lambda>q. rs_kind q = k) (st_queue s')))
                  (map rs_fencingToken (filter (\<lambda>q. rs_kind q = k) (st_queue s))))
    \<and> (\<forall>q \<in> set (st_queue s'). capacityReason (st_leases s') (rs_kind q) mem lims \<noteq> None)
    \<and> (\<forall>q \<in> set (st_queue s). q \<in> set (st_queue s') \<or> orphaned (st_leases s) q
         \<or> (\<exists>l \<in> set new. ls_fencingToken l = rs_fencingToken q \<and> ls_kind l = rs_kind q \<and> ls_owner l = rs_owner q))"
proof -
  from assms obtain queue leases where
      p: "promote e mem lims n [] (st_queue s) (st_leases s) = Inr (queue, leases)"
    and s': "s' = s\<lparr>st_leases := leases, st_queue := queue\<rparr>"
    by (auto simp: promoteQueued_def rbind_eq_Inr)
  from promote_promoted [OF p] obtain new where "leases = st_leases s @ new"
    "promoted mem lims (st_queue s) (st_leases s) new queue" by auto
  then show ?thesis unfolding s' promoted_def
    by (intro exI [of _ new]) (fastforce simp: lease_item_def request_item_def)
qed

section \<open>Fencing\<close>

lemma promoteQueued_keeps:
  assumes "promoteQueued e mem lims n s = Inr s'"
  shows "set (st_leases s) \<subseteq> set (st_leases s')"
proof -
  from assms obtain queue leases where
      p: "promote e mem lims n [] (st_queue s) (st_leases s) = Inr (queue, leases)"
    and s': "s' = s\<lparr>st_leases := leases, st_queue := queue\<rparr>"
    by (auto simp: promoteQueued_def rbind_eq_Inr)
  from promote_promoted [OF p] obtain new where "leases = st_leases s @ new" by blast
  then show ?thesis using s' by simp
qed

lemma admit_keeps: "admit e i depth mem lims s = Inr (s', r) \<Longrightarrow> set (st_leases s) \<subseteq> set (st_leases s')"
  by (auto simp: admit_def Let_def rbind_eq_Inr split: option.splits)

lemma requestResource_keeps:
  assumes "requestResource e i s = Inr (s', r)"
  shows "set (st_leases (prune e s)) \<subseteq> set (st_leases s')"
proof -
  from assms obtain t where t: "promoteQueued e (mem_of e) (lims_of e) 3 (prune e s) = Inr t"
    and "s' = t \<or> (\<exists>depth. admit e i depth (mem_of e) (lims_of e) t = Inr (s', r))"
    by (auto simp: requestResource_def Let_def rbind_eq_Inr split: if_splits option.splits sum.splits)
  then show ?thesis using promoteQueued_keeps [OF t] admit_keeps by blast
qed

lemma update_first_mem: "x \<in> set xs \<Longrightarrow> \<not> P x \<Longrightarrow> x \<in> set (update_first P f xs)"
  by (induction xs) auto

lemma update_first_new: "lookup_row ls_id i A = Some l \<Longrightarrow> l' \<in> set (update_first (\<lambda>x. ls_id x = i) (\<lambda>_. l') A)"
  by (induction A) (auto split: if_splits)

lemma prune_leases: "st_leases (prune e s) = filter (leaseIsActive e (he_pruneNow e)) (st_leases s)"
  by (simp add: prune_def Let_def)

lemma unique_prune: "unique_by ls_id (st_leases s) \<Longrightarrow> unique_by ls_id (st_leases (prune e s))"
  unfolding prune_leases unique_by_def by (rule distinct_map_filter)


section \<open>A concrete host\<close>

definition sample_env :: "instant \<Rightarrow> host_env" where
  "sample_env t = \<lparr>he_pruneNow = t, he_now = t, he_pidAlive = (\<lambda>_. False), he_memoryOverride = Js_finite 50,
     he_systemMemory = None, he_freemem = 0, he_totalmem = 17179869184, he_parallelism = 8,
     he_workerMemoryMb = None, he_workerLimit = Some 2, he_subagentDepth = None, he_leaseId = None,
     he_uuid = (\<lambda>n. replicate n (CHR ''u''))\<rparr>"

definition sample_lease_request :: "string \<Rightarrow> resource_request" where
  "sample_lease_request w = \<lparr>ri_kind = Kind_worker, ri_owner = w, ri_taskId = None, ri_resourceId = None,
     ri_project = None, ri_parentLeaseId = None, ri_pid = None, ri_ttlMs = None\<rparr>"

definition sample_lease_store :: resource_store where
  "sample_lease_store = (case requestResource (sample_env 0) (sample_lease_request ''w1'') emptyStore of
     Inr (s, _) \<Rightarrow> s | Inl _ \<Rightarrow> emptyStore)"

lemma sample_granted: "\<exists>r. requestResource (sample_env 0) (sample_lease_request ''w1'') emptyStore = Inr (sample_lease_store, r)"
proof -
  have "succeeds (requestResource (sample_env 0) (sample_lease_request ''w1'') emptyStore)" by code_simp
  then show ?thesis by (auto simp: succeeds_iff sample_lease_store_def)
qed

lemma sample_lease_step: "resource_step (sample_env 0) emptyStore sample_lease_store"
  using sample_granted step_request by blast

lemma sample_one_lease: "length (st_leases sample_lease_store) = 1"
  by code_simp

lemma fresh_sample_env: "fresh_env (sample_env 0) emptyStore"
proof -
  have "inj (\<lambda>n. replicate n (CHR ''u''))" by (rule injI) (metis length_replicate)
  then show ?thesis by (simp add: fresh_env_def sample_env_def fresh_id_def emptyStore_def store_items_def)
qed

theorem lease_capacity_respected_witness:
  "length (st_leases sample_lease_store) = 1
     \<and> int (length (st_leases sample_lease_store))
         \<le> max 0 (worker_limit (sample_env 0) + browser_limit (sample_env 0) + build_limit (sample_env 0))"
  using lease_capacity_respected [OF sample_lease_step] sample_one_lease by (simp add: emptyStore_def)

theorem one_lease_per_owner_witness:
  "\<exists>l. st_leases sample_lease_store = [l] \<and> 0 \<le> ls_depth l"
proof -
  obtain l where l: "st_leases sample_lease_store = [l]"
    using sample_one_lease by (cases "st_leases sample_lease_store") auto
  have "lease_step emptyStore sample_lease_store"
    unfolding lease_step_def using fresh_sample_env sample_lease_step by blast
  then have "lease_step\<^sup>*\<^sup>* emptyStore sample_lease_store" by (rule r_into_rtranclp)
  from one_lease_per_owner [OF this, of l] show ?thesis using l by simp
qed

definition sample_waiting :: "string \<Rightarrow> queued_request" where
  "sample_waiting w = \<lparr>rs_id = w, rs_taskId = w, rs_resourceId = w, rs_fencingToken = w, rs_kind = Kind_worker,
     rs_owner = w, rs_project = None, rs_parentLeaseId = None, rs_depth = 0, rs_pid = None, rs_ttlMs = 1000,
     rs_requestedAt = Some 0, rs_reason = None\<rparr>"

definition sample_queue_store :: resource_store where
  "sample_queue_store = emptyStore\<lparr>st_queue := map sample_waiting [''a'', ''b'', ''c'']\<rparr>"

theorem promotion_fair_witness:
  "\<exists>s'. promoteQueued (sample_env 0) 50 (currentResourceLimits (sample_env 0)) 0 sample_queue_store = Inr s'
     \<and> map ls_fencingToken (st_leases s') = [''a'', ''b''] \<and> map rs_fencingToken (st_queue s') = [''c'']
     \<and> (\<forall>q \<in> set (st_queue s').
          capacityReason (st_leases s') (rs_kind q) 50 (currentResourceLimits (sample_env 0)) \<noteq> None)"
proof -
  have "case promoteQueued (sample_env 0) 50 (currentResourceLimits (sample_env 0)) 0 sample_queue_store of
      Inl _ \<Rightarrow> False | Inr s' \<Rightarrow> map ls_fencingToken (st_leases s') = [''a'', ''b''] \<and> map rs_fencingToken (st_queue s') = [''c'']"
    by code_simp
  then obtain s' where s': "promoteQueued (sample_env 0) 50 (currentResourceLimits (sample_env 0)) 0 sample_queue_store = Inr s'"
    "map ls_fencingToken (st_leases s') = [''a'', ''b'']" "map rs_fencingToken (st_queue s') = [''c'']"
    by (auto split: sum.splits)
  have "\<forall>q \<in> set (st_queue s').
      capacityReason (st_leases s') (rs_kind q) 50 (currentResourceLimits (sample_env 0)) \<noteq> None"
    using promotion_fair [OF s'(1)] by (elim exE conjE)
  then show ?thesis using s' by (intro exI [of _ s'] conjI)
qed


section \<open>The store file\<close>

definition stored_lease_ok :: "resource_lease \<Rightarrow> bool" where
  "stored_lease_ok l \<longleftrightarrow> 0 < ls_ttlMs l \<and> 0 \<le> ls_graceMs l \<and> ls_reclaimAfter l \<noteq> None"

lemma migrate_raw_lease: "stored_lease_ok l \<Longrightarrow> migrate_lease (raw_of_lease l) = Inr l"
  by (auto simp: stored_lease_ok_def migrate_lease_def raw_of_lease_def Let_def migrated_ttl_def migrated_grace_def
      or_default_def)

lemma migrate_raw_leases: "\<forall>l \<in> set ls. stored_lease_ok l \<Longrightarrow> migrate_all migrate_lease (map raw_of_lease ls) = Inr ls"
  by (induction ls) (simp_all add: migrate_raw_lease)

lemma migrate_raw_request: "migrate_request (raw_of_request q) = q"
  by (simp add: migrate_request_def raw_of_request_def or_default_def)

text \<open>What is written is read back, whatever the release that wrote the fields.\<close>

lemma store_file_roundtrip:
  assumes "\<forall>l \<in> set (st_leases s). stored_lease_ok l"
  shows "readStore (Some (writeStore s)) = Inr s"
proof -
  have "map (migrate_request \<circ> raw_of_request) (st_queue s) = st_queue s"
    by (rule map_idI) (simp add: migrate_raw_request)
  then show ?thesis by (simp add: readStore_def writeStore_def migrate_raw_leases [OF assms])
qed

text \<open>
  A worker cannot obtain a browser or build lease: the lease id that its environment carries
  is taken as the parent of every request, and only workers may have a parent.
\<close>

lemma worker_env_rejects_browser:
  "case requestResource ((sample_env 5)\<lparr>he_leaseId := Some ''lease_uu''\<rparr>)
      ((sample_lease_request ''w1'')\<lparr>ri_kind := Kind_browser\<rparr>) sample_lease_store of
     Inr (_, Rejected Only_workers_have_parents _) \<Rightarrow> True | _ \<Rightarrow> False"
  by code_simp

end
