(* ===== verification/Policy_Safety.thy ===== *)
theory Policy_Safety
  imports Policy
begin

text \<open>
  What the trust ladder of \<open>Policy\<close> guarantees: every promotion is earned, every grade rests
  on two distinct canonical runs, and in every policy store the operations reach, only
  projects with evidence or an owner's approval execute.
\<close>

section \<open>Promotions\<close>

definition passed_provenance :: "project_policy \<Rightarrow> independent_grade \<Rightarrow> bool" where
  "passed_provenance q g \<longleftrightarrow> pp_lastGrade q = Some g \<and> ig_result g = Grade_pass
     \<and> present (ig_reviewExecutionId g) \<and> present (ig_reviewedExecutionId g)
     \<and> ig_reviewExecutionId g \<noteq> ig_reviewedExecutionId g \<and> present (ig_providerAccountLabel g)"

lemma shadow_earnedD:
  "shadow_earned ex \<Longrightarrow> \<exists>q g. ex = Some q \<and> 3 \<le> pp_shadowPasses q \<and> passed_provenance q g"
  by (auto simp: shadow_earned_def passed_provenance_def hasExecutionProvenance_def split: option.splits)

lemma execution_earnedD:
  "execution_earned level ex \<Longrightarrow> \<exists>q g. ex = Some q \<and> pp_trust q = level \<and> ig_kind g = Grade_execution
     \<and> ig_trustAtGrade g = level \<and> passed_provenance q g"
  by (auto simp: execution_earned_def passed_provenance_def hasExecutionProvenance_def split: option.splits)

lemma put_policy_mem: "p \<in> set (put_policy P p store)"
  by (simp add: put_policy_def update_first_put)

lemma put_policy_old: "q \<in> set (put_policy P p store) \<Longrightarrow> q = p \<or> q \<in> set store"
  using update_first_set by (fastforce simp: put_policy_def split: if_splits)

lemma put_policy_kept: "q \<in> set store \<Longrightarrow> \<not> P q \<Longrightarrow> q \<in> set (put_policy P p store)"
  by (simp add: put_policy_def update_first_kept)

lemma configure_Inr:
  assumes "configureProjectPolicy e rsv cdir now i store = Inr (store', p)"
  shows "\<not> promotion_refused i (find (policy_matches rsv cdir (pi_project i) (pi_repoPath i)) store)"
    and "p = configured e rsv now i (find (policy_matches rsv cdir (pi_project i) (pi_repoPath i)) store)"
    and "store' = put_policy (policy_matches rsv cdir (pi_project i) (pi_repoPath i)) p store"
  using assms by (auto simp: configureProjectPolicy_def Let_def split: if_splits)

text \<open>
  C22. Trust is earned: a configuration that returns has set the requested trust, and it is
  assist only after three graded shadow passes, build only by the owner's explicit approval
  in this call or a passed execution grade taken at assist, unattended only after a passed
  execution grade taken at build, which no approval replaces; each such grade names two
  distinct executions. Background work needs unattended, a client project shares no memory,
  and the policies of other projects stay as they were.
\<close>

theorem promotion_is_earned:
  assumes "configureProjectPolicy e rsv cdir now i store = Inr (store', p)"
  shows "pp_trust p = pi_trust i \<and> p \<in> set store'
    \<and> (pi_trust i = Trust_assist \<longrightarrow> (\<exists>q \<in> set store. \<exists>g. policy_matches rsv cdir (pi_project i) (pi_repoPath i) q
          \<and> 3 \<le> pp_shadowPasses q \<and> passed_provenance q g))
    \<and> (pi_trust i = Trust_build \<longrightarrow> pi_ownerApprovedBuild i = Some True
        \<or> (\<exists>q \<in> set store. \<exists>g. policy_matches rsv cdir (pi_project i) (pi_repoPath i) q \<and> pp_trust q = Trust_assist
            \<and> ig_kind g = Grade_execution \<and> ig_trustAtGrade g = Trust_assist \<and> passed_provenance q g))
    \<and> (pi_trust i = Trust_unattended \<longrightarrow>
        (\<exists>q \<in> set store. \<exists>g. policy_matches rsv cdir (pi_project i) (pi_repoPath i) q \<and> pp_trust q = Trust_build
            \<and> ig_kind g = Grade_execution \<and> ig_trustAtGrade g = Trust_build \<and> passed_provenance q g))
    \<and> (pp_allowBackground p \<longleftrightarrow> pi_trust i = Trust_unattended)
    \<and> (pi_projectClass i = Class_client \<longrightarrow> \<not> pp_allowCrossProjectMemory p)
    \<and> (\<forall>q \<in> set store. \<not> policy_matches rsv cdir (pi_project i) (pi_repoPath i) q \<longrightarrow> q \<in> set store')
    \<and> (\<forall>q \<in> set store'. q = p \<or> q \<in> set store)"
proof -
  let ?P = "policy_matches rsv cdir (pi_project i) (pi_repoPath i)" and ?ex = "find (policy_matches rsv cdir (pi_project i) (pi_repoPath i)) store"
  note conf = configure_Inr [OF assms]
  have found: "q \<in> set store \<and> ?P q" if "?ex = Some q" for q using find_SomeD [OF that] .
  have basic: "pp_trust p = pi_trust i" "pp_allowBackground p \<longleftrightarrow> pi_trust i = Trust_unattended"
    "pi_projectClass i = Class_client \<longrightarrow> \<not> pp_allowCrossProjectMemory p"
    unfolding conf(2) by (cases "pi_trust i"; simp add: configured_def)+
  have assist: "pi_trust i = Trust_assist \<longrightarrow>
      (\<exists>q \<in> set store. \<exists>g. ?P q \<and> 3 \<le> pp_shadowPasses q \<and> passed_provenance q g)"
  proof (intro impI)
    assume "pi_trust i = Trust_assist"
    then have "shadow_earned ?ex" using conf(1) by (simp add: promotion_refused_def)
    from shadow_earnedD [OF this] found
    show "\<exists>q \<in> set store. \<exists>g. ?P q \<and> 3 \<le> pp_shadowPasses q \<and> passed_provenance q g" by blast
  qed
  have build: "pi_trust i = Trust_build \<longrightarrow> pi_ownerApprovedBuild i = Some True
      \<or> (\<exists>q \<in> set store. \<exists>g. ?P q \<and> pp_trust q = Trust_assist \<and> ig_kind g = Grade_execution
           \<and> ig_trustAtGrade g = Trust_assist \<and> passed_provenance q g)"
  proof (intro impI)
    assume t: "pi_trust i = Trust_build"
    show "pi_ownerApprovedBuild i = Some True
      \<or> (\<exists>q \<in> set store. \<exists>g. ?P q \<and> pp_trust q = Trust_assist \<and> ig_kind g = Grade_execution
           \<and> ig_trustAtGrade g = Trust_assist \<and> passed_provenance q g)"
    proof (cases "pi_ownerApprovedBuild i = Some True")
      case False
      then have "execution_earned Trust_assist ?ex" using conf(1) t by (simp add: promotion_refused_def)
      from execution_earnedD [OF this] found show ?thesis by blast
    qed simp
  qed
  have unattended: "pi_trust i = Trust_unattended \<longrightarrow>
      (\<exists>q \<in> set store. \<exists>g. ?P q \<and> pp_trust q = Trust_build \<and> ig_kind g = Grade_execution
           \<and> ig_trustAtGrade g = Trust_build \<and> passed_provenance q g)"
  proof (intro impI)
    assume t: "pi_trust i = Trust_unattended"
    then have "execution_earned Trust_build ?ex" using conf(1) by (simp add: promotion_refused_def)
    from execution_earnedD [OF this] found
    show "\<exists>q \<in> set store. \<exists>g. ?P q \<and> pp_trust q = Trust_build \<and> ig_kind g = Grade_execution
           \<and> ig_trustAtGrade g = Trust_build \<and> passed_provenance q g" by blast
  qed
  have frame: "p \<in> set store'" "\<forall>q \<in> set store. \<not> ?P q \<longrightarrow> q \<in> set store'" "\<forall>q \<in> set store'. q = p \<or> q \<in> set store"
    unfolding conf(3) using put_policy_mem put_policy_kept put_policy_old by blast+
  show ?thesis by (intro conjI basic assist build unattended frame)
qed

section \<open>Grades\<close>

lemma joined_runD:
  assumes "joined_run d i = Some (r, a)"
  shows "r \<in> set (agentRuns d) \<and> r_id r = i \<and> a \<in> set (agentProviders d) \<and> ap_id a = r_providerId r"
proof (cases "lookup_row r_id i (agentRuns d)")
  case None
  then show ?thesis using assms by (simp add: joined_run_def)
next
  case (Some x)
  then have "x = r" "lookup_row ap_id (r_providerId r) (agentProviders d) = Some a"
    using assms by (auto simp: joined_run_def)
  then show ?thesis using lookup_row_SomeD [OF Some] lookup_row_SomeD by fast
qed

lemma grade_check_Inr:
  assumes "grade_check d i = Inr ()"
  obtains review reviewer reviewed a where "grade_input_error i = None"
    "joined_run d (gi_reviewExecutionId i) = Some (review, reviewer)"
    "joined_run d (gi_reviewedExecutionId i) = Some (reviewed, a)"
    "canonical_runs i review reviewer reviewed" "grade_receipt_ok d i review reviewed"
  using assms by (auto simp: grade_check_def split: option.splits prod.splits if_splits)

text \<open>
  Grades are independent: a recorded grade rests on two distinct stored runs of one task
  at one head, a succeeded review without independence loss by the grading provider and
  account, and a succeeded implementation or repair; an execution grade also has a stored
  receipt that binds both runs. It leaves the trust of the project as it was, a shadow grade
  extends or resets the streak, and no other project's policy changes.
\<close>

theorem grade_is_independent:
  assumes "storeGrade rsv redact now d i store = Inr (store', p)"
  shows "(\<exists>review \<in> set (agentRuns d). \<exists>reviewed \<in> set (agentRuns d). \<exists>reviewer \<in> set (agentProviders d).
        r_id review = gi_reviewExecutionId i \<and> r_id reviewed = gi_reviewedExecutionId i \<and> review \<noteq> reviewed
        \<and> r_status review = Run_succeeded \<and> r_status reviewed = Run_succeeded
        \<and> r_purpose review = Pur_review \<and> r_purpose reviewed \<in> {Pur_implementation, Pur_repair}
        \<and> r_independenceLoss review = None \<and> r_taskId review = r_taskId reviewed
        \<and> r_sourceHead review = r_sourceHead reviewed \<and> ap_id reviewer = r_providerId review
        \<and> ap_accountLabel reviewer = gi_providerAccountLabel i
        \<and> (gi_kind i = Grade_execution \<longrightarrow> (\<exists>c \<in> set (independentReviewReceipts d). receipt_binds i review reviewed c)))
    \<and> p \<in> set store' \<and> pp_lastGrade p = Some (grade_of redact now i (pp_trust p))
    \<and> (\<exists>q. (q \<in> set store \<and> pp_project q = gi_project i \<or> q = defaultProjectPolicy rsv now (gi_project i) (gi_repoPath i))
        \<and> pp_trust p = pp_trust q \<and> pp_ownerApprovedBuild p = pp_ownerApprovedBuild q
        \<and> pp_shadowPasses p = (if gi_kind i = Grade_execution then pp_shadowPasses q
             else if gi_result i = Grade_pass then pp_shadowPasses q + 1 else 0))
    \<and> (\<forall>q \<in> set store. pp_project q \<noteq> gi_project i \<longrightarrow> q \<in> set store')
    \<and> (\<forall>q \<in> set store'. q = p \<or> q \<in> set store)"
proof -
  let ?P = "\<lambda>c. pp_project c = gi_project i"
  let ?cur = "or_default (find ?P store) (defaultProjectPolicy rsv now (gi_project i) (gi_repoPath i))"
  have ok: "grade_check d i = Inr ()" and p: "p = graded_policy rsv redact now i ?cur"
    and s': "store' = put_policy ?P p store"
    using assms by (auto simp: storeGrade_def rbind_eq_Inr Let_def)
  from ok obtain review reviewer reviewed a where r: "grade_input_error i = None"
      "joined_run d (gi_reviewExecutionId i) = Some (review, reviewer)"
      "joined_run d (gi_reviewedExecutionId i) = Some (reviewed, a)"
      "canonical_runs i review reviewer reviewed" "grade_receipt_ok d i review reviewed"
    by (rule grade_check_Inr)
  have ne: "gi_reviewExecutionId i \<noteq> gi_reviewedExecutionId i"
    using r(1) by (auto simp: grade_input_error_def split: if_splits)
  note jr = joined_runD [OF r(2)] and jd = joined_runD [OF r(3)]
  have receipt: "\<exists>c \<in> set (independentReviewReceipts d). receipt_binds i review reviewed c" if "gi_kind i = Grade_execution"
    using r(5) that lookup_row_SomeD by (fastforce simp: grade_receipt_ok_def split: option.splits)
  have last: "pp_lastGrade p = Some (grade_of redact now i (pp_trust p))"
    and kept: "pp_trust p = pp_trust ?cur"
    "pp_ownerApprovedBuild p = pp_ownerApprovedBuild ?cur"
    "pp_shadowPasses p = (if gi_kind i = Grade_execution then pp_shadowPasses ?cur
             else if gi_result i = Grade_pass then pp_shadowPasses ?cur + 1 else 0)"
    unfolding p by (cases "gi_kind i"; simp add: graded_policy_def Let_def)+
  have current: "?cur \<in> set store \<and> pp_project ?cur = gi_project i
      \<or> ?cur = defaultProjectPolicy rsv now (gi_project i) (gi_repoPath i)"
    using find_SomeD [of ?P store] by (cases "find ?P store") (simp_all add: or_default_def)
  have diff: "review \<noteq> reviewed" using ne jr jd by auto
  have cur: "\<exists>q. (q \<in> set store \<and> pp_project q = gi_project i \<or> q = defaultProjectPolicy rsv now (gi_project i) (gi_repoPath i))
        \<and> pp_trust p = pp_trust q \<and> pp_ownerApprovedBuild p = pp_ownerApprovedBuild q
        \<and> pp_shadowPasses p = (if gi_kind i = Grade_execution then pp_shadowPasses q
             else if gi_result i = Grade_pass then pp_shadowPasses q + 1 else 0)"
    by (rule exI [of _ ?cur]) (intro conjI current kept)
  have frame: "p \<in> set store'" "\<forall>q \<in> set store. pp_project q \<noteq> gi_project i \<longrightarrow> q \<in> set store'"
    "\<forall>q \<in> set store'. q = p \<or> q \<in> set store"
    unfolding s' using put_policy_mem [of p ?P store] put_policy_kept [of _ store ?P p] put_policy_old [of _ ?P p store]
    by blast+
  have runs: "\<exists>review \<in> set (agentRuns d). \<exists>reviewed \<in> set (agentRuns d). \<exists>reviewer \<in> set (agentProviders d).
        r_id review = gi_reviewExecutionId i \<and> r_id reviewed = gi_reviewedExecutionId i \<and> review \<noteq> reviewed
        \<and> r_status review = Run_succeeded \<and> r_status reviewed = Run_succeeded
        \<and> r_purpose review = Pur_review \<and> r_purpose reviewed \<in> {Pur_implementation, Pur_repair}
        \<and> r_independenceLoss review = None \<and> r_taskId review = r_taskId reviewed
        \<and> r_sourceHead review = r_sourceHead reviewed \<and> ap_id reviewer = r_providerId review
        \<and> ap_accountLabel reviewer = gi_providerAccountLabel i
        \<and> (gi_kind i = Grade_execution \<longrightarrow> (\<exists>c \<in> set (independentReviewReceipts d). receipt_binds i review reviewed c))"
  proof (intro bexI conjI)
    show "review \<in> set (agentRuns d)" "reviewed \<in> set (agentRuns d)" "reviewer \<in> set (agentProviders d)"
      "r_id review = gi_reviewExecutionId i" "r_id reviewed = gi_reviewedExecutionId i" "ap_id reviewer = r_providerId review"
      using jr jd by blast+
    show "review \<noteq> reviewed" by (rule diff)
    show "gi_kind i = Grade_execution \<longrightarrow> (\<exists>c \<in> set (independentReviewReceipts d). receipt_binds i review reviewed c)"
      using receipt by blast
  qed (use r(4) in \<open>simp_all add: canonical_runs_def\<close>)
  show ?thesis by (intro conjI runs last cur frame)
qed

section \<open>All policy stores\<close>

text \<open>
  The operations that write the policy file, on any host and database; \<open>step_reread\<close> reads
  the file again, perhaps on another host.
\<close>

inductive policy_step :: "project_policy list \<Rightarrow> project_policy list \<Rightarrow> bool" where
  step_configure: "configureProjectPolicy e rsv cdir now i s = Inr (s', p) \<Longrightarrow> policy_step s s'"
| step_shadow: "recordShadowGrade rsv redact now d si s = Inr (s', p) \<Longrightarrow> policy_step s s'"
| step_grade: "recordIndependentGrade rsv redact now d gi s = Inr (s', p) \<Longrightarrow> policy_step s s'"
| step_remove: "removeProjectPolicies remove s = (s', removed) \<Longrightarrow> policy_step s s'"
| step_reread: "readPolicyStore e (Some (writePolicyStore s)) = Inr s' \<Longrightarrow> policy_step s s'"

inductive_cases policy_stepE: "policy_step s s'"

definition graded :: "project_policy \<Rightarrow> bool" where
  "graded p \<longleftrightarrow> (\<exists>g. pp_lastGrade p = Some g \<and> present (ig_reviewExecutionId g)
     \<and> present (ig_reviewedExecutionId g) \<and> present (ig_providerAccountLabel g))"

definition policy_ok :: "project_policy \<Rightarrow> bool" where
  "policy_ok p \<longleftrightarrow>
     (pp_trust p = Trust_assist \<or> pp_trust p = Trust_unattended
        \<or> pp_trust p = Trust_build \<and> \<not> pp_ownerApprovedBuild p \<longrightarrow> graded p)
     \<and> (pp_allowBackground p \<longleftrightarrow> pp_trust p = Trust_unattended)
     \<and> (pp_projectClass p = Class_client \<longrightarrow> \<not> pp_allowCrossProjectMemory p)
     \<and> 0 \<le> pp_shadowPasses p \<and> pp_shadowPasses p \<le> pp_shadowRuns p"

lemma provenance_graded: "passed_provenance q g \<Longrightarrow> graded q"
  by (auto simp: passed_provenance_def graded_def)

lemma earned_graded:
  "\<not> promotion_refused i ex \<Longrightarrow> pi_trust i = Trust_assist \<or> pi_trust i = Trust_unattended
     \<or> pi_trust i = Trust_build \<and> pi_ownerApprovedBuild i \<noteq> Some True \<Longrightarrow> \<exists>q. ex = Some q \<and> graded q"
  unfolding promotion_refused_def using shadow_earnedD execution_earnedD provenance_graded by blast

lemma configured_ok:
  assumes "\<not> promotion_refused i ex" and "\<And>q. ex = Some q \<Longrightarrow> policy_ok q"
  shows "policy_ok (configured e rsv now i ex)" (is "policy_ok ?p")
proof -
  have grade: "graded ?p" if "pp_trust ?p = Trust_assist \<or> pp_trust ?p = Trust_unattended
      \<or> pp_trust ?p = Trust_build \<and> \<not> pp_ownerApprovedBuild ?p"
  proof -
    have "pi_trust i = Trust_assist \<or> pi_trust i = Trust_unattended
        \<or> pi_trust i = Trust_build \<and> pi_ownerApprovedBuild i \<noteq> Some True"
      using that by (auto simp: configured_def inherited_def)
    from earned_graded [OF assms(1) this] show ?thesis by (auto simp: graded_def configured_def)
  qed
  have "pp_allowBackground ?p \<longleftrightarrow> pp_trust ?p = Trust_unattended"
    by (cases "pi_trust i") (simp_all add: configured_def)
  moreover have "0 \<le> pp_shadowPasses ?p \<and> pp_shadowPasses ?p \<le> pp_shadowRuns ?p"
    using assms(2) by (cases ex) (auto simp: configured_def inherited_def policy_ok_def)
  moreover have "pp_projectClass ?p = Class_client \<longrightarrow> \<not> pp_allowCrossProjectMemory ?p"
    by (simp add: configured_def)
  ultimately show ?thesis using grade by (simp add: policy_ok_def)
qed

lemma default_ok: "policy_ok (defaultProjectPolicy rsv now project repoPath)"
  by (simp add: policy_ok_def defaultProjectPolicy_def)

lemma trim_present: "js_trim x \<noteq> [] \<Longrightarrow> present (Some (js_trim x))"
  using js_trim_not_blank by (simp add: present_def js_blank_def)

lemma grade_graded:
  assumes "grade_check d i = Inr ()"
  shows "graded (graded_policy rsv redact now i cur)"
proof -
  from assms have "grade_input_error i = None" by (rule grade_check_Inr)
  then have "js_trim (gi_reviewExecutionId i) \<noteq> []" "js_trim (gi_reviewedExecutionId i) \<noteq> []"
      "js_trim (gi_providerAccountLabel i) \<noteq> []"
    by (auto simp: grade_input_error_def split: if_splits)
  then show ?thesis
    by (simp add: graded_def graded_policy_def Let_def grade_of_def trim_present)
qed

lemma graded_policy_ok:
  assumes "grade_check d i = Inr ()" and "policy_ok cur"
  shows "policy_ok (graded_policy rsv redact now i cur)"
proof -
  have "graded (graded_policy rsv redact now i cur)" by (rule grade_graded [OF assms(1)])
  moreover have "pp_trust (graded_policy rsv redact now i cur) = pp_trust cur"
    "pp_allowBackground (graded_policy rsv redact now i cur) = pp_allowBackground cur"
    "pp_projectClass (graded_policy rsv redact now i cur) = pp_projectClass cur"
    "pp_allowCrossProjectMemory (graded_policy rsv redact now i cur) = pp_allowCrossProjectMemory cur"
    by (simp_all add: graded_policy_def Let_def)
  moreover have "0 \<le> pp_shadowPasses (graded_policy rsv redact now i cur)
      \<and> pp_shadowPasses (graded_policy rsv redact now i cur) \<le> pp_shadowRuns (graded_policy rsv redact now i cur)"
    using assms(2) by (simp add: graded_policy_def Let_def policy_ok_def)
  ultimately show ?thesis using assms(2) by (simp add: policy_ok_def)
qed

lemma storeGrade_ok:
  assumes "storeGrade rsv redact now d i s = Inr (s', p)" and "\<forall>q \<in> set s. policy_ok q"
  shows "\<forall>q \<in> set s'. policy_ok q"
proof -
  let ?P = "\<lambda>c. pp_project c = gi_project i"
  let ?cur = "or_default (find ?P s) (defaultProjectPolicy rsv now (gi_project i) (gi_repoPath i))"
  have ok: "grade_check d i = Inr ()" and p: "p = graded_policy rsv redact now i ?cur" and s': "s' = put_policy ?P p s"
    using assms(1) by (auto simp: storeGrade_def rbind_eq_Inr Let_def)
  have "policy_ok ?cur"
  proof (cases "find ?P s")
    case None
    then show ?thesis by (simp add: or_default_def default_ok)
  next
    case (Some q)
    from find_SomeD [OF Some] have "policy_ok q" using assms(2) by blast
    then show ?thesis using Some by (simp add: or_default_def)
  qed
  then have "policy_ok p" unfolding p by (rule graded_policy_ok [OF ok])
  show ?thesis
  proof
    fix q assume "q \<in> set s'"
    then have "q = p \<or> q \<in> set s" unfolding s' by (rule put_policy_old)
    then show "policy_ok q" using \<open>policy_ok p\<close> assms(2) by blast
  qed
qed

lemma reread_policy:
  "normalizePolicy e (raw_of_policy p) = p\<lparr>pp_maxWorkers := tl_maxWorkers (limitsFor e (pp_trust p))\<rparr>"
proof (cases "pp_lastGrade p")
  case (Some g)
  then show ?thesis by (simp add: normalizePolicy_def raw_of_policy_def Let_def or_default_def)
qed (simp add: normalizePolicy_def raw_of_policy_def Let_def or_default_def)

lemma policy_step_ok:
  assumes "policy_step s s'" and "\<forall>q \<in> set s. policy_ok q"
  shows "\<forall>q \<in> set s'. policy_ok q"
  using assms(1)
proof (cases rule: policy_step.cases)
  case (step_configure e rsv cdir now i p)
  let ?P = "policy_matches rsv cdir (pi_project i) (pi_repoPath i)"
  note conf = configure_Inr [OF step_configure]
  have "policy_ok p"
    unfolding conf(2) using conf(1) assms(2) find_SomeD [of ?P s] by (intro configured_ok) auto
  show ?thesis
  proof
    fix q assume "q \<in> set s'"
    then have "q = p \<or> q \<in> set s" unfolding conf(3) by (rule put_policy_old)
    then show "policy_ok q" using \<open>policy_ok p\<close> assms(2) by blast
  qed
next
  case (step_shadow rsv redact now d si p)
  then show ?thesis unfolding recordShadowGrade_def using storeGrade_ok assms(2) by blast
next
  case (step_grade rsv redact now d gi p)
  then show ?thesis unfolding recordIndependentGrade_def using storeGrade_ok assms(2) by blast
next
  case (step_remove remove removed)
  then show ?thesis using assms(2) by (auto simp: removeProjectPolicies_def Let_def split: if_splits)
next
  case (step_reread e)
  then have "s' = map (\<lambda>p. p\<lparr>pp_maxWorkers := tl_maxWorkers (limitsFor e (pp_trust p))\<rparr>) s"
    by (auto simp: readPolicyStore_def writePolicyStore_def reread_policy comp_def)
  then show ?thesis using assms(2) by (simp add: policy_ok_def graded_def)
qed

interpretation policies: invariant_system "\<lambda>s. s = []" policy_step "\<lambda>s. \<forall>q \<in> set s. policy_ok q" "\<lambda>_ _. True"
  by unfold_locales (use policy_step_ok in auto)

text \<open>
  Nothing executes on trust it has not earned: in every policy store the operations
  reach, a project that passes the admission check is not stopped by the kill switch and
  stands above observe, either by the owner's approval of build or with a recorded grade
  that names its review, the reviewed execution and the account; only an unattended project
  may work in the background, and a client project shares no memory.
\<close>

theorem execution_needs_evidence:
  assumes "policy_step\<^sup>*\<^sup>* [] s" and "p \<in> set s" and "assertExecutionAllowed stop p = Inr ()"
  shows "stop = None \<and> pp_trust p \<noteq> Trust_observe
    \<and> (pp_trust p = Trust_build \<and> pp_ownerApprovedBuild p \<or> graded p)
    \<and> (pp_allowBackground p \<longrightarrow> pp_trust p = Trust_unattended \<and> graded p)
    \<and> (pp_projectClass p = Class_client \<longrightarrow> \<not> pp_allowCrossProjectMemory p)"
proof -
  have ok: "policy_ok p" using policies.run_inv [OF assms(1)] assms(2) by simp
  have "stop = None" using assms(3) by (cases stop) (simp_all add: assertExecutionAllowed_def globalStopRequested_def)
  moreover have "pp_trust p \<noteq> Trust_observe"
    using assms(3) by (auto simp: assertExecutionAllowed_def split: if_splits)
  ultimately show ?thesis using ok by (cases "pp_trust p") (auto simp: policy_ok_def)
qed

section \<open>Concrete policies\<close>

definition sample_policy_run :: "string \<Rightarrow> run_purpose \<Rightarrow> run_row" where
  "sample_policy_run i pur = \<lparr>r_id = i, r_taskId = ''t'', r_claimId = None, r_claimWorkerId = None,
     r_providerId = ''pv'', r_modelId = None, r_modelRef = ''m'', r_purpose = pur,
     r_billingMode = Bill_subscription_included, r_routingReason = [], r_paidUsageDecisionId = None,
     r_independenceLoss = None, r_sourceHead = None, r_allowanceState = None, r_worktreeId = None,
     r_status = Run_succeeded, r_sessionRef = Some i, r_startedAt = Some 1, r_endedAt = Some 2,
     r_createdAt = 0, r_updatedAt = 2\<rparr>"

definition sample_policy_db :: db where
  "sample_policy_db = empty_db\<lparr>agentRuns := [sample_policy_run ''impl'' Pur_implementation, sample_policy_run ''rev'' Pur_review],
     agentProviders := [\<lparr>ap_id = ''pv'', ap_name = ''codex'', ap_accountLabel = ''default'', ap_executable = None,
       ap_version = None, ap_credentialFingerprint = None, ap_lastDiscoveredAt = None, ap_createdAt = 0, ap_updatedAt = 0\<rparr>]\<rparr>"

definition sample_grade :: grade_input where
  "sample_grade = \<lparr>gi_project = ''app'', gi_repoPath = ''/app'', gi_provider = Host_codex, gi_result = Grade_pass,
     gi_evidence = ''ok'', gi_providerAccountLabel = ''default'', gi_reviewExecutionId = ''rev'',
     gi_reviewedExecutionId = ''impl'', gi_reviewedProvider = None, gi_independenceLoss = None,
     gi_kind = Grade_shadow, gi_goalId = None, gi_reviewReceiptId = None\<rparr>"

definition sample_policy_input :: "trust_level \<Rightarrow> bool option \<Rightarrow> policy_input" where
  "sample_policy_input level approved = \<lparr>pi_project = ''app'', pi_repoPath = ''/app'', pi_projectClass = Class_workshop,
     pi_trust = level, pi_allowExternalWrites = None, pi_allowPaidSpend = None, pi_ownerApprovedBuild = approved,
     pi_parallelWorkers = None\<rparr>"

definition sample_policy_env :: host_env where
  "sample_policy_env = \<lparr>he_pruneNow = 0, he_now = 0, he_pidAlive = (\<lambda>_. False), he_memoryOverride = Js_finite 50,
     he_systemMemory = None, he_freemem = 0, he_totalmem = 17179869184, he_parallelism = 8, he_workerMemoryMb = None,
     he_workerLimit = Some 2, he_subagentDepth = None, he_leaseId = None, he_uuid = (\<lambda>_. [])\<rparr>"

abbreviation sample_configure :: "policy_input \<Rightarrow> project_policy list \<Rightarrow> (project_policy list \<times> project_policy) policy_result" where
  "sample_configure i s \<equiv> configureProjectPolicy sample_policy_env id (\<lambda>_. None) 0 i s"

lemma sample_approved:
  obtains s p where "sample_configure (sample_policy_input Trust_build (Some True)) [] = Inr (s, p)"
    "pp_trust p = Trust_build" "pp_maxWorkers p = 2" "s = [p]"
proof -
  have "case sample_configure (sample_policy_input Trust_build (Some True)) [] of Inl _ \<Rightarrow> False
      | Inr (s, p) \<Rightarrow> pp_trust p = Trust_build \<and> pp_maxWorkers p = 2 \<and> map pp_project s = [''app'']"
    by code_simp
  then obtain s p where r: "sample_configure (sample_policy_input Trust_build (Some True)) [] = Inr (s, p)"
    "pp_trust p = Trust_build" "pp_maxWorkers p = 2"
    by (auto split: sum.splits prod.splits)
  moreover have "s = [p]" using configure_Inr(3) [OF r(1)] by (simp add: put_policy_def)
  ultimately show ?thesis by (rule that)
qed

theorem promotion_is_earned_witness:
  "\<exists>s p. sample_configure (sample_policy_input Trust_build (Some True)) [] = Inr (s, p)
     \<and> p \<in> set s \<and> pp_trust p = Trust_build \<and> \<not> pp_allowBackground p"
proof -
  obtain s p where r: "sample_configure (sample_policy_input Trust_build (Some True)) [] = Inr (s, p)"
    by (rule sample_approved)
  have "p \<in> set s \<and> pp_trust p = Trust_build \<and> \<not> pp_allowBackground p"
    using promotion_is_earned [OF r] by (simp add: sample_policy_input_def)
  then show ?thesis using r by blast
qed

lemma sample_graded: "succeeds (storeGrade id id 0 sample_policy_db sample_grade [])"
  by code_simp

theorem grade_is_independent_witness:
  "\<exists>s p. storeGrade id id 0 sample_policy_db sample_grade [] = Inr (s, p)
     \<and> (\<exists>review \<in> set (agentRuns sample_policy_db). r_id review = ''rev'' \<and> r_purpose review = Pur_review)"
proof -
  obtain s p where r: "storeGrade id id 0 sample_policy_db sample_grade [] = Inr (s, p)"
    using sample_graded by (auto simp: succeeds_iff)
  have "\<exists>review \<in> set (agentRuns sample_policy_db). r_id review = gi_reviewExecutionId sample_grade \<and> r_purpose review = Pur_review"
    using grade_is_independent [OF r] by blast
  then show ?thesis using r by (simp add: sample_grade_def)
qed

theorem execution_needs_evidence_witness:
  "\<exists>s p. policy_step\<^sup>*\<^sup>* [] s \<and> p \<in> set s \<and> assertExecutionAllowed None p = Inr () \<and> pp_trust p \<noteq> Trust_observe
     \<and> (pp_trust p = Trust_build \<and> pp_ownerApprovedBuild p \<or> graded p)"
proof -
  obtain s p where r: "sample_configure (sample_policy_input Trust_build (Some True)) [] = Inr (s, p)"
    "pp_trust p = Trust_build" "pp_maxWorkers p = 2" "s = [p]"
    by (rule sample_approved)
  from r(1) have "policy_step [] s" by (rule step_configure)
  then have reach: "policy_step\<^sup>*\<^sup>* [] s" by (rule r_into_rtranclp)
  have mem: "p \<in> set s" and allowed: "assertExecutionAllowed None p = Inr ()"
    using r by (simp_all add: assertExecutionAllowed_def globalStopRequested_def)
  show ?thesis using execution_needs_evidence [OF reach mem allowed] reach mem allowed by blast
qed

section \<open>What the model shows of the ladder\<close>

text \<open>
  The streak of three shadow passes counts recordings, not executions: recording the same
  review of the same run three times suffices for assist.
\<close>

definition sample_streak :: "project_policy list" where
  "sample_streak =
     (let again = (\<lambda>s. case storeGrade id id 0 sample_policy_db sample_grade s of Inr (s', _) \<Rightarrow> s' | Inl _ \<Rightarrow> s)
      in again (again (again [])))"

lemma one_review_fills_the_streak:
  "succeeds (sample_configure (sample_policy_input Trust_assist None) sample_streak)"
  by code_simp

text \<open>
  A grade is stored under the project's name only, while policies are found by name or by
  repository: graded under a second name, a project loses the grade and gains an observe
  policy that shadows nothing.
\<close>

definition sample_alias :: "project_policy list" where
  "sample_alias = [(defaultProjectPolicy id 0 ''old'' ''/app'')\<lparr>pp_trust := Trust_assist, pp_maxWorkers := 1\<rparr>]"

lemma alias_grade_is_detached:
  "pp_trust (getProjectPolicy id (\<lambda>_. None) 0 ''app'' ''/app'' sample_alias) = Trust_assist
   \<and> (case storeGrade id id 0 sample_policy_db sample_grade sample_alias of Inl _ \<Rightarrow> False
      | Inr (s, p) \<Rightarrow> pp_trust p = Trust_observe \<and> length s = 2
          \<and> pp_lastGrade (getProjectPolicy id (\<lambda>_. None) 0 ''app'' ''/app'' s) = None)"
  by code_simp

text \<open>An assisted project runs one worker, a host with more memory more than two browsers.\<close>

lemma assist_runs_one_worker: "tl_maxWorkers (limitsFor e Trust_assist) = 1"
  by simp

lemma host_sets_the_caps: "browser_limit sample_policy_env = 5 \<and> build_limit sample_policy_env = 2"
  by code_simp

end
