(* ===== verification/Report_Safety.thy ===== *)
theory Report_Safety
  imports Worker_Report
begin

text \<open>
  What the report of a worker can and cannot do: which parts of an output count, that
  truncation of the output keeps it, and what an accepted report guarantees.
\<close>

section \<open>Lines\<close>

abbreviation LF :: char where "LF \<equiv> CHR 0x0A"

lemma js_trim_subset: "set (js_trim s) \<subseteq> set s"
  by (auto simp: js_trim_def dest!: set_dropWhileD)

lemma js_trim_idem [simp]: "js_trim (js_trim s) = js_trim s"
proof -
  let ?d = "dropWhile js_space s"
  let ?t = "dropWhile js_space (rev ?d)"
  have "dropWhile js_space (rev ?t) = rev ?t"
  proof (cases "?t = []")
    case False
    have "rev (rev ?d) = rev (takeWhile js_space (rev ?d) @ ?t)" by simp
    then have d: "?d = rev ?t @ rev (takeWhile js_space (rev ?d))" by (simp only: rev_append rev_rev_ident)
    then have "?d \<noteq> []" "hd ?d = hd (rev ?t)" using False by (metis Nil_is_append_conv rev_is_Nil_conv, metis False hd_append2 rev_is_Nil_conv)
    then have "\<not> js_space (hd (rev ?t))" using hd_dropWhile by metis
    then show ?thesis using False by (metis dropWhile.simps(2) list.collapse rev_is_Nil_conv)
  next
    case True
    then show ?thesis by (simp only: rev.simps dropWhile.simps)
  qed
  then show ?thesis by (simp add: js_trim_def)
qed

lemma split_lines_ne [simp]: "split_lines s \<noteq> []"
  by (induction s) auto

text \<open>A carriage return before a line feed belongs to the separator.\<close>

definition strip_cr :: "string \<Rightarrow> string" where
  "strip_cr s = (if s \<noteq> [] \<and> last s = CHR 0x0D then butlast s else s)"

lemma strip_cr_Cons: "s \<noteq> [] \<or> c \<noteq> CHR 0x0D \<Longrightarrow> strip_cr (c # s) = c # strip_cr s"
  by (auto simp: strip_cr_def)

lemma js_trim_strip_cr [simp]: "js_trim (strip_cr s) = js_trim s"
proof (cases "s \<noteq> [] \<and> last s = CHR 0x0D")
  case True
  then obtain u where u: "s = u @ [CHR 0x0D]" by (metis append_butlast_last_id)
  have cr: "js_space (CHR 0x0D)" by (simp add: js_space_def)
  have "js_trim (u @ [CHR 0x0D]) = js_trim u"
  proof (cases "\<forall>c \<in> set u. js_space c")
    case True
    with cr have "js_trim u = []" "js_trim (u @ [CHR 0x0D]) = []"
      using js_blank_iff [of u] js_blank_iff [of "u @ [CHR 0x0D]"] by (auto simp: js_blank_def)
    then show ?thesis by simp
  next
    case False
    then have "dropWhile js_space (u @ [CHR 0x0D]) = dropWhile js_space u @ [CHR 0x0D]"
      by (auto simp: dropWhile_append)
    then show ?thesis using cr by (simp add: js_trim_def)
  qed
  with True u show ?thesis by (simp add: strip_cr_def)
qed (auto simp: strip_cr_def)

lemma split_lines_empty: "split_lines a = [[]] \<Longrightarrow> a = []"
  by (cases a) (auto split: if_splits list.splits)

lemma split_lines_append:
  "split_lines (a @ LF # b) = butlast (split_lines a) @ strip_cr (last (split_lines a)) # split_lines b"
proof (induction a)
  case Nil
  show ?case by (simp add: strip_cr_def)
next
  case (Cons c a)
  obtain y ys where y: "split_lines a = y # ys" using split_lines_ne by (metis list.exhaust)
  consider "c = LF" | "c = CHR 0x0D" "a = []" | z where "c = CHR 0x0D" "a = LF # z"
    | "c \<noteq> LF" "c \<noteq> CHR 0x0D" | d z where "c = CHR 0x0D" "a = d # z" "d \<noteq> LF"
    by (cases a) auto
  then show ?case
  proof cases
    case 4
    then show ?thesis using Cons.IH y by (cases ys) (auto simp: strip_cr_Cons)
  next
    case 5
    have sl: "split_lines (c # a) = (c # y) # ys" using 5 y by simp
    have sb: "split_lines ((c # a) @ LF # b) = (c # hd (split_lines (a @ LF # b))) # tl (split_lines (a @ LF # b))"
      using 5 by simp
    have "y \<noteq> []" if e: "ys = []" using split_lines_empty [of a] y 5 e by blast
    then show ?thesis unfolding sl sb Cons.IH y by (cases ys) (simp_all add: strip_cr_Cons)
  next
    case 1
    then show ?thesis using Cons.IH by simp
  next
    case 2
    then show ?thesis by (simp add: strip_cr_def)
  next
    case (3 z)
    then show ?thesis using Cons.IH by simp
  qed
qed

lemma trimmed_lines_append:
  "map js_trim (split_lines (a @ LF # b)) = map js_trim (split_lines a) @ map js_trim (split_lines b)"
proof -
  have "split_lines a = butlast (split_lines a) @ [last (split_lines a)]" by simp
  then have "map js_trim (split_lines a) = map js_trim (butlast (split_lines a)) @ [js_trim (last (split_lines a))]"
    by (metis list.simps(8,9) map_append)
  then show ?thesis by (simp add: split_lines_append)
qed

lemma split_lines_one: "LF \<notin> set s \<Longrightarrow> split_lines s = [s]"
  by (induction s) (auto split: list.splits)

lemma output_events_append:
  "output_events e (a @ LF # b) = output_events e a @ output_events e b"
  by (simp add: output_events_def trimmed_lines_append map_filter_def)

lemma output_events_one: "LF \<notin> set s \<Longrightarrow> js_trim s \<noteq> [] \<Longrightarrow>
    output_events e s = (case re_parse e (js_trim s) of None \<Rightarrow> [] | Some j \<Rightarrow> [j])"
  by (simp add: output_events_def split_lines_one map_filter_def split: option.splits)

section \<open>What an output says\<close>

definition event_lines :: "json \<Rightarrow> string list" where
  "event_lines j =
     (if has_type FINAL_REPORT_TYPE j then reportLinesFromText (jget ''result'' j) else reportLinesFromEnvelope j)"

text \<open>An event that is not marked ambiguous and carries no report.\<close>

definition inert_event :: "json \<Rightarrow> bool" where
  "inert_event j \<longleftrightarrow> \<not> has_type AMBIGUOUS_REPORT_TYPE j \<and> event_lines j = []"

lemma scan_append:
  "scan_events (js @ ks) =
     (case (scan_events js, scan_events ks) of
        (Some (f, p), Some (g, q)) \<Rightarrow> Some (f @ g, p @ q)
      | _ \<Rightarrow> None)"
  by (auto simp: scan_events_def)

lemma scan_inert: "\<forall>j \<in> set js. inert_event j \<Longrightarrow> scan_events js = Some ([], [])"
  by (auto simp: scan_events_def inert_event_def event_lines_def list_ex_iff split: if_splits)

lemma scan_unmarked:
  assumes "\<forall>j \<in> set js. \<not> has_type AMBIGUOUS_REPORT_TYPE j \<and> \<not> has_type FINAL_REPORT_TYPE j"
  shows "\<exists>p. scan_events js = Some ([], p)"
  using assms by (auto simp: scan_events_def list_ex_iff)

lemma parse_cong: "scan_events (output_events e a) = scan_events (output_events e b)
    \<Longrightarrow> parseWorkerReport e a = parseWorkerReport e b"
  by (simp add: parseWorkerReport_def report_line_def)


section \<open>Truncated output\<close>

text \<open>
  What is relied on of \<^verbatim>\<open>JSON.parse\<close> and \<^verbatim>\<open>JSON.stringify\<close>: blanks around a document do not
  matter, the empty text is no document, and the two envelopes are written on one line and
  read back.
\<close>

definition json_laws :: "report_env \<Rightarrow> bool" where
  "json_laws e \<longleftrightarrow>
     (\<forall>s j. re_parse e s = Some j \<longrightarrow> re_parse e (js_trim s) = Some j) \<and> re_parse e [] = None
     \<and> (\<forall>j \<in> insert AMBIGUOUS_WORKER_REPORT_ENVELOPE (final_envelope ` {l. LF \<notin> set l}).
          re_parse e (re_stringify e j) = Some j \<and> LF \<notin> set (re_stringify e j))"

lemma split_lines_no_lf: "l \<in> set (split_lines s) \<Longrightarrow> LF \<notin> set l"
proof (induction s arbitrary: l)
  case (Cons c s)
  obtain y ys where y: "split_lines s = y # ys" using split_lines_ne by (metis list.exhaust)
  with Cons show ?case by (auto split: if_splits)
qed simp

definition report_shape :: "string \<Rightarrow> bool" where
  "report_shape l \<longleftrightarrow> starts_with WORKER_REPORT_PREFIX l \<and> js_trim l = l \<and> LF \<notin> set l"

lemma text_lines_shape: "l \<in> set (reportLinesFromText v) \<Longrightarrow> report_shape l"
  by (auto simp: reportLinesFromText_def report_shape_def split: option.splits json.splits
      dest!: split_lines_no_lf subsetD [OF js_trim_subset])

lemma envelope_lines_shape:
  assumes "l \<in> set (reportLinesFromEnvelope j)"
  shows "report_shape l \<and> \<not> has_type FINAL_REPORT_TYPE j \<and> \<not> has_type AMBIGUOUS_REPORT_TYPE j"
proof -
  have t: "has_type ''result'' j \<or> has_type ''item.completed'' j \<or> has_type ''assistant'' j"
    by (rule ccontr) (use assms in \<open>simp add: reportLinesFromEnvelope_def\<close>)
  have bl: "report_shape l" if b: "l \<in> set (block_lines b)" for b
    by (rule text_lines_shape [of l "jget ''text'' b"])
       (use b in \<open>simp add: block_lines_def split: if_splits\<close>)
  have "report_shape l"
  proof (cases "has_type ''assistant'' j \<and> \<not> has_type ''result'' j \<and> \<not> has_type ''item.completed'' j")
    case True
    then obtain blocks where "l \<in> set (concat (map block_lines blocks))"
      using assms unfolding reportLinesFromEnvelope_def by (fastforce split: option.splits json.splits)
    then show ?thesis using bl by auto
  next
    case False
    then show ?thesis using assms t text_lines_shape
      unfolding reportLinesFromEnvelope_def by (auto split: if_splits option.splits)
  qed
  then show ?thesis using t by (auto simp: has_type_def FINAL_REPORT_TYPE_def AMBIGUOUS_REPORT_TYPE_def)
qed

lemma final_scan:
  assumes "report_shape l"
  shows "scan_events [final_envelope l] = Some ([l], [])"
  using assms
  by (simp add: scan_events_def final_envelope_def has_type_def jget_def FINAL_REPORT_TYPE_def
      AMBIGUOUS_REPORT_TYPE_def reportLinesFromText_def split_lines_one report_shape_def)

lemma envelope_scan:
  assumes "reportLinesFromEnvelope j \<noteq> []"
  shows "scan_events [j] = Some ([], reportLinesFromEnvelope j)"
proof -
  obtain l where "l \<in> set (reportLinesFromEnvelope j)" using assms by (cases "reportLinesFromEnvelope j") auto
  from envelope_lines_shape [OF this] show ?thesis by (simp add: scan_events_def)
qed

lemma one_event:
  assumes "json_laws e" and "re_parse e s = Some j" and "LF \<notin> set s"
  shows "output_events e s = [j]"
proof -
  have "re_parse e (js_trim s) = Some j" "re_parse e [] = None" using assms(1,2) by (auto simp: json_laws_def)
  then show ?thesis using assms(3) by (cases "js_trim s = []") (auto simp: output_events_one)
qed

lemma report_line_scan:
  "report_line e out = (case scan_events (output_events e out) of
     None \<Rightarrow> None
   | Some (f, p) \<Rightarrow> (case (if f \<noteq> [] then f else p) of
       [l] \<Rightarrow> Some (drop (length WORKER_REPORT_PREFIX) l) | _ \<Rightarrow> None))"
  by (simp add: report_line_def)

text \<open>
  C29. Truncating the output cannot lose or forge the report: the envelope kept from the
  provider's event is read back to exactly the report of that event, whatever unmarked
  output remains before it; and an event with two reports has none.
\<close>

theorem preserved_report_keeps_authority:
  assumes "json_laws e" and "LF \<notin> set raw" and "preserveWorkerReportEnvelope e raw = Some kept"
    and "\<forall>j \<in> set (output_events e tail). \<not> has_type AMBIGUOUS_REPORT_TYPE j \<and> \<not> has_type FINAL_REPORT_TYPE j"
  shows "parseWorkerReport e (tail @ LF # kept) = parseWorkerReport e raw
     \<and> parseWorkerReport e kept = parseWorkerReport e raw"
proof -
  obtain j where j: "re_parse e raw = Some j" and lines: "reportLinesFromEnvelope j \<noteq> []"
      and kept: "kept = re_stringify e (case reportLinesFromEnvelope j of [l] \<Rightarrow> final_envelope l
                                        | _ \<Rightarrow> AMBIGUOUS_WORKER_REPORT_ENVELOPE)"
    using assms(3) by (auto simp: preserveWorkerReportEnvelope_def split: option.splits list.splits)
  obtain p where p: "scan_events (output_events e tail) = Some ([], p)" using scan_unmarked [OF assms(4)] by blast
  have raw: "report_line e raw = (case reportLinesFromEnvelope j of
      [l] \<Rightarrow> Some (drop (length WORKER_REPORT_PREFIX) l) | _ \<Rightarrow> None)"
    by (simp add: report_line_scan one_event [OF assms(1) j assms(2)] envelope_scan [OF lines])
  have "report_line e (tail @ LF # kept) = report_line e raw \<and> report_line e kept = report_line e raw"
  proof (cases "\<exists>l. reportLinesFromEnvelope j = [l]")
    case True
    then obtain l where l: "reportLinesFromEnvelope j = [l]" ..
    have sh: "report_shape l" using envelope_lines_shape [of l j] l by simp
    have "re_parse e kept = Some (final_envelope l)" "LF \<notin> set kept"
      using assms(1) sh unfolding kept l json_laws_def report_shape_def by auto
    then have "output_events e kept = [final_envelope l]" by (rule one_event [OF assms(1)])
    then show ?thesis unfolding raw l by (simp add: report_line_scan output_events_append scan_append p final_scan [OF sh])
  next
    case False
    then have k: "kept = re_stringify e AMBIGUOUS_WORKER_REPORT_ENVELOPE" and r: "report_line e raw = None"
      using kept raw by (auto split: list.splits)
    have "re_parse e kept = Some AMBIGUOUS_WORKER_REPORT_ENVELOPE" "LF \<notin> set kept"
      using assms(1) unfolding k json_laws_def by auto
    then have "output_events e kept = [AMBIGUOUS_WORKER_REPORT_ENVELOPE]" by (rule one_event [OF assms(1)])
    moreover have "scan_events [AMBIGUOUS_WORKER_REPORT_ENVELOPE] = None"
      by (simp add: scan_events_def AMBIGUOUS_WORKER_REPORT_ENVELOPE_def has_type_def jget_def)
    ultimately show ?thesis unfolding r by (simp add: report_line_scan output_events_append scan_append p)
  qed
  then show ?thesis by (simp add: parseWorkerReport_def)
qed

section \<open>Accepted reports\<close>

lemma field_req_Some: "field_req k j dec = Some x \<Longrightarrow> \<exists>v. dec v = Some x"
  unfolding field_req_def by (auto simp: bind_eq_Some_conv)

lemma field_opt_Some: "field_opt k j dec = Some (Some x) \<Longrightarrow> \<exists>v. dec v = Some x"
  unfolding field_opt_def by (auto split: option.splits)

lemma dec_safe_length: "dec_safe n v = Some s \<Longrightarrow> length s \<le> n"
  by (cases v) (auto simp: safe_text_def split: if_splits)

lemma dec_text_field_ne: "dec_text_field k j = Some s \<Longrightarrow> s \<noteq> []"
  by (auto simp: dec_text_field_def nonempty_def split: if_splits)

lemma dec_risk_checks_length: "dec_risk_checks j = Some cs \<Longrightarrow> length cs \<le> 24"
  unfolding dec_risk_checks_def by (auto simp: those_Some_iff split: json.splits if_splits dest!: map_eq_imp_length_eq)

lemma dec_promotion_Some:
  assumes "dec_promotion j = Some p"
  shows "length (pe_materialRiskChecks p) \<le> 24 \<and> pe_focusedTests p \<noteq> []
     \<and> pe_cheapestCompileTypeOrBuild p \<noteq> [] \<and> pe_criticalPathBehavior p \<noteq> []"
  using assms unfolding dec_promotion_def
  by (auto simp: bind_eq_Some_conv dest!: dec_text_field_ne field_req_Some [of "''materialRiskChecks''"] dec_risk_checks_length)

lemma dec_independent_Some:
  assumes "dec_independent j = Some r"
  shows "is_sha40 (rv_sourceHead r) \<and> rv_goalId r \<noteq> []"
proof -
  obtain review where h: "field_req ''sourceHead'' review dec_head = Some (rv_sourceHead r)"
      and g: "field_req ''goalId'' review dec_trimmed_text = Some (rv_goalId r)"
    using assms unfolding dec_independent_def by (auto simp: bind_eq_Some_conv)
  obtain v w where v: "dec_head v = Some (rv_sourceHead r)" and w: "dec_trimmed_text w = Some (rv_goalId r)"
    using field_req_Some [OF h] field_req_Some [OF g] by blast
  show ?thesis using v w by (cases v; cases w) (auto simp: nonempty_def split: if_splits)
qed

lemma dec_capability_uses_Some:
  "dec_capability_uses seen items = Some uses \<Longrightarrow>
     distinct (map fst uses) \<and> set (map fst uses) \<inter> set seen = {} \<and> length uses = length items"
proof (induction seen items arbitrary: uses rule: dec_capability_uses.induct)
  case (2 seen item items)
  obtain candidate rest where c: "dec_object item = Some candidate"
      and new: "trimmed_or_empty (jget ''key'' candidate) \<notin> set seen"
      and rest: "dec_capability_uses (trimmed_or_empty (jget ''key'' candidate) # seen) items = Some rest"
      and u: "uses = (trimmed_or_empty (jget ''key'' candidate),
                      take 2000 (redactText [] (trimmed_or_empty (jget ''evidence'' candidate)))) # rest"
      and ok: "\<not> (\<not> pattern_test False CAPABILITY_KEY_PATTERN (trimmed_or_empty (jget ''key'' candidate))
         \<or> trimmed_or_empty (jget ''evidence'' candidate) = []
         \<or> trimmed_or_empty (jget ''key'' candidate) \<in> set seen)"
    using "2.prems" by (auto simp: bind_eq_Some_conv Let_def split: if_splits)
  show ?case using "2.IH" [OF c refl refl ok rest] new unfolding u by auto
qed simp

lemma dec_asset_Some:
  assumes "dec_asset j = Some a"
  shows "as_locator a \<noteq> [] \<and> \<not> starts_with ''/'' (as_locator a) \<and> \<not> has_infix ''..'' (as_locator a)
     \<and> as_tags a \<noteq> [] \<and> length (as_tags a) \<le> 20"
  using assms unfolding dec_asset_def by (auto simp: bind_eq_Some_conv Let_def split: if_splits)

lemma dec_draft_Some: "dec_draft j = Some s \<Longrightarrow> \<not> js_blank s \<and> byteLength s \<le> 100000"
  by (cases j) (auto simp: js_blank_def split: if_splits)

text \<open>The guarantees of a decoded report.\<close>

definition report_ok :: "worker_report \<Rightarrow> bool" where
  "report_ok r \<longleftrightarrow>
     length (wr_summary r) \<le> 12000
     \<and> (wr_status r = Plain Rep_blocked \<longrightarrow> wr_ownerGate r \<noteq> None)
     \<and> (\<forall>d. wr_writingDraft r = Some d \<longrightarrow> \<not> js_blank d \<and> byteLength d \<le> 100000)
     \<and> (\<forall>p. wr_promotionEvidence r = Some p \<longrightarrow>
          length (pe_materialRiskChecks p) \<le> 24 \<and> pe_focusedTests p \<noteq> []
          \<and> pe_cheapestCompileTypeOrBuild p \<noteq> [] \<and> pe_criticalPathBehavior p \<noteq> [])
     \<and> (\<forall>v. wr_independentReview r = Some v \<longrightarrow> is_sha40 (rv_sourceHead v) \<and> rv_goalId v \<noteq> [])
     \<and> (\<forall>us. wr_capabilityUse r = Some us \<longrightarrow> distinct (map fst us) \<and> length us \<le> 24)
     \<and> (\<forall>a. wr_assetCandidate r = Some a \<longrightarrow>
          as_locator a \<noteq> [] \<and> \<not> starts_with ''/'' (as_locator a) \<and> \<not> has_infix ''..'' (as_locator a)
          \<and> as_tags a \<noteq> [] \<and> length (as_tags a) \<le> 20)"

lemma dec_capabilities_Some:
  "dec_capabilities v = Some us \<Longrightarrow> distinct (map fst us) \<and> length us \<le> 24"
  by (auto simp: dec_capabilities_def split: json.splits if_splits dest: dec_capability_uses_Some)

lemma dec_report_ok:
  assumes "dec_report e v = Some r"
  shows "report_ok r"
proof -
  obtain summary where sm: "dec_safe 12000 summary = Some (wr_summary r)"
    using assms unfolding dec_report_def
    by (auto simp: bind_eq_Some_conv Let_def split: if_splits dest!: field_req_Some [of "''summary''"])
  have fields: "field_opt ''writingDraft'' v dec_draft = Some (wr_writingDraft r)"
     "field_opt ''promotionEvidence'' v dec_promotion = Some (wr_promotionEvidence r)"
     "field_opt ''independentReview'' v dec_independent = Some (wr_independentReview r)"
     "field_opt ''capabilityUse'' v dec_capabilities = Some (wr_capabilityUse r)"
     "field_opt ''assetCandidate'' v dec_asset = Some (wr_assetCandidate r)"
    and gate: "wr_status r = Plain Rep_blocked \<longrightarrow> wr_ownerGate r \<noteq> None"
    using assms unfolding dec_report_def
    by (auto simp: bind_eq_Some_conv Let_def nonempty_def split: if_splits)
  show ?thesis
    unfolding report_ok_def
    using dec_safe_length [OF sm] gate field_opt_Some fields
    by (metis dec_draft_Some dec_promotion_Some dec_independent_Some dec_capabilities_Some dec_asset_Some)
qed


section \<open>Examples\<close>

text \<open>Redaction never erases a text.\<close>

lemma replace_all_ne:
  assumes "\<And>p r k. m p = Some (r, k) \<Longrightarrow> r \<noteq> []" and "s \<noteq> []"
  shows "replace_all m 0 bef s \<noteq> []"
  using assms by (cases s) (auto split: option.splits nat.splits)

lemma redactText_ne:
  assumes "s \<noteq> []"
  shows "redactText [] s \<noteq> []"
proof -
  have R: "REDACTED \<noteq> []" by (simp add: REDACTED_def)
  have fold_ne: "t \<noteq> [] \<Longrightarrow> foldl (\<lambda>t p. replace_all (pattern_matcher False p (\<lambda>_. REDACTED)) 0 [] t) t ps \<noteq> []"
    for t ps
  proof (induction ps arbitrary: t)
    case (Cons p ps)
    have "replace_all (pattern_matcher False p (\<lambda>_. REDACTED)) 0 [] t \<noteq> []"
      by (rule replace_all_ne) (use R Cons.prems in \<open>auto simp: pattern_matcher_def split: option.splits list.splits\<close>)
    then show ?case using Cons.IH by simp
  qed simp
  show ?thesis
    unfolding redactText_def Let_def foldl.simps
    by (rule replace_all_ne)
       (use R fold_ne [OF assms] in \<open>auto simp: groups_matcher_def redacted_pair_def Let_def split: option.splits list.splits\<close>)
qed

text \<open>A codec of three documents and of the final envelopes.\<close>

definition sample_body :: json where
  "sample_body = JObj [(''status'', JStr ''blocked''), (''summary'', JStr ''ok''), (''ownerGate'', JStr ''approve'')]"

definition sample_event :: json where
  "sample_event = JObj [(''type'', JStr ''result''), (''result'', JStr ''MAJOR_RESULT: {}'')]"

definition sample_json :: report_env where
  "sample_json =
     \<lparr>re_parse = (\<lambda>s. if s = ''A'' then Some AMBIGUOUS_WORKER_REPORT_ENVELOPE
         else if s = ''E'' then Some sample_event else if s = ''{}'' then Some sample_body
         else if length s \<ge> 2 \<and> hd s = CHR ''F'' \<and> last s = CHR ''.'' then Some (final_envelope (butlast (tl s)))
         else None),
      re_stringify = (\<lambda>j. if j = AMBIGUOUS_WORKER_REPORT_ENVELOPE then ''A''
         else case jget ''result'' j of Some (JStr l) \<Rightarrow> ''F'' @ l @ ''.'' | _ \<Rightarrow> []),
      re_sourcePacket = Some, re_gateEvidence = Some\<rparr>"

lemma js_trim_framed: "\<not> js_space c \<Longrightarrow> \<not> js_space d \<Longrightarrow> js_trim (c # l @ [d]) = c # l @ [d]"
  by (simp add: js_trim_def)

lemma sample_json_laws: "json_laws sample_json"
proof -
  have 1: "re_parse sample_json (js_trim s) = Some j" if p: "re_parse sample_json s = Some j" for s j
  proof -
    have F: "\<not> js_space (CHR ''F'')" "\<not> js_space (CHR ''.'')" by code_simp+
    consider "s = ''A''" | "s = ''E''" | "s = ''{}''" | "length s \<ge> 2" "hd s = CHR ''F''" "last s = CHR ''.''"
      using p by (auto simp: sample_json_def split: if_splits)
    then have "js_trim s = s"
    proof cases
      case 4
      then obtain l where "s = CHR ''F'' # l @ [CHR ''.'']"
        by (cases s; cases "tl s" rule: rev_cases) auto
      then show ?thesis using js_trim_framed [OF F] by simp
    qed (simp_all, code_simp+)
    with p show ?thesis by simp
  qed
  have 2: "re_parse sample_json (re_stringify sample_json j) = Some j \<and> LF \<notin> set (re_stringify sample_json j)"
    if j: "j \<in> insert AMBIGUOUS_WORKER_REPORT_ENVELOPE (final_envelope ` {l. LF \<notin> set l})" for j
    using j by (auto simp: sample_json_def final_envelope_def AMBIGUOUS_WORKER_REPORT_ENVELOPE_def jget_def butlast_append)
  show ?thesis unfolding json_laws_def using 1 2 by (simp add: sample_json_def)
qed

lemma sample_report:
  "\<exists>r. parseWorkerReport sample_json ''E'' = Some r \<and> wr_status r = Plain Rep_blocked"
proof -
  have "report_line sample_json ''E'' = Some ''{}''" by code_simp
  moreover have "re_parse sample_json ''{}'' = Some sample_body" by (simp add: sample_json_def)
  moreover have "\<exists>r. dec_report sample_json sample_body = Some r \<and> wr_status r = Plain Rep_blocked"
  proof -
    have t: "js_trim ''ok'' \<noteq> []" "js_trim ''approve'' \<noteq> []" by code_simp+
    then have "safe_text 4000 ''approve'' \<noteq> []" using redactText_ne by (simp add: safe_text_def)
    with t(1)
    show ?thesis
      by (simp add: dec_report_def sample_body_def field_req_def field_opt_def jget_def dec_coerced_def dec_name_def
          REPORT_STATUSES_def text_or_empty_def)
  qed
  ultimately show ?thesis by (simp add: parseWorkerReport_def)
qed


theorem preserved_report_keeps_authority_witness:
  "preserveWorkerReportEnvelope sample_json ''E'' = Some ''FMAJOR_RESULT: {}.''
   \<and> parseWorkerReport sample_json (''npm test'' @ LF # ''FMAJOR_RESULT: {}.'') = parseWorkerReport sample_json ''E''
   \<and> parseWorkerReport sample_json ''E'' \<noteq> None"
proof -
  have k: "preserveWorkerReportEnvelope sample_json ''E'' = Some ''FMAJOR_RESULT: {}.''" by code_simp
  have t: "\<forall>j \<in> set (output_events sample_json ''npm test'').
      \<not> has_type AMBIGUOUS_REPORT_TYPE j \<and> \<not> has_type FINAL_REPORT_TYPE j" by code_simp
  show ?thesis
    using k preserved_report_keeps_authority [OF sample_json_laws _ k t] sample_report by auto
qed


text \<open>
  An enumeration wrapped in an array is accepted: such a report is not blocked (it needs no
  gate), not done and not active for the code that reads it.
\<close>

lemma wrapped_status_is_accepted:
  "\<exists>r. dec_report e (JObj [(''status'', JArr [JStr ''blocked'']), (''summary'', JStr ''ok'')]) = Some r
     \<and> wr_status r = Coerced (JArr [JStr ''blocked'']) \<and> wr_ownerGate r = None"
proof -
  have "js_trim ''ok'' \<noteq> []" by code_simp
  then show ?thesis
    by (simp add: dec_report_def field_req_def field_opt_def jget_def dec_coerced_def dec_name_def
        REPORT_STATUSES_def text_or_empty_def nonempty_def)
qed

end
