(* ===== verification/Roadmap_Sheet.thy ===== *)
theory Roadmap_Sheet
  imports Task_Service Js_Text "HOL-Library.AList" "HOL-Library.List_Lexorder" "HOL-Library.Char_ord"
begin

text \<open>
  The roadmap source behind its adapter interface (src/roadmap/types.ts), the canonical payload
  identity of a proposal (src/roadmap/canonical.ts), the shared validation
  (src/roadmap/validate.ts) and the in-memory sheet that implements the interface
  (src/roadmap/mock-sheets.ts). Objects whose keys are column names are association lists
  in insertion order; a column is not named like an array index or like a member of
  \<^verbatim>\<open>Object.prototype\<close>. The messages of violations are constructors that carry what the
  texts print.
\<close>

section \<open>The data of the contract\<close>

record roadmap_row =
  rm_stableId :: string
  rm_values :: "(string \<times> string) list"
  rm_formulas :: "(string \<times> string) list option"

record row_change =
  rc_stableId :: string
  rc_columns :: "(string \<times> string) list"

record update_proposal =
  up_idempotencyKey :: string
  up_changes :: "row_change list"
  up_rationale :: string
  up_evidenceRefs :: "string list"

record diff_entry =
  df_stableId :: string
  df_column :: string
  df_from :: "string option"
  df_to :: string
  df_isFormulaCell :: bool

datatype sheet_violation =
    Rationale_required
  | Idempotency_key_required
  | Row_not_found string
  | Source_changed string string "string option" "string option"
  | Formula_cell string string
  | Done_without_evidence string string
  | Row_vanished string

record dry_run_result =
  dr_ok :: bool
  dr_diff :: "diff_entry list"
  dr_violations :: "sheet_violation list"

datatype apply_status = As_applied | As_already_applied | As_rejected

record apply_result =
  ar_status :: apply_status
  ar_violations :: "sheet_violation list"

text \<open>\<open>RoadmapAdapter\<close>: the operations as functions of the source's state.\<close>

record 's roadmap_adapter =
  ad_readRow :: "'s \<Rightarrow> string \<Rightarrow> roadmap_row option"
  ad_readAll :: "'s \<Rightarrow> roadmap_row list"
  ad_revision :: "'s \<Rightarrow> string"
  ad_dryRun :: "'s \<Rightarrow> update_proposal \<Rightarrow> dry_run_result"
  ad_apply :: "update_proposal \<Rightarrow> diff_entry list option \<Rightarrow> 's \<Rightarrow> 's \<times> apply_result"
  ad_wasApplied :: "'s \<Rightarrow> string \<Rightarrow> bool"

section \<open>Canonical payloads\<close>

fun sortKeys :: "json \<Rightarrow> json" where
  "sortKeys (JArr js) = JArr (map sortKeys js)"
| "sortKeys (JObj kvs) = JObj (map (\<lambda>(k, v). (k, sortKeys v)) (sort_key fst kvs))"
| "sortKeys (JNull) = JNull"
| "sortKeys (JBool b) = JBool b"
| "sortKeys (JNum n) = JNum n"
| "sortKeys (JStr s) = JStr s"

definition columns_json :: "(string \<times> string) list \<Rightarrow> json" where
  "columns_json cols = JObj (map (\<lambda>(k, v). (k, JStr v)) cols)"

definition changes_json :: "row_change list \<Rightarrow> json" where
  "changes_json cs = JArr (map (\<lambda>c. JObj
     [(''stableId'', JStr (rc_stableId c)), (''columns'', columns_json (rc_columns c))]) cs)"

text \<open>\<open>stringify\<close> is \<^verbatim>\<open>JSON.stringify\<close> and \<open>sha256\<close> the hexadecimal digest of \<^verbatim>\<open>node:crypto\<close>.\<close>

record text_codec =
  stringify :: "json \<Rightarrow> string"
  sha256 :: "string \<Rightarrow> string"

definition canonicalJson :: "text_codec \<Rightarrow> json \<Rightarrow> string" where
  "canonicalJson tc j = stringify tc (sortKeys j)"

definition proposalPayloadHash :: "text_codec \<Rightarrow> row_change list \<Rightarrow> string" where
  "proposalPayloadHash tc cs = sha256 tc (canonicalJson tc (changes_json cs))"

definition KEY_HASH_LENGTH :: nat where "KEY_HASH_LENGTH = 16"

definition proposalIdempotencyKey :: "text_codec \<Rightarrow> string \<Rightarrow> row_change list \<Rightarrow> string" where
  "proposalIdempotencyKey tc baseKey cs =
     baseKey @ ''#'' @ take KEY_HASH_LENGTH (proposalPayloadHash tc cs)"

definition ends_with :: "string \<Rightarrow> string \<Rightarrow> bool" where
  "ends_with s suffix = (length suffix \<le> length s \<and> drop (length s - length suffix) s = suffix)"

definition idempotencyKeyMatchesPayload :: "text_codec \<Rightarrow> string \<Rightarrow> row_change list \<Rightarrow> bool" where
  "idempotencyKeyMatchesPayload tc k cs =
     ends_with k (''#'' @ take KEY_HASH_LENGTH (proposalPayloadHash tc cs))"

section \<open>Validation\<close>

record proposal_policy =
  pp_statusColumn :: string
  pp_doneValues :: "string list"

definition DEFAULT_POLICY :: proposal_policy where
  "DEFAULT_POLICY = \<lparr>pp_statusColumn = ''Status'',
     pp_doneValues = [''Done'', ''Complete'', ''Completed'']\<rparr>"

definition is_formula_cell :: "roadmap_row \<Rightarrow> string \<Rightarrow> bool" where
  "is_formula_cell row column =
     (case rm_formulas row of None \<Rightarrow> False | Some fs \<Rightarrow> column \<in> fst ` set fs)"

definition source_changed ::
  "diff_entry list option \<Rightarrow> roadmap_row \<Rightarrow> string \<Rightarrow> string \<Rightarrow> sheet_violation list" where
  "source_changed expectedDiff row sid column =
     (case expectedDiff of
        None \<Rightarrow> []
      | Some es \<Rightarrow>
          (case find (\<lambda>e. df_stableId e = sid \<and> df_column e = column) es of
             None \<Rightarrow> []
           | Some e \<Rightarrow>
               if df_from e \<noteq> map_of (rm_values row) column
               then [Source_changed sid column (df_from e) (map_of (rm_values row) column)]
               else []))"

definition same_lower :: "string \<Rightarrow> string \<Rightarrow> bool" where
  "same_lower a b = (map js_lower_ascii a = map js_lower_ascii b)"

definition cell_violations ::
  "update_proposal \<Rightarrow> proposal_policy \<Rightarrow> diff_entry list option \<Rightarrow> roadmap_row \<Rightarrow> string
     \<Rightarrow> string \<times> string \<Rightarrow> sheet_violation list" where
  "cell_violations p pol expectedDiff row sid cell =
     (let (column, newValue) = cell in
      source_changed expectedDiff row sid column
      @ (if is_formula_cell row column then [Formula_cell sid column] else [])
      @ (if column = pp_statusColumn pol
            \<and> list_ex (\<lambda>v. same_lower v newValue) (pp_doneValues pol)
            \<and> up_evidenceRefs p = []
         then [Done_without_evidence sid newValue] else []))"

definition cell_diff :: "roadmap_row \<Rightarrow> string \<Rightarrow> string \<times> string \<Rightarrow> diff_entry" where
  "cell_diff row sid cell =
     \<lparr>df_stableId = sid, df_column = fst cell, df_from = map_of (rm_values row) (fst cell),
      df_to = snd cell, df_isFormulaCell = is_formula_cell row (fst cell)\<rparr>"

type_synonym sheet_rows = "(string \<times> roadmap_row) list"

definition change_violations ::
  "update_proposal \<Rightarrow> proposal_policy \<Rightarrow> diff_entry list option \<Rightarrow> sheet_rows \<Rightarrow> row_change
     \<Rightarrow> sheet_violation list" where
  "change_violations p pol expectedDiff rows c =
     (case map_of rows (rc_stableId c) of
        None \<Rightarrow> [Row_not_found (rc_stableId c)]
      | Some row \<Rightarrow>
          concat (map (cell_violations p pol expectedDiff row (rc_stableId c)) (rc_columns c)))"

definition change_diff :: "sheet_rows \<Rightarrow> row_change \<Rightarrow> diff_entry list" where
  "change_diff rows c =
     (case map_of rows (rc_stableId c) of
        None \<Rightarrow> []
      | Some row \<Rightarrow> map (cell_diff row (rc_stableId c)) (rc_columns c))"

definition evaluateProposal ::
  "update_proposal \<Rightarrow> sheet_rows \<Rightarrow> proposal_policy \<Rightarrow> diff_entry list option
     \<Rightarrow> diff_entry list \<times> sheet_violation list" where
  "evaluateProposal p rows pol expectedDiff =
     (concat (map (change_diff rows) (up_changes p)),
      (if js_blank (up_rationale p) then [Rationale_required] else [])
      @ (if js_blank (up_idempotencyKey p) then [Idempotency_key_required] else [])
      @ concat (map (change_violations p pol expectedDiff rows) (up_changes p)))"

section \<open>The in-memory sheet\<close>

text \<open>\<open>sh_rows\<close> is the \<^verbatim>\<open>Map\<close> of rows and \<open>sh_appliedKeys\<close> the \<^verbatim>\<open>Set\<close> of keys, in insertion order.\<close>

record mock_sheet =
  sh_rows :: sheet_rows
  sh_appliedKeys :: "string list"
  sh_policy :: proposal_policy
  sh_revisionCounter :: nat

definition new_sheet :: "roadmap_row list \<Rightarrow> proposal_policy \<Rightarrow> mock_sheet" where
  "new_sheet rows pol =
     \<lparr>sh_rows = foldl (\<lambda>m r. AList.update (rm_stableId r) r m) [] rows,
      sh_appliedKeys = [], sh_policy = pol, sh_revisionCounter = 0\<rparr>"

definition sheet_readRow :: "mock_sheet \<Rightarrow> string \<Rightarrow> roadmap_row option" where
  "sheet_readRow s sid = map_of (sh_rows s) sid"

definition sheet_readAll :: "mock_sheet \<Rightarrow> roadmap_row list" where
  "sheet_readAll s = map snd (sh_rows s)"

definition sheet_revision :: "mock_sheet \<Rightarrow> string" where
  "sheet_revision s = ''rev-'' @ decimal (sh_revisionCounter s)"

definition sheet_wasApplied :: "mock_sheet \<Rightarrow> string \<Rightarrow> bool" where
  "sheet_wasApplied s k = List.member (sh_appliedKeys s) k"

definition write_row :: "row_change \<Rightarrow> roadmap_row \<Rightarrow> roadmap_row" where
  "write_row c row =
     row\<lparr>rm_values := foldl (\<lambda>m (k, v). AList.update k v m) (rm_values row) (rc_columns c)\<rparr>"

definition setCell :: "string \<Rightarrow> string \<Rightarrow> string \<Rightarrow> mock_sheet \<Rightarrow> (sheet_violation, mock_sheet) result" where
  "setCell sid column v s =
     (case map_of (sh_rows s) sid of
        None \<Rightarrow> Inl (Row_not_found sid)
      | Some row \<Rightarrow>
          Inr (s\<lparr>sh_rows := AList.update sid
                   (row\<lparr>rm_values := AList.update column v (rm_values row)\<rparr>) (sh_rows s),
                 sh_revisionCounter := Suc (sh_revisionCounter s)\<rparr>))"

definition sheet_dryRun :: "mock_sheet \<Rightarrow> update_proposal \<Rightarrow> dry_run_result" where
  "sheet_dryRun s p =
     (let (diff, vs) = evaluateProposal p (sh_rows s) (sh_policy s) None in
      \<lparr>dr_ok = (vs = []), dr_diff = diff, dr_violations = vs\<rparr>)"

text \<open>The write loop; a row that is missing stops it with what was already written.\<close>

fun write_changes :: "row_change list \<Rightarrow> sheet_rows \<Rightarrow> sheet_rows \<times> string option" where
  "write_changes [] rows = (rows, None)"
| "write_changes (c # cs) rows =
     (case map_of rows (rc_stableId c) of
        None \<Rightarrow> (rows, Some (rc_stableId c))
      | Some row \<Rightarrow> write_changes cs (AList.update (rc_stableId c) (write_row c row) rows))"

definition sheet_apply ::
  "update_proposal \<Rightarrow> diff_entry list option \<Rightarrow> mock_sheet \<Rightarrow> mock_sheet \<times> apply_result" where
  "sheet_apply p expectedDiff s =
     (if sheet_wasApplied s (up_idempotencyKey p)
      then (s, \<lparr>ar_status = As_already_applied, ar_violations = []\<rparr>)
      else
        (let vs = snd (evaluateProposal p (sh_rows s) (sh_policy s) expectedDiff) in
         if vs \<noteq> [] then (s, \<lparr>ar_status = As_rejected, ar_violations = vs\<rparr>)
         else
           (case write_changes (up_changes p) (sh_rows s) of
              (rows, Some sid) \<Rightarrow>
                (s\<lparr>sh_rows := rows\<rparr>, \<lparr>ar_status = As_rejected, ar_violations = [Row_vanished sid]\<rparr>)
            | (rows, None) \<Rightarrow>
                (s\<lparr>sh_rows := rows,
                   sh_appliedKeys := sh_appliedKeys s @ [up_idempotencyKey p],
                   sh_revisionCounter := Suc (sh_revisionCounter s)\<rparr>,
                 \<lparr>ar_status = As_applied, ar_violations = []\<rparr>))))"

definition MockSheetsAdapter :: "mock_sheet roadmap_adapter" where
  "MockSheetsAdapter =
     \<lparr>ad_readRow = sheet_readRow, ad_readAll = sheet_readAll, ad_revision = sheet_revision,
      ad_dryRun = sheet_dryRun, ad_apply = sheet_apply, ad_wasApplied = sheet_wasApplied\<rparr>"

section \<open>The contract of the interface\<close>

text \<open>
  \<open>edit\<close> is a change of the source from outside (a person edits the sheet): it may change
  cells and the revision, not the record of applied keys.
\<close>

locale lawful_adapter =
  fixes ad :: "'s roadmap_adapter" and edit :: "'s \<Rightarrow> 's \<Rightarrow> bool"
  assumes apply_again: "ad_wasApplied ad s (up_idempotencyKey p) \<Longrightarrow>
      ad_apply ad p e s = (s, \<lparr>ar_status = As_already_applied, ar_violations = []\<rparr>)"
    and apply_records: "ad_apply ad p e s = (s', r) \<Longrightarrow> ar_status r \<noteq> As_rejected \<Longrightarrow>
      ad_wasApplied ad s' (up_idempotencyKey p)"
    and apply_rejects: "ad_apply ad p e s = (s', r) \<Longrightarrow> ar_status r = As_rejected \<Longrightarrow> s' = s"
    and apply_frame: "ad_apply ad p e s = (s', r) \<Longrightarrow> k \<noteq> up_idempotencyKey p \<Longrightarrow>
      ad_wasApplied ad s' k = ad_wasApplied ad s k"
    and apply_checks: "dr_violations (ad_dryRun ad s p) \<noteq> [] \<Longrightarrow>
      \<not> ad_wasApplied ad s (up_idempotencyKey p) \<Longrightarrow> ar_status (snd (ad_apply ad p e s)) = As_rejected"
    and edit_frame: "edit s s' \<Longrightarrow> ad_wasApplied ad s' k = ad_wasApplied ad s k"
begin

lemma apply_keeps:
  assumes "ad_apply ad p e s = (s', r)" and "ad_wasApplied ad s k"
  shows "ad_wasApplied ad s' k"
proof (cases "k = up_idempotencyKey p")
  case True
  then show ?thesis using assms apply_again [of s p e] by simp
qed (use assms apply_frame in blast)

lemma apply_twice:
  assumes "ad_apply ad p e s = (s', r)" and "ar_status r \<noteq> As_rejected"
  shows "ad_apply ad p e' s' = (s', \<lparr>ar_status = As_already_applied, ar_violations = []\<rparr>)"
  using apply_again [OF apply_records [OF assms]] .

lemma apply_new_key:
  assumes "ad_apply ad p e s = (s', r)" and "ad_wasApplied ad s' k" and "\<not> ad_wasApplied ad s k"
  shows "k = up_idempotencyKey p \<and> ar_status r \<noteq> As_rejected"
  using assms apply_frame apply_rejects by blast

end

definition sheet_edit :: "mock_sheet \<Rightarrow> mock_sheet \<Rightarrow> bool" where
  "sheet_edit s s' \<longleftrightarrow> (\<exists>sid column v. setCell sid column v s = Inr s')"

lemma sheet_edit_keys: "sheet_edit s s' \<Longrightarrow> sheet_wasApplied s' k = sheet_wasApplied s k"
  by (auto simp: sheet_edit_def setCell_def sheet_wasApplied_def split: option.splits)

lemma rows_kept_by_update:
  "fst ` set (AList.update k v rows) = insert k (fst ` set rows)"
  by (simp add: dom_update)

lemma write_changes_total:
  "\<forall>c \<in> set cs. rc_stableId c \<in> fst ` set rows \<Longrightarrow> snd (write_changes cs rows) = None"
proof (induction cs arbitrary: rows)
  case (Cons c cs)
  then obtain row where row: "map_of rows (rc_stableId c) = Some row"
    by (metis list.set_intros(1) map_of_eq_None_iff not_Some_eq)
  have "\<forall>d \<in> set cs. rc_stableId d \<in> fst ` set (AList.update (rc_stableId c) (write_row c row) rows)"
    using Cons.prems by (simp add: rows_kept_by_update)
  then show ?case using Cons.IH row by simp
qed simp

lemma no_violations_rows:
  assumes "snd (evaluateProposal p rows pol e) = []"
  shows "\<forall>c \<in> set (up_changes p). rc_stableId c \<in> fst ` set rows"
proof
  fix c assume "c \<in> set (up_changes p)"
  then have "change_violations p pol e rows c = []" using assms by (auto simp: evaluateProposal_def)
  then show "rc_stableId c \<in> fst ` set rows"
    by (auto simp: change_violations_def map_of_eq_None_iff split: option.splits dest: map_of_SomeD)
      (metis fst_conv image_eqI map_of_SomeD)
qed

text \<open>The apply of the sheet in three cases; the branch of a vanished row is not taken.\<close>

lemma sheet_apply_cases:
  obtains (again) "sheet_wasApplied s (up_idempotencyKey p)"
      "sheet_apply p e s = (s, \<lparr>ar_status = As_already_applied, ar_violations = []\<rparr>)"
  | (rejected) vs where "\<not> sheet_wasApplied s (up_idempotencyKey p)" "vs \<noteq> []"
      "vs = snd (evaluateProposal p (sh_rows s) (sh_policy s) e)"
      "sheet_apply p e s = (s, \<lparr>ar_status = As_rejected, ar_violations = vs\<rparr>)"
  | (applied) "\<not> sheet_wasApplied s (up_idempotencyKey p)"
      "snd (evaluateProposal p (sh_rows s) (sh_policy s) e) = []"
      "sheet_apply p e s =
         (s\<lparr>sh_rows := fst (write_changes (up_changes p) (sh_rows s)),
            sh_appliedKeys := sh_appliedKeys s @ [up_idempotencyKey p],
            sh_revisionCounter := Suc (sh_revisionCounter s)\<rparr>,
          \<lparr>ar_status = As_applied, ar_violations = []\<rparr>)"
proof (cases "sheet_wasApplied s (up_idempotencyKey p)")
  case True
  then show thesis using again by (simp add: sheet_apply_def)
next
  case False
  show thesis
  proof (cases "snd (evaluateProposal p (sh_rows s) (sh_policy s) e) = []")
    case True
    obtain rows v where w: "write_changes (up_changes p) (sh_rows s) = (rows, v)"
      by (rule prod.exhaust)
    have "v = None" using write_changes_total [OF no_violations_rows [OF True]] w by simp
    then show thesis using applied False True w by (simp add: sheet_apply_def)
  next
    case bad: False
    then show thesis using rejected False by (simp add: sheet_apply_def)
  qed
qed

text \<open>More expected cells only add violations.\<close>

lemma violations_grow:
  assumes "snd (evaluateProposal p rows pol e) = []"
  shows "snd (evaluateProposal p rows pol None) = []"
proof -
  have "change_violations p pol None rows c = []" if "c \<in> set (up_changes p)" for c
  proof -
    have "change_violations p pol e rows c = []" using assms that by (auto simp: evaluateProposal_def)
    then show ?thesis
      by (auto simp: change_violations_def cell_violations_def source_changed_def
          split: option.splits)
  qed
  then show ?thesis using assms by (simp add: evaluateProposal_def split: if_splits)
qed

interpretation mock: lawful_adapter MockSheetsAdapter sheet_edit
proof
  fix p e s s' r k
  show "ad_wasApplied MockSheetsAdapter s (up_idempotencyKey p) \<Longrightarrow>
      ad_apply MockSheetsAdapter p e s = (s, \<lparr>ar_status = As_already_applied, ar_violations = []\<rparr>)"
    by (simp add: MockSheetsAdapter_def sheet_apply_def)
  assume a: "ad_apply MockSheetsAdapter p e s = (s', r)"
  then have a: "sheet_apply p e s = (s', r)" by (simp add: MockSheetsAdapter_def)
  show "ar_status r \<noteq> As_rejected \<Longrightarrow> ad_wasApplied MockSheetsAdapter s' (up_idempotencyKey p)"
    using a by (cases rule: sheet_apply_cases [of s p e])
      (auto simp: MockSheetsAdapter_def sheet_wasApplied_def)
  show "ar_status r = As_rejected \<Longrightarrow> s' = s"
    using a by (cases rule: sheet_apply_cases [of s p e]) auto
  show "k \<noteq> up_idempotencyKey p \<Longrightarrow>
      ad_wasApplied MockSheetsAdapter s' k = ad_wasApplied MockSheetsAdapter s k"
    using a by (cases rule: sheet_apply_cases [of s p e])
      (auto simp: MockSheetsAdapter_def sheet_wasApplied_def)
next
  fix s p e
  assume "dr_violations (ad_dryRun MockSheetsAdapter s p) \<noteq> []"
    and "\<not> ad_wasApplied MockSheetsAdapter s (up_idempotencyKey p)"
  then show "ar_status (snd (ad_apply MockSheetsAdapter p e s)) = As_rejected"
    using violations_grow [of p "sh_rows s" "sh_policy s" e]
    by (cases rule: sheet_apply_cases [of s p e])
      (auto simp: MockSheetsAdapter_def sheet_dryRun_def split: prod.splits)
next
  fix s s' k
  assume "sheet_edit s s'"
  then show "ad_wasApplied MockSheetsAdapter s' k = ad_wasApplied MockSheetsAdapter s k"
    by (simp add: MockSheetsAdapter_def sheet_edit_keys)
qed

end
