(* ===== verification/Roadmap.thy ===== *)
theory Roadmap
  imports Roadmap_Sheet
begin

text \<open>
  The stored lifecycle of a roadmap write (src/roadmap/proposal-service.ts over the table
  \<open>roadmap_updates\<close> of src/db/schema.ts with the triggers of drizzle/0004, 0011 and 0012).
  The asynchronous operations are cut at their \<^verbatim>\<open>await\<close>s: a call of the source and the code
  after its answer are two steps, between which other workers run or the process dies.
  A JSON column that only this service writes holds the value it prints.
\<close>

section \<open>The stored updates\<close>

datatype update_status = Up_proposed | Up_applying | Up_applied | Up_rejected | Up_superseded

record update_row =
  ru_id :: string
  ru_roadmapItemId :: string
  ru_proposedByRunId :: "string option"
  ru_idempotencyKey :: string
  ru_payloadHash :: string
  ru_sourceRevision :: "string option"
  ru_changes :: "row_change list"
  ru_rationale :: string
  ru_evidenceIds :: "string list"
  ru_dryRunDiff :: "diff_entry list option"
  ru_dryRunAt :: "instant option"
  ru_status :: update_status
  ru_applyAttemptId :: "string option"
  ru_applyStartedAt :: "instant option"
  ru_applyWorkerId :: "string option"
  ru_applyLeaseExpiresAt :: "instant option"
  ru_appliedAt :: "instant option"

record roadmap_store =
  rs_db :: db
  rs_updates :: "update_row list"
  rs_host :: "string option"

datatype roadmap_error =
    Rm_not_found string string
  | Rm_store major_error
  | Rm_dry_run_rejected "sheet_violation list"
  | Rm_done_needs_evidence
  | Rm_evidence_foreign string
  | Rm_other_host string
  | Rm_tampered string
  | Rm_key_unbound string
  | Rm_not_claimable string
  | Rm_displaced string string
  | Rm_in_progress string "string option"
  | Rm_not_applicable update_status
  | Rm_no_dry_run string
  | Rm_raced string
  | Rm_needs_decision

definition row_outcome :: "'a outcome \<Rightarrow> (roadmap_error, 'a) result" where
  "row_outcome m = (case m of Inr x \<Rightarrow> Inr x | Inl e \<Rightarrow> Inl (Rm_store e))"

text \<open>The checks of a row and the triggers of an update, in the order of the migrations.\<close>

definition update_checks :: "update_row \<Rightarrow> (string \<times> bool) list" where
  "update_checks u =
     [(''roadmap_updates_applied_needs_dry_run'',
        ru_status u = Up_applied \<longrightarrow>
          ru_appliedAt u \<noteq> None \<and> \<not> Option.is_none (ru_dryRunDiff u) \<and> ru_dryRunAt u \<noteq> None),
      (''roadmap_updates_applying_has_attempt'',
        ru_status u = Up_applying \<longrightarrow> ru_applyAttemptId u \<noteq> None \<and> ru_applyStartedAt u \<noteq> None)]"

definition update_triggers :: "instant \<Rightarrow> update_row \<Rightarrow> update_row \<Rightarrow> (string \<times> bool) list" where
  "update_triggers sqlNow old new =
     [(''proposal payload identity is immutable'',
        ru_idempotencyKey new = ru_idempotencyKey old \<and> ru_payloadHash new = ru_payloadHash old
        \<and> ru_changes new = ru_changes old \<and> ru_roadmapItemId new = ru_roadmapItemId old),
      (''terminal roadmap updates cannot change status'',
        ru_status old \<in> {Up_applied, Up_rejected, Up_superseded} \<longrightarrow> ru_status new = ru_status old),
      (''settling roadmap apply must preserve exact attempt identity'',
        ru_status old = Up_applying \<and> ru_status new \<in> {Up_applied, Up_rejected} \<longrightarrow>
          ru_applyAttemptId new = ru_applyAttemptId old \<and> ru_applyWorkerId new = ru_applyWorkerId old
          \<and> ru_applyLeaseExpiresAt new = ru_applyLeaseExpiresAt old),
      (''requeue requires the expired exact roadmap apply attempt'',
        ru_status old = Up_applying \<and> ru_status new = Up_proposed \<longrightarrow>
          ru_applyAttemptId old \<noteq> None \<and> ru_applyWorkerId old \<noteq> None
          \<and> (case ru_applyLeaseExpiresAt old of None \<Rightarrow> False | Some e \<Rightarrow> e \<le> sqlNow)
          \<and> ru_applyAttemptId new = None \<and> ru_applyWorkerId new = None
          \<and> ru_applyLeaseExpiresAt new = None)]
     @ update_checks new"

definition update_updates ::
  "instant \<Rightarrow> (update_row \<Rightarrow> bool) \<Rightarrow> (update_row \<Rightarrow> update_row) \<Rightarrow> roadmap_store
     \<Rightarrow> (roadmap_error, roadmap_store \<times> nat) result" where
  "update_updates sqlNow P f s =
     rbind (row_outcome (update_rows (update_triggers sqlNow) P f (rs_updates s)))
       (\<lambda>(rows, n). Inr (s\<lparr>rs_updates := rows\<rparr>, n))"

text \<open>The trigger \<^verbatim>\<open>roadmap_proposals_fenced_by_claim\<close> of an insert.\<close>

definition item_claimed :: "db \<Rightarrow> string \<Rightarrow> bool" where
  "item_claimed d item =
     list_ex (\<lambda>t. t_roadmapItemId t = Some item
       \<and> list_ex (\<lambda>c. c_taskId c = t_id t \<and> c_status c = Clm_active) (taskClaims d)) (tasks d)"

definition run_has_claim :: "db \<Rightarrow> string option \<Rightarrow> bool" where
  "run_has_claim d runId =
     list_ex (\<lambda>r. Some (r_id r) = runId \<and> r_claimId r \<noteq> None) (agentRuns d)"

definition run_under_fence :: "instant \<Rightarrow> db \<Rightarrow> string option \<Rightarrow> string \<Rightarrow> bool" where
  "run_under_fence sqlNow d runId item =
     list_ex (\<lambda>r. Some (r_id r) = runId
       \<and> list_ex (\<lambda>t. t_id t = r_taskId r \<and> t_roadmapItemId t = Some item) (tasks d)
       \<and> list_ex (\<lambda>c. Some (c_id c) = r_claimId r \<and> Some (c_workerId c) = r_claimWorkerId r
           \<and> c_status c = Clm_active \<and> c_leaseExpiresAt c > sqlNow) (taskClaims d)) (agentRuns d)"

definition insert_update :: "instant \<Rightarrow> update_row \<Rightarrow> roadmap_store \<Rightarrow> (roadmap_error, roadmap_store) result" where
  "insert_update sqlNow u s =
     rbind (row_outcome (insert_row
       ([(''roadmap proposal requires a run under the current task fence'',
           (item_claimed (rs_db s) (ru_roadmapItemId u) \<or> run_has_claim (rs_db s) (ru_proposedByRunId u))
             \<longrightarrow> run_under_fence sqlNow (rs_db s) (ru_proposedByRunId u) (ru_roadmapItemId u))]
        @ update_checks u
        @ [(''roadmap_updates.id'', \<not> has_key ru_id (ru_id u) (rs_updates s)),
           (''roadmap_updates.idempotency_key'',
             \<not> has_key ru_idempotencyKey (ru_idempotencyKey u) (rs_updates s)),
           (''roadmap_updates.roadmap_item_id'', has_key ri_id (ru_roadmapItemId u) (roadmapItems (rs_db s))),
           (''roadmap_updates.proposed_by_run_id'', opt_ref r_id (ru_proposedByRunId u) (agentRuns (rs_db s)))])
       u (rs_updates s)))
     (\<lambda>rows. Inr (s\<lparr>rs_updates := rows\<rparr>))"

definition getUpdate :: "roadmap_store \<Rightarrow> string \<Rightarrow> (roadmap_error, update_row) result" where
  "getUpdate s updateId =
     (case lookup_row ru_id updateId (rs_updates s) of
        None \<Rightarrow> Inl (Rm_not_found ''roadmap update'' updateId)
      | Some u \<Rightarrow> Inr u)"

section \<open>Guards\<close>

definition DONE_VALUES :: "string list" where
  "DONE_VALUES = [''done'', ''complete'', ''completed'']"

definition isDoneChange :: "row_change list \<Rightarrow> bool" where
  "isDoneChange cs =
     list_ex (\<lambda>c. list_ex (\<lambda>(column, v). column = ''Status''
        \<and> List.member DONE_VALUES (map js_lower_ascii v)) (rc_columns c)) cs"

fun evidence_belongs :: "db \<Rightarrow> string \<Rightarrow> string list \<Rightarrow> (roadmap_error, unit) result" where
  "evidence_belongs d item [] = Inr ()"
| "evidence_belongs d item (i # is) =
     (case lookup_row e_id i (evidences d) of
        None \<Rightarrow> Inl (Rm_not_found ''evidence'' i)
      | Some e \<Rightarrow>
          if (case lookup_row t_id (e_taskId e) (tasks d) of
                None \<Rightarrow> False | Some t \<Rightarrow> t_roadmapItemId t = Some item)
          then evidence_belongs d item is
          else Inl (Rm_evidence_foreign i))"

definition assertDoneEvidence :: "db \<Rightarrow> string \<Rightarrow> string list \<Rightarrow> (roadmap_error, unit) result" where
  "assertDoneEvidence d item is =
     (if is = [] then Inl Rm_done_needs_evidence else evidence_belongs d item is)"

definition bindRoadmapRuntimeHost :: "string \<Rightarrow> roadmap_store \<Rightarrow> (roadmap_error, roadmap_store) result" where
  "bindRoadmapRuntimeHost hostId s =
     (case rs_host s of
        None \<Rightarrow> Inr (s\<lparr>rs_host := Some hostId\<rparr>)
      | Some h \<Rightarrow> if h \<noteq> hostId then Inl (Rm_other_host h) else Inr s)"

definition proposalFromUpdate :: "text_codec \<Rightarrow> update_row \<Rightarrow> (roadmap_error, update_proposal) result" where
  "proposalFromUpdate tc u =
     (if proposalPayloadHash tc (ru_changes u) \<noteq> ru_payloadHash u then Inl (Rm_tampered (ru_id u))
      else if \<not> idempotencyKeyMatchesPayload tc (ru_idempotencyKey u) (ru_changes u)
      then Inl (Rm_key_unbound (ru_id u))
      else Inr \<lparr>up_idempotencyKey = ru_idempotencyKey u, up_changes = ru_changes u,
                 up_rationale = ru_rationale u, up_evidenceRefs = ru_evidenceIds u\<rparr>)"

section \<open>Claim and settle\<close>

record apply_owner =
  ao_workerId :: string
  ao_leaseMs :: int
  ao_hostId :: string
  ao_doneDecisionId :: "string option"

text \<open>Per step: \<open>rk_clock\<close>, the clocks it sees, and \<open>rk_uuid\<close>, the random part of a fresh id.\<close>

record step_input =
  rk_clock :: clock
  rk_uuid :: string

definition claimApply ::
  "step_input \<Rightarrow> apply_owner \<Rightarrow> string \<Rightarrow> roadmap_store
     \<Rightarrow> (roadmap_error, roadmap_store \<times> string) result" where
  "claimApply k owner updateId s =
     (let attemptId = newId ''rapl'' (rk_uuid k); nowMs = svc_now (rk_clock k) in
      rbind (update_updates (sql_now (rk_clock k))
               (\<lambda>u. ru_id u = updateId \<and> ru_status u = Up_proposed)
               (\<lambda>u. u\<lparr>ru_status := Up_applying, ru_applyAttemptId := Some attemptId,
                      ru_applyStartedAt := Some nowMs, ru_applyWorkerId := Some (ao_workerId owner),
                      ru_applyLeaseExpiresAt := Some (nowMs + ao_leaseMs owner)\<rparr>) s)
        (\<lambda>(s', changes).
           if changes \<noteq> 1 then Inl (Rm_not_claimable updateId) else Inr (s', attemptId)))"

definition settle_attempt ::
  "step_input \<Rightarrow> string \<Rightarrow> string \<Rightarrow> update_status \<Rightarrow> roadmap_store
     \<Rightarrow> (roadmap_error, roadmap_store) result" where
  "settle_attempt k updateId attemptId status s =
     rbind (update_updates (sql_now (rk_clock k))
              (\<lambda>u. ru_id u = updateId \<and> ru_status u = Up_applying
                   \<and> ru_applyAttemptId u = Some attemptId)
              (\<lambda>u. u\<lparr>ru_status := status,
                     ru_appliedAt := (if status = Up_applied then Some (svc_now (rk_clock k))
                                      else ru_appliedAt u)\<rparr>) s)
       (\<lambda>(s', changes).
          if changes \<noteq> 1 then Inl (Rm_displaced updateId attemptId) else Inr s')"

definition supersede :: "step_input \<Rightarrow> string \<Rightarrow> roadmap_store \<Rightarrow> (roadmap_error, roadmap_store) result" where
  "supersede k updateId s =
     rbind (update_updates (sql_now (rk_clock k))
              (\<lambda>u. ru_id u = updateId \<and> ru_status u = Up_proposed)
              (\<lambda>u. u\<lparr>ru_status := Up_superseded\<rparr>) s)
       (\<lambda>(s', changes). if changes \<noteq> 1 then Inl (Rm_raced updateId) else Inr s')"

section \<open>Proposing\<close>

record propose_input =
  pi_roadmapItemId :: string
  pi_baseKey :: string
  pi_changes :: "row_change list"
  pi_rationale :: string
  pi_evidenceIds :: "string list"
  pi_proposedByRunId :: "string option"

definition proposal_of :: "text_codec \<Rightarrow> propose_input \<Rightarrow> update_proposal" where
  "proposal_of tc i =
     \<lparr>up_idempotencyKey = proposalIdempotencyKey tc (pi_baseKey i) (pi_changes i),
      up_changes = pi_changes i, up_rationale = pi_rationale i, up_evidenceRefs = pi_evidenceIds i\<rparr>"

text \<open>\<open>proposeRoadmapUpdate\<close> before its first call of the source, and after the second.\<close>

definition propose_begin ::
  "text_codec \<Rightarrow> propose_input \<Rightarrow> roadmap_store \<Rightarrow> (roadmap_error, update_proposal) result" where
  "propose_begin tc i s =
     (if \<not> has_key ri_id (pi_roadmapItemId i) (roadmapItems (rs_db s))
      then Inl (Rm_not_found ''roadmap item'' (pi_roadmapItemId i))
      else rbind (if isDoneChange (pi_changes i)
                  then assertDoneEvidence (rs_db s) (pi_roadmapItemId i) (pi_evidenceIds i)
                  else Inr ())
             (\<lambda>_. Inr (proposal_of tc i)))"

definition propose_finish ::
  "text_codec \<Rightarrow> step_input \<Rightarrow> propose_input \<Rightarrow> string \<Rightarrow> dry_run_result \<Rightarrow> roadmap_store
     \<Rightarrow> (roadmap_error, roadmap_store \<times> update_row) result" where
  "propose_finish tc k i revision dryRun s =
     (if \<not> dr_ok dryRun then Inl (Rm_dry_run_rejected (dr_violations dryRun))
      else
        (let row = \<lparr>ru_id = newId ''rupd'' (rk_uuid k), ru_roadmapItemId = pi_roadmapItemId i,
                    ru_proposedByRunId = pi_proposedByRunId i,
                    ru_idempotencyKey = proposalIdempotencyKey tc (pi_baseKey i) (pi_changes i),
                    ru_payloadHash = proposalPayloadHash tc (pi_changes i),
                    ru_sourceRevision = Some revision, ru_changes = pi_changes i,
                    ru_rationale = pi_rationale i, ru_evidenceIds = pi_evidenceIds i,
                    ru_dryRunDiff = Some (dr_diff dryRun),
                    ru_dryRunAt = Some (svc_now (rk_clock k)), ru_status = Up_proposed,
                    ru_applyAttemptId = None, ru_applyStartedAt = None, ru_applyWorkerId = None,
                    ru_applyLeaseExpiresAt = None, ru_appliedAt = None\<rparr> in
         rbind (insert_update (sql_now (rk_clock k)) row s)
           (\<lambda>s'. rbind (getUpdate s' (ru_id row)) (\<lambda>u. Inr (s', u)))))"

section \<open>Applying\<close>

text \<open>Where an operation stands; the row \<open>u\<close> is the one it read when it began.\<close>

datatype apply_report =
    Rep_already_applied | Rep_applied | Rep_superseded | Rep_rejected "sheet_violation list"

datatype reconcile_outcome = Rco_applied | Rco_requeued | Rco_rejected

datatype roadmap_pc =
    Pr_revision propose_input update_proposal
  | Pr_dryRun propose_input update_proposal string
  | Pr_dried propose_input string dry_run_result
  | Pr_done update_row
  | Ap_revision update_row update_proposal apply_owner
  | Ap_revised update_row update_proposal apply_owner string
  | Ap_ask update_row apply_owner
  | Ap_answered update_row apply_owner bool
  | Ap_write update_row update_proposal string
  | Ap_written update_row string apply_result
  | Ap_done apply_report
  | Rc_loop instant "update_row list" "(string \<times> reconcile_outcome) list"
  | Rc_ask instant update_row "update_row list" "(string \<times> reconcile_outcome) list"
  | Rc_answered instant update_row bool "update_row list" "(string \<times> reconcile_outcome) list"
  | Rc_done "(string \<times> reconcile_outcome) list"
  | Thrown roadmap_error

definition gate_and_bind :: "string \<Rightarrow> roadmap_store \<Rightarrow> (roadmap_error, roadmap_store) result" where
  "gate_and_bind hostId s =
     rbind (row_outcome (require_capability Cap_external_roadmap_application))
       (\<lambda>_. bindRoadmapRuntimeHost hostId s)"

text \<open>
  A segment returns the new store and where the operation stands. The binding of the host is a
  transaction of its own and stays when what follows throws.
\<close>

definition throws :: "roadmap_store \<Rightarrow> (roadmap_error, roadmap_store \<times> roadmap_pc) result
    \<Rightarrow> roadmap_store \<times> roadmap_pc" where
  "throws s m = (case m of Inl e \<Rightarrow> (s, Thrown e) | Inr r \<Rightarrow> r)"

definition apply_checked ::
  "text_codec \<Rightarrow> apply_owner \<Rightarrow> string \<Rightarrow> roadmap_store \<Rightarrow> (roadmap_error, roadmap_store \<times> roadmap_pc) result" where
  "apply_checked tc owner updateId s =
     rbind (getUpdate s updateId) (\<lambda>u.
       case ru_status u of
         Up_applied \<Rightarrow> Inr (s, Ap_done Rep_already_applied)
       | Up_applying \<Rightarrow> Inl (Rm_in_progress updateId (ru_applyAttemptId u))
       | Up_proposed \<Rightarrow>
           if Option.is_none (ru_dryRunDiff u) \<or> ru_dryRunAt u = None then Inl (Rm_no_dry_run updateId)
           else rbind (proposalFromUpdate tc u) (\<lambda>p. Inr (s, Ap_revision u p owner))
       | st \<Rightarrow> Inl (Rm_not_applicable st))"

definition apply_begin ::
  "text_codec \<Rightarrow> apply_owner \<Rightarrow> string \<Rightarrow> roadmap_store \<Rightarrow> roadmap_store \<times> roadmap_pc" where
  "apply_begin tc owner updateId s =
     (case gate_and_bind (ao_hostId owner) s of
        Inl e \<Rightarrow> (s, Thrown e)
      | Inr s' \<Rightarrow> throws s' (apply_checked tc owner updateId s'))"

definition done_authorised ::
  "clock \<Rightarrow> db \<Rightarrow> update_row \<Rightarrow> update_proposal \<Rightarrow> apply_owner \<Rightarrow> (roadmap_error, unit) result" where
  "done_authorised ck d u p owner =
     (if isDoneChange (up_changes p) then
        rbind (assertDoneEvidence d (ru_roadmapItemId u) (up_evidenceRefs p)) (\<lambda>_.
          ensure (case ao_doneDecisionId owner of
                    None \<Rightarrow> False
                  | Some i \<Rightarrow> i \<noteq> [] \<and> isApprovedDecision ck d i
                      \<lparr>ex_category = ''roadmap_done'', ex_taskId = None, ex_projectId = None,
                       ex_scope = None, ex_requireExpiry = False, ex_requireUnconsumed = False,
                       ex_now = None\<rparr>)
            Rm_needs_decision)
      else Inr ())"

text \<open>After \<^verbatim>\<open>adapter.revision()\<close>.\<close>

definition apply_revised ::
  "step_input \<Rightarrow> update_row \<Rightarrow> update_proposal \<Rightarrow> apply_owner \<Rightarrow> string \<Rightarrow> roadmap_store
     \<Rightarrow> roadmap_store \<times> roadmap_pc" where
  "apply_revised k u p owner revision s =
     (if ru_sourceRevision u \<noteq> Some revision then (s, Ap_ask u owner)
      else throws s
        (rbind (done_authorised (rk_clock k) (rs_db s) u p owner) (\<lambda>_.
          rbind (claimApply k owner (ru_id u) s) (\<lambda>(s', attemptId).
            Inr (s', Ap_write u p attemptId)))))"

text \<open>After \<^verbatim>\<open>adapter.wasApplied(key)\<close>: claim and settle at once, or supersede. The claim is
  a transaction of its own.\<close>

definition apply_answered ::
  "step_input \<Rightarrow> update_row \<Rightarrow> apply_owner \<Rightarrow> bool \<Rightarrow> roadmap_store \<Rightarrow> roadmap_store \<times> roadmap_pc" where
  "apply_answered k u owner already s =
     (if already then
        (case claimApply k owner (ru_id u) s of
           Inl e \<Rightarrow> (s, Thrown e)
         | Inr (s', attemptId) \<Rightarrow>
             throws s' (rbind (settle_attempt k (ru_id u) attemptId Up_applied s')
                          (\<lambda>s''. Inr (s'', Ap_done Rep_applied))))
      else throws s (rbind (supersede k (ru_id u) s) (\<lambda>s'. Inr (s', Ap_done Rep_superseded))))"

text \<open>After \<^verbatim>\<open>adapter.apply(proposal, {expectedDiff})\<close>.\<close>

definition apply_written ::
  "step_input \<Rightarrow> update_row \<Rightarrow> string \<Rightarrow> apply_result \<Rightarrow> roadmap_store \<Rightarrow> roadmap_store \<times> roadmap_pc" where
  "apply_written k u attemptId r s =
     throws s
       (if ar_status r = As_rejected
        then rbind (settle_attempt k (ru_id u) attemptId Up_rejected s)
               (\<lambda>s'. Inr (s', Ap_done (Rep_rejected (ar_violations r))))
        else rbind (settle_attempt k (ru_id u) attemptId Up_applied s) (\<lambda>s'. Inr (s', Ap_done Rep_applied)))"

section \<open>Reconciling\<close>

definition reconcile_begin :: "clock \<Rightarrow> string \<Rightarrow> roadmap_store \<Rightarrow> roadmap_store \<times> roadmap_pc" where
  "reconcile_begin ck hostId s =
     (case gate_and_bind hostId s of
        Inl e \<Rightarrow> (s, Thrown e)
      | Inr s' \<Rightarrow>
          (s', Rc_loop (svc_now ck) (filter (\<lambda>u. ru_status u = Up_applying) (rs_updates s')) []))"

definition falsy_text :: "string option \<Rightarrow> bool" where
  "falsy_text t = (case t of None \<Rightarrow> True | Some s \<Rightarrow> s = [])"

definition reconcile_next ::
  "step_input \<Rightarrow> instant \<Rightarrow> update_row list \<Rightarrow> (string \<times> reconcile_outcome) list \<Rightarrow> roadmap_store
     \<Rightarrow> roadmap_store \<times> roadmap_pc" where
  "reconcile_next k now us resolved s =
     (case us of
        [] \<Rightarrow> (s, Rc_done resolved)
      | u # us' \<Rightarrow>
          if falsy_text (ru_applyAttemptId u) \<or> falsy_text (ru_applyWorkerId u)
             \<or> ru_applyLeaseExpiresAt u = None
          then throws s
            (rbind (update_updates (sql_now (rk_clock k))
                      (\<lambda>r. ru_id r = ru_id u \<and> ru_status r = Up_applying)
                      (\<lambda>r. r\<lparr>ru_status := Up_rejected\<rparr>) s)
               (\<lambda>(s', changes). Inr (s', Rc_loop now us'
                  (if changes = 1 then resolved @ [(ru_id u, Rco_rejected)] else resolved))))
          else (s, Rc_ask now u us' resolved))"

definition same_attempt :: "update_row \<Rightarrow> update_row \<Rightarrow> bool" where
  "same_attempt u r =
     (ru_id r = ru_id u \<and> ru_status r = Up_applying
      \<and> ru_applyAttemptId r = ru_applyAttemptId u \<and> ru_applyWorkerId r = ru_applyWorkerId u
      \<and> ru_applyLeaseExpiresAt r = ru_applyLeaseExpiresAt u)"

definition reconcile_answered ::
  "step_input \<Rightarrow> instant \<Rightarrow> update_row \<Rightarrow> bool \<Rightarrow> update_row list \<Rightarrow> (string \<times> reconcile_outcome) list
     \<Rightarrow> roadmap_store \<Rightarrow> roadmap_store \<times> roadmap_pc" where
  "reconcile_answered k now u already us resolved s =
     (if already then
        throws s
          (rbind (update_updates (sql_now (rk_clock k)) (same_attempt u)
                    (\<lambda>r. r\<lparr>ru_status := Up_applied, ru_appliedAt := Some (svc_now (rk_clock k))\<rparr>) s)
             (\<lambda>(s', changes). Inr (s', Rc_loop now us
                (if changes = 1 then resolved @ [(ru_id u, Rco_applied)] else resolved))))
      else if (case ru_applyLeaseExpiresAt u of None \<Rightarrow> False | Some e \<Rightarrow> e > now)
      then (s, Rc_loop now us resolved)
      else
        throws s
          (rbind (update_updates (sql_now (rk_clock k)) (same_attempt u)
                    (\<lambda>r. r\<lparr>ru_status := Up_proposed, ru_applyAttemptId := None,
                           ru_applyWorkerId := None, ru_applyLeaseExpiresAt := None\<rparr>) s)
             (\<lambda>(s', changes). Inr (s', Rc_loop now us
                (if changes = 1 then resolved @ [(ru_id u, Rco_requeued)] else resolved)))))"

section \<open>Workers on one store and one source\<close>

text \<open>
  One step of an operation: the call of the source it waits for, or the code after the answer.
  A worker that dies takes no further step.
\<close>

fun advance ::
  "text_codec \<Rightarrow> 's roadmap_adapter \<Rightarrow> step_input \<Rightarrow> roadmap_pc \<Rightarrow> roadmap_store \<Rightarrow> 's
     \<Rightarrow> (roadmap_store \<times> roadmap_pc) \<times> 's" where
  "advance tc ad k (Pr_revision i p) s src = ((s, Pr_dryRun i p (ad_revision ad src)), src)"
| "advance tc ad k (Pr_dryRun i p rv) s src = ((s, Pr_dried i rv (ad_dryRun ad src p)), src)"
| "advance tc ad k (Pr_dried i rv dr) s src =
     (throws s (rbind (propose_finish tc k i rv dr s) (\<lambda>(s', u). Inr (s', Pr_done u))), src)"
| "advance tc ad k (Ap_revision u p owner) s src = ((s, Ap_revised u p owner (ad_revision ad src)), src)"
| "advance tc ad k (Ap_revised u p owner rv) s src = (apply_revised k u p owner rv s, src)"
| "advance tc ad k (Ap_ask u owner) s src =
     ((s, Ap_answered u owner (ad_wasApplied ad src (ru_idempotencyKey u))), src)"
| "advance tc ad k (Ap_answered u owner b) s src = (apply_answered k u owner b s, src)"
| "advance tc ad k (Ap_write u p attemptId) s src =
     (let (src', r) = ad_apply ad p (ru_dryRunDiff u) src in ((s, Ap_written u attemptId r), src'))"
| "advance tc ad k (Ap_written u attemptId r) s src = (apply_written k u attemptId r s, src)"
| "advance tc ad k (Rc_loop now us resolved) s src = (reconcile_next k now us resolved s, src)"
| "advance tc ad k (Rc_ask now u us resolved) s src =
     ((s, Rc_answered now u (ad_wasApplied ad src (ru_idempotencyKey u)) us resolved), src)"
| "advance tc ad k (Rc_answered now u b us resolved) s src =
     (reconcile_answered k now u b us resolved s, src)"
| "advance tc ad k pc s src = ((s, pc), src)"

record 's roadmap_world =
  rw_store :: roadmap_store
  rw_source :: 's
  rw_workers :: "roadmap_pc list"

definition start_worker :: "roadmap_store \<times> roadmap_pc \<Rightarrow> 's roadmap_world \<Rightarrow> 's roadmap_world" where
  "start_worker r w = w\<lparr>rw_store := fst r, rw_workers := rw_workers w @ [snd r]\<rparr>"

definition propose_started ::
  "text_codec \<Rightarrow> propose_input \<Rightarrow> roadmap_store \<Rightarrow> roadmap_store \<times> roadmap_pc" where
  "propose_started tc i s = throws s (rbind (propose_begin tc i s) (\<lambda>p. Inr (s, Pr_revision i p)))"

definition step_worker ::
  "text_codec \<Rightarrow> 's roadmap_adapter \<Rightarrow> step_input \<Rightarrow> nat \<Rightarrow> 's roadmap_world \<Rightarrow> 's roadmap_world" where
  "step_worker tc ad k n w =
     (if n < length (rw_workers w) then
        (let ((s', pc'), src') = advance tc ad k (rw_workers w ! n) (rw_store w) (rw_source w) in
         w\<lparr>rw_store := s', rw_source := src', rw_workers := (rw_workers w)[n := pc']\<rparr>)
      else w)"

inductive roadmap_step ::
  "text_codec \<Rightarrow> 's roadmap_adapter \<Rightarrow> ('s \<Rightarrow> 's \<Rightarrow> bool) \<Rightarrow> 's roadmap_world \<Rightarrow> 's roadmap_world \<Rightarrow> bool"
  for tc ad edit where
  starts_propose: "roadmap_step tc ad edit w (start_worker (propose_started tc i (rw_store w)) w)"
| starts_apply:
    "roadmap_step tc ad edit w (start_worker (apply_begin tc owner updateId (rw_store w)) w)"
| starts_reconcile:
    "roadmap_step tc ad edit w (start_worker (reconcile_begin ck hostId (rw_store w)) w)"
| worker: "roadmap_step tc ad edit w (step_worker tc ad k n w)"
| edited: "edit (rw_source w) src \<Longrightarrow> roadmap_step tc ad edit w (w\<lparr>rw_source := src\<rparr>)"
| services: "roadmap_step tc ad edit w (w\<lparr>rw_store := (rw_store w)\<lparr>rs_db := d\<rparr>\<rparr>)"

definition roadmap_start :: "'s roadmap_world \<Rightarrow> bool" where
  "roadmap_start w \<longleftrightarrow> rs_updates (rw_store w) = [] \<and> rw_workers w = []"

end
