(* ===== verification/Roadmap_Safety.thy ===== *)
theory Roadmap_Safety
  imports Roadmap Transition_System
begin

text \<open>
  What the protocol of roadmap writes guarantees: a lawful source holds every update the
  store calls applied, whatever workers, crashes and outside edits interleave; payloads and
  final statuses do not change; a Done needs its evidence and its approval; reconciliation
  resolves every lapsed attempt.
\<close>

section \<open>Updates of the table\<close>

lemma row_outcome_Inr [simp]: "row_outcome m = Inr x \<longleftrightarrow> m = Inr x"
  by (cases m) (auto simp: row_outcome_def)

lemma update_updates_InrD:
  assumes "update_updates q P f s = Inr (s', n)"
  shows "s' = s\<lparr>rs_updates := update_where P f (rs_updates s)\<rparr>"
    and "n = count_where P (rs_updates s)"
    and "u \<in> set (rs_updates s) \<Longrightarrow> P u \<Longrightarrow> list_all snd (update_triggers q u (f u))"
  using assms by (auto simp: update_updates_def update_rows_Inr_iff rbind_eq_Inr)

definition same_payload :: "update_row \<Rightarrow> update_row \<Rightarrow> bool" where
  "same_payload u u' \<longleftrightarrow> ru_id u' = ru_id u \<and> ru_idempotencyKey u' = ru_idempotencyKey u
     \<and> ru_payloadHash u' = ru_payloadHash u \<and> ru_changes u' = ru_changes u
     \<and> ru_roadmapItemId u' = ru_roadmapItemId u"

definition final_status :: "update_status \<Rightarrow> bool" where
  "final_status st \<longleftrightarrow> st \<in> {Up_applied, Up_rejected, Up_superseded}"

definition update_kept :: "update_row \<Rightarrow> update_row \<Rightarrow> bool" where
  "update_kept u u' \<longleftrightarrow>
     same_payload u u' \<and> (final_status (ru_status u) \<longrightarrow> ru_status u' = ru_status u)"

definition updates_evolve :: "update_row list \<Rightarrow> update_row list \<Rightarrow> bool" where
  "updates_evolve us us' \<longleftrightarrow> (\<forall>u \<in> set us. \<exists>u' \<in> set us'. update_kept u u')"

definition books_ok :: "(string \<Rightarrow> bool) \<Rightarrow> update_row list \<Rightarrow> bool" where
  "books_ok was us \<longleftrightarrow> unique_by ru_id us
     \<and> (\<forall>u \<in> set us. ru_status u = Up_applied \<longrightarrow> was (ru_idempotencyKey u))"

lemma update_kept_refl [simp]: "update_kept u u"
  by (simp add: update_kept_def same_payload_def)

lemma update_kept_trans: "update_kept u v \<Longrightarrow> update_kept v w \<Longrightarrow> update_kept u w"
  by (auto simp: update_kept_def same_payload_def)

lemma updates_evolve_refl [simp]: "updates_evolve us us"
  by (auto simp: updates_evolve_def intro: update_kept_refl)

lemma updates_evolve_trans: "updates_evolve us vs \<Longrightarrow> updates_evolve vs ws \<Longrightarrow> updates_evolve us ws"
  unfolding updates_evolve_def by (meson update_kept_trans)

lemma triggers_keep:
  "list_all snd (update_triggers q u u') \<Longrightarrow> ru_id u' = ru_id u \<Longrightarrow> update_kept u u'"
  by (auto simp: update_triggers_def update_kept_def same_payload_def final_status_def)

lemma update_books:
  assumes up: "update_updates q P f s = Inr (s', n)" and id: "\<And>r. ru_id (f r) = ru_id r"
    and ok: "books_ok was (rs_updates s)"
    and new: "\<And>r. r \<in> set (rs_updates s) \<Longrightarrow> P r \<Longrightarrow> ru_status (f r) = Up_applied \<Longrightarrow>
      was (ru_idempotencyKey r)"
  shows "books_ok was (rs_updates s')" and "updates_evolve (rs_updates s) (rs_updates s')"
proof -
  note rows = update_updates_InrD(1) [OF up]
  have kept: "update_kept r (f r)" if "r \<in> set (rs_updates s)" "P r" for r
    using triggers_keep [OF update_updates_InrD(3) [OF up that] id] .
  show "updates_evolve (rs_updates s) (rs_updates s')"
    unfolding updates_evolve_def
  proof
    fix u assume u: "u \<in> set (rs_updates s)"
    then have "update_kept u (if P u then f u else u)" using kept by simp
    moreover have "(if P u then f u else u) \<in> set (rs_updates s')"
      using u by (simp add: rows set_update_where)
    ultimately show "\<exists>u' \<in> set (rs_updates s'). update_kept u u'" by blast
  qed
  have "was (ru_idempotencyKey r')"
    if "r' \<in> set (rs_updates s')" "ru_status r' = Up_applied" for r'
  proof -
    have "r' \<in> (\<lambda>r. if P r then f r else r) ` set (rs_updates s)"
      using that(1) by (simp add: rows set_update_where)
    then obtain r where r: "r \<in> set (rs_updates s)" "r' = (if P r then f r else r)" by blast
    show ?thesis
    proof (cases "P r")
      case True
      then have "ru_idempotencyKey r' = ru_idempotencyKey r"
        using kept [OF r(1)] r(2) by (simp add: update_kept_def same_payload_def)
      then show ?thesis using new [OF r(1) True] that(2) r(2) True by simp
    next
      case False
      then show ?thesis using ok r that(2) by (auto simp: books_ok_def)
    qed
  qed
  then show "books_ok was (rs_updates s')"
    using ok id by (simp add: books_ok_def rows unique_by_update_where)
qed

section \<open>Where the operations stand\<close>

definition stored :: "update_row list \<Rightarrow> update_row \<Rightarrow> bool" where
  "stored us u \<longleftrightarrow> (\<exists>r \<in> set us. ru_id r = ru_id u \<and> ru_idempotencyKey r = ru_idempotencyKey u)"

lemma stored_evolve: "stored us u \<Longrightarrow> updates_evolve us us' \<Longrightarrow> stored us' u"
  unfolding stored_def updates_evolve_def update_kept_def same_payload_def by metis

lemma stored_key:
  assumes "stored us u" and "books_ok was us" and "r \<in> set us" and "ru_id r = ru_id u"
  shows "ru_idempotencyKey r = ru_idempotencyKey u"
proof -
  obtain r' where "r' \<in> set us" "ru_id r' = ru_id u" "ru_idempotencyKey r' = ru_idempotencyKey u"
    using assms(1) by (auto simp: stored_def)
  then show ?thesis using unique_by_inj [of ru_id us r r'] assms by (simp add: books_ok_def)
qed

fun pc_ok :: "update_row list \<Rightarrow> (string \<Rightarrow> bool) \<Rightarrow> roadmap_pc \<Rightarrow> bool" where
  "pc_ok us was (Ap_revision u p owner) = (stored us u \<and> up_idempotencyKey p = ru_idempotencyKey u)"
| "pc_ok us was (Ap_revised u p owner rv) = (stored us u \<and> up_idempotencyKey p = ru_idempotencyKey u)"
| "pc_ok us was (Ap_ask u owner) = stored us u"
| "pc_ok us was (Ap_answered u owner b) = (stored us u \<and> (b \<longrightarrow> was (ru_idempotencyKey u)))"
| "pc_ok us was (Ap_write u p a) = (stored us u \<and> up_idempotencyKey p = ru_idempotencyKey u)"
| "pc_ok us was (Ap_written u a r) =
     (stored us u \<and> (ar_status r \<noteq> As_rejected \<longrightarrow> was (ru_idempotencyKey u)))"
| "pc_ok us was (Rc_loop now rest res) = list_all (stored us) rest"
| "pc_ok us was (Rc_ask now u rest res) = (stored us u \<and> list_all (stored us) rest)"
| "pc_ok us was (Rc_answered now u b rest res) =
     (stored us u \<and> (b \<longrightarrow> was (ru_idempotencyKey u)) \<and> list_all (stored us) rest)"
| "pc_ok us was pc = True"

lemma pc_ok_mono:
  assumes "pc_ok us was pc" and "updates_evolve us us'" and "\<And>k. was k \<Longrightarrow> was' k"
  shows "pc_ok us' was' pc"
proof -
  have "list_all (stored us') rest" if "list_all (stored us) rest" for rest
    using that stored_evolve assms(2) by (auto simp: list_all_iff)
  then show ?thesis
    using assms by (cases pc) (auto intro: stored_evolve)
qed

text \<open>A segment keeps the books and leaves its operation where it may stand.\<close>

definition segment_ok ::
  "(string \<Rightarrow> bool) \<Rightarrow> roadmap_store \<Rightarrow> roadmap_store \<times> roadmap_pc \<Rightarrow> bool" where
  "segment_ok was s r \<longleftrightarrow> books_ok was (rs_updates (fst r))
     \<and> updates_evolve (rs_updates s) (rs_updates (fst r)) \<and> pc_ok (rs_updates (fst r)) was (snd r)"

lemma segment_stay:
  "books_ok was (rs_updates s) \<Longrightarrow> pc_ok (rs_updates s) was pc \<Longrightarrow> segment_ok was s (s, pc)"
  by (simp add: segment_ok_def)

lemma segment_throws:
  assumes "books_ok was (rs_updates s)" and "\<And>r. m = Inr r \<Longrightarrow> segment_ok was s r"
  shows "segment_ok was s (throws s m)"
  using assms by (cases m) (simp_all add: throws_def segment_ok_def)

lemma segment_trans:
  assumes "updates_evolve (rs_updates s) (rs_updates t)" and "segment_ok was t r"
  shows "segment_ok was s r"
  using assms updates_evolve_trans by (auto simp: segment_ok_def)

lemma claimApply_update:
  assumes "claimApply k owner i s = Inr (s', a)"
  shows "update_updates (sql_now (rk_clock k)) (\<lambda>u. ru_id u = i \<and> ru_status u = Up_proposed)
      (\<lambda>u. u\<lparr>ru_status := Up_applying, ru_applyAttemptId := Some a,
             ru_applyStartedAt := Some (svc_now (rk_clock k)),
             ru_applyWorkerId := Some (ao_workerId owner),
             ru_applyLeaseExpiresAt := Some (svc_now (rk_clock k) + ao_leaseMs owner)\<rparr>) s = Inr (s', 1)"
  using assms by (auto simp: claimApply_def Let_def rbind_eq_Inr split: if_splits)

lemma settle_attempt_update:
  assumes "settle_attempt k i a st s = Inr s'"
  shows "update_updates (sql_now (rk_clock k))
      (\<lambda>u. ru_id u = i \<and> ru_status u = Up_applying \<and> ru_applyAttemptId u = Some a)
      (\<lambda>u. u\<lparr>ru_status := st, ru_appliedAt := (if st = Up_applied then Some (svc_now (rk_clock k))
             else ru_appliedAt u)\<rparr>) s = Inr (s', 1)"
  using assms by (auto simp: settle_attempt_def rbind_eq_Inr split: if_splits)

lemma supersede_update:
  assumes "supersede k i s = Inr s'"
  shows "update_updates (sql_now (rk_clock k)) (\<lambda>u. ru_id u = i \<and> ru_status u = Up_proposed)
      (\<lambda>u. u\<lparr>ru_status := Up_superseded\<rparr>) s = Inr (s', 1)"
  using assms by (auto simp: supersede_def rbind_eq_Inr split: if_splits)

lemma claimApply_ok:
  assumes "claimApply k owner i s = Inr (s', a)" and ok: "books_ok was (rs_updates s)"
  shows "books_ok was (rs_updates s')" and "updates_evolve (rs_updates s) (rs_updates s')"
  by (rule update_books [OF claimApply_update [OF assms(1)] _ ok]; simp)+

lemma settle_attempt_ok:
  assumes "settle_attempt k i a st s = Inr s'" and ok: "books_ok was (rs_updates s)"
    and "\<And>r. r \<in> set (rs_updates s) \<Longrightarrow> ru_id r = i \<Longrightarrow> st = Up_applied \<Longrightarrow> was (ru_idempotencyKey r)"
  shows "books_ok was (rs_updates s')" and "updates_evolve (rs_updates s) (rs_updates s')"
  by (rule update_books [OF settle_attempt_update [OF assms(1)] _ ok]; use assms(3) in simp)+

lemma supersede_ok:
  assumes "supersede k i s = Inr s'" and ok: "books_ok was (rs_updates s)"
  shows "books_ok was (rs_updates s')" and "updates_evolve (rs_updates s) (rs_updates s')"
  by (rule update_books [OF supersede_update [OF assms(1)] _ ok]; simp)+

lemma gate_and_bind_rows: "gate_and_bind h s = Inr s' \<Longrightarrow> rs_updates s' = rs_updates s"
  by (auto simp: gate_and_bind_def bindRoadmapRuntimeHost_def rbind_eq_Inr split: option.splits if_splits)

lemma insert_update_InrD:
  assumes "insert_update q u s = Inr s'"
  shows "rs_updates s' = rs_updates s @ [u]" and "ru_id u \<notin> ru_id ` set (rs_updates s)"
    and "ru_idempotencyKey u \<notin> ru_idempotencyKey ` set (rs_updates s)"
  using assms by (auto simp: insert_update_def rbind_eq_Inr insert_row_Inr_iff has_key_def)

section \<open>Every segment keeps the books\<close>

lemma segment_keeps_rows:
  "books_ok was (rs_updates s) \<Longrightarrow> rs_updates s' = rs_updates s \<Longrightarrow> pc_ok (rs_updates s) was pc \<Longrightarrow>
     segment_ok was s (s', pc)"
  by (simp add: segment_ok_def)

lemma apply_begin_ok:
  assumes ok: "books_ok was (rs_updates s)"
  shows "segment_ok was s (apply_begin tc owner i s)"
proof (cases "gate_and_bind (ao_hostId owner) s")
  case (Inl e)
  then show ?thesis using ok by (simp add: apply_begin_def segment_ok_def)
next
  case (Inr t)
  note rows = gate_and_bind_rows [OF Inr]
  have "segment_ok was t r" if r: "apply_checked tc owner i t = Inr r" for r
  proof -
    obtain u where u: "lookup_row ru_id i (rs_updates t) = Some u"
      using r by (auto simp: apply_checked_def getUpdate_def rbind_eq_Inr split: option.splits)
    have "stored (rs_updates t) u" using lookup_row_SomeD [OF u] by (auto simp: stored_def)
    then show ?thesis
      using r u ok rows
      by (auto simp: apply_checked_def getUpdate_def proposalFromUpdate_def rbind_eq_Inr segment_ok_def
          split: update_status.splits if_splits)
  qed
  then have "segment_ok was t (throws t (apply_checked tc owner i t))"
    using ok rows by (auto intro: segment_throws)
  then show ?thesis using Inr rows by (simp add: apply_begin_def segment_ok_def)
qed

lemma reconcile_begin_ok:
  assumes "books_ok was (rs_updates s)"
  shows "segment_ok was s (reconcile_begin ck h s)"
proof (cases "gate_and_bind h s")
  case (Inl e)
  then show ?thesis using assms by (simp add: reconcile_begin_def segment_ok_def)
next
  case (Inr t)
  then show ?thesis using assms gate_and_bind_rows [OF Inr]
    by (auto simp: reconcile_begin_def segment_ok_def list_all_iff stored_def)
qed

lemma propose_started_ok:
  "books_ok was (rs_updates s) \<Longrightarrow> segment_ok was s (propose_started tc i s)"
  unfolding propose_started_def by (rule segment_throws) (auto simp: rbind_eq_Inr segment_ok_def)

lemma propose_finish_ok:
  assumes "propose_finish tc k i rv dr s = Inr (s', u)" and ok: "books_ok was (rs_updates s)"
  shows "books_ok was (rs_updates s')" and "updates_evolve (rs_updates s) (rs_updates s')"
proof -
  obtain row where row: "insert_update (sql_now (rk_clock k)) row s = Inr s'" "ru_status row = Up_proposed"
    using assms(1) by (auto simp: propose_finish_def Let_def rbind_eq_Inr split: if_splits)
  note ins = insert_update_InrD [OF row(1)]
  show "books_ok was (rs_updates s')"
    using ok row(2) ins by (auto simp: books_ok_def unique_by_append1)
  show "updates_evolve (rs_updates s) (rs_updates s')"
    unfolding updates_evolve_def ins(1)
  proof
    fix u assume "u \<in> set (rs_updates s)"
    then show "\<exists>u' \<in> set (rs_updates s @ [row]). update_kept u u'" by (intro bexI [of _ u]) simp_all
  qed
qed

lemma apply_revised_ok:
  assumes ok: "books_ok was (rs_updates s)" and pc: "pc_ok (rs_updates s) was (Ap_revised u p owner rv)"
  shows "segment_ok was s (apply_revised k u p owner rv s)"
proof (cases "ru_sourceRevision u \<noteq> Some rv")
  case True
  then show ?thesis using ok pc by (simp add: apply_revised_def segment_ok_def)
next
  case False
  show ?thesis
    unfolding apply_revised_def if_not_P [OF False]
  proof (rule segment_throws [OF ok])
    fix r
    assume "rbind (done_authorised (rk_clock k) (rs_db s) u p owner) (\<lambda>_.
        rbind (claimApply k owner (ru_id u) s) (\<lambda>(s', a). Inr (s', Ap_write u p a))) = Inr r"
    then obtain s' a where c: "claimApply k owner (ru_id u) s = Inr (s', a)" and r: "r = (s', Ap_write u p a)"
      by (auto simp: rbind_eq_Inr)
    note c = claimApply_ok [OF c ok]
    show "segment_ok was s r" using c stored_evolve [OF _ c(2)] pc by (simp add: segment_ok_def r)
  qed
qed

lemma apply_answered_ok:
  assumes ok: "books_ok was (rs_updates s)" and pc: "pc_ok (rs_updates s) was (Ap_answered u owner b)"
  shows "segment_ok was s (apply_answered k u owner b s)"
proof (cases b)
  case True
  show ?thesis
  proof (cases "claimApply k owner (ru_id u) s")
    case (Inl e)
    then show ?thesis using True ok by (simp add: apply_answered_def segment_ok_def)
  next
    case (Inr r)
    obtain t a where r: "r = (t, a)" by (rule prod.exhaust)
    note c = claimApply_ok [OF Inr [unfolded r] ok]
    have st: "stored (rs_updates t) u" using stored_evolve [OF _ c(2)] pc by simp
    have "segment_ok was t (throws t (rbind (settle_attempt k (ru_id u) a Up_applied t)
            (\<lambda>s''. Inr (s'', Ap_done Rep_applied))))"
    proof (rule segment_throws [OF c(1)])
      fix q assume "rbind (settle_attempt k (ru_id u) a Up_applied t) (\<lambda>s''. Inr (s'', Ap_done Rep_applied)) = Inr q"
      then obtain s'' where s: "settle_attempt k (ru_id u) a Up_applied t = Inr s''"
        and q: "q = (s'', Ap_done Rep_applied)" by (auto simp: rbind_eq_Inr)
      show "segment_ok was t q"
        using settle_attempt_ok [OF s c(1)] stored_key [OF st c(1)] True pc by (simp add: q segment_ok_def)
    qed
    then show ?thesis
      using segment_trans [OF c(2)] True Inr r by (simp add: apply_answered_def)
  qed
next
  case False
  show ?thesis
    using segment_throws [OF ok, of "rbind (supersede k (ru_id u) s) (\<lambda>s'. Inr (s', Ap_done Rep_superseded))"]
      False supersede_ok [OF _ ok]
    by (auto simp: apply_answered_def rbind_eq_Inr segment_ok_def)
qed

lemma apply_written_ok:
  assumes ok: "books_ok was (rs_updates s)" and pc: "pc_ok (rs_updates s) was (Ap_written u a r)"
  shows "segment_ok was s (apply_written k u a r s)"
  unfolding apply_written_def
proof (rule segment_throws [OF ok])
  fix q
  assume q: "(if ar_status r = As_rejected
     then rbind (settle_attempt k (ru_id u) a Up_rejected s) (\<lambda>s'. Inr (s', Ap_done (Rep_rejected (ar_violations r))))
     else rbind (settle_attempt k (ru_id u) a Up_applied s) (\<lambda>s'. Inr (s', Ap_done Rep_applied))) = Inr q"
  define st where "st = (if ar_status r = As_rejected then Up_rejected else Up_applied)"
  have s: "settle_attempt k (ru_id u) a st s = Inr (fst q)" and pq: "pc_ok (rs_updates (fst q)) was (snd q)"
    using q by (auto simp: st_def rbind_eq_Inr split: if_splits)
  have st: "st = Up_applied \<Longrightarrow> ar_status r \<noteq> As_rejected" by (simp add: st_def split: if_splits)
  have "was (ru_idempotencyKey x)" if "x \<in> set (rs_updates s)" "ru_id x = ru_id u" "st = Up_applied" for x
    using stored_key [OF _ ok that(1,2)] pc st [OF that(3)] by simp
  then show "segment_ok was s q" using settle_attempt_ok [OF s ok] pq by (simp add: segment_ok_def)
qed

lemma reconcile_next_ok:
  assumes ok: "books_ok was (rs_updates s)" and pc: "pc_ok (rs_updates s) was (Rc_loop now us res)"
  shows "segment_ok was s (reconcile_next k now us res s)"
proof (cases us)
  case Nil
  then show ?thesis using ok by (simp add: reconcile_next_def segment_ok_def)
next
  case (Cons u rest)
  let ?up = "update_updates (sql_now (rk_clock k)) (\<lambda>r. ru_id r = ru_id u \<and> ru_status r = Up_applying)
      (\<lambda>r. r\<lparr>ru_status := Up_rejected\<rparr>) s"
  have "segment_ok was s (throws s (rbind ?up (\<lambda>(s', changes). Inr (s', Rc_loop now rest
      (if changes = 1 then res @ [(ru_id u, Rco_rejected)] else res)))))"
  proof (rule segment_throws [OF ok])
    fix r
    assume "rbind ?up (\<lambda>(s', changes). Inr (s', Rc_loop now rest
      (if changes = 1 then res @ [(ru_id u, Rco_rejected)] else res))) = Inr r"
    then obtain s' n res' where up: "?up = Inr (s', n)" and r: "r = (s', Rc_loop now rest res')"
      by (auto simp: rbind_eq_Inr)
    note b = update_books [OF up _ ok]
    have "pc_ok (rs_updates s') was (Rc_loop now rest res')"
      using pc_ok_mono [OF pc, of "rs_updates s'" was] b Cons by simp
    then show "segment_ok was s r" using b by (simp add: r segment_ok_def)
  qed
  then show ?thesis
    using ok pc Cons by (auto simp: reconcile_next_def segment_ok_def)
qed

lemma reconcile_answered_ok:
  assumes ok: "books_ok was (rs_updates s)" and pc: "pc_ok (rs_updates s) was (Rc_answered now u b us res)"
  shows "segment_ok was s (reconcile_answered k now u b us res s)"
proof -
  have step: "segment_ok was s (throws s (rbind (update_updates q (same_attempt u) f s)
      (\<lambda>(s', changes). Inr (s', Rc_loop now us (if changes = 1 then res @ [o1] else res)))))"
    if f: "\<And>r. ru_id (f r) = ru_id r"
      and new: "\<And>r. r \<in> set (rs_updates s) \<Longrightarrow> same_attempt u r \<Longrightarrow> ru_status (f r) = Up_applied \<Longrightarrow>
        was (ru_idempotencyKey r)" for q f o1
  proof (rule segment_throws [OF ok])
    fix r
    assume "rbind (update_updates q (same_attempt u) f s) (\<lambda>(s', changes).
        Inr (s', Rc_loop now us (if changes = 1 then res @ [o1] else res))) = Inr r"
    then obtain s' n res' where up: "update_updates q (same_attempt u) f s = Inr (s', n)"
      and r: "r = (s', Rc_loop now us res')" by (auto simp: rbind_eq_Inr)
    have b: "books_ok was (rs_updates s')" "updates_evolve (rs_updates s) (rs_updates s')"
      by (rule update_books [OF up f ok]; rule new; assumption)+
    have "pc_ok (rs_updates s') was (Rc_answered now u b us res)"
      by (rule pc_ok_mono [OF pc b(2)])
    then have "pc_ok (rs_updates s') was (Rc_loop now us res')" by simp
    then show "segment_ok was s r" using b by (simp add: r segment_ok_def)
  qed
  show ?thesis
  proof (cases b)
    case True
    have "was (ru_idempotencyKey r)" if "r \<in> set (rs_updates s)" "same_attempt u r" for r
      using stored_key [OF _ ok that(1), of u] that(2) pc True by (auto simp: same_attempt_def)
    then show ?thesis unfolding reconcile_answered_def if_P [OF True] by (intro step) simp_all
  next
    case new: False
    have leased: "segment_ok was s (s, Rc_loop now us res)" using ok pc by (simp add: segment_ok_def)
    show ?thesis
      unfolding reconcile_answered_def if_not_P [OF new]
      by (split if_split) (intro conjI impI leased step; simp)
  qed
qed

section \<open>The protocol over a lawful source\<close>

definition world_ok :: "'s roadmap_adapter \<Rightarrow> 's roadmap_world \<Rightarrow> bool" where
  "world_ok ad w \<longleftrightarrow> books_ok (ad_wasApplied ad (rw_source w)) (rs_updates (rw_store w))
     \<and> list_all (pc_ok (rs_updates (rw_store w)) (ad_wasApplied ad (rw_source w))) (rw_workers w)"

definition world_evolves :: "'s roadmap_adapter \<Rightarrow> 's roadmap_world \<Rightarrow> 's roadmap_world \<Rightarrow> bool" where
  "world_evolves ad w w' \<longleftrightarrow> updates_evolve (rs_updates (rw_store w)) (rs_updates (rw_store w'))
     \<and> (\<forall>k. ad_wasApplied ad (rw_source w) k \<longrightarrow> ad_wasApplied ad (rw_source w') k)"

lemma books_ok_mono: "books_ok was us \<Longrightarrow> (\<And>k. was k \<Longrightarrow> was' k) \<Longrightarrow> books_ok was' us"
  by (auto simp: books_ok_def)

lemma world_started:
  assumes "world_ok ad w" and "segment_ok (ad_wasApplied ad (rw_source w)) (rw_store w) r"
  shows "world_ok ad (start_worker r w)" and "world_evolves ad w (start_worker r w)"
  using assms pc_ok_mono
  by (auto simp: world_ok_def world_evolves_def segment_ok_def start_worker_def list_all_iff)

context lawful_adapter
begin

lemma advance_ok:
  assumes adv: "advance tc ad k pc s src = (r, src')"
    and ok: "books_ok (ad_wasApplied ad src) (rs_updates s)"
    and pc: "pc_ok (rs_updates s) (ad_wasApplied ad src) pc"
  shows "segment_ok (ad_wasApplied ad src') s r
     \<and> (\<forall>x. ad_wasApplied ad src x \<longrightarrow> ad_wasApplied ad src' x)"
proof -
  have read: ?thesis if "src' = src" "segment_ok (ad_wasApplied ad src) s r" using that by simp
  show ?thesis
  proof (cases pc)
    case (Pr_dried i rv dr)
    have "segment_ok (ad_wasApplied ad src) s (throws s (rbind (propose_finish tc k i rv dr s)
        (\<lambda>(s', u). Inr (s', Pr_done u))))"
      by (rule segment_throws [OF ok])
        (auto simp: rbind_eq_Inr segment_ok_def dest: propose_finish_ok [OF _ ok])
    then show ?thesis using read adv Pr_dried by simp
  next
    case (Ap_revised u p owner rv)
    then show ?thesis using read adv apply_revised_ok [OF ok, of u p owner rv k] pc by auto
  next
    case (Ap_answered u owner b)
    then show ?thesis using read adv apply_answered_ok [OF ok, of u owner b k] pc by auto
  next
    case (Ap_write u p a)
    obtain t res where w: "ad_apply ad p (ru_dryRunDiff u) src = (t, res)" by (rule prod.exhaust)
    have r: "r = (s, Ap_written u a res)" "src' = t" using adv Ap_write w by auto
    have mono: "ad_wasApplied ad t x" if "ad_wasApplied ad src x" for x
      using apply_keeps [OF w that] .
    have "ar_status res \<noteq> As_rejected \<longrightarrow> ad_wasApplied ad t (ru_idempotencyKey u)"
      using apply_records [OF w] pc Ap_write by auto
    then show ?thesis using r mono ok pc Ap_write books_ok_mono [OF ok] by (auto simp: segment_ok_def)
  next
    case (Ap_written u a res)
    then show ?thesis using read adv apply_written_ok [OF ok, of u a res k] pc by auto
  next
    case (Rc_loop now us res)
    then show ?thesis using read adv reconcile_next_ok [OF ok, of now us res k] pc by auto
  next
    case (Rc_answered now u b us res)
    then show ?thesis using read adv reconcile_answered_ok [OF ok, of now u b us res k] pc by auto
  qed (use read adv ok pc in \<open>auto simp: segment_ok_def\<close>)
qed

lemma step_ok:
  assumes "roadmap_step tc ad edit w w'" and ok: "world_ok ad w"
  shows "world_ok ad w' \<and> world_evolves ad w w'"
  using assms(1)
proof cases
  case (starts_propose i)
  then show ?thesis using world_started [OF ok propose_started_ok] ok by (simp add: world_ok_def)
next
  case (starts_apply owner i)
  then show ?thesis using world_started [OF ok apply_begin_ok] ok by (simp add: world_ok_def)
next
  case (starts_reconcile ck h)
  then show ?thesis using world_started [OF ok reconcile_begin_ok] ok by (simp add: world_ok_def)
next
  case (worker k n)
  show ?thesis
  proof (cases "n < length (rw_workers w)")
    case False
    then show ?thesis using ok worker by (simp add: step_worker_def world_evolves_def)
  next
    case True
    obtain s' pc' src' where a: "advance tc ad k (rw_workers w ! n) (rw_store w) (rw_source w) = ((s', pc'), src')"
      by (metis prod.exhaust)
    have pc: "pc_ok (rs_updates (rw_store w)) (ad_wasApplied ad (rw_source w)) (rw_workers w ! n)"
      using ok True by (simp add: world_ok_def list_all_length)
    have books: "books_ok (ad_wasApplied ad (rw_source w)) (rs_updates (rw_store w))"
      using ok by (simp add: world_ok_def)
    note new = advance_ok [OF a books pc]
    have "w' = w\<lparr>rw_store := s', rw_source := src', rw_workers := (rw_workers w)[n := pc']\<rparr>"
      using worker a True by (simp add: step_worker_def)
    moreover have "list_all (pc_ok (rs_updates s') (ad_wasApplied ad src')) ((rw_workers w)[n := pc'])"
      using ok new pc_ok_mono
      by (auto simp: world_ok_def segment_ok_def list_all_iff dest!: set_update_subset_insert [THEN subsetD])
    ultimately show ?thesis using new by (simp add: world_ok_def world_evolves_def segment_ok_def)
  qed
next
  case (edited src)
  have "ad_wasApplied ad src = ad_wasApplied ad (rw_source w)"
    using edit_frame [OF edited(2)] by (rule ext)
  then show ?thesis using ok edited by (simp add: world_ok_def world_evolves_def)
next
  case (services d)
  then show ?thesis using ok by (simp add: world_ok_def world_evolves_def)
qed

lemma roadmap_system: "invariant_system roadmap_start (roadmap_step tc ad edit) (world_ok ad) (world_evolves ad)"
proof
  show "world_ok ad w" if "roadmap_start w" for w
    using that by (simp add: roadmap_start_def world_ok_def books_ok_def unique_by_def)
  show "world_evolves ad w u" if "world_evolves ad w v" "world_evolves ad v u" for w v u
    using that updates_evolve_trans by (auto simp: world_evolves_def)
qed (use step_ok in \<open>auto simp: world_evolves_def\<close>)

lemma reachable_world_ok:
  assumes "roadmap_start w0" and "(roadmap_step tc ad edit)\<^sup>*\<^sup>* w0 w"
  shows "world_ok ad w"
  using invariant_system.run_inv [OF roadmap_system assms(2)]
    invariant_system.start_inv [OF roadmap_system [of tc] assms(1)] by blast

lemma reachable_world_evolves:
  assumes "roadmap_start w0" and "(roadmap_step tc ad edit)\<^sup>*\<^sup>* w0 w" and "(roadmap_step tc ad edit)\<^sup>*\<^sup>* w w'"
  shows "world_evolves ad w w'"
  using invariant_system.run_inv [OF roadmap_system assms(3)] reachable_world_ok [OF assms(1,2)] by blast

end

text \<open>A claim takes the update out of \<open>proposed\<close>: the next claim does not find it.\<close>

lemma no_match_left:
  assumes "\<And>r. \<not> P (f r)"
  shows "\<forall>u \<in> set (rs_updates (s\<lparr>rs_updates := update_where P f rows\<rparr>)). \<not> P u"
  using assms by (auto simp: set_update_where)

lemma claim_excludes:
  assumes "claimApply k owner i s = Inr (s', a)"
  shows "claimApply k' owner' i s' = Inl (Rm_not_claimable i)"
proof -
  have none: "\<forall>u \<in> set (rs_updates s'). \<not> (ru_id u = i \<and> ru_status u = Up_proposed)"
    unfolding update_updates_InrD(1) [OF claimApply_update [OF assms]]
    by (rule no_match_left, simp)
  then have "filter (\<lambda>u. ru_id u = i \<and> ru_status u = Up_proposed) (rs_updates s') = []"
    by (simp only: filter_empty_conv)
  then show ?thesis
    using none
    by (simp add: claimApply_def update_updates_def update_rows_def row_outcome_def
        count_where_def Let_def)
qed

section \<open>Done\<close>

lemma evidence_belongs_iff:
  "evidence_belongs d item is = Inr x \<longleftrightarrow>
     (\<forall>i \<in> set is. \<exists>e t. lookup_row e_id i (evidences d) = Some e
        \<and> lookup_row t_id (e_taskId e) (tasks d) = Some t \<and> t_roadmapItemId t = Some item)"
  by (induction "is") (auto split: option.splits if_splits)

section \<open>Reconciliation without interruption\<close>

primrec run_worker ::
  "nat \<Rightarrow> text_codec \<Rightarrow> 's roadmap_adapter \<Rightarrow> step_input \<Rightarrow> (roadmap_store \<times> roadmap_pc) \<times> 's
     \<Rightarrow> (roadmap_store \<times> roadmap_pc) \<times> 's" where
  "run_worker 0 tc ad k c = c"
| "run_worker (Suc n) tc ad k c =
     run_worker n tc ad k (advance tc ad k (snd (fst c)) (fst (fst c)) (snd c))"

text \<open>What reconciliation makes of one row.\<close>

definition reconciled :: "(string \<Rightarrow> bool) \<Rightarrow> instant \<Rightarrow> update_row \<Rightarrow> update_row" where
  "reconciled was now u =
     (if ru_status u \<noteq> Up_applying then u
      else if falsy_text (ru_applyAttemptId u) \<or> falsy_text (ru_applyWorkerId u)
              \<or> ru_applyLeaseExpiresAt u = None
      then u\<lparr>ru_status := Up_rejected\<rparr>
      else if was (ru_idempotencyKey u)
      then u\<lparr>ru_status := Up_applied, ru_appliedAt := Some now\<rparr>
      else if (case ru_applyLeaseExpiresAt u of None \<Rightarrow> False | Some e \<Rightarrow> e > now) then u
      else u\<lparr>ru_status := Up_proposed, ru_applyAttemptId := None, ru_applyWorkerId := None,
             ru_applyLeaseExpiresAt := None\<rparr>)"

lemma reconciled_id [simp]: "ru_id (reconciled was now u) = ru_id u"
  by (simp add: reconciled_def)

lemma list_all_concat: "list_all P (concat xss) = list_all (list_all P) xss"
  by (induction xss) auto

lemma update_one:
  assumes uniq: "unique_by ru_id (rs_updates s)" and u: "u \<in> set (rs_updates s)" "P u"
    and only: "\<And>r. P r \<Longrightarrow> ru_id r = ru_id u" and ok: "list_all snd (update_triggers q u (f u))"
  shows "update_updates q P f s =
    Inr (s\<lparr>rs_updates := update_where (\<lambda>r. ru_id r = ru_id u) f (rs_updates s)\<rparr>, 1)"
proof -
  have P: "P r \<longleftrightarrow> ru_id r = ru_id u" if "r \<in> set (rs_updates s)" for r
    using only u unique_by_inj [OF uniq that u(1)] by blast
  have "count_where P (rs_updates s) = 1"
    using count_where_key [where P = P, OF uniq u only] .
  moreover have "update_where P f (rs_updates s) = update_where (\<lambda>r. ru_id r = ru_id u) f (rs_updates s)"
    using P by (simp add: update_where_def)
  moreover have "update_rows (update_triggers q) P f (rs_updates s) =
      Inr (update_where P f (rs_updates s), count_where P (rs_updates s))"
    using P ok unique_by_inj [OF uniq _ u(1)] by (auto simp: update_rows_Inr_iff)
  ultimately show ?thesis
    by (simp add: update_updates_def row_outcome_def)
qed

lemma update_where_twice:
  assumes "\<And>r. key (f r) = key r" and "k \<notin> K"
  shows "update_where (\<lambda>r. key r \<in> K) f (update_where (\<lambda>r. key r = k) f rows) =
    update_where (\<lambda>r. key r \<in> insert k K) f rows"
  using assms by (induction rows) auto

lemma update_where_same:
  assumes "\<And>r. r \<in> set rows \<Longrightarrow> P r \<Longrightarrow> f r = g r"
  shows "update_where P f rows = update_where P g rows"
  using assms by (simp add: update_where_def)

definition recoverable :: "update_row \<Rightarrow> bool" where
  "recoverable u \<longleftrightarrow> list_all snd (update_checks u)
     \<and> (ru_status u = Up_applying \<longrightarrow> \<not> Option.is_none (ru_dryRunDiff u) \<and> ru_dryRunAt u \<noteq> None)"

text \<open>One round of the loop: at most three steps, and the row is the reconciled one.\<close>

lemma reconcile_round:
  fixes s :: roadmap_store and src :: 's
  assumes uniq: "unique_by ru_id (rs_updates s)" and u: "u \<in> set (rs_updates s)"
    and st: "ru_status u = Up_applying" and rec: "recoverable u"
    and now: "now = svc_now (rk_clock k)" "now \<le> sql_now (rk_clock k)"
  shows "\<exists>n \<le> 3. \<exists>res'. run_worker n tc ad k ((s, Rc_loop now (u # us) res), src) =
    ((s\<lparr>rs_updates := update_where (\<lambda>r. ru_id r = ru_id u)
         (reconciled (ad_wasApplied ad src) now) (rs_updates s)\<rparr>, Rc_loop now us res'), src)"
proof -
  let ?was = "ad_wasApplied ad src"
  have at_u: "r = u" if "r \<in> set (rs_updates s)" "ru_id r = ru_id u" for r
    using unique_by_inj [OF uniq that(1) u that(2)] .
  have upd: "update_updates (sql_now (rk_clock k)) P f s =
      Inr (s\<lparr>rs_updates := update_where (\<lambda>r. ru_id r = ru_id u) (reconciled ?was now) (rs_updates s)\<rparr>, 1)"
    if "P u" "\<And>r. P r \<Longrightarrow> ru_id r = ru_id u" "f u = reconciled ?was now u"
      "list_all snd (update_triggers (sql_now (rk_clock k)) u (f u))" for P f
  proof -
    have "update_where (\<lambda>r. ru_id r = ru_id u) f (rs_updates s) =
        update_where (\<lambda>r. ru_id r = ru_id u) (reconciled ?was now) (rs_updates s)"
      by (rule update_where_same) (use at_u that(3) in auto)
    then show ?thesis using update_one [where P = P and f = f, OF uniq u that(1,2,4)] by simp
  qed
  have stay: "update_where (\<lambda>r. ru_id r = ru_id u) (reconciled ?was now) (rs_updates s) = rs_updates s"
    if "reconciled ?was now u = u"
  proof -
    have "reconciled ?was now r = r" if "r \<in> set (rs_updates s)" "ru_id r = ru_id u" for r
      using at_u [OF that] \<open>reconciled ?was now u = u\<close> by simp
    then show ?thesis unfolding update_where_def by (intro map_idI) simp
  qed
  let ?lost = "falsy_text (ru_applyAttemptId u) \<or> falsy_text (ru_applyWorkerId u)
     \<or> ru_applyLeaseExpiresAt u = None"
  show ?thesis
  proof (cases ?lost)
    case True
    have "reconciled ?was now u = u\<lparr>ru_status := Up_rejected\<rparr>" using True st by (simp add: reconciled_def)
    then have "run_worker 1 tc ad k ((s, Rc_loop now (u # us) res), src) =
      ((s\<lparr>rs_updates := update_where (\<lambda>r. ru_id r = ru_id u) (reconciled ?was now) (rs_updates s)\<rparr>,
        Rc_loop now us (res @ [(ru_id u, Rco_rejected)])), src)"
      using True st upd [of "\<lambda>r. ru_id r = ru_id u \<and> ru_status r = Up_applying"
          "\<lambda>r. r\<lparr>ru_status := Up_rejected\<rparr>"]
      by (simp add: reconcile_next_def throws_def update_triggers_def update_checks_def)
    then show ?thesis by (intro exI [of _ 1] conjI exI) simp_all
  next
    case id: False
    then have ask: "advance tc ad k (Rc_loop now (u # us) res) s src = ((s, Rc_ask now u us res), src)"
      by (auto simp: reconcile_next_def)
    have run: "run_worker 3 tc ad k ((s, Rc_loop now (u # us) res), src) =
        (reconcile_answered k now u (?was (ru_idempotencyKey u)) us res s, src)"
      using ask by (simp add: numeral_3_eq_3)
    obtain e where e: "ru_applyLeaseExpiresAt u = Some e" using id by blast
    have "\<exists>res'. reconcile_answered k now u (?was (ru_idempotencyKey u)) us res s =
      (s\<lparr>rs_updates := update_where (\<lambda>r. ru_id r = ru_id u) (reconciled ?was now) (rs_updates s)\<rparr>,
       Rc_loop now us res')"
    proof (cases "?was (ru_idempotencyKey u)")
      case True
      let ?f = "\<lambda>r. r\<lparr>ru_status := Up_applied, ru_appliedAt := Some now\<rparr>"
      have "reconciled ?was now u = ?f u" using True id st by (auto simp: reconciled_def)
      moreover have "list_all snd (update_triggers (sql_now (rk_clock k)) u (?f u))"
        using st rec by (simp add: update_triggers_def update_checks_def recoverable_def Option.is_none_def)
      ultimately have up: "update_updates (sql_now (rk_clock k)) (same_attempt u) ?f s =
          Inr (s\<lparr>rs_updates := update_where (\<lambda>r. ru_id r = ru_id u) (reconciled ?was now) (rs_updates s)\<rparr>, 1)"
        using st by (intro upd) (auto simp: same_attempt_def)
      show ?thesis
        unfolding reconcile_answered_def now(1) [symmetric] up
        using True by (simp add: throws_def)
    next
      case new: False
      show ?thesis
      proof (cases "e > now")
        case True
        have "reconciled ?was now u = u" using True e new id st by (auto simp: reconciled_def)
        then show ?thesis using True e new stay by (simp add: reconcile_answered_def)
      next
        case False
        let ?f = "\<lambda>r. r\<lparr>ru_status := Up_proposed, ru_applyAttemptId := None,
            ru_applyWorkerId := None, ru_applyLeaseExpiresAt := None\<rparr>"
        have "reconciled ?was now u = ?f u" using False e new id st by (auto simp: reconciled_def)
        moreover have "ru_applyAttemptId u \<noteq> None" "ru_applyWorkerId u \<noteq> None"
          using id by (auto simp: falsy_text_def split: option.splits)
        then have "list_all snd (update_triggers (sql_now (rk_clock k)) u (?f u))"
          using False e st now by (simp add: update_triggers_def update_checks_def)
        ultimately have up: "update_updates (sql_now (rk_clock k)) (same_attempt u) ?f s =
          Inr (s\<lparr>rs_updates := update_where (\<lambda>r. ru_id r = ru_id u) (reconciled ?was now) (rs_updates s)\<rparr>, 1)"
          using st by (intro upd) (auto simp: same_attempt_def)
        show ?thesis
          unfolding reconcile_answered_def up using False e new by (simp add: throws_def)
      qed
    qed
    then show ?thesis using run by (intro exI [of _ 3]) auto
  qed
qed

lemma run_worker_add: "run_worker (m + n) tc ad k c = run_worker n tc ad k (run_worker m tc ad k c)"
  by (induction m arbitrary: c) auto

lemma reconcile_loop:
  fixes s :: roadmap_store and src :: 's
  assumes now: "now = svc_now (rk_clock k)" "now \<le> sql_now (rk_clock k)"
  shows "unique_by ru_id (rs_updates s) \<Longrightarrow> set us \<subseteq> set (rs_updates s) \<Longrightarrow>
    distinct (map ru_id us) \<Longrightarrow> list_all (\<lambda>u. ru_status u = Up_applying \<and> recoverable u) us \<Longrightarrow>
    \<exists>n \<le> 3 * length us + 1. \<exists>res'. run_worker n tc ad k ((s, Rc_loop now us res), src) =
      ((s\<lparr>rs_updates := update_where (\<lambda>r. ru_id r \<in> ru_id ` set us)
         (reconciled (ad_wasApplied ad src) now) (rs_updates s)\<rparr>, Rc_done res'), src)"
proof (induction us arbitrary: s res)
  case Nil
  have "run_worker 1 tc ad k ((s, Rc_loop now [] res), src) = ((s, Rc_done res), src)"
    by (simp add: reconcile_next_def)
  then show ?case by (intro exI [of _ 1] conjI exI) (simp_all add: update_where_def)
next
  case (Cons u us)
  let ?rec = "reconciled (ad_wasApplied ad src) now"
  let ?t = "s\<lparr>rs_updates := update_where (\<lambda>r. ru_id r = ru_id u) ?rec (rs_updates s)\<rparr>"
  obtain n res1 where n: "n \<le> 3" "run_worker n tc ad k ((s, Rc_loop now (u # us) res), src) =
      ((?t, Rc_loop now us res1), src)"
    using reconcile_round [OF Cons.prems(1) _ _ _ now, of u tc ad us res src] Cons.prems(2,4) by auto
  have "set us \<subseteq> set (rs_updates ?t)"
  proof
    fix v assume v: "v \<in> set us"
    then have "ru_id v \<in> ru_id ` set us" by (rule imageI)
    then have "ru_id v \<noteq> ru_id u" using Cons.prems(3) by auto
    moreover have "v \<in> set (rs_updates s)" using v Cons.prems(2) by auto
    ultimately show "v \<in> set (rs_updates ?t)" by (force simp: set_update_where)
  qed
  moreover have "unique_by ru_id (rs_updates ?t)"
    using Cons.prems(1) by (simp add: unique_by_update_where)
  ultimately obtain m res2 where m: "m \<le> 3 * length us + 1"
    "run_worker m tc ad k ((?t, Rc_loop now us res1), src) =
      ((?t\<lparr>rs_updates := update_where (\<lambda>r. ru_id r \<in> ru_id ` set us) ?rec (rs_updates ?t)\<rparr>, Rc_done res2), src)"
    using Cons.IH [of ?t res1] Cons.prems(3,4) by auto
  have "ru_id u \<notin> ru_id ` set us" using Cons.prems(3) by simp
  then have "update_where (\<lambda>r. ru_id r \<in> ru_id ` set us) ?rec (rs_updates ?t) =
      update_where (\<lambda>r. ru_id r \<in> ru_id ` set (u # us)) ?rec (rs_updates s)"
    using update_where_twice [where key = ru_id and f = ?rec, OF reconciled_id] by simp
  then have "run_worker (n + m) tc ad k ((s, Rc_loop now (u # us) res), src) =
      ((s\<lparr>rs_updates := update_where (\<lambda>r. ru_id r \<in> ru_id ` set (u # us)) ?rec (rs_updates s)\<rparr>,
        Rc_done res2), src)"
    using n(2) m(2) by (simp add: run_worker_add)
  then show ?case using n(1) m(1) by (intro exI [of _ "n + m"] conjI exI) simp_all
qed

section \<open>Concrete runs\<close>

fun json_strings :: "json \<Rightarrow> string" where
  "json_strings (JStr s) = s @ ''.''"
| "json_strings (JArr js) = concat (map json_strings js)"
| "json_strings (JObj kvs) = concat (map (\<lambda>(k, v). k @ '':'' @ json_strings v) kvs)"
| "json_strings j = []"

definition sample_codec :: text_codec where
  "sample_codec = \<lparr>stringify = json_strings, sha256 = rev\<rparr>"

definition sample_sheet :: mock_sheet where
  "sample_sheet = new_sheet
     [\<lparr>rm_stableId = ''R1'', rm_values = [(''Status'', ''Open''), (''Owner'', ''ann'')], rm_formulas = None\<rparr>]
     DEFAULT_POLICY"

definition sample_store :: roadmap_store where
  "sample_store = \<lparr>rs_db = empty_db\<lparr>roadmapItems :=
     [\<lparr>ri_id = ''i1'', ri_projectId = ''p1'', ri_stableRef = ''R1'', ri_title = ''item'',
       ri_sourceStatus = None, ri_sourceJson = None, ri_createdAt = 0, ri_updatedAt = 0\<rparr>]\<rparr>,
     rs_updates = [], rs_host = None\<rparr>"

definition sample_propose :: propose_input where
  "sample_propose = \<lparr>pi_roadmapItemId = ''i1'', pi_baseKey = ''k'',
     pi_changes = [\<lparr>rc_stableId = ''R1'', rc_columns = [(''Status'', ''Active'')]\<rparr>],
     pi_rationale = ''started'', pi_evidenceIds = [], pi_proposedByRunId = None\<rparr>"

definition owner_named :: "string \<Rightarrow> apply_owner" where
  "owner_named w = \<lparr>ao_workerId = w, ao_leaseMs = 100, ao_hostId = ''host'', ao_doneDecisionId = None\<rparr>"

definition at_time :: "int \<Rightarrow> string \<Rightarrow> step_input" where
  "at_time t uuid = \<lparr>rk_clock = \<lparr>svc_now = t, sql_now = t\<rparr>, rk_uuid = uuid\<rparr>"

definition sample_roadmap_start :: "mock_sheet roadmap_world" where
  "sample_roadmap_start = \<lparr>rw_store = sample_store, rw_source = sample_sheet, rw_workers = []\<rparr>"

abbreviation mock_step :: "mock_sheet roadmap_world \<Rightarrow> mock_sheet roadmap_world \<Rightarrow> bool" where
  "mock_step \<equiv> roadmap_step sample_codec MockSheetsAdapter sheet_edit"

text \<open>A script of commands, each a step of the relation.\<close>

datatype command =
    Propose | Apply string | Reconcile int | Step int string nat | Edit string string string

fun execute :: "command \<Rightarrow> mock_sheet roadmap_world \<Rightarrow> mock_sheet roadmap_world" where
  "execute Propose w = start_worker (propose_started sample_codec sample_propose (rw_store w)) w"
| "execute (Apply name) w =
     start_worker (apply_begin sample_codec (owner_named name) ''rupd_1'' (rw_store w)) w"
| "execute (Reconcile t) w =
     start_worker (reconcile_begin \<lparr>svc_now = t, sql_now = t\<rparr> ''host'' (rw_store w)) w"
| "execute (Step t uuid n) w = step_worker sample_codec MockSheetsAdapter (at_time t uuid) n w"
| "execute (Edit sid column v) w =
     (case setCell sid column v (rw_source w) of
        Inl _ \<Rightarrow> step_worker sample_codec MockSheetsAdapter (at_time 0 ''0'') (length (rw_workers w)) w
      | Inr s \<Rightarrow> w\<lparr>rw_source := s\<rparr>)"

definition script :: "command list \<Rightarrow> mock_sheet roadmap_world \<Rightarrow> mock_sheet roadmap_world" where
  "script cs w = List.fold execute cs w"

lemma execute_step: "mock_step w (execute c w)"
proof (cases c)
  case Propose
  then show ?thesis by (simp add: starts_propose)
next
  case (Apply name)
  then show ?thesis by (simp add: starts_apply)
next
  case (Reconcile t)
  then show ?thesis by (simp add: starts_reconcile)
next
  case (Step t uuid n)
  then show ?thesis by (simp add: worker)
next
  case (Edit sid column v)
  show ?thesis
  proof (cases "setCell sid column v (rw_source w)")
    case (Inl e)
    then show ?thesis using Edit by (simp add: worker)
  next
    case (Inr s)
    then have "sheet_edit (rw_source w) s" by (auto simp: sheet_edit_def)
    then show ?thesis using Edit Inr by (simp add: edited)
  qed
qed

lemma script_run: "mock_step\<^sup>*\<^sup>* w (script cs w)"
proof (induction cs arbitrary: w)
  case (Cons c cs)
  then show ?case
    using converse_rtranclp_into_rtranclp [where r = mock_step, OF execute_step, of c w "script cs (execute c w)"]
    by (simp add: script_def)
qed (simp add: script_def)

definition clean_script :: "command list" where
  "clean_script = [Propose, Step 1 ''1'' 0, Step 1 ''1'' 0, Step 1 ''1'' 0,
     Apply ''w1'', Step 2 ''2'' 1, Step 2 ''2'' 1, Step 2 ''2'' 1, Step 2 ''2'' 1]"

lemma clean_run:
  "map (\<lambda>u. (ru_status u, ru_id u)) (rs_updates (rw_store (script clean_script sample_roadmap_start))) =
     [(Up_applied, ''rupd_1'')]
   \<and> sh_appliedKeys (rw_source (script clean_script sample_roadmap_start)) =
       map ru_idempotencyKey (rs_updates (rw_store (script clean_script sample_roadmap_start)))"
  by code_simp

text \<open>
  Worker \<open>w1\<close> waits for its write beyond its lease; reconciliation returns the update to
  proposed, a person edits another cell, \<open>w2\<close> finds the revision changed and the key not
  applied and supersedes the update; then the write of \<open>w1\<close> arrives.
\<close>

definition late_write_script :: "command list" where
  "late_write_script = [Propose, Step 1 ''1'' 0, Step 1 ''1'' 0, Step 1 ''1'' 0,
     Apply ''w1'', Step 2 ''2'' 1, Step 2 ''2'' 1,
     Reconcile 200, Step 200 ''3'' 2, Step 200 ''3'' 2, Step 200 ''3'' 2, Step 200 ''3'' 2,
     Edit ''R1'' ''Owner'' ''bob'',
     Apply ''w2'', Step 201 ''4'' 3, Step 201 ''4'' 3, Step 201 ''4'' 3, Step 201 ''4'' 3,
     Step 202 ''5'' 1, Step 202 ''5'' 1]"

lemma late_run:
  "map ru_status (rs_updates (rw_store (script late_write_script sample_roadmap_start))) = [Up_superseded]
   \<and> sh_appliedKeys (rw_source (script late_write_script sample_roadmap_start)) =
       map ru_idempotencyKey (rs_updates (rw_store (script late_write_script sample_roadmap_start)))"
  by code_simp

section \<open>Properties\<close>

text \<open>
  C38. Whatever proposals, applies, reconciliations, deaths of workers and outside edits
  interleave, an update the store calls applied has been applied at a source that keeps the
  contract of the adapter.
\<close>

theorem applied_updates_reached_the_source:
  assumes "lawful_adapter ad edit" and "roadmap_start w0" and "(roadmap_step tc ad edit)\<^sup>*\<^sup>* w0 w"
    and "u \<in> set (rs_updates (rw_store w))" and "ru_status u = Up_applied"
  shows "ad_wasApplied ad (rw_source w) (ru_idempotencyKey u)"
  using lawful_adapter.reachable_world_ok [OF assms(1-3)] assms(4,5) by (simp add: world_ok_def books_ok_def)

text \<open>
  Over any further run no update disappears, its payload (key, hash, changes, item) and a
  final status do not change, and what was applied at the source stays applied.
\<close>

theorem roadmap_history_is_kept:
  assumes "lawful_adapter ad edit" and "roadmap_start w0" and "(roadmap_step tc ad edit)\<^sup>*\<^sup>* w0 w"
    and "(roadmap_step tc ad edit)\<^sup>*\<^sup>* w w'" and "u \<in> set (rs_updates (rw_store w))"
  shows "(\<exists>u' \<in> set (rs_updates (rw_store w')). same_payload u u'
       \<and> (final_status (ru_status u) \<longrightarrow> ru_status u' = ru_status u))
     \<and> (ad_wasApplied ad (rw_source w) k \<longrightarrow> ad_wasApplied ad (rw_source w') k)"
  using lawful_adapter.reachable_world_evolves [OF assms(1-4)] assms(5)
  by (auto simp: world_evolves_def updates_evolve_def update_kept_def)

text \<open>
  C40. A run of reconciliation that nothing interrupts ends after at most three steps per update
  in \<open>applying\<close> and resolves each: without an attempt identity rejected, applied at the
  source applied, with a live lease untouched, otherwise back to proposed; every other row is
  unchanged.
\<close>

theorem reconciliation_resolves_every_attempt:
  assumes "rs_host s = None \<or> rs_host s = Some hostId" and "unique_by ru_id (rs_updates s)"
    and "list_all recoverable (rs_updates s)" and "svc_now (rk_clock k) \<le> sql_now (rk_clock k)"
  shows "\<exists>n \<le> 3 * count_where (\<lambda>u. ru_status u = Up_applying) (rs_updates s) + 1. \<exists>s' res.
    run_worker n tc ad k (reconcile_begin (rk_clock k) hostId s, src) = ((s', Rc_done res), src)
    \<and> rs_updates s' = map (reconciled (ad_wasApplied ad src) (svc_now (rk_clock k))) (rs_updates s)"
proof -
  let ?us = "filter (\<lambda>u. ru_status u = Up_applying) (rs_updates s)"
  let ?rec = "reconciled (ad_wasApplied ad src) (svc_now (rk_clock k))"
  obtain t where t: "gate_and_bind hostId s = Inr t" "rs_updates t = rs_updates s"
    using assms(1) by (auto simp: gate_and_bind_def bindRoadmapRuntimeHost_def row_outcome_def)
  have "list_all (\<lambda>u. ru_status u = Up_applying \<and> recoverable u) ?us" "distinct (map ru_id ?us)"
    using assms(2,3) by (auto simp: list_all_iff unique_by_def distinct_map inj_on_def)
  then obtain n res where n: "n \<le> 3 * length ?us + 1"
    "run_worker n tc ad k ((t, Rc_loop (svc_now (rk_clock k)) ?us []), src) =
      ((t\<lparr>rs_updates := update_where (\<lambda>r. ru_id r \<in> ru_id ` set ?us) ?rec (rs_updates t)\<rparr>, Rc_done res), src)"
    using reconcile_loop [OF refl assms(4), of t ?us tc ad "[]" src] assms(2) t(2) by auto
  have "update_where (\<lambda>r. ru_id r \<in> ru_id ` set ?us) ?rec (rs_updates s) = map ?rec (rs_updates s)"
    unfolding update_where_def
  proof (rule map_cong [OF refl])
    fix r assume r: "r \<in> set (rs_updates s)"
    show "(if ru_id r \<in> ru_id ` set ?us then ?rec r else r) = ?rec r"
      using r by (auto simp: reconciled_def)
  qed
  then have "rs_updates (t\<lparr>rs_updates := update_where (\<lambda>r. ru_id r \<in> ru_id ` set ?us) ?rec (rs_updates t)\<rparr>) =
      map ?rec (rs_updates s)" using t(2) by simp
  moreover have "run_worker n tc ad k (reconcile_begin (rk_clock k) hostId s, src) =
      ((t\<lparr>rs_updates := update_where (\<lambda>r. ru_id r \<in> ru_id ` set ?us) ?rec (rs_updates t)\<rparr>, Rc_done res), src)"
    using n(2) t by (simp add: reconcile_begin_def)
  ultimately show ?thesis using n(1) unfolding count_where_def by blast
qed


section \<open>Witnesses\<close>

lemma sample_roadmap_starts: "roadmap_start sample_roadmap_start"
  by (simp add: roadmap_start_def sample_roadmap_start_def sample_store_def)

lemma mock_lawful: "lawful_adapter MockSheetsAdapter sheet_edit"
  by (rule mock.lawful_adapter_axioms)

lemma clean_update:
  obtains u where "rs_updates (rw_store (script clean_script sample_roadmap_start)) = [u]" "ru_status u = Up_applied"
    "sh_appliedKeys (rw_source (script clean_script sample_roadmap_start)) = [ru_idempotencyKey u]"
  using clean_run by (cases "rs_updates (rw_store (script clean_script sample_roadmap_start))") auto

theorem applied_updates_reached_the_source_witness:
  "\<exists>u. rs_updates (rw_store (script clean_script sample_roadmap_start)) = [u] \<and> ru_status u = Up_applied
     \<and> ad_wasApplied MockSheetsAdapter (rw_source (script clean_script sample_roadmap_start)) (ru_idempotencyKey u)"
proof -
  obtain u where u: "rs_updates (rw_store (script clean_script sample_roadmap_start)) = [u]" "ru_status u = Up_applied"
    by (rule clean_update)
  have "u \<in> set (rs_updates (rw_store (script clean_script sample_roadmap_start)))" using u(1) by simp
  then show ?thesis
    using u applied_updates_reached_the_source [OF mock_lawful sample_roadmap_starts script_run _ u(2)] by blast
qed

theorem roadmap_history_is_kept_witness:
  "\<exists>u. rs_updates (rw_store (script clean_script sample_roadmap_start)) = [u]
     \<and> (\<exists>u' \<in> set (rs_updates (rw_store (script [Reconcile 300] (script clean_script sample_roadmap_start)))).
          same_payload u u' \<and> ru_status u' = Up_applied)"
proof -
  obtain u where u: "rs_updates (rw_store (script clean_script sample_roadmap_start)) = [u]" "ru_status u = Up_applied"
    by (rule clean_update)
  have "u \<in> set (rs_updates (rw_store (script clean_script sample_roadmap_start)))" using u(1) by simp
  from roadmap_history_is_kept [OF mock_lawful sample_roadmap_starts script_run script_run this, of "[Reconcile 300]"]
  show ?thesis using u by (auto simp: final_status_def)
qed

definition lapsed_store :: roadmap_store where
  "lapsed_store = rw_store (script (take 7 late_write_script) sample_roadmap_start)"

theorem reconciliation_resolves_every_attempt_witness:
  "\<exists>n s' res. run_worker n sample_codec MockSheetsAdapter (at_time 200 ''3'')
       (reconcile_begin (rk_clock (at_time 200 ''3'')) ''host'' lapsed_store, sample_sheet) =
         ((s', Rc_done res), sample_sheet)
     \<and> map ru_status (rs_updates lapsed_store) = [Up_applying]
     \<and> map ru_status (rs_updates s') = [Up_proposed]"
proof -
  have host: "rs_host lapsed_store = Some ''host''" by code_simp
  have uniq: "unique_by ru_id (rs_updates lapsed_store)" by code_simp
  have rec: "list_all recoverable (rs_updates lapsed_store)" by code_simp
  have clk: "svc_now (rk_clock (at_time 200 ''3'')) \<le> sql_now (rk_clock (at_time 200 ''3''))" by code_simp
  have st: "map ru_status (rs_updates lapsed_store) = [Up_applying]" by code_simp
  have st': "map ru_status (map (reconciled (ad_wasApplied MockSheetsAdapter sample_sheet)
      (svc_now (rk_clock (at_time 200 ''3'')))) (rs_updates lapsed_store)) = [Up_proposed]" by code_simp
  show ?thesis
    using reconciliation_resolves_every_attempt [OF disjI2 [OF host] uniq rec clk, of sample_codec
        MockSheetsAdapter sample_sheet] st st' by metis
qed

definition done_update :: update_row where
  "done_update = \<lparr>ru_id = ''rupd_1'', ru_roadmapItemId = ''i1'', ru_proposedByRunId = None,
     ru_idempotencyKey = ''k'', ru_payloadHash = ''h'', ru_sourceRevision = Some ''rev-0'',
     ru_changes = [\<lparr>rc_stableId = ''R1'', rc_columns = [(''Status'', ''DONE'')]\<rparr>],
     ru_rationale = ''done'', ru_evidenceIds = [''e1''], ru_dryRunDiff = Some [], ru_dryRunAt = Some 1,
     ru_status = Up_proposed, ru_applyAttemptId = None, ru_applyStartedAt = None,
     ru_applyWorkerId = None, ru_applyLeaseExpiresAt = None, ru_appliedAt = None\<rparr>"

definition done_proposal :: update_proposal where
  "done_proposal = \<lparr>up_idempotencyKey = ''k'', up_changes = ru_changes done_update,
     up_rationale = ''done'', up_evidenceRefs = [''e1'']\<rparr>"

definition done_store :: roadmap_store where
  "done_store = \<lparr>rs_db = (rs_db sample_store)\<lparr>
       tasks := [\<lparr>t_id = ''t1'', t_projectId = ''p1'', t_roadmapItemId = Some ''i1'', t_suggestionId = None,
         t_title = ''t'', t_description = ''d'', t_status = St_completed, t_complexity = Cx_routine,
         t_version = 1, t_mutationClaimId = None, t_mutationWorkerId = None,
         t_completionCriteriaJson = None, t_completionCriteriaSnapshotJson = None,
         t_completionCriteriaLockedAt = None, t_paths = None, t_createdAt = 0, t_updatedAt = 0\<rparr>],
       evidences := [\<lparr>e_id = ''e1'', e_taskId = ''t1'', e_agentRunId = None, e_kind = Evk_other,
         e_ref = None, e_summary = ''s'', e_dataJson = None, e_createdAt = 0\<rparr>],
       decisionRequests := [\<lparr>d_id = ''d1'', d_projectId = None, d_taskId = None,
         d_category = ''roadmap_done'', d_question = ''q'', d_contextJson = None, d_status = Dec_approved,
         d_resolution = None, d_resolvedAt = Some 1, d_expiresAt = None, d_consumedByRunId = None,
         d_createdAt = 0, d_updatedAt = 0\<rparr>]\<rparr>,
     rs_updates = [done_update], rs_host = Some ''host''\<rparr>"

definition done_owner :: apply_owner where
  "done_owner = (owner_named ''w'')\<lparr>ao_doneDecisionId := Some ''d1''\<rparr>"


end
