(* ===== verification/State_Result.thy ===== *)
theory State_Result
  imports Major_Prelude
begin

text \<open>
  Operations of asynchronous code: a function from the world to the world it leaves behind and
  a result, which is an error when it throws. What was done before the error stays done.
\<close>

type_synonym ('w, 'e, 'a) operation = "'w \<Rightarrow> 'w \<times> ('e, 'a) result"

definition sbind :: "('w, 'e, 'a) operation \<Rightarrow> ('a \<Rightarrow> ('w, 'e, 'b) operation) \<Rightarrow> ('w, 'e, 'b) operation" where
  "sbind m f w = (case m w of (w', Inl x) \<Rightarrow> (w', Inl x) | (w', Inr a) \<Rightarrow> f a w')"

definition sreturn :: "'a \<Rightarrow> ('w, 'e, 'a) operation" where
  "sreturn a w = (w, Inr a)"

definition sthrow :: "'e \<Rightarrow> ('w, 'e, 'a) operation" where
  "sthrow x w = (w, Inl x)"

definition sread :: "('w \<Rightarrow> 'a) \<Rightarrow> ('w, 'e, 'a) operation" where
  "sread f w = (w, Inr (f w))"

definition smodify :: "('w \<Rightarrow> 'w) \<Rightarrow> ('w, 'e, unit) operation" where
  "smodify f w = (f w, Inr ())"

text \<open>\<^verbatim>\<open>try m catch (x) h\<close>.\<close>

definition scatch :: "('w, 'e, 'a) operation \<Rightarrow> ('e \<Rightarrow> ('w, 'e, 'a) operation) \<Rightarrow> ('w, 'e, 'a) operation" where
  "scatch m h w = (case m w of (w', Inl x) \<Rightarrow> h x w' | (w', Inr a) \<Rightarrow> (w', Inr a))"

section \<open>Results\<close>

lemma sbind_eq_Inr:
  "sbind m f w = (w'', Inr b) \<longleftrightarrow> (\<exists>w' a. m w = (w', Inr a) \<and> f a w' = (w'', Inr b))"
  by (auto simp: sbind_def split: prod.splits sum.splits)

lemma sbind_InrE:
  assumes "sbind m f w = (w'', Inr b)"
  obtains w' a where "m w = (w', Inr a)" "f a w' = (w'', Inr b)"
  using assms by (auto simp: sbind_eq_Inr)

lemma sreturn_eq [simp]: "sreturn a w = (w', r) \<longleftrightarrow> w' = w \<and> r = Inr a"
  by (auto simp: sreturn_def)

lemma sthrow_eq [simp]: "sthrow x w = (w', r) \<longleftrightarrow> w' = w \<and> r = Inl x"
  by (auto simp: sthrow_def)

lemma sread_eq [simp]: "sread f w = (w', r) \<longleftrightarrow> w' = w \<and> r = Inr (f w)"
  by (auto simp: sread_def)

section \<open>Relations every operation keeps\<close>

text \<open>\<open>keeps R m\<close>: whatever its result, \<open>m\<close> leaves a world related to the one it started in.\<close>

definition keeps :: "('w \<Rightarrow> 'w \<Rightarrow> bool) \<Rightarrow> ('w, 'e, 'a) operation \<Rightarrow> bool" where
  "keeps R m \<longleftrightarrow> (\<forall>w. R w (fst (m w)))"

lemma keepsD: "keeps R m \<Longrightarrow> m w = (w', r) \<Longrightarrow> R w w'"
  unfolding keeps_def by (metis fst_conv)

lemma keepsI: "(\<And>w w' r. m w = (w', r) \<Longrightarrow> R w w') \<Longrightarrow> keeps R m"
  unfolding keeps_def by (metis prod.collapse)

locale kept_relation =
  fixes R :: "'w \<Rightarrow> 'w \<Rightarrow> bool"
  assumes refl: "R w w" and trans: "R u v \<Longrightarrow> R v w \<Longrightarrow> R u w"
begin

lemma keeps_sreturn: "keeps R (sreturn a)"
  by (simp add: keeps_def sreturn_def refl)

lemma keeps_sthrow: "keeps R (sthrow x)"
  by (simp add: keeps_def sthrow_def refl)

lemma keeps_sread: "keeps R (sread f)"
  by (simp add: keeps_def sread_def refl)

lemma keeps_smodify: "(\<And>w. R w (f w)) \<Longrightarrow> keeps R (smodify f)"
  by (simp add: keeps_def smodify_def)

lemma keeps_sbind:
  assumes "keeps R m" and "\<And>a. keeps R (f a)"
  shows "keeps R (sbind m f)"
  unfolding keeps_def
proof
  fix w
  obtain w1 r where m: "m w = (w1, r)" by (rule prod.exhaust)
  have "R w w1" using keepsD [OF assms(1) m] .
  moreover have "R w1 (fst (f a w1))" for a using assms(2) by (simp add: keeps_def)
  ultimately show "R w (fst (sbind m f w))"
    using m trans by (cases r) (auto simp: sbind_def)
qed

lemma keeps_scatch:
  assumes "keeps R m" and "\<And>x. keeps R (h x)"
  shows "keeps R (scatch m h)"
  unfolding keeps_def
proof
  fix w
  obtain w1 r where m: "m w = (w1, r)" by (rule prod.exhaust)
  have "R w w1" using keepsD [OF assms(1) m] .
  moreover have "R w1 (fst (h x w1))" for x using assms(2) by (simp add: keeps_def)
  ultimately show "R w (fst (scatch m h w))"
    using m trans by (cases r) (auto simp: scatch_def)
qed

lemma keeps_if: "keeps R m \<Longrightarrow> keeps R n \<Longrightarrow> keeps R (if b then m else n)"
  by simp

lemmas keeps_intros = keeps_sreturn keeps_sthrow keeps_sread keeps_smodify keeps_sbind keeps_scatch

end

end
