(* ===== verification/Parallel.thy ===== *)
theory Parallel
  imports Service_System Accounts Repair State_Result "HOL-Library.Sublist"
begin

text \<open>
  Opt-in parallel dispatch (src/supervisor/parallel-dispatch.ts): the choice of a batch of
  queued tasks with disjoint paths, one worktree and worker per task, the serial merge queue
  that lands green branches, and the step from the merge queue into the completion gate.
  Git, the file system, the workers and the project's checks are the environment: functions
  of the state \<open>'g\<close> of the repository. At every \<^verbatim>\<open>await\<close> other parts of the program (the
  heartbeats included) may change the database: \<open>pe_meanwhile\<close>.
\<close>

section \<open>Paths\<close>

fun strip_dot_slash :: "string \<Rightarrow> string" where
  "strip_dot_slash (a # b # r) = (if a = CHR ''.'' \<and> b = CHR ''/'' then r else a # b # r)"
| "strip_dot_slash s = s"

definition normalized_glob :: "string \<Rightarrow> string" where
  "normalized_glob glob = strip_dot_slash (js_trim glob)"

text \<open>The class \<^verbatim>\<open>[*?[{]\<close>.\<close>

definition wildcard :: "char \<Rightarrow> bool" where
  "wildcard c = (c \<in> {CHR ''*'', CHR ''?'', CHR ''['', CHR 0x7B})"

definition staticPrefix :: "string \<Rightarrow> string" where
  "staticPrefix glob = takeWhile (\<lambda>c. \<not> wildcard c) (normalized_glob glob)"

definition pathsOverlap :: "string list \<Rightarrow> string list \<Rightarrow> bool" where
  "pathsOverlap a b =
     list_ex (\<lambda>left. list_ex (\<lambda>right.
       let p = staticPrefix left; q = staticPrefix right in prefix q p \<or> prefix p q) b) a"

fun path_text :: "json \<Rightarrow> string option" where
  "path_text (JStr s) = (if js_blank s then None else Some s)"
| "path_text _ = None"

definition parseTaskPaths :: "json_text option \<Rightarrow> string list option" where
  "parseTaskPaths t =
     (case t of
        Some (Json_doc (JArr js)) \<Rightarrow> if js = [] then None else those (map path_text js)
      | _ \<Rightarrow> None)"

text \<open>The column \<open>paths\<close> holds the text that task creation wrote, \<^verbatim>\<open>JSON.stringify\<close> of its list.\<close>

definition paths_column :: "task_row \<Rightarrow> json_text option" where
  "paths_column t = map_option (\<lambda>ps. Json_doc (JArr (map JStr ps))) (t_paths t)"

section \<open>The batch\<close>

record parallel_task =
  pt_id :: string
  pt_title :: string
  pt_description :: string
  pt_paths :: "string list"

fun pick_batch :: "int \<Rightarrow> parallel_task list \<Rightarrow> task_row list \<Rightarrow> parallel_task list outcome" where
  "pick_batch limit batch [] = Inr batch"
| "pick_batch limit batch (row # rows) =
     (if int (length batch) \<ge> limit then Inr batch
      else case parseTaskPaths (paths_column row) of
        None \<Rightarrow> pick_batch limit batch rows
      | Some paths \<Rightarrow>
          if list_ex (\<lambda>picked. pathsOverlap (pt_paths picked) paths) batch
          then pick_batch limit batch rows
          else rbind (parseCompletionCriteria (t_completionCriteriaSnapshotJson row)) (\<lambda>criteria.
            if \<not> Option.is_none (cc_progressiveValidation criteria) then pick_batch limit batch rows
            else pick_batch limit
                   (batch @ [\<lparr>pt_id = t_id row, pt_title = t_title row,
                              pt_description = t_description row, pt_paths = paths\<rparr>]) rows))"

definition queued_tasks :: "db \<Rightarrow> string \<Rightarrow> task_row list" where
  "queued_tasks d projectId =
     sort_key t_createdAt (filter (\<lambda>t. t_projectId t = projectId \<and> t_status t = St_queued) (tasks d))"

definition selectParallelBatch ::
  "(instant \<Rightarrow> string) \<Rightarrow> clock \<Rightarrow> string \<Rightarrow> int \<Rightarrow> db \<Rightarrow> (db \<times> parallel_task list) outcome" where
  "selectParallelBatch render ck projectId limit d =
     rbind (recoverExpiredClaims render ck None d) (\<lambda>(d', _).
       rbind (pick_batch limit [] (queued_tasks d' projectId)) (\<lambda>batch. Inr (d', batch)))"

section \<open>The environment and the world\<close>

record command_result =
  cr_ok :: bool
  cr_output :: string

record run_provenance =
  rv_providerId :: string
  rv_modelId :: string
  rv_modelRef :: string
  rv_billingMode :: billing_mode
  rv_routingReason :: string

text \<open>
  \<open>pe_run executable args cwd roots\<close> is a \<^verbatim>\<open>RunCommand\<close>; a worker answers with an outcome or
  throws a message. \<open>pe_stamp\<close> prints \<^verbatim>\<open>Date.now()\<close>, \<open>pe_clock\<close> and \<open>pe_uuid\<close> are the clocks
  and the fresh ids at the n-th step, \<open>pe_message\<close> is the message of an error of the services.
\<close>

record 'g parallel_env =
  pe_run :: "string \<Rightarrow> string list \<Rightarrow> string \<Rightarrow> string list \<Rightarrow> 'g \<Rightarrow> 'g \<times> command_result"
  pe_exists :: "string \<Rightarrow> 'g \<Rightarrow> bool"
  pe_mkdir :: "string \<Rightarrow> 'g \<Rightarrow> (string, 'g) result"
  pe_matchesGlob :: "string \<Rightarrow> string \<Rightarrow> bool"
  pe_taskWorker :: "parallel_task \<Rightarrow> string \<Rightarrow> 'g \<Rightarrow> 'g \<times> (string, worker_outcome) result"
  pe_integrator :: "string \<Rightarrow> string \<Rightarrow> 'g \<Rightarrow> 'g \<times> (string, worker_outcome) result"
  pe_meanwhile :: "nat \<Rightarrow> db \<Rightarrow> db"
  pe_clock :: "nat \<Rightarrow> clock"
  pe_uuid :: "nat \<Rightarrow> nat \<Rightarrow> string"
  pe_stamp :: "nat \<Rightarrow> string"
  pe_message :: "major_error \<Rightarrow> string"
  pe_report :: report_env
  pe_redact :: "string \<Rightarrow> string"
  pe_render :: "json \<Rightarrow> string"

record parallel_input =
  pn_repoPath :: string
  pn_projectId :: string
  pn_verificationCommands :: "string list"
  pn_provenance :: run_provenance
  pn_leaseMs :: int
  pn_root :: string
  pn_workerId :: string

datatype worktree_status = Wt_active | Wt_merged | Wt_removed

record worktree_row =
  wt_id :: string
  wt_projectId :: string
  wt_taskId :: "string option"
  wt_path :: string
  wt_branch :: string
  wt_status :: worktree_status

record 'g parallel_world =
  pw_db :: db
  pw_worktrees :: "worktree_row list"
  pw_repo :: 'g
  pw_tick :: nat

type_synonym ('g, 'a) parallel_op = "('g parallel_world, string, 'a) operation"

text \<open>One command through the gateway.\<close>

definition p_run ::
  "'g parallel_env \<Rightarrow> parallel_input \<Rightarrow> string \<Rightarrow> string list \<Rightarrow> string \<Rightarrow> ('g, command_result) parallel_op" where
  "p_run e inp executable args cwd w =
     (let (g, r) = pe_run e executable args cwd [pn_root inp] (pw_repo w) in
      (w\<lparr>pw_repo := g, pw_db := pe_meanwhile e (pw_tick w) (pw_db w), pw_tick := Suc (pw_tick w)\<rparr>, Inr r))"

definition p_git ::
  "'g parallel_env \<Rightarrow> parallel_input \<Rightarrow> string \<Rightarrow> string list \<Rightarrow> ('g, command_result) parallel_op" where
  "p_git e inp cwd args = p_run e inp ''git'' args cwd"

text \<open>A synchronous service call: its own clock and ids, its error thrown as a message.\<close>

definition p_service ::
  "'g parallel_env \<Rightarrow> (clock \<Rightarrow> (nat \<Rightarrow> string) \<Rightarrow> db \<Rightarrow> (db \<times> 'a) outcome) \<Rightarrow> ('g, 'a) parallel_op" where
  "p_service e f w =
     (case f (pe_clock e (pw_tick w)) (pe_uuid e (pw_tick w)) (pw_db w) of
        Inl x \<Rightarrow> (w\<lparr>pw_tick := Suc (pw_tick w)\<rparr>, Inl (pe_message e x))
      | Inr (d, a) \<Rightarrow> (w\<lparr>pw_db := d, pw_tick := Suc (pw_tick w)\<rparr>, Inr a))"

text \<open>A worker of a task or an integrator.\<close>

definition p_worker ::
  "'g parallel_env \<Rightarrow> ('g \<Rightarrow> 'g \<times> (string, worker_outcome) result) \<Rightarrow> ('g, worker_outcome) parallel_op" where
  "p_worker e f w =
     (let (g, r) = f (pw_repo w) in
      (w\<lparr>pw_repo := g, pw_db := pe_meanwhile e (pw_tick w) (pw_db w), pw_tick := Suc (pw_tick w)\<rparr>, r))"

section \<open>Worktrees\<close>

definition safe_label :: "string \<Rightarrow> string" where
  "safe_label label =
     (let safe = strip_dashes (dash_runs
            (\<lambda>c. alnum c \<or> js_lower_ascii c \<noteq> c \<or> c \<in> {CHR ''.'', CHR ''_'', CHR ''-''}) False label)
      in if safe = [] then ''task'' else safe)"

record tree =
  tr_id :: string
  tr_path :: string
  tr_branch :: string

definition createTaskWorktree ::
  "'g parallel_env \<Rightarrow> parallel_input \<Rightarrow> string \<Rightarrow> string option \<Rightarrow> ('g, string \<times> string) parallel_op" where
  "createTaskWorktree e inp label base w =
     (case pe_mkdir e (pn_root inp) (pw_repo w) of
        Inl x \<Rightarrow> (w, Inl x)
      | Inr g \<Rightarrow>
          (let stamp = pe_stamp e (pw_tick w) @ ''-'' @ safe_label label;
               path = pn_root inp @ ''/'' @ stamp;
               branch = ''major/'' @ stamp in
           sbind (p_git e inp (pn_repoPath inp)
                    ([''worktree'', ''add'', ''-b'', branch, path]
                     @ (case base of None \<Rightarrow> [] | Some b \<Rightarrow> if b = [] then [] else [b])))
             (\<lambda>git. if cr_ok git then sreturn (path, branch)
                    else sthrow (''worktree setup failed: ''
                      @ (if cr_output git = [] then ''unknown git error'' else cr_output git)))
             (w\<lparr>pw_repo := g\<rparr>)))"

definition p_head :: "'g parallel_env \<Rightarrow> parallel_input \<Rightarrow> ('g, string) parallel_op" where
  "p_head e inp =
     sbind (p_git e inp (pn_repoPath inp) [''rev-parse'', ''HEAD'']) (\<lambda>r.
       if cr_ok r then sreturn (js_trim (cr_output r))
       else sthrow (''cannot read integration head: '' @ cr_output r))"

definition setWorktreeStatus :: "string \<Rightarrow> worktree_status \<Rightarrow> ('g, unit) parallel_op" where
  "setWorktreeStatus i st =
     smodify (\<lambda>w. w\<lparr>pw_worktrees := update_where (\<lambda>t. wt_id t = i) (\<lambda>t. t\<lparr>wt_status := st\<rparr>) (pw_worktrees w)\<rparr>)"

definition insert_worktree ::
  "'g parallel_env \<Rightarrow> parallel_input \<Rightarrow> tree \<Rightarrow> string \<Rightarrow> ('g, unit) parallel_op" where
  "insert_worktree e inp t taskId w =
     (if has_key wt_id (tr_id t) (pw_worktrees w)
      then (w, Inl (pe_message e (Constraint_failed ''worktrees.id'')))
      else if \<not> has_key p_id (pn_projectId inp) (projects (pw_db w))
      then (w, Inl (pe_message e (Constraint_failed ''worktrees.project_id'')))
      else if \<not> has_key t_id taskId (tasks (pw_db w))
      then (w, Inl (pe_message e (Constraint_failed ''worktrees.task_id'')))
      else (w\<lparr>pw_worktrees := pw_worktrees w @
              [\<lparr>wt_id = tr_id t, wt_projectId = pn_projectId inp, wt_taskId = Some taskId,
                wt_path = tr_path t, wt_branch = tr_branch t, wt_status = Wt_active\<rparr>]\<rparr>, Inr ()))"

section \<open>Claims of a batch\<close>

record batch_fence =
  bf_claimId :: string
  bf_workerId :: string

definition fence_of :: "batch_fence \<Rightarrow> claim_fence" where
  "fence_of f = \<lparr>fn_claimId = bf_claimId f, fn_workerId = bf_workerId f, fn_now = None\<rparr>"

definition renew :: "'g parallel_env \<Rightarrow> parallel_input \<Rightarrow> batch_fence \<Rightarrow> ('g, claim_row) parallel_op" where
  "renew e inp f =
     p_service e (\<lambda>ck _. heartbeatClaim ck (bf_claimId f) (bf_workerId f) (Some (pn_leaseMs inp)) None)"

text \<open>\<open>park\<close> never throws; a transition that was made stays when the claim cannot be closed.\<close>

definition park ::
  "'g parallel_env \<Rightarrow> parallel_task \<Rightarrow> batch_fence \<Rightarrow> string \<Rightarrow> ('g, unit) parallel_op" where
  "park e task f reason =
     scatch
       (sbind (p_service e (\<lambda>ck _. transitionTask ck (pt_id task) St_needs_decision (Some (fence_of f)))) (\<lambda>_.
        sbind (p_service e (\<lambda>ck _. completeClaim ck (bf_claimId f) (bf_workerId f) (Some reason) None)) (\<lambda>_.
        sreturn ())))
       (\<lambda>_. sreturn ())"

definition requeue ::
  "'g parallel_env \<Rightarrow> batch_fence \<Rightarrow> string \<Rightarrow> ('g, claim_row \<times> task_row) parallel_op" where
  "requeue e f reason =
     p_service e (\<lambda>ck _. releaseClaim ck \<lparr>ro_claimId = bf_claimId f, ro_workerId = bf_workerId f,
       ro_requeue = True, ro_reason = reason, ro_now = None\<rparr>)"

section \<open>Landing\<close>

record landing_failure =
  lf_reason :: string
  lf_output :: string
  lf_head :: string

datatype landing = Landed "(string \<times> string) list" | Not_landed landing_failure

definition fail :: "string \<Rightarrow> string \<Rightarrow> string \<Rightarrow> ('g, landing) parallel_op" where
  "fail reason output target =
     sreturn (Not_landed \<lparr>lf_reason = reason, lf_output = output, lf_head = target\<rparr>)"

definition DIFF_LIMIT :: nat where "DIFF_LIMIT = 20000"

definition MAJOR_GIT_IDENTITY :: "string list" where
  "MAJOR_GIT_IDENTITY = [''-c'', ''user.name=Major'', ''-c'', ''user.email=major@localhost'']"

definition clip :: "string \<Rightarrow> string" where
  "clip text =
     (if length text > DIFF_LIMIT then take DIFF_LIMIT text @ [CHR 0x0A] @ ''[truncated]'' else text)"

definition absolute_under :: "string \<Rightarrow> string \<Rightarrow> string" where
  "absolute_under cwd path =
     (case path of [] \<Rightarrow> cwd | c # _ \<Rightarrow> if c = CHR ''/'' then path else cwd @ ''/'' @ path)"

fun rebase_in_progress ::
  "'g parallel_env \<Rightarrow> parallel_input \<Rightarrow> string \<Rightarrow> string list \<Rightarrow> ('g, bool) parallel_op" where
  "rebase_in_progress e inp cwd [] = sreturn False"
| "rebase_in_progress e inp cwd (name # names) =
     sbind (p_git e inp cwd [''rev-parse'', ''--git-path'', name]) (\<lambda>path.
     sbind (sread (\<lambda>w. pe_exists e (absolute_under cwd (cr_output path)) (pw_repo w))) (\<lambda>there.
       if cr_ok path \<and> there then sreturn True else rebase_in_progress e inp cwd names))"

definition rebaseInProgress :: "'g parallel_env \<Rightarrow> parallel_input \<Rightarrow> string \<Rightarrow> ('g, bool) parallel_op" where
  "rebaseInProgress e inp cwd = rebase_in_progress e inp cwd [''rebase-merge'', ''rebase-apply'']"

fun split_lf :: "string \<Rightarrow> string list" where
  "split_lf [] = [[]]"
| "split_lf (c # cs) =
     (if c = CHR 0x0A then [] # split_lf cs
      else (case split_lf cs of l # ls \<Rightarrow> (c # l) # ls | [] \<Rightarrow> [[c]]))"

fun join_with :: "string \<Rightarrow> string list \<Rightarrow> string" where
  "join_with sep [] = []"
| "join_with sep [s] = s"
| "join_with sep (s # ss) = s @ sep @ join_with sep ss"

definition declared :: "'g parallel_env \<Rightarrow> string list \<Rightarrow> string \<Rightarrow> bool" where
  "declared e paths file = list_ex (\<lambda>glob. pe_matchesGlob e file (normalized_glob glob)) paths"

definition changed_files :: "string \<Rightarrow> string list" where
  "changed_files output = filter (\<lambda>l. l \<noteq> []) (split_lf output)"

text \<open>\<^verbatim>\<open>command.trim().split(/\s+/)\<close>.\<close>

function split_blank :: "string \<Rightarrow> string list" where
  "split_blank s =
     (case dropWhile (\<lambda>c. \<not> js_space c) s of
        [] \<Rightarrow> [takeWhile (\<lambda>c. \<not> js_space c) s]
      | c # cs \<Rightarrow> takeWhile (\<lambda>c. \<not> js_space c) s # split_blank (dropWhile js_space cs))"
  by pat_completeness auto
termination
proof (relation "measure length")
  fix s :: string and c cs
  assume "dropWhile (\<lambda>c. \<not> js_space c) s = c # cs"
  then have "length cs < length s"
    using length_dropWhile_le [of "\<lambda>c. \<not> js_space c" s] by simp
  then show "(dropWhile js_space cs, s) \<in> measure length"
    using length_dropWhile_le [of js_space cs] by simp
qed simp

declare split_blank.simps [simp del]

fun run_checks ::
  "'g parallel_env \<Rightarrow> parallel_input \<Rightarrow> string \<Rightarrow> string \<Rightarrow> string list \<Rightarrow> (string \<times> string) list
     \<Rightarrow> ('g, landing) parallel_op" where
  "run_checks e inp path target [] checks = sreturn (Landed checks)"
| "run_checks e inp path target (command # commands) checks =
     (let argv = split_blank (js_trim command) in
      sbind (p_run e inp (hd argv) (tl argv) path) (\<lambda>check.
        if \<not> cr_ok check then fail (''verification failed: '' @ command) (cr_output check) target
        else run_checks e inp path target commands (checks @ [(command, cr_output check)])))"

definition commit_leftovers ::
  "'g parallel_env \<Rightarrow> parallel_input \<Rightarrow> parallel_task \<Rightarrow> tree \<Rightarrow> ('g, command_result) parallel_op" where
  "commit_leftovers e inp task t =
     sbind (p_git e inp (tr_path t) [''add'', ''-A'']) (\<lambda>_.
       p_git e inp (tr_path t) (MAJOR_GIT_IDENTITY @
         [''commit'', ''-m'', ''major: '' @ pt_title task @ '' ('' @ pt_id task @ '')'']))"

text \<open>The rebased branch: its files are declared, its checks pass, the claim lives, it fast-forwards.\<close>

definition land_rebased ::
  "'g parallel_env \<Rightarrow> parallel_input \<Rightarrow> parallel_task \<Rightarrow> tree \<Rightarrow> batch_fence \<Rightarrow> string
     \<Rightarrow> ('g, landing) parallel_op" where
  "land_rebased e inp task t f target =
     sbind (p_git e inp (tr_path t) [''diff'', ''--name-only'', target @ ''..HEAD'']) (\<lambda>changed.
       let undeclared = filter (\<lambda>file. \<not> declared e (pt_paths task) file) (changed_files (cr_output changed)) in
       if \<not> cr_ok changed \<or> undeclared \<noteq> []
       then fail (''changes outside declared paths ('' @ join_with '', '' (pt_paths task) @ '')'')
              (if cr_ok changed then join_with [CHR 0x0A] undeclared else cr_output changed) target
       else
         sbind (run_checks e inp (tr_path t) target (pn_verificationCommands inp) []) (\<lambda>checked.
           case checked of
             Not_landed x \<Rightarrow> sreturn (Not_landed x)
           | Landed checks \<Rightarrow>
               sbind (renew e inp f) (\<lambda>_.
               sbind (p_git e inp (pn_repoPath inp) [''merge'', ''--ff-only'', tr_branch t]) (\<lambda>ff.
                 if cr_ok ff then sreturn (Landed checks)
                 else fail ''fast-forward refused'' (cr_output ff) target))))"

definition rebase_and_land ::
  "'g parallel_env \<Rightarrow> parallel_input \<Rightarrow> parallel_task \<Rightarrow> tree \<Rightarrow> batch_fence \<Rightarrow> ('g, landing) parallel_op" where
  "rebase_and_land e inp task t f =
     sbind (p_head e inp) (\<lambda>target.
     sbind (p_git e inp (tr_path t) (MAJOR_GIT_IDENTITY @ [''rebase'', target])) (\<lambda>rebase.
       if \<not> cr_ok rebase
       then sbind (p_git e inp (tr_path t) [''rebase'', ''--abort'']) (\<lambda>_.
              fail ''rebase conflict'' (cr_output rebase) target)
       else land_rebased e inp task t f target))"

definition tryLand ::
  "'g parallel_env \<Rightarrow> parallel_input \<Rightarrow> parallel_task \<Rightarrow> tree \<Rightarrow> batch_fence \<Rightarrow> ('g, landing) parallel_op" where
  "tryLand e inp task t f =
     sbind (rebaseInProgress e inp (tr_path t)) (\<lambda>pending.
       if pending then fail ''a rebase is left in progress'' [] []
       else
         sbind (p_git e inp (tr_path t) [''symbolic-ref'', ''--short'', ''-q'', ''HEAD'']) (\<lambda>current.
           if cr_output current \<noteq> tr_branch t
           then fail (''worktree is not on its task branch '' @ tr_branch t) (cr_output current) []
           else
             sbind (p_git e inp (tr_path t) [''status'', ''--porcelain'']) (\<lambda>dirty.
               if cr_ok dirty \<and> cr_output dirty \<noteq> []
               then sbind (commit_leftovers e inp task t) (\<lambda>commit.
                      if \<not> cr_ok commit then fail ''commit failed'' (cr_output commit) []
                      else rebase_and_land e inp task t f)
               else rebase_and_land e inp task t f)))"

definition integratorPrompt ::
  "'g parallel_env \<Rightarrow> parallel_input \<Rightarrow> parallel_task \<Rightarrow> tree \<Rightarrow> string \<Rightarrow> landing_failure
     \<Rightarrow> ('g, string) parallel_op" where
  "integratorPrompt e inp task t base failure =
     sbind (if lf_head failure = [] then p_head e inp else sreturn (lf_head failure)) (\<lambda>target.
     sbind (p_git e inp (tr_path t) [''diff'', base @ ''..'' @ tr_branch t]) (\<lambda>taskDiff.
     sbind (p_git e inp (tr_path t) [''diff'', base @ ''..'' @ target]) (\<lambda>headDiff.
       sreturn (join_with [CHR 0x0A, CHR 0x0A]
         [''MAJOR MERGE-QUEUE INTEGRATOR (single attempt).'',
          ''Task '' @ pt_id task @ '': '' @ pt_title task,
          ''Branch '' @ tr_branch t @ '' in this worktree could not land on integration head '' @ target @ ''.'',
          ''Reason: '' @ lf_reason failure,
          ''Task diff ('' @ base @ ''..'' @ tr_branch t @ ''):'' @ [CHR 0x0A] @ clip (cr_output taskDiff),
          ''Integration changes since the task branched ('' @ base @ ''..'' @ target @ ''):''
            @ [CHR 0x0A] @ clip (cr_output headDiff),
          ''Failing output:'' @ [CHR 0x0A] @ clip (lf_output failure),
          ''Rebase branch '' @ tr_branch t @ '' onto '' @ target
            @ '', resolve conflicts keeping the intent of both sides, ''
            @ ''change only files matching '' @ join_with '', '' (pt_paths task) @ '', ''
            @ ''make these checks pass: '' @ join_with ''; '' (pn_verificationCommands inp) @ '', ''
            @ ''and commit the result on '' @ tr_branch t @ '' with no rebase left in progress. ''
            @ ''Do not push, do not force anything, and stay inside this worktree.'']))))"

section \<open>What a landing records\<close>

definition implementation_run ::
  "parallel_input \<Rightarrow> parallel_task \<Rightarrow> tree \<Rightarrow> batch_fence \<Rightarrow> string \<Rightarrow> new_run" where
  "implementation_run inp task t f landedHead =
     (let p = pn_provenance inp in
      \<lparr>nr_taskId = pt_id task, nr_providerId = rv_providerId p, nr_claimId = Some (bf_claimId f),
       nr_claimWorkerId = Some (bf_workerId f), nr_modelId = Some (rv_modelId p),
       nr_modelRef = rv_modelRef p, nr_purpose = Pur_implementation, nr_billingMode = rv_billingMode p,
       nr_routingReason = rv_routingReason p, nr_paidUsageDecisionId = None, nr_independenceLoss = None,
       nr_sourceHead = Some landedHead, nr_allowanceState = None, nr_worktreeId = Some (tr_id t),
       nr_now = None\<rparr>)"

definition status_in_tx ::
  "(json \<Rightarrow> string) \<Rightarrow> clock \<Rightarrow> string \<times> string \<Rightarrow> string \<Rightarrow> run_status \<Rightarrow> string option \<Rightarrow> json option
     \<Rightarrow> db \<Rightarrow> db outcome" where
  "status_in_tx render ck uuids runId st sessionRef usage d =
     (case setRunStatus render ck uuids runId st sessionRef usage d of
        (_, Inl x) \<Rightarrow> Inl x | (d', Inr _) \<Rightarrow> Inr d')"

definition record_check ::
  "(string \<Rightarrow> string) \<Rightarrow> clock \<Rightarrow> string \<Rightarrow> string \<Rightarrow> string \<Rightarrow> string \<Rightarrow> string \<Rightarrow> string \<times> string
     \<Rightarrow> db \<Rightarrow> db outcome" where
  "record_check redact ck uuid1 uuid2 taskId runId landedHead check d =
     (let (command, output) = check in
      rbind (recordVerificationRun redact ck uuid1
               \<lparr>nv_taskId = taskId, nv_command = command, nv_status = Ver_passed, nv_exitCode = Some 0,
                nv_outputSummary = Some (clip output), nv_validationSubject = None,
                nv_agentRunId = Some runId, nv_startedAt = None, nv_endedAt = None\<rparr> d) (\<lambda>(d1, v).
      rbind (addEvidence ck uuid2
               \<lparr>ne_taskId = taskId, ne_kind = Evk_verification_run,
                ne_summary = ''merge queue verification passed at '' @ landedHead @ '': '' @ command,
                ne_ref = Some (v_id v), ne_dataJson = None, ne_agentRunId = Some runId\<rparr> d1)
        (\<lambda>(d2, _). Inr d2)))"

fun record_checks ::
  "(string \<Rightarrow> string) \<Rightarrow> clock \<Rightarrow> (nat \<Rightarrow> string) \<Rightarrow> nat \<Rightarrow> string \<Rightarrow> string \<Rightarrow> string
     \<Rightarrow> (string \<times> string) list \<Rightarrow> db \<Rightarrow> db outcome" where
  "record_checks redact ck uuid n taskId runId landedHead [] d = Inr d"
| "record_checks redact ck uuid n taskId runId landedHead (c # cs) d =
     rbind (record_check redact ck (uuid n) (uuid (Suc n)) taskId runId landedHead c d)
       (record_checks redact ck uuid (n + 2) taskId runId landedHead cs)"

text \<open>The transaction of a landing: all of it or nothing.\<close>

definition record_landing ::
  "'g parallel_env \<Rightarrow> parallel_input \<Rightarrow> parallel_task \<Rightarrow> tree \<Rightarrow> batch_fence \<Rightarrow> string \<Rightarrow> string
     \<Rightarrow> json option \<Rightarrow> (string \<times> string) list \<Rightarrow> clock \<Rightarrow> (nat \<Rightarrow> string) \<Rightarrow> db \<Rightarrow> (db \<times> unit) outcome" where
  "record_landing e inp task t f landedHead sessionRef usage checks ck uuid d =
     rbind (createRun ck (uuid 0) (implementation_run inp task t f landedHead) d) (\<lambda>(d1, run).
     rbind (status_in_tx (pe_render e) ck ([], []) (r_id run) Run_running None None d1) (\<lambda>d2.
     rbind (status_in_tx (pe_render e) ck (uuid 1, uuid 2) (r_id run) Run_succeeded (Some sessionRef) usage d2) (\<lambda>d3.
     rbind (record_checks (pe_redact e) ck uuid 3 (pt_id task) (r_id run) landedHead checks d3) (\<lambda>d4.
     rbind (applyTransition ck (pt_id task) St_verifying (Some (fence_of f)) d4) (\<lambda>(d5, _).
       Inr (d5, ()))))))"

section \<open>Landing one task\<close>

datatype parallel_outcome = Po_merged | Po_requeued | Po_blocked | Po_skipped

record parallel_result =
  pr_taskId :: string
  pr_outcome :: parallel_outcome
  pr_detail :: string
  pr_integratorRuns :: nat

definition result_of :: "parallel_task \<Rightarrow> parallel_outcome \<Rightarrow> string \<Rightarrow> nat \<Rightarrow> parallel_result" where
  "result_of task out detail runs =
     \<lparr>pr_taskId = pt_id task, pr_outcome = out, pr_detail = detail, pr_integratorRuns = runs\<rparr>"

fun status_text :: "worker_status \<Rightarrow> string" where
  "status_text Wk_succeeded = ''succeeded''"
| "status_text Wk_failed = ''failed''"
| "status_text Wk_timed_out = ''timed_out''"

definition session_of :: "worker_outcome \<Rightarrow> string" where
  "session_of outcome = (case wo_sessionRef outcome of None \<Rightarrow> [] | Some s \<Rightarrow> js_trim s)"

text \<open>A worker that did not succeed: its claim goes back to the queue, its scratch tree away.\<close>

definition discard_attempt ::
  "'g parallel_env \<Rightarrow> parallel_input \<Rightarrow> parallel_task \<Rightarrow> tree \<Rightarrow> batch_fence \<Rightarrow> worker_status
     \<Rightarrow> ('g, parallel_result) parallel_op" where
  "discard_attempt e inp task t f st =
     (let refused = ''worker '' @ status_text st in
      sbind (requeue e f refused) (\<lambda>_.
      sbind (p_git e inp (pn_repoPath inp) [''worktree'', ''remove'', ''--force'', tr_path t]) (\<lambda>removed.
      sbind (if cr_ok removed
             then sbind (p_git e inp (pn_repoPath inp) [''branch'', ''-D'', tr_branch t]) (\<lambda>_.
                    setWorktreeStatus (tr_id t) Wt_removed)
             else sreturn ()) (\<lambda>_.
        sreturn (result_of task Po_requeued refused 0)))))"

text \<open>At most one integrator, then at most one more landing.\<close>

definition integrate ::
  "'g parallel_env \<Rightarrow> parallel_input \<Rightarrow> parallel_task \<Rightarrow> tree \<Rightarrow> string \<Rightarrow> batch_fence
     \<Rightarrow> landing_failure \<Rightarrow> ('g, landing) parallel_op" where
  "integrate e inp task t base f failure =
     sbind (integratorPrompt e inp task t base failure) (\<lambda>prompt.
     sbind (p_worker e (pe_integrator e prompt (tr_path t))) (\<lambda>integrator.
     sbind (renew e inp f) (\<lambda>_.
       if wo_status integrator = Wk_succeeded then tryLand e inp task t f
       else sreturn (Not_landed (failure\<lparr>lf_reason := lf_reason failure @ ''; integrator ''
              @ status_text (wo_status integrator)\<rparr>)))))"

definition landing_result ::
  "'g parallel_env \<Rightarrow> parallel_input \<Rightarrow> parallel_task \<Rightarrow> tree \<Rightarrow> string \<Rightarrow> batch_fence
     \<Rightarrow> ('g, landing \<times> nat) parallel_op" where
  "landing_result e inp task t base f =
     sbind (tryLand e inp task t f) (\<lambda>first.
       case first of
         Landed checks \<Rightarrow> sreturn (Landed checks, 0)
       | Not_landed failure \<Rightarrow> sbind (integrate e inp task t base f failure) (\<lambda>second. sreturn (second, 1)))"

text \<open>After the fast-forward.\<close>

definition landed ::
  "'g parallel_env \<Rightarrow> parallel_input \<Rightarrow> parallel_task \<Rightarrow> tree \<Rightarrow> batch_fence \<Rightarrow> worker_outcome
     \<Rightarrow> (string \<times> string) list \<Rightarrow> nat \<Rightarrow> ('g, parallel_result) parallel_op" where
  "landed e inp task t f outcome checks integratorRuns =
     sbind (p_head e inp) (\<lambda>landedHead.
     sbind (renew e inp f) (\<lambda>_.
     sbind (p_service e (record_landing e inp task t f landedHead (session_of outcome)
              (wo_usage outcome) checks)) (\<lambda>_.
     sbind (p_service e (\<lambda>ck _. completeClaim ck (bf_claimId f) (bf_workerId f) (Some ''merged'') None)) (\<lambda>_.
     sbind (setWorktreeStatus (tr_id t) Wt_merged) (\<lambda>_.
     sbind (p_git e inp (pn_repoPath inp) [''worktree'', ''remove'', tr_path t]) (\<lambda>removed.
     sbind (if cr_ok removed then p_git e inp (pn_repoPath inp) [''branch'', ''-d'', tr_branch t]
            else sreturn removed) (\<lambda>_.
       sreturn (result_of task Po_merged
         (if integratorRuns \<noteq> 0 then ''merged after integrator'' else ''merged'') integratorRuns))))))))"

definition land_checked ::
  "'g parallel_env \<Rightarrow> parallel_input \<Rightarrow> parallel_task \<Rightarrow> tree \<Rightarrow> string \<Rightarrow> batch_fence \<Rightarrow> worker_outcome
     \<Rightarrow> ('g, parallel_result) parallel_op" where
  "land_checked e inp task t base f outcome =
     sbind (landing_result e inp task t base f) (\<lambda>(l, integratorRuns).
       case l of
         Landed checks \<Rightarrow> landed e inp task t f outcome checks integratorRuns
       | Not_landed x \<Rightarrow>
           sbind (park e task f (''merge blocked: '' @ lf_reason x)) (\<lambda>_.
             sreturn (result_of task Po_blocked
               (lf_reason x @ ''; branch '' @ tr_branch t @ '' kept at '' @ tr_path t) integratorRuns)))"

definition land ::
  "'g parallel_env \<Rightarrow> parallel_input \<Rightarrow> parallel_task \<Rightarrow> tree \<Rightarrow> string \<Rightarrow> batch_fence \<Rightarrow> worker_outcome
     \<Rightarrow> ('g, parallel_result) parallel_op" where
  "land e inp task t base f outcome =
     sbind (renew e inp f) (\<lambda>_.
       if wo_status outcome = Wk_succeeded \<and> session_of outcome = []
       then sbind (park e task f ''worker returned no durable session identity'') (\<lambda>_.
              sreturn (result_of task Po_blocked
                (''worker returned no durable session identity; branch '' @ tr_branch t @ '' kept'') 0))
       else if wo_status outcome \<noteq> Wk_succeeded
       then discard_attempt e inp task t f (wo_status outcome)
       else
         (case parseWorkerReport (pe_report e) (wo_stdout outcome) of
            None \<Rightarrow> land_checked e inp task t base f outcome
          | Some r \<Rightarrow>
              if wr_status r = Plain Rep_blocked
              then sbind (park e task f (''worker blocked: '' @ wr_summary r)) (\<lambda>_.
                     sreturn (result_of task Po_blocked (''worker blocked: ''
                       @ or_else (wr_ownerGate r) (wr_summary r) @ ''; branch '' @ tr_branch t @ '' kept'') 0))
              else land_checked e inp task t base f outcome))"

section \<open>The batch\<close>

text \<open>Where the task stands: each phase ends at an \<^verbatim>\<open>await\<close> of the per-task function.\<close>

datatype task_phase =
    Ph_start parallel_task
  | Ph_claimed parallel_task batch_fence
  | Ph_working parallel_task batch_fence tree string
  | Ph_queued parallel_task batch_fence tree string worker_outcome
  | Ph_done parallel_task parallel_result

text \<open>The outer \<^verbatim>\<open>catch\<close>: the task is parked and reported as blocked.\<close>

definition dispatch_error ::
  "'g parallel_env \<Rightarrow> parallel_task \<Rightarrow> batch_fence \<Rightarrow> tree option \<Rightarrow> string \<Rightarrow> ('g, task_phase) parallel_op" where
  "dispatch_error e task f t x =
     sbind (park e task f (''parallel dispatch error: '' @ x)) (\<lambda>_.
       sreturn (Ph_done task (result_of task Po_blocked
         (''error: '' @ x @ (case t of None \<Rightarrow> [] | Some t \<Rightarrow> ''; branch '' @ tr_branch t @ '' kept'')) 0)))"

definition claim_options_of :: "parallel_input \<Rightarrow> parallel_task \<Rightarrow> claim_options" where
  "claim_options_of inp task =
     \<lparr>co_workerId = pn_workerId inp, co_leaseMs = Some (pn_leaseMs inp),
      co_projectId = Some (pn_projectId inp), co_taskId = Some (pt_id task), co_now = None\<rparr>"

definition start_phase ::
  "'g parallel_env \<Rightarrow> parallel_input \<Rightarrow> parallel_task \<Rightarrow> ('g, task_phase) parallel_op" where
  "start_phase e inp task =
     scatch
       (sbind (p_service e (\<lambda>ck uuid. claimNextTask ck (uuid 0) (claim_options_of inp task))) (\<lambda>claimed.
         case claimed of
           None \<Rightarrow> sreturn (Ph_done task (result_of task Po_skipped ''no longer queued'' 0))
         | Some (c, _) \<Rightarrow> sreturn (Ph_claimed task \<lparr>bf_claimId = c_id c, bf_workerId = pn_workerId inp\<rparr>)))
       (\<lambda>x. sreturn (Ph_done task (result_of task Po_skipped x 0)))"

text \<open>Either a tree, or the message of the setup that failed.\<close>

definition setup_tree ::
  "'g parallel_env \<Rightarrow> parallel_input \<Rightarrow> parallel_task \<Rightarrow> ('g, (string, string \<times> tree) result) parallel_op" where
  "setup_tree e inp task =
     scatch
       (sbind (p_head e inp) (\<lambda>base.
        sbind (sread (\<lambda>w. newId ''wtree'' (pe_uuid e (pw_tick w) 0))) (\<lambda>i.
        sbind (createTaskWorktree e inp (pt_id task) (Some base)) (\<lambda>(path, branch).
          sreturn (Inr (base, \<lparr>tr_id = i, tr_path = path, tr_branch = branch\<rparr>))))))
       (\<lambda>x. sreturn (Inl x))"

definition setup_phase ::
  "'g parallel_env \<Rightarrow> parallel_input \<Rightarrow> parallel_task \<Rightarrow> batch_fence \<Rightarrow> ('g, task_phase) parallel_op" where
  "setup_phase e inp task f =
     sbind (setup_tree e inp task) (\<lambda>made.
       case made of
         Inl x \<Rightarrow>
           scatch (sbind (requeue e f ''worktree setup failed'') (\<lambda>_.
                     sreturn (Ph_done task (result_of task Po_requeued x 0))))
                  (dispatch_error e task f None)
       | Inr (base, t) \<Rightarrow>
           scatch (sbind (insert_worktree e inp t (pt_id task)) (\<lambda>_. sreturn (Ph_working task f t base)))
                  (dispatch_error e task f (Some t)))"

definition work_phase ::
  "'g parallel_env \<Rightarrow> parallel_task \<Rightarrow> batch_fence \<Rightarrow> tree \<Rightarrow> string \<Rightarrow> ('g, task_phase) parallel_op" where
  "work_phase e task f t base =
     scatch (sbind (p_worker e (pe_taskWorker e task (tr_path t))) (\<lambda>outcome.
               sreturn (Ph_queued task f t base outcome)))
            (dispatch_error e task f (Some t))"

definition land_phase ::
  "'g parallel_env \<Rightarrow> parallel_input \<Rightarrow> parallel_task \<Rightarrow> batch_fence \<Rightarrow> tree \<Rightarrow> string \<Rightarrow> worker_outcome
     \<Rightarrow> ('g, task_phase) parallel_op" where
  "land_phase e inp task f t base outcome =
     scatch (sbind (land e inp task t base f outcome) (\<lambda>r. sreturn (Ph_done task r)))
            (dispatch_error e task f (Some t))"

fun phase_op :: "'g parallel_env \<Rightarrow> parallel_input \<Rightarrow> task_phase \<Rightarrow> ('g, task_phase) parallel_op" where
  "phase_op e inp (Ph_start task) = start_phase e inp task"
| "phase_op e inp (Ph_claimed task f) = setup_phase e inp task f"
| "phase_op e inp (Ph_working task f t base) = work_phase e task f t base"
| "phase_op e inp (Ph_queued task f t base outcome) = land_phase e inp task f t base outcome"
| "phase_op e inp (Ph_done task r) = sreturn (Ph_done task r)"

record 'g batch_state =
  bs_world :: "'g parallel_world"
  bs_phases :: "task_phase list"
  bs_queue :: "nat list"

definition batch_start :: "'g parallel_world \<Rightarrow> parallel_task list \<Rightarrow> 'g batch_state" where
  "batch_start w ts = \<lparr>bs_world = w, bs_phases = map Ph_start ts, bs_queue = []\<rparr>"

fun waits_to_land :: "task_phase \<Rightarrow> bool" where
  "waits_to_land (Ph_queued task f t base outcome) = True"
| "waits_to_land _ = False"

definition may_advance :: "'g batch_state \<Rightarrow> nat \<Rightarrow> bool" where
  "may_advance s i =
     (i < length (bs_phases s)
      \<and> (waits_to_land (bs_phases s ! i) \<longrightarrow> (case bs_queue s of [] \<Rightarrow> False | j # _ \<Rightarrow> j = i)))"

text \<open>A landing is the head of the merge queue; a worker that returns joins its end.\<close>

definition advance_task :: "'g parallel_env \<Rightarrow> parallel_input \<Rightarrow> nat \<Rightarrow> 'g batch_state \<Rightarrow> 'g batch_state" where
  "advance_task e inp i s =
     (case phase_op e inp (bs_phases s ! i) (bs_world s) of
        (w, Inr ph) \<Rightarrow>
          \<lparr>bs_world = w, bs_phases = (bs_phases s)[i := ph],
           bs_queue = (let q = (if waits_to_land (bs_phases s ! i) then tl (bs_queue s) else bs_queue s)
                       in if waits_to_land ph then q @ [i] else q)\<rparr>
      | (w, Inl _) \<Rightarrow> s\<lparr>bs_world := w\<rparr>)"

inductive batch_step ::
  "'g parallel_env \<Rightarrow> parallel_input \<Rightarrow> 'g batch_state \<Rightarrow> 'g batch_state \<Rightarrow> bool"
  for e inp where
  task_advances: "may_advance s i \<Longrightarrow> batch_step e inp s (advance_task e inp i s)"
| services_run: "service_step (pw_db (bs_world s)) d \<Longrightarrow>
    batch_step e inp s (s\<lparr>bs_world := (bs_world s)\<lparr>pw_db := d\<rparr>\<rparr>)"

section \<open>From the merge queue into the completion gate\<close>

definition in_gate :: "db \<Rightarrow> string \<Rightarrow> task_row list" where
  "in_gate d projectId =
     filter (\<lambda>t. t_projectId t = projectId \<and> t_status t \<in> {St_reviewing, St_ready_to_merge}) (tasks d)"

definition landed_tasks :: "db \<Rightarrow> string \<Rightarrow> task_row list" where
  "landed_tasks d projectId =
     sort_key t_createdAt (filter (\<lambda>t. t_projectId t = projectId \<and> t_status t = St_verifying) (tasks d))"

definition promoteNextLandedTask :: "clock \<Rightarrow> string \<Rightarrow> db \<Rightarrow> (db \<times> string option) outcome" where
  "promoteNextLandedTask ck projectId d =
     (if in_gate d projectId \<noteq> [] then Inr (d, None)
      else case landed_tasks d projectId of
        [] \<Rightarrow> Inr (d, None)
      | t # _ \<Rightarrow>
          rbind (parseCompletionCriteria (t_completionCriteriaSnapshotJson t)) (\<lambda>criteria.
            if \<not> proof_ok (evaluateCompletionProof False d (t_id t) criteria)
            then rbind (applyTransition ck (t_id t) St_needs_decision None d) (\<lambda>(d', _). Inr (d', None))
            else
              rbind (applyTransition ck (t_id t) St_reviewing None d) (\<lambda>(d1, _).
              rbind (applyTransition ck (t_id t) St_ready_to_merge None d1) (\<lambda>(d2, _).
                Inr (d2, Some (t_id t))))))"

section \<open>Whether the parallel path may run at all\<close>

definition parallelRefusal ::
  "'g parallel_env \<Rightarrow> parallel_input \<Rightarrow> ('g, string option) parallel_op" where
  "parallelRefusal e inp =
     (if pn_verificationCommands inp = []
      then sreturn (Some ''parallel workers need project verificationCommands to gate each landing'')
      else sbind (p_git e inp (pn_repoPath inp) [''symbolic-ref'', ''-q'', ''HEAD'']) (\<lambda>branch.
        sreturn (if cr_ok branch then None
          else Some ''parallel workers need the goal checkout on a branch, not a detached HEAD'')))"

end
