(* ===== verification/Parallel_Safety.thy ===== *)
theory Parallel_Safety
  imports Parallel
begin

text \<open>
  What parallel dispatch guarantees: a batch is disjoint and maximal; every interleaving of
  its tasks is a run of the services; a branch lands only through the gate of the merge
  queue and never by force; every task gets a result; one task is in the completion gate.
\<close>

section \<open>The batch\<close>

definition disjoint_tasks :: "parallel_task \<Rightarrow> parallel_task \<Rightarrow> bool" where
  "disjoint_tasks p q \<longleftrightarrow> \<not> pathsOverlap (pt_paths p) (pt_paths q)"

definition batchable :: "task_row \<Rightarrow> string list \<Rightarrow> bool" where
  "batchable t ps \<longleftrightarrow> parseTaskPaths (paths_column t) = Some ps
     \<and> (\<exists>c. parseCompletionCriteria (t_completionCriteriaSnapshotJson t) = Inr c
          \<and> cc_progressiveValidation c = None)"

lemma pick_batch_length:
  "pick_batch limit batch rows = Inr out \<Longrightarrow> int (length batch) \<le> max limit 0 \<Longrightarrow>
     int (length out) \<le> max limit 0"
  by (induction limit batch rows rule: pick_batch.induct)
    (auto simp: rbind_eq_Inr Let_def split: if_splits option.splits)

lemma pick_batch_disjoint:
  "pick_batch limit batch rows = Inr out \<Longrightarrow> sorted_wrt disjoint_tasks batch \<Longrightarrow>
     sorted_wrt disjoint_tasks out"
  by (induction limit batch rows rule: pick_batch.induct)
    (auto simp: rbind_eq_Inr sorted_wrt_append disjoint_tasks_def list_ex_iff split: if_splits option.splits)

text \<open>The batch grows by a subsequence of the rows, each of them eligible.\<close>

lemma pick_batch_rows:
  "pick_batch limit batch rows = Inr out \<Longrightarrow>
     \<exists>more. out = batch @ more \<and> subseq (map pt_id more) (map t_id rows)
       \<and> (\<forall>b \<in> set more. \<exists>t \<in> set rows. t_id t = pt_id b \<and> batchable t (pt_paths b))"
proof (induction limit batch rows rule: pick_batch.induct)
  case (1 limit batch)
  then show ?case by simp
next
  case (2 limit batch row rows)
  have skip: ?case if "pick_batch limit batch rows = Inr out \<Longrightarrow> \<exists>more. out = batch @ more
      \<and> subseq (map pt_id more) (map t_id rows)
      \<and> (\<forall>b \<in> set more. \<exists>t \<in> set rows. t_id t = pt_id b \<and> batchable t (pt_paths b))"
    "pick_batch limit batch rows = Inr out"
    using that by (force intro: list_emb_Cons)
  show ?case
  proof (cases "int (length batch) \<ge> limit")
    case True
    then show ?thesis using "2.prems" by (intro exI [of _ "[]"]) simp
  next
    case room: False
    show ?thesis
    proof (cases "parseTaskPaths (paths_column row)")
      case None
      then show ?thesis using "2.IH"(1) [OF room None] "2.prems" room skip by simp
    next
      case (Some ps)
      show ?thesis
      proof (cases "list_ex (\<lambda>p. pathsOverlap (pt_paths p) ps) batch")
        case True
        then show ?thesis using "2.IH"(2) [OF room Some True] "2.prems" room Some skip by simp
      next
        case False
        let ?t = "\<lparr>pt_id = t_id row, pt_title = t_title row, pt_description = t_description row, pt_paths = ps\<rparr>"
        obtain c where c: "parseCompletionCriteria (t_completionCriteriaSnapshotJson row) = Inr c"
          and r: "(if \<not> Option.is_none (cc_progressiveValidation c) then pick_batch limit batch rows
             else pick_batch limit (batch @ [?t]) rows) = Inr out"
          using "2.prems" room Some False by (auto simp: rbind_eq_Inr)
        show ?thesis
        proof (cases "Option.is_none (cc_progressiveValidation c)")
          case prog: False
          then show ?thesis using "2.IH"(3) [OF room Some False prog] r skip by simp
        next
          case True
          then obtain more where m: "out = (batch @ [?t]) @ more" "subseq (map pt_id more) (map t_id rows)"
            "\<forall>b \<in> set more. \<exists>t \<in> set rows. t_id t = pt_id b \<and> batchable t (pt_paths b)"
            using "2.IH"(4) [OF room Some False, of c] True r by auto
          have "batchable row ps" using Some c True by (auto simp: batchable_def Option.is_none_def split: option.splits)
          then show ?thesis using m by (intro exI [of _ "?t # more"]) auto
        qed
      qed
    qed
  qed
qed

text \<open>Nothing eligible is left out without a reason.\<close>

lemma pick_batch_grows: "pick_batch limit batch rows = Inr out \<Longrightarrow> set batch \<subseteq> set out"
  using pick_batch_rows [of limit batch rows out] by auto

lemma pick_batch_maximal:
  "pick_batch limit batch rows = Inr out \<Longrightarrow> t \<in> set rows \<Longrightarrow> batchable t ps \<Longrightarrow>
     limit \<le> int (length out)
     \<or> (\<exists>b \<in> set out. pt_id b = t_id t \<or> pathsOverlap (pt_paths b) ps)"
proof (induction limit batch rows rule: pick_batch.induct)
  case (1 limit batch)
  then show ?case by simp
next
  case (2 limit batch row rows)
  let ?goal = "limit \<le> int (length out) \<or> (\<exists>b \<in> set out. pt_id b = t_id t \<or> pathsOverlap (pt_paths b) ps)"
  show ?case
  proof (cases "int (length batch) \<ge> limit")
    case True
    then show ?thesis using "2.prems"(1) by auto
  next
    case room: False
    show ?thesis
    proof (cases "parseTaskPaths (paths_column row)")
      case None
      then have "t \<noteq> row" using "2.prems"(3) by (auto simp: batchable_def)
      then show ?thesis using "2.IH"(1) [OF room None] "2.prems" room None by auto
    next
      case (Some qs)
      show ?thesis
      proof (cases "list_ex (\<lambda>p. pathsOverlap (pt_paths p) qs) batch")
        case True
        have rest: "pick_batch limit batch rows = Inr out" using "2.prems"(1) room Some True by simp
        show ?thesis
        proof (cases "t = row")
          case t: True
          then have "qs = ps" using Some "2.prems"(3) by (simp add: batchable_def)
          then show ?thesis using True pick_batch_grows [OF rest] by (auto simp: list_ex_iff)
        next
          case False
          then show ?thesis using "2.IH"(2) [OF room Some True rest] "2.prems" by simp
        qed
      next
        case False
        let ?t = "\<lparr>pt_id = t_id row, pt_title = t_title row, pt_description = t_description row, pt_paths = qs\<rparr>"
        obtain c where c: "parseCompletionCriteria (t_completionCriteriaSnapshotJson row) = Inr c"
          and r: "(if \<not> Option.is_none (cc_progressiveValidation c) then pick_batch limit batch rows
             else pick_batch limit (batch @ [?t]) rows) = Inr out"
          using "2.prems"(1) room Some False by (auto simp: rbind_eq_Inr)
        show ?thesis
        proof (cases "Option.is_none (cc_progressiveValidation c)")
          case prog: False
          then have "t \<noteq> row" using "2.prems"(3) c by (auto simp: batchable_def)
          then show ?thesis using "2.IH"(3) [OF room Some False prog] "2.prems" r prog by simp
        next
          case True
          have rest: "pick_batch limit (batch @ [?t]) rows = Inr out" using r True by simp
          show ?thesis
          proof (cases "t = row")
            case t: True
            then show ?thesis using pick_batch_grows [OF rest] by force
          next
            case other: False
            then show ?thesis using "2.IH"(4) [OF room Some False, of c] True rest "2.prems" by simp
          qed
        qed
      qed
    qed
  qed
qed

section \<open>Disjoint paths\<close>

text \<open>
  What is relied on of \<^verbatim>\<open>matchesGlob\<close>: a file matches a glob only when it starts with what
  stands before the first wildcard. The documentation of the globs promises it for patterns
  without the extended forms \<^verbatim>\<open>@(...)\<close>, \<^verbatim>\<open>+(...)\<close>, \<^verbatim>\<open>!(...)\<close>.
\<close>

definition literal_prefixes :: "'g parallel_env \<Rightarrow> bool" where
  "literal_prefixes e \<longleftrightarrow> (\<forall>file glob. pe_matchesGlob e file glob \<longrightarrow>
     prefix (takeWhile (\<lambda>c. \<not> wildcard c) glob) file)"

lemma declared_overlap:
  assumes "literal_prefixes e" and "declared e a file" and "declared e b file"
  shows "pathsOverlap a b"
proof -
  obtain g h where g: "g \<in> set a" "pe_matchesGlob e file (normalized_glob g)"
    and h: "h \<in> set b" "pe_matchesGlob e file (normalized_glob h)"
    using assms(2,3) by (auto simp: declared_def list_ex_iff)
  then have "prefix (staticPrefix g) file" "prefix (staticPrefix h) file"
    using assms(1) by (simp_all add: literal_prefixes_def staticPrefix_def)
  then have "prefix (staticPrefix h) (staticPrefix g) \<or> prefix (staticPrefix g) (staticPrefix h)"
    using prefix_same_cases by blast
  then show ?thesis using g(1) h(1) by (auto simp: pathsOverlap_def list_ex_iff Let_def)
qed

lemma pathsOverlap_commute: "pathsOverlap a b = pathsOverlap b a"
  by (auto simp: pathsOverlap_def list_ex_iff Let_def)

section \<open>The database: a run of the services\<close>

definition services_between :: "'g parallel_world \<Rightarrow> 'g parallel_world \<Rightarrow> bool" where
  "services_between w w' \<longleftrightarrow> service_step\<^sup>*\<^sup>* (pw_db w) (pw_db w')"

interpretation svc: kept_relation services_between
  by unfold_locales (auto simp: services_between_def)

definition polite :: "'g parallel_env \<Rightarrow> bool" where
  "polite e \<longleftrightarrow> (\<forall>n d. service_step\<^sup>*\<^sup>* d (pe_meanwhile e n d))"

lemma services_refl [simp]: "pw_db w' = pw_db w \<Longrightarrow> services_between w w'"
  by (simp add: services_between_def)

lemma run_keeps: "polite e \<Longrightarrow> keeps services_between (p_run e inp x args cwd)"
  by (auto simp: keeps_def p_run_def services_between_def polite_def split: prod.splits)

lemma git_keeps: "polite e \<Longrightarrow> keeps services_between (p_git e inp cwd args)"
  by (simp add: p_git_def run_keeps)

lemma worker_keeps: "polite e \<Longrightarrow> keeps services_between (p_worker e f)"
  by (auto simp: keeps_def p_worker_def services_between_def polite_def split: prod.splits)

lemma service_keeps:
  assumes "\<And>ck uuid d d' a. f ck uuid d = Inr (d', a) \<Longrightarrow> service_step\<^sup>*\<^sup>* d d'"
  shows "keeps services_between (p_service e f)"
  using assms by (auto simp: keeps_def p_service_def services_between_def split: sum.splits)

lemma set_status_keeps: "keeps services_between (setWorktreeStatus i st)"
  unfolding setWorktreeStatus_def by (rule svc.keeps_smodify) simp

lemma insert_worktree_keeps: "keeps services_between (insert_worktree e inp t i)"
  by (simp add: keeps_def insert_worktree_def)

lemma renew_keeps: "keeps services_between (renew e inp f)"
  unfolding renew_def by (rule service_keeps) (blast intro: step_heartbeat)

lemma park_keeps: "keeps services_between (park e task f why)"
  unfolding park_def
  by (intro svc.keeps_intros service_keeps) (blast intro: step_transition step_completeClaim)+

lemma requeue_keeps: "keeps services_between (requeue e f why)"
  unfolding requeue_def by (rule service_keeps) (auto intro: step_releaseClaim)

lemma status_in_tx_path: "status_in_tx render ck uuids i st ref usage d = Inr d' \<Longrightarrow> service_step d d'"
  unfolding status_in_tx_def
  by (auto split: prod.splits sum.splits intro: step_setRunStatus)

lemma record_check_path:
  "record_check redact ck u1 u2 i r h c d = Inr d' \<Longrightarrow> service_step\<^sup>*\<^sup>* d d'"
  by (auto simp: record_check_def rbind_eq_Inr split: prod.splits
      dest!: step_recordVerification step_addEvidence)

lemma record_checks_path:
  "record_checks redact ck uuid n i r h cs d = Inr d' \<Longrightarrow> service_step\<^sup>*\<^sup>* d d'"
proof (induction cs arbitrary: n d)
  case (Cons c cs)
  then obtain d1 where "record_check redact ck (uuid n) (uuid (Suc n)) i r h c d = Inr d1"
    "record_checks redact ck uuid (n + 2) i r h cs d1 = Inr d'" by (auto simp: rbind_eq_Inr)
  then show ?case using record_check_path Cons.IH by (meson rtranclp_trans)
qed simp

lemma record_landing_path:
  assumes "record_landing e inp task t f h ref usage checks ck uuid d = Inr (d', x)"
  shows "service_step\<^sup>*\<^sup>* d d'"
proof -
  obtain d1 run d2 d3 d4 t' where
    "createRun ck (uuid 0) (implementation_run inp task t f h) d = Inr (d1, run)"
    "status_in_tx (pe_render e) ck ([], []) (r_id run) Run_running None None d1 = Inr d2"
    "status_in_tx (pe_render e) ck (uuid 1, uuid 2) (r_id run) Run_succeeded (Some ref) usage d2 = Inr d3"
    "record_checks (pe_redact e) ck uuid 3 (pt_id task) (r_id run) h checks d3 = Inr d4"
    "applyTransition ck (pt_id task) St_verifying (Some (fence_of f)) d4 = Inr (d', t')"
    using assms by (auto simp: record_landing_def rbind_eq_Inr)
  then have "service_step d d1" "service_step d1 d2" "service_step d2 d3" "service_step\<^sup>*\<^sup>* d3 d4"
    "service_step d4 d'"
    by (auto intro: step_createRun status_in_tx_path record_checks_path
        step_transition simp: transitionTask_def)
  then show ?thesis by (meson rtranclp.rtrancl_into_rtrancl rtranclp_trans r_into_rtranclp)
qed

lemmas op_keeps = run_keeps git_keeps worker_keeps set_status_keeps insert_worktree_keeps renew_keeps
  park_keeps requeue_keeps

lemma head_keeps: "polite e \<Longrightarrow> keeps services_between (p_head e inp)"
  unfolding p_head_def by (intro svc.keeps_intros op_keeps) (auto intro: svc.keeps_intros)

lemma fail_keeps: "keeps services_between (fail a b c)"
  unfolding fail_def by (rule svc.keeps_sreturn)

lemma create_tree_keeps:
  assumes "polite e" shows "keeps services_between (createTaskWorktree e inp label base)"
proof (rule keepsI)
  fix w w' r
  assume c: "createTaskWorktree e inp label base w = (w', r)"
  show "services_between w w'"
  proof (cases "pe_mkdir e (pn_root inp) (pw_repo w)")
    case (Inl x)
    then show ?thesis using c by (simp add: createTaskWorktree_def)
  next
    case (Inr g)
    let ?m = "\<lambda>path branch args. sbind (p_git e inp (pn_repoPath inp) args)
       (\<lambda>git. if cr_ok git then sreturn (path, branch)
          else sthrow (''worktree setup failed: ''
            @ (if cr_output git = [] then ''unknown git error'' else cr_output git)))"
    obtain path branch args where m: "?m path branch args (w\<lparr>pw_repo := g\<rparr>) = (w', r)"
      using c Inr by (auto simp: createTaskWorktree_def Let_def)
    have "keeps services_between (?m path branch args)"
      by (intro svc.keeps_intros op_keeps assms) (auto intro: svc.keeps_intros)
    from keepsD [OF this m] show ?thesis by (simp add: services_between_def)
  qed
qed

lemma rebase_pending_keeps: "polite e \<Longrightarrow> keeps services_between (rebase_in_progress e inp cwd names)"
  by (induction names) (auto intro!: svc.keeps_intros op_keeps)

lemma run_checks_keeps: "polite e \<Longrightarrow> keeps services_between (run_checks e inp path target cs done)"
  by (induction cs arbitrary: "done") (auto simp: Let_def intro!: svc.keeps_intros op_keeps fail_keeps)

lemma land_rebased_keeps: "polite e \<Longrightarrow> keeps services_between (land_rebased e inp task t f target)"
  unfolding land_rebased_def Let_def
  by (intro svc.keeps_sbind op_keeps svc.keeps_if fail_keeps)
    (auto split: landing.split intro!: svc.keeps_intros op_keeps fail_keeps run_checks_keeps)

lemma rebase_and_land_keeps: "polite e \<Longrightarrow> keeps services_between (rebase_and_land e inp task t f)"
  unfolding rebase_and_land_def
  by (intro svc.keeps_sbind op_keeps svc.keeps_if fail_keeps head_keeps land_rebased_keeps)

lemma commit_keeps: "polite e \<Longrightarrow> keeps services_between (commit_leftovers e inp task t)"
  unfolding commit_leftovers_def by (intro svc.keeps_sbind op_keeps)

lemma tryLand_keeps: "polite e \<Longrightarrow> keeps services_between (tryLand e inp task t f)"
  unfolding tryLand_def rebaseInProgress_def
  by (intro svc.keeps_sbind op_keeps svc.keeps_if fail_keeps rebase_and_land_keeps commit_keeps
      rebase_pending_keeps)

lemma prompt_keeps: "polite e \<Longrightarrow> keeps services_between (integratorPrompt e inp task t base x)"
  unfolding integratorPrompt_def
  by (intro svc.keeps_sbind op_keeps svc.keeps_if svc.keeps_sreturn head_keeps)

lemma integrate_keeps: "polite e \<Longrightarrow> keeps services_between (integrate e inp task t base f x)"
  unfolding integrate_def
  by (intro svc.keeps_sbind op_keeps svc.keeps_if svc.keeps_sreturn prompt_keeps tryLand_keeps)

lemma landing_result_keeps: "polite e \<Longrightarrow> keeps services_between (landing_result e inp task t base f)"
  unfolding landing_result_def
  by (intro svc.keeps_sbind tryLand_keeps)
    (auto split: landing.split intro!: svc.keeps_sbind svc.keeps_sreturn integrate_keeps)

lemma landed_keeps: "polite e \<Longrightarrow> keeps services_between (landed e inp task t f outcome checks n)"
  unfolding landed_def
  by (intro svc.keeps_sbind op_keeps svc.keeps_if svc.keeps_sreturn head_keeps service_keeps)
    (auto dest: record_landing_path step_completeClaim)

lemma discard_keeps: "polite e \<Longrightarrow> keeps services_between (discard_attempt e inp task t f st)"
  unfolding discard_attempt_def Let_def
  by (intro svc.keeps_sbind op_keeps svc.keeps_if svc.keeps_sreturn)

lemma land_checked_keeps: "polite e \<Longrightarrow> keeps services_between (land_checked e inp task t base f outcome)"
  unfolding land_checked_def
  by (intro svc.keeps_sbind landing_result_keeps)
    (auto split: landing.split intro!: svc.keeps_sbind svc.keeps_sreturn op_keeps landed_keeps)

lemma land_keeps: "polite e \<Longrightarrow> keeps services_between (land e inp task t base f outcome)"
  unfolding land_def
  by (intro svc.keeps_sbind op_keeps svc.keeps_if svc.keeps_sreturn discard_keeps)
    (auto split: option.split intro!: svc.keeps_sbind svc.keeps_sreturn op_keeps land_checked_keeps)

lemma error_keeps: "keeps services_between (dispatch_error e task f t x)"
  unfolding dispatch_error_def by (intro svc.keeps_sbind op_keeps svc.keeps_sreturn)

lemma start_keeps: "keeps services_between (start_phase e inp task)"
  unfolding start_phase_def
  by (intro svc.keeps_scatch svc.keeps_sbind service_keeps svc.keeps_sreturn)
    (auto split: option.split intro!: svc.keeps_sreturn intro: step_claimNext)

lemma setup_tree_keeps: "polite e \<Longrightarrow> keeps services_between (setup_tree e inp task)"
  unfolding setup_tree_def
  by (intro svc.keeps_scatch svc.keeps_sbind head_keeps svc.keeps_sread svc.keeps_sreturn create_tree_keeps)
    (auto intro: svc.keeps_sreturn)

lemma setup_keeps: "polite e \<Longrightarrow> keeps services_between (setup_phase e inp task f)"
  unfolding setup_phase_def
  by (intro svc.keeps_sbind setup_tree_keeps)
    (auto split: sum.split intro!: svc.keeps_scatch svc.keeps_sbind op_keeps svc.keeps_sreturn error_keeps)

lemma phase_keeps: "polite e \<Longrightarrow> keeps services_between (phase_op e inp ph)"
  by (cases ph)
    (auto simp: work_phase_def land_phase_def intro!: svc.keeps_scatch svc.keeps_sbind svc.keeps_sreturn
      op_keeps start_keeps setup_keeps land_keeps error_keeps)

lemma batch_step_services:
  assumes "polite e" and "batch_step e inp s s'"
  shows "service_step\<^sup>*\<^sup>* (pw_db (bs_world s)) (pw_db (bs_world s'))"
  using assms(2)
proof cases
  case (task_advances i)
  obtain w r where p: "phase_op e inp (bs_phases s ! i) (bs_world s) = (w, r)" by (rule prod.exhaust)
  have "services_between (bs_world s) w" using keepsD [OF phase_keeps [OF assms(1)] p] .
  then show ?thesis
    using task_advances p by (cases r) (simp_all add: advance_task_def services_between_def)
next
  case (services_run d)
  then show ?thesis by auto
qed

lemma batch_run_services:
  "(batch_step e inp)\<^sup>*\<^sup>* s s' \<Longrightarrow> polite e \<Longrightarrow> service_step\<^sup>*\<^sup>* (pw_db (bs_world s)) (pw_db (bs_world s'))"
proof (induction rule: rtranclp_induct)
  case (step t u)
  then show ?case using batch_step_services [of e inp t u] by (meson rtranclp_trans)
qed simp

lemma reachable_db_run: "service_step\<^sup>*\<^sup>* d d' \<Longrightarrow> reachable_db d \<Longrightarrow> reachable_db d'"
  by (induction rule: rtranclp_induct) (auto intro: reachable_db_step)

lemma promote_services:
  "promoteNextLandedTask ck p d = Inr (d', r) \<Longrightarrow> service_step\<^sup>*\<^sup>* d d'"
  unfolding promoteNextLandedTask_def
  by (auto simp: rbind_eq_Inr transitionTask_def [symmetric] split: if_splits list.splits
      intro: step_transition rtranclp.rtrancl_into_rtrancl)

section \<open>The gate of a landing\<close>

text \<open>Something the world did: the command was run in some state of the repository and answered so.\<close>

definition answered ::
  "'g parallel_env \<Rightarrow> parallel_input \<Rightarrow> string \<Rightarrow> string list \<Rightarrow> string \<Rightarrow> command_result \<Rightarrow> bool" where
  "answered e inp x args cwd r \<longleftrightarrow> (\<exists>g. snd (pe_run e x args cwd [pn_root inp] g) = r)"

lemma p_run_answered: "p_run e inp x args cwd w = (w', Inr r) \<Longrightarrow> answered e inp x args cwd r"
  by (auto simp: p_run_def answered_def Let_def split: prod.splits intro: exI [of _ "pw_repo w"])

lemma p_git_answered: "p_git e inp cwd args w = (w', Inr r) \<Longrightarrow> answered e inp ''git'' args cwd r"
  by (simp add: p_git_def p_run_answered)

definition check_passed :: "'g parallel_env \<Rightarrow> parallel_input \<Rightarrow> string \<Rightarrow> string \<times> string \<Rightarrow> bool" where
  "check_passed e inp path c \<longleftrightarrow>
     (let argv = split_blank (js_trim (fst c)) in
      answered e inp (hd argv) (tl argv) path \<lparr>cr_ok = True, cr_output = snd c\<rparr>)"

lemma run_checks_passed:
  "run_checks e inp path target cs done w = (w', Inr (Landed checks)) \<Longrightarrow>
     \<exists>more. checks = done @ more \<and> map fst more = cs \<and> list_all (check_passed e inp path) more"
proof (induction cs arbitrary: "done" w)
  case Nil
  then show ?case by simp
next
  case (Cons c cs)
  obtain w1 r where r: "p_run e inp (hd (split_blank (js_trim c))) (tl (split_blank (js_trim c))) path w = (w1, Inr r)"
    and k: "(if \<not> cr_ok r then fail (''verification failed: '' @ c) (cr_output r) target
        else run_checks e inp path target cs (done @ [(c, cr_output r)])) w1 = (w', Inr (Landed checks))"
    using Cons.prems by (auto simp: Let_def sbind_eq_Inr)
  have ok: "cr_ok r" using k by (auto simp: fail_def split: if_splits)
  then obtain more where m: "checks = (done @ [(c, cr_output r)]) @ more" "map fst more = cs"
    "list_all (check_passed e inp path) more"
    using Cons.IH [of "done @ [(c, cr_output r)]" w1] k by auto
  have "r = \<lparr>cr_ok = True, cr_output = cr_output r\<rparr>" using ok by (cases r) simp
  then have "check_passed e inp path (c, cr_output r)"
    using p_run_answered [OF r] by (simp add: check_passed_def Let_def)
  then show ?case using m by (intro exI [of _ "(c, cr_output r) # more"]) simp
qed

text \<open>What a landing went through.\<close>

definition gated ::
  "'g parallel_env \<Rightarrow> parallel_input \<Rightarrow> parallel_task \<Rightarrow> tree \<Rightarrow> (string \<times> string) list \<Rightarrow> bool" where
  "gated e inp task t checks \<longleftrightarrow>
     map fst checks = pn_verificationCommands inp \<and> list_all (check_passed e inp (tr_path t)) checks
     \<and> (\<exists>target changed. answered e inp ''git'' [''diff'', ''--name-only'', target @ ''..HEAD''] (tr_path t) changed
          \<and> cr_ok changed \<and> list_all (declared e (pt_paths task)) (changed_files (cr_output changed)))
     \<and> (\<exists>target rebase. answered e inp ''git'' (MAJOR_GIT_IDENTITY @ [''rebase'', target]) (tr_path t) rebase
          \<and> cr_ok rebase)
     \<and> (\<exists>ff. answered e inp ''git'' [''merge'', ''--ff-only'', tr_branch t] (pn_repoPath inp) ff \<and> cr_ok ff)"

lemma land_rebased_gated:
  assumes "land_rebased e inp task t f target w = (w', Inr (Landed checks))"
  shows "map fst checks = pn_verificationCommands inp \<and> list_all (check_passed e inp (tr_path t)) checks
    \<and> (\<exists>changed. answered e inp ''git'' [''diff'', ''--name-only'', target @ ''..HEAD''] (tr_path t) changed
          \<and> cr_ok changed \<and> list_all (declared e (pt_paths task)) (changed_files (cr_output changed)))
    \<and> (\<exists>ff. answered e inp ''git'' [''merge'', ''--ff-only'', tr_branch t] (pn_repoPath inp) ff \<and> cr_ok ff)"
proof -
  let ?bad = "\<lambda>r. filter (\<lambda>file. \<not> declared e (pt_paths task) file) (changed_files (cr_output r))"
  obtain w1 changed where ch: "p_git e inp (tr_path t) [''diff'', ''--name-only'', target @ ''..HEAD''] w = (w1, Inr changed)"
    and rest: "(if \<not> cr_ok changed \<or> ?bad changed \<noteq> []
       then fail (''changes outside declared paths ('' @ join_with '', '' (pt_paths task) @ '')'')
              (if cr_ok changed then join_with [CHR 0x0A] (?bad changed) else cr_output changed) target
       else sbind (run_checks e inp (tr_path t) target (pn_verificationCommands inp) []) (\<lambda>checked.
           case checked of
             Not_landed x \<Rightarrow> sreturn (Not_landed x)
           | Landed checks \<Rightarrow>
               sbind (renew e inp f) (\<lambda>_.
               sbind (p_git e inp (pn_repoPath inp) [''merge'', ''--ff-only'', tr_branch t]) (\<lambda>ff.
                 if cr_ok ff then sreturn (Landed checks)
                 else fail ''fast-forward refused'' (cr_output ff) target)))) w1 = (w', Inr (Landed checks))"
    using assms by (auto simp: land_rebased_def Let_def elim: sbind_InrE)
  have ok: "cr_ok changed" "?bad changed = []" using rest by (auto simp: fail_def split: if_splits)
  then obtain w2 l where run: "run_checks e inp (tr_path t) target (pn_verificationCommands inp) [] w1 = (w2, Inr l)"
    and after: "(case l of Not_landed x \<Rightarrow> sreturn (Not_landed x)
           | Landed checks \<Rightarrow>
               sbind (renew e inp f) (\<lambda>_.
               sbind (p_git e inp (pn_repoPath inp) [''merge'', ''--ff-only'', tr_branch t]) (\<lambda>ff.
                 if cr_ok ff then sreturn (Landed checks)
                 else fail ''fast-forward refused'' (cr_output ff) target))) w2 = (w', Inr (Landed checks))"
    using rest by (auto elim: sbind_InrE)
  obtain cks where l: "l = Landed cks" using after by (cases l) auto
  have same: "cks = checks" and ff: "\<exists>ff. answered e inp ''git'' [''merge'', ''--ff-only'', tr_branch t] (pn_repoPath inp) ff \<and> cr_ok ff"
    using after
    by (auto simp: l fail_def split: if_splits elim!: sbind_InrE dest: p_git_answered)
  have "list_all (declared e (pt_paths task)) (changed_files (cr_output changed))"
    using ok(2) by (simp add: filter_empty_conv list_all_iff)
  then show ?thesis
    using run_checks_passed [OF run [unfolded l]] same ff p_git_answered [OF ch] ok(1) by auto
qed

lemma tryLand_gated:
  assumes "tryLand e inp task t f w = (w', Inr (Landed checks))"
  shows "gated e inp task t checks"
proof -
  obtain w1 where "rebase_and_land e inp task t f w1 = (w', Inr (Landed checks))"
    using assms by (auto simp: tryLand_def fail_def split: if_splits elim!: sbind_InrE)
  then obtain target w2 rebase w3 where
    rb: "p_git e inp (tr_path t) (MAJOR_GIT_IDENTITY @ [''rebase'', target]) w2 = (w3, Inr rebase)" "cr_ok rebase"
    and l: "land_rebased e inp task t f target w3 = (w', Inr (Landed checks))"
    by (auto simp: rebase_and_land_def fail_def split: if_splits elim!: sbind_InrE)
  show ?thesis
    using land_rebased_gated [OF l] p_git_answered [OF rb(1)] rb(2) unfolding gated_def by blast
qed

lemma landing_result_gated:
  assumes "landing_result e inp task t base f w = (w', Inr (Landed checks, n))"
  shows "gated e inp task t checks \<and> n \<le> 1"
proof -
  obtain w1 l where l: "tryLand e inp task t f w = (w1, Inr l)"
    and r: "(case l of Landed checks \<Rightarrow> sreturn (Landed checks, 0)
       | Not_landed failure \<Rightarrow> sbind (integrate e inp task t base f failure) (\<lambda>second. sreturn (second, 1))) w1
       = (w', Inr (Landed checks, n))"
    using assms by (auto simp: landing_result_def elim: sbind_InrE)
  show ?thesis
  proof (cases l)
    case (Landed cks)
    then show ?thesis using tryLand_gated l r by auto
  next
    case (Not_landed x)
    then obtain w2 where "integrate e inp task t base f x w1 = (w2, Inr (Landed checks))" "n = 1"
      using r by (auto elim!: sbind_InrE)
    then show ?thesis
      using tryLand_gated by (auto simp: integrate_def split: if_splits elim!: sbind_InrE)
  qed
qed

section \<open>The completion gate\<close>

lemma moved_tasks:
  assumes "unique_by t_id (tasks d)" and "applyTransition ck i to None d = Inr (d', t')"
  shows "u \<in> set (tasks d') \<longleftrightarrow> u = t' \<or> (u \<in> set (tasks d) \<and> t_id u \<noteq> i)"
    and "t_id t' = i" and "t_status t' = to" and "unique_by t_id (tasks d')"
    and "t \<in> set (tasks d) \<Longrightarrow> t_id t = i \<Longrightarrow> t_projectId t' = t_projectId t"
proof -
  note ap = applyTransition_wf [OF assms]
  show i: "t_id t' = i" using get_task_key [OF ap(2)] .
  show "t_status t' = to" "unique_by t_id (tasks d')" by (rule ap(3), rule ap(1))
  show "u \<in> set (tasks d') \<longleftrightarrow> u = t' \<or> (u \<in> set (tasks d) \<and> t_id u \<noteq> i)"
  proof (cases "t_id u = i")
    case True
    then show ?thesis using ap(2) by (auto simp: get_task_iff [OF ap(1)])
  next
    case False
    then have "u \<noteq> t'" using i by auto
    then show ?thesis
      using False ap(4) [OF False] get_task_iff [OF ap(1), of u] get_task_iff [OF assms(1), of u] by simp
  qed
  assume t: "t \<in> set (tasks d)" "t_id t = i"
  obtain t0 where "get_task d i = Some t0" "t' = (transition_patch ck to None t0 t0)\<lparr>t_updatedAt := svc_now ck\<rparr>"
    using ap(6) by blast
  moreover have "get_task d i = Some t" using t get_task_iff [OF assms(1)] by auto
  ultimately show "t_projectId t' = t_projectId t" by (simp add: transition_patch_def Let_def)
qed

lemma oldest_landed:
  assumes "landed_tasks d p = t # ts"
  shows "t \<in> set (tasks d)" and "t_projectId t = p" and "t_status t = St_verifying"
    and "u \<in> set (tasks d) \<Longrightarrow> t_projectId u = p \<Longrightarrow> t_status u = St_verifying \<Longrightarrow> t_createdAt t \<le> t_createdAt u"
proof -
  let ?xs = "filter (\<lambda>t. t_projectId t = p \<and> t_status t = St_verifying) (tasks d)"
  have set: "set (t # ts) = set ?xs" using assms set_sort [of t_createdAt ?xs] by (simp only: landed_tasks_def)
  then have "t \<in> set ?xs" by (metis list.set_intros(1))
  then show "t \<in> set (tasks d)" "t_projectId t = p" "t_status t = St_verifying" by auto
  have "sorted (map t_createdAt (t # ts))"
    using assms sorted_sort_key [of t_createdAt ?xs] by (simp only: landed_tasks_def)
  moreover assume "u \<in> set (tasks d)" "t_projectId u = p" "t_status u = St_verifying"
  then have "u \<in> set (t # ts)" unfolding set by simp
  ultimately show "t_createdAt t \<le> t_createdAt u" by auto
qed

section \<open>Progress\<close>

fun phase_rank :: "task_phase \<Rightarrow> nat" where
  "phase_rank (Ph_start _) = 4"
| "phase_rank (Ph_claimed _ _) = 3"
| "phase_rank (Ph_working _ _ _ _) = 2"
| "phase_rank (Ph_queued _ _ _ _ _) = 1"
| "phase_rank (Ph_done _ _) = 0"

fun phase_task :: "task_phase \<Rightarrow> parallel_task" where
  "phase_task (Ph_start t) = t"
| "phase_task (Ph_claimed t _) = t"
| "phase_task (Ph_working t _ _ _) = t"
| "phase_task (Ph_queued t _ _ _ _) = t"
| "phase_task (Ph_done t _) = t"

text \<open>A result that was returned names its task and used at most one integrator.\<close>

fun phase_ok :: "task_phase \<Rightarrow> bool" where
  "phase_ok (Ph_done t r) = (pr_taskId r = pt_id t \<and> pr_integratorRuns r \<le> 1)"
| "phase_ok _ = True"

definition fair_result :: "parallel_task \<Rightarrow> parallel_result \<Rightarrow> bool" where
  "fair_result t r \<longleftrightarrow> pr_taskId r = pt_id t \<and> pr_integratorRuns r \<le> 1"

text \<open>Every way an operation can return satisfies \<open>Q\<close>.\<close>

definition returns :: "('a \<Rightarrow> bool) \<Rightarrow> ('w, 'e, 'a) operation \<Rightarrow> bool" where
  "returns Q m \<longleftrightarrow> (\<forall>w w' a. m w = (w', Inr a) \<longrightarrow> Q a)"

lemma returns_sreturn: "Q a \<Longrightarrow> returns Q (sreturn a)"
  by (simp add: returns_def)

lemma returns_sthrow: "returns Q (sthrow x)"
  by (simp add: returns_def)

lemma returns_sbind: "(\<And>a. returns Q (f a)) \<Longrightarrow> returns Q (sbind m f)"
  by (auto simp: returns_def elim!: sbind_InrE)

lemma returns_sbind_if: "returns P m \<Longrightarrow> (\<And>a. P a \<Longrightarrow> returns Q (f a)) \<Longrightarrow> returns Q (sbind m f)"
  unfolding returns_def by (metis sbind_InrE)

lemma returns_scatch: "returns Q m \<Longrightarrow> (\<And>x. returns Q (h x)) \<Longrightarrow> returns Q (scatch m h)"
  unfolding returns_def scatch_def by (auto split: prod.splits sum.splits)

lemma returns_if: "returns Q m \<Longrightarrow> returns Q n \<Longrightarrow> returns Q (if b then m else n)"
  by simp

lemmas returns_intros = returns_sreturn returns_sthrow returns_if

lemma error_done: "returns (\<lambda>ph. phase_rank ph = 0 \<and> phase_task ph = task \<and> phase_ok ph) (dispatch_error e task f t x)"
  unfolding dispatch_error_def by (intro returns_sbind returns_sreturn) (simp add: result_of_def)

lemma landing_result_runs: "returns (\<lambda>r. snd r \<le> 1) (landing_result e inp task t base f)"
  unfolding landing_result_def
  by (intro returns_sbind) (auto split: landing.split intro!: returns_sbind returns_sreturn)

lemma land_fair: "returns (fair_result task) (land e inp task t base f outcome)"
proof -
  have checked: "returns (fair_result task) (land_checked e inp task t base f outcome)"
    unfolding land_checked_def
  proof (rule returns_sbind_if [OF landing_result_runs])
    fix a :: "landing \<times> nat" assume "snd a \<le> 1"
    then show "returns (fair_result task) (case a of (l, n) \<Rightarrow>
       (case l of Landed checks \<Rightarrow> landed e inp task t f outcome checks n
       | Not_landed x \<Rightarrow> sbind (park e task f (''merge blocked: '' @ lf_reason x)) (\<lambda>_.
           sreturn (result_of task Po_blocked
               (lf_reason x @ ''; branch '' @ tr_branch t @ '' kept at '' @ tr_path t) n))))"
      by (cases a; cases "fst a")
        (auto simp: landed_def fair_result_def result_of_def intro!: returns_sbind returns_sreturn)
  qed
  have blocked: "returns (fair_result task) (sbind m (\<lambda>_. sreturn (result_of task Po_blocked d 0)))" for m d
    by (intro returns_sbind returns_sreturn) (simp add: fair_result_def result_of_def)
  have discard: "returns (fair_result task) (discard_attempt e inp task t f st)" for st
    unfolding discard_attempt_def Let_def
    by (intro returns_sbind returns_sreturn) (simp add: fair_result_def result_of_def)
  show ?thesis
    unfolding land_def
    by (intro returns_sbind returns_if discard blocked)
      (auto split: option.split intro: checked blocked)
qed

lemma phase_advances:
  "returns (\<lambda>ph'. phase_task ph' = phase_task ph \<and> phase_ok ph'
     \<and> (phase_rank ph \<noteq> 0 \<longrightarrow> phase_rank ph' < phase_rank ph)) (phase_op e inp ph)" if "phase_ok ph"
proof (cases ph)
  case (Ph_start task)
  then show ?thesis
    by (auto simp: start_phase_def result_of_def intro!: returns_scatch returns_sbind returns_sreturn
        split: option.split)
next
  case (Ph_claimed task f)
  have err: "returns Q m \<Longrightarrow> (\<And>ph. Q ph \<Longrightarrow> P ph) \<Longrightarrow> returns P m" for P Q and m :: "('g, task_phase) parallel_op"
    by (auto simp: returns_def)
  show ?thesis
    unfolding Ph_claimed
    by (auto simp: setup_phase_def result_of_def split: sum.split
        intro!: returns_scatch returns_sbind returns_sreturn err [OF error_done])
next
  case (Ph_working task f t base)
  have err: "returns Q m \<Longrightarrow> (\<And>ph. Q ph \<Longrightarrow> P ph) \<Longrightarrow> returns P m" for P Q and m :: "('g, task_phase) parallel_op"
    by (auto simp: returns_def)
  show ?thesis
    unfolding Ph_working
    by (auto simp: work_phase_def intro!: returns_scatch returns_sbind returns_sreturn err [OF error_done])
next
  case (Ph_queued task f t base outcome)
  have err: "returns Q m \<Longrightarrow> (\<And>ph. Q ph \<Longrightarrow> P ph) \<Longrightarrow> returns P m" for P Q and m :: "('g, task_phase) parallel_op"
    by (auto simp: returns_def)
  have "returns (\<lambda>ph. phase_rank ph = 0 \<and> phase_task ph = task \<and> phase_ok ph)
      (land_phase e inp task f t base outcome)"
    unfolding land_phase_def
    by (intro returns_scatch returns_sbind_if [OF land_fair] returns_sreturn error_done)
      (simp add: fair_result_def)
  then show ?thesis unfolding Ph_queued by (auto intro: err)
next
  case (Ph_done task r)
  then show ?thesis using that by (auto intro: returns_sreturn)
qed

text \<open>No phase throws: the outer \<^verbatim>\<open>catch\<close> parks the task.\<close>

definition never_throws :: "('w, 'e, 'a) operation \<Rightarrow> bool" where
  "never_throws m \<longleftrightarrow> (\<forall>w. \<exists>w' a. m w = (w', Inr a))"

lemma never_throws_sreturn: "never_throws (sreturn a)"
  by (simp add: never_throws_def)

lemma never_throws_sbind: "never_throws m \<Longrightarrow> (\<And>a. never_throws (f a)) \<Longrightarrow> never_throws (sbind m f)"
  unfolding never_throws_def by (metis sbind_eq_Inr)

lemma never_throws_scatch:
  assumes "\<And>x. never_throws (h x)" shows "never_throws (scatch m h)"
  unfolding never_throws_def
proof
  fix w
  obtain w1 r where m: "m w = (w1, r)" by (rule prod.exhaust)
  show "\<exists>w' a. scatch m h w = (w', Inr a)"
  proof (cases r)
    case (Inl x)
    then show ?thesis using assms [of x] m by (simp add: scatch_def never_throws_def)
  next
    case (Inr a)
    then show ?thesis using m by (simp add: scatch_def)
  qed
qed

lemma error_never_throws: "never_throws (dispatch_error e task f t x)"
  unfolding dispatch_error_def park_def by (intro never_throws_sbind never_throws_scatch never_throws_sreturn)

lemma phase_never_throws: "never_throws (phase_op e inp ph)"
proof (cases ph)
  case (Ph_claimed task f)
  have "never_throws (setup_tree e inp task)" unfolding setup_tree_def by (intro never_throws_scatch never_throws_sreturn)
  then show ?thesis
    unfolding Ph_claimed
    by (auto simp: setup_phase_def intro!: never_throws_sbind never_throws_scatch error_never_throws split: sum.split)
qed (auto simp: start_phase_def work_phase_def land_phase_def intro!: never_throws_scatch never_throws_sreturn error_never_throws)

definition remaining :: "'g batch_state \<Rightarrow> nat" where
  "remaining s = sum_list (map phase_rank (bs_phases s))"

definition batch_inv :: "parallel_task list \<Rightarrow> 'g batch_state \<Rightarrow> bool" where
  "batch_inv ts s \<longleftrightarrow> map phase_task (bs_phases s) = ts \<and> list_all phase_ok (bs_phases s)
     \<and> distinct (bs_queue s)
     \<and> set (bs_queue s) = {i. i < length (bs_phases s) \<and> waits_to_land (bs_phases s ! i)}"

lemma waits_rank: "waits_to_land ph \<longleftrightarrow> phase_rank ph = 1"
  by (cases ph) auto

lemma advance_shape:
  assumes inv: "batch_inv ts s" and i: "i < length (bs_phases s)"
  obtains w ph where "advance_task e inp i s =
      \<lparr>bs_world = w, bs_phases = (bs_phases s)[i := ph],
       bs_queue = (let q = (if waits_to_land (bs_phases s ! i) then tl (bs_queue s) else bs_queue s)
                   in if waits_to_land ph then q @ [i] else q)\<rparr>"
    "phase_task ph = phase_task (bs_phases s ! i)" "phase_ok ph"
    "phase_rank (bs_phases s ! i) \<noteq> 0 \<longrightarrow> phase_rank ph < phase_rank (bs_phases s ! i)"
    "phase_rank (bs_phases s ! i) = 0 \<longrightarrow> ph = bs_phases s ! i"
proof -
  obtain w ph where p: "phase_op e inp (bs_phases s ! i) (bs_world s) = (w, Inr ph)"
    using phase_never_throws [of e inp "bs_phases s ! i"] unfolding never_throws_def by blast
  have "phase_ok (bs_phases s ! i)" using inv i by (simp add: batch_inv_def list_all_length)
  note adv = phase_advances [OF this, of e inp, unfolded returns_def, rule_format, OF p]
  have "ph = bs_phases s ! i" if "phase_rank (bs_phases s ! i) = 0"
    using that p by (cases "bs_phases s ! i") auto
  then show thesis using adv p by (intro that [of w ph]) (auto simp: advance_task_def)
qed

lemma advance_inv:
  assumes inv: "batch_inv ts s" and may: "may_advance s i"
  shows "batch_inv ts (advance_task e inp i s)"
proof -
  have i: "i < length (bs_phases s)" using may by (simp add: may_advance_def)
  obtain w ph where adv: "advance_task e inp i s =
      \<lparr>bs_world = w, bs_phases = (bs_phases s)[i := ph],
       bs_queue = (let q = (if waits_to_land (bs_phases s ! i) then tl (bs_queue s) else bs_queue s)
                   in if waits_to_land ph then q @ [i] else q)\<rparr>"
    and ph: "phase_task ph = phase_task (bs_phases s ! i)" "phase_ok ph"
    and less: "phase_rank (bs_phases s ! i) \<noteq> 0 \<longrightarrow> phase_rank ph < phase_rank (bs_phases s ! i)"
    and same: "phase_rank (bs_phases s ! i) = 0 \<longrightarrow> ph = bs_phases s ! i"
    by (rule advance_shape [OF inv i, of e inp])
  have tasks: "map phase_task ((bs_phases s)[i := ph]) = ts"
    using inv ph(1) i by (metis batch_inv_def list_update_id map_update nth_map)
  have oks: "list_all phase_ok ((bs_phases s)[i := ph])"
    using inv ph(2) by (auto simp: batch_inv_def list_all_iff dest!: set_update_subset_insert [THEN subsetD])
  have q: "distinct (bs_queue s)"
    "set (bs_queue s) = {j. j < length (bs_phases s) \<and> waits_to_land (bs_phases s ! j)}"
    using inv by (simp_all add: batch_inv_def)
  let ?W = "{j. j < length (bs_phases s) \<and> waits_to_land (bs_phases s ! j)}"
  have W: "{j. j < length ((bs_phases s)[i := ph]) \<and> waits_to_land ((bs_phases s)[i := ph] ! j)} =
      (if waits_to_land ph then insert i ?W else ?W - {i})"
    using i by (auto simp: nth_list_update)
  let ?q = "bs_queue (advance_task e inp i s)"
  have "distinct ?q \<and> set ?q = (if waits_to_land ph then insert i ?W else ?W - {i})"
  proof (cases "waits_to_land (bs_phases s ! i)")
    case True
    then obtain js where js: "bs_queue s = i # js" using may by (auto simp: may_advance_def split: list.splits)
    have "\<not> waits_to_land ph" using True less by (simp add: waits_rank)
    moreover have "set js = ?W - {i}" "distinct js" using q js by auto
    ultimately show ?thesis using True js by (simp add: adv)
  next
    case False
    then have "i \<notin> set (bs_queue s)" "?W - {i} = ?W" using q(2) by auto
    then show ?thesis using False q by (simp add: adv Let_def)
  qed
  then show ?thesis using tasks oks W by (simp add: batch_inv_def adv)
qed

lemma advance_remaining:
  assumes inv: "batch_inv ts s" and may: "may_advance s i" and rank: "phase_rank (bs_phases s ! i) \<noteq> 0"
  shows "remaining (advance_task e inp i s) < remaining s"
proof -
  have i: "i < length (bs_phases s)" using may by (simp add: may_advance_def)
  obtain ph where adv: "bs_phases (advance_task e inp i s) = (bs_phases s)[i := ph]"
    and less: "phase_rank ph < phase_rank (bs_phases s ! i)"
    by (rule advance_shape [OF inv i, of e inp]) (use rank in auto)
  have "sum_list (map phase_rank ((bs_phases s)[i := ph])) + phase_rank (bs_phases s ! i) =
      sum_list (map phase_rank (bs_phases s)) + phase_rank ph"
    using i sum_list_update [of i "map phase_rank (bs_phases s)" "phase_rank ph"]
      member_le_sum_list [of "map phase_rank (bs_phases s) ! i" "map phase_rank (bs_phases s)"]
    by (simp add: map_update)
  then show ?thesis using less by (simp add: remaining_def adv)
qed

lemma someone_advances:
  assumes inv: "batch_inv ts s" and "ph \<in> set (bs_phases s)" and "phase_rank ph \<noteq> 0"
  shows "\<exists>i. may_advance s i \<and> phase_rank (bs_phases s ! i) \<noteq> 0"
proof (cases "bs_queue s")
  case (Cons j js)
  then have "j < length (bs_phases s)" "waits_to_land (bs_phases s ! j)"
    using inv by (auto simp: batch_inv_def)
  then show ?thesis using Cons by (intro exI [of _ j]) (simp add: may_advance_def waits_rank)
next
  case Nil
  obtain i where i: "i < length (bs_phases s)" "bs_phases s ! i = ph"
    using assms(2) by (auto simp: in_set_conv_nth)
  then have "\<not> waits_to_land (bs_phases s ! i)" using inv Nil by (auto simp: batch_inv_def)
  then show ?thesis using i assms(3) by (intro exI [of _ i]) (simp add: may_advance_def)
qed

lemma batch_step_inv: "batch_step e inp s s' \<Longrightarrow> batch_inv ts s \<Longrightarrow> batch_inv ts s'"
proof (induction rule: batch_step.induct)
  case (services_run s d)
  then show ?case by (simp add: batch_inv_def)
qed (rule advance_inv)

lemma batch_run_inv: "(batch_step e inp)\<^sup>*\<^sup>* s s' \<Longrightarrow> batch_inv ts s \<Longrightarrow> batch_inv ts s'"
  by (induction rule: rtranclp_induct) (auto intro: batch_step_inv)

lemma batch_start_inv: "batch_inv ts (batch_start w ts)"
  by (simp add: batch_inv_def batch_start_def list_all_iff comp_def)

section \<open>What runs in the goal checkout\<close>

definition in_tree :: "parallel_input \<Rightarrow> string \<Rightarrow> bool" where
  "in_tree inp cwd = prefix (pn_root inp @ ''/'') cwd"

definition own_branch :: "string \<Rightarrow> bool" where
  "own_branch b = prefix ''major/'' b"

text \<open>
  The commands the batch may run: anything below the worktree root; in the goal checkout only
  reading its head, adding and removing worktrees, deleting a branch of its own and a
  fast-forward.
\<close>

definition permitted :: "parallel_input \<Rightarrow> string \<Rightarrow> string list \<Rightarrow> string \<Rightarrow> bool" where
  "permitted inp x args cwd \<longleftrightarrow>
     in_tree inp cwd
     \<or> cwd = pn_repoPath inp \<and> x = ''git''
       \<and> (args = [''rev-parse'', ''HEAD'']
          \<or> (case args of
               [a, b, c, branch, path] \<Rightarrow> [a, b, c] = [''worktree'', ''add'', ''-b''] \<and> own_branch branch \<and> in_tree inp path
             | [a, b, c, branch, path, base] \<Rightarrow>
                 [a, b, c] = [''worktree'', ''add'', ''-b''] \<and> own_branch branch \<and> in_tree inp path
             | [a, b, c, path] \<Rightarrow> [a, b, c] = [''worktree'', ''remove'', ''--force''] \<and> in_tree inp path
             | [a, b, c] \<Rightarrow>
                 [a, b] = [''worktree'', ''remove''] \<and> in_tree inp c
                 \<or> a = ''branch'' \<and> b \<in> {''-D'', ''-d''} \<and> own_branch c
                 \<or> a = ''merge'' \<and> b = ''--ff-only'' \<and> own_branch c
             | _ \<Rightarrow> False))"

definition harmless :: "'g parallel_env \<Rightarrow> parallel_input \<Rightarrow> ('g \<Rightarrow> bool) \<Rightarrow> bool" where
  "harmless e inp Q \<longleftrightarrow>
     (\<forall>x args cwd g. permitted inp x args cwd \<longrightarrow> Q g \<longrightarrow> Q (fst (pe_run e x args cwd [pn_root inp] g)))
     \<and> (\<forall>g g'. Q g \<longrightarrow> pe_mkdir e (pn_root inp) g = Inr g' \<longrightarrow> Q g')
     \<and> (\<forall>task cwd g. in_tree inp cwd \<longrightarrow> Q g \<longrightarrow> Q (fst (pe_taskWorker e task cwd g)))
     \<and> (\<forall>prompt cwd g. in_tree inp cwd \<longrightarrow> Q g \<longrightarrow> Q (fst (pe_integrator e prompt cwd g)))"

definition repo_kept :: "('g \<Rightarrow> bool) \<Rightarrow> 'g parallel_world \<Rightarrow> 'g parallel_world \<Rightarrow> bool" where
  "repo_kept Q w w' \<longleftrightarrow> (Q (pw_repo w) \<longrightarrow> Q (pw_repo w'))"

interpretation frame: kept_relation "repo_kept Q" for Q
  by unfold_locales (auto simp: repo_kept_def)

definition tree_ok :: "parallel_input \<Rightarrow> tree \<Rightarrow> bool" where
  "tree_ok inp t \<longleftrightarrow> in_tree inp (tr_path t) \<and> own_branch (tr_branch t)"

lemma run_frame: "harmless e inp Q \<Longrightarrow> permitted inp x args cwd \<Longrightarrow> keeps (repo_kept Q) (p_run e inp x args cwd)"
  by (auto simp: keeps_def p_run_def repo_kept_def harmless_def split: prod.splits) (metis fst_conv)

lemma git_frame: "harmless e inp Q \<Longrightarrow> permitted inp ''git'' args cwd \<Longrightarrow> keeps (repo_kept Q) (p_git e inp cwd args)"
  by (simp add: p_git_def run_frame)

lemma permitted_tree: "in_tree inp cwd \<Longrightarrow> permitted inp x args cwd"
  by (simp add: permitted_def)

lemma service_frame: "keeps (repo_kept Q) (p_service e f)"
  by (auto simp: keeps_def p_service_def repo_kept_def split: sum.splits)

lemma worker_frame:
  "(\<And>g. Q g \<Longrightarrow> Q (fst (f g))) \<Longrightarrow> keeps (repo_kept Q) (p_worker e f)"
  by (auto simp: keeps_def p_worker_def repo_kept_def split: prod.splits) (metis fst_conv)

lemma row_frame: "keeps (repo_kept Q) (setWorktreeStatus i st)" "keeps (repo_kept Q) (insert_worktree e inp t i)"
  by (auto simp: keeps_def repo_kept_def setWorktreeStatus_def smodify_def insert_worktree_def)

lemma service_ops_frame: "keeps (repo_kept Q) (renew e inp f)" "keeps (repo_kept Q) (requeue e f why)"
    "keeps (repo_kept Q) (park e task f why)"
  unfolding renew_def requeue_def park_def
  by (intro frame.keeps_intros service_frame)+

lemma fail_frame: "keeps (repo_kept Q) (fail a b c)"
  unfolding fail_def by (rule frame.keeps_sreturn)

lemma head_frame: "harmless e inp Q \<Longrightarrow> keeps (repo_kept Q) (p_head e inp)"
  unfolding p_head_def
  by (intro frame.keeps_sbind git_frame) (auto simp: permitted_def intro: frame.keeps_intros)

lemma create_tree_frame:
  assumes h: "harmless e inp Q" shows "keeps (repo_kept Q) (createTaskWorktree e inp label base)"
proof (rule keepsI)
  fix w w' r
  assume c: "createTaskWorktree e inp label base w = (w', r)"
  show "repo_kept Q w w'"
  proof (cases "pe_mkdir e (pn_root inp) (pw_repo w)")
    case (Inl x)
    then show ?thesis using c by (simp add: createTaskWorktree_def repo_kept_def)
  next
    case (Inr g)
    let ?s = "pe_stamp e (pw_tick w) @ ''-'' @ safe_label label"
    let ?args = "[''worktree'', ''add'', ''-b'', ''major/'' @ ?s, pn_root inp @ ''/'' @ ?s]
        @ (case base of None \<Rightarrow> [] | Some b \<Rightarrow> if b = [] then [] else [b])"
    let ?m = "sbind (p_git e inp (pn_repoPath inp) ?args)
       (\<lambda>git. if cr_ok git then sreturn (pn_root inp @ ''/'' @ ?s, ''major/'' @ ?s)
          else sthrow (''worktree setup failed: ''
            @ (if cr_output git = [] then ''unknown git error'' else cr_output git)))"
    have m: "?m (w\<lparr>pw_repo := g\<rparr>) = (w', r)"
      using c by (simp only: createTaskWorktree_def Let_def Inr sum.case)
    have "permitted inp ''git'' ?args (pn_repoPath inp)"
      by (simp add: permitted_def own_branch_def in_tree_def split: option.split)
    then have "keeps (repo_kept Q) ?m"
      by (intro frame.keeps_sbind git_frame h) (auto intro: frame.keeps_intros)
    from keepsD [OF this m] show ?thesis
      using h Inr by (auto simp: repo_kept_def harmless_def)
  qed
qed

lemma rebase_pending_frame:
  "harmless e inp Q \<Longrightarrow> in_tree inp cwd \<Longrightarrow> keeps (repo_kept Q) (rebase_in_progress e inp cwd names)"
  by (induction names) (auto intro!: frame.keeps_intros git_frame permitted_tree)

lemma run_checks_frame:
  "harmless e inp Q \<Longrightarrow> in_tree inp path \<Longrightarrow> keeps (repo_kept Q) (run_checks e inp path target cs cks)"
  by (induction cs arbitrary: cks)
    (auto simp: Let_def intro!: frame.keeps_intros run_frame permitted_tree fail_frame)

lemma merge_frame:
  "harmless e inp Q \<Longrightarrow> own_branch b \<Longrightarrow>
     keeps (repo_kept Q) (p_git e inp (pn_repoPath inp) [''merge'', ''--ff-only'', b])"
  by (rule git_frame) (auto simp: permitted_def)

lemma land_rebased_frame:
  "harmless e inp Q \<Longrightarrow> tree_ok inp t \<Longrightarrow> keeps (repo_kept Q) (land_rebased e inp task t f target)"
  unfolding land_rebased_def Let_def tree_ok_def
  by (intro frame.keeps_sbind git_frame frame.keeps_if fail_frame permitted_tree)
    (auto split: landing.split
      intro!: frame.keeps_intros fail_frame run_checks_frame merge_frame service_ops_frame)

lemma rebase_and_land_frame:
  "harmless e inp Q \<Longrightarrow> tree_ok inp t \<Longrightarrow> keeps (repo_kept Q) (rebase_and_land e inp task t f)"
  unfolding rebase_and_land_def
  by (intro frame.keeps_sbind git_frame frame.keeps_if fail_frame head_frame land_rebased_frame permitted_tree)
    (auto simp: tree_ok_def)

lemma tryLand_frame:
  "harmless e inp Q \<Longrightarrow> tree_ok inp t \<Longrightarrow> keeps (repo_kept Q) (tryLand e inp task t f)"
  unfolding tryLand_def rebaseInProgress_def commit_leftovers_def
  by (intro frame.keeps_sbind git_frame frame.keeps_if fail_frame rebase_and_land_frame
      rebase_pending_frame permitted_tree) (auto simp: tree_ok_def)

lemma integrate_frame:
  assumes h: "harmless e inp Q" and t: "tree_ok inp t"
  shows "keeps (repo_kept Q) (integrate e inp task t base f x)"
  unfolding integrate_def integratorPrompt_def
  using h t
  by (intro frame.keeps_sbind frame.keeps_if git_frame head_frame tryLand_frame worker_frame
      frame.keeps_sreturn service_ops_frame permitted_tree)
    (auto simp: tree_ok_def harmless_def)

lemma landing_result_frame:
  "harmless e inp Q \<Longrightarrow> tree_ok inp t \<Longrightarrow> keeps (repo_kept Q) (landing_result e inp task t base f)"
  unfolding landing_result_def
  by (intro frame.keeps_sbind tryLand_frame)
    (auto split: landing.split intro!: frame.keeps_sbind frame.keeps_sreturn integrate_frame)

lemma landed_frame:
  assumes h: "harmless e inp Q" and t: "tree_ok inp t"
  shows "keeps (repo_kept Q) (landed e inp task t f outcome checks n)"
proof -
  have "permitted inp ''git'' [''worktree'', ''remove'', tr_path t] (pn_repoPath inp)"
    "permitted inp ''git'' [''branch'', ''-d'', tr_branch t] (pn_repoPath inp)"
    using t by (auto simp: permitted_def tree_ok_def)
  then show ?thesis
    unfolding landed_def
    by (intro frame.keeps_sbind frame.keeps_if git_frame h head_frame frame.keeps_sreturn service_ops_frame
        service_frame row_frame)
qed

lemma discard_frame:
  assumes h: "harmless e inp Q" and t: "tree_ok inp t"
  shows "keeps (repo_kept Q) (discard_attempt e inp task t f st)"
proof -
  have "permitted inp ''git'' [''worktree'', ''remove'', ''--force'', tr_path t] (pn_repoPath inp)"
    "permitted inp ''git'' [''branch'', ''-D'', tr_branch t] (pn_repoPath inp)"
    using t by (auto simp: permitted_def tree_ok_def)
  then show ?thesis
    unfolding discard_attempt_def Let_def
    by (intro frame.keeps_sbind frame.keeps_if git_frame h frame.keeps_sreturn service_ops_frame row_frame)
qed

lemma land_frame:
  assumes h: "harmless e inp Q" and t: "tree_ok inp t"
  shows "keeps (repo_kept Q) (land e inp task t base f outcome)"
proof -
  have "keeps (repo_kept Q) (land_checked e inp task t base f outcome)"
    unfolding land_checked_def
    by (intro frame.keeps_sbind landing_result_frame h t)
      (auto split: landing.split intro!: frame.keeps_sbind frame.keeps_sreturn service_ops_frame landed_frame h t)
  then show ?thesis
    unfolding land_def
    by (intro frame.keeps_sbind service_ops_frame frame.keeps_if frame.keeps_sreturn discard_frame h t)
      (auto split: option.split intro!: frame.keeps_sbind frame.keeps_sreturn service_ops_frame)
qed

text \<open>Trees stay below the root, on branches of Major.\<close>

fun phase_tree_ok :: "parallel_input \<Rightarrow> task_phase \<Rightarrow> bool" where
  "phase_tree_ok inp (Ph_working task f t base) = tree_ok inp t"
| "phase_tree_ok inp (Ph_queued task f t base outcome) = tree_ok inp t"
| "phase_tree_ok inp _ = True"

lemma create_tree_ok:
  "returns (\<lambda>(path, branch). in_tree inp path \<and> own_branch branch) (createTaskWorktree e inp label base)"
  unfolding returns_def createTaskWorktree_def
  by (auto simp: Let_def in_tree_def own_branch_def split: sum.splits if_splits elim!: sbind_InrE)

lemma setup_tree_ok:
  "returns (\<lambda>r. case r of Inl _ \<Rightarrow> True | Inr (base, t) \<Rightarrow> tree_ok inp t) (setup_tree e inp task)"
  unfolding setup_tree_def
  by (intro returns_scatch returns_sbind returns_sbind_if [OF create_tree_ok] returns_sreturn)
    (auto simp: tree_ok_def intro: returns_sreturn)

lemma returns_weaken: "returns P m \<Longrightarrow> (\<And>a. P a \<Longrightarrow> Q a) \<Longrightarrow> returns Q m"
  by (auto simp: returns_def)

lemma error_tree_ok: "returns (phase_tree_ok inp) (dispatch_error e task f t x)"
  unfolding dispatch_error_def by (intro returns_sbind returns_sreturn) simp

lemma phase_trees: "phase_tree_ok inp ph \<Longrightarrow> returns (phase_tree_ok inp) (phase_op e inp ph)"
proof (cases ph)
  case (Ph_claimed task f)
  show ?thesis
    unfolding Ph_claimed phase_op.simps setup_phase_def
  proof (rule returns_sbind_if [OF setup_tree_ok])
    fix a :: "(string, string \<times> tree) result"
    assume "case a of Inl _ \<Rightarrow> True | Inr (base, t) \<Rightarrow> tree_ok inp t"
    then show "returns (phase_tree_ok inp) (case a of
         Inl x \<Rightarrow>
           scatch (sbind (requeue e f ''worktree setup failed'') (\<lambda>_.
                     sreturn (Ph_done task (result_of task Po_requeued x 0))))
                  (dispatch_error e task f None)
       | Inr (base, t) \<Rightarrow>
           scatch (sbind (insert_worktree e inp t (pt_id task)) (\<lambda>_. sreturn (Ph_working task f t base)))
                  (dispatch_error e task f (Some t)))"
      by (auto intro!: returns_scatch returns_sbind returns_sreturn error_tree_ok split: sum.splits)
  qed
qed (auto simp: start_phase_def work_phase_def land_phase_def
    intro!: returns_scatch returns_sbind returns_sreturn error_tree_ok split: option.split)

lemma phase_frame:
  assumes h: "harmless e inp Q" and t: "phase_tree_ok inp ph"
  shows "keeps (repo_kept Q) (phase_op e inp ph)"
proof -
  have err: "keeps (repo_kept Q) (dispatch_error e task f t x)" for task f t x
    unfolding dispatch_error_def by (intro frame.keeps_sbind frame.keeps_sreturn service_ops_frame)
  have tree: "keeps (repo_kept Q) (setup_tree e inp task)" for task
    unfolding setup_tree_def
    by (intro frame.keeps_scatch frame.keeps_sbind head_frame h frame.keeps_sread frame.keeps_sreturn
        create_tree_frame) (auto intro: frame.keeps_sreturn)
  show ?thesis
  proof (cases ph)
    case (Ph_start task)
    then show ?thesis
      by (auto simp: start_phase_def intro!: frame.keeps_scatch frame.keeps_sbind service_frame
          frame.keeps_sreturn split: option.split)
  next
    case (Ph_claimed task f)
    then show ?thesis
      by (auto simp: setup_phase_def intro!: frame.keeps_scatch frame.keeps_sbind tree row_frame
          service_ops_frame frame.keeps_sreturn err split: sum.split)
  next
    case (Ph_working task f tr base)
    then have "keeps (repo_kept Q) (p_worker e (pe_taskWorker e task (tr_path tr)))"
      using h t by (intro worker_frame) (simp add: harmless_def tree_ok_def)
    then show ?thesis
      using Ph_working
      by (auto simp: work_phase_def intro!: frame.keeps_scatch frame.keeps_sbind frame.keeps_sreturn err)
  next
    case (Ph_queued task f tr base outcome)
    then show ?thesis
      using t by (auto simp: land_phase_def intro!: frame.keeps_scatch frame.keeps_sbind frame.keeps_sreturn
          err land_frame h)
  qed (auto intro: frame.keeps_sreturn)
qed

definition frame_inv :: "('g \<Rightarrow> bool) \<Rightarrow> parallel_input \<Rightarrow> 'g batch_state \<Rightarrow> bool" where
  "frame_inv Q inp s \<longleftrightarrow> Q (pw_repo (bs_world s)) \<and> list_all (phase_tree_ok inp) (bs_phases s)"

lemma batch_step_frame:
  assumes h: "harmless e inp Q" and "batch_step e inp s s'" and inv: "frame_inv Q inp s"
  shows "frame_inv Q inp s'"
  using assms(2)
proof cases
  case (task_advances i)
  then have i: "i < length (bs_phases s)" by (simp add: may_advance_def)
  obtain w ph where p: "phase_op e inp (bs_phases s ! i) (bs_world s) = (w, Inr ph)"
    using phase_never_throws [of e inp "bs_phases s ! i"] unfolding never_throws_def by blast
  have t: "phase_tree_ok inp (bs_phases s ! i)" using inv i by (simp add: frame_inv_def list_all_length)
  have "repo_kept Q (bs_world s) w" using keepsD [OF phase_frame [OF h t] p] .
  moreover have "phase_tree_ok inp ph" using phase_trees [OF t] p by (auto simp: returns_def)
  ultimately show ?thesis
    using inv task_advances p
    by (auto simp: frame_inv_def repo_kept_def advance_task_def list_all_iff
        dest!: set_update_subset_insert [THEN subsetD])
next
  case (services_run d)
  then show ?thesis using inv by (simp add: frame_inv_def)
qed

lemma batch_run_frame:
  "(batch_step e inp)\<^sup>*\<^sup>* s s' \<Longrightarrow> harmless e inp Q \<Longrightarrow> frame_inv Q inp s \<Longrightarrow> frame_inv Q inp s'"
  by (induction rule: rtranclp_induct) (auto intro: batch_step_frame)

section \<open>What a landing records\<close>

definition same_proofs :: "db \<Rightarrow> db \<Rightarrow> bool" where
  "same_proofs d d' \<longleftrightarrow> verificationRuns d' = verificationRuns d \<and> evidences d' = evidences d
     \<and> tasks d' = tasks d"

lemma insert_run_tasks: "insert_run ck r d = Inr d' \<Longrightarrow> tasks d' = tasks d"
  by (auto simp: insert_run_def rbind_eq_Inr insert_row_Inr_iff Let_def
      split: if_splits dest!: update_decisions_InrD)

lemma record_usages_runs:
  "record_usages render ck us d = (d', r) \<Longrightarrow> agentRuns d' = agentRuns d \<and> same_proofs d d'"
proof (induction render ck us d rule: record_usages.induct)
  case (2 render ck uuid u us d)
  show ?case
  proof (cases "recordUsage render ck uuid u d")
    case (Inl x)
    then show ?thesis using "2.prems" by (simp add: same_proofs_def)
  next
    case (Inr p)
    obtain d1 row where p: "p = (d1, row)" by (rule prod.exhaust)
    have "agentRuns d1 = agentRuns d" "same_proofs d d1"
      using Inr p by (auto simp: recordUsage_def Let_def rbind_eq_Inr same_proofs_def dest!: insert_usage_InrD)
    then show ?thesis using "2.IH" [OF Inr p [symmetric]] "2.prems" Inr p by (simp add: same_proofs_def)
  qed
qed (simp add: same_proofs_def)

text \<open>A status change writes usage rows and then updates one run.\<close>

lemma setRunStatus_split:
  assumes "setRunStatus render ck uu i st ref usage d = (d', Inr row)"
  obtains d0 where "agentRuns d0 = agentRuns d" "same_proofs d d0"
    "set_status_only ck i st ref d0 = (d', Inr row)"
proof (cases "normalizeProviderUsage usage")
  case None
  then show thesis using assms by (intro that [of d]) (simp_all add: setRunStatus_def same_proofs_def)
next
  case (Some nu)
  obtain run where run: "getRun d i = Inr run"
    using assms Some by (cases "getRun d i") (auto simp: setRunStatus_def)
  let ?us = "(case nu_tokens nu of None \<Rightarrow> [] | Some t \<Rightarrow> [(fst uu, usage_link run i Use_tokens (tokens_json t))])
      @ (case nu_cost nu of None \<Rightarrow> [] | Some c \<Rightarrow> [(snd uu, usage_link run i Use_cost (cost_json c))])"
  obtain d1 r where us: "record_usages render ck ?us d = (d1, r)" by (rule prod.exhaust)
  have "(case r of Inl e \<Rightarrow> (d1, Inl e) | Inr _ \<Rightarrow> set_status_only ck i st ref d1) = (d', Inr row)"
    using assms Some run us by (simp add: setRunStatus_def Let_def)
  then have "set_status_only ck i st ref d1 = (d', Inr row)" by (cases r) auto
  then show thesis using record_usages_runs [OF us] by (intro that [of d1]) simp_all
qed

lemma status_in_tx_run:
  assumes st: "status_in_tx render ck uuids i st ref usage d = Inr d'"
    and r: "r \<in> set (agentRuns d)" "r_id r = i"
  shows "(status_patch ck st ref r)\<lparr>r_updatedAt := svc_now ck\<rparr> \<in> set (agentRuns d')"
    and "same_proofs d d'"
proof -
  obtain row where "setRunStatus render ck uuids i st ref usage d = (d', Inr row)"
    using st by (auto simp: status_in_tx_def split: prod.splits sum.splits)
  then obtain d0 where d0: "agentRuns d0 = agentRuns d" "same_proofs d d0"
    and s: "set_status_only ck i st ref d0 = (d', Inr row)" by (rule setRunStatus_split)
  obtain n where c: "cas_run ck i (\<lambda>_. True) (status_patch ck st ref) d0 = Inr (d', n)"
    using s by (auto simp: set_status_only_def split: sum.splits)
  then have d': "d' = d0\<lparr>agentRuns := update_where (\<lambda>x. r_id x = i)
      (\<lambda>x. (status_patch ck st ref x)\<lparr>r_updatedAt := svc_now ck\<rparr>) (agentRuns d0)\<rparr>"
    by (auto simp: cas_run_def dest!: update_runs_InrD)
  show "(status_patch ck st ref r)\<lparr>r_updatedAt := svc_now ck\<rparr> \<in> set (agentRuns d')"
    using r d0(1) by (force simp: d' update_where_def)
  show "same_proofs d d'" using d0(2) by (simp add: same_proofs_def d')
qed

definition recorded_check :: "db \<Rightarrow> string \<Rightarrow> string \<Rightarrow> string \<Rightarrow> bool" where
  "recorded_check d taskId runId command \<longleftrightarrow>
     (\<exists>v \<in> set (verificationRuns d). v_taskId v = taskId \<and> v_agentRunId v = Some runId
        \<and> v_command v = command \<and> v_status v = Ver_passed \<and> v_exitCode v = Some 0
        \<and> (\<exists>x \<in> set (evidences d). e_taskId x = taskId \<and> e_kind x = Evk_verification_run
             \<and> e_ref x = Some (v_id v)))"

lemma record_check_facts:
  assumes "record_check redact ck u1 u2 i r h c d = Inr d'"
  shows "recorded_check d' i r (fst c)" and "agentRuns d' = agentRuns d" and "tasks d' = tasks d"
    and "recorded_check d i r x \<Longrightarrow> recorded_check d' i r x"
proof -
  obtain d1 v x where v: "recordVerificationRun redact ck u1
       \<lparr>nv_taskId = i, nv_command = fst c, nv_status = Ver_passed, nv_exitCode = Some 0,
        nv_outputSummary = Some (clip (snd c)), nv_validationSubject = None,
        nv_agentRunId = Some r, nv_startedAt = None, nv_endedAt = None\<rparr> d = Inr (d1, v)"
    and x: "addEvidence ck u2
       \<lparr>ne_taskId = i, ne_kind = Evk_verification_run,
        ne_summary = ''merge queue verification passed at '' @ h @ '': '' @ fst c,
        ne_ref = Some (v_id v), ne_dataJson = None, ne_agentRunId = Some r\<rparr> d1 = Inr (d', x)"
    using assms by (cases c) (auto simp: record_check_def rbind_eq_Inr)
  have d1: "d1 = d\<lparr>verificationRuns := verificationRuns d @ [v]\<rparr>"
    and vf: "v_taskId v = i" "v_agentRunId v = Some r" "v_command v = fst c" "v_status v = Ver_passed"
      "v_exitCode v = Some 0"
    using v by (auto simp: recordVerificationRun_def Let_def rbind_eq_Inr split: if_splits
        dest!: insert_verification_InrD)
  have d': "d' = d1\<lparr>evidences := evidences d1 @ [x]\<rparr>"
    and xf: "e_taskId x = i" "e_kind x = Evk_verification_run" "e_ref x = Some (v_id v)"
    using x by (auto simp: addEvidence_def Let_def rbind_eq_Inr dest!: insert_evidence_InrD)
  show "recorded_check d' i r (fst c)" using vf xf by (auto simp: recorded_check_def d' d1)
  show "agentRuns d' = agentRuns d" "tasks d' = tasks d" by (simp_all add: d' d1)
  show "recorded_check d i r x \<Longrightarrow> recorded_check d' i r x" for x
    by (auto simp: recorded_check_def d' d1)
qed

lemma record_checks_facts:
  "record_checks redact ck uuid n i r h cs d = Inr d' \<Longrightarrow>
     list_all (\<lambda>c. recorded_check d' i r (fst c)) cs \<and> agentRuns d' = agentRuns d \<and> tasks d' = tasks d
     \<and> (\<forall>x. recorded_check d i r x \<longrightarrow> recorded_check d' i r x)"
proof (induction cs arbitrary: n d)
  case (Cons c cs)
  obtain d1 where d1: "record_check redact ck (uuid n) (uuid (Suc n)) i r h c d = Inr d1"
    and rest: "record_checks redact ck uuid (n + 2) i r h cs d1 = Inr d'"
    using Cons.prems by (auto simp: rbind_eq_Inr)
  show ?case using Cons.IH [OF rest] record_check_facts [OF d1] by auto
qed simp

definition landing_recorded ::
  "db \<Rightarrow> parallel_input \<Rightarrow> parallel_task \<Rightarrow> string \<Rightarrow> string \<Rightarrow> (string \<times> string) list \<Rightarrow> bool" where
  "landing_recorded d inp task h ref checks \<longleftrightarrow>
     (\<exists>r \<in> set (agentRuns d). r_taskId r = pt_id task \<and> r_purpose r = Pur_implementation
        \<and> r_providerId r = rv_providerId (pn_provenance inp)
        \<and> r_status r = Run_succeeded \<and> r_sessionRef r = Some ref \<and> r_sourceHead r = Some h
        \<and> list_all (\<lambda>c. recorded_check d (pt_id task) (r_id r) (fst c)) checks)
     \<and> (\<exists>k. get_task d (pt_id task) = Some k \<and> t_status k = St_verifying)"

lemma record_landing_facts:
  assumes uniq: "unique_by t_id (tasks d)" and ref: "ref \<noteq> []"
    and rec: "record_landing e inp task t f h ref usage checks ck uuid d = Inr (d', x)"
  shows "landing_recorded d' inp task h ref checks"
proof -
  let ?nr = "implementation_run inp task t f h"
  obtain d1 run d2 d3 d4 k where
    c: "createRun ck (uuid 0) ?nr d = Inr (d1, run)" and
    s1: "status_in_tx (pe_render e) ck ([], []) (r_id run) Run_running None None d1 = Inr d2" and
    s2: "status_in_tx (pe_render e) ck (uuid 1, uuid 2) (r_id run) Run_succeeded (Some ref) usage d2 = Inr d3" and
    v: "record_checks (pe_redact e) ck uuid 3 (pt_id task) (r_id run) h checks d3 = Inr d4" and
    ap: "applyTransition ck (pt_id task) St_verifying (Some (fence_of f)) d4 = Inr (d', k)"
    using rec by (auto simp: record_landing_def rbind_eq_Inr)
  obtain run_eq: "run = run_from ck (uuid 0) ?nr" and ins: "insert_run ck run d = Inr d1"
    by (rule createRun_Inr [OF c])
  have g1: "run \<in> set (agentRuns d1)" using insert_run_Inr(2) [OF ins] by simp
  let ?r1 = "(status_patch ck Run_running None run)\<lparr>r_updatedAt := svc_now ck\<rparr>"
  let ?r = "(status_patch ck Run_succeeded (Some ref) ?r1)\<lparr>r_updatedAt := svc_now ck\<rparr>"
  note f1 = status_in_tx_run [OF s1 g1 refl]
  have key: "r_id ?r1 = r_id run" by (simp add: status_patch_def Let_def)
  note f2 = status_in_tx_run [OF s2 f1(1) key]
  note f3 = record_checks_facts [OF v]
  have t4: "unique_by t_id (tasks d4)"
    using uniq f3 f2(2) f1(2) insert_run_tasks [OF ins] by (simp add: same_proofs_def)
  note f4 = applyTransition_wf [OF t4 ap]
  have same: "agentRuns d' = agentRuns d4" "verificationRuns d' = verificationRuns d4" "evidences d' = evidences d4"
    using arg_cong [OF f4(5), of agentRuns] arg_cong [OF f4(5), of verificationRuns]
      arg_cong [OF f4(5), of evidences] by simp_all
  have "?r \<in> set (agentRuns d')" using f2(1) f3 same by simp
  moreover have "r_id ?r = r_id run" "r_taskId ?r = pt_id task" "r_purpose ?r = Pur_implementation"
    "r_providerId ?r = rv_providerId (pn_provenance inp)"
    "r_status ?r = Run_succeeded" "r_sessionRef ?r = Some ref" "r_sourceHead ?r = Some h"
    using ref by (simp_all add: status_patch_def Let_def run_eq run_from_def implementation_run_def truthy_def)
  moreover have "list_all (\<lambda>c. recorded_check d' (pt_id task) (r_id run) (fst c)) checks"
    using f3 same by (simp add: recorded_check_def)
  moreover have "\<exists>k. get_task d' (pt_id task) = Some k \<and> t_status k = St_verifying"
    using f4(2,3) by blast
  ultimately show ?thesis unfolding landing_recorded_def by metis
qed

text \<open>The transaction lies on the run of the services that the landing makes.\<close>

lemma landed_recorded:
  assumes p: "polite e" and d: "reachable_db (pw_db w)" and ref: "session_of outcome \<noteq> []"
    and l: "landed e inp task t f outcome checks n w = (w', Inr r)"
  shows "\<exists>d h. service_step\<^sup>*\<^sup>* (pw_db w) d \<and> landing_recorded d inp task h (session_of outcome) checks
           \<and> service_step\<^sup>*\<^sup>* d (pw_db w')"
proof -
  let ?rec = "\<lambda>h. p_service e (record_landing e inp task t f h (session_of outcome) (wo_usage outcome) checks)"
  let ?after = "sbind (p_service e (\<lambda>ck _. completeClaim ck (bf_claimId f) (bf_workerId f) (Some ''merged'') None)) (\<lambda>_.
     sbind (setWorktreeStatus (tr_id t) Wt_merged) (\<lambda>_.
     sbind (p_git e inp (pn_repoPath inp) [''worktree'', ''remove'', tr_path t]) (\<lambda>removed.
     sbind (if cr_ok removed then p_git e inp (pn_repoPath inp) [''branch'', ''-d'', tr_branch t]
            else sreturn removed) (\<lambda>_.
       sreturn (result_of task Po_merged
         (if n \<noteq> 0 then ''merged after integrator'' else ''merged'') n)))))"
  obtain w1 h where w1: "p_head e inp w = (w1, Inr h)"
    and r1: "sbind (renew e inp f) (\<lambda>_. sbind (?rec h) (\<lambda>_. ?after)) w1 = (w', Inr r)"
    using l unfolding landed_def by (rule sbind_InrE)
  obtain w2 c where w2: "renew e inp f w1 = (w2, Inr c)" and r2: "sbind (?rec h) (\<lambda>_. ?after) w2 = (w', Inr r)"
    using r1 by (rule sbind_InrE)
  obtain w3 u where w3: "?rec h w2 = (w3, Inr u)" and r3: "?after w3 = (w', Inr r)"
    using r2 by (rule sbind_InrE)
  have s2: "service_step\<^sup>*\<^sup>* (pw_db w) (pw_db w2)"
    using keepsD [OF head_keeps [OF p] w1] keepsD [OF renew_keeps w2]
    unfolding services_between_def by (rule rtranclp_trans)
  have rec: "record_landing e inp task t f h (session_of outcome) (wo_usage outcome) checks
      (pe_clock e (pw_tick w2)) (pe_uuid e (pw_tick w2)) (pw_db w2) = Inr (pw_db w3, u)"
    using w3 by (auto simp: p_service_def split: sum.splits)
  have "reachable_db (pw_db w2)" using reachable_db_run [OF s2 d] .
  then have "unique_by t_id (tasks (pw_db w2))"
    using reachable_db_inv by (auto simp: db_inv_def tasks_ok_def)
  note facts = record_landing_facts [OF this ref rec]
  have "keeps services_between ?after"
    by (intro svc.keeps_sbind op_keeps p svc.keeps_if svc.keeps_sreturn service_keeps)
      (auto dest: step_completeClaim)
  from keepsD [OF this r3] have "service_step\<^sup>*\<^sup>* (pw_db w3) (pw_db w')" by (simp add: services_between_def)
  moreover have "service_step\<^sup>*\<^sup>* (pw_db w) (pw_db w3)"
    using s2 record_landing_path [OF rec] by (rule rtranclp_trans)
  ultimately show ?thesis using facts by blast
qed

lemma land_merged:
  fixes w :: "'g parallel_world"
  assumes "land e inp task t base f outcome w = (w', Inr r)" and "pr_outcome r = Po_merged"
  obtains w1 w2 c checks n where "session_of outcome \<noteq> []" "wo_status outcome = Wk_succeeded"
    "renew e inp f w = (w1, Inr c)" "landing_result e inp task t base f w1 = (w2, Inr (Landed checks, n))"
    "landed e inp task t f outcome checks n w2 = (w', Inr r)"
proof -
  have not: "sbind m (\<lambda>_. sreturn (result_of task Po_blocked d k)) v \<noteq> (w', Inr r)" for m :: "('g, unit) parallel_op" and d k v
  proof
    assume "sbind m (\<lambda>_. sreturn (result_of task Po_blocked d k)) v = (w', Inr r)"
    then have "r = result_of task Po_blocked d k" by (elim sbind_InrE) simp
    then show False using assms(2) by (simp add: result_of_def)
  qed
  have discard: "discard_attempt e inp task t f st v \<noteq> (w', Inr r)" for st v
    using assms(2) by (auto simp: discard_attempt_def result_of_def Let_def elim!: sbind_InrE)
  let ?blocked = "wo_status outcome = Wk_succeeded \<and> session_of outcome = []"
  obtain w1 c where w1: "renew e inp f w = (w1, Inr c)"
    and b: "(if ?blocked
       then sbind (park e task f ''worker returned no durable session identity'') (\<lambda>_.
              sreturn (result_of task Po_blocked
                (''worker returned no durable session identity; branch '' @ tr_branch t @ '' kept'') 0))
       else if wo_status outcome \<noteq> Wk_succeeded
       then discard_attempt e inp task t f (wo_status outcome)
       else
         (case parseWorkerReport (pe_report e) (wo_stdout outcome) of
            None \<Rightarrow> land_checked e inp task t base f outcome
          | Some r \<Rightarrow>
              if wr_status r = Plain Rep_blocked
              then sbind (park e task f (''worker blocked: '' @ wr_summary r)) (\<lambda>_.
                     sreturn (result_of task Po_blocked (''worker blocked: ''
                       @ or_else (wr_ownerGate r) (wr_summary r) @ ''; branch '' @ tr_branch t @ '' kept'') 0))
              else land_checked e inp task t base f outcome)) w1 = (w', Inr r)"
    using assms(1) unfolding land_def by (rule sbind_InrE)
  have nb: "\<not> ?blocked" using b not by (cases ?blocked) simp_all
  then have s: "wo_status outcome = Wk_succeeded" using b discard by (cases "wo_status outcome = Wk_succeeded") simp_all
  then have ref: "session_of outcome \<noteq> []" using nb by simp
  have l: "land_checked e inp task t base f outcome w1 = (w', Inr r)"
  proof (cases "parseWorkerReport (pe_report e) (wo_stdout outcome)")
    case None
    then show ?thesis using b nb s by simp
  next
    case (Some rep)
    then show ?thesis using b nb s not by (cases "wr_status rep = Plain Rep_blocked") simp_all
  qed
  obtain w2 l n where lr: "landing_result e inp task t base f w1 = (w2, Inr (l, n))"
    and k: "(case l of Landed checks \<Rightarrow> landed e inp task t f outcome checks n
       | Not_landed x \<Rightarrow> sbind (park e task f (''merge blocked: '' @ lf_reason x)) (\<lambda>_.
             sreturn (result_of task Po_blocked
               (lf_reason x @ ''; branch '' @ tr_branch t @ '' kept at '' @ tr_path t) n))) w2 = (w', Inr r)"
    using l by (auto simp: land_checked_def elim!: sbind_InrE)
  obtain checks where "l = Landed checks" using k not by (cases l) auto
  then show thesis using that [OF ref s w1] lr k by auto
qed

end
