(* ===== verification/Parallel_Runs.thy ===== *)
theory Parallel_Runs
  imports Parallel_Safety
begin

text \<open>
  The properties of parallel dispatch: the batch, its files, its commands, its landings, the
  promotion into the completion gate and its progress. The concrete environment of the
  witnesses logs every command it is asked to run.
\<close>

section \<open>A concrete environment\<close>

type_synonym command_log = "(string \<times> string list \<times> string) list"

text \<open>Every command succeeds; the task branch is checked out, its diff names one file.\<close>

fun log_answer :: "string list \<Rightarrow> string" where
  "log_answer (a # b # r) =
     (if a = ''rev-parse'' then sample_head
      else if a = ''symbolic-ref'' then ''major/1-task_1''
      else if a = ''diff'' then ''src/a.ts'' else [])"
| "log_answer _ = []"

definition demo_outcome :: worker_outcome where
  "demo_outcome = \<lparr>wo_host = Host_claude, wo_status = Wk_succeeded, wo_exitCode = Some 0, wo_stdout = [],
     wo_stderr = [], wo_rateLimited = False, wo_exhausted = False, wo_workspaceMutated = None,
     wo_sessionRef = Some ''s'', wo_usage = None\<rparr>"

definition demo_env :: "command_log parallel_env" where
  "demo_env = \<lparr>pe_run = \<lambda>x args cwd roots g. (g @ [(x, args, cwd)], \<lparr>cr_ok = True, cr_output = log_answer args\<rparr>),
     pe_exists = \<lambda>path g. False, pe_mkdir = \<lambda>path g. Inr g,
     pe_matchesGlob = \<lambda>file glob. file = glob \<or> glob = ''src/*'' \<and> take 4 file = ''src/'',
     pe_taskWorker = \<lambda>task cwd g. (g, Inr demo_outcome), pe_integrator = \<lambda>prompt cwd g. (g, Inr demo_outcome),
     pe_meanwhile = \<lambda>n d. d, pe_clock = \<lambda>n. \<lparr>svc_now = 10 + int n, sql_now = 10 + int n\<rparr>, pe_uuid = \<lambda>n k. replicate (n + k) CHR ''u'',
     pe_stamp = \<lambda>n. ''1'', pe_message = \<lambda>x. (case x of Constraint_failed s \<Rightarrow> s | _ \<Rightarrow> ''error''),
     pe_report = \<lparr>re_parse = \<lambda>s. None, re_stringify = \<lambda>j. [], re_sourcePacket = \<lambda>j. None, re_gateEvidence = \<lambda>j. None\<rparr>,
     pe_redact = \<lambda>s. s, pe_render = \<lambda>j. []\<rparr>"

definition demo_input :: parallel_input where
  "demo_input = \<lparr>pn_repoPath = ''/r'', pn_projectId = ''p'', pn_verificationCommands = [''npm test''],
     pn_provenance = \<lparr>rv_providerId = ''pv'', rv_modelId = ''md'', rv_modelRef = ''m'',
       rv_billingMode = Bill_subscription_included, rv_routingReason = []\<rparr>,
     pn_leaseMs = 600000, pn_root = ''/w'', pn_workerId = ''w''\<rparr>"

definition demo_parallel :: parallel_task where
  "demo_parallel = \<lparr>pt_id = ''task_1'', pt_title = ''T'', pt_description = [], pt_paths = [''src/*'']\<rparr>"

lemma demo_polite: "polite demo_env"
  by (simp add: polite_def demo_env_def)

lemma wildcard_free: "list_all (\<lambda>c. \<not> wildcard c) s \<Longrightarrow> takeWhile (\<lambda>c. \<not> wildcard c) s = s"
  by (induction s) auto

section \<open>The batch\<close>

text \<open>
  C35. The batch that selectParallelBatch returns fits the limit, its members are queued tasks of
  the project in the order of their creation, each with declared paths and without progressive
  validation, no two of them declare overlapping paths, and it is maximal: below the limit every
  queued task left out is ineligible or overlaps a member. Before the choice it recovers expired
  claims, which is the only change of the database.
\<close>

theorem parallel_batch_is_disjoint_and_maximal:
  assumes "selectParallelBatch render ck p limit d = Inr (d', batch)"
  shows "(\<exists>r. recoverExpiredClaims render ck None d = Inr (d', r))
    \<and> int (length batch) \<le> max limit 0 \<and> sorted_wrt disjoint_tasks batch
    \<and> subseq (map pt_id batch) (map t_id (queued_tasks d' p))
    \<and> (\<forall>b \<in> set batch. \<exists>t \<in> set (queued_tasks d' p). t_id t = pt_id b \<and> batchable t (pt_paths b))
    \<and> (\<forall>t \<in> set (queued_tasks d' p). \<forall>ps. batchable t ps \<longrightarrow> int (length batch) < limit \<longrightarrow>
           (\<exists>b \<in> set batch. pt_id b = t_id t \<or> pathsOverlap (pt_paths b) ps))"
proof -
  obtain r where r: "recoverExpiredClaims render ck None d = Inr (d', r)"
    and b: "pick_batch limit [] (queued_tasks d' p) = Inr batch"
    using assms by (auto simp: selectParallelBatch_def rbind_eq_Inr)
  have "int (length batch) \<le> max limit 0" "sorted_wrt disjoint_tasks batch"
    using pick_batch_length [OF b] pick_batch_disjoint [OF b] by simp_all
  moreover have "subseq (map pt_id batch) (map t_id (queued_tasks d' p))"
    "\<forall>b \<in> set batch. \<exists>t \<in> set (queued_tasks d' p). t_id t = pt_id b \<and> batchable t (pt_paths b)"
    using pick_batch_rows [OF b] by auto
  moreover have "\<forall>t \<in> set (queued_tasks d' p). \<forall>ps. batchable t ps \<longrightarrow> int (length batch) < limit \<longrightarrow>
      (\<exists>b \<in> set batch. pt_id b = t_id t \<or> pathsOverlap (pt_paths b) ps)"
    using pick_batch_maximal [OF b] by force
  ultimately show ?thesis using r by blast
qed

definition demo_row :: "string \<Rightarrow> instant \<Rightarrow> string list option \<Rightarrow> task_row" where
  "demo_row i born paths = (sample_task i St_queued)\<lparr>t_paths := paths, t_createdAt := born\<rparr>"

definition demo_queue :: db where
  "demo_queue = empty_db\<lparr>tasks := [demo_row ''a'' 1 (Some [''src/*'']), demo_row ''b'' 2 (Some [''src/a.ts'']),
     demo_row ''c'' 3 None, demo_row ''d'' 4 (Some [''docs/'', ''test/''])]\<rparr>"

definition demo_selection :: "string \<Rightarrow> (db \<times> parallel_task list) outcome" where
  "demo_selection p = selectParallelBatch (\<lambda>n. []) sample_clock p 5 demo_queue"

theorem parallel_batch_is_disjoint_and_maximal_witness:
  "\<exists>d' batch. demo_selection ''p'' = Inr (d', batch) \<and> map pt_id batch = [''a'', ''d'']
     \<and> sorted_wrt disjoint_tasks batch"
proof -
  have "case demo_selection ''p'' of Inr (d', batch) \<Rightarrow> map pt_id batch = [''a'', ''d''] | _ \<Rightarrow> False"
    by code_simp
  then obtain d' batch where b: "demo_selection ''p'' = Inr (d', batch)" "map pt_id batch = [''a'', ''d'']"
    by (auto split: sum.splits prod.splits)
  then show ?thesis using parallel_batch_is_disjoint_and_maximal [OF b(1) [unfolded demo_selection_def]] b
    by (intro exI conjI) blast+
qed


lemma demo_prefixes: "literal_prefixes demo_env"
proof -
  have "prefix (takeWhile (\<lambda>c. \<not> wildcard c) ''src/*'') x" if "take 4 x = ''src/''" for x
    using take_is_prefix [of 4 x] that by (simp add: wildcard_def)
  then show ?thesis
    by (auto simp: literal_prefixes_def demo_env_def intro: takeWhile_is_prefix)
qed


text \<open>Extended globs escape the prefix rule: the two declarations can name the same file.\<close>

lemma extended_glob_is_missed:
  "\<not> pathsOverlap [''src/@(a|b).ts''] [''src/a.ts'']"
  by code_simp

section \<open>The database\<close>

text \<open>
  C32. However the tasks of a batch interleave with each other and with the rest of the program,
  the database only changes by steps of the services: from a reachable database every database
  during the batch is reachable, and so is the one that promoteNextLandedTask leaves. All
  invariants of the services hold throughout parallel dispatch.
\<close>

theorem parallel_dispatch_refines_services:
  assumes "polite e" and "(batch_step e inp)\<^sup>*\<^sup>* (batch_start w ts) s"
  shows "service_step\<^sup>*\<^sup>* (pw_db w) (pw_db (bs_world s))
    \<and> (\<forall>ck p d' r. promoteNextLandedTask ck p (pw_db (bs_world s)) = Inr (d', r) \<longrightarrow> service_step\<^sup>*\<^sup>* (pw_db w) d')
    \<and> (reachable_db (pw_db w) \<longrightarrow> reachable_db (pw_db (bs_world s)))"
proof -
  have run: "service_step\<^sup>*\<^sup>* (pw_db w) (pw_db (bs_world s))"
    using batch_run_services [OF assms(2,1)] by (simp add: batch_start_def)
  have "service_step\<^sup>*\<^sup>* (pw_db w) d'" if "promoteNextLandedTask ck p (pw_db (bs_world s)) = Inr (d', r)" for ck p d' r
    using run promote_services [OF that] by (rule rtranclp_trans)
  then show ?thesis using run reachable_db_run [OF run] by blast
qed

definition demo_world :: "db \<Rightarrow> command_log parallel_world" where
  "demo_world d = \<lparr>pw_db = d, pw_worktrees = [], pw_repo = [], pw_tick = 0\<rparr>"

definition demo_batch :: "db \<Rightarrow> command_log batch_state" where
  "demo_batch d = batch_start (demo_world d) [demo_parallel]"

theorem parallel_dispatch_refines_services_witness:
  "\<exists>d s. reachable_db d \<and> (batch_step demo_env demo_input)\<^sup>*\<^sup>* (demo_batch d) s
     \<and> remaining s < 4 \<and> reachable_db (pw_db (bs_world s))"
proof -
  obtain d where d: "reachable_db d" by (rule demo_run)
  have inv: "batch_inv [demo_parallel] (demo_batch d)" unfolding demo_batch_def by (rule batch_start_inv)
  have may: "may_advance (demo_batch d) 0" by (simp add: may_advance_def demo_batch_def batch_start_def)
  let ?s = "advance_task demo_env demo_input 0 (demo_batch d)"
  have "remaining (demo_batch d) = 4" by (simp add: remaining_def demo_batch_def batch_start_def)
  moreover have "remaining ?s < remaining (demo_batch d)"
    by (rule advance_remaining [OF inv may]) (simp add: demo_batch_def batch_start_def)
  moreover have run: "(batch_step demo_env demo_input)\<^sup>*\<^sup>* (demo_batch d) ?s"
    using task_advances [OF may] by (rule r_into_rtranclp)
  moreover have "reachable_db (pw_db (bs_world ?s))"
    using parallel_dispatch_refines_services [OF demo_polite run [unfolded demo_batch_def]] d
    by (simp add: demo_world_def demo_batch_def)
  ultimately show ?thesis using d by auto
qed

section \<open>What is run, and in the end\<close>

text \<open>Finished: the i-th phase is a result of the i-th task.\<close>

fun has_result :: "parallel_task \<Rightarrow> task_phase \<Rightarrow> bool" where
  "has_result t (Ph_done u r) = (u = t \<and> pr_taskId r = pt_id t \<and> pr_integratorRuns r \<le> 1)"
| "has_result t ph = False"

definition batch_results :: "parallel_task list \<Rightarrow> 'g batch_state \<Rightarrow> bool" where
  "batch_results ts s \<longleftrightarrow> list_all2 has_result ts (bs_phases s)"

lemma has_result_iff: "has_result t ph \<longleftrightarrow> phase_rank ph = 0 \<and> phase_task ph = t \<and> phase_ok ph"
  by (cases ph) auto

lemma remaining_zero:
  assumes "batch_inv ts s" shows "remaining s = 0 \<longleftrightarrow> batch_results ts s"
proof -
  have ts: "ts = map phase_task (bs_phases s)" and ok: "list_all phase_ok (bs_phases s)"
    using assms by (simp_all add: batch_inv_def)
  have "batch_results ts s \<longleftrightarrow> (\<forall>ph \<in> set (bs_phases s). phase_rank ph = 0)"
    unfolding batch_results_def ts
    using ok by (auto simp: list_all2_conv_all_nth has_result_iff list_all_length all_set_conv_all_nth)
  then show ?thesis by (simp add: remaining_def)
qed

lemma batch_finishes:
  assumes "batch_inv ts s"
  shows "\<exists>s'. (batch_step e inp)\<^sup>*\<^sup>* s s' \<and> batch_results ts s'"
  using assms
proof (induction "remaining s" arbitrary: s rule: less_induct)
  case less
  show ?case
  proof (cases "batch_results ts s")
    case True
    then show ?thesis by blast
  next
    case False
    then have "remaining s \<noteq> 0" using remaining_zero [OF less.prems] by simp
    then obtain ph where "ph \<in> set (bs_phases s)" "phase_rank ph \<noteq> 0" by (auto simp: remaining_def)
    then obtain i where i: "may_advance s i" "phase_rank (bs_phases s ! i) \<noteq> 0"
      using someone_advances [OF less.prems] by blast
    let ?t = "advance_task e inp i s"
    have "remaining ?t < remaining s" "batch_inv ts ?t"
      by (rule advance_remaining [OF less.prems i], rule advance_inv [OF less.prems i(1)])
    then obtain s' where "(batch_step e inp)\<^sup>*\<^sup>* ?t s'" "batch_results ts s'"
      using less.hyps [of ?t] by blast
    then show ?thesis using task_advances [OF i(1), of e inp] by (meson converse_rtranclp_into_rtranclp)
  qed
qed

lemma rank_bound: "phase_rank ph \<le> 4"
  by (cases ph) auto

lemma ranks_bound: "sum_list (map phase_rank phs) \<le> 4 * length phs"
proof (induction phs)
  case (Cons ph phs)
  then show ?case using rank_bound [of ph] by simp
qed simp

lemma remaining_start:
  assumes "batch_inv ts s" shows "remaining s \<le> 4 * length ts"
proof -
  have "map phase_task (bs_phases s) = ts" using assms unfolding batch_inv_def by (elim conjE)
  then have "length (bs_phases s) = length ts" by (metis length_map)
  then show ?thesis using ranks_bound [of "bs_phases s"] by (simp add: remaining_def)
qed



text \<open>
  C33. Nothing is forced in the goal checkout: a property of the repository survives the whole
  batch whenever it survives work inside the worktrees and, in the goal checkout, reading the
  head, adding and removing worktrees below the root, deleting branches under \<^verbatim>\<open>major/\<close> and
  fast-forwarding to one. No other command is run outside the worktrees: no reset, no push, no
  forced merge, no checkout.
\<close>

theorem nothing_is_forced:
  assumes "harmless e inp Q" and "Q (pw_repo w)" and "(batch_step e inp)\<^sup>*\<^sup>* (batch_start w ts) s"
  shows "Q (pw_repo (bs_world s))"
proof -
  have "frame_inv Q inp (batch_start w ts)"
    using assms(2) by (simp add: frame_inv_def batch_start_def list_all_iff)
  then show ?thesis using batch_run_frame [OF assms(3,1)] by (simp add: frame_inv_def)
qed

definition only_permitted :: "command_log \<Rightarrow> bool" where
  "only_permitted g \<longleftrightarrow> list_all (\<lambda>(x, args, cwd). permitted demo_input x args cwd) g"

theorem nothing_is_forced_witness:
  "\<exists>s. (batch_step demo_env demo_input)\<^sup>*\<^sup>* (demo_batch demo_queue) s
     \<and> batch_results [demo_parallel] s \<and> only_permitted (pw_repo (bs_world s))"
proof -
  obtain s where s: "(batch_step demo_env demo_input)\<^sup>*\<^sup>* (demo_batch demo_queue) s" "batch_results [demo_parallel] s"
    unfolding demo_batch_def using batch_finishes [OF batch_start_inv] by blast
  have "harmless demo_env demo_input only_permitted"
    by (simp add: harmless_def only_permitted_def demo_env_def)
  then have "only_permitted (pw_repo (bs_world s))"
    by (rule nothing_is_forced) (use s(1) in \<open>simp_all add: demo_batch_def demo_world_def only_permitted_def\<close>)
  then show ?thesis using s by blast
qed

section \<open>A landing\<close>


definition demo_provider :: provider_row where
  "demo_provider = \<lparr>ap_id = ''pv'', ap_name = ''codex'', ap_accountLabel = ''default'', ap_executable = None,
     ap_version = None, ap_credentialFingerprint = None, ap_lastDiscoveredAt = None, ap_createdAt = 1, ap_updatedAt = 1\<rparr>"

definition demo_model :: model_row where
  "demo_model = \<lparr>am_id = ''md'', am_providerId = ''pv'', am_modelRef = ''m'', am_routingClass = Cls_codex,
     am_visible = True, am_authenticated = True, am_availability = Av_available,
     am_billingMode = Bill_subscription_included, am_prohibited = False, am_prohibitedReason = None,
     am_lastProbedAt = None, am_nextProbeAt = None, am_createdAt = 1, am_updatedAt = 1\<rparr>"

definition demo_with_models :: "db \<Rightarrow> db" where
  "demo_with_models d = d\<lparr>agentProviders := [demo_provider], agentModels := [demo_model]\<rparr>"

definition demo_fence :: batch_fence where
  "demo_fence = \<lparr>bf_claimId = ''tclm_2'', bf_workerId = ''w''\<rparr>"

definition demo_tree :: tree where
  "demo_tree = \<lparr>tr_id = ''wt'', tr_path = ''/w/1-task_1'', tr_branch = ''major/1-task_1''\<rparr>"

definition demo_landed :: "db \<Rightarrow> command_log parallel_world \<times> (string, parallel_result) result" where
  "demo_landed d = land demo_env demo_input demo_parallel demo_tree sample_head demo_fence demo_outcome
     (demo_world (demo_with_models d))"

lemma clip_code [code]:
  "clip s = (if 20000 < int (length s) then take DIFF_LIMIT s @ [CHR 0x0A] @ ''[truncated]'' else s)"
  by (simp add: clip_def DIFF_LIMIT_def)

lemma demo_landing:
  "case rbind demo_draft demo_claimed of Inl _ \<Rightarrow> False | Inr d \<Rightarrow>
     (case demo_landed d of (w, Inr r) \<Rightarrow> pr_outcome r = Po_merged | (w, Inl x) \<Rightarrow> False)"
  by code_simp


section \<open>Into the completion gate\<close>

definition gate_ids :: "db \<Rightarrow> string \<Rightarrow> string set" where
  "gate_ids d p = t_id ` set (in_gate d p)"

definition proven_landed :: "db \<Rightarrow> task_row \<Rightarrow> bool" where
  "proven_landed d t \<longleftrightarrow> (\<exists>c. parseCompletionCriteria (t_completionCriteriaSnapshotJson t) = Inr c
     \<and> proof_ok (evaluateCompletionProof False d (t_id t) c))"

text \<open>
  C37. One task of a project is in the completion gate at a time: promoteNextLandedTask promotes
  only when no task of the project is reviewing or ready to merge, and then the oldest landed
  task, whose completion proof passes; afterwards it is the only one in the gate. When it
  promotes nothing the gate is as it was.
\<close>

theorem one_task_in_the_gate:
  assumes "unique_by t_id (tasks d)" and "promoteNextLandedTask ck p d = Inr (d', r)"
  shows "case r of
      None \<Rightarrow> gate_ids d' p = gate_ids d p
    | Some i \<Rightarrow> gate_ids d p = {} \<and> gate_ids d' p = {i}
        \<and> (\<exists>t \<in> set (tasks d). t_id t = i \<and> t_projectId t = p \<and> t_status t = St_verifying \<and> proven_landed d t
             \<and> (\<forall>u \<in> set (tasks d). t_projectId u = p \<and> t_status u = St_verifying \<longrightarrow> t_createdAt t \<le> t_createdAt u))"
proof -
  consider (same) "r = None" "d' = d"
    | (moved) t ts where "in_gate d p = []" "landed_tasks d p = t # ts"
    using assms(2) by (auto simp: promoteNextLandedTask_def split: if_splits list.splits)
  then show ?thesis
  proof cases
    case same
    then show ?thesis by simp
  next
    case moved
    note old = oldest_landed [OF moved(2)]
    have empty: "\<not> (t_projectId u = p \<and> t_status u \<in> {St_reviewing, St_ready_to_merge})" if "u \<in> set (tasks d)" for u
      using moved(1) that by (auto simp: in_gate_def filter_empty_conv)
    obtain c where c: "parseCompletionCriteria (t_completionCriteriaSnapshotJson t) = Inr c"
      using assms(2) moved by (auto simp: promoteNextLandedTask_def rbind_eq_Inr)
    show ?thesis
    proof (cases "proof_ok (evaluateCompletionProof False d (t_id t) c)")
      case False
      then obtain t' where r: "r = None" and ap: "applyTransition ck (t_id t) St_needs_decision None d = Inr (d', t')"
        using assms(2) moved c by (auto simp: promoteNextLandedTask_def rbind_eq_Inr)
      note mv = moved_tasks [OF assms(1) ap]
      have "gate_ids d' p = {}" using mv(1,3) empty by (force simp: gate_ids_def in_gate_def)
      then show ?thesis using r moved(1) by (simp add: gate_ids_def)
    next
      case True
      then obtain d1 t1 t2 where r: "r = Some (t_id t)"
        and a1: "applyTransition ck (t_id t) St_reviewing None d = Inr (d1, t1)"
        and a2: "applyTransition ck (t_id t) St_ready_to_merge None d1 = Inr (d', t2)"
        using assms(2) moved c by (auto simp: promoteNextLandedTask_def rbind_eq_Inr)
      note m1 = moved_tasks [OF assms(1) a1] and m2 = moved_tasks [OF moved_tasks(4) [OF assms(1) a1] a2]
      have "t_projectId t1 = p" using m1(5) [OF old(1) refl] old(2) by simp
      then have t2: "t_projectId t2 = p" using m2(5) [of t1] m1(1,2) by simp
      have "u \<in> set (in_gate d' p) \<longleftrightarrow> u = t2" for u
        using m1(1,2) m2(1,3) t2 empty by (auto simp: in_gate_def)
      then have "gate_ids d' p = {t_id t}" using m2(2) by (auto simp: gate_ids_def)
      then show ?thesis using r moved(1) old True c by (auto simp: gate_ids_def proven_landed_def)
    qed
  qed
qed

definition demo_landed_db :: db where
  "demo_landed_db = sample_db\<lparr>tasks := [(sample_task ''t'' St_verifying)\<lparr>t_createdAt := 3\<rparr>,
     (sample_task ''u'' St_verifying)\<lparr>t_createdAt := 5\<rparr>]\<rparr>"

theorem one_task_in_the_gate_witness:
  "\<exists>d'. promoteNextLandedTask sample_clock ''p'' demo_landed_db = Inr (d', Some ''t'') \<and> gate_ids d' ''p'' = {''t''}"
proof -
  have "case promoteNextLandedTask sample_clock ''p'' demo_landed_db of Inr (d', Some i) \<Rightarrow> i = ''t'' | _ \<Rightarrow> False"
    by code_simp
  then obtain d' where d: "promoteNextLandedTask sample_clock ''p'' demo_landed_db = Inr (d', Some ''t'')"
    by (auto split: sum.splits prod.splits option.splits)
  have "unique_by t_id (tasks demo_landed_db)" by code_simp
  from one_task_in_the_gate [OF this d] d show ?thesis by auto
qed

end
