(* ===== verification/Spec2Isabelle.thy ===== *)
theory Spec2Isabelle
  imports Service_System Goal_Cycle_Safety Router Lease_Safety Policy_Safety Goal_Safety Coordinator_Safety Report_Safety Smart_Routing Roadmap_Safety Parallel_Runs
begin

text \<open>
  A verification development of the core of Major, a supervisor that queues development
  tasks, lets worker agents claim them, routes each run to a model of a subscription and
  accepts a task as completed only against stored proof. The program is the TypeScript under
  src/src; its state is an SQLite database whose schema is src/src/db/schema.ts and whose
  write boundary (keys, checks and triggers) is in the migrations under src/drizzle.

  \<^bold>\<open>The parts and the theories that model them.\<close>

  \<^item> \<open>Major_Prelude\<close>: results of functions that throw (\<open>Inl\<close> the error, \<open>Inr\<close> the value), the
    JavaScript string operations in use, tables as lists of rows in insertion order.
  \<^item> \<open>Lifecycle\<close> (domain/lifecycle.ts): statuses, transition table, the guard
    \<open>validateTransition\<close>, and the lifecycle as the step relation \<open>task_step\<close>.
  \<^item> \<open>Capabilities\<close> (security/capabilities.ts): the compiled-in capability gates.
  \<^item> \<open>Sdlc\<close> (domain/sdlc.ts): ceremony, review dispositions, progressive validation, promotion
    and delivery assessment.
  \<^item> \<open>Schema\<close> (db/schema.ts, domain/ids.ts): one record per table, the enumerations, the
    database \<open>db\<close> and JSON documents; \<open>Store\<close>: every insert and update the services make, with
    the constraints and triggers it passes.
  \<^item> \<open>Completion\<close> (domain/completion.ts): the criteria schema as a decoder, the completion
    proof over the database, the promotion proof.
  \<^item> \<open>Decision_Service\<close> (domain/decision-service.ts): decisions, their expiry, one-time
    resolution and consumption.
  \<^item> \<open>Keyed_Store\<close>: the locale \<open>keyed_cas\<close>, the contract of a compare-and-swap on one row,
    interpreted for the tasks, claims, suggestions and runs of the store; the services use
    the facts of the interpretations.
  \<^item> \<open>Task_Service\<close>, \<open>Claim_Service\<close>, \<open>Run_Service\<close> (domain/task-service.ts, claim-service.ts,
    run-service.ts, with the usage normalisation of providers/evidence.ts): every exported
    function, each transaction as a function on the database that returns a new database or
    an error (an error discards the whole transaction).
  \<^item> \<open>Transition_System\<close>: the locale \<open>invariant_system\<close> (start states, steps, an invariant, a
    preorder on states), with interpretations for the services, the lease store and the goal
    store; \<open>Service_System\<close>: one step per mutating operation of the services, the reachable
    databases and the invariants of all interleavings.
  \<^item> \<open>Accounts\<close> (providers/account.ts) and \<open>Router\<close> (routing/router.ts,
    routing/subscription-accounts.ts): capacity keys, the model ladder, account rotation and
    context continuity.
  \<^item> \<open>Resources\<close> (supervisor/resources.ts): limits derived from the host, leases with fencing
    tokens, the waiting queue, reclamation and promotion; \<open>Lease_Safety\<close>: what they guarantee.
  \<^item> \<open>Policy\<close> (supervisor/policy.ts, supervisor/autonomy.ts): trust levels, grades, admission and
    the kill switch; \<open>Policy_Safety\<close>: trust is earned by independent grades.
  \<^item> \<open>Regex\<close>: the JavaScript regular expressions the sources write, parsed from their text and
    matched by an executable backtracking matcher, proved equal to a reference semantics;
    \<open>Redaction\<close> (security/redact.ts): secrets in texts and under sensitive keys of documents;
    \<open>Admission\<close> (first half of supervisor/worker-report.ts): the risk assessment of a goal with
    the source's patterns, and the promotion contract it freezes.
  \<^item> \<open>Worker_Report\<close> (second half of supervisor/worker-report.ts): the lines of an output that
    carry authority, the envelope kept from a truncated output and the decoder of a report;
    \<open>Report_Safety\<close>: what a report can and cannot do.
  \<^item> \<open>Goals\<close> (supervisor/state.ts, supervisor/source-identity.ts): the goal store, ownership, live
    workers and sessions; \<open>Completion_Grade\<close>: the repository writer fence
    (supervisor/repository-writer-fence.ts), the authority commit (drizzle/0023 and 0026),
    independent grading and crash recovery; \<open>Goal_Safety\<close>: what they guarantee.
  \<^item> \<open>Discovery\<close> (providers/discovery-store.ts): the persisted accounts and models, append-only
    observations, backoff, retries and revocation; \<open>Discovery_Safety\<close>: its invariants.
  \<^item> \<open>Coordinator\<close> (supervisor/runtime.ts, routing): the selection of a coordinator and the
    routing of a goal to a persisted model; \<open>Coordinator_Safety\<close>: it composes discovery, the
    router, the project policies and the goal store.
  \<^item> \<open>Repair\<close> (intelligence/repair-gate.ts and the failure patches of supervisor/runtime.ts):
    what follows an unsuccessful cycle; \<open>Smart_Routing\<close> (intelligence/semantic-routing.ts):
    routing with the classification of a language model.
  \<^item> \<open>Goal_Cycle\<close> (supervisor/runtime.ts, recordIndependentReviewExecution of
    insights/performance-history.ts, config/project-service.ts): one cycle of a goal, from the
    recovery of a crash over dispatch, verdict and pending claim to the independent review and
    its grade, as steps on a world of state file, database and commits that keep what was
    written when a later step throws; the loop of a foreground run; \<open>Goal_Cycle_Safety\<close>: a cycle
    refines the steps of the goal store.
  \<^item> \<open>Js_Text\<close>: decimal numerals; \<open>Roadmap_Sheet\<close> (roadmap/types.ts, canonical.ts, validate.ts,
    mock-sheets.ts): the contract of a roadmap source, the locale \<open>lawful_adapter\<close> with the
    in-memory sheet as its interpretation; \<open>Roadmap\<close> (roadmap/proposal-service.ts over the
    tables and triggers of drizzle/0004, 0011 and 0012): proposals, apply and reconciliation,
    cut at the calls of the source; \<open>Roadmap_Safety\<close>: what they guarantee when workers
    interleave, die and meet edits from outside.
  \<^item> \<open>State_Result\<close>: operations that throw and keep what was written, with the locale
    \<open>kept_relation\<close>; \<open>Parallel\<close> (supervisor/parallel-dispatch.ts): the choice of a batch, one
    worktree and worker per task, the serial merge queue and the promotion into the completion
    gate; \<open>Parallel_Safety\<close> and \<open>Parallel_Runs\<close>: what parallel dispatch guarantees, with a
    concrete environment that logs its commands.

  \<^bold>\<open>How the state corresponds.\<close> A table is the list of its rows; a column is a record field
  with the name of the column after a short prefix (\<open>t_status\<close> is \<^verbatim>\<open>tasks.status\<close>). Instants are
  integers in milliseconds. Columns that hold JSON are parsed documents or unparsable texts.
  \<^verbatim>\<open>new Date()\<close> and SQLite's clock are the two fields of a \<open>clock\<close> given to each operation,
  and fresh identifiers are \<open>newId prefix uuid\<close> with the random part an argument, so every
  theorem holds for all clocks and all random parts; freshness is a hypothesis only of the
  system steps. SHA-256, payload redaction, JSON rendering and \<^verbatim>\<open>localeCompare\<close> are
  arguments, and so are the host's answers: \<^verbatim>\<open>path.resolve\<close>, \<^verbatim>\<open>gitCommonDir\<close>, the source
  identity of a repository, memory and processors, signals to processes. Files of JSON are
  the values they hold. Definitions are total functions by structural recursion; the only
  bound is on the iterations of a quantified regular expression, and \<open>rx_run_iff\<close> shows that
  the minimum plus the length of the rest of the text is always enough.

  \<^bold>\<open>What is shown.\<close> Lifecycle: what the guard accepts, the gates every completed task passed,
  which statuses are final. Completion: the proof succeeds exactly under its specification,
  with and without a progressive contract, and a required independent review has provenance.
  Services: functional correctness of transitions, claims and crash recovery with their
  frames; fencing of stale workers; authorisation of runs; one-time decisions and approvals;
  append-only histories. System: mutual exclusion, frozen criteria, suggestions that never
  materialise and monotone histories in all reachable databases. Routing: a route is usable
  and allowed, reviews are independent when they can be, rotation and session continuity
  stay inside one provider and one account, keys round-trip. Leases: the limits of the host
  are never exceeded, promotion is fair, live leases are fenced. Policies: no trust level is
  reached without its evidence. Admission: the depth of the review follows from the text, the
  operations and the policy. Goals: a goal is done only by a committed passing grade that
  rests on an independent review of the exact source; a refused grade commits nothing; a
  crash between the two writes is repaired exactly; ownership moves only from an abandoned
  worktree; the writer fence detects every other writer. Discovery: billing is never asserted
  without an observation, a backoff ends only by a due retry, which is granted once, and a
  revoked account cannot be routed. Coordinator: a pin comes first, and a goal is executed
  only on an attested, allowed and eligible model that the goal then records; a language
  model can shape the route but not widen it. Reports: only a provider's own, unambiguous and
  well formed line counts, also after truncation. Redaction: nothing under a sensitive key can
  be read off the result. Cycle: whatever the worker answers and wherever a step throws, the
  cycle is a run of the goal store, so its invariants hold; a done claim needs the promotion
  proof; foreground runs, repairs and reviews without a verdict are bounded. Roadmap: an update
  marked applied reached its source, reconciliation ends, and Done needs evidence and approval.
  Parallel dispatch: batches are disjoint and maximal, every interleaving is a run of the
  services, a landing passed the whole gate and is recorded in one transaction, nothing is
  forced in the goal checkout, every task gets a result and one task is in the gate.

  \<^bold>\<open>What is not modelled.\<close> The SQL triggers that re-check the completion proof and the JSON
  validity of columns (the services reach them only after the same checks in TypeScript);
  the timestamp \<^verbatim>\<open>checkedAt\<close> of a proof; the tables no modelled service reads; the lock files of
  the two JSON stores (an operation is atomic); the writing runtime and the command gateways
  (a cycle takes the answers of the former and of the worker as arguments: the worker and the
  reviewer may run any operations of the goal store); the call of parallel dispatch from a
  cycle, and the repository effects of other tasks in the middle of a landing (a landing is one
  step for the repository, while the database may change at each of its awaits); performance
  observations, prompts and learning steps of a cycle; the execution backends, provider
  processes, command line, servers, skill and learning subsystems, which are input and output
  around the modelled state.
\<close>

end
